(* ===== verification/Prelude.thy ===== *)
theory Prelude
  imports Complex_Main "HOL-Library.Word" "HOL-Library.Multiset" "HOL-Library.List_Lexorder"
    "HOL-Library.Char_ord"
begin

text \<open>
  Shared vocabulary of the development.
  \<^item> Go strings are byte lists (type \<open>string\<close>); \<open>strings.ToUpper\<close>, \<open>strings.ToLower\<close>,
    \<open>strings.TrimSpace\<close> and \<open>strings.Contains\<close> are modelled on ASCII, other bytes are left as they are.
  \<^item> Go's \<open>int32(x)\<close>, \<open>uint32(x)\<close> conversions are written out with their wrap-around.
  \<^item> A Go function that returns \<open>(T, error)\<close> and changes state is a program of type
    \<open>('s, 'e, 'a) prog\<close>: it maps a state to an error or a result, and the state after it.
    An error does not undo the changes made before it.
  \<^item> The database connection (\<open>src/db/db.go\<close>) is a state record \<open>dbconn\<close> that every component's
    tables extend. Each statement may fail according to a fault schedule, before or after it took
    effect, so every theorem holds for every pattern of database failures.
  \<^item> Tables are lists of rows; \<open>UPDATE\<close> and \<open>SELECT\<close> are list functions.
\<close>

named_theorems keeps_intros \<open>rules that decompose the relation between the states before and after a program\<close>
named_theorems prog_ok \<open>equivalences that take a successful run of a program apart\<close>
named_theorems prog_defs \<open>definitions of the program combinators\<close>

section \<open>Strings and integers of Go\<close>

definition to_upper_char :: "char \<Rightarrow> char" where
  "to_upper_char c = (let n = (of_char c :: nat) in if 97 \<le> n \<and> n \<le> 122 then char_of (n - 32) else c)"

definition to_lower_char :: "char \<Rightarrow> char" where
  "to_lower_char c = (let n = (of_char c :: nat) in if 65 \<le> n \<and> n \<le> 90 then char_of (n + 32) else c)"

definition ToUpper :: "string \<Rightarrow> string" where
  "ToUpper s = map to_upper_char s"

definition ToLower :: "string \<Rightarrow> string" where
  "ToLower s = map to_lower_char s"

definition is_space :: "char \<Rightarrow> bool" where
  "is_space c = (let n = (of_char c :: nat) in n = 32 \<or> (9 \<le> n \<and> n \<le> 13))"

definition TrimSpace :: "string \<Rightarrow> string" where
  "TrimSpace s = rev (dropWhile is_space (rev (dropWhile is_space s)))"

fun has_prefix :: "string \<Rightarrow> string \<Rightarrow> bool" where
  "has_prefix [] s = True"
| "has_prefix (c # cs) [] = False"
| "has_prefix (c # cs) (d # ds) = (c = d \<and> has_prefix cs ds)"

fun contains_substr :: "string \<Rightarrow> string \<Rightarrow> bool" where
  "contains_substr [] sub = has_prefix sub []"
| "contains_substr (c # cs) sub = (has_prefix sub (c # cs) \<or> contains_substr cs sub)"

definition ContainsAny :: "string \<Rightarrow> string list \<Rightarrow> bool" where
  "ContainsAny message substrings =
     (if message = [] \<or> substrings = [] then False
      else list_ex (\<lambda>sub. sub \<noteq> [] \<and> contains_substr message sub) substrings)"

definition int32 :: "int \<Rightarrow> int" where
  "int32 x = (x + 2 ^ 31) mod 2 ^ 32 - 2 ^ 31"

definition uint32 :: "int \<Rightarrow> int" where
  "uint32 x = x mod 2 ^ 32"

lemma int32_id [simp]: "- (2 ^ 31) \<le> x \<Longrightarrow> x < 2 ^ 31 \<Longrightarrow> int32 x = x"
  by (simp add: int32_def)

lemma int32_range: "- (2 ^ 31) \<le> int32 x \<and> int32 x < 2 ^ 31"
  by (simp add: int32_def)

lemma uint32_id [simp]: "0 \<le> x \<Longrightarrow> x < 2 ^ 32 \<Longrightarrow> uint32 x = x"
  by (simp add: uint32_def)

lemma to_upper_char_idem [simp]: "to_upper_char (to_upper_char c) = to_upper_char c"
proof (cases "97 \<le> (of_char c :: nat) \<and> (of_char c :: nat) \<le> 122")
  case True
  then have "(of_char (char_of ((of_char c :: nat) - 32) :: char) :: nat) = of_char c - 32"
    by (auto simp: of_char_of take_bit_eq_mod)
  with True show ?thesis
    unfolding to_upper_char_def Let_def by auto
next
  case False
  then have "to_upper_char c = c"
    by (auto simp: to_upper_char_def Let_def)
  then show ?thesis by simp
qed

lemma ToUpper_idem [simp]: "ToUpper (ToUpper s) = ToUpper s"
  by (simp add: ToUpper_def)

section \<open>Errors\<close>

text \<open>
  Go errors as values. \<open>Errorf\<close> is \<open>errors.New\<close> or \<open>fmt.Errorf\<close> without \<open>%w\<close>, \<open>Wrapf\<close> is
  \<open>fmt.Errorf\<close> with \<open>%w\<close>: the message is the format string's literal text, its arguments are left
  out. \<open>HTTPError\<close> is the status and message of a response with the error it wraps
  (\<open>src/internal/serve/httperror\<close>). The sentinels and the typed errors that \<open>errors.Is\<close> and \<open>errors.As\<close> look for are
  constructors of their own. \<open>DriverError\<close> is a failure of the database driver,
  \<open>ConstraintViolation\<close> an integrity error of the database, \<open>HorizonClientError\<close> the SDK's
  \<open>*horizonclient.Error\<close> with the problem and the parsed result codes it carries.
\<close>

record problem =
  prob_type :: string
  prob_title :: string
  prob_status :: int
  prob_detail :: string
  prob_instance :: string
  prob_extras :: "string list"

definition empty_problem :: problem where
  "empty_problem = \<lparr>prob_type = [], prob_title = [], prob_status = 0, prob_detail = [],
     prob_instance = [], prob_extras = []\<rparr>"

record result_codes =
  TransactionCode :: string
  InnerTransactionCode :: string
  OperationCodes :: "string list"

datatype sim_error_type = SimNetwork | SimTransactionInvalid | SimAuth | SimContractExecution
  | SimResource | SimUnknown

datatype go_error =
    Errorf string
  | Wrapf string go_error
  | ErrNoRows
  | DriverError
  | ConstraintViolation string
  | ErrRecordNotFound
  | ErrInsuficientChannelAccounts
  | ErrTransactionHandled
  | ErrMissingInput
  | ErrMismatchNumRowsAffected
  | TransactionExecutionError go_error
  | TransactionStatusUpdateError string string bool go_error
  | HorizonClientError problem "result_codes option"
  | HorizonErrorWrapper int problem go_error "result_codes option"
  | SimulationError sim_error_type "go_error option"
  | RPCErrorWrapper "(sim_error_type \<times> go_error option) option" go_error
  | HTTPError nat string "go_error option"
  | InformationNotFoundError go_error
  | VerificationAttemptsExceededError go_error
  | ChallengeValidationError string
  | ServiceError string string

fun unwrap :: "go_error \<Rightarrow> go_error option" where
  "unwrap (Wrapf m e) = Some e"
| "unwrap (TransactionExecutionError e) = Some e"
| "unwrap (TransactionStatusUpdateError st i r e) = Some e"
| "unwrap (HorizonErrorWrapper c p e r) = Some e"
| "unwrap (SimulationError t e) = e"
| "unwrap (RPCErrorWrapper t e) = Some e"
| "unwrap (HTTPError c m e) = e"
| "unwrap _ = None"

text \<open>\<open>errors.As\<close>: the first error of the unwrap chain that the selector accepts.\<close>

primrec error_as :: "(go_error \<Rightarrow> 'a option) \<Rightarrow> go_error \<Rightarrow> 'a option" where
  "error_as f (Errorf m) = f (Errorf m)"
| "error_as f (Wrapf m e) = (case f (Wrapf m e) of Some x \<Rightarrow> Some x | None \<Rightarrow> error_as f e)"
| "error_as f ErrNoRows = f ErrNoRows"
| "error_as f DriverError = f DriverError"
| "error_as f (ConstraintViolation c) = f (ConstraintViolation c)"
| "error_as f ErrRecordNotFound = f ErrRecordNotFound"
| "error_as f ErrInsuficientChannelAccounts = f ErrInsuficientChannelAccounts"
| "error_as f ErrTransactionHandled = f ErrTransactionHandled"
| "error_as f ErrMissingInput = f ErrMissingInput"
| "error_as f ErrMismatchNumRowsAffected = f ErrMismatchNumRowsAffected"
| "error_as f (TransactionExecutionError e) =
     (case f (TransactionExecutionError e) of Some x \<Rightarrow> Some x | None \<Rightarrow> error_as f e)"
| "error_as f (TransactionStatusUpdateError st i r e) =
     (case f (TransactionStatusUpdateError st i r e) of Some x \<Rightarrow> Some x | None \<Rightarrow> error_as f e)"
| "error_as f (HorizonClientError p r) = f (HorizonClientError p r)"
| "error_as f (HorizonErrorWrapper c p e r) =
     (case f (HorizonErrorWrapper c p e r) of Some x \<Rightarrow> Some x | None \<Rightarrow> error_as f e)"
| "error_as f (SimulationError t eo) =
     (case f (SimulationError t eo) of Some x \<Rightarrow> Some x
      | None \<Rightarrow> (case map_option (error_as f) eo of None \<Rightarrow> None | Some r \<Rightarrow> r))"
| "error_as f (RPCErrorWrapper t e) =
     (case f (RPCErrorWrapper t e) of Some x \<Rightarrow> Some x | None \<Rightarrow> error_as f e)"
| "error_as f (HTTPError c m eo) =
     (case f (HTTPError c m eo) of Some x \<Rightarrow> Some x
      | None \<Rightarrow> (case map_option (error_as f) eo of None \<Rightarrow> None | Some r \<Rightarrow> r))"
| "error_as f (InformationNotFoundError e) = f (InformationNotFoundError e)"
| "error_as f (VerificationAttemptsExceededError e) = f (VerificationAttemptsExceededError e)"
| "error_as f (ChallengeValidationError m) = f (ChallengeValidationError m)"
| "error_as f (ServiceError k m) = f (ServiceError k m)"

text \<open>\<open>errors.Is\<close> for the sentinel errors, which are compared by identity.\<close>

definition error_is :: "go_error \<Rightarrow> go_error \<Rightarrow> bool" where
  "error_is err target = (error_as (\<lambda>e. if e = target then Some () else None) err \<noteq> None)"

section \<open>Programs: state and error\<close>

type_synonym ('s, 'e, 'a) prog = "'s \<Rightarrow> ('e + 'a) \<times> 's"

definition ret :: "'a \<Rightarrow> ('s, 'e, 'a) prog" where
  [prog_defs]: "ret x = (\<lambda>s. (Inr x, s))"

definition throw :: "'e \<Rightarrow> ('s, 'e, 'a) prog" where
  [prog_defs]: "throw e = (\<lambda>s. (Inl e, s))"

definition bindE :: "('s, 'e, 'a) prog \<Rightarrow> ('a \<Rightarrow> ('s, 'e, 'b) prog) \<Rightarrow> ('s, 'e, 'b) prog" where
  [prog_defs]: "bindE m f = (\<lambda>s. case m s of (Inl e, s') \<Rightarrow> (Inl e, s') | (Inr x, s') \<Rightarrow> f x s')"

text \<open>\<open>handleE m h\<close>: run \<open>m\<close> and inspect its error, as Go's \<open>if err != nil\<close> does.\<close>

definition handleE :: "('s, 'e, 'a) prog \<Rightarrow> ('e \<Rightarrow> ('s, 'd, 'b) prog) \<Rightarrow> ('a \<Rightarrow> ('s, 'd, 'b) prog) \<Rightarrow> ('s, 'd, 'b) prog" where
  [prog_defs]: "handleE m h k = (\<lambda>s. case m s of (Inl e, s') \<Rightarrow> h e s' | (Inr x, s') \<Rightarrow> k x s')"

definition wrapE :: "string \<Rightarrow> ('s, go_error, 'a) prog \<Rightarrow> ('s, go_error, 'a) prog" where
  [prog_defs]: "wrapE msg m = handleE m (\<lambda>e. throw (Wrapf msg e)) ret"

definition getsE :: "('s \<Rightarrow> 'a) \<Rightarrow> ('s, 'e, 'a) prog" where
  [prog_defs]: "getsE f = (\<lambda>s. (Inr (f s), s))"

definition modifyE :: "('s \<Rightarrow> 's) \<Rightarrow> ('s, 'e, unit) prog" where
  [prog_defs]: "modifyE f = (\<lambda>s. (Inr (), f s))"

definition assertE :: "bool \<Rightarrow> 'e \<Rightarrow> ('s, 'e, unit) prog" where
  [prog_defs]: "assertE b e = (if b then ret () else throw e)"

fun forE :: "'a list \<Rightarrow> ('a \<Rightarrow> ('s, 'e, 'b) prog) \<Rightarrow> ('s, 'e, 'b list) prog" where
  "forE [] f = ret []"
| "forE (x # xs) f = bindE (f x) (\<lambda>y. bindE (forE xs f) (\<lambda>ys. ret (y # ys)))"

lemma bindE_ok [prog_ok]:
  "bindE m f s = (Inr y, s') \<longleftrightarrow> (\<exists>x s1. m s = (Inr x, s1) \<and> f x s1 = (Inr y, s'))"
  by (auto simp: bindE_def split: prod.splits sum.splits)

lemma ret_ok [prog_ok]: "ret x s = (Inr y, s') \<longleftrightarrow> y = x \<and> s' = s"
  by (auto simp: ret_def)

lemma throw_ok [prog_ok]: "\<not> throw e s = (Inr y, s')"
  by (simp add: throw_def)

lemma wrapE_ok [prog_ok]: "wrapE msg m s = (Inr y, s') \<longleftrightarrow> m s = (Inr y, s')"
  by (auto simp: wrapE_def handleE_def throw_def ret_def split: prod.splits sum.splits)

lemma getsE_ok [prog_ok]: "getsE f s = (Inr y, s') \<longleftrightarrow> y = f s \<and> s' = s"
  by (auto simp: getsE_def)

lemma assertE_ok [prog_ok]: "assertE b e s = (Inr y, s') \<longleftrightarrow> b \<and> s' = s"
  by (auto simp: assertE_def ret_def throw_def)

lemma bindE_cases:
  assumes "bindE m f s = (r, s')"
  obtains (err) e where "m s = (Inl e, s')" and "r = Inl e"
  | (ok) x s1 where "m s = (Inr x, s1)" and "f x s1 = (r, s')"
  using assms by (cases "m s"; cases "fst (m s)") (auto simp: bindE_def intro: that)

lemma handleE_cases:
  assumes "handleE m h k s = (r, s')"
  obtains (err) e s1 where "m s = (Inl e, s1)" and "h e s1 = (r, s')"
  | (ok) x s1 where "m s = (Inr x, s1)" and "k x s1 = (r, s')"
  using assms by (cases "m s"; cases "fst (m s)") (auto simp: handleE_def intro: that)

lemma wrapE_cases:
  assumes "wrapE msg m s = (r, s')"
  obtains (ok) x where "r = Inr x" and "m s = (Inr x, s')"
  | (err) e where "r = Inl (Wrapf msg e)" and "m s = (Inl e, s')"
  using assms unfolding wrapE_def
  by (cases "m s") (auto simp: handleE_def throw_def ret_def split: sum.splits intro: that)

section \<open>Relations between the states before and after a program\<close>

definition keeps :: "('s \<Rightarrow> 's \<Rightarrow> bool) \<Rightarrow> ('s, 'e, 'a) prog \<Rightarrow> bool" where
  "keeps R m \<longleftrightarrow> (\<forall>s. R s (snd (m s)))"

lemma keepsI: "(\<And>s r s'. m s = (r, s') \<Longrightarrow> R s s') \<Longrightarrow> keeps R m"
  by (simp add: keeps_def) (metis prod.collapse)

lemma keepsD: "keeps R m \<Longrightarrow> m s = (r, s') \<Longrightarrow> R s s'"
  by (metis keeps_def snd_conv)

text \<open>
  The interface the component proofs use: a preorder on states. A program built from steps that
  respect the preorder respects it, whatever branch it takes and whichever error it returns.
\<close>

locale state_preorder =
  fixes R :: "'s \<Rightarrow> 's \<Rightarrow> bool"
  assumes R_refl: "R s s"
    and R_trans: "R s t \<Longrightarrow> R t u \<Longrightarrow> R s u"
begin

lemma keeps_ret [keeps_intros]: "keeps R (ret x)"
  by (simp add: keeps_def ret_def R_refl)

lemma keeps_throw [keeps_intros]: "keeps R (throw e)"
  by (simp add: keeps_def throw_def R_refl)

lemma keeps_getsE [keeps_intros]: "keeps R (getsE f)"
  by (simp add: keeps_def getsE_def R_refl)

lemma keeps_assertE [keeps_intros]: "keeps R (assertE b e)"
  by (simp add: assertE_def keeps_ret keeps_throw)

lemma keeps_modifyE: "(\<And>s. R s (f s)) \<Longrightarrow> keeps R (modifyE f)"
  by (simp add: keeps_def modifyE_def)

lemma keeps_handleE [keeps_intros]:
  assumes "keeps R m" and "\<And>e. keeps R (h e)" and "\<And>x. keeps R (k x)"
  shows "keeps R (handleE m h k)"
  unfolding keeps_def
proof
  fix s
  obtain r s' where m: "m s = (r, s')" by (cases "m s")
  with assms(1) have st: "R s s'" by (rule keepsD)
  show "R s (snd (handleE m h k s))"
  proof (cases r)
    case (Inl e)
    have "R s' (snd (h e s'))" using assms(2) by (simp add: keeps_def)
    with Inl m st show ?thesis by (auto simp: handleE_def intro: R_trans)
  next
    case (Inr x)
    have "R s' (snd (k x s'))" using assms(3) by (simp add: keeps_def)
    with Inr m st show ?thesis by (auto simp: handleE_def intro: R_trans)
  qed
qed

lemma bindE_handleE: "bindE m f = handleE m throw f"
  by (auto simp: bindE_def handleE_def throw_def fun_eq_iff split: prod.splits sum.splits)

lemma keeps_bindE [keeps_intros]:
  "keeps R m \<Longrightarrow> (\<And>x. keeps R (f x)) \<Longrightarrow> keeps R (bindE m f)"
  by (simp add: bindE_handleE keeps_handleE keeps_throw)

lemma keeps_wrapE [keeps_intros]: "keeps R m \<Longrightarrow> keeps R (wrapE msg m)"
  by (simp add: wrapE_def keeps_handleE keeps_throw keeps_ret)

lemma keeps_forE [keeps_intros]: "(\<And>x. keeps R (f x)) \<Longrightarrow> keeps R (forE xs f)"
  by (induction xs) (auto intro!: keeps_bindE keeps_ret)

end

lemma keeps_if [keeps_intros]: "keeps R m \<Longrightarrow> keeps R n \<Longrightarrow> keeps R (if b then m else n)"
  by simp

lemma keeps_case_option [keeps_intros]:
  "keeps R n \<Longrightarrow> (\<And>x. keeps R (f x)) \<Longrightarrow> keeps R (case x of None \<Rightarrow> n | Some y \<Rightarrow> f y)"
  by (cases x) auto

lemma keeps_case_sum [keeps_intros]:
  "(\<And>e. keeps R (f e)) \<Longrightarrow> (\<And>y. keeps R (g y)) \<Longrightarrow> keeps R (case x of Inl e \<Rightarrow> f e | Inr y \<Rightarrow> g y)"
  by (cases x) auto

lemma keeps_case_prod [keeps_intros]:
  "(\<And>a b. keeps R (f a b)) \<Longrightarrow> keeps R (case x of (a, b) \<Rightarrow> f a b)"
  by (cases x) auto

lemma keeps_case_list [keeps_intros]:
  "keeps R n \<Longrightarrow> (\<And>y ys. keeps R (f y ys)) \<Longrightarrow> keeps R (case x of [] \<Rightarrow> n | y # ys \<Rightarrow> f y ys)"
  by (cases x) auto

lemma keeps_Let [keeps_intros]: "(\<And>x. keeps R (f x)) \<Longrightarrow> keeps R (let x = t in f x)"
  by simp

section \<open>The database connection\<close>

text \<open>
  \<open>conn_now\<close> is what \<open>NOW()\<close> and \<open>time.Now()\<close> return (nanoseconds); \<open>conn_faults\<close> is the fault
  schedule of the coming statements (an empty schedule means no more faults); \<open>conn_held\<close> are the
  keys of rows locked by other open database transactions, which \<open>SKIP LOCKED\<close> leaves out;
  \<open>conn_uuid\<close> and \<open>conn_uuid_next\<close> are the values \<open>uuid_generate_v4()\<close> will return.
\<close>

datatype fault = NoFault | FailNotApplied | FailApplied

record dbconn =
  conn_now :: int
  conn_faults :: "fault list"
  conn_held :: "string list"
  conn_uuid :: "nat \<Rightarrow> string"
  conn_uuid_next :: nat

definition db_call :: "('z dbconn_scheme, go_error, 'a) prog \<Rightarrow> ('z dbconn_scheme, go_error, 'a) prog" where
  [prog_defs]: "db_call f = (\<lambda>s. case conn_faults s of
       [] \<Rightarrow> f s
     | NoFault # fs \<Rightarrow> f (s\<lparr>conn_faults := fs\<rparr>)
     | FailNotApplied # fs \<Rightarrow> (Inl DriverError, s\<lparr>conn_faults := fs\<rparr>)
     | FailApplied # fs \<Rightarrow> (Inl DriverError, snd (f (s\<lparr>conn_faults := fs\<rparr>))))"

lemma db_call_no_faults [simp]: "conn_faults s = [] \<Longrightarrow> db_call f s = f s"
  by (simp add: db_call_def)

lemma db_call_cases:
  assumes "db_call f s = (r, s')"
  obtains (run) fs where "f (s\<lparr>conn_faults := fs\<rparr>) = (r, s')"
  | (lost) fs where "r = Inl DriverError" and "s' = s\<lparr>conn_faults := fs\<rparr>"
  | (applied) fs where "r = Inl DriverError" and "s' = snd (f (s\<lparr>conn_faults := fs\<rparr>))"
proof (cases "conn_faults s")
  case Nil
  then have "s\<lparr>conn_faults := []\<rparr> = s" by simp
  with Nil assms run show ?thesis by (metis db_call_no_faults)
next
  case (Cons x fs)
  with assms that show ?thesis by (cases x) (auto simp: db_call_def)
qed

text \<open>
  \<open>RunInTransactionWithResult\<close>: begin, run the atomic function, commit; an error of the function or
  of the commit rolls the tables back (\<open>rollback before after\<close> is the state \<open>after\<close> with the
  tables of \<open>before\<close>). A commit can fail after it took effect.
\<close>

definition RunInTransactionWithResult ::
  "('z dbconn_scheme \<Rightarrow> 'z dbconn_scheme \<Rightarrow> 'z dbconn_scheme) \<Rightarrow>
   ('z dbconn_scheme, go_error, 'a) prog \<Rightarrow> ('z dbconn_scheme, go_error, 'a) prog" where
  "RunInTransactionWithResult rollback atomicFunction = (\<lambda>s.
     case db_call (ret ()) s of
       (Inl e, s1) \<Rightarrow> (Inl (Wrapf ''creating db transaction for RunInTransactionWithResult'' e), s1)
     | (Inr _, s1) \<Rightarrow>
         (case atomicFunction s1 of
            (Inl e, s2) \<Rightarrow> (Inl (TransactionExecutionError e), rollback s1 s2)
          | (Inr x, s2) \<Rightarrow>
              (case conn_faults s2 of
                 FailNotApplied # fs \<Rightarrow>
                   (Inl (Wrapf ''committing transaction in RunInTransactionWithResult'' DriverError),
                    rollback s1 (s2\<lparr>conn_faults := fs\<rparr>))
               | FailApplied # fs \<Rightarrow>
                   (Inl (Wrapf ''committing transaction in RunInTransactionWithResult'' DriverError),
                    s2\<lparr>conn_faults := fs\<rparr>)
               | NoFault # fs \<Rightarrow> (Inr x, s2\<lparr>conn_faults := fs\<rparr>)
               | [] \<Rightarrow> (Inr x, s2))))"

definition RunInTransaction ::
  "('z dbconn_scheme \<Rightarrow> 'z dbconn_scheme \<Rightarrow> 'z dbconn_scheme) \<Rightarrow>
   ('z dbconn_scheme, go_error, unit) prog \<Rightarrow> ('z dbconn_scheme, go_error, unit) prog" where
  "RunInTransaction rollback atomicFunction = RunInTransactionWithResult rollback atomicFunction"

lemma transaction_run_cases:
  assumes "RunInTransactionWithResult rollback m s = (r, s')"
  obtains (not_begun) fs where "s' = s\<lparr>conn_faults := fs\<rparr>" and "\<exists>e. r = Inl e"
  | (rolled_back) fs gs x t where "m (s\<lparr>conn_faults := fs\<rparr>) = (x, t)"
      and "s' = rollback (s\<lparr>conn_faults := fs\<rparr>) (t\<lparr>conn_faults := gs\<rparr>)" and "\<exists>e. r = Inl e"
  | (committed) fs gs x t where "m (s\<lparr>conn_faults := fs\<rparr>) = (Inr x, t)" and "s' = t\<lparr>conn_faults := gs\<rparr>"
      and "r = Inr x \<or> (\<exists>e. r = Inl e)"
proof -
  obtain b s1 where b: "db_call (ret ()) s = (b, s1)" by fastforce
  then obtain fs where s1: "s1 = s\<lparr>conn_faults := fs\<rparr>"
    by (elim db_call_cases) (auto simp: ret_def)
  obtain x t where x: "m s1 = (x, t)" by fastforce
  have same: "t\<lparr>conn_faults := conn_faults t\<rparr> = t" by simp
  note run = assms [unfolded RunInTransactionWithResult_def]
  show ?thesis
  proof (cases b)
    case (Inl e)
    with run b s1 show ?thesis by (intro not_begun) auto
  next
    case (Inr u)
    show ?thesis
    proof (cases x)
      case (Inl e)
      with run b Inr x s1 same show ?thesis by (intro rolled_back [of fs x t "conn_faults t"]) auto
    next
      case ok: (Inr v)
      show ?thesis
      proof (cases "conn_faults t")
        case Nil
        with run b Inr x s1 ok show ?thesis by (intro committed [of fs v t "conn_faults t"]) auto
      next
        case (Cons f gs)
        with run b Inr x s1 ok show ?thesis
          by (cases f) (auto intro: committed [of fs v t gs] rolled_back [of fs x t gs])
      qed
    qed
  qed
qed

section \<open>Tables\<close>

definition sql_update :: "('r \<Rightarrow> bool) \<Rightarrow> ('r \<Rightarrow> 'r) \<Rightarrow> 'r list \<Rightarrow> 'r list" where
  "sql_update P f t = map (\<lambda>r. if P r then f r else r) t"

definition sql_order_by :: "('r \<Rightarrow> 'k::linorder) \<Rightarrow> 'r list \<Rightarrow> 'r list" where
  "sql_order_by k t = sort_key k t"

definition sql_limit :: "int \<Rightarrow> 'r list \<Rightarrow> 'r list" where
  "sql_limit n t = take (nat n) t"

lemma set_sql_order_by [simp]: "set (sql_order_by k t) = set t"
  by (simp add: sql_order_by_def)

lemma distinct_sql_order_by [simp]: "distinct (map f (sql_order_by k t)) = distinct (map f t)"
proof -
  have "mset (map f (sql_order_by k t)) = mset (map f t)"
    by (simp add: sql_order_by_def)
  then show ?thesis by (rule mset_eq_imp_distinct_iff)
qed

lemma length_sql_order_by [simp]: "length (sql_order_by k t) = length t"
  by (simp add: sql_order_by_def)

lemma sql_limit_subset: "set (sql_limit n t) \<subseteq> set t"
  by (simp add: sql_limit_def set_take_subset)

lemma length_sql_update [simp]: "length (sql_update P f t) = length t"
  by (simp add: sql_update_def)

lemma map_sql_update_key: "(\<And>r. k (f r) = k r) \<Longrightarrow> map k (sql_update P f t) = map k t"
  by (simp add: sql_update_def)

lemma filter_sql_update_other:
  "(\<And>r. P r \<Longrightarrow> \<not> Q r \<and> \<not> Q (f r)) \<Longrightarrow> filter Q (sql_update P f t) = filter Q t"
  by (induction t) (auto simp: sql_update_def)

lemma in_set_sql_update: "r' \<in> set (sql_update P f t) \<Longrightarrow> \<exists>r \<in> set t. r' = (if P r then f r else r)"
  by (auto simp: sql_update_def)

lemma sql_update_not_matching: "(\<forall>r \<in> set t. \<not> P r) \<Longrightarrow> sql_update P f t = t"
  by (induction t) (auto simp: sql_update_def)

end
