(* ===== verification/Status_Machines.thy ===== *)
theory Status_Machines
  imports Prelude
begin

text \<open>
  The generic state machine (\<open>src/internal/data/statemachine.go\<close>) and the four machines built on it:
  payments, disbursements, receiver wallets and submitter transactions. Statuses are Go string
  types, so any string can be one; the constants are definitions that stay folded in proofs, where
  the distinctness facts are enough. The locale \<open>status_machine\<close> is the contract of a machine given
  by its transition list; it is interpreted on the four machines of the code.
\<close>

section \<open>The generic machine\<close>

type_synonym State = string

record StateTransition =
  From :: State
  To :: State

record StateMachine =
  CurrentState :: State
  Transitions :: "State \<Rightarrow> (State \<Rightarrow> bool) option"

definition add_transition :: "StateMachine \<Rightarrow> StateTransition \<Rightarrow> StateMachine" where
  "add_transition sm t =
     (let inner = (case Transitions sm (From t) of None \<Rightarrow> (\<lambda>_. False) | Some m \<Rightarrow> m)
      in sm\<lparr>Transitions := (Transitions sm)(From t \<mapsto> inner(To t := True))\<rparr>)"

definition NewStateMachine :: "State \<Rightarrow> StateTransition list \<Rightarrow> StateMachine" where
  "NewStateMachine initialState transitions =
     foldl add_transition \<lparr>CurrentState = initialState, Transitions = Map.empty\<rparr> transitions"

definition StateMachine_lookup :: "StateMachine \<Rightarrow> State \<Rightarrow> State \<Rightarrow> bool" where
  "StateMachine_lookup sm a b = (case Transitions sm a of None \<Rightarrow> False | Some m \<Rightarrow> m b)"

definition StateMachine_CanTransitionTo :: "StateMachine \<Rightarrow> State \<Rightarrow> bool" where
  "StateMachine_CanTransitionTo sm targetState =
     (case Transitions sm (CurrentState sm) of None \<Rightarrow> False
      | Some m \<Rightarrow> StateMachine_lookup sm (CurrentState sm) targetState)"

definition StateMachine_TransitionTo :: "State \<Rightarrow> (StateMachine, go_error, unit) prog" where
  "StateMachine_TransitionTo targetState = (\<lambda>sm.
     if StateMachine_CanTransitionTo sm targetState
     then (Inr (), sm\<lparr>CurrentState := targetState\<rparr>)
     else (Inl (Errorf ''cannot transition from %s to %s''), sm))"

definition edge :: "State \<Rightarrow> State \<Rightarrow> StateTransition" where
  "edge a b = \<lparr>From = a, To = b\<rparr>"

section \<open>Payments\<close>

type_synonym PaymentStatus = string

definition DraftPaymentStatus :: PaymentStatus where "DraftPaymentStatus = ''DRAFT''"
definition ReadyPaymentStatus :: PaymentStatus where "ReadyPaymentStatus = ''READY''"
definition PendingPaymentStatus :: PaymentStatus where "PendingPaymentStatus = ''PENDING''"
definition PausedPaymentStatus :: PaymentStatus where "PausedPaymentStatus = ''PAUSED''"
definition SuccessPaymentStatus :: PaymentStatus where "SuccessPaymentStatus = ''SUCCESS''"
definition FailedPaymentStatus :: PaymentStatus where "FailedPaymentStatus = ''FAILED''"
definition CanceledPaymentStatus :: PaymentStatus where "CanceledPaymentStatus = ''CANCELED''"

lemmas payment_status_defs = DraftPaymentStatus_def ReadyPaymentStatus_def PendingPaymentStatus_def
  PausedPaymentStatus_def SuccessPaymentStatus_def FailedPaymentStatus_def CanceledPaymentStatus_def

definition PaymentStatuses :: "PaymentStatus list" where
  "PaymentStatuses = [DraftPaymentStatus, ReadyPaymentStatus, PendingPaymentStatus, PausedPaymentStatus,
     SuccessPaymentStatus, FailedPaymentStatus, CanceledPaymentStatus]"

definition PaymentInProgressStatuses :: "PaymentStatus list" where
  "PaymentInProgressStatuses = [ReadyPaymentStatus, PendingPaymentStatus, PausedPaymentStatus]"

definition PaymentCompletedStatuses :: "PaymentStatus list" where
  "PaymentCompletedStatuses = [SuccessPaymentStatus, CanceledPaymentStatus]"

definition PaymentActiveStatuses :: "PaymentStatus list" where
  "PaymentActiveStatuses = [ReadyPaymentStatus, PendingPaymentStatus]"

definition PaymentStatus_Validate :: "PaymentStatus \<Rightarrow> go_error + unit" where
  "PaymentStatus_Validate status =
     (let uppercaseStatus = TrimSpace (ToUpper status)
      in if uppercaseStatus \<in> set PaymentStatuses then Inr ()
         else Inl (Errorf ''invalid payment status: %s''))"

definition payment_transitions :: "StateTransition list" where
  "payment_transitions =
    [edge DraftPaymentStatus ReadyPaymentStatus,
     edge ReadyPaymentStatus PendingPaymentStatus,
     edge ReadyPaymentStatus PausedPaymentStatus,
     edge ReadyPaymentStatus CanceledPaymentStatus,
     edge ReadyPaymentStatus FailedPaymentStatus,
     edge PausedPaymentStatus ReadyPaymentStatus,
     edge PendingPaymentStatus FailedPaymentStatus,
     edge FailedPaymentStatus PendingPaymentStatus,
     edge PendingPaymentStatus SuccessPaymentStatus]"

definition PaymentStateMachineWithInitialState :: "PaymentStatus \<Rightarrow> StateMachine" where
  "PaymentStateMachineWithInitialState initialState = NewStateMachine initialState payment_transitions"

definition PaymentStatus_TransitionTo :: "PaymentStatus \<Rightarrow> PaymentStatus \<Rightarrow> go_error + unit" where
  "PaymentStatus_TransitionTo status targetState =
     fst (StateMachine_TransitionTo targetState (PaymentStateMachineWithInitialState status))"

definition PaymentStatus_SourceStatuses :: "PaymentStatus \<Rightarrow> PaymentStatus list" where
  "PaymentStatus_SourceStatuses status =
     (let stateMachine = PaymentStateMachineWithInitialState DraftPaymentStatus
      in filter (\<lambda>fromState. StateMachine_lookup stateMachine fromState status) PaymentStatuses)"

definition ToPaymentStatus :: "string \<Rightarrow> go_error + PaymentStatus" where
  "ToPaymentStatus s = (case PaymentStatus_Validate s of Inl e \<Rightarrow> Inl e | Inr _ \<Rightarrow> Inr (ToUpper s))"

section \<open>Disbursements\<close>

type_synonym DisbursementStatus = string

definition DraftDisbursementStatus :: DisbursementStatus where "DraftDisbursementStatus = ''DRAFT''"
definition ReadyDisbursementStatus :: DisbursementStatus where "ReadyDisbursementStatus = ''READY''"
definition ApprovedDisbursementStatus :: DisbursementStatus where "ApprovedDisbursementStatus = ''APPROVED''"
definition StartedDisbursementStatus :: DisbursementStatus where "StartedDisbursementStatus = ''STARTED''"
definition PausedDisbursementStatus :: DisbursementStatus where "PausedDisbursementStatus = ''PAUSED''"
definition CompletedDisbursementStatus :: DisbursementStatus where "CompletedDisbursementStatus = ''COMPLETED''"

lemmas disbursement_status_defs = DraftDisbursementStatus_def ReadyDisbursementStatus_def
  ApprovedDisbursementStatus_def StartedDisbursementStatus_def PausedDisbursementStatus_def
  CompletedDisbursementStatus_def

definition NotStartedDisbursementStatuses :: "DisbursementStatus list" where
  "NotStartedDisbursementStatuses =
     [DraftDisbursementStatus, ReadyDisbursementStatus, ApprovedDisbursementStatus]"

definition DisbursementStatuses :: "DisbursementStatus list" where
  "DisbursementStatuses = [DraftDisbursementStatus, ReadyDisbursementStatus, ApprovedDisbursementStatus,
     StartedDisbursementStatus, PausedDisbursementStatus, CompletedDisbursementStatus]"

definition disbursement_transitions :: "StateTransition list" where
  "disbursement_transitions =
    [edge DraftDisbursementStatus ReadyDisbursementStatus,
     edge ReadyDisbursementStatus ReadyDisbursementStatus,
     edge ReadyDisbursementStatus ApprovedDisbursementStatus,
     edge ReadyDisbursementStatus StartedDisbursementStatus,
     edge ReadyDisbursementStatus DraftDisbursementStatus,
     edge ApprovedDisbursementStatus ReadyDisbursementStatus,
     edge ApprovedDisbursementStatus StartedDisbursementStatus,
     edge StartedDisbursementStatus PausedDisbursementStatus,
     edge PausedDisbursementStatus StartedDisbursementStatus,
     edge StartedDisbursementStatus CompletedDisbursementStatus]"

definition DisbursementStateMachineWithInitialState :: "DisbursementStatus \<Rightarrow> StateMachine" where
  "DisbursementStateMachineWithInitialState initialState =
     NewStateMachine initialState disbursement_transitions"

definition DisbursementStatus_TransitionTo ::
  "DisbursementStatus \<Rightarrow> DisbursementStatus \<Rightarrow> go_error + unit" where
  "DisbursementStatus_TransitionTo status targetState =
     fst (StateMachine_TransitionTo targetState (DisbursementStateMachineWithInitialState status))"

definition DisbursementStatus_SourceStatuses :: "DisbursementStatus \<Rightarrow> DisbursementStatus list" where
  "DisbursementStatus_SourceStatuses status =
     (let stateMachine = DisbursementStateMachineWithInitialState DraftDisbursementStatus
      in filter (\<lambda>fromState. StateMachine_lookup stateMachine fromState status) DisbursementStatuses)"

definition DisbursementStatus_Validate :: "DisbursementStatus \<Rightarrow> go_error + unit" where
  "DisbursementStatus_Validate status =
     (if ToUpper status \<in> set DisbursementStatuses then Inr ()
      else Inl (Errorf ''invalid disbursement status: %s''))"

definition ToDisbursementStatus :: "string \<Rightarrow> go_error + DisbursementStatus" where
  "ToDisbursementStatus s =
     (case DisbursementStatus_Validate s of Inl e \<Rightarrow> Inl e | Inr _ \<Rightarrow> Inr (ToUpper s))"

section \<open>Receiver wallets\<close>

type_synonym ReceiversWalletStatus = string

definition DraftReceiversWalletStatus :: ReceiversWalletStatus where "DraftReceiversWalletStatus = ''DRAFT''"
definition ReadyReceiversWalletStatus :: ReceiversWalletStatus where "ReadyReceiversWalletStatus = ''READY''"
definition RegisteredReceiversWalletStatus :: ReceiversWalletStatus where
  "RegisteredReceiversWalletStatus = ''REGISTERED''"
definition FlaggedReceiversWalletStatus :: ReceiversWalletStatus where "FlaggedReceiversWalletStatus = ''FLAGGED''"

lemmas receivers_wallet_status_defs = DraftReceiversWalletStatus_def ReadyReceiversWalletStatus_def
  RegisteredReceiversWalletStatus_def FlaggedReceiversWalletStatus_def

definition ReceiversWalletStatuses :: "ReceiversWalletStatus list" where
  "ReceiversWalletStatuses = [DraftReceiversWalletStatus, ReadyReceiversWalletStatus,
     RegisteredReceiversWalletStatus, FlaggedReceiversWalletStatus]"

definition receivers_wallet_transitions :: "StateTransition list" where
  "receivers_wallet_transitions =
    [edge DraftReceiversWalletStatus ReadyReceiversWalletStatus,
     edge ReadyReceiversWalletStatus RegisteredReceiversWalletStatus,
     edge ReadyReceiversWalletStatus FlaggedReceiversWalletStatus,
     edge FlaggedReceiversWalletStatus ReadyReceiversWalletStatus,
     edge RegisteredReceiversWalletStatus FlaggedReceiversWalletStatus,
     edge FlaggedReceiversWalletStatus RegisteredReceiversWalletStatus]"

definition ReceiversWalletStateMachineWithInitialState :: "ReceiversWalletStatus \<Rightarrow> StateMachine" where
  "ReceiversWalletStateMachineWithInitialState initialState =
     NewStateMachine initialState receivers_wallet_transitions"

definition ReceiversWalletStatus_TransitionTo ::
  "ReceiversWalletStatus \<Rightarrow> ReceiversWalletStatus \<Rightarrow> go_error + unit" where
  "ReceiversWalletStatus_TransitionTo status targetState =
     fst (StateMachine_TransitionTo targetState (ReceiversWalletStateMachineWithInitialState status))"

definition ReceiversWalletStatus_Validate :: "ReceiversWalletStatus \<Rightarrow> go_error + unit" where
  "ReceiversWalletStatus_Validate status =
     (if ToUpper status \<in> set ReceiversWalletStatuses then Inr ()
      else Inl (Errorf ''invalid receiver wallet status %q''))"

definition ToReceiversWalletStatus :: "string \<Rightarrow> go_error + ReceiversWalletStatus" where
  "ToReceiversWalletStatus s =
     (case ReceiversWalletStatus_Validate s of
        Inl e \<Rightarrow> Inl (Wrapf ''invalid status'' e) | Inr _ \<Rightarrow> Inr (ToUpper s))"

section \<open>Submitter transactions\<close>

type_synonym TransactionStatus = string

definition TransactionStatusPending :: TransactionStatus where "TransactionStatusPending = ''PENDING''"
definition TransactionStatusProcessing :: TransactionStatus where "TransactionStatusProcessing = ''PROCESSING''"
definition TransactionStatusSuccess :: TransactionStatus where "TransactionStatusSuccess = ''SUCCESS''"
definition TransactionStatusError :: TransactionStatus where "TransactionStatusError = ''ERROR''"

lemmas transaction_status_defs = TransactionStatusPending_def TransactionStatusProcessing_def
  TransactionStatusSuccess_def TransactionStatusError_def

definition TransactionStatus_All :: "TransactionStatus list" where
  "TransactionStatus_All = [TransactionStatusPending, TransactionStatusProcessing,
     TransactionStatusSuccess, TransactionStatusError]"

definition TransactionStatus_Validate :: "TransactionStatus \<Rightarrow> go_error + unit" where
  "TransactionStatus_Validate status =
     (if status \<in> set TransactionStatus_All then Inr ()
      else Inl (Errorf ''invalid disbursement status: %s''))"

definition tss_transitions :: "StateTransition list" where
  "tss_transitions =
    [edge TransactionStatusPending TransactionStatusProcessing,
     edge TransactionStatusProcessing TransactionStatusSuccess,
     edge TransactionStatusProcessing TransactionStatusError]"

definition tssTransactionStateMachineWithInitialState :: "TransactionStatus \<Rightarrow> StateMachine" where
  "tssTransactionStateMachineWithInitialState initialState = NewStateMachine initialState tss_transitions"

definition TransactionStatus_CanTransitionTo ::
  "TransactionStatus \<Rightarrow> TransactionStatus \<Rightarrow> go_error + unit" where
  "TransactionStatus_CanTransitionTo status targetState =
     fst (StateMachine_TransitionTo targetState (tssTransactionStateMachineWithInitialState status))"

lemma transaction_status_distinct [simp]:
  "TransactionStatusPending \<noteq> TransactionStatusProcessing"
  "TransactionStatusPending \<noteq> TransactionStatusSuccess"
  "TransactionStatusPending \<noteq> TransactionStatusError"
  "TransactionStatusProcessing \<noteq> TransactionStatusPending"
  "TransactionStatusProcessing \<noteq> TransactionStatusSuccess"
  "TransactionStatusProcessing \<noteq> TransactionStatusError"
  "TransactionStatusSuccess \<noteq> TransactionStatusPending"
  "TransactionStatusSuccess \<noteq> TransactionStatusProcessing"
  "TransactionStatusSuccess \<noteq> TransactionStatusError"
  "TransactionStatusError \<noteq> TransactionStatusPending"
  "TransactionStatusError \<noteq> TransactionStatusProcessing"
  "TransactionStatusError \<noteq> TransactionStatusSuccess"
  by (simp_all add: transaction_status_defs)

lemma payment_status_distinct [simp]: "distinct PaymentStatuses"
  by (simp add: PaymentStatuses_def payment_status_defs)

section \<open>What a machine computes\<close>

definition listed :: "StateTransition list \<Rightarrow> State \<Rightarrow> State \<Rightarrow> bool" where
  "listed ts a b \<longleftrightarrow> edge a b \<in> set ts"

lemma lookup_add_transition:
  "StateMachine_lookup (add_transition sm t) a b \<longleftrightarrow> StateMachine_lookup sm a b \<or> t = edge a b"
  by (cases t) (auto simp: StateMachine_lookup_def add_transition_def edge_def Let_def split: option.splits)

lemma lookup_foldl_add_transition:
  "StateMachine_lookup (foldl add_transition sm ts) a b \<longleftrightarrow> StateMachine_lookup sm a b \<or> listed ts a b"
  by (induction ts arbitrary: sm) (auto simp: lookup_add_transition listed_def)

lemma lookup_NewStateMachine [simp]: "StateMachine_lookup (NewStateMachine s ts) a b \<longleftrightarrow> listed ts a b"
  by (simp add: NewStateMachine_def lookup_foldl_add_transition) (simp add: StateMachine_lookup_def)

lemma current_foldl_add_transition [simp]: "CurrentState (foldl add_transition sm ts) = CurrentState sm"
  by (induction ts arbitrary: sm) (auto simp: add_transition_def Let_def)

lemma current_NewStateMachine [simp]: "CurrentState (NewStateMachine s ts) = s"
  by (simp add: NewStateMachine_def)

lemma can_transition_lookup:
  "StateMachine_CanTransitionTo sm b \<longleftrightarrow> StateMachine_lookup sm (CurrentState sm) b"
  by (simp add: StateMachine_CanTransitionTo_def StateMachine_lookup_def split: option.splits)

text \<open>A machine built by \<open>NewStateMachine\<close> moves to a target exactly when the transition is in
  the list it was built from; then the target becomes the current state and the transition table
  stays. Any other target is refused with an error and leaves the machine as it was.\<close>

theorem machine_moves_along_listed_transitions:
  "StateMachine_TransitionTo targetState (NewStateMachine initialState transitions) =
     (if listed transitions initialState targetState
      then (Inr (), (NewStateMachine initialState transitions)\<lparr>CurrentState := targetState\<rparr>)
      else (Inl (Errorf ''cannot transition from %s to %s''), NewStateMachine initialState transitions))"
  by (simp add: StateMachine_TransitionTo_def can_transition_lookup)

section \<open>The contract shared by the four status machines\<close>

inductive runs :: "(State \<Rightarrow> State \<Rightarrow> go_error + unit) \<Rightarrow> State \<Rightarrow> State list \<Rightarrow> State \<Rightarrow> bool"
  for step where
  runs_nil: "runs step a [] a"
| runs_cons: "step a b = Inr () \<Longrightarrow> runs step b bs c \<Longrightarrow> runs step a (b # bs) c"

inductive_cases runs_nilE: "runs step a [] c"
inductive_cases runs_consE: "runs step a (b # bs) c"

locale status_machine =
  fixes transition :: "State \<Rightarrow> State \<Rightarrow> go_error + unit"
    and table :: "StateTransition list"
  assumes transition_machine:
    "transition a b = fst (StateMachine_TransitionTo b (NewStateMachine a table))"
begin

lemma transition_iff: "transition a b = Inr () \<longleftrightarrow> listed table a b"
  by (simp add: transition_machine StateMachine_TransitionTo_def can_transition_lookup)

lemma transition_error: "transition a b \<noteq> Inr () \<Longrightarrow> transition a b = Inl (Errorf ''cannot transition from %s to %s'')"
  by (simp add: transition_machine StateMachine_TransitionTo_def can_transition_lookup split: if_splits)

lemma last_step: "runs transition a path c \<Longrightarrow> path \<noteq> [] \<Longrightarrow>
    \<exists>p. p \<in> set (a # butlast path) \<and> listed table p c"
proof (induction rule: runs.induct)
  case (runs_cons a b bs c)
  then show ?case
    by (cases bs) (auto simp: transition_iff elim: runs_nilE)
qed simp

text \<open>A closed set of statuses: once in it, no run leaves it.\<close>

lemma runs_closed:
  assumes "runs transition a path c" and "a \<in> S" and "\<And>p q. p \<in> S \<Longrightarrow> listed table p q \<Longrightarrow> q \<in> S"
  shows "c \<in> S"
  using assms by (induction rule: runs.induct) (auto simp: transition_iff)

end

interpretation payment: status_machine PaymentStatus_TransitionTo payment_transitions
  by unfold_locales (simp add: PaymentStatus_TransitionTo_def PaymentStateMachineWithInitialState_def)

interpretation disbursement: status_machine DisbursementStatus_TransitionTo disbursement_transitions
  by unfold_locales (simp add: DisbursementStatus_TransitionTo_def DisbursementStateMachineWithInitialState_def)

interpretation receivers_wallet: status_machine ReceiversWalletStatus_TransitionTo receivers_wallet_transitions
  by unfold_locales (simp add: ReceiversWalletStatus_TransitionTo_def ReceiversWalletStateMachineWithInitialState_def)

interpretation tss: status_machine TransactionStatus_CanTransitionTo tss_transitions
  by unfold_locales (simp add: TransactionStatus_CanTransitionTo_def tssTransactionStateMachineWithInitialState_def)


lemma payment_listed:
  "listed payment_transitions a b \<longleftrightarrow>
     (a, b) \<in> {(DraftPaymentStatus, ReadyPaymentStatus), (ReadyPaymentStatus, PendingPaymentStatus),
       (ReadyPaymentStatus, PausedPaymentStatus), (ReadyPaymentStatus, CanceledPaymentStatus),
       (ReadyPaymentStatus, FailedPaymentStatus), (PausedPaymentStatus, ReadyPaymentStatus),
       (PendingPaymentStatus, FailedPaymentStatus), (FailedPaymentStatus, PendingPaymentStatus),
       (PendingPaymentStatus, SuccessPaymentStatus)}"
  by (auto simp: listed_def payment_transitions_def edge_def)

lemma disbursement_listed:
  "listed disbursement_transitions a b \<longleftrightarrow>
     (a, b) \<in> {(DraftDisbursementStatus, ReadyDisbursementStatus), (ReadyDisbursementStatus, ReadyDisbursementStatus),
       (ReadyDisbursementStatus, ApprovedDisbursementStatus), (ReadyDisbursementStatus, StartedDisbursementStatus),
       (ReadyDisbursementStatus, DraftDisbursementStatus), (ApprovedDisbursementStatus, ReadyDisbursementStatus),
       (ApprovedDisbursementStatus, StartedDisbursementStatus), (StartedDisbursementStatus, PausedDisbursementStatus),
       (PausedDisbursementStatus, StartedDisbursementStatus), (StartedDisbursementStatus, CompletedDisbursementStatus)}"
  by (auto simp: listed_def disbursement_transitions_def edge_def)

lemma tss_listed:
  "listed tss_transitions a b \<longleftrightarrow>
     (a = TransactionStatusPending \<and> b = TransactionStatusProcessing) \<or>
     (a = TransactionStatusProcessing \<and> b = TransactionStatusSuccess) \<or>
     (a = TransactionStatusProcessing \<and> b = TransactionStatusError)"
  by (auto simp: listed_def tss_transitions_def edge_def)

lemma tss_transition_iff:
  "TransactionStatus_CanTransitionTo a b = Inr () \<longleftrightarrow>
     (a = TransactionStatusPending \<and> b = TransactionStatusProcessing) \<or>
     (a = TransactionStatusProcessing \<and> b \<in> {TransactionStatusSuccess, TransactionStatusError})"
  by (auto simp: tss.transition_iff tss_listed)

lemma source_statuses_iff:
  "set (PaymentStatus_SourceStatuses p) = {a. PaymentStatus_TransitionTo a p = Inr ()} \<and>
   set (DisbursementStatus_SourceStatuses d) = {a. DisbursementStatus_TransitionTo a d = Inr ()}"
proof -
  have "a \<in> set PaymentStatuses" if "listed payment_transitions a b" for a b
    using that by (auto simp: payment_listed PaymentStatuses_def)
  moreover have "a \<in> set DisbursementStatuses" if "listed disbursement_transitions a b" for a b
    using that by (auto simp: disbursement_listed DisbursementStatuses_def)
  ultimately show ?thesis
    by (auto simp: PaymentStatus_SourceStatuses_def DisbursementStatus_SourceStatuses_def
        PaymentStateMachineWithInitialState_def DisbursementStateMachineWithInitialState_def
        payment.transition_iff disbursement.transition_iff)
qed

text \<open>C38: the source statuses computed for a payment or disbursement target status are exactly the
  statuses the machine accepts that target from, for every string the callers may pass.\<close>

theorem source_statuses_exact:
  "set (PaymentStatus_SourceStatuses p) = {a. PaymentStatus_TransitionTo a p = Inr ()} \<and>
   set (DisbursementStatus_SourceStatuses d) = {a. DisbursementStatus_TransitionTo a d = Inr ()}"
  by (rule source_statuses_iff)

lemma payment_before_success:
  assumes "runs PaymentStatus_TransitionTo a path SuccessPaymentStatus" and "a \<noteq> SuccessPaymentStatus"
  shows "PendingPaymentStatus \<in> set (a # path)"
proof -
  have "path \<noteq> []" using assms by (auto elim: runs_nilE)
  from payment.last_step [OF assms(1) this] obtain p
    where "p \<in> set (a # butlast path)" and "listed payment_transitions p SuccessPaymentStatus" by blast
  then have "p = PendingPaymentStatus"
    by (auto simp: payment_listed payment_status_defs)
  with \<open>p \<in> set (a # butlast path)\<close> show ?thesis
    by (auto dest: in_set_butlastD)
qed

lemma payment_first_step:
  assumes "runs PaymentStatus_TransitionTo DraftPaymentStatus path c" and "path \<noteq> []"
  shows "hd path = ReadyPaymentStatus"
  using assms by (cases rule: runs.cases) (auto simp: payment.transition_iff payment_listed payment_status_defs)

text \<open>C39: along the payment machine, a payment that starts as a draft and ends in \<open>SUCCESS\<close> was made
  ready first and was pending; a payment in \<open>SUCCESS\<close> or \<open>CANCELED\<close> (the completed statuses) never
  changes again.\<close>

theorem payment_success_path:
  "(runs PaymentStatus_TransitionTo DraftPaymentStatus path SuccessPaymentStatus \<longrightarrow>
      hd path = ReadyPaymentStatus \<and> PendingPaymentStatus \<in> set path) \<and>
   (a \<in> set PaymentCompletedStatuses \<and> runs PaymentStatus_TransitionTo a path2 c \<longrightarrow> path2 = [] \<and> c = a)"
proof (intro conjI impI)
  assume run: "runs PaymentStatus_TransitionTo DraftPaymentStatus path SuccessPaymentStatus"
  have draft: "DraftPaymentStatus \<noteq> SuccessPaymentStatus" "DraftPaymentStatus \<noteq> PendingPaymentStatus"
    by (simp_all add: payment_status_defs)
  with run have "path \<noteq> []" by (auto elim: runs_nilE)
  with run show "hd path = ReadyPaymentStatus" by (rule payment_first_step)
  from payment_before_success [OF run draft(1)] draft(2)
  show "PendingPaymentStatus \<in> set path" by simp
next
  assume *: "a \<in> set PaymentCompletedStatuses \<and> runs PaymentStatus_TransitionTo a path2 c"
  then show "path2 = []"
    by (cases path2) (auto elim!: runs_consE
      simp: payment.transition_iff payment_listed PaymentCompletedStatuses_def payment_status_defs)
  with * show "c = a" by (auto elim: runs_nilE)
qed

theorem payment_success_path_witness:
  "hd [ReadyPaymentStatus, PendingPaymentStatus, SuccessPaymentStatus] = ReadyPaymentStatus \<and>
   PendingPaymentStatus \<in> set [ReadyPaymentStatus, PendingPaymentStatus, SuccessPaymentStatus] \<and>
   runs PaymentStatus_TransitionTo SuccessPaymentStatus [] SuccessPaymentStatus"
proof -
  have "runs PaymentStatus_TransitionTo DraftPaymentStatus
      [ReadyPaymentStatus, PendingPaymentStatus, SuccessPaymentStatus] SuccessPaymentStatus"
    by (intro runs.intros) (simp_all add: payment.transition_iff payment_listed)
  moreover have "runs PaymentStatus_TransitionTo SuccessPaymentStatus [] SuccessPaymentStatus"
    by (rule runs_nil)
  moreover have "SuccessPaymentStatus \<in> set PaymentCompletedStatuses"
    by (simp add: PaymentCompletedStatuses_def)
  ultimately show ?thesis
    using payment_success_path [of "[ReadyPaymentStatus, PendingPaymentStatus, SuccessPaymentStatus]"
        SuccessPaymentStatus "[]" SuccessPaymentStatus] by blast
qed

text \<open>Parsing a disbursement or receiver wallet status upper-cases its input and returns a known
  status or an error. Parsing a payment status does not have this property: surrounding blanks are
  trimmed by the validation and not in the result.\<close>

theorem status_parsers_return_known_statuses:
  "ToDisbursementStatus s =
     (if ToUpper s \<in> set DisbursementStatuses then Inr (ToUpper s)
      else Inl (Errorf ''invalid disbursement status: %s'')) \<and>
   ToReceiversWalletStatus s =
     (if ToUpper s \<in> set ReceiversWalletStatuses then Inr (ToUpper s)
      else Inl (Wrapf ''invalid status'' (Errorf ''invalid receiver wallet status %q''))) \<and>
   (\<exists>t r. ToPaymentStatus t = Inr r \<and> r \<notin> set PaymentStatuses)"
proof (intro conjI)
  have "ToPaymentStatus '' draft '' = Inr '' DRAFT '' \<and> '' DRAFT '' \<notin> set PaymentStatuses"
    by code_simp
  then show "\<exists>t r. ToPaymentStatus t = Inr r \<and> r \<notin> set PaymentStatuses" by blast
qed (simp_all add: ToDisbursementStatus_def DisbursementStatus_Validate_def
      ToReceiversWalletStatus_def ReceiversWalletStatus_Validate_def)

end
