(* ===== verification/Memo.thy ===== *)
theory Memo
  imports Prelude
begin

text \<open>
  Transaction memos (\<open>src/pkg/schema/memo.go\<close>): \<open>NewMemo\<close> builds a memo of a given type from its
  textual value, \<open>ParseMemo\<close> detects the type. The standard library's \<open>strconv.ParseUint\<close> (base 10,
  64 bits) and \<open>hex.DecodeString\<close> are written out. The lemmas give each function on every input, the
  hexadecimal round trip, and that a detected memo is rebuilt unchanged from the stored type and
  value, which is how the submitter builds it later.
\<close>

section \<open>Decimal and hexadecimal numbers\<close>

definition digit_value :: "char \<Rightarrow> nat option" where
  "digit_value c = (let n = (of_char c :: nat) in if 48 \<le> n \<and> n \<le> 57 then Some (n - 48) else None)"

definition is_digit :: "char \<Rightarrow> bool" where
  "is_digit c = (digit_value c \<noteq> None)"

definition decimal_value :: "string \<Rightarrow> nat" where
  "decimal_value s = foldl (\<lambda>n c. n * 10 + the (digit_value c)) 0 s"

text \<open>\<open>strconv.ParseUint(s, 10, 64)\<close>: no sign, no underscore, at least one digit, at most \<open>2^64 - 1\<close>.\<close>

definition ParseUint64 :: "string \<Rightarrow> go_error + 64 word" where
  "ParseUint64 s =
     (if s = [] \<or> \<not> list_all is_digit s then Inl (Errorf ''invalid syntax'')
      else if decimal_value s < 2 ^ 64 then Inr (of_nat (decimal_value s))
      else Inl (Errorf ''value out of range''))"

definition hex_value :: "char \<Rightarrow> nat option" where
  "hex_value c = (let n = (of_char c :: nat) in
     if 48 \<le> n \<and> n \<le> 57 then Some (n - 48)
     else if 97 \<le> n \<and> n \<le> 102 then Some (n - 87)
     else if 65 \<le> n \<and> n \<le> 70 then Some (n - 55)
     else None)"

text \<open>\<open>hex.DecodeString\<close>: two digits of either case per byte; an odd length is an error.\<close>

fun hex_DecodeString :: "string \<Rightarrow> go_error + 8 word list" where
  "hex_DecodeString [] = Inr []"
| "hex_DecodeString [c] = (if hex_value c = None then Inl (Errorf ''invalid byte'') else Inl (Errorf ''odd length hex string''))"
| "hex_DecodeString (c # d # cs) =
     (case (hex_value c, hex_value d) of
        (Some x, Some y) \<Rightarrow>
          (case hex_DecodeString cs of Inl e \<Rightarrow> Inl e | Inr bs \<Rightarrow> Inr (of_nat (16 * x + y) # bs))
      | _ \<Rightarrow> Inl (Errorf ''invalid byte''))"

definition hex_digit :: "nat \<Rightarrow> char" where
  "hex_digit n = char_of (if n < 10 then n + 48 else n + 87)"

definition hex_EncodeToString :: "8 word list \<Rightarrow> string" where
  "hex_EncodeToString bs = concat (map (\<lambda>b. [hex_digit (unat b div 16), hex_digit (unat b mod 16)]) bs)"

section \<open>Memos\<close>

type_synonym MemoType = string

definition MemoTypeText :: MemoType where "MemoTypeText = ''text''"
definition MemoTypeID :: MemoType where "MemoTypeID = ''id''"
definition MemoTypeHash :: MemoType where "MemoTypeHash = ''hash''"
definition MemoTypeReturn :: MemoType where "MemoTypeReturn = ''return''"

lemmas memo_type_defs = MemoTypeText_def MemoTypeID_def MemoTypeHash_def MemoTypeReturn_def

text \<open>The four kinds of \<open>txnbuild.Memo\<close> the code constructs; a nil memo is \<open>None\<close>.\<close>

datatype txnbuild_memo = MemoID "64 word" | MemoText string | MemoHash "8 word list" | MemoReturn "8 word list"

definition hexStringToBytes :: "string \<Rightarrow> go_error + 8 word list" where
  "hexStringToBytes hexStr =
     (case hex_DecodeString hexStr of
        Inl e \<Rightarrow> Inl (Wrapf ''decoding hex string %s'' e) | Inr bytes \<Rightarrow> Inr bytes)"

definition NewMemo :: "MemoType \<Rightarrow> string \<Rightarrow> go_error + txnbuild_memo option" where
  "NewMemo memoType memoValue =
     (if memoType = [] then Inr None
      else if memoType = MemoTypeID then
        (case ParseUint64 memoValue of
           Inl e \<Rightarrow> Inl (Wrapf ''invalid Memo ID value, must be a uint64'' e)
         | Inr i \<Rightarrow> Inr (Some (MemoID i)))
      else if memoType = MemoTypeText then
        (if length memoValue > 28 then Inl (Errorf ''text memo must be 28 bytes or less'')
         else Inr (Some (MemoText memoValue)))
      else if memoType = MemoTypeHash then
        (if length memoValue \<noteq> 64 then Inl (Errorf ''hash memo must be 64 hex characters (32 bytes)'')
         else (case hexStringToBytes memoValue of
                 Inl e \<Rightarrow> Inl (Wrapf ''invalid hash format'' e)
               | Inr hashBytes \<Rightarrow> Inr (Some (MemoHash hashBytes))))
      else if memoType = MemoTypeReturn then
        (if length memoValue \<noteq> 64 then Inl (Errorf ''return memo must be 64 hex characters (32 bytes)'')
         else (case hexStringToBytes memoValue of
                 Inl e \<Rightarrow> Inl (Wrapf ''invalid return hash format'' e)
               | Inr hashBytes \<Rightarrow> Inr (Some (MemoReturn hashBytes))))
      else Inl (Errorf ''unknown memo type: %s''))"

fun try_memo_types :: "MemoType list \<Rightarrow> string \<Rightarrow> go_error + (txnbuild_memo option \<times> MemoType)" where
  "try_memo_types [] memoValue = Inl (Errorf ''could not parse value %q as any valid memo type'')"
| "try_memo_types (memoType # ts) memoValue =
     (case NewMemo memoType memoValue of
        Inr memo \<Rightarrow> Inr (memo, memoType) | Inl _ \<Rightarrow> try_memo_types ts memoValue)"

definition ParseMemo :: "string \<Rightarrow> go_error + (txnbuild_memo option \<times> MemoType)" where
  "ParseMemo memoValue =
     (if memoValue = [] then Inr (None, [])
      else try_memo_types [MemoTypeID, MemoTypeText, MemoTypeHash] memoValue)"

section \<open>Properties\<close>

lemma hex_value_bound: "hex_value c = Some x \<Longrightarrow> x < 16"
  by (auto simp: hex_value_def Let_def split: if_splits)

lemma hex_value_digit [simp]: "n < 16 \<Longrightarrow> hex_value (hex_digit n) = Some n"
  by (auto simp: hex_value_def hex_digit_def Let_def take_bit_eq_mod)

lemma hex_digit_value: "hex_value c = Some x \<Longrightarrow> hex_digit x = to_lower_char c"
proof -
  assume "hex_value c = Some x"
  then consider "48 \<le> (of_char c :: nat)" "(of_char c :: nat) \<le> 57" "x = of_char c - 48"
    | "97 \<le> (of_char c :: nat)" "(of_char c :: nat) \<le> 102" "x = of_char c - 87"
    | "65 \<le> (of_char c :: nat)" "(of_char c :: nat) \<le> 70" "x = of_char c - 55"
    by (auto simp: hex_value_def Let_def split: if_splits)
  then show ?thesis
  proof cases
    case 3
    then have "x + 87 = of_char c + (32 :: nat)" by simp
    with 3 show ?thesis by (simp add: hex_digit_def to_lower_char_def Let_def)
  qed (auto simp: hex_digit_def to_lower_char_def Let_def)
qed

lemma hex_decode_encode [simp]: "hex_DecodeString (hex_EncodeToString bs) = Inr bs"
proof (induction bs)
  case Nil
  then show ?case by (simp add: hex_EncodeToString_def)
next
  case (Cons b bs)
  have "unat b < 256"
    using unsigned_less [of b] by simp
  then have "unat b div 16 < 16" by simp
  with Cons show ?case by (simp add: hex_EncodeToString_def)
qed

lemma hex_encode_decode: "hex_DecodeString s = Inr bs \<Longrightarrow> hex_EncodeToString bs = ToLower s"
proof (induction s arbitrary: bs rule: hex_DecodeString.induct)
  case (3 c d cs)
  then obtain x y bs' where x: "hex_value c = Some x" and y: "hex_value d = Some y"
    and cs: "hex_DecodeString cs = Inr bs'" and bs: "bs = of_nat (16 * x + y) # bs'"
    by (auto split: option.splits sum.splits)
  note bounds = hex_value_bound [OF x] hex_value_bound [OF y]
  then have "unat (of_nat (16 * x + y) :: 8 word) = 16 * x + y"
    by (simp add: unsigned_of_nat take_bit_eq_mod del: of_nat_add of_nat_mult)
  with bounds 3(1) [OF refl x y cs] x y show ?case
    by (simp add: bs hex_EncodeToString_def ToLower_def hex_digit_value)
qed (auto simp: hex_EncodeToString_def ToLower_def split: if_splits)

lemma hex_decode_length: "hex_DecodeString s = Inr bs \<Longrightarrow> length s = 2 * length bs"
  by (induction s arbitrary: bs rule: hex_DecodeString.induct)
    (auto split: option.splits sum.splits if_splits)


lemma hex_decode_bytes:
  "hex_DecodeString s = Inr bs \<Longrightarrow> length s = 2 * length bs \<and> hex_EncodeToString bs = ToLower s"
  by (simp add: hex_decode_length hex_encode_decode)

lemma NewMemo_returns_type:
  "NewMemo t v = Inr (Some m) \<Longrightarrow>
     (case m of MemoID i \<Rightarrow> t = MemoTypeID \<and> ParseUint64 v = Inr i
      | MemoText x \<Rightarrow> t = MemoTypeText \<and> x = v \<and> length v \<le> 28
      | MemoHash bs \<Rightarrow> t = MemoTypeHash \<and> length bs = 32 \<and> hex_EncodeToString bs = ToLower v
      | MemoReturn bs \<Rightarrow> t = MemoTypeReturn \<and> length bs = 32 \<and> hex_EncodeToString bs = ToLower v)"
  by (auto simp: NewMemo_def hexStringToBytes_def split: if_splits sum.splits
      dest!: hex_decode_bytes)

lemma NewMemo_non_empty_type: "t \<noteq> [] \<Longrightarrow> NewMemo t v \<noteq> Inr None"
  by (auto simp: NewMemo_def split: sum.splits)

lemma try_memo_types_sound:
  "try_memo_types ts v = Inr (m, t) \<Longrightarrow> t \<in> set ts \<and> NewMemo t v = Inr m"
  by (induction ts) (auto split: sum.splits)

text \<open>C40: a memo whose type \<open>ParseMemo\<close> detected is rebuilt by \<open>NewMemo\<close> from that type and the same
  value, without error and unchanged, so a payment that stores the detected type and the value gets
  the same memo when its transaction is built. The detected type is text, id or hash (never return),
  a text memo has at most 28 bytes and a hash memo has 32 bytes that print as the value.\<close>

theorem ParseMemo_rebuilt:
  assumes "ParseMemo v = Inr (m, t)"
  shows "NewMemo t v = Inr m \<and> (m = None \<longleftrightarrow> v = []) \<and>
     t \<in> {[], MemoTypeID, MemoTypeText, MemoTypeHash} \<and>
     (\<forall>x. m = Some (MemoText x) \<longrightarrow> x = v \<and> length x \<le> 28) \<and>
     (\<forall>bs. m = Some (MemoHash bs) \<longrightarrow> length bs = 32 \<and> hex_EncodeToString bs = ToLower v)"
proof (intro conjI)
  have sound: "NewMemo t v = Inr m \<and> t \<in> {[], MemoTypeID, MemoTypeText, MemoTypeHash} \<and> (t = [] \<longleftrightarrow> v = [])"
    using assms try_memo_types_sound [of "[MemoTypeID, MemoTypeText, MemoTypeHash]" v m t]
    by (auto simp: ParseMemo_def memo_type_defs NewMemo_def split: if_splits)
  then show new: "NewMemo t v = Inr m" and "t \<in> {[], MemoTypeID, MemoTypeText, MemoTypeHash}"
    by auto
  show "m = None \<longleftrightarrow> v = []"
    using sound NewMemo_non_empty_type [of t v] by (auto simp: NewMemo_def)
  show "\<forall>x. m = Some (MemoText x) \<longrightarrow> x = v \<and> length x \<le> 28"
    and "\<forall>bs. m = Some (MemoHash bs) \<longrightarrow> length bs = 32 \<and> hex_EncodeToString bs = ToLower v"
    using new by (auto dest: NewMemo_returns_type)
qed

theorem ParseMemo_rebuilt_witness: "NewMemo ''id'' ''42'' = Inr (Some (MemoID 42))"
proof -
  have "ParseMemo ''42'' = Inr (Some (MemoID 42), ''id'')"
    by (simp add: ParseMemo_def NewMemo_def ParseUint64_def is_digit_def digit_value_def
        decimal_value_def memo_type_defs)
  from ParseMemo_rebuilt [OF this] show ?thesis by simp
qed

lemma decimal_ParseUint64:
  "(\<exists>i. ParseUint64 s = Inr i) \<longleftrightarrow> s \<noteq> [] \<and> list_all is_digit s \<and> decimal_value s < 2 ^ 64"
  by (simp add: ParseUint64_def)

lemma ParseUint64_unat: "ParseUint64 s = Inr i \<Longrightarrow> unat i = decimal_value s"
  by (auto simp: ParseUint64_def unsigned_of_nat take_bit_eq_mod split: if_splits)

text \<open>Which values \<open>ParseMemo\<close> accepts, and as what: a decimal number below \<open>2^64\<close> is an id, any
  other value of at most 28 bytes a text, a longer one a hash if it is 64 hexadecimal digits, and
  everything else is refused.\<close>

theorem ParseMemo_detects:
  "ParseMemo v =
     (if v = [] then Inr (None, [])
      else if list_all is_digit v \<and> decimal_value v < 2 ^ 64
        then Inr (Some (MemoID (of_nat (decimal_value v))), MemoTypeID)
      else if length v \<le> 28 then Inr (Some (MemoText v), MemoTypeText)
      else (case hex_DecodeString v of
              Inr bs \<Rightarrow> if length bs = 32 then Inr (Some (MemoHash bs), MemoTypeHash)
                else Inl (Errorf ''could not parse value %q as any valid memo type'')
            | Inl _ \<Rightarrow> Inl (Errorf ''could not parse value %q as any valid memo type'')))"
  by (auto simp: ParseMemo_def NewMemo_def ParseUint64_def hexStringToBytes_def memo_type_defs
      split: sum.splits dest: hex_decode_length)

end
