(* ===== verification/Tss_State.thy ===== *)
theory Tss_State
  imports Prelude Status_Machines Memo
begin

text \<open>
  The data of the transaction submission service (\<open>src/internal/transactionsubmission/store\<close>): the rows
  of the tables \<open>submitter_transactions\<close> and \<open>channel_accounts\<close> as the Go structs \<open>Transaction\<close> and
  \<open>ChannelAccount\<close> read them, the database state that holds both tables, the integrity constraints of
  \<open>src/db/migrations/tss-migrations\<close>, and the Stellar SDK's validity checks, which are parameters.
  A text column that is \<open>NULL\<close> is read as the empty string (\<open>COALESCE\<close>) and the empty string is
  written as \<open>NULL\<close>, so one value stands for both; columns read into \<open>sql.Null...\<close> or pointer fields
  are options. Amounts are exact rationals, stored as \<open>NUMERIC(19,7)\<close>.
\<close>

section \<open>Rows\<close>

type_synonym TransactionType = string

definition TransactionTypePayment :: TransactionType where "TransactionTypePayment = ''PAYMENT''"
definition TransactionTypeWalletCreation :: TransactionType where "TransactionTypeWalletCreation = ''WALLET_CREATION''"
definition TransactionTypeSponsored :: TransactionType where "TransactionTypeSponsored = ''SPONSORED''"

lemmas transaction_type_defs = TransactionTypePayment_def TransactionTypeWalletCreation_def
  TransactionTypeSponsored_def

record TransactionStatusHistoryEntry =
  he_status :: TransactionStatus
  he_status_message :: string
  he_timestamp :: int
  he_stellar_transaction_hash :: string
  he_xdr_sent :: string
  he_xdr_received :: string

record Payment =
  AssetCode :: string
  AssetIssuer :: string
  Amount :: rat
  Destination :: string
  PMemo :: string
  PMemoType :: MemoType

record WalletCreation =
  PublicKey :: string
  WasmHash :: string

record Sponsored =
  SponsoredAccount :: string
  SponsoredOperationXDR :: string

record Transaction =
  tx_id :: string
  tx_external_id :: string
  tx_status :: TransactionStatus
  tx_status_message :: "string option"
  tx_status_history :: "TransactionStatusHistoryEntry list"
  tx_type :: TransactionType
  tx_payment :: Payment
  tx_wallet_creation :: WalletCreation
  tx_sponsored :: Sponsored
  tx_tenant_id :: string
  tx_distribution_account :: "string option"
  tx_created_at :: int
  tx_updated_at :: int
  tx_started_at :: "int option"
  tx_sent_at :: "int option"
  tx_completed_at :: "int option"
  tx_synced_at :: "int option"
  tx_attempts_count :: int
  tx_stellar_transaction_hash :: "string option"
  tx_xdr_sent :: "string option"
  tx_xdr_received :: "string option"
  tx_locked_at :: "int option"
  tx_locked_until_ledger_number :: "int option"

record ChannelAccount =
  ca_public_key :: string
  ca_private_key :: string
  ca_updated_at :: int
  ca_created_at :: int
  ca_locked_at :: "int option"
  ca_locked_until_ledger_number :: "int option"

section \<open>The database state\<close>

record tss_db = dbconn +
  submitter_transactions :: "Transaction list"
  channel_accounts :: "ChannelAccount list"

definition tss_rollback :: "'z tss_db_scheme \<Rightarrow> 'z tss_db_scheme \<Rightarrow> 'z tss_db_scheme" where
  "tss_rollback before after =
     after\<lparr>submitter_transactions := submitter_transactions before,
           channel_accounts := channel_accounts before\<rparr>"

section \<open>Integrity constraints of the migrations\<close>

text \<open>
  \<open>amount IS NOT NULL\<close> is left out of the row constraint: the insertion writes \<open>NULL\<close> only for a zero
  amount, which the validation of a payment refuses before.
\<close>

definition nullable :: "string option \<Rightarrow> string" where
  "nullable x = (case x of None \<Rightarrow> [] | Some s \<Rightarrow> s)"

text \<open>\<open>NUMERIC(19,7)\<close>: round half away from zero to seven decimals; twelve digits before the point.\<close>

definition numeric_19_7 :: "rat \<Rightarrow> rat option" where
  "numeric_19_7 x =
     (let n = \<lfloor>\<bar>x\<bar> * 10 ^ 7 + 1 / 2\<rfloor>
      in if n < 10 ^ 19 then Some (sgn x * (rat_of_int n / 10 ^ 7)) else None)"

definition tx_row_ok :: "Transaction \<Rightarrow> bool" where
  "tx_row_ok r \<longleftrightarrow>
     (let p = tx_payment r; wc = tx_wallet_creation r; sp = tx_sponsored r in
      length (tx_id r) \<le> 36 \<and> length (tx_external_id r) \<le> 64 \<and> length (tx_tenant_id r) \<le> 36 \<and>
      tx_status r \<in> set TransactionStatus_All \<and>
      tx_type r \<in> {TransactionTypePayment, TransactionTypeWalletCreation, TransactionTypeSponsored} \<and>
      length (AssetCode p) \<le> 12 \<and> length (AssetIssuer p) \<le> 56 \<and> length (Destination p) \<le> 56 \<and>
      (AssetIssuer p = [] \<or> length (AssetIssuer p) = 56) \<and>
      PMemoType p \<in> {[], MemoTypeText, MemoTypeID, MemoTypeHash, MemoTypeReturn} \<and>
      length (PublicKey wc) \<le> 256 \<and> length (WasmHash wc) \<le> 64 \<and> length (SponsoredAccount sp) \<le> 56 \<and>
      length (nullable (tx_distribution_account r)) \<le> 56 \<and>
      length (nullable (tx_stellar_transaction_hash r)) \<le> 64 \<and>
      0 \<le> tx_attempts_count r \<and> tx_attempts_count r < 2 ^ 31 \<and>
      (tx_type r = TransactionTypePayment \<longrightarrow>
         AssetCode p \<noteq> [] \<and> (AssetIssuer p \<noteq> [] \<or> AssetCode p = ''XLM'') \<and>
         Destination p \<noteq> []) \<and>
      (tx_type r = TransactionTypeWalletCreation \<longrightarrow> PublicKey wc \<noteq> [] \<and> WasmHash wc \<noteq> []) \<and>
      (tx_type r = TransactionTypeSponsored \<longrightarrow>
         SponsoredAccount sp \<noteq> [] \<and> SponsoredOperationXDR sp \<noteq> []))"

definition somes :: "'a option list \<Rightarrow> 'a list" where
  "somes xs = List.map_filter (\<lambda>x. x) xs"

definition tx_unique_ok :: "Transaction list \<Rightarrow> bool" where
  "tx_unique_ok t \<longleftrightarrow>
     distinct (map tx_id t) \<and>
     distinct (map tx_external_id (filter (\<lambda>r. tx_status r \<noteq> TransactionStatusError) t)) \<and>
     distinct (somes (map tx_stellar_transaction_hash t)) \<and>
     distinct (somes (map tx_xdr_sent t)) \<and>
     distinct (somes (map tx_xdr_received t))"

definition tx_table_ok :: "Transaction list \<Rightarrow> bool" where
  "tx_table_ok t \<longleftrightarrow> tx_unique_ok t \<and> list_all tx_row_ok t"

definition ca_table_ok :: "ChannelAccount list \<Rightarrow> bool" where
  "ca_table_ok t \<longleftrightarrow> distinct (map ca_public_key t) \<and>
     list_all (\<lambda>r. length (ca_public_key r) \<le> 64 \<and> length (ca_private_key r) \<le> 256) t"

definition tss_db_ok :: "'z tss_db_scheme \<Rightarrow> bool" where
  "tss_db_ok s \<longleftrightarrow> tx_table_ok (submitter_transactions s) \<and> ca_table_ok (channel_accounts s)"

section \<open>Checks of the Stellar SDK\<close>

text \<open>
  \<open>strkey\<close> and \<open>xdr\<close> are packages of the Stellar SDK. Only their verdicts matter to the store:
  whether a string is a valid account or contract address and whether it decodes as the given XDR
  type. \<open>horizonclient.GetError\<close> finds the Horizon error behind an error: its problem and the result
  codes parsed from it, if they parse. \<open>error_text\<close> is what \<open>Error()\<close> prints for an error of another
  package.
\<close>

record stellar_sdk =
  IsValidEd25519PublicKey :: "string \<Rightarrow> bool"
  IsValidContractAddress :: "string \<Rightarrow> bool"
  decodes_InvokeHostFunctionOp :: "string \<Rightarrow> bool"
  decodes_TransactionEnvelope :: "string \<Rightarrow> bool"
  decodes_TransactionResult :: "string \<Rightarrow> bool"
  error_text :: "go_error \<Rightarrow> string"
  horizonclient_GetError :: "go_error \<Rightarrow> (problem \<times> result_codes option) option"


section \<open>Relations between database states\<close>

text \<open>
  The interface for whole-state properties: a preorder on states that tolerates database faults and
  rollbacks. It is respected by a transaction whose body respects it.
\<close>

locale db_relation = state_preorder R
  for R :: "'z tss_db_scheme \<Rightarrow> 'z tss_db_scheme \<Rightarrow> bool" +
  assumes R_faults: "R s (s\<lparr>conn_faults := fs\<rparr>)"
    and R_rollback: "R s s' \<Longrightarrow> R s (tss_rollback s s')"
begin

lemma keeps_db_call:
  assumes "\<And>s. R s (snd (f s))"
  shows "keeps R (db_call f)"
proof (rule keepsI)
  fix s s' :: "'z tss_db_scheme" and r
  assume "db_call f s = (r, s')"
  moreover have "R s (snd (f (s\<lparr>conn_faults := fs\<rparr>)))" for fs
    by (rule R_trans [OF R_faults assms])
  ultimately show "R s s'"
    by (elim db_call_cases) (metis snd_conv, simp_all add: R_faults)
qed

lemma keeps_read [keeps_intros]: "keeps R (db_call (getsE f))"
  by (rule keeps_db_call) (simp add: getsE_def R_refl)

text \<open>A transaction that was begun in the state \<open>s\<close>.\<close>

lemma transaction_run:
  fixes s s' :: "'z tss_db_scheme"
  assumes run: "RunInTransactionWithResult tss_rollback m s = (r, s')"
    and body: "\<And>fs x s2. m (s\<lparr>conn_faults := fs\<rparr>) = (x, s2) \<Longrightarrow> R s s2"
  shows "R s s'"
proof -
  obtain b s1 where b: "db_call (ret ()) s = (b, s1)" by fastforce
  from b obtain fs where s1: "s1 = s\<lparr>conn_faults := fs\<rparr>"
    by (elim db_call_cases) (auto simp: ret_def)
  obtain x s2 where x: "m s1 = (x, s2)" by fastforce
  with body s1 have s2: "R s s2" by blast
  have rb: "tss_rollback s1 t = tss_rollback s t" for t by (simp add: s1 tss_rollback_def)
  have "R s (s2\<lparr>conn_faults := fs\<rparr>)" "R s (tss_rollback s (s2\<lparr>conn_faults := fs\<rparr>))" for fs
    using R_trans [OF s2 R_faults] by (auto intro: R_rollback)
  with run b x s2 rb R_faults [of s fs] s1 show ?thesis
    by (auto simp: RunInTransactionWithResult_def R_rollback split: sum.splits list.splits fault.splits)
qed

lemma keeps_RunInTransactionWithResult [keeps_intros]:
  assumes "keeps R m"
  shows "keeps R (RunInTransactionWithResult tss_rollback m)"
  by (rule keepsI, erule transaction_run) (metis R_trans R_faults keepsD [OF assms])

lemma keeps_RunInTransaction [keeps_intros]: "keeps R m \<Longrightarrow> keeps R (RunInTransaction tss_rollback m)"
  unfolding RunInTransaction_def by (rule keeps_RunInTransactionWithResult)

end

section \<open>The contract of a ledger lock\<close>

text \<open>
  Transactions and channel accounts are locked until a ledger number. \<open>lock k c n\<close> asks for the lock
  of \<open>k\<close> until ledger \<open>n\<close> at ledger \<open>c\<close>; \<open>lock_attempts\<close> is a sequence of such requests;
  \<open>locked s k c\<close> says that \<open>k\<close> is locked at ledger \<open>c\<close>; \<open>inv\<close> is
  the invariant of the table the lock needs.
\<close>

fun lock_attempts ::
  "(string \<Rightarrow> int \<Rightarrow> int \<Rightarrow> ('s, go_error, 'r) prog) \<Rightarrow> string \<Rightarrow> (int \<times> int) list \<Rightarrow> 's \<Rightarrow> (go_error + 'r) list \<times> 's" where
  "lock_attempts lock k [] s = ([], s)"
| "lock_attempts lock k ((c, n) # cs) s =
     (let (x, s1) = lock k c n s; (xs, s2) = lock_attempts lock k cs s1 in (x # xs, s2))"

locale lock_table =
  fixes lock :: "string \<Rightarrow> int \<Rightarrow> int \<Rightarrow> ('s, go_error, 'r) prog"
    and locked :: "'s \<Rightarrow> string \<Rightarrow> int \<Rightarrow> bool"
    and inv :: "'s \<Rightarrow> bool"
  assumes lock_was_free: "lock k c n s = (Inr r, s') \<Longrightarrow> \<not> locked s k c"
    and lock_locks: "inv s \<Longrightarrow> lock k c n s = (Inr r, s') \<Longrightarrow> m \<le> n \<Longrightarrow> locked s' k m"
    and lock_keeps: "lock k c n s = (Inl e, s') \<Longrightarrow> locked s k c \<Longrightarrow> locked s k m = locked s' k m"
begin

lemma lock_refused:
  assumes "locked s k c"
  obtains e s' where "lock k c n s = (Inl e, s')" and "\<forall>m. locked s k m = locked s' k m"
proof -
  obtain x s' where run: "lock k c n s = (x, s')" by fastforce
  with assms lock_was_free obtain e where "x = Inl e" by (cases x) blast+
  with run assms that show ?thesis by (auto dest: lock_keeps)
qed

lemma attempts_refused:
  assumes "\<And>m. m \<le> n \<Longrightarrow> locked s k m" and "\<forall>(c, m) \<in> set cs. c \<le> n"
  shows "\<forall>x \<in> set (fst (lock_attempts lock k cs s)). \<exists>e. x = Inl e"
  using assms
proof (induction cs arbitrary: s)
  case (Cons p cs)
  obtain c m where p: "p = (c, m)" by fastforce
  with Cons.prems have "locked s k c" by auto
  then obtain e s1 where run: "lock k c m s = (Inl e, s1)" and keep: "\<forall>i. locked s k i = locked s1 k i"
    by (rule lock_refused)
  then have "\<And>i. i \<le> n \<Longrightarrow> locked s1 k i" using Cons.prems(1) by simp
  with Cons.IH Cons.prems(2) have "\<forall>x \<in> set (fst (lock_attempts lock k cs s1)). \<exists>e. x = Inl e" by auto
  with run p show ?case by (auto split: prod.splits)
qed simp

lemma lock_exclusive:
  "inv s \<Longrightarrow> lock k c n s = (Inr r, s') \<Longrightarrow> \<forall>(c', m) \<in> set cs. c' \<le> n \<Longrightarrow>
   \<forall>x \<in> set (fst (lock_attempts lock k cs s')). \<exists>e. x = Inl e"
  by (rule attempts_refused) (auto intro: lock_locks)

end

end
