(* ===== verification/Tx_Store.thy ===== *)
theory Tx_Store
  imports Tss_State
begin

text \<open>
  The store of submitter transactions (\<open>src/internal/transactionsubmission/store/transactions.go\<close>):
  validation and insertion, the status updates guarded by the state machine, the recording of the
  Stellar hash and of the envelopes, locking, reprocessing, and the queries of the synchronisation
  with the payments. Each SQL statement is one atomic step on the table that may fail.
\<close>

section \<open>Validation\<close>

definition Transaction_BuildMemo :: "Transaction \<Rightarrow> go_error + txnbuild_memo option" where
  "Transaction_BuildMemo tx =
     (if tx_type tx \<noteq> TransactionTypePayment then Inl (Errorf ''transaction type %q does not support memo'')
      else (case NewMemo (PMemoType (tx_payment tx)) (PMemo (tx_payment tx)) of
              Inl e \<Rightarrow> Inl (Wrapf ''building memo'' e) | Inr memo \<Rightarrow> Inr memo))"

definition Transaction_IsLocked :: "Transaction \<Rightarrow> int \<Rightarrow> bool" where
  "Transaction_IsLocked tx currentLedgerNumber =
     (case tx_locked_until_ledger_number tx of None \<Rightarrow> False | Some l \<Rightarrow> currentLedgerNumber \<le> l)"

definition WalletCreation_validate :: "WalletCreation \<Rightarrow> go_error + unit" where
  "WalletCreation_validate wc =
     (if PublicKey wc = [] then Inl (Errorf ''public key is required'')
      else (case hex_DecodeString (PublicKey wc) of
          Inl e \<Rightarrow> Inl (Wrapf ''public key %q is not a valid hex string'' e)
        | Inr _ \<Rightarrow>
            (if WasmHash wc = [] then Inl (Errorf ''wasm hash is required'')
             else (case hex_DecodeString (WasmHash wc) of
                 Inl e \<Rightarrow> Inl (Wrapf ''wasm hash %q is not a valid hex string'' e)
               | Inr _ \<Rightarrow> Inr ()))))"

definition Payment_validate :: "stellar_sdk \<Rightarrow> Payment \<Rightarrow> go_error + unit" where
  "Payment_validate sdk p =
     (if length (AssetCode p) < 1 \<or> length (AssetCode p) > 12
        then Inl (Errorf ''asset code must have between 1 and 12 characters'')
      else if ToLower (AssetCode p) \<noteq> ''xlm'' \<and> AssetIssuer p = [] then Inl (Errorf ''asset issuer is required'')
      else if ToLower (AssetCode p) \<noteq> ''xlm'' \<and> \<not> IsValidEd25519PublicKey sdk (AssetIssuer p)
        then Inl (Errorf ''asset issuer %q is not a valid ed25519 public key'')
      else if Amount p \<le> 0 then Inl (Errorf ''amount must be positive'')
      else if \<not> IsValidEd25519PublicKey sdk (Destination p) \<and> \<not> IsValidContractAddress sdk (Destination p)
        then Inl (Errorf ''destination %q is not a valid ed25519 public key or contract address'')
      else Inr ())"

definition Sponsored_validate :: "stellar_sdk \<Rightarrow> Sponsored \<Rightarrow> go_error + unit" where
  "Sponsored_validate sdk s =
     (if SponsoredAccount s = [] then Inl (Errorf ''sponsored account is required'')
      else if \<not> IsValidContractAddress sdk (SponsoredAccount s)
        then Inl (Errorf ''sponsored account %q is not a valid contract address'')
      else if SponsoredOperationXDR s = [] then Inl (Errorf ''sponsored operation XDR is required'')
      else if \<not> decodes_InvokeHostFunctionOp sdk (SponsoredOperationXDR s)
        then Inl (Errorf ''invalid sponsored operation XDR %q'')
      else Inr ())"

definition wrap_result :: "string \<Rightarrow> go_error + 'a \<Rightarrow> go_error + 'a" where
  "wrap_result msg r = (case r of Inl e \<Rightarrow> Inl (Wrapf msg e) | Inr x \<Rightarrow> Inr x)"

definition Transaction_validate :: "stellar_sdk \<Rightarrow> Transaction \<Rightarrow> go_error + unit" where
  "Transaction_validate sdk tx =
     (if tx_external_id tx = [] then Inl (Errorf ''external ID is required'')
      else if tx_tenant_id tx = [] then Inl (Errorf ''tenant ID is required'')
      else if tx_type tx = TransactionTypePayment then
        wrap_result ''validating payment transaction'' (Payment_validate sdk (tx_payment tx))
      else if tx_type tx = TransactionTypeWalletCreation then
        wrap_result ''validating wallet creation transaction'' (WalletCreation_validate (tx_wallet_creation tx))
      else if tx_type tx = TransactionTypeSponsored then
        wrap_result ''validating sponsored transaction'' (Sponsored_validate sdk (tx_sponsored tx))
      else Inl (Errorf ''invalid transaction type %q''))"

section \<open>Statements on the table\<close>

text \<open>
  \<open>UPDATE ... WHERE P ... RETURNING\<close> read by \<open>GetContext\<close>: the first matching row after the update,
  \<open>sql.ErrNoRows\<close> when none matches, an integrity error when the new table breaks a constraint. The
  trigger sets \<open>updated_at\<close>.
\<close>

definition tx_update_returning ::
  "(Transaction \<Rightarrow> bool) \<Rightarrow> (int \<Rightarrow> Transaction \<Rightarrow> Transaction) \<Rightarrow> ('z tss_db_scheme, go_error, Transaction) prog" where
  "tx_update_returning P f = db_call (\<lambda>s.
     let g = (\<lambda>r. (f (conn_now s) r)\<lparr>tx_updated_at := conn_now s\<rparr>);
         t' = sql_update P g (submitter_transactions s)
     in case filter P (submitter_transactions s) of
          [] \<Rightarrow> (Inl ErrNoRows, s)
        | r # _ \<Rightarrow> if tx_table_ok t' then (Inr (g r), s\<lparr>submitter_transactions := t'\<rparr>)
                  else (Inl (ConstraintViolation ''submitter_transactions''), s))"

definition tx_update_exec ::
  "(Transaction \<Rightarrow> bool) \<Rightarrow> (int \<Rightarrow> Transaction \<Rightarrow> Transaction) \<Rightarrow> ('z tss_db_scheme, go_error, nat) prog" where
  "tx_update_exec P f = db_call (\<lambda>s.
     let t' = sql_update P (\<lambda>r. (f (conn_now s) r)\<lparr>tx_updated_at := conn_now s\<rparr>) (submitter_transactions s)
     in if tx_table_ok t'
        then (Inr (length (filter P (submitter_transactions s))), s\<lparr>submitter_transactions := t'\<rparr>)
        else (Inl (ConstraintViolation ''submitter_transactions''), s))"

definition tx_select :: "(Transaction \<Rightarrow> bool) \<Rightarrow> ('z tss_db_scheme, go_error, Transaction list) prog" where
  "tx_select P = db_call (getsE (\<lambda>s. filter P (submitter_transactions s)))"

definition tx_select_for_update ::
  "(Transaction \<Rightarrow> bool) \<Rightarrow> ('z tss_db_scheme, go_error, Transaction list) prog" where
  "tx_select_for_update P =
     db_call (getsE (\<lambda>s. filter (\<lambda>r. P r \<and> tx_id r \<notin> set (conn_held s)) (submitter_transactions s)))"

definition get_first :: "('s, go_error, 'r list) prog \<Rightarrow> ('s, go_error, 'r) prog" where
  "get_first m = bindE m (\<lambda>rs. case rs of [] \<Rightarrow> throw ErrNoRows | r # _ \<Rightarrow> ret r)"

text \<open>The common tail of the store's methods: \<open>sql.ErrNoRows\<close> becomes \<open>ErrRecordNotFound\<close>, any other
  error is wrapped.\<close>

definition not_found_or_wrap :: "string \<Rightarrow> ('s, go_error, 'a) prog \<Rightarrow> ('s, go_error, 'a) prog" where
  "not_found_or_wrap msg m = handleE m
     (\<lambda>e. if error_is e ErrNoRows then throw ErrRecordNotFound else throw (Wrapf msg e)) ret"

definition status_history_entry ::
  "int \<Rightarrow> TransactionStatus \<Rightarrow> string option \<Rightarrow> string option \<Rightarrow> string option \<Rightarrow> string option \<Rightarrow> TransactionStatusHistoryEntry" where
  "status_history_entry now status message hash sent received =
     \<lparr>he_status = status, he_status_message = nullable message, he_timestamp = now,
      he_stellar_transaction_hash = nullable hash, he_xdr_sent = nullable sent,
      he_xdr_received = nullable received\<rparr>"

section \<open>Insertion and reading\<close>

text \<open>A row as the \<open>INSERT\<close> of \<open>BulkInsert\<close> writes it: the thirteen given columns, defaults elsewhere.\<close>

definition inserted_row :: "string \<Rightarrow> int \<Rightarrow> rat \<Rightarrow> Transaction \<Rightarrow> Transaction" where
  "inserted_row i now amount tx =
     \<lparr>tx_id = i, tx_external_id = tx_external_id tx, tx_status = TransactionStatusPending,
      tx_status_message = None,
      tx_status_history = [status_history_entry now TransactionStatusPending None None None None],
      tx_type = tx_type tx, tx_payment = (tx_payment tx)\<lparr>Amount := amount\<rparr>,
      tx_wallet_creation = tx_wallet_creation tx, tx_sponsored = tx_sponsored tx,
      tx_tenant_id = tx_tenant_id tx, tx_distribution_account = None,
      tx_created_at = now, tx_updated_at = now, tx_started_at = None, tx_sent_at = None,
      tx_completed_at = None, tx_synced_at = None, tx_attempts_count = 0,
      tx_stellar_transaction_hash = None, tx_xdr_sent = None, tx_xdr_received = None,
      tx_locked_at = None, tx_locked_until_ledger_number = None\<rparr>"

fun inserted_rows :: "(nat \<Rightarrow> string) \<Rightarrow> nat \<Rightarrow> int \<Rightarrow> Transaction list \<Rightarrow> Transaction list option" where
  "inserted_rows uuid n now [] = Some []"
| "inserted_rows uuid n now (tx # txs) =
     (case (numeric_19_7 (Amount (tx_payment tx)), inserted_rows uuid (Suc n) now txs) of
        (Some a, Some rs) \<Rightarrow> Some (inserted_row (uuid n) now a tx # rs)
      | _ \<Rightarrow> None)"

fun validate_all :: "stellar_sdk \<Rightarrow> Transaction list \<Rightarrow> go_error + unit" where
  "validate_all sdk [] = Inr ()"
| "validate_all sdk (tx # txs) =
     (case Transaction_validate sdk tx of
        Inl e \<Rightarrow> Inl (Wrapf ''validating transaction for insertion'' e)
      | Inr _ \<Rightarrow> validate_all sdk txs)"

definition insert_statement :: "Transaction list \<Rightarrow> ('z tss_db_scheme, go_error, Transaction list) prog" where
  "insert_statement transactions = db_call (\<lambda>s.
     let s' = s\<lparr>conn_uuid_next := conn_uuid_next s + length transactions\<rparr>
     in case inserted_rows (conn_uuid s) (conn_uuid_next s) (conn_now s) transactions of
          None \<Rightarrow> (Inl (ConstraintViolation ''numeric field overflow''), s')
        | Some rows \<Rightarrow>
            if tx_table_ok (submitter_transactions s @ rows)
            then (Inr rows, s'\<lparr>submitter_transactions := submitter_transactions s @ rows\<rparr>)
            else (Inl (ConstraintViolation ''submitter_transactions''), s'))"

definition TransactionModel_BulkInsert ::
  "stellar_sdk \<Rightarrow> Transaction list \<Rightarrow> ('z tss_db_scheme, go_error, Transaction list) prog" where
  "TransactionModel_BulkInsert sdk transactions =
     (if transactions = [] then ret []
      else (case validate_all sdk transactions of
              Inl e \<Rightarrow> throw e
            | Inr _ \<Rightarrow> wrapE ''inserting transactions'' (insert_statement transactions)))"

definition TransactionModel_Insert :: "stellar_sdk \<Rightarrow> Transaction \<Rightarrow> ('z tss_db_scheme, go_error, Transaction) prog" where
  "TransactionModel_Insert sdk tx =
     bindE (wrapE ''inserting single transaction'' (TransactionModel_BulkInsert sdk [tx])) (\<lambda>transactions. ret (hd transactions))"

definition TransactionModel_Get :: "string \<Rightarrow> ('z tss_db_scheme, go_error, Transaction) prog" where
  "TransactionModel_Get txID =
     not_found_or_wrap ''error querying transaction ID %s'' (get_first (tx_select (\<lambda>r. tx_id r = txID)))"

definition TransactionModel_GetAllByExternalIDs ::
  "string list \<Rightarrow> ('z tss_db_scheme, go_error, Transaction list) prog" where
  "TransactionModel_GetAllByExternalIDs externalIDs =
     wrapE ''error querying transactions'' (tx_select (\<lambda>r. tx_external_id r \<in> set externalIDs))"

section \<open>Status updates\<close>

definition set_success :: "int \<Rightarrow> Transaction \<Rightarrow> Transaction" where
  "set_success now r = r\<lparr>tx_status := TransactionStatusSuccess, tx_completed_at := Some now,
     tx_status_history := tx_status_history r @
       [status_history_entry now TransactionStatusSuccess None (tx_stellar_transaction_hash r) (tx_xdr_sent r) (tx_xdr_received r)]\<rparr>"

definition TransactionModel_UpdateStatusToSuccess :: "Transaction \<Rightarrow> ('z tss_db_scheme, go_error, Transaction) prog" where
  "TransactionModel_UpdateStatusToSuccess tx =
     (case TransactionStatus_CanTransitionTo (tx_status tx) TransactionStatusSuccess of
        Inl e \<Rightarrow> throw (Wrapf ''attempting to transition transaction status to TransactionStatusSuccess'' e)
      | Inr _ \<Rightarrow> wrapE ''updating transaction status to TransactionStatusSuccess''
          (tx_update_returning (\<lambda>r. tx_id r = tx_id tx) set_success))"

definition set_error :: "string \<Rightarrow> int \<Rightarrow> Transaction \<Rightarrow> Transaction" where
  "set_error message now r = r\<lparr>tx_status := TransactionStatusError, tx_completed_at := Some now,
     tx_status_message := Some message,
     tx_status_history := tx_status_history r @
       [status_history_entry now TransactionStatusError (Some message) (tx_stellar_transaction_hash r) (tx_xdr_sent r) (tx_xdr_received r)]\<rparr>"

definition TransactionModel_UpdateStatusToError ::
  "Transaction \<Rightarrow> string \<Rightarrow> ('z tss_db_scheme, go_error, Transaction) prog" where
  "TransactionModel_UpdateStatusToError tx message =
     (case TransactionStatus_CanTransitionTo (tx_status tx) TransactionStatusError of
        Inl e \<Rightarrow> throw (Wrapf ''attempting to transition transaction status to TransactionStatusError'' e)
      | Inr _ \<Rightarrow> wrapE ''updating transaction status to TransactionStatusError''
          (tx_update_returning (\<lambda>r. tx_id r = tx_id tx) (set_error message)))"

definition set_hash_and_xdr_sent :: "string \<Rightarrow> string \<Rightarrow> string \<Rightarrow> int \<Rightarrow> Transaction \<Rightarrow> Transaction" where
  "set_hash_and_xdr_sent txHash txXDRSent distributionAccount now r =
     r\<lparr>tx_stellar_transaction_hash := Some txHash, tx_xdr_sent := Some txXDRSent,
       tx_distribution_account := Some distributionAccount, tx_sent_at := Some now,
       tx_status_history := tx_status_history r @
         [status_history_entry now (tx_status r)
            (Some ''Updating Stellar Transaction Hash, XDR Sent and Distribution Account'')
            (Some txHash) (Some txXDRSent) (tx_xdr_received r)],
       tx_attempts_count := tx_attempts_count r + 1\<rparr>"

definition TransactionModel_UpdateStellarTransactionHashXDRSentAndDistributionAccount ::
  "stellar_sdk \<Rightarrow> string \<Rightarrow> string \<Rightarrow> string \<Rightarrow> string \<Rightarrow> ('z tss_db_scheme, go_error, Transaction) prog" where
  "TransactionModel_UpdateStellarTransactionHashXDRSentAndDistributionAccount sdk txID txHash txXDRSent distributionAccount =
     (if length txHash \<noteq> 64 then throw (Errorf ''invalid transaction hash %q'')
      else if \<not> IsValidEd25519PublicKey sdk distributionAccount
        then throw (Errorf ''distribution account %q is not a valid ed25519 public key'')
      else if \<not> decodes_TransactionEnvelope sdk txXDRSent then throw (Errorf ''invalid XDR envelope'')
      else not_found_or_wrap ''error updating transaction hash''
        (tx_update_returning (\<lambda>r. tx_id r = txID) (set_hash_and_xdr_sent txHash txXDRSent distributionAccount)))"

definition set_xdr_received :: "string \<Rightarrow> int \<Rightarrow> Transaction \<Rightarrow> Transaction" where
  "set_xdr_received xdrReceived now r =
     r\<lparr>tx_xdr_received := Some xdrReceived,
       tx_status_history := tx_status_history r @
         [status_history_entry now (tx_status r) (Some ''Updating XDR Received'')
            (tx_stellar_transaction_hash r) (tx_xdr_sent r) (Some xdrReceived)]\<rparr>"

definition TransactionModel_UpdateStellarTransactionXDRReceived ::
  "stellar_sdk \<Rightarrow> string \<Rightarrow> string \<Rightarrow> ('z tss_db_scheme, go_error, Transaction) prog" where
  "TransactionModel_UpdateStellarTransactionXDRReceived sdk txID xdrReceived =
     (if \<not> decodes_TransactionResult sdk xdrReceived then throw (Errorf ''invalid XDR result'')
      else not_found_or_wrap ''error updating transaction hash''
        (tx_update_returning (\<lambda>r. tx_id r = txID) (set_xdr_received xdrReceived)))"

section \<open>Synchronisation with the payments\<close>

definition tx_syncable :: "TransactionType \<Rightarrow> Transaction \<Rightarrow> bool" where
  "tx_syncable transactionType r \<longleftrightarrow>
     tx_status r \<in> {TransactionStatusSuccess, TransactionStatusError} \<and>
     tx_synced_at r = None \<and> tx_type r = transactionType"

text \<open>\<open>ORDER BY completed_at ASC\<close> puts \<open>NULL\<close> last.\<close>

definition nulls_last :: "int option \<Rightarrow> bool \<times> int" where
  "nulls_last x = (case x of None \<Rightarrow> (True, 0) | Some t \<Rightarrow> (False, t))"

definition order_nulls_last :: "('r \<Rightarrow> int option) \<Rightarrow> 'r list \<Rightarrow> 'r list" where
  "order_nulls_last k rs = sql_order_by (\<lambda>r. snd (nulls_last (k r))) (filter (\<lambda>r. k r \<noteq> None) rs) @ filter (\<lambda>r. k r = None) rs"

definition TransactionModel_GetTransactionBatchForUpdate ::
  "int \<Rightarrow> string \<Rightarrow> TransactionType \<Rightarrow> ('z tss_db_scheme, go_error, Transaction list) prog" where
  "TransactionModel_GetTransactionBatchForUpdate batchSize tenantID transactionType =
     (if batchSize \<le> 0 then throw (Errorf ''batch size must be greater than 0'')
      else if tenantID = [] then throw (Errorf ''tenant ID is required'')
      else bindE (wrapE ''getting transactions''
             (tx_select_for_update (\<lambda>r. tx_syncable transactionType r \<and> tx_tenant_id r = tenantID)))
           (\<lambda>rs. ret (sql_limit batchSize (order_nulls_last tx_completed_at rs))))"

definition TransactionModel_GetTransactionPendingUpdateByID ::
  "string \<Rightarrow> TransactionType \<Rightarrow> ('z tss_db_scheme, go_error, Transaction) prog" where
  "TransactionModel_GetTransactionPendingUpdateByID txID expectedTransactionType =
     not_found_or_wrap ''getting transaction ID %s''
       (get_first (tx_select_for_update (\<lambda>r. tx_id r = txID \<and> tx_syncable expectedTransactionType r)))"

definition TransactionModel_UpdateSyncedTransactions :: "string list \<Rightarrow> ('z tss_db_scheme, go_error, unit) prog" where
  "TransactionModel_UpdateSyncedTransactions txIDs =
     (if txIDs = [] then throw (Errorf ''no transaction IDs provided'')
      else bindE (wrapE ''updating transactions''
             (tx_update_exec (\<lambda>r. tx_id r \<in> set txIDs \<and> tx_status r \<in> {TransactionStatusSuccess, TransactionStatusError})
                (\<lambda>now r. r\<lparr>tx_synced_at := Some now\<rparr>)))
           (\<lambda>rowsAffected. if rowsAffected \<noteq> length txIDs
              then throw (Errorf ''expected %d rows to be affected, got %d'') else ret ()))"

section \<open>Locking\<close>

definition TransactionModel_queryFilterForLockedState :: "bool \<Rightarrow> int \<Rightarrow> Transaction \<Rightarrow> bool" where
  "TransactionModel_queryFilterForLockedState locked ledgerNumber r =
     (if locked
      then (case tx_locked_until_ledger_number r of None \<Rightarrow> False | Some l \<Rightarrow> l \<ge> ledgerNumber)
      else (case tx_locked_until_ledger_number r of None \<Rightarrow> True | Some l \<Rightarrow> l < ledgerNumber))"

definition tx_lockable :: "int \<Rightarrow> Transaction \<Rightarrow> bool" where
  "tx_lockable currentLedger r \<longleftrightarrow>
     TransactionModel_queryFilterForLockedState False currentLedger r \<and> tx_synced_at r = None \<and>
     tx_status r \<in> {TransactionStatusPending, TransactionStatusProcessing}"

definition set_locked :: "int \<Rightarrow> int \<Rightarrow> Transaction \<Rightarrow> Transaction" where
  "set_locked nextLedgerLock now r =
     r\<lparr>tx_locked_at := Some now, tx_locked_until_ledger_number := Some nextLedgerLock,
       tx_status := TransactionStatusProcessing\<rparr>"

definition TransactionModel_Lock :: "string \<Rightarrow> int \<Rightarrow> int \<Rightarrow> ('z tss_db_scheme, go_error, Transaction) prog" where
  "TransactionModel_Lock transactionID currentLedger nextLedgerLock =
     not_found_or_wrap ''locking transaction %q''
       (tx_update_returning (\<lambda>r. tx_id r = transactionID \<and> tx_lockable currentLedger r) (set_locked nextLedgerLock))"

definition set_unlocked :: "int \<Rightarrow> Transaction \<Rightarrow> Transaction" where
  "set_unlocked now r = r\<lparr>tx_locked_at := None, tx_locked_until_ledger_number := None\<rparr>"

definition TransactionModel_Unlock :: "string \<Rightarrow> ('z tss_db_scheme, go_error, Transaction) prog" where
  "TransactionModel_Unlock publicKey =
     not_found_or_wrap ''unlocking transaction %q''
       (tx_update_returning (\<lambda>r. tx_id r = publicKey) set_unlocked)"

definition set_reprocess :: "int \<Rightarrow> Transaction \<Rightarrow> Transaction" where
  "set_reprocess now r =
     r\<lparr>tx_locked_at := None, tx_locked_until_ledger_number := None, tx_stellar_transaction_hash := None,
       tx_xdr_sent := None, tx_xdr_received := None\<rparr>"

definition TransactionModel_PrepareTransactionForReprocessing ::
  "string \<Rightarrow> ('z tss_db_scheme, go_error, Transaction) prog" where
  "TransactionModel_PrepareTransactionForReprocessing transactionID =
     not_found_or_wrap ''pushing transaction back to queue %q''
       (tx_update_returning
          (\<lambda>r. tx_id r = transactionID \<and> tx_synced_at r = None \<and>
               tx_status r \<in> {TransactionStatusPending, TransactionStatusProcessing})
          set_reprocess)"


section \<open>Facts about the statements\<close>

text \<open>The table after an update: unchanged, or the new table, which satisfies the constraints.\<close>

definition tx_updated :: "(Transaction \<Rightarrow> bool) \<Rightarrow> (int \<Rightarrow> Transaction \<Rightarrow> Transaction) \<Rightarrow> int \<Rightarrow> Transaction list \<Rightarrow> Transaction list" where
  "tx_updated P f now t = sql_update P (\<lambda>r. (f now r)\<lparr>tx_updated_at := now\<rparr>) t"

lemma tx_update_returning_cases:
  assumes "tx_update_returning P f s = (r, s')"
  obtains (failed) e fs where "r = Inl e" and "s' = s\<lparr>conn_faults := fs\<rparr>"
  | (updated) fs t' where "t' = tx_updated P f (conn_now s) (submitter_transactions s)"
      and "s' = s\<lparr>conn_faults := fs, submitter_transactions := t'\<rparr>" and "tx_table_ok t'"
      and "r = Inl DriverError \<or>
        (\<exists>row \<in> set (submitter_transactions s). P row \<and> r = Inr ((f (conn_now s) row)\<lparr>tx_updated_at := conn_now s\<rparr>))"
proof -
  let ?t = "submitter_transactions s" and ?t' = "tx_updated P f (conn_now s) (submitter_transactions s)"
  define step where "step = (\<lambda>s :: 'a tss_db_scheme.
     let g = (\<lambda>r. (f (conn_now s) r)\<lparr>tx_updated_at := conn_now s\<rparr>);
         t' = sql_update P g (submitter_transactions s)
     in case filter P (submitter_transactions s) of
          [] \<Rightarrow> (Inl ErrNoRows, s)
        | r # _ \<Rightarrow> if tx_table_ok t' then (Inr (g r), s\<lparr>submitter_transactions := t'\<rparr>)
                  else (Inl (ConstraintViolation ''submitter_transactions''), s))"
  have step: "(\<exists>e. step (s\<lparr>conn_faults := fs\<rparr>) = (Inl e, s\<lparr>conn_faults := fs\<rparr>)) \<or>
     (\<exists>row \<in> set ?t. P row \<and> tx_table_ok ?t' \<and>
        step (s\<lparr>conn_faults := fs\<rparr>) =
          (Inr ((f (conn_now s) row)\<lparr>tx_updated_at := conn_now s\<rparr>),
           s\<lparr>conn_faults := fs, submitter_transactions := ?t'\<rparr>))" for fs
  proof (cases "filter P ?t")
    case (Cons row rows)
    then have "row \<in> set ?t" and "P row"
      by (auto simp: filter_eq_Cons_iff)
    with Cons show ?thesis by (auto simp: step_def Let_def tx_updated_def)
  qed (simp add: step_def Let_def)
  have "db_call step s = (r, s')"
    using assms by (simp add: tx_update_returning_def step_def)
  then show ?thesis
  proof (cases rule: db_call_cases)
    case (run fs)
    with step [of fs] show ?thesis by (auto intro: that)
  next
    case (lost fs)
    then show ?thesis by (rule failed)
  next
    case (applied fs)
    with step [of fs] show ?thesis by (auto intro: that)
  qed
qed

lemma tx_update_exec_cases:
  assumes "tx_update_exec P f s = (r, s')"
  obtains (failed) e fs where "r = Inl e" and "s' = s\<lparr>conn_faults := fs\<rparr>"
  | (updated) fs t' where "t' = tx_updated P f (conn_now s) (submitter_transactions s)"
      and "s' = s\<lparr>conn_faults := fs, submitter_transactions := t'\<rparr>" and "tx_table_ok t'"
      and "r = Inl DriverError \<or> r = Inr (length (filter P (submitter_transactions s)))"
  using assms unfolding tx_update_exec_def
  by (elim db_call_cases) (auto simp: Let_def tx_updated_def split: if_splits intro: that)

lemma tx_select_cases:
  assumes "tx_select P s = (r, s')"
  obtains e fs where "r = Inl e" and "s' = s\<lparr>conn_faults := fs\<rparr>"
  | fs where "r = Inr (filter P (submitter_transactions s))" and "s' = s\<lparr>conn_faults := fs\<rparr>"
  using assms unfolding tx_select_def getsE_def by (elim db_call_cases) auto

lemma tx_select_for_update_cases:
  assumes "tx_select_for_update P s = (r, s')"
  obtains e fs where "r = Inl e" and "s' = s\<lparr>conn_faults := fs\<rparr>"
  | fs where "r = Inr (filter (\<lambda>r. P r \<and> tx_id r \<notin> set (conn_held s)) (submitter_transactions s))"
      and "s' = s\<lparr>conn_faults := fs\<rparr>"
  using assms unfolding tx_select_for_update_def getsE_def by (elim db_call_cases) auto

lemma not_found_or_wrap_cases:
  assumes "not_found_or_wrap msg m s = (r, s')"
  obtains x where "r = Inr x" and "m s = (Inr x, s')"
  | e e' where "r = Inl e'" and "m s = (Inl e, s')"
  using assms unfolding not_found_or_wrap_def
  by (cases "m s") (auto simp: handleE_def throw_def ret_def split: sum.splits if_splits intro: that)

lemma not_found_or_wrap_ok [prog_ok]: "not_found_or_wrap msg m s = (Inr y, s') \<longleftrightarrow> m s = (Inr y, s')"
  by (auto simp: not_found_or_wrap_def handleE_def throw_def ret_def split: prod.splits sum.splits if_splits)

lemma get_first_ok [prog_ok]:
  "get_first m s = (Inr y, s') \<longleftrightarrow> (\<exists>rs. m s = (Inr (y # rs), s'))"
  by (auto simp: get_first_def prog_ok split: list.splits) (metis list.exhaust throw_ok)

section \<open>What every operation of the store respects\<close>

text \<open>
  The interfaces for whole-state properties: a preorder on states that tolerates faults and accepts a
  new table whose rows evolved by \<open>row_step\<close> is respected by the updates whose rows evolve so
  (\<open>tx_update_relation\<close>); one that also accepts inserted rows is respected by insertion
  (\<open>tx_relation\<close>); and one for which every row update of the store is a \<open>row_step\<close> is respected by every
  operation (\<open>tx_store_relation\<close>), on every branch and under every fault schedule.
\<close>

definition touched :: "(int \<Rightarrow> Transaction \<Rightarrow> Transaction) \<Rightarrow> int \<Rightarrow> Transaction \<Rightarrow> Transaction" where
  "touched f now r = (f now r)\<lparr>tx_updated_at := now\<rparr>"

lemma tx_updated_touched: "tx_updated P f now t = map (\<lambda>r. if P r then touched f now r else r) t"
  by (simp add: tx_updated_def sql_update_def touched_def)

locale tx_update_relation = db_relation R
  for R :: "'z tss_db_scheme \<Rightarrow> 'z tss_db_scheme \<Rightarrow> bool" +
  fixes row_step :: "Transaction \<Rightarrow> Transaction \<Rightarrow> bool"
  assumes R_rows: "tx_table_ok t' \<Longrightarrow> list_all2 row_step (submitter_transactions s) t' \<Longrightarrow>
      R s (s\<lparr>submitter_transactions := t'\<rparr>)"
    and row_step_refl: "row_step r r"
begin

lemma R_updated:
  assumes "\<And>now r. P r \<Longrightarrow> row_step r (touched f now r)"
    and "tx_table_ok (tx_updated P f now (submitter_transactions s))"
  shows "R s (s\<lparr>conn_faults := fs, submitter_transactions := tx_updated P f now (submitter_transactions s)\<rparr>)"
proof (rule R_trans [OF R_faults [of s fs]])
  have "list_all2 row_step (submitter_transactions (s\<lparr>conn_faults := fs\<rparr>)) (tx_updated P f now (submitter_transactions s))"
    by (auto simp: tx_updated_touched list_all2_conv_all_nth assms(1) row_step_refl)
  from R_rows [OF assms(2) this]
  show "R (s\<lparr>conn_faults := fs\<rparr>)
     (s\<lparr>conn_faults := fs, submitter_transactions := tx_updated P f now (submitter_transactions s)\<rparr>)" by simp
qed

lemma keeps_tx_update_returning:
  "(\<And>now r. P r \<Longrightarrow> row_step r (touched f now r)) \<Longrightarrow> keeps R (tx_update_returning P f)"
  by (rule keepsI, erule tx_update_returning_cases) (auto simp: R_faults intro!: R_updated)

lemma keeps_tx_update_exec:
  "(\<And>now r. P r \<Longrightarrow> row_step r (touched f now r)) \<Longrightarrow> keeps R (tx_update_exec P f)"
  by (rule keepsI, erule tx_update_exec_cases) (auto simp: R_faults intro!: R_updated)

lemma keeps_not_found_or_wrap [keeps_intros]: "keeps R m \<Longrightarrow> keeps R (not_found_or_wrap msg m)"
  unfolding not_found_or_wrap_def by (intro keeps_handleE keeps_if keeps_throw keeps_ret)

lemma keeps_tx_select [keeps_intros]: "keeps R (tx_select P)"
  unfolding tx_select_def by (rule keeps_read)

lemma keeps_tx_select_for_update [keeps_intros]: "keeps R (tx_select_for_update P)"
  unfolding tx_select_for_update_def by (rule keeps_read)

lemma keeps_get_first [keeps_intros]: "keeps R m \<Longrightarrow> keeps R (get_first m)"
  unfolding get_first_def by (intro keeps_bindE keeps_case_list keeps_throw keeps_ret)

lemmas keeps_updates = keeps_tx_update_returning keeps_tx_update_exec

lemma keeps_UpdateStatusToSuccess:
  "(\<And>now r. tx_id r = tx_id tx \<Longrightarrow> row_step r (touched set_success now r)) \<Longrightarrow>
   keeps R (TransactionModel_UpdateStatusToSuccess tx)"
  unfolding TransactionModel_UpdateStatusToSuccess_def by (intro keeps_intros keeps_updates)

lemma keeps_UpdateStatusToError:
  "(\<And>now r. tx_id r = tx_id tx \<Longrightarrow> row_step r (touched (set_error m) now r)) \<Longrightarrow>
   keeps R (TransactionModel_UpdateStatusToError tx m)"
  unfolding TransactionModel_UpdateStatusToError_def by (intro keeps_intros keeps_updates)

lemma keeps_UpdateHash:
  "(\<And>now r. tx_id r = i \<Longrightarrow> row_step r (touched (set_hash_and_xdr_sent h x d) now r)) \<Longrightarrow>
   keeps R (TransactionModel_UpdateStellarTransactionHashXDRSentAndDistributionAccount sdk i h x d)"
  unfolding TransactionModel_UpdateStellarTransactionHashXDRSentAndDistributionAccount_def
  by (intro keeps_intros keeps_updates)

lemma keeps_UpdateReceived:
  "(\<And>now r. tx_id r = i \<Longrightarrow> row_step r (touched (set_xdr_received x) now r)) \<Longrightarrow>
   keeps R (TransactionModel_UpdateStellarTransactionXDRReceived sdk i x)"
  unfolding TransactionModel_UpdateStellarTransactionXDRReceived_def
  by (intro keeps_intros keeps_updates)

lemma keeps_Lock:
  "(\<And>now r. tx_id r = i \<Longrightarrow> tx_lockable c r \<Longrightarrow> row_step r (touched (set_locked l) now r)) \<Longrightarrow>
   keeps R (TransactionModel_Lock i c l)"
  unfolding TransactionModel_Lock_def by (intro keeps_intros keeps_updates) auto

lemma keeps_Unlock:
  "(\<And>now r. tx_id r = i \<Longrightarrow> row_step r (touched set_unlocked now r)) \<Longrightarrow> keeps R (TransactionModel_Unlock i)"
  unfolding TransactionModel_Unlock_def by (intro keeps_intros keeps_updates)

lemma keeps_Prepare:
  "(\<And>now r. tx_id r = i \<Longrightarrow> row_step r (touched set_reprocess now r)) \<Longrightarrow>
   keeps R (TransactionModel_PrepareTransactionForReprocessing i)"
  unfolding TransactionModel_PrepareTransactionForReprocessing_def
  by (intro keeps_intros keeps_updates) auto

end

locale tx_relation = tx_update_relation R row_step
  for R :: "'z tss_db_scheme \<Rightarrow> 'z tss_db_scheme \<Rightarrow> bool" and row_step +
  assumes R_uuid: "R s (s\<lparr>conn_uuid_next := n\<rparr>)"
    and R_insert: "tx_table_ok (submitter_transactions s @ rows) \<Longrightarrow>
      R s (s\<lparr>submitter_transactions := submitter_transactions s @ rows\<rparr>)"
begin

lemma R_insert_step:
  assumes "tx_table_ok (submitter_transactions s @ rows)"
  shows "R s (s\<lparr>conn_faults := fs, conn_uuid_next := n, submitter_transactions := submitter_transactions s @ rows\<rparr>)"
proof -
  have "R s (s\<lparr>conn_faults := fs, conn_uuid_next := n\<rparr>)"
    using R_trans [OF R_faults R_uuid] by blast
  moreover have "R (s\<lparr>conn_faults := fs, conn_uuid_next := n\<rparr>)
      (s\<lparr>conn_faults := fs, conn_uuid_next := n, submitter_transactions := submitter_transactions s @ rows\<rparr>)"
    using R_insert [of "s\<lparr>conn_faults := fs, conn_uuid_next := n\<rparr>" rows] assms by simp
  ultimately show ?thesis by (rule R_trans)
qed

lemma keeps_insert_statement: "keeps R (insert_statement txs)"
proof (rule keepsI)
  fix s s' :: "'z tss_db_scheme" and r assume "insert_statement txs s = (r, s')"
  moreover have "R s (s\<lparr>conn_faults := fs, conn_uuid_next := n\<rparr>)" for fs n
    using R_trans [OF R_faults R_uuid] by blast
  ultimately show "R s s'"
    unfolding insert_statement_def
    by (elim db_call_cases) (auto simp: Let_def R_faults R_insert_step split: option.splits if_splits)
qed

lemma keeps_BulkInsert: "keeps R (TransactionModel_BulkInsert sdk txs)"
  unfolding TransactionModel_BulkInsert_def
  by (intro keeps_intros keeps_insert_statement)

end

locale tx_store_relation = tx_relation R row_step
  for R :: "'z tss_db_scheme \<Rightarrow> 'z tss_db_scheme \<Rightarrow> bool" and row_step +
  assumes step_success: "row_step r (touched set_success now r)"
    and step_error: "row_step r (touched (set_error m) now r)"
    and step_hash: "row_step r (touched (set_hash_and_xdr_sent h x d) now r)"
    and step_received: "row_step r (touched (set_xdr_received x) now r)"
    and step_synced: "row_step r (touched (\<lambda>now r. r\<lparr>tx_synced_at := Some now\<rparr>) now r)"
    and step_locked: "tx_lockable c r \<Longrightarrow> row_step r (touched (set_locked l) now r)"
    and step_unlocked: "row_step r (touched set_unlocked now r)"
    and step_reprocess: "row_step r (touched set_reprocess now r)"
begin

lemma keeps_UpdateSynced: "keeps R (TransactionModel_UpdateSyncedTransactions is)"
  unfolding TransactionModel_UpdateSyncedTransactions_def
  by (intro keeps_intros keeps_updates step_synced)

lemma keeps_Insert: "keeps R (TransactionModel_Insert sdk tx)"
  unfolding TransactionModel_Insert_def by (intro keeps_intros keeps_BulkInsert)

lemma keeps_Get: "keeps R (TransactionModel_Get i)"
  unfolding TransactionModel_Get_def by (intro keeps_intros)

lemma keeps_GetAllByExternalIDs: "keeps R (TransactionModel_GetAllByExternalIDs is)"
  unfolding TransactionModel_GetAllByExternalIDs_def by (intro keeps_intros)

lemma keeps_GetTransactionBatchForUpdate: "keeps R (TransactionModel_GetTransactionBatchForUpdate n i t)"
  unfolding TransactionModel_GetTransactionBatchForUpdate_def by (intro keeps_intros)

lemma keeps_GetTransactionPendingUpdateByID: "keeps R (TransactionModel_GetTransactionPendingUpdateByID i t)"
  unfolding TransactionModel_GetTransactionPendingUpdateByID_def by (intro keeps_intros)

lemmas keeps_store = keeps_BulkInsert keeps_UpdateStatusToSuccess [OF step_success] keeps_UpdateStatusToError [OF step_error]
  keeps_UpdateHash [OF step_hash] keeps_UpdateReceived [OF step_received] keeps_UpdateSynced keeps_Lock [OF step_locked]
  keeps_Unlock [OF step_unlocked] keeps_Prepare [OF step_reprocess] keeps_Insert keeps_Get
  keeps_GetAllByExternalIDs keeps_GetTransactionBatchForUpdate keeps_GetTransactionPendingUpdateByID


end

end
