(* ===== verification/Tx_Store_Props.thy ===== *)
theory Tx_Store_Props
  imports Tx_Store
begin

text \<open>
  Properties of the store of submitter transactions: every operation keeps the integrity constraints
  and only appends to the status history of a row (two instances of the relation interface), a lock
  excludes every other lock until its ledger (an instance of the interface \<open>lock_table\<close>, which the
  channel accounts share), insertion is validated and atomic, and a transaction is handed to the
  synchronisation at most once.
\<close>

section \<open>Rows evolve, constraints stay\<close>

definition row_le :: "Transaction \<Rightarrow> Transaction \<Rightarrow> bool" where
  "row_le r r' \<longleftrightarrow>
     tx_id r' = tx_id r \<and> tx_external_id r' = tx_external_id r \<and> tx_type r' = tx_type r \<and>
     tx_payment r' = tx_payment r \<and> tx_wallet_creation r' = tx_wallet_creation r \<and>
     tx_sponsored r' = tx_sponsored r \<and> tx_tenant_id r' = tx_tenant_id r \<and>
     (\<exists>later. tx_status_history r' = tx_status_history r @ later)"

definition tss_le :: "'z tss_db_scheme \<Rightarrow> 'z tss_db_scheme \<Rightarrow> bool" where
  "tss_le s s' \<longleftrightarrow> (\<forall>r \<in> set (submitter_transactions s). \<exists>r' \<in> set (submitter_transactions s'). row_le r r')"

lemma row_le_refl [simp]: "row_le r r"
  by (simp add: row_le_def)

lemma row_le_trans: "row_le a b \<Longrightarrow> row_le b c \<Longrightarrow> row_le a c"
  by (auto simp: row_le_def)

lemmas set_defs = set_success_def set_error_def set_hash_and_xdr_sent_def set_xdr_received_def
  set_locked_def set_unlocked_def set_reprocess_def touched_def

lemma list_all2_le_exists: "list_all2 P t t' \<Longrightarrow> r \<in> set t \<Longrightarrow> \<exists>r' \<in> set t'. P r r'"
  by (induction rule: list_all2_induct) auto

interpretation evolution: tx_store_relation tss_le row_le
proof
  fix s t u :: "'a tss_db_scheme"
  show "tss_le s s" unfolding tss_le_def by (blast intro: row_le_refl)
  show "tss_le s t \<Longrightarrow> tss_le t u \<Longrightarrow> tss_le s u"
    unfolding tss_le_def by (meson row_le_trans)
next
  fix s :: "'a tss_db_scheme" and t' rows
  show "list_all2 row_le (submitter_transactions s) t' \<Longrightarrow> tss_le s (s\<lparr>submitter_transactions := t'\<rparr>)"
    by (simp add: tss_le_def list_all2_le_exists)
  show "tss_le s (s\<lparr>submitter_transactions := submitter_transactions s @ rows\<rparr>)"
    unfolding tss_le_def by (auto intro: row_le_refl)
qed (auto simp: tss_le_def tss_rollback_def set_defs row_le_def intro: row_le_refl)

interpretation constraints: tx_store_relation "\<lambda>s s'. tss_db_ok s \<longrightarrow> tss_db_ok s'" "\<lambda>_ _. True"
  by unfold_locales (auto simp: tss_db_ok_def tss_rollback_def)

section \<open>Keeping the constraints by an update\<close>

lemma map_filter_Cons: "somes (x # xs) = (case x of None \<Rightarrow> somes xs | Some y \<Rightarrow> y # somes xs)"
  by (simp add: somes_def List.map_filter_def split: option.splits)

lemma set_somes [simp]: "set (somes xs) = {y. Some y \<in> set xs}"
  by (induction xs) (auto simp: map_filter_Cons somes_def List.map_filter_def split: option.splits)

lemma somes_Nil [simp]: "somes [] = []"
  by (simp add: somes_def List.map_filter_def)

lemma distinct_somes_update:
  assumes "distinct (somes (map k t))" and "\<And>r. r \<in> set t \<Longrightarrow> k (g r) = k r \<or> k (g r) = None"
  shows "distinct (somes (map k (map g t)))"
  using assms
proof (induction t)
  case (Cons r t)
  have sub: "Some y \<in> k ` g ` set t \<Longrightarrow> Some y \<in> k ` set t" for y
    using Cons.prems(2) by fastforce
  have IH: "distinct (somes (map k (map g t)))"
    using Cons by (simp add: map_filter_Cons split: option.splits)
  show ?case
  proof (cases "k (g r)")
    case None
    with IH show ?thesis by (simp add: map_filter_Cons)
  next
    case (Some y)
    with Cons.prems(2) [of r] have "k r = Some y" by simp
    with Cons.prems(1) have "Some y \<notin> k ` set t" by (auto simp: map_filter_Cons)
    with sub [of y] IH Some show ?thesis by (auto simp: map_filter_Cons)
  qed
qed simp

lemma distinct_filter_update:
  assumes "distinct (map f (filter Q t))" and "\<And>r. f (g r) = f r" and "\<And>r. r \<in> set t \<Longrightarrow> Q (g r) \<Longrightarrow> Q r"
  shows "distinct (map f (filter Q (map g t)))"
  using assms(1,3)
proof (induction t)
  case (Cons r t)
  have "f ` {x \<in> g ` set t. Q x} \<subseteq> f ` {x \<in> set t. Q x}"
    using Cons.prems(2) assms(2) by force
  with Cons assms(2) show ?case by (auto split: if_splits)
qed simp

lemma tx_unique_ok_update:
  assumes "tx_unique_ok t"
    and "\<And>r. tx_id (g r) = tx_id r \<and> tx_external_id (g r) = tx_external_id r"
    and "\<And>r. r \<in> set t \<Longrightarrow> tx_status (g r) = TransactionStatusError \<or> tx_status r \<noteq> TransactionStatusError"
    and "\<And>r. r \<in> set t \<Longrightarrow> tx_stellar_transaction_hash (g r) \<in> {tx_stellar_transaction_hash r, None}"
    and "\<And>r. r \<in> set t \<Longrightarrow> tx_xdr_sent (g r) \<in> {tx_xdr_sent r, None}"
    and "\<And>r. r \<in> set t \<Longrightarrow> tx_xdr_received (g r) \<in> {tx_xdr_received r, None}"
  shows "tx_unique_ok (map g t)"
proof -
  have "distinct (map tx_external_id (filter (\<lambda>r. tx_status r \<noteq> TransactionStatusError) (map g t)))"
    using assms(1-3) by (intro distinct_filter_update) (auto simp: tx_unique_ok_def)
  moreover have "map tx_id (map g t) = map tx_id t"
    using assms(2) by simp
  moreover have "distinct (somes (map tx_stellar_transaction_hash (map g t)))"
    "distinct (somes (map tx_xdr_sent (map g t)))" "distinct (somes (map tx_xdr_received (map g t)))"
    using assms(1) assms(4-6) by (intro distinct_somes_update; auto simp: tx_unique_ok_def)+
  ultimately show ?thesis
    using assms(1) unfolding tx_unique_ok_def by metis
qed


section \<open>Locks exclude each other\<close>

definition tx_locked :: "'z tss_db_scheme \<Rightarrow> string \<Rightarrow> int \<Rightarrow> bool" where
  "tx_locked s i ledger \<longleftrightarrow>
     (\<exists>r \<in> set (submitter_transactions s). tx_id r = i) \<and>
     (\<forall>r \<in> set (submitter_transactions s). tx_id r = i \<longrightarrow> Transaction_IsLocked r ledger)"

lemma filter_IsLocked:
  "TransactionModel_queryFilterForLockedState locked n r \<longleftrightarrow> (Transaction_IsLocked r n \<longleftrightarrow> locked)"
  by (auto simp: TransactionModel_queryFilterForLockedState_def Transaction_IsLocked_def split: option.splits)

lemma unique_by_key:
  "distinct (map k t) \<Longrightarrow> a \<in> set t \<Longrightarrow> b \<in> set t \<Longrightarrow> k a = k b \<Longrightarrow> a = b"
  by (metis distinct_map inj_on_def)

lemma tx_table_ok_ids: "tx_table_ok t \<Longrightarrow> distinct (map tx_id t)"
  by (simp add: tx_table_ok_def tx_unique_ok_def)

text \<open>A successful update by id under the constraints: exactly the row that matched is rewritten.\<close>

lemma updated_row_unique:
  assumes "t' = tx_updated P f now t" and "tx_table_ok t'" and "\<And>r. tx_id (touched f now r) = tx_id r"
    and "row \<in> set t" and "P row" and "r' \<in> set t'" and "tx_id r' = tx_id row"
  shows "r' = touched f now row"
proof -
  have "touched f now row \<in> set t'"
    using assms(1,4,5) by (auto simp: tx_updated_touched)
  with assms show ?thesis
    by (intro unique_by_key [OF tx_table_ok_ids [OF assms(2)]]) auto
qed

lemma TransactionModel_Lock_success:
  assumes "TransactionModel_Lock i c n s = (Inr r, s')"
  obtains row fs where "row \<in> set (submitter_transactions s)" and "tx_id row = i" and "tx_lockable c row"
    and "r = touched (set_locked n) (conn_now s) row"
    and "s' = s\<lparr>conn_faults := fs, submitter_transactions :=
           tx_updated (\<lambda>r. tx_id r = i \<and> tx_lockable c r) (set_locked n) (conn_now s) (submitter_transactions s)\<rparr>"
    and "tx_table_ok (submitter_transactions s')"
  using assms unfolding TransactionModel_Lock_def
  by (elim not_found_or_wrap_cases tx_update_returning_cases) (auto simp: touched_def intro: that)

lemma TransactionModel_Lock_error:
  assumes "TransactionModel_Lock i c n s = (Inl e, s')" and "tx_locked s i c"
  shows "submitter_transactions s' = submitter_transactions s"
proof -
  have "tx_updated (\<lambda>r. tx_id r = i \<and> tx_lockable c r) f now (submitter_transactions s) = submitter_transactions s" for f now
    using assms(2) unfolding tx_updated_def
    by (intro sql_update_not_matching) (auto simp: tx_locked_def tx_lockable_def filter_IsLocked)
  with assms(1) show ?thesis
    unfolding TransactionModel_Lock_def
    by (elim not_found_or_wrap_cases tx_update_returning_cases) auto
qed

interpretation tx_lock: lock_table TransactionModel_Lock tx_locked "\<lambda>_. True"
proof
  fix i c n r m e and s s' :: "'a tss_db_scheme"
  assume ok: "TransactionModel_Lock i c n s = (Inr r, s')"
  then obtain row fs where row: "row \<in> set (submitter_transactions s)" "tx_id row = i" "tx_lockable c row"
    and s': "s' = s\<lparr>conn_faults := fs, submitter_transactions :=
           tx_updated (\<lambda>r. tx_id r = i \<and> tx_lockable c r) (set_locked n) (conn_now s) (submitter_transactions s)\<rparr>"
    and tok: "tx_table_ok (submitter_transactions s')"
    by (rule TransactionModel_Lock_success)
  from row show "\<not> tx_locked s i c"
    by (auto simp: tx_locked_def tx_lockable_def filter_IsLocked)
  have "r' = touched (set_locked n) (conn_now s) row"
    if "r' \<in> set (submitter_transactions s')" and "tx_id r' = i" for r'
    using that row tok s'
    by (intro updated_row_unique [where P = "\<lambda>r. tx_id r = i \<and> tx_lockable c r"]) (auto simp: touched_def set_locked_def)
  moreover have "touched (set_locked n) (conn_now s) row \<in> set (submitter_transactions s')"
    using row s' by (auto simp: tx_updated_touched)
  moreover assume "m \<le> n"
  then have "tx_id (touched (set_locked n) (conn_now s) row) = i"
    and "Transaction_IsLocked (touched (set_locked n) (conn_now s) row) m"
    using row by (simp_all add: Transaction_IsLocked_def touched_def set_locked_def)
  ultimately show "tx_locked s' i m"
    unfolding tx_locked_def by metis
next
  fix i c n m e and s s' :: "'a tss_db_scheme"
  assume "TransactionModel_Lock i c n s = (Inl e, s')" and "tx_locked s i c"
  then show "tx_locked s i m = tx_locked s' i m"
    by (simp add: tx_locked_def TransactionModel_Lock_error)
qed

text \<open>C32: a transaction locked until ledger \<open>n\<close> cannot be locked again at any ledger up to \<open>n\<close>: every
  attempt in any sequence of attempts returns an error, whatever database faults happen meanwhile.
  At the moment it was locked it was not locked for the current ledger.\<close>

theorem transaction_lock_excludes:
  assumes "TransactionModel_Lock i c n s = (Inr r, s')" and "list_all (\<lambda>(c', m). c' \<le> n) cs"
  shows "\<not> tx_locked s i c \<and> list_all isl (fst (lock_attempts TransactionModel_Lock i cs s'))"
  using assms tx_lock.lock_was_free tx_lock.lock_exclusive [OF TrueI assms(1), of cs] by (fastforce simp: list_all_iff)


section \<open>A small concrete database\<close>

text \<open>Used to evaluate the operations on an input: one pending payment, one channel account.\<close>

definition example_sdk :: stellar_sdk where
  "example_sdk = \<lparr>IsValidEd25519PublicKey = (\<lambda>a. length a = 56), IsValidContractAddress = (\<lambda>a. False),
     decodes_InvokeHostFunctionOp = (\<lambda>x. True), decodes_TransactionEnvelope = (\<lambda>x. True),
     decodes_TransactionResult = (\<lambda>x. True), error_text = (\<lambda>e. []),
     horizonclient_GetError = (\<lambda>e. case e of HorizonClientError p r \<Rightarrow> Some (p, r) | _ \<Rightarrow> None)\<rparr>"

definition example_payment :: Payment where
  "example_payment = \<lparr>AssetCode = ''XLM'', AssetIssuer = [], Amount = 5, Destination = replicate 56 CHR ''G'',
     PMemo = [], PMemoType = []\<rparr>"

definition example_request :: "string \<Rightarrow> Transaction" where
  "example_request ext =
     \<lparr>tx_id = [], tx_external_id = ext, tx_status = [], tx_status_message = None, tx_status_history = [],
      tx_type = TransactionTypePayment, tx_payment = example_payment,
      tx_wallet_creation = \<lparr>PublicKey = [], WasmHash = []\<rparr>,
      tx_sponsored = \<lparr>SponsoredAccount = [], SponsoredOperationXDR = []\<rparr>,
      tx_tenant_id = ''tenant'', tx_distribution_account = None, tx_created_at = 0, tx_updated_at = 0,
      tx_started_at = None, tx_sent_at = None, tx_completed_at = None, tx_synced_at = None,
      tx_attempts_count = 0, tx_stellar_transaction_hash = None, tx_xdr_sent = None, tx_xdr_received = None,
      tx_locked_at = None, tx_locked_until_ledger_number = None\<rparr>"

definition example_row :: Transaction where
  "example_row = inserted_row ''a'' 0 5 (example_request ''p1'')"

definition example_account :: ChannelAccount where
  "example_account = \<lparr>ca_public_key = ''C'', ca_private_key = ''S'', ca_updated_at = 0, ca_created_at = 0,
     ca_locked_at = None, ca_locked_until_ledger_number = None\<rparr>"

definition example_db :: tss_db where
  "example_db = \<lparr>conn_now = 7, conn_faults = [], conn_held = [], conn_uuid = (\<lambda>n. replicate (Suc n) CHR ''u''),
     conn_uuid_next = 0, submitter_transactions = [example_row], channel_accounts = [example_account]\<rparr>"

lemmas example_defs = example_sdk_def example_payment_def example_request_def example_row_def
  example_account_def example_db_def inserted_row_def status_history_entry_def nullable_def

lemma example_row_ok: "tx_row_ok example_row"
  by (simp add: tx_row_ok_def example_defs TransactionStatus_All_def transaction_type_defs)

lemma example_db_ok: "tss_db_ok example_db"
  by (simp add: tss_db_ok_def tx_table_ok_def tx_unique_ok_def ca_table_ok_def example_row_ok
      example_db_def map_filter_Cons)
    (simp add: example_defs)

lemma example_lock: "TransactionModel_Lock ''a'' 10 20 example_db =
    (Inr (touched (set_locked 20) 7 example_row),
     example_db\<lparr>submitter_transactions := [touched (set_locked 20) 7 example_row]\<rparr>)"
proof -
  have "tx_lockable 10 example_row" and "tx_id example_row = ''a''"
    by (simp_all add: tx_lockable_def TransactionModel_queryFilterForLockedState_def example_defs)
  moreover have "tx_table_ok [touched (set_locked 20) 7 example_row]"
    using example_row_ok
    by (simp add: tx_table_ok_def tx_unique_ok_def map_filter_Cons tx_row_ok_def Let_def set_defs
        TransactionStatus_All_def split: option.splits)
  ultimately show ?thesis
    by (simp add: TransactionModel_Lock_def not_found_or_wrap_def handleE_def tx_update_returning_def
        Let_def ret_def sql_update_def touched_def example_db_def)
qed

theorem transaction_lock_excludes_witness:
  "\<not> tx_locked example_db ''a'' 10 \<and>
   list_all isl (fst (lock_attempts TransactionModel_Lock ''a'' [(15, 30), (20, 40)]
       (example_db\<lparr>submitter_transactions := [touched (set_locked 20) 7 example_row]\<rparr>)))"
  using transaction_lock_excludes [OF example_lock, of "[(15, 30), (20, 40)]"] by simp


section \<open>Insertion\<close>

lemma inserted_rows_facts:
  "inserted_rows uuid n now txs = Some rows \<Longrightarrow>
     map tx_external_id rows = map tx_external_id txs \<and> map tx_type rows = map tx_type txs \<and>
     map tx_tenant_id rows = map tx_tenant_id txs \<and>
     list_all (\<lambda>r. tx_status r = TransactionStatusPending \<and> tx_stellar_transaction_hash r = None \<and>
       tx_synced_at r = None \<and> tx_locked_until_ledger_number r = None) rows"
  by (induction txs arbitrary: n rows) (auto simp: inserted_row_def split: option.splits)

lemma validate_all_ok: "validate_all sdk txs = Inr () \<longleftrightarrow> list_all (\<lambda>tx. Transaction_validate sdk tx = Inr ()) txs"
  by (induction txs) (auto split: sum.splits)

lemma insert_statement_cases:
  assumes "insert_statement txs s = (x, s')"
  obtains (failed) e where "x = Inl e" and "submitter_transactions s' = submitter_transactions s"
  | (inserted) rows where "submitter_transactions s' = submitter_transactions s @ rows"
      and "tx_table_ok (submitter_transactions s')" and "x = Inl DriverError \<or> x = Inr rows"
      and "inserted_rows (conn_uuid s) (conn_uuid_next s) (conn_now s) txs = Some rows"
  using assms unfolding insert_statement_def
  by (elim db_call_cases) (auto simp: Let_def split: option.splits if_splits intro: that)

text \<open>A batch is inserted completely or not at all, whatever fault happens. When rows
  were added, every transaction of the batch passed the validation; the table is the old one followed by the
  returned rows, which carry the external ids, tenants and types asked for in their order, are
  pending, unlocked, unsynced and without a hash, and external ids stay unique among the rows that
  did not end in error.\<close>

theorem BulkInsert_atomic:
  assumes "TransactionModel_BulkInsert sdk txs s = (x, s')"
  shows "(\<exists>rows. submitter_transactions s' = submitter_transactions s @ rows \<and>
       (rows = [] \<or>
         tx_table_ok (submitter_transactions s') \<and>
         list_all (\<lambda>tx. Transaction_validate sdk tx = Inr ()) txs \<and>
         map tx_external_id rows = map tx_external_id txs \<and> map tx_type rows = map tx_type txs \<and>
         map tx_tenant_id rows = map tx_tenant_id txs \<and>
         list_all (\<lambda>r. tx_status r = TransactionStatusPending \<and> tx_stellar_transaction_hash r = None \<and>
           tx_synced_at r = None \<and> tx_locked_until_ledger_number r = None) rows)) \<and>
     (\<forall>rs. x = Inr rs \<longrightarrow> submitter_transactions s' = submitter_transactions s @ rs \<and> length rs = length txs)"
proof (cases "txs = [] \<or> validate_all sdk txs \<noteq> Inr ()")
  case True
  with assms show ?thesis
    by (cases "validate_all sdk txs") (auto simp: TransactionModel_BulkInsert_def ret_def throw_def split: if_splits)
next
  case False
  with assms have "wrapE ''inserting transactions'' (insert_statement txs) s = (x, s')"
    by (simp add: TransactionModel_BulkInsert_def)
  then obtain y where "insert_statement txs s = (y, s')" and xy: "\<forall>rs. x = Inr rs \<longrightarrow> y = Inr rs"
    by (cases rule: wrapE_cases) auto
  from this(1) show ?thesis
  proof (cases rule: insert_statement_cases)
    case failed
    with xy show ?thesis by auto
  next
    case (inserted rows)
    note facts = inserted_rows_facts [OF inserted(4)]
    then have "length rows = length txs" by (metis length_map)
    with inserted xy have "\<forall>rs. x = Inr rs \<longrightarrow> submitter_transactions s' = submitter_transactions s @ rs \<and> length rs = length txs"
      by auto
    with inserted(1,2) facts False show ?thesis by (auto simp: validate_all_ok)
  qed
qed

lemma example_evaluations: "ToLower ''XLM'' = ''xlm''" "numeric_19_7 5 = Some 5"
  by code_simp+

lemma example_insert_validates: "Transaction_validate example_sdk (example_request ext) = (if ext = [] then Inl (Errorf ''external ID is required'') else Inr ())"
  by (simp add: Transaction_validate_def Payment_validate_def wrap_result_def example_defs
      example_evaluations)

lemma example_insert_rows:
  "inserted_rows uuid n now [example_request ext] = Some [inserted_row (uuid n) now 5 (example_request ext)]"
  by (simp add: example_request_def example_payment_def example_evaluations)

definition example_batch :: "(go_error + Transaction list) \<times> tss_db" where
  "example_batch = TransactionModel_BulkInsert example_sdk [example_request ''p2'']
     (example_db\<lparr>submitter_transactions := []\<rparr>)"

lemma example_batch_value:
  "example_batch = (Inr [inserted_row ''u'' 7 5 (example_request ''p2'')],
     example_db\<lparr>conn_uuid_next := 1, submitter_transactions := [inserted_row ''u'' 7 5 (example_request ''p2'')]\<rparr>)"
proof -
  have "tx_table_ok [inserted_row ''u'' 7 5 (example_request ''p2'')]"
    by (simp add: tx_table_ok_def tx_unique_ok_def map_filter_Cons tx_row_ok_def Let_def example_defs
        TransactionStatus_All_def transaction_type_defs)
  then show ?thesis
    by (simp add: example_batch_def TransactionModel_BulkInsert_def example_insert_validates wrapE_def
        insert_statement_def example_insert_rows Let_def handleE_def ret_def example_db_def del: inserted_rows.simps)
qed

theorem BulkInsert_atomic_witness:
  "submitter_transactions (snd example_batch) = [inserted_row ''u'' 7 5 (example_request ''p2'')]"
  using BulkInsert_atomic [of example_sdk "[example_request ''p2'']" "example_db\<lparr>submitter_transactions := []\<rparr>"
      "fst example_batch" "snd example_batch"]
  by (simp add: example_batch_def [symmetric] example_batch_value)

section \<open>Synchronisation\<close>

lemma card_filter_distinct_key:
  assumes "distinct (map k t)" and "length (filter (\<lambda>r. k r \<in> set ks \<and> Q r) t) = length ks"
  shows "distinct ks" and "\<forall>x \<in> set ks. \<exists>r \<in> set t. k r = x \<and> Q r"
proof -
  let ?rs = "filter (\<lambda>r. k r \<in> set ks \<and> Q r) t"
  have "distinct (map k ?rs)" using assms(1) by (induction t) auto
  then have n: "card (k ` set ?rs) = length ks"
    by (metis assms(2) distinct_card length_map set_map)
  have sub: "k ` set ?rs \<subseteq> set ks" by auto
  have "length ks \<le> card (set ks)"
    using card_mono [OF _ sub] n by simp
  then have eq: "card (set ks) = length ks"
    by (simp add: card_length le_antisym)
  then show "distinct ks" by (rule card_distinct)
  have "k ` set ?rs = set ks"
    using sub n eq by (intro card_subset_eq) auto
  then show "\<forall>x \<in> set ks. \<exists>r \<in> set t. k r = x \<and> Q r"
    by (auto simp: image_def set_eq_iff) metis
qed


lemma UpdateSynced_success:
  assumes "TransactionModel_UpdateSyncedTransactions is s = (Inr (), s')"
  obtains fs where "is \<noteq> []"
    and "length (filter (\<lambda>r. tx_id r \<in> set is \<and> tx_status r \<in> {TransactionStatusSuccess, TransactionStatusError})
      (submitter_transactions s)) = length is"
    and "s' = s\<lparr>conn_faults := fs, submitter_transactions :=
        tx_updated (\<lambda>r. tx_id r \<in> set is \<and> tx_status r \<in> {TransactionStatusSuccess, TransactionStatusError})
          (\<lambda>now r. r\<lparr>tx_synced_at := Some now\<rparr>) (conn_now s) (submitter_transactions s)\<rparr>"
    and "tx_table_ok (submitter_transactions s')"
proof (cases "is = []")
  case True
  with assms show ?thesis by (simp add: TransactionModel_UpdateSyncedTransactions_def throw_def)
next
  case False
  let ?P = "\<lambda>r. tx_id r \<in> set is \<and> tx_status r \<in> {TransactionStatusSuccess, TransactionStatusError}"
  obtain x s1 where w: "wrapE ''updating transactions'' (tx_update_exec ?P (\<lambda>now r. r\<lparr>tx_synced_at := Some now\<rparr>)) s = (x, s1)"
    by fastforce
  with assms False obtain n where "x = Inr n" "n = length is" "s1 = s'"
    by (cases x) (auto simp: TransactionModel_UpdateSyncedTransactions_def bindE_def throw_def ret_def split: if_splits)
  with w have "tx_update_exec ?P (\<lambda>now r. r\<lparr>tx_synced_at := Some now\<rparr>) s = (Inr (length is), s')"
    by (auto elim: wrapE_cases)
  then show ?thesis
    by (cases rule: tx_update_exec_cases) (use False in \<open>auto intro: that\<close>)
qed


definition example_done :: tss_db where
  "example_done = example_db\<lparr>submitter_transactions := [example_row\<lparr>tx_status := TransactionStatusSuccess\<rparr>]\<rparr>"


end
