(* ===== verification/Tx_Errors.thy ===== *)
theory Tx_Errors
  imports Tx_Store_Props
begin

text \<open>
  Errors of the submission (\<open>src/internal/transactionsubmission/utils/errors.go\<close>) and of the RPC
  simulation (\<open>src/internal/stellar/rpc.go\<close>): the wrappers that classify a Horizon or RPC error as
  retryable, terminal, worth a crash report or a sign of congestion, the categories of a simulation
  error, and the texts stored as status messages. Lemmas: wrapping is idempotent through any chain of
  wrapped errors, and how the classes relate.
\<close>

section \<open>Horizon errors\<close>

record horizon_error =
  hw_StatusCode :: int
  hw_Problem :: problem
  hw_Err :: go_error
  hw_ResultCodes :: "result_codes option"

definition of_horizon_error :: "horizon_error \<Rightarrow> go_error" where
  "of_horizon_error w = HorizonErrorWrapper (hw_StatusCode w) (hw_Problem w) (hw_Err w) (hw_ResultCodes w)"

definition as_horizon_error :: "go_error \<Rightarrow> horizon_error option" where
  "as_horizon_error err = error_as (\<lambda>e. case e of
       HorizonErrorWrapper c p i r \<Rightarrow> Some \<lparr>hw_StatusCode = c, hw_Problem = p, hw_Err = i, hw_ResultCodes = r\<rparr>
     | _ \<Rightarrow> None) err"

definition NewHorizonErrorWrapper :: "stellar_sdk \<Rightarrow> go_error \<Rightarrow> horizon_error" where
  "NewHorizonErrorWrapper sdk err =
     (case as_horizon_error err of
        Some existingHorizonErr \<Rightarrow> existingHorizonErr
      | None \<Rightarrow>
          (case horizonclient_GetError sdk err of
             None \<Rightarrow> \<lparr>hw_StatusCode = 0, hw_Problem = empty_problem, hw_Err = err, hw_ResultCodes = None\<rparr>
           | Some (p, resultCodes) \<Rightarrow>
               \<lparr>hw_StatusCode = prob_status p, hw_Problem = p, hw_Err = err, hw_ResultCodes = resultCodes\<rparr>))"

definition IsHorizonError :: "horizon_error \<Rightarrow> bool" where
  "IsHorizonError e = (hw_Problem e \<noteq> empty_problem)"

definition IsNotFound :: "horizon_error \<Rightarrow> bool" where
  "IsNotFound e = (IsHorizonError e \<and> hw_StatusCode e = 404)"

definition IsRateLimit :: "horizon_error \<Rightarrow> bool" where
  "IsRateLimit e = (IsHorizonError e \<and> hw_StatusCode e = 429)"

definition IsGatewayTimeout :: "horizon_error \<Rightarrow> bool" where
  "IsGatewayTimeout e = (IsHorizonError e \<and> hw_StatusCode e = 504)"

definition HasResultCodes :: "horizon_error \<Rightarrow> bool" where
  "HasResultCodes e = (IsHorizonError e \<and> hw_ResultCodes e \<noteq> None)"

text \<open>The two shapes of the code tests: one of the transaction codes, or an operation code.\<close>

definition tx_code_in :: "string list \<Rightarrow> horizon_error \<Rightarrow> bool" where
  "tx_code_in codes e = (case hw_ResultCodes e of None \<Rightarrow> False
     | Some r \<Rightarrow> TransactionCode r \<in> set codes \<or> InnerTransactionCode r \<in> set codes)"

definition op_code_in :: "string list \<Rightarrow> horizon_error \<Rightarrow> bool" where
  "op_code_in codes e = (case hw_ResultCodes e of None \<Rightarrow> False
     | Some r \<Rightarrow> list_ex (\<lambda>c. c \<in> set codes) (OperationCodes r))"

definition IsNotEnoughLumens :: "horizon_error \<Rightarrow> bool" where
  "IsNotEnoughLumens e = (HasResultCodes e \<and> (tx_code_in [''tx_insufficient_balance''] e \<or> op_code_in [''op_underfunded''] e))"

definition IsNoSourceAccount :: "horizon_error \<Rightarrow> bool" where
  "IsNoSourceAccount e = (HasResultCodes e \<and> (tx_code_in [''tx_no_source_account''] e \<or> op_code_in [''op_no_source_account''] e))"

definition IsNoIssuer :: "horizon_error \<Rightarrow> bool" where
  "IsNoIssuer e = (HasResultCodes e \<and> op_code_in [''op_no_issuer''] e)"

definition IsSourceAccountNotAuthorized :: "horizon_error \<Rightarrow> bool" where
  "IsSourceAccountNotAuthorized e = (HasResultCodes e \<and> op_code_in [''op_src_not_authorized''] e)"

definition IsSourceNoTrustline :: "horizon_error \<Rightarrow> bool" where
  "IsSourceNoTrustline e = (HasResultCodes e \<and> op_code_in [''op_src_no_trust''] e)"

definition IsDestinationAccountNotAuthorized :: "horizon_error \<Rightarrow> bool" where
  "IsDestinationAccountNotAuthorized e = (HasResultCodes e \<and> op_code_in [''op_not_authorized''] e)"

definition IsDestinationNoTrustline :: "horizon_error \<Rightarrow> bool" where
  "IsDestinationNoTrustline e = (HasResultCodes e \<and> op_code_in [''op_no_trust''] e)"

definition IsLineFull :: "horizon_error \<Rightarrow> bool" where
  "IsLineFull e = (HasResultCodes e \<and> op_code_in [''op_line_full''] e)"

definition IsNoDestinationAccount :: "horizon_error \<Rightarrow> bool" where
  "IsNoDestinationAccount e = (HasResultCodes e \<and> op_code_in [''op_no_destination''] e)"

definition IsBadAuthentication :: "horizon_error \<Rightarrow> bool" where
  "IsBadAuthentication e = (HasResultCodes e \<and> (tx_code_in [''tx_bad_auth'', ''tx_bad_auth_extra''] e \<or> op_code_in [''op_bad_auth''] e))"

definition IsTxInsufficientFee :: "horizon_error \<Rightarrow> bool" where
  "IsTxInsufficientFee e = (HasResultCodes e \<and> tx_code_in [''tx_insufficient_fee''] e)"

definition IsBadSequence :: "horizon_error \<Rightarrow> bool" where
  "IsBadSequence e = (HasResultCodes e \<and> tx_code_in [''tx_bad_seq''] e)"

definition IsSourceAccountNotReady :: "horizon_error \<Rightarrow> bool" where
  "IsSourceAccountNotReady e =
     (IsNotEnoughLumens e \<or> IsNoSourceAccount e \<or> IsSourceAccountNotAuthorized e \<or> IsSourceNoTrustline e)"

definition IsDestinationAccountNotReady :: "horizon_error \<Rightarrow> bool" where
  "IsDestinationAccountNotReady e =
     (IsDestinationAccountNotAuthorized e \<or> IsDestinationNoTrustline e \<or> IsNoDestinationAccount e \<or> IsLineFull e)"

definition IsEntryArchived :: "horizon_error \<Rightarrow> bool" where
  "IsEntryArchived e = (HasResultCodes e \<and> op_code_in [''entry_archived''] e)"

definition failedTxErrCodes :: "string list" where
  "failedTxErrCodes = [''tx_bad_auth'', ''tx_bad_auth_extra'', ''tx_insufficient_balance'']"

definition failedOpCodes :: "string list" where
  "failedOpCodes = [''op_bad_auth'', ''op_underfunded'', ''op_src_not_authorized'', ''op_no_destination'',
     ''op_no_trust'', ''op_line_full'', ''op_not_authorized'', ''op_no_issuer'', ''function_trapped'']"

definition HorizonError_ShouldMarkAsError :: "horizon_error \<Rightarrow> bool" where
  "HorizonError_ShouldMarkAsError e =
     (hw_ResultCodes e \<noteq> None \<and> (tx_code_in failedTxErrCodes e \<or> op_code_in failedOpCodes e))"

definition HorizonError_IsRetryable :: "horizon_error \<Rightarrow> bool" where
  "HorizonError_IsRetryable e = (\<not> IsHorizonError e \<or> \<not> HorizonError_ShouldMarkAsError e)"

definition HorizonError_ShouldReportToCrashTracker :: "horizon_error \<Rightarrow> bool" where
  "HorizonError_ShouldReportToCrashTracker e = (HorizonError_ShouldMarkAsError e \<and> \<not> IsDestinationAccountNotReady e)"

section \<open>Simulation and RPC errors\<close>

definition SimulationError_IsRetryable :: "sim_error_type \<Rightarrow> bool" where
  "SimulationError_IsRetryable t = (t \<in> {SimNetwork, SimResource})"

definition isTransactionInvalidError :: "string \<Rightarrow> bool" where
  "isTransactionInvalidError err = ContainsAny err [''unmarshal'', ''parse'', ''decode'', ''invalid transaction'']"

definition isAuthError :: "string \<Rightarrow> bool" where
  "isAuthError err = ContainsAny err [''authorization'', ''signature'', ''unauthorized'']"

definition isContractExecutionError :: "string \<Rightarrow> bool" where
  "isContractExecutionError err = ContainsAny err
     [''contract execution failed'', ''contract error'', ''contract panic'', ''hosterror: error(storage,'',
      ''contract already exists'', ''wasm does not exist'', ''existingvalue)'', ''missingvalue)'']"

definition isResourceError :: "string \<Rightarrow> bool" where
  "isResourceError err = ContainsAny err
     [''resource'', ''cpu limit'', ''memory limit'', ''instructions limit'', ''limit exceeded'']"

definition categorizeSimulationError :: "string \<Rightarrow> sim_error_type" where
  "categorizeSimulationError msg =
     (if msg = [] then SimUnknown
      else let msgLower = ToLower msg in
        if isContractExecutionError msgLower then SimContractExecution
        else if isResourceError msgLower then SimResource
        else if isTransactionInvalidError msgLower then SimTransactionInvalid
        else if isAuthError msgLower then SimAuth
        else SimUnknown)"

text \<open>\<open>NewSimulationError(err, response)\<close>; of the response only its \<open>Error\<close> text is read, a nil response
  is \<open>None\<close>.\<close>

definition NewSimulationError :: "go_error option \<Rightarrow> string option \<Rightarrow> sim_error_type \<times> go_error option" where
  "NewSimulationError err response =
     (let errorType = (case err of
          Some _ \<Rightarrow> (case response of
              Some msg \<Rightarrow> if msg \<noteq> [] then categorizeSimulationError msg else SimNetwork
            | None \<Rightarrow> SimNetwork)
        | None \<Rightarrow> SimUnknown)
      in (errorType, err))"

record rpc_error =
  rw_SimulationError :: "(sim_error_type \<times> go_error option) option"
  rw_Err :: go_error

definition of_rpc_error :: "rpc_error \<Rightarrow> go_error" where
  "of_rpc_error w = RPCErrorWrapper (rw_SimulationError w) (rw_Err w)"

definition as_rpc_error :: "go_error \<Rightarrow> rpc_error option" where
  "as_rpc_error err = error_as (\<lambda>e. case e of
       RPCErrorWrapper t i \<Rightarrow> Some \<lparr>rw_SimulationError = t, rw_Err = i\<rparr> | _ \<Rightarrow> None) err"

definition as_simulation_error :: "go_error \<Rightarrow> (sim_error_type \<times> go_error option) option" where
  "as_simulation_error err = error_as (\<lambda>e. case e of SimulationError t i \<Rightarrow> Some (t, i) | _ \<Rightarrow> None) err"

definition NewRPCErrorWrapper :: "go_error \<Rightarrow> rpc_error" where
  "NewRPCErrorWrapper err =
     (case as_rpc_error err of
        Some existingWrapper \<Rightarrow> existingWrapper
      | None \<Rightarrow>
          (case as_simulation_error err of
             Some simErr \<Rightarrow> \<lparr>rw_SimulationError = Some simErr, rw_Err = err\<rparr>
           | None \<Rightarrow> \<lparr>rw_SimulationError = None, rw_Err = err\<rparr>))"

definition IsRPCError :: "rpc_error \<Rightarrow> bool" where
  "IsRPCError e = (rw_SimulationError e \<noteq> None)"

definition RPCError_IsGatewayTimeout :: "rpc_error \<Rightarrow> bool" where
  "RPCError_IsGatewayTimeout e = (case rw_SimulationError e of None \<Rightarrow> False | Some (t, _) \<Rightarrow> t = SimNetwork)"

definition RPCError_ShouldMarkAsError :: "rpc_error \<Rightarrow> bool" where
  "RPCError_ShouldMarkAsError e = (case rw_SimulationError e of None \<Rightarrow> False
     | Some (t, _) \<Rightarrow> t \<in> {SimTransactionInvalid, SimAuth, SimContractExecution})"

definition RPCError_IsRetryable :: "rpc_error \<Rightarrow> bool" where
  "RPCError_IsRetryable e = (\<not> RPCError_ShouldMarkAsError e)"

definition RPCError_ShouldReportToCrashTracker :: "rpc_error \<Rightarrow> bool" where
  "RPCError_ShouldReportToCrashTracker e = RPCError_ShouldMarkAsError e"


section \<open>Texts\<close>

fun nat_text :: "nat \<Rightarrow> string" where
  "nat_text n = (if n < 10 then [char_of (48 + n)] else nat_text (n div 10) @ [char_of (48 + n mod 10)])"

declare nat_text.simps [simp del]

definition int_text :: "int \<Rightarrow> string" where
  "int_text i = (if i < 0 then ''-'' @ nat_text (nat (- i)) else nat_text (nat i))"

fun strings_Join :: "string \<Rightarrow> string list \<Rightarrow> string" where
  "strings_Join sep [] = []"
| "strings_Join sep [x] = x"
| "strings_Join sep (x # y # xs) = x @ sep @ strings_Join sep (y # xs)"

definition handleExtrasResultCodes :: "horizon_error \<Rightarrow> string" where
  "handleExtrasResultCodes e =
     (case hw_ResultCodes e of None \<Rightarrow> []
      | Some r \<Rightarrow>
          if \<not> HasResultCodes e then []
          else let extras =
              (if TransactionCode r \<noteq> [] then [''transaction: '' @ TransactionCode r] else []) @
              (if InnerTransactionCode r \<noteq> [] then [''inner transaction: '' @ InnerTransactionCode r] else []) @
              (if OperationCodes r \<noteq> [] then [''operation codes: [ '' @ strings_Join '', '' (OperationCodes r) @ '' ]''] else [])
            in if extras \<noteq> [] then '', Extras='' @ strings_Join '' - '' extras else [])"

definition HorizonErrorWrapper_Error :: "stellar_sdk \<Rightarrow> horizon_error \<Rightarrow> string" where
  "HorizonErrorWrapper_Error sdk e =
     (if \<not> IsHorizonError e then ''horizon response error: '' @ error_text sdk (hw_Err e)
      else ''horizon response error: StatusCode='' @ int_text (hw_StatusCode e) @
        (if prob_type (hw_Problem e) \<noteq> [] then '', Type='' @ prob_type (hw_Problem e) else []) @
        (if prob_title (hw_Problem e) \<noteq> [] then '', Title='' @ prob_title (hw_Problem e) else []) @
        (if prob_detail (hw_Problem e) \<noteq> [] then '', Detail='' @ prob_detail (hw_Problem e) else []) @
        (if HasResultCodes e then handleExtrasResultCodes e else []))"

fun sim_type_text :: "sim_error_type \<Rightarrow> string" where
  "sim_type_text SimNetwork = ''network''"
| "sim_type_text SimTransactionInvalid = ''transaction_invalid''"
| "sim_type_text SimAuth = ''auth''"
| "sim_type_text SimContractExecution = ''contract_execution''"
| "sim_type_text SimResource = ''resource''"
| "sim_type_text SimUnknown = ''unknown''"

definition SimulationError_Error :: "stellar_sdk \<Rightarrow> sim_error_type \<times> go_error option \<Rightarrow> string" where
  "SimulationError_Error sdk e =
     (case e of
        (t, Some i) \<Rightarrow> ''simulation '' @ sim_type_text t @ '' error: '' @ error_text sdk i
      | (t, None) \<Rightarrow> ''simulation '' @ sim_type_text t @ '' error'')"

definition RPCErrorWrapper_Error :: "stellar_sdk \<Rightarrow> rpc_error \<Rightarrow> string" where
  "RPCErrorWrapper_Error sdk e =
     (case rw_SimulationError e of
        Some simErr \<Rightarrow> ''rpc simulation error: '' @ SimulationError_Error sdk simErr
      | None \<Rightarrow> ''rpc error: '' @ error_text sdk (rw_Err e))"

definition RPCError_IsRateLimit :: "stellar_sdk \<Rightarrow> rpc_error \<Rightarrow> bool" where
  "RPCError_IsRateLimit sdk e =
     (case rw_SimulationError e of
        None \<Rightarrow> False
      | Some (t, i) \<Rightarrow>
          if t = SimNetwork
          then ContainsAny (ToLower (SimulationError_Error sdk (t, i)))
                 [''rate limit'', ''too many requests'', ''throttle'', ''429'']
          else False)"

section \<open>Transaction errors\<close>

text \<open>The interface \<open>TransactionError\<close>: its two implementations.\<close>

datatype TransactionError = THorizon horizon_error | TRPC rpc_error

fun of_TransactionError :: "TransactionError \<Rightarrow> go_error" where
  "of_TransactionError (THorizon w) = of_horizon_error w"
| "of_TransactionError (TRPC w) = of_rpc_error w"

fun TransactionError_IsRetryable :: "TransactionError \<Rightarrow> bool" where
  "TransactionError_IsRetryable (THorizon w) = HorizonError_IsRetryable w"
| "TransactionError_IsRetryable (TRPC w) = RPCError_IsRetryable w"

fun TransactionError_ShouldMarkAsError :: "TransactionError \<Rightarrow> bool" where
  "TransactionError_ShouldMarkAsError (THorizon w) = HorizonError_ShouldMarkAsError w"
| "TransactionError_ShouldMarkAsError (TRPC w) = RPCError_ShouldMarkAsError w"

fun TransactionError_ShouldReportToCrashTracker :: "TransactionError \<Rightarrow> bool" where
  "TransactionError_ShouldReportToCrashTracker (THorizon w) = HorizonError_ShouldReportToCrashTracker w"
| "TransactionError_ShouldReportToCrashTracker (TRPC w) = RPCError_ShouldReportToCrashTracker w"

fun TransactionError_Error :: "stellar_sdk \<Rightarrow> TransactionError \<Rightarrow> string" where
  "TransactionError_Error sdk (THorizon w) = HorizonErrorWrapper_Error sdk w"
| "TransactionError_Error sdk (TRPC w) = RPCErrorWrapper_Error sdk w"

fun TransactionError_GetErrorType :: "TransactionError \<Rightarrow> string" where
  "TransactionError_GetErrorType (THorizon w) = ''Horizon''"
| "TransactionError_GetErrorType (TRPC w) = ''RPC''"

section \<open>Properties\<close>

lemma as_horizon_error_of [simp]: "as_horizon_error (of_horizon_error w) = Some w"
  by (simp add: as_horizon_error_def of_horizon_error_def)

lemma as_horizon_error_Wrapf [simp]: "as_horizon_error (Wrapf m e) = as_horizon_error e"
  by (simp add: as_horizon_error_def)

lemma as_rpc_error_of [simp]: "as_rpc_error (of_rpc_error w) = Some w"
  by (simp add: as_rpc_error_def of_rpc_error_def)

lemma as_rpc_error_Wrapf [simp]: "as_rpc_error (Wrapf m e) = as_rpc_error e"
  by (simp add: as_rpc_error_def)

lemma op_code_in_mono: "set cs \<subseteq> set ds \<Longrightarrow> op_code_in cs e \<Longrightarrow> op_code_in ds e"
  by (auto simp: op_code_in_def list_ex_iff split: option.splits)

lemma tx_code_in_mono: "set cs \<subseteq> set ds \<Longrightarrow> tx_code_in cs e \<Longrightarrow> tx_code_in ds e"
  by (auto simp: tx_code_in_def split: option.splits)

lemma failed_codes:
  "op_code_in [c] e \<Longrightarrow> c \<in> set failedOpCodes \<Longrightarrow> op_code_in failedOpCodes e"
  "tx_code_in cs e \<Longrightarrow> set cs \<subseteq> set failedTxErrCodes \<Longrightarrow> tx_code_in failedTxErrCodes e"
  by (auto elim!: op_code_in_mono [rotated] tx_code_in_mono [rotated])

fun wrap_all :: "string list \<Rightarrow> go_error \<Rightarrow> go_error" where
  "wrap_all [] e = e"
| "wrap_all (m # ms) e = Wrapf m (wrap_all ms e)"

lemma as_error_wrap_all [simp]:
  "as_horizon_error (wrap_all ms e) = as_horizon_error e" "as_rpc_error (wrap_all ms e) = as_rpc_error e"
  by (induction ms) auto

text \<open>A Horizon or RPC error that was classified once keeps its classification when it is wrapped
  in any number of \<open>fmt.Errorf("...: %w")\<close> and classified again, so what a caller up the stack decides
  on is what Horizon or RPC answered.\<close>

theorem wrapping_keeps_classification:
  "NewHorizonErrorWrapper sdk (wrap_all ms (of_horizon_error (NewHorizonErrorWrapper sdk err))) = NewHorizonErrorWrapper sdk err \<and>
   NewRPCErrorWrapper (wrap_all ms (of_rpc_error (NewRPCErrorWrapper err))) = NewRPCErrorWrapper err"
  by (simp add: NewHorizonErrorWrapper_def [of sdk "wrap_all ms w" for w] NewRPCErrorWrapper_def [of "wrap_all ms w" for w])



definition example_no_trust :: horizon_error where
  "example_no_trust = NewHorizonErrorWrapper example_sdk (HorizonClientError
     (empty_problem\<lparr>prob_status := 400\<rparr>)
     (Some \<lparr>TransactionCode = ''tx_failed'', InnerTransactionCode = [], OperationCodes = [''op_no_trust'']\<rparr>))"


end
