(* ===== verification/Channel_Account_Store.thy ===== *)
theory Channel_Account_Store
  imports Tx_Store_Props
begin

text \<open>
  The store of channel accounts (\<open>src/internal/transactionsubmission/store/channel_account.go\<close>): the
  accounts whose sequence numbers the submitter's transactions use, each locked for one transaction
  until a ledger number. Operations, the interpretation of the lock contract, and what insertion,
  locking and deletion do.
\<close>

section \<open>Operations\<close>

definition ChannelAccount_IsLocked :: "ChannelAccount \<Rightarrow> int \<Rightarrow> bool" where
  "ChannelAccount_IsLocked ca currentLedgerNumber =
     (case ca_locked_until_ledger_number ca of None \<Rightarrow> False | Some l \<Rightarrow> currentLedgerNumber \<le> l)"

definition ChannelAccountModel_queryFilterForLockedState :: "bool \<Rightarrow> int \<Rightarrow> ChannelAccount \<Rightarrow> bool" where
  "ChannelAccountModel_queryFilterForLockedState locked ledgerNumber r =
     (if locked
      then (case ca_locked_until_ledger_number r of None \<Rightarrow> False | Some l \<Rightarrow> l \<ge> ledgerNumber)
      else (case ca_locked_until_ledger_number r of None \<Rightarrow> True | Some l \<Rightarrow> l < ledgerNumber))"

text \<open>The statements: \<open>UPDATE ... RETURNING *\<close> read by \<open>GetContext\<close>, \<open>SELECT ... FOR UPDATE SKIP
  LOCKED\<close>, \<open>INSERT\<close> and \<open>DELETE\<close>.\<close>

definition ca_touched :: "(int \<Rightarrow> ChannelAccount \<Rightarrow> ChannelAccount) \<Rightarrow> int \<Rightarrow> ChannelAccount \<Rightarrow> ChannelAccount" where
  "ca_touched f now r = (f now r)\<lparr>ca_updated_at := now\<rparr>"

definition ca_update_returning ::
  "(ChannelAccount \<Rightarrow> bool) \<Rightarrow> (int \<Rightarrow> ChannelAccount \<Rightarrow> ChannelAccount) \<Rightarrow> ('z tss_db_scheme, go_error, ChannelAccount) prog" where
  "ca_update_returning P f = db_call (\<lambda>s.
     case filter P (channel_accounts s) of
       [] \<Rightarrow> (Inl ErrNoRows, s)
     | r # _ \<Rightarrow> (Inr (ca_touched f (conn_now s) r),
                s\<lparr>channel_accounts := sql_update P (ca_touched f (conn_now s)) (channel_accounts s)\<rparr>))"

definition ca_select_for_update :: "(ChannelAccount \<Rightarrow> bool) \<Rightarrow> ('z tss_db_scheme, go_error, ChannelAccount list) prog" where
  "ca_select_for_update P =
     db_call (getsE (\<lambda>s. filter (\<lambda>r. P r \<and> ca_public_key r \<notin> set (conn_held s)) (channel_accounts s)))"

definition new_channel_account :: "int \<Rightarrow> string \<Rightarrow> string \<Rightarrow> ChannelAccount" where
  "new_channel_account now publicKey privateKey =
     \<lparr>ca_public_key = publicKey, ca_private_key = privateKey, ca_updated_at = now, ca_created_at = now,
      ca_locked_at = None, ca_locked_until_ledger_number = None\<rparr>"

definition ca_insert_exec :: "(string \<times> string) list \<Rightarrow> ('z tss_db_scheme, go_error, unit) prog" where
  "ca_insert_exec keys = db_call (\<lambda>s.
     let t' = channel_accounts s @ map (\<lambda>(publicKey, privateKey). new_channel_account (conn_now s) publicKey privateKey) keys
     in if ca_table_ok t' then (Inr (), s\<lparr>channel_accounts := t'\<rparr>)
        else (Inl (ConstraintViolation ''channel_accounts''), s))"

definition ca_delete_exec :: "string \<Rightarrow> ('z tss_db_scheme, go_error, nat) prog" where
  "ca_delete_exec publicKey = db_call (\<lambda>s.
     (Inr (length (filter (\<lambda>r. ca_public_key r = publicKey) (channel_accounts s))),
      s\<lparr>channel_accounts := filter (\<lambda>r. ca_public_key r \<noteq> publicKey) (channel_accounts s)\<rparr>))"

fun check_keys :: "(string \<times> string) list \<Rightarrow> go_error + unit" where
  "check_keys [] = Inr ()"
| "check_keys ((publicKey, privateKey) # ks) =
     (if publicKey = [] then Inl (Errorf ''public key cannot be empty'')
      else if privateKey = [] then Inl (Errorf ''private key cannot be empty'')
      else check_keys ks)"

text \<open>The batch is given by the \<open>PublicKey\<close> and \<open>PrivateKey\<close> of its accounts, the only fields read.\<close>

definition ChannelAccountModel_BatchInsert :: "(string \<times> string) list \<Rightarrow> ('z tss_db_scheme, go_error, unit) prog" where
  "ChannelAccountModel_BatchInsert channelAccounts =
     (if channelAccounts = [] then ret ()
      else (case check_keys channelAccounts of
              Inl e \<Rightarrow> throw e
            | Inr _ \<Rightarrow> wrapE ''inserting channel accounts'' (ca_insert_exec channelAccounts)))"

definition ChannelAccountModel_Insert :: "string \<Rightarrow> string \<Rightarrow> ('z tss_db_scheme, go_error, unit) prog" where
  "ChannelAccountModel_Insert publicKey privateKey =
     wrapE ''inserting channel account %q'' (ChannelAccountModel_BatchInsert [(publicKey, privateKey)])"

definition ca_set_locked :: "int \<Rightarrow> int \<Rightarrow> ChannelAccount \<Rightarrow> ChannelAccount" where
  "ca_set_locked nextLedgerLock now r =
     r\<lparr>ca_locked_at := Some now, ca_locked_until_ledger_number := Some nextLedgerLock\<rparr>"

definition ChannelAccountModel_Lock :: "string \<Rightarrow> int \<Rightarrow> int \<Rightarrow> ('z tss_db_scheme, go_error, ChannelAccount) prog" where
  "ChannelAccountModel_Lock publicKey currentLedger nextLedgerLock =
     not_found_or_wrap ''locking channel account %q''
       (ca_update_returning
          (\<lambda>r. ca_public_key r = publicKey \<and> ChannelAccountModel_queryFilterForLockedState False currentLedger r)
          (ca_set_locked nextLedgerLock))"

definition ca_set_unlocked :: "int \<Rightarrow> ChannelAccount \<Rightarrow> ChannelAccount" where
  "ca_set_unlocked now r = r\<lparr>ca_locked_at := None, ca_locked_until_ledger_number := None\<rparr>"

definition ChannelAccountModel_Unlock :: "string \<Rightarrow> ('z tss_db_scheme, go_error, ChannelAccount) prog" where
  "ChannelAccountModel_Unlock publicKey =
     not_found_or_wrap ''unlocking channel account %q''
       (ca_update_returning (\<lambda>r. ca_public_key r = publicKey) ca_set_unlocked)"

definition ChannelAccountModel_InsertAndLock ::
  "string \<Rightarrow> string \<Rightarrow> int \<Rightarrow> int \<Rightarrow> ('z tss_db_scheme, go_error, unit) prog" where
  "ChannelAccountModel_InsertAndLock publicKey privateKey currentLedger nextLedgerLock =
     RunInTransaction tss_rollback
       (bindE (wrapE ''cannot insert account %s'' (ChannelAccountModel_Insert publicKey privateKey)) (\<lambda>_.
        bindE (wrapE ''cannot lock account %s''
                (ChannelAccountModel_Lock publicKey (int32 currentLedger) (int32 nextLedgerLock))) (\<lambda>_.
        ret ())))"

definition ChannelAccountModel_BatchInsertAndLock ::
  "(string \<times> string) list \<Rightarrow> int \<Rightarrow> int \<Rightarrow> ('z tss_db_scheme, go_error, unit) prog" where
  "ChannelAccountModel_BatchInsertAndLock channelAccounts currentLedger nextLedgerLock =
     RunInTransaction tss_rollback
       (bindE (wrapE ''cannot insert batch insert %d accounts'' (ChannelAccountModel_BatchInsert channelAccounts)) (\<lambda>_.
        bindE (forE channelAccounts (\<lambda>(publicKey, privateKey).
                wrapE ''cannot lock account %s''
                  (ChannelAccountModel_Lock publicKey (int32 currentLedger) (int32 nextLedgerLock)))) (\<lambda>_.
        ret ())))"

text \<open>The filter of \<open>Get\<close> and \<open>GetAll\<close>: only unlocked accounts for a positive ledger number, all of
  them for 0, an error for a negative one.\<close>

definition ledger_filter :: "int \<Rightarrow> go_error + (ChannelAccount \<Rightarrow> bool)" where
  "ledger_filter currentLedgerNumber =
     (if currentLedgerNumber > 0 then Inr (ChannelAccountModel_queryFilterForLockedState False (int32 currentLedgerNumber))
      else if currentLedgerNumber = 0 then Inr (\<lambda>_. True)
      else Inl (Errorf ''invalid ledger number %d''))"

definition ChannelAccountModel_Get :: "string \<Rightarrow> int \<Rightarrow> ('z tss_db_scheme, go_error, ChannelAccount) prog" where
  "ChannelAccountModel_Get publicKey currentLedgerNumber =
     (case ledger_filter currentLedgerNumber of
        Inl e \<Rightarrow> throw e
      | Inr unlocked \<Rightarrow>
          handleE (get_first (ca_select_for_update (\<lambda>r. ca_public_key r = publicKey \<and> unlocked r)))
            (\<lambda>e. if error_is e ErrNoRows
                 then throw (Wrapf ''could not find channel account %q'' ErrRecordNotFound)
                 else throw (Wrapf ''querying for channel account %q'' e)) ret)"

definition ChannelAccountModel_GetAndLock ::
  "string \<Rightarrow> int \<Rightarrow> int \<Rightarrow> ('z tss_db_scheme, go_error, ChannelAccount) prog" where
  "ChannelAccountModel_GetAndLock publicKey currentLedger nextLedgerLock =
     bindE (wrapE ''cannot retrieve account %s'' (ChannelAccountModel_Get publicKey currentLedger)) (\<lambda>channelAccount.
     wrapE ''cannot lock account %s''
       (ChannelAccountModel_Lock (ca_public_key channelAccount) (int32 currentLedger) (int32 nextLedgerLock)))"

definition ChannelAccountModel_Count :: "('z tss_db_scheme, go_error, nat) prog" where
  "ChannelAccountModel_Count =
     wrapE ''counting channel accounts'' (db_call (getsE (\<lambda>s. length (channel_accounts s))))"

definition load_limit :: "int \<Rightarrow> 'r list \<Rightarrow> 'r list" where
  "load_limit limit rs = (if limit > 0 then sql_limit limit rs else rs)"

definition ChannelAccountModel_GetAll :: "int \<Rightarrow> int \<Rightarrow> ('z tss_db_scheme, go_error, ChannelAccount list) prog" where
  "ChannelAccountModel_GetAll currentLedgerNumber limit =
     (case ledger_filter currentLedgerNumber of
        Inl e \<Rightarrow> throw e
      | Inr unlocked \<Rightarrow>
          bindE (wrapE ''loading channel accounts from database'' (ca_select_for_update unlocked))
            (\<lambda>accounts. ret (load_limit limit accounts)))"

definition ChannelAccountModel_GetAndLockAll ::
  "int \<Rightarrow> int \<Rightarrow> int \<Rightarrow> ('z tss_db_scheme, go_error, ChannelAccount list) prog" where
  "ChannelAccountModel_GetAndLockAll currentLedger nextLedgerLock limit =
     bindE (wrapE ''cannot retrieve accounts for locking'' (ChannelAccountModel_GetAll currentLedger limit)) (\<lambda>channelAccounts.
     if channelAccounts = [] then throw (Errorf ''no channel accounts available to retrieve'')
     else forE channelAccounts (\<lambda>channelAccount.
       wrapE ''cannot lock account %s''
         (ChannelAccountModel_Lock (ca_public_key channelAccount) (int32 currentLedger) (int32 nextLedgerLock))))"

definition ChannelAccountModel_Delete :: "string \<Rightarrow> ('z tss_db_scheme, go_error, unit) prog" where
  "ChannelAccountModel_Delete publicKey =
     bindE (wrapE ''deleting channel account %q'' (ca_delete_exec publicKey)) (\<lambda>numRowsAffected.
     if numRowsAffected = 0 then throw (Wrapf ''could not find nor delete account %q'' ErrRecordNotFound)
     else if numRowsAffected \<noteq> 1
       then throw (Errorf ''unexpected number of rows affected: %d when deleting channel account %s'')
     else ret ())"

definition ChannelAccountModel_DeleteIfLockedUntil :: "string \<Rightarrow> int \<Rightarrow> ('z tss_db_scheme, go_error, unit) prog" where
  "ChannelAccountModel_DeleteIfLockedUntil publicKey lockedUntilLedgerNumber =
     RunInTransaction tss_rollback
       (bindE (wrapE ''cannot retrieve account %s'' (ChannelAccountModel_Get publicKey 0)) (\<lambda>account.
        if ca_locked_until_ledger_number account \<noteq> Some (int32 lockedUntilLedgerNumber)
        then throw (Errorf ''cannot delete account due to locked until ledger number mismatch or field being null'')
        else bindE (wrapE ''cannot unlock account for deletion %s'' (ChannelAccountModel_Unlock (ca_public_key account))) (\<lambda>_.
          wrapE ''cannot delete account %s'' (ChannelAccountModel_Delete (ca_public_key account)))))"


section \<open>Facts about the statements\<close>

lemma ca_update_returning_cases:
  assumes "ca_update_returning P f s = (x, s')"
  obtains (failed) e fs where "x = Inl e" and "s' = s\<lparr>conn_faults := fs\<rparr>"
  | (updated) row fs where "row \<in> set (channel_accounts s)" and "P row"
      and "s' = s\<lparr>conn_faults := fs, channel_accounts := sql_update P (ca_touched f (conn_now s)) (channel_accounts s)\<rparr>"
      and "x = Inl DriverError \<or> x = Inr (ca_touched f (conn_now s) row)"
proof -
  have step: "filter P (channel_accounts s) = row # rows \<Longrightarrow> row \<in> set (channel_accounts s) \<and> P row" for row rows
    by (auto simp: filter_eq_Cons_iff)
  from assms show ?thesis
    unfolding ca_update_returning_def
    by (elim db_call_cases) (auto split: list.splits dest!: step intro: that)
qed

lemma ca_table_ok_keys: "ca_table_ok t \<Longrightarrow> distinct (map ca_public_key t)"
  by (simp add: ca_table_ok_def)

lemma ca_table_ok_update:
  assumes "ca_table_ok t" and "\<And>r. ca_public_key (g r) = ca_public_key r \<and> ca_private_key (g r) = ca_private_key r"
  shows "ca_table_ok (sql_update P g t)"
proof -
  have "map ca_public_key (sql_update P g t) = map ca_public_key t"
    using assms(2) by (intro map_sql_update_key) simp
  with assms show ?thesis
    by (auto simp: ca_table_ok_def list_all_iff dest!: in_set_sql_update)
qed

lemma ca_table_ok_filter: "ca_table_ok t \<Longrightarrow> ca_table_ok (filter P t)"
  by (auto simp: ca_table_ok_def list_all_iff distinct_map intro: inj_on_subset)

lemmas ca_set_defs = ca_touched_def ca_set_locked_def ca_set_unlocked_def

text \<open>Every operation respects a preorder that accepts any new table of channel accounts that keeps
  the constraints.\<close>

locale ca_relation = db_relation R
  for R :: "'z tss_db_scheme \<Rightarrow> 'z tss_db_scheme \<Rightarrow> bool" +
  assumes R_accounts: "(ca_table_ok (channel_accounts s) \<Longrightarrow> ca_table_ok t') \<Longrightarrow> R s (s\<lparr>channel_accounts := t'\<rparr>)"
begin

lemma keeps_ca_update_returning:
  assumes "\<And>now r. ca_public_key (f now r) = ca_public_key r \<and> ca_private_key (f now r) = ca_private_key r"
  shows "keeps R (ca_update_returning P f)"
  unfolding ca_update_returning_def
  by (rule keeps_db_call)
    (auto split: list.splits simp: R_refl ca_touched_def assms intro!: R_accounts ca_table_ok_update)

lemma keeps_not_found [keeps_intros]: "keeps R m \<Longrightarrow> keeps R (not_found_or_wrap msg m)"
  unfolding not_found_or_wrap_def by (intro keeps_handleE keeps_if keeps_throw keeps_ret)

lemma keeps_first [keeps_intros]: "keeps R m \<Longrightarrow> keeps R (get_first m)"
  unfolding get_first_def by (intro keeps_bindE keeps_case_list keeps_throw keeps_ret)

lemma keeps_ca_Lock [keeps_intros]: "keeps R (ChannelAccountModel_Lock k c n)"
  unfolding ChannelAccountModel_Lock_def
  by (intro keeps_not_found keeps_ca_update_returning) (simp add: ca_set_locked_def)

lemma keeps_ca_Unlock [keeps_intros]: "keeps R (ChannelAccountModel_Unlock k)"
  unfolding ChannelAccountModel_Unlock_def
  by (intro keeps_not_found keeps_ca_update_returning) (simp add: ca_set_unlocked_def)

lemma keeps_ca_BatchInsert [keeps_intros]: "keeps R (ChannelAccountModel_BatchInsert ks)"
proof -
  have "keeps R (ca_insert_exec ks)"
    unfolding ca_insert_exec_def
    by (rule keeps_db_call) (auto simp: Let_def R_refl intro!: R_accounts)
  then show ?thesis
    unfolding ChannelAccountModel_BatchInsert_def by (intro keeps_intros)
qed

lemma keeps_ca_select [keeps_intros]: "keeps R (ca_select_for_update P)"
  unfolding ca_select_for_update_def by (rule keeps_read)

lemma keeps_ca_Get [keeps_intros]: "keeps R (ChannelAccountModel_Get k c)"
  unfolding ChannelAccountModel_Get_def by (intro keeps_intros)

lemma keeps_ca_GetAll [keeps_intros]: "keeps R (ChannelAccountModel_GetAll c n)"
  unfolding ChannelAccountModel_GetAll_def by (intro keeps_intros)

lemma keeps_ca_Delete [keeps_intros]: "keeps R (ChannelAccountModel_Delete k)"
proof -
  have "keeps R (ca_delete_exec k)"
    unfolding ca_delete_exec_def
    by (rule keeps_db_call) (auto intro!: R_accounts ca_table_ok_filter)
  then show ?thesis
    unfolding ChannelAccountModel_Delete_def by (intro keeps_intros)
qed

lemma keeps_ca_Insert [keeps_intros]: "keeps R (ChannelAccountModel_Insert k p)"
  unfolding ChannelAccountModel_Insert_def by (intro keeps_intros)

lemma keeps_ca_InsertAndLock: "keeps R (ChannelAccountModel_InsertAndLock k p c n)"
  unfolding ChannelAccountModel_InsertAndLock_def by (intro keeps_intros)

lemma keeps_ca_BatchInsertAndLock: "keeps R (ChannelAccountModel_BatchInsertAndLock ks c n)"
  unfolding ChannelAccountModel_BatchInsertAndLock_def by (intro keeps_intros)

lemma keeps_ca_GetAndLock: "keeps R (ChannelAccountModel_GetAndLock k c n)"
  unfolding ChannelAccountModel_GetAndLock_def by (intro keeps_intros)

lemma keeps_ca_GetAndLockAll: "keeps R (ChannelAccountModel_GetAndLockAll c n l)"
  unfolding ChannelAccountModel_GetAndLockAll_def by (intro keeps_intros)

lemma keeps_ca_Count: "keeps R ChannelAccountModel_Count"
  unfolding ChannelAccountModel_Count_def by (intro keeps_intros)

lemma keeps_ca_DeleteIfLockedUntil: "keeps R (ChannelAccountModel_DeleteIfLockedUntil k n)"
  unfolding ChannelAccountModel_DeleteIfLockedUntil_def by (intro keeps_intros)

lemmas keeps_accounts = keeps_ca_InsertAndLock keeps_ca_BatchInsertAndLock keeps_ca_GetAndLock
  keeps_ca_GetAndLockAll keeps_ca_Count keeps_ca_DeleteIfLockedUntil keeps_ca_Lock keeps_ca_Unlock
  keeps_ca_BatchInsert keeps_ca_Insert keeps_ca_Get keeps_ca_GetAll keeps_ca_Delete

end

interpretation ca_evolution: ca_relation tss_le
  by unfold_locales (auto simp: tss_le_def intro: row_le_refl)

interpretation ca_constraints: ca_relation "\<lambda>s s'. tss_db_ok s \<longrightarrow> tss_db_ok s'"
  by unfold_locales (auto simp: tss_db_ok_def)

section \<open>Locks exclude each other\<close>

definition ca_locked :: "'z tss_db_scheme \<Rightarrow> string \<Rightarrow> int \<Rightarrow> bool" where
  "ca_locked s k ledger \<longleftrightarrow>
     (\<exists>r \<in> set (channel_accounts s). ca_public_key r = k) \<and>
     (\<forall>r \<in> set (channel_accounts s). ca_public_key r = k \<longrightarrow> ChannelAccount_IsLocked r ledger)"

lemma ca_filter_IsLocked:
  "ChannelAccountModel_queryFilterForLockedState locked n r \<longleftrightarrow> (ChannelAccount_IsLocked r n \<longleftrightarrow> locked)"
  by (auto simp: ChannelAccountModel_queryFilterForLockedState_def ChannelAccount_IsLocked_def split: option.splits)

definition ca_lock_cond :: "string \<Rightarrow> int \<Rightarrow> ChannelAccount \<Rightarrow> bool" where
  "ca_lock_cond k c r \<longleftrightarrow> ca_public_key r = k \<and> \<not> ChannelAccount_IsLocked r c"

lemma ChannelAccountModel_Lock_cases:
  assumes "ChannelAccountModel_Lock k c n s = (x, s')"
  obtains (failed) e fs where "x = Inl e" and "s' = s\<lparr>conn_faults := fs\<rparr>"
  | (updated) row fs where "row \<in> set (channel_accounts s)" and "ca_lock_cond k c row"
      and "s' = s\<lparr>conn_faults := fs, channel_accounts :=
          sql_update (ca_lock_cond k c) (ca_touched (ca_set_locked n) (conn_now s)) (channel_accounts s)\<rparr>"
      and "isl x \<or> x = Inr (ca_touched (ca_set_locked n) (conn_now s) row)"
  using assms unfolding ChannelAccountModel_Lock_def
  by (elim not_found_or_wrap_cases ca_update_returning_cases)
    (auto simp: ca_filter_IsLocked ca_lock_cond_def [abs_def] intro: that)


interpretation ca_lock: lock_table ChannelAccountModel_Lock ca_locked tss_db_ok
proof
  fix k c n r and s s' :: "'a tss_db_scheme"
  assume "ChannelAccountModel_Lock k c n s = (Inr r, s')"
  then show "\<not> ca_locked s k c"
    by (cases rule: ChannelAccountModel_Lock_cases) (auto simp: ca_locked_def ca_lock_cond_def)
next
  fix k c n r m and s s' :: "'a tss_db_scheme"
  assume ok: "tss_db_ok s" and m: "m \<le> n" and "ChannelAccountModel_Lock k c n s = (Inr r, s')"
  from this(3) show "ca_locked s' k m"
  proof (cases rule: ChannelAccountModel_Lock_cases)
    case (updated row fs)
    have "r' = row" if "r' \<in> set (channel_accounts s)" "ca_public_key r' = k" for r'
      using that updated ok
      by (intro unique_by_key [of ca_public_key]) (auto simp: tss_db_ok_def ca_table_ok_def ca_lock_cond_def)
    moreover have accounts: "channel_accounts s' =
        map (\<lambda>r. if ca_lock_cond k c r then ca_touched (ca_set_locked n) (conn_now s) r else r) (channel_accounts s)"
      using updated by (simp add: sql_update_def)
    moreover have "ca_public_key (ca_touched (ca_set_locked n) (conn_now s) r0) = ca_public_key r0"
      "ChannelAccount_IsLocked (ca_touched (ca_set_locked n) (conn_now s) r0) m" for r0
      using m by (simp_all add: ca_set_defs ChannelAccount_IsLocked_def)
    ultimately show ?thesis
      using updated(1,2) unfolding ca_locked_def accounts set_map ca_lock_cond_def by force
  qed simp
next
  fix k c n m e and s s' :: "'a tss_db_scheme"
  assume "ChannelAccountModel_Lock k c n s = (Inl e, s')" and "ca_locked s k c"
  then show "ca_locked s k m = ca_locked s' k m"
    by (cases rule: ChannelAccountModel_Lock_cases) (auto simp: ca_locked_def ca_lock_cond_def)
qed

text \<open>A channel account locked until ledger \<open>n\<close> cannot be locked again at any ledger up to \<open>n\<close>,
  so no two transactions share an account before the first one expired.\<close>

theorem channel_account_lock_excludes:
  assumes "tss_db_ok s" and "ChannelAccountModel_Lock k c n s = (Inr r, s')" and "list_all (\<lambda>(c', m). c' \<le> n) cs"
  shows "\<not> ca_locked s k c \<and> list_all isl (fst (lock_attempts ChannelAccountModel_Lock k cs s'))"
  using assms ca_lock.lock_was_free ca_lock.lock_exclusive [OF assms(1,2), of cs] by (fastforce simp: list_all_iff)

lemma example_account_lock:
  "ChannelAccountModel_Lock ''C'' 10 20 example_db =
     (Inr (ca_touched (ca_set_locked 20) 7 example_account),
      example_db\<lparr>channel_accounts := [ca_touched (ca_set_locked 20) 7 example_account]\<rparr>)"
  by (simp add: ChannelAccountModel_Lock_def not_found_or_wrap_def handleE_def ret_def
      ca_update_returning_def sql_update_def ChannelAccountModel_queryFilterForLockedState_def
      example_db_def example_account_def)

theorem channel_account_lock_excludes_witness:
  "\<not> ca_locked example_db ''C'' 10 \<and>
   list_all isl (fst (lock_attempts ChannelAccountModel_Lock ''C'' [(11, 30), (20, 21)]
      (example_db\<lparr>channel_accounts := [ca_touched (ca_set_locked 20) 7 example_account]\<rparr>)))"
  using channel_account_lock_excludes [OF example_db_ok example_account_lock, of "[(11, 30), (20, 21)]"] by simp

section \<open>Transactions on the accounts\<close>

text \<open>What a database transaction of the store leaves behind: the effect of its body when it commits,
  or when the commit is reported as failed after it took effect; otherwise the old tables.\<close>

lemma RunInTransactionWithResult_cases:
  assumes "RunInTransactionWithResult tss_rollback m s = (x, s')"
  obtains (not_started) e fs where "x = Inl e" and "s' = s\<lparr>conn_faults := fs\<rparr>"
  | (rolled_back) e fs y s2 where "x = Inl e" and "m (s\<lparr>conn_faults := fs\<rparr>) = (y, s2)"
      and "submitter_transactions s' = submitter_transactions s" and "channel_accounts s' = channel_accounts s"
  | (committed) fs fs' y s2 where "m (s\<lparr>conn_faults := fs\<rparr>) = (Inr y, s2)" and "s' = s2\<lparr>conn_faults := fs'\<rparr>"
      and "x = Inr y \<or> isl x"
proof -
  obtain b s1 where b: "db_call (ret ()) s = (b, s1)" by fastforce
  then obtain fs where s1: "s1 = s\<lparr>conn_faults := fs\<rparr>"
    by (elim db_call_cases) (auto simp: ret_def)
  obtain y s2 where y: "m s1 = (y, s2)" by fastforce
  show ?thesis
  proof (cases "isl b")
    case True
    with assms b s1 not_started show ?thesis
      by (auto simp: RunInTransactionWithResult_def isl_def)
  next
    case False
    then obtain u where "b = Inr u" by (cases b) auto
    with assms b y have run: "(case y of Inl e \<Rightarrow> (Inl (TransactionExecutionError e), tss_rollback s1 s2)
        | Inr v \<Rightarrow> (case conn_faults s2 of
             FailNotApplied # fs \<Rightarrow>
               (Inl (Wrapf ''committing transaction in RunInTransactionWithResult'' DriverError),
                tss_rollback s1 (s2\<lparr>conn_faults := fs\<rparr>))
           | FailApplied # fs \<Rightarrow>
               (Inl (Wrapf ''committing transaction in RunInTransactionWithResult'' DriverError), s2\<lparr>conn_faults := fs\<rparr>)
           | NoFault # fs \<Rightarrow> (Inr v, s2\<lparr>conn_faults := fs\<rparr>)
           | [] \<Rightarrow> (Inr v, s2))) = (x, s')"
      by (simp add: RunInTransactionWithResult_def)
    show ?thesis
    proof (cases y)
      case (Inl e)
      with run y s1 rolled_back show ?thesis by (auto simp: tss_rollback_def)
    next
      case (Inr v)
      show ?thesis
      proof (cases "conn_faults s2")
        case Nil
        with Inr run y s1 show ?thesis by (intro committed [of fs v s2 "[]"]) auto
      next
        case (Cons a list)
        with Inr run y s1 show ?thesis
          by (cases a) (auto simp: tss_rollback_def intro: committed rolled_back)
      qed
    qed
  qed
qed


lemma ca_select_for_update_ok:
  "ca_select_for_update P s = (Inr rs, s') \<Longrightarrow>
     rs = filter (\<lambda>r. P r \<and> ca_public_key r \<notin> set (conn_held s)) (channel_accounts s) \<and> (\<exists>fs. s' = s\<lparr>conn_faults := fs\<rparr>)"
  unfolding ca_select_for_update_def getsE_def by (erule db_call_cases) auto

lemma ca_Get_ok:
  assumes "ChannelAccountModel_Get k 0 s = (Inr r, s')"
  shows "r \<in> set (channel_accounts s) \<and> ca_public_key r = k \<and> (\<exists>fs. s' = s\<lparr>conn_faults := fs\<rparr>)"
proof -
  from assms obtain rs where "ca_select_for_update (\<lambda>r. ca_public_key r = k \<and> True) s = (Inr (r # rs), s')"
    by (auto simp: ChannelAccountModel_Get_def ledger_filter_def handleE_def prog_ok ret_def throw_def get_first_def
        bindE_def split: prod.splits sum.splits if_splits list.splits)
  then have "r # rs = filter (\<lambda>r. (ca_public_key r = k \<and> True) \<and> ca_public_key r \<notin> set (conn_held s)) (channel_accounts s)"
    and fs: "\<exists>fs. s' = s\<lparr>conn_faults := fs\<rparr>"
    by (auto dest: ca_select_for_update_ok)
  from arg_cong [OF this(1), of set] fs show ?thesis by auto
qed

lemma ca_Unlock_ok:
  assumes "ChannelAccountModel_Unlock k s = (Inr r, s')"
  shows "\<exists>fs. s' = s\<lparr>conn_faults := fs, channel_accounts :=
    sql_update (\<lambda>r. ca_public_key r = k) (ca_touched ca_set_unlocked (conn_now s)) (channel_accounts s)\<rparr>"
  using assms by (auto simp: ChannelAccountModel_Unlock_def prog_ok elim!: ca_update_returning_cases)

lemma ca_Delete_ok:
  assumes "ChannelAccountModel_Delete k s = (Inr (), s')"
  shows "\<exists>fs. s' = s\<lparr>conn_faults := fs, channel_accounts := filter (\<lambda>r. ca_public_key r \<noteq> k) (channel_accounts s)\<rparr>"
  using assms
  by (auto simp: ChannelAccountModel_Delete_def prog_ok ca_delete_exec_def split: if_splits elim!: db_call_cases)

lemma filter_after_unlock:
  "filter (\<lambda>r. ca_public_key r \<noteq> k) (sql_update (\<lambda>r. ca_public_key r = k) (ca_touched ca_set_unlocked now) t) =
   filter (\<lambda>r. ca_public_key r \<noteq> k) t"
  by (rule filter_sql_update_other) (simp add: ca_set_defs)

text \<open>C35: deleting an account that is locked until a given ledger removes that account, and only it,
  and only when its lock has exactly that value; in every other case, database faults included, the
  table of accounts is as before.\<close>

theorem DeleteIfLockedUntil_exact:
  assumes "ChannelAccountModel_DeleteIfLockedUntil k n s = (x, s')"
  shows "(isl x \<and> channel_accounts s' = channel_accounts s) \<or>
    (\<exists>r \<in> set (channel_accounts s). ca_public_key r = k \<and> ca_locked_until_ledger_number r = Some (int32 n) \<and>
       channel_accounts s' = filter (\<lambda>r. ca_public_key r \<noteq> k) (channel_accounts s))"
  using assms unfolding ChannelAccountModel_DeleteIfLockedUntil_def RunInTransaction_def
proof (cases rule: RunInTransactionWithResult_cases)
  case (committed fs fs' y s2)
  then obtain r s1 u s3 where get: "ChannelAccountModel_Get k 0 (s\<lparr>conn_faults := fs\<rparr>) = (Inr r, s1)"
    and n: "ca_locked_until_ledger_number r = Some (int32 n)"
    and unlock: "ChannelAccountModel_Unlock (ca_public_key r) s1 = (Inr u, s3)"
    and delete: "ChannelAccountModel_Delete (ca_public_key r) s3 = (Inr (), s2)"
    by (auto simp: prog_ok split: if_splits)
  note r = ca_Get_ok [OF get]
  with ca_Unlock_ok [OF unlock] ca_Delete_ok [OF delete]
  have "channel_accounts s2 = filter (\<lambda>r. ca_public_key r \<noteq> k) (channel_accounts s)"
    by (auto simp: filter_after_unlock)
  with r n committed(2) show ?thesis by auto
qed auto

definition example_locked_db :: tss_db where
  "example_locked_db = example_db\<lparr>channel_accounts := [example_account\<lparr>ca_locked_until_ledger_number := Some 20\<rparr>]\<rparr>"

theorem DeleteIfLockedUntil_exact_witness:
  "channel_accounts (snd (ChannelAccountModel_DeleteIfLockedUntil ''C'' 20 example_locked_db)) = [] \<and>
   fst (ChannelAccountModel_DeleteIfLockedUntil ''C'' 20 example_locked_db) = Inr ()"
proof -
  have "fst (ChannelAccountModel_DeleteIfLockedUntil ''C'' 20 example_locked_db) = Inr ()"
    by (simp add: ChannelAccountModel_DeleteIfLockedUntil_def RunInTransaction_def RunInTransactionWithResult_def
        ChannelAccountModel_Get_def ledger_filter_def ca_select_for_update_def get_first_def
        ChannelAccountModel_Unlock_def ca_update_returning_def not_found_or_wrap_def sql_update_def
        ChannelAccountModel_Delete_def ca_delete_exec_def ca_touched_def ca_set_unlocked_def
        prog_defs example_locked_db_def example_db_def example_account_def)
  then show ?thesis
    using DeleteIfLockedUntil_exact [of "''C''" 20 example_locked_db _ "snd (ChannelAccountModel_DeleteIfLockedUntil ''C'' 20 example_locked_db)",
        OF prod.collapse [symmetric]]
    by (auto simp: example_locked_db_def example_db_def example_account_def)
qed

end
