(* ===== verification/Bundle_Store.thy ===== *)
theory Bundle_Store
  imports Channel_Account_Store
begin

text \<open>
  Bundles (\<open>src/internal/transactionsubmission/store/channel_transaction_bundle.go\<close>): one database
  transaction picks the transactions to process and as many free channel accounts, locks both until
  the same ledger and pairs them. The properties: the pairs are distinct, locked and processing, a
  later call up to the lock ledger never returns the same transaction or account, a failed call
  changes nothing, and without faults the call returns as many pairs as there are resources.
\<close>

section \<open>Operations\<close>

record ChannelTransactionBundle =
  cb_channel_account :: ChannelAccount
  cb_transaction :: Transaction
  cb_locked_until_ledger_number :: int

definition fetch_unlocked_transactions :: "int \<Rightarrow> int \<Rightarrow> ('z tss_db_scheme, go_error, Transaction list) prog" where
  "fetch_unlocked_transactions currentLedgerNumber limit =
     bindE (tx_select_for_update (\<lambda>r. TransactionModel_queryFilterForLockedState False (int32 currentLedgerNumber) r \<and>
              tx_synced_at r = None \<and> tx_status r \<in> {TransactionStatusPending, TransactionStatusProcessing}))
       (\<lambda>rs. ret (sql_limit limit (sql_order_by tx_updated_at rs)))"

definition fetch_unlocked_accounts :: "int \<Rightarrow> int \<Rightarrow> ('z tss_db_scheme, go_error, ChannelAccount list) prog" where
  "fetch_unlocked_accounts currentLedgerNumber limit =
     bindE (ca_select_for_update (ChannelAccountModel_queryFilterForLockedState False (int32 currentLedgerNumber)))
       (\<lambda>rs. ret (sql_limit limit (sql_order_by ca_updated_at rs)))"

definition lock_pair ::
  "int \<Rightarrow> int \<Rightarrow> ChannelAccount \<times> Transaction \<Rightarrow> ('z tss_db_scheme, go_error, ChannelTransactionBundle) prog" where
  "lock_pair currentLedgerNumber lockToLedgerNumber = (\<lambda>(chAcc, tx).
     bindE (wrapE ''locking channel account %q''
              (ChannelAccountModel_Lock (ca_public_key chAcc) (int32 currentLedgerNumber) (int32 lockToLedgerNumber))) (\<lambda>lockedChAcc.
     bindE (wrapE ''locking transaction %q''
              (TransactionModel_Lock (tx_id tx) (int32 currentLedgerNumber) (int32 lockToLedgerNumber))) (\<lambda>lockedTx.
     ret \<lparr>cb_channel_account = lockedChAcc, cb_transaction = lockedTx,
          cb_locked_until_ledger_number = lockToLedgerNumber\<rparr>)))"

definition load_and_lock_body ::
  "int \<Rightarrow> int \<Rightarrow> int \<Rightarrow> ('z tss_db_scheme, go_error, ChannelTransactionBundle list) prog" where
  "load_and_lock_body currentLedgerNumber lockToLedgerNumber limit =
     bindE (wrapE ''fetching unlocked transactions'' (fetch_unlocked_transactions currentLedgerNumber limit)) (\<lambda>unlockedTransactions.
     if unlockedTransactions = [] then ret []
     else bindE (wrapE ''calculating amount ov available channel accounts''
                  (fetch_unlocked_accounts currentLedgerNumber (int (length unlockedTransactions)))) (\<lambda>unlockedChannelAccounts.
       if unlockedChannelAccounts = [] then throw ErrInsuficientChannelAccounts
       else forE (zip unlockedChannelAccounts unlockedTransactions) (lock_pair currentLedgerNumber lockToLedgerNumber)))"

definition ChannelTransactionBundleModel_LoadAndLockTuples ::
  "int \<Rightarrow> int \<Rightarrow> int \<Rightarrow> ('z tss_db_scheme, go_error, ChannelTransactionBundle list) prog" where
  "ChannelTransactionBundleModel_LoadAndLockTuples currentLedgerNumber lockToLedgerNumber limit =
     (if limit < 1 then throw (Errorf ''limit must be greater than 0'')
      else if lockToLedgerNumber \<le> currentLedgerNumber
        then throw (Errorf ''lockToLedgerNumber must be greater than currentLedgerNumber'')
      else RunInTransactionWithResult tss_rollback (load_and_lock_body currentLedgerNumber lockToLedgerNumber limit))"

section \<open>Locking by key\<close>

definition on_ids :: "string set \<Rightarrow> (Transaction \<Rightarrow> Transaction) \<Rightarrow> Transaction list \<Rightarrow> Transaction list" where
  "on_ids I f t = map (\<lambda>r. if tx_id r \<in> I then f r else r) t"

definition on_keys :: "string set \<Rightarrow> (ChannelAccount \<Rightarrow> ChannelAccount) \<Rightarrow> ChannelAccount list \<Rightarrow> ChannelAccount list" where
  "on_keys K f t = map (\<lambda>r. if ca_public_key r \<in> K then f r else r) t"

lemma on_ids_compose:
  "(\<And>r. tx_id (f r) = tx_id r) \<Longrightarrow> i \<notin> I \<Longrightarrow> on_ids I f (on_ids {i} f t) = on_ids (insert i I) f t"
  by (auto simp: on_ids_def)

lemma on_keys_compose:
  "(\<And>r. ca_public_key (f r) = ca_public_key r) \<Longrightarrow> k \<notin> K \<Longrightarrow> on_keys K f (on_keys {k} f t) = on_keys (insert k K) f t"
  by (auto simp: on_keys_def)

lemma on_ids_empty [simp]: "on_ids {} f t = t"
  by (simp add: on_ids_def)

lemma on_keys_empty [simp]: "on_keys {} f t = t"
  by (simp add: on_keys_def)

abbreviation tx_lock_row :: "int \<Rightarrow> int \<Rightarrow> Transaction \<Rightarrow> Transaction" where
  "tx_lock_row n now \<equiv> touched (set_locked n) now"

abbreviation ca_lock_row :: "int \<Rightarrow> int \<Rightarrow> ChannelAccount \<Rightarrow> ChannelAccount" where
  "ca_lock_row n now \<equiv> ca_touched (ca_set_locked n) now"

lemma lock_row_id [simp]: "tx_id (tx_lock_row n now r) = tx_id r" "ca_public_key (ca_lock_row n now a) = ca_public_key a"
  by (simp_all add: set_defs ca_set_defs)

lemma Lock_ok_on_ids:
  assumes "TransactionModel_Lock i c n s = (Inr r, s')" and "tss_db_ok s"
  obtains row fs where "row \<in> set (submitter_transactions s)" and "tx_id row = i" and "tx_lockable c row"
    and "r = tx_lock_row n (conn_now s) row"
    and "s' = s\<lparr>conn_faults := fs, submitter_transactions := on_ids {i} (tx_lock_row n (conn_now s)) (submitter_transactions s)\<rparr>"
    and "tss_db_ok s'"
proof -
  from assms(1) obtain row fs where row: "row \<in> set (submitter_transactions s)" "tx_id row = i" "tx_lockable c row"
    and r: "r = tx_lock_row n (conn_now s) row"
    and s': "s' = s\<lparr>conn_faults := fs, submitter_transactions :=
           tx_updated (\<lambda>r. tx_id r = i \<and> tx_lockable c r) (set_locked n) (conn_now s) (submitter_transactions s)\<rparr>"
    and ok: "tx_table_ok (submitter_transactions s')"
    by (rule TransactionModel_Lock_success)
  have uniq: "r' = row" if "r' \<in> set (submitter_transactions s)" "tx_id r' = i" for r'
    using that row assms(2) by (intro unique_by_key [of tx_id]) (auto simp: tss_db_ok_def tx_table_ok_ids)
  have "(tx_id r' = i \<and> tx_lockable c r') = (tx_id r' \<in> {i})" if "r' \<in> set (submitter_transactions s)" for r'
    using uniq [OF that] row(3) by blast
  then have "tx_updated (\<lambda>r. tx_id r = i \<and> tx_lockable c r) (set_locked n) (conn_now s) (submitter_transactions s) =
      on_ids {i} (tx_lock_row n (conn_now s)) (submitter_transactions s)"
    by (simp add: tx_updated_touched on_ids_def)
  with row r s' ok assms(2) that show ?thesis by (simp add: tss_db_ok_def)
qed

lemma ca_Lock_ok_on_keys:
  assumes "ChannelAccountModel_Lock k c n s = (Inr r, s')" and "tss_db_ok s"
  obtains row fs where "row \<in> set (channel_accounts s)" and "ca_public_key row = k" and "\<not> ChannelAccount_IsLocked row c"
    and "r = ca_lock_row n (conn_now s) row"
    and "s' = s\<lparr>conn_faults := fs, channel_accounts := on_keys {k} (ca_lock_row n (conn_now s)) (channel_accounts s)\<rparr>"
    and "tss_db_ok s'"
  using assms(1)
proof (cases rule: ChannelAccountModel_Lock_cases)
  case (updated row fs)
  have uniq: "r' = row" if "r' \<in> set (channel_accounts s)" "ca_public_key r' = k" for r'
    using that updated assms(2)
    by (intro unique_by_key [of ca_public_key]) (auto simp: tss_db_ok_def ca_table_ok_keys ca_lock_cond_def)
  have "ca_lock_cond k c r' = (ca_public_key r' \<in> {k})" if "r' \<in> set (channel_accounts s)" for r'
    using uniq [OF that] updated(2) unfolding ca_lock_cond_def by blast
  then have table: "sql_update (ca_lock_cond k c) (ca_touched (ca_set_locked n) (conn_now s)) (channel_accounts s) =
      on_keys {k} (ca_lock_row n (conn_now s)) (channel_accounts s)"
    by (simp add: sql_update_def on_keys_def)
  have ok: "tss_db_ok s'"
    using keepsD [OF ca_constraints.keeps_ca_Lock assms(1)] assms(2) by blast
  show ?thesis
  proof (rule that [of row fs])
    show "r = ca_lock_row n (conn_now s) row" using updated(4) by simp
    show "ca_public_key row = k" and "\<not> ChannelAccount_IsLocked row c"
      using updated(2) by (simp_all add: ca_lock_cond_def)
  qed (use updated(1,3) ok in \<open>simp_all add: table\<close>)
qed simp


section \<open>The locking loop\<close>

text \<open>What a successful pass over the pairs did, in the terms of the state before it: every row of the
  pairs was free, every returned bundle holds the locked versions, and nothing else changed.\<close>

definition bundle_of :: "int \<Rightarrow> int \<Rightarrow> 'z tss_db_scheme \<Rightarrow> int \<Rightarrow> ChannelAccount \<times> Transaction \<Rightarrow> ChannelTransactionBundle \<Rightarrow> bool" where
  "bundle_of c n s now p b \<longleftrightarrow>
     (\<exists>row \<in> set (channel_accounts s). ca_public_key row = ca_public_key (fst p) \<and> \<not> ChannelAccount_IsLocked row (int32 c) \<and>
        cb_channel_account b = ca_lock_row (int32 n) now row) \<and>
     (\<exists>row \<in> set (submitter_transactions s). tx_id row = tx_id (snd p) \<and> tx_lockable (int32 c) row \<and>
        cb_transaction b = tx_lock_row (int32 n) now row) \<and>
     cb_locked_until_ledger_number b = n"

lemma lock_pair_ok:
  assumes "lock_pair c n p s = (Inr b, s')" and "tss_db_ok s"
  obtains fs where "bundle_of c n s (conn_now s) p b" and "tss_db_ok s'"
    and "s' = s\<lparr>conn_faults := fs,
        submitter_transactions := on_ids {tx_id (snd p)} (tx_lock_row (int32 n) (conn_now s)) (submitter_transactions s),
        channel_accounts := on_keys {ca_public_key (fst p)} (ca_lock_row (int32 n) (conn_now s)) (channel_accounts s)\<rparr>"
proof -
  obtain a t where p: "p = (a, t)" by fastforce
  with assms(1) obtain la s1 lt where
    la: "ChannelAccountModel_Lock (ca_public_key a) (int32 c) (int32 n) s = (Inr la, s1)"
    and lt: "TransactionModel_Lock (tx_id t) (int32 c) (int32 n) s1 = (Inr lt, s')"
    and b: "b = \<lparr>cb_channel_account = la, cb_transaction = lt, cb_locked_until_ledger_number = n\<rparr>"
    by (auto simp: lock_pair_def prog_ok)
  from la assms(2) obtain ra fa where ra: "ra \<in> set (channel_accounts s)" "ca_public_key ra = ca_public_key a"
      "\<not> ChannelAccount_IsLocked ra (int32 c)" "la = ca_lock_row (int32 n) (conn_now s) ra"
    and s1: "s1 = s\<lparr>conn_faults := fa, channel_accounts :=
        on_keys {ca_public_key a} (ca_lock_row (int32 n) (conn_now s)) (channel_accounts s)\<rparr>" "tss_db_ok s1"
    by (rule ca_Lock_ok_on_keys)
  from lt s1(2) obtain rt ft where rt: "rt \<in> set (submitter_transactions s1)" "tx_id rt = tx_id t"
      "tx_lockable (int32 c) rt" "lt = tx_lock_row (int32 n) (conn_now s1) rt"
    and s': "s' = s1\<lparr>conn_faults := ft, submitter_transactions :=
        on_ids {tx_id t} (tx_lock_row (int32 n) (conn_now s1)) (submitter_transactions s1)\<rparr>" "tss_db_ok s'"
    by (rule Lock_ok_on_ids)
  have "bundle_of c n s (conn_now s) p b"
    using ra rt s1(1) by (auto simp: bundle_of_def b p)
  with s' s1(1) show ?thesis
    by (intro that [of ft]) (auto simp: p)
qed

lemma bundle_of_earlier:
  assumes "bundle_of c n s' now p b"
    and "submitter_transactions s' = on_ids {i} f (submitter_transactions s)" and "\<And>r. tx_id (f r) = tx_id r" and "tx_id (snd p) \<noteq> i"
    and "channel_accounts s' = on_keys {k} g (channel_accounts s)" and "\<And>r. ca_public_key (g r) = ca_public_key r"
    and "ca_public_key (fst p) \<noteq> k"
  shows "bundle_of c n s now p b"
proof -
  have "r \<in> set (submitter_transactions s)" if "r \<in> set (submitter_transactions s')" "tx_id r = tx_id (snd p)" for r
    using that assms(2-4) by (auto simp: on_ids_def split: if_splits)
  moreover have "r \<in> set (channel_accounts s)" if "r \<in> set (channel_accounts s')" "ca_public_key r = ca_public_key (fst p)" for r
    using that assms(5-7) by (auto simp: on_keys_def split: if_splits)
  ultimately show ?thesis
    using assms(1) unfolding bundle_of_def by blast
qed

lemma lock_pairs_ok:
  assumes "forE ps (lock_pair c n) s = (Inr bs, s')" and "tss_db_ok s"
    and "distinct (map (\<lambda>p. tx_id (snd p)) ps)" and "distinct (map (\<lambda>p. ca_public_key (fst p)) ps)"
  shows "list_all2 (bundle_of c n s (conn_now s)) ps bs \<and> tss_db_ok s' \<and>
    (\<exists>fs. s' = s\<lparr>conn_faults := fs,
      submitter_transactions := on_ids (set (map (\<lambda>p. tx_id (snd p)) ps)) (tx_lock_row (int32 n) (conn_now s)) (submitter_transactions s),
      channel_accounts := on_keys (set (map (\<lambda>p. ca_public_key (fst p)) ps)) (ca_lock_row (int32 n) (conn_now s)) (channel_accounts s)\<rparr>)"
  using assms
proof (induction ps arbitrary: s bs)
  case Nil
  then have "s' = s\<lparr>conn_faults := conn_faults s\<rparr>" and "bs = []" by (auto simp: prog_ok)
  with Nil.prems(2) show ?case by (auto intro!: exI [of _ "conn_faults s"])
next
  case (Cons p ps)
  from Cons.prems(1) obtain b s1 bs' where b: "lock_pair c n p s = (Inr b, s1)"
    and bs': "forE ps (lock_pair c n) s1 = (Inr bs', s')" and bs: "bs = b # bs'"
    by (auto simp: prog_ok)
  from b Cons.prems(2) obtain fs where first: "bundle_of c n s (conn_now s) p b" "tss_db_ok s1"
    and s1: "s1 = s\<lparr>conn_faults := fs,
        submitter_transactions := on_ids {tx_id (snd p)} (tx_lock_row (int32 n) (conn_now s)) (submitter_transactions s),
        channel_accounts := on_keys {ca_public_key (fst p)} (ca_lock_row (int32 n) (conn_now s)) (channel_accounts s)\<rparr>"
    by (rule lock_pair_ok)
  from Cons.prems(3,4) have fresh: "tx_id (snd p) \<notin> set (map (\<lambda>p. tx_id (snd p)) ps)"
    "ca_public_key (fst p) \<notin> set (map (\<lambda>p. ca_public_key (fst p)) ps)"
    and rest: "distinct (map (\<lambda>p. tx_id (snd p)) ps)" "distinct (map (\<lambda>p. ca_public_key (fst p)) ps)" by auto
  have "list_all2 (bundle_of c n s1 (conn_now s1)) ps bs' \<and> tss_db_ok s' \<and>
    (\<exists>fs. s' = s1\<lparr>conn_faults := fs,
      submitter_transactions := on_ids (set (map (\<lambda>p. tx_id (snd p)) ps)) (tx_lock_row (int32 n) (conn_now s1)) (submitter_transactions s1),
      channel_accounts := on_keys (set (map (\<lambda>p. ca_public_key (fst p)) ps)) (ca_lock_row (int32 n) (conn_now s1)) (channel_accounts s1)\<rparr>)"
    by (rule Cons.IH [OF bs' first(2) rest])
  moreover have "bundle_of c n s (conn_now s) q b'" if "q \<in> set ps" "bundle_of c n s1 (conn_now s1) q b'" for q b'
  proof (rule bundle_of_earlier)
    show "bundle_of c n s1 (conn_now s) q b'" using that(2) by (simp add: s1)
    show "submitter_transactions s1 = on_ids {tx_id (snd p)} (tx_lock_row (int32 n) (conn_now s)) (submitter_transactions s)"
      and "channel_accounts s1 = on_keys {ca_public_key (fst p)} (ca_lock_row (int32 n) (conn_now s)) (channel_accounts s)"
      by (simp_all add: s1)
    show "tx_id (snd q) \<noteq> tx_id (snd p)" and "ca_public_key (fst q) \<noteq> ca_public_key (fst p)"
      using fresh that(1) by (metis (no_types, lifting) image_eqI list.set_map)+
  qed simp_all
  with calculation have "list_all2 (bundle_of c n s (conn_now s)) ps bs'"
    by (auto elim: list.rel_mono_strong)
  ultimately show ?case
    using first(1) fresh by (auto simp: bs s1 on_ids_compose on_keys_compose)
qed


section \<open>Loading and locking\<close>

definition available :: "int \<Rightarrow> 'z tss_db_scheme \<Rightarrow> Transaction list" where
  "available c s = filter (\<lambda>r. tx_lockable (int32 c) r \<and> tx_id r \<notin> set (conn_held s)) (submitter_transactions s)"

definition free_accounts :: "int \<Rightarrow> 'z tss_db_scheme \<Rightarrow> ChannelAccount list" where
  "free_accounts c s =
     filter (\<lambda>r. \<not> ChannelAccount_IsLocked r (int32 c) \<and> ca_public_key r \<notin> set (conn_held s)) (channel_accounts s)"

definition picked_transactions :: "int \<Rightarrow> int \<Rightarrow> 'z tss_db_scheme \<Rightarrow> Transaction list" where
  "picked_transactions c limit s = sql_limit limit (sql_order_by tx_updated_at (available c s))"

definition picked_accounts :: "int \<Rightarrow> int \<Rightarrow> 'z tss_db_scheme \<Rightarrow> ChannelAccount list" where
  "picked_accounts c limit s =
     sql_limit (int (length (picked_transactions c limit s))) (sql_order_by ca_updated_at (free_accounts c s))"

definition picked_pairs :: "int \<Rightarrow> int \<Rightarrow> 'z tss_db_scheme \<Rightarrow> (ChannelAccount \<times> Transaction) list" where
  "picked_pairs c limit s = zip (picked_accounts c limit s) (picked_transactions c limit s)"

lemma available_faults [simp]:
  "available c (s\<lparr>conn_faults := fs\<rparr>) = available c s" "free_accounts c (s\<lparr>conn_faults := fs\<rparr>) = free_accounts c s"
  "picked_transactions c l (s\<lparr>conn_faults := fs\<rparr>) = picked_transactions c l s"
  "picked_accounts c l (s\<lparr>conn_faults := fs\<rparr>) = picked_accounts c l s"
  "picked_pairs c l (s\<lparr>conn_faults := fs\<rparr>) = picked_pairs c l s"
  by (simp_all add: available_def free_accounts_def picked_transactions_def picked_accounts_def picked_pairs_def)

lemma fetch_unlocked_transactions_ok:
  assumes "fetch_unlocked_transactions c l s = (Inr ts, s')"
  shows "ts = picked_transactions c l s \<and> (\<exists>fs. s' = s\<lparr>conn_faults := fs\<rparr>)"
  using assms unfolding fetch_unlocked_transactions_def picked_transactions_def available_def tx_lockable_def
  by (auto simp: prog_ok elim!: tx_select_for_update_cases)

lemma fetch_unlocked_accounts_ok:
  assumes "fetch_unlocked_accounts c l s = (Inr as, s')"
  shows "as = sql_limit l (sql_order_by ca_updated_at (free_accounts c s)) \<and> (\<exists>fs. s' = s\<lparr>conn_faults := fs\<rparr>)"
  using assms unfolding fetch_unlocked_accounts_def free_accounts_def
  by (auto simp: prog_ok ca_filter_IsLocked dest!: ca_select_for_update_ok)

lemma distinct_take_key: "distinct (map k t) \<Longrightarrow> distinct (map k (sql_limit n (sql_order_by j (filter P t))))"
proof -
  assume "distinct (map k t)"
  then have "distinct (map k (sql_order_by j (filter P t)))"
    by (simp only: distinct_sql_order_by distinct_map_filter)
  then show ?thesis
    unfolding sql_limit_def take_map [symmetric] by (rule distinct_take)
qed

lemma picked_distinct:
  assumes "tss_db_ok s"
  shows "distinct (map tx_id (picked_transactions c l s))" and "distinct (map ca_public_key (picked_accounts c l s))"
  using assms
  by (simp_all add: picked_transactions_def picked_accounts_def available_def free_accounts_def tss_db_ok_def
      ca_table_ok_keys tx_table_ok_ids distinct_take_key)

lemma length_picked:
  "length (picked_transactions c l s) = min (length (available c s)) (nat l)"
  "length (picked_accounts c l s) = min (length (free_accounts c s)) (length (picked_transactions c l s))"
  by (simp_all add: picked_transactions_def picked_accounts_def sql_limit_def)

lemma picked_pairs_keys:
  "map (\<lambda>p. tx_id (snd p)) (picked_pairs c l s) = take (length (picked_accounts c l s)) (map tx_id (picked_transactions c l s))"
  "map (\<lambda>p. ca_public_key (fst p)) (picked_pairs c l s) = map ca_public_key (picked_accounts c l s)"
proof -
  have len: "length (picked_accounts c l s) \<le> length (picked_transactions c l s)"
    by (simp add: length_picked(2))
  have "map (\<lambda>p. tx_id (snd p)) (zip xs ys) = take (length xs) (map tx_id ys)" for xs :: "ChannelAccount list" and ys
    by (induction xs ys rule: list_induct2') auto
  then show "map (\<lambda>p. tx_id (snd p)) (picked_pairs c l s) = take (length (picked_accounts c l s)) (map tx_id (picked_transactions c l s))"
    by (simp add: picked_pairs_def)
  have "length xs \<le> length ys \<Longrightarrow> map (\<lambda>p. ca_public_key (fst p)) (zip xs ys) = map ca_public_key xs"
    for xs and ys :: "Transaction list"
    by (induction xs ys rule: list_induct2') auto
  with len show "map (\<lambda>p. ca_public_key (fst p)) (picked_pairs c l s) = map ca_public_key (picked_accounts c l s)"
    by (simp add: picked_pairs_def)
qed

lemma picked_pairs_distinct:
  assumes "tss_db_ok s"
  shows "distinct (map (\<lambda>p. tx_id (snd p)) (picked_pairs c l s))"
    and "distinct (map (\<lambda>p. ca_public_key (fst p)) (picked_pairs c l s))"
  using picked_distinct [OF assms] by (simp_all add: picked_pairs_keys)

text \<open>The state a successful call leaves, and the bundles it returns.\<close>

definition loaded :: "int \<Rightarrow> int \<Rightarrow> int \<Rightarrow> 'z tss_db_scheme \<Rightarrow> ChannelTransactionBundle list \<Rightarrow> 'z tss_db_scheme \<Rightarrow> bool" where
  "loaded c n l s bs s' \<longleftrightarrow>
     (let ps = picked_pairs c l s in
      list_all2 (bundle_of c n s (conn_now s)) ps bs \<and>
      submitter_transactions s' = on_ids (set (map (\<lambda>p. tx_id (snd p)) ps)) (tx_lock_row (int32 n) (conn_now s)) (submitter_transactions s) \<and>
      channel_accounts s' = on_keys (set (map (\<lambda>p. ca_public_key (fst p)) ps)) (ca_lock_row (int32 n) (conn_now s)) (channel_accounts s))"

lemma load_and_lock_body_ok:
  assumes "load_and_lock_body c n l s = (Inr bs, s')" and "tss_db_ok s"
  shows "loaded c n l s bs s' \<and> (bs = [] \<longrightarrow> picked_transactions c l s = [])"
proof -
  from assms(1) obtain ts s1 where ts: "fetch_unlocked_transactions c l s = (Inr ts, s1)"
    and rest: "(if ts = [] then ret [] else bindE (wrapE ''calculating amount ov available channel accounts''
                  (fetch_unlocked_accounts c (int (length ts)))) (\<lambda>as.
       if as = [] then throw ErrInsuficientChannelAccounts else forE (zip as ts) (lock_pair c n))) s1 = (Inr bs, s')"
    by (auto simp: load_and_lock_body_def prog_ok)
  from fetch_unlocked_transactions_ok [OF ts] obtain f1 where
    ts': "ts = picked_transactions c l s" and s1: "s1 = s\<lparr>conn_faults := f1\<rparr>" by blast
  show ?thesis
  proof (cases "ts = []")
    case True
    with rest ts' s1 show ?thesis
      by (auto simp: prog_ok loaded_def picked_pairs_def)
  next
    case False
    with rest obtain as s2 where as: "fetch_unlocked_accounts c (int (length ts)) s1 = (Inr as, s2)" and "as \<noteq> []"
      and loop: "forE (zip as ts) (lock_pair c n) s2 = (Inr bs, s')"
      by (auto simp: prog_ok split: if_splits)
    from fetch_unlocked_accounts_ok [OF as] obtain f2 where
      as': "as = picked_accounts c l s" and s2: "s2 = s\<lparr>conn_faults := f2\<rparr>"
      using s1 by (auto simp: picked_accounts_def ts')
    have ps: "zip as ts = picked_pairs c l s" by (simp add: as' ts' picked_pairs_def)
    have "tss_db_ok s2" using assms(2) by (simp add: s2 tss_db_ok_def)
    from lock_pairs_ok [OF loop this] picked_pairs_distinct [OF assms(2)]
    have all: "list_all2 (bundle_of c n s2 (conn_now s2)) (picked_pairs c l s) bs"
      and s': "\<exists>fs. s' = s2\<lparr>conn_faults := fs,
        submitter_transactions := on_ids (set (map (\<lambda>p. tx_id (snd p)) (picked_pairs c l s))) (tx_lock_row (int32 n) (conn_now s2)) (submitter_transactions s2),
        channel_accounts := on_keys (set (map (\<lambda>p. ca_public_key (fst p)) (picked_pairs c l s))) (ca_lock_row (int32 n) (conn_now s2)) (channel_accounts s2)\<rparr>"
      unfolding ps by blast+
    have "bundle_of c n s2 (conn_now s2) = bundle_of c n s (conn_now s)"
      by (simp add: s2 bundle_of_def fun_eq_iff)
    with all have "list_all2 (bundle_of c n s (conn_now s)) (picked_pairs c l s) bs" by simp
    moreover from this \<open>as \<noteq> []\<close> False have "bs \<noteq> []"
      by (cases bs) (auto simp: ps [symmetric] zip_eq_Nil_iff)
    ultimately show ?thesis
      using s' by (auto simp: loaded_def Let_def s2)
  qed
qed


lemma LoadAndLockTuples_ok:
  assumes "ChannelTransactionBundleModel_LoadAndLockTuples c n l s = (Inr bs, s')" and "tss_db_ok s"
  shows "1 \<le> l \<and> c < n \<and> loaded c n l s bs s' \<and> (bs = [] \<longrightarrow> available c s = [])"
proof -
  from assms(1) have lc: "1 \<le> l \<and> c < n"
    and run: "RunInTransactionWithResult tss_rollback (load_and_lock_body c n l) s = (Inr bs, s')"
    by (auto simp: ChannelTransactionBundleModel_LoadAndLockTuples_def prog_ok split: if_splits)
  from run obtain fs fs' s2 where body: "load_and_lock_body c n l (s\<lparr>conn_faults := fs\<rparr>) = (Inr bs, s2)"
    and s': "s' = s2\<lparr>conn_faults := fs'\<rparr>"
    by (cases rule: RunInTransactionWithResult_cases) auto
  have "tss_db_ok (s\<lparr>conn_faults := fs\<rparr>)" using assms(2) by (simp add: tss_db_ok_def)
  from load_and_lock_body_ok [OF body this] s'
  have "loaded c n l s bs s' \<and> (bs = [] \<longrightarrow> picked_transactions c l s = [])"
    by (simp add: loaded_def Let_def bundle_of_def [abs_def])
  moreover have "picked_transactions c l s = [] \<longrightarrow> available c s = []"
    using length_picked(1) [of c l s] lc by (auto simp: min_def split: if_splits)
  ultimately show ?thesis using lc by blast
qed

lemma loaded_bundles:
  assumes "loaded c n l s bs s'"
  shows "map (\<lambda>b. tx_id (cb_transaction b)) bs = map (\<lambda>p. tx_id (snd p)) (picked_pairs c l s)"
    and "map (\<lambda>b. ca_public_key (cb_channel_account b)) bs = map (\<lambda>p. ca_public_key (fst p)) (picked_pairs c l s)"
proof -
  from assms have "list_all2 (bundle_of c n s (conn_now s)) (picked_pairs c l s) bs" by (simp add: loaded_def Let_def)
  then show "map (\<lambda>b. tx_id (cb_transaction b)) bs = map (\<lambda>p. tx_id (snd p)) (picked_pairs c l s)"
    and "map (\<lambda>b. ca_public_key (cb_channel_account b)) bs = map (\<lambda>p. ca_public_key (fst p)) (picked_pairs c l s)"
    by (induction rule: list_all2_induct) (auto simp: bundle_of_def)
qed

text \<open>A bundle of a successful call, seen from the states before and after.\<close>

definition bundle_locked :: "int \<Rightarrow> int \<Rightarrow> 'z tss_db_scheme \<Rightarrow> 'z tss_db_scheme \<Rightarrow> ChannelTransactionBundle \<Rightarrow> bool" where
  "bundle_locked c n s s' b \<longleftrightarrow>
     cb_transaction b \<in> set (submitter_transactions s') \<and> cb_channel_account b \<in> set (channel_accounts s') \<and>
     tx_status (cb_transaction b) = TransactionStatusProcessing \<and> tx_synced_at (cb_transaction b) = None \<and>
     tx_locked_until_ledger_number (cb_transaction b) = Some n \<and>
     ca_locked_until_ledger_number (cb_channel_account b) = Some n \<and>
     cb_locked_until_ledger_number b = n \<and>
     \<not> tx_locked s (tx_id (cb_transaction b)) c \<and> \<not> ca_locked s (ca_public_key (cb_channel_account b)) c \<and>
     (\<exists>r \<in> set (submitter_transactions s). row_le r (cb_transaction b) \<and>
        tx_stellar_transaction_hash r = tx_stellar_transaction_hash (cb_transaction b))"

lemma loaded_bundle_locked:
  assumes "loaded c n l s bs s'" and "b \<in> set bs" and "int32 c = c" and "int32 n = n"
  shows "bundle_locked c n s s' b"
proof -
  let ?ids = "set (map (\<lambda>p. tx_id (snd p)) (picked_pairs c l s))"
  let ?keys = "set (map (\<lambda>p. ca_public_key (fst p)) (picked_pairs c l s))"
  from assms(1) have all: "list_all2 (bundle_of c n s (conn_now s)) (picked_pairs c l s) bs"
    and st: "submitter_transactions s' = on_ids ?ids (tx_lock_row n (conn_now s)) (submitter_transactions s)"
    and ca: "channel_accounts s' = on_keys ?keys (ca_lock_row n (conn_now s)) (channel_accounts s)"
    using assms(4) by (simp_all add: loaded_def Let_def)
  from all assms(2) obtain p where p: "p \<in> set (picked_pairs c l s)" and b: "bundle_of c n s (conn_now s) p b"
    by (metis in_set_conv_nth list_all2_conv_all_nth)
  from b assms(3,4) obtain a r where
    a: "a \<in> set (channel_accounts s)" "ca_public_key a = ca_public_key (fst p)" "\<not> ChannelAccount_IsLocked a c"
      "cb_channel_account b = ca_lock_row n (conn_now s) a"
    and r: "r \<in> set (submitter_transactions s)" "tx_id r = tx_id (snd p)" "tx_lockable c r"
      "cb_transaction b = tx_lock_row n (conn_now s) r"
    and n: "cb_locked_until_ledger_number b = n"
    by (auto simp: bundle_of_def)
  have "tx_id r \<in> ?ids" and "ca_public_key a \<in> ?keys" using p a(2) r(2) by auto
  then have "cb_transaction b \<in> set (submitter_transactions s')" and "cb_channel_account b \<in> set (channel_accounts s')"
    using r(1,4) a(1,4) unfolding st ca on_ids_def on_keys_def by (simp_all add: rev_image_eqI)
  moreover have "\<not> tx_locked s (tx_id r) c" and "\<not> ca_locked s (ca_public_key a) c"
    using a(1,3) r(1,3) by (auto simp: tx_locked_def ca_locked_def tx_lockable_def filter_IsLocked)
  moreover have "row_le r (cb_transaction b)" by (simp add: r(4) row_le_def set_defs)
  ultimately show ?thesis
    using a r n by (auto simp: bundle_locked_def set_defs ca_set_defs tx_lockable_def)
qed

text \<open>C33: a successful call returns at most \<open>limit\<close> bundles over pairwise distinct transactions and
  pairwise distinct channel accounts. Before it, none of them was locked at the current ledger; after
  it, each transaction and account is stored exactly as returned: the transaction is processing, not
  synchronised, and both are locked until the given ledger, with payload and history unchanged. No
  bundle comes back only when no transaction was available.\<close>

theorem LoadAndLockTuples_locks:
  assumes "ChannelTransactionBundleModel_LoadAndLockTuples c n l s = (Inr bs, s')" and "tss_db_ok s"
    and "- (2 ^ 31) \<le> c" and "n < 2 ^ 31"
  shows "int (length bs) \<le> l \<and> distinct (map (\<lambda>b. tx_id (cb_transaction b)) bs) \<and>
     distinct (map (\<lambda>b. ca_public_key (cb_channel_account b)) bs) \<and>
     list_all (bundle_locked c n s s') bs \<and> (bs = [] \<longrightarrow> available c s = [])"
proof -
  from LoadAndLockTuples_ok [OF assms(1,2)]
  have l: "1 \<le> l" and cn: "c < n" and loaded: "loaded c n l s bs s'" and empty: "bs = [] \<longrightarrow> available c s = []" by auto
  have "int32 c = c" and "int32 n = n" using assms(3,4) cn by simp_all
  with loaded have "list_all (bundle_locked c n s s') bs"
    by (auto simp: list_all_iff intro: loaded_bundle_locked)
  moreover note loaded_bundles [OF loaded]
  moreover from this(1) have "length bs = length (picked_pairs c l s)" by (metis length_map)
  then have "int (length bs) \<le> l"
    using l by (simp add: picked_pairs_def length_picked)
  ultimately show ?thesis
    using picked_pairs_distinct [OF assms(2)] empty by simp
qed


lemma bundle_locked_until:
  assumes "bundle_locked c n s s' b" and "tss_db_ok s'" and "m \<le> n"
  shows "tx_locked s' (tx_id (cb_transaction b)) m" and "ca_locked s' (ca_public_key (cb_channel_account b)) m"
proof -
  from assms(1) have t: "cb_transaction b \<in> set (submitter_transactions s')" "tx_locked_until_ledger_number (cb_transaction b) = Some n"
    and a: "cb_channel_account b \<in> set (channel_accounts s')" "ca_locked_until_ledger_number (cb_channel_account b) = Some n"
    by (auto simp: bundle_locked_def)
  from assms(2) have d: "distinct (map tx_id (submitter_transactions s'))" "distinct (map ca_public_key (channel_accounts s'))"
    by (simp_all add: tss_db_ok_def ca_table_ok_keys tx_table_ok_ids)
  show "tx_locked s' (tx_id (cb_transaction b)) m"
    unfolding tx_locked_def using t assms(3) unique_by_key [OF d(1)]
    by (metis Transaction_IsLocked_def option.simps(5))
  show "ca_locked s' (ca_public_key (cb_channel_account b)) m"
    unfolding ca_locked_def using a assms(3) unique_by_key [OF d(2)]
    by (metis ChannelAccount_IsLocked_def option.simps(5))
qed

text \<open>The two store interfaces together: a preorder that accepts the lock of a free transaction and
  any change of the channel accounts is respected by the whole call.\<close>

locale bundle_relation = tx_update_relation R row_step + ca_relation R
  for R :: "'z tss_db_scheme \<Rightarrow> 'z tss_db_scheme \<Rightarrow> bool" and row_step +
  fixes ledger :: int
  assumes step_lock: "tx_lockable (int32 ledger) r \<Longrightarrow> row_step r (touched (set_locked l) now r)"
begin

lemma keeps_lock_pair: "keeps R (lock_pair ledger n p)"
  unfolding lock_pair_def by (intro keeps_intros keeps_Lock step_lock)

lemma keeps_LoadAndLockTuples: "keeps R (ChannelTransactionBundleModel_LoadAndLockTuples ledger n l)"
  unfolding ChannelTransactionBundleModel_LoadAndLockTuples_def load_and_lock_body_def
    fetch_unlocked_transactions_def fetch_unlocked_accounts_def
  by (intro keeps_intros keeps_lock_pair)

end

locale store_relation = tx_store_relation R row_step + ca_relation R
  for R :: "'z tss_db_scheme \<Rightarrow> 'z tss_db_scheme \<Rightarrow> bool" and row_step

sublocale store_relation < bundle_relation R row_step ledger for ledger
  by unfold_locales (rule step_locked)

interpretation store_evolution: store_relation tss_le row_le
  by unfold_locales

interpretation store_constraints: store_relation "\<lambda>s s'. tss_db_ok s \<longrightarrow> tss_db_ok s'" "\<lambda>_ _. True"
  by unfold_locales

text \<open>Of two consecutive calls, the second one made at a ledger up to the one the first locked to
  returns no transaction and no channel account of the first: no transaction is handed to two workers
  and no account is used for two transactions at a time.\<close>

theorem LoadAndLockTuples_disjoint:
  assumes "ChannelTransactionBundleModel_LoadAndLockTuples c n l s = (Inr bs, s1)" and "tss_db_ok s"
    and "ChannelTransactionBundleModel_LoadAndLockTuples c' n' l' s1 = (Inr bs', s2)"
    and "- (2 ^ 31) \<le> c" and "n < 2 ^ 31" and "- (2 ^ 31) \<le> c'" and "n' < 2 ^ 31" and "c' \<le> n"
  shows "set (map (\<lambda>b. tx_id (cb_transaction b)) bs) \<inter> set (map (\<lambda>b. tx_id (cb_transaction b)) bs') = {} \<and>
     set (map (\<lambda>b. ca_public_key (cb_channel_account b)) bs) \<inter> set (map (\<lambda>b. ca_public_key (cb_channel_account b)) bs') = {}"
proof -
  have ok: "tss_db_ok s1"
    using keepsD [OF store_constraints.keeps_LoadAndLockTuples assms(1)] assms(2) by blast
  from LoadAndLockTuples_ok [OF assms(1,2)] LoadAndLockTuples_ok [OF assms(3) ok]
  have "c < n" "loaded c n l s bs s1" "c' < n'" "loaded c' n' l' s1 bs' s2" by auto
  moreover from this assms(4-7) have "int32 c = c" "int32 n = n" "int32 c' = c'" "int32 n' = n'" by simp_all
  ultimately have first: "\<And>b. b \<in> set bs \<Longrightarrow> bundle_locked c n s s1 b"
    and second: "\<And>b. b \<in> set bs' \<Longrightarrow> bundle_locked c' n' s1 s2 b"
    by (auto intro: loaded_bundle_locked)
  have "\<And>b. b \<in> set bs \<Longrightarrow> tx_locked s1 (tx_id (cb_transaction b)) c' \<and> ca_locked s1 (ca_public_key (cb_channel_account b)) c'"
    using bundle_locked_until [OF first ok assms(8)] by blast
  moreover have "\<And>b. b \<in> set bs' \<Longrightarrow> \<not> tx_locked s1 (tx_id (cb_transaction b)) c' \<and> \<not> ca_locked s1 (ca_public_key (cb_channel_account b)) c'"
    using second by (auto simp: bundle_locked_def)
  ultimately show ?thesis by fastforce
qed

text \<open>A call that reports an error leaves both tables as they were, except when the commit itself
  is reported as failed after it took effect; then the tables hold the complete result.\<close>

theorem LoadAndLockTuples_rollback:
  assumes "ChannelTransactionBundleModel_LoadAndLockTuples c n l s = (Inl e, s')" and "tss_db_ok s"
  shows "(submitter_transactions s' = submitter_transactions s \<and> channel_accounts s' = channel_accounts s) \<or>
    (\<exists>bs. loaded c n l s bs s')"
proof (cases "n \<le> c \<or> l < 1")
  case True
  with assms(1) show ?thesis
    by (auto simp: ChannelTransactionBundleModel_LoadAndLockTuples_def throw_def split: if_splits)
next
  case False
  with assms(1) have "RunInTransactionWithResult tss_rollback (load_and_lock_body c n l) s = (Inl e, s')"
    by (simp add: ChannelTransactionBundleModel_LoadAndLockTuples_def)
  then show ?thesis
  proof (cases rule: RunInTransactionWithResult_cases)
    case (committed fs fs' bs s2)
    have "tss_db_ok (s\<lparr>conn_faults := fs\<rparr>)" using assms(2) by (simp add: tss_db_ok_def)
    from load_and_lock_body_ok [OF committed(1) this] committed(2)
    have "loaded c n l s bs s'" by (simp add: loaded_def Let_def bundle_of_def [abs_def])
    then show ?thesis by blast
  qed auto
qed


section \<open>Progress without faults\<close>

lemma locked_row_ok: "tx_row_ok r \<Longrightarrow> tx_row_ok (tx_lock_row n now r)"
  by (simp add: tx_row_ok_def Let_def set_defs TransactionStatus_All_def)

lemma tx_table_ok_locked:
  assumes "tx_table_ok t"
  shows "tx_table_ok (tx_updated (\<lambda>r. tx_id r = i \<and> tx_lockable c r) (set_locked n) now t)"
proof -
  let ?g = "\<lambda>r. if tx_id r = i \<and> tx_lockable c r then tx_lock_row n now r else r"
  have "tx_unique_ok (map ?g t)"
    using assms by (intro tx_unique_ok_update) (auto simp: tx_table_ok_def set_defs tx_lockable_def)
  moreover have "list_all tx_row_ok (map ?g t)"
    using assms by (auto simp: tx_table_ok_def list_all_iff intro: locked_row_ok)
  ultimately show ?thesis by (simp add: tx_table_ok_def tx_updated_touched)
qed

lemma Lock_progress:
  assumes "conn_faults s = []" and "tss_db_ok s" and "row \<in> set (submitter_transactions s)" and "tx_id row = i" and "tx_lockable c row"
  shows "\<exists>r s'. TransactionModel_Lock i c n s = (Inr r, s') \<and> conn_faults s' = []"
proof -
  let ?P = "\<lambda>r. tx_id r = i \<and> tx_lockable c r"
  have "filter ?P (submitter_transactions s) \<noteq> []"
    using assms(3-5) by (auto simp: filter_empty_conv)
  moreover have "tx_table_ok (sql_update ?P (\<lambda>r. (set_locked n (conn_now s) r)\<lparr>tx_updated_at := conn_now s\<rparr>) (submitter_transactions s))"
    using tx_table_ok_locked assms(2) by (simp add: tss_db_ok_def tx_updated_def)
  ultimately show ?thesis
    using assms(1)
    by (auto simp: TransactionModel_Lock_def not_found_or_wrap_def handleE_def tx_update_returning_def Let_def ret_def
        split: list.splits)
qed

lemma ca_Lock_progress:
  assumes "conn_faults s = []" and "row \<in> set (channel_accounts s)" and "ca_public_key row = k" and "\<not> ChannelAccount_IsLocked row c"
  shows "\<exists>r s'. ChannelAccountModel_Lock k c n s = (Inr r, s') \<and> conn_faults s' = []"
proof -
  have "filter (\<lambda>r. ca_public_key r = k \<and> ChannelAccountModel_queryFilterForLockedState False c r) (channel_accounts s) \<noteq> []"
    using assms(2-4) by (auto simp: filter_empty_conv ca_filter_IsLocked)
  then show ?thesis
    using assms(1)
    by (auto simp: ChannelAccountModel_Lock_def not_found_or_wrap_def handleE_def ca_update_returning_def ret_def
        split: list.splits)
qed

definition free_pair :: "int \<Rightarrow> 'z tss_db_scheme \<Rightarrow> ChannelAccount \<times> Transaction \<Rightarrow> bool" where
  "free_pair c s p \<longleftrightarrow> fst p \<in> set (channel_accounts s) \<and> \<not> ChannelAccount_IsLocked (fst p) (int32 c) \<and>
     snd p \<in> set (submitter_transactions s) \<and> tx_lockable (int32 c) (snd p)"

lemma lock_pair_progress:
  assumes "conn_faults s = []" and "tss_db_ok s" and "free_pair c s p"
  shows "\<exists>b s'. lock_pair c n p s = (Inr b, s') \<and> conn_faults s' = []"
proof -
  obtain a t where p: "p = (a, t)" by fastforce
  with assms(3) have free: "a \<in> set (channel_accounts s)" "\<not> ChannelAccount_IsLocked a (int32 c)"
    "t \<in> set (submitter_transactions s)" "tx_lockable (int32 c) t" by (auto simp: free_pair_def)
  from ca_Lock_progress [OF assms(1) free(1) refl free(2)] obtain la s1 where
    la: "ChannelAccountModel_Lock (ca_public_key a) (int32 c) (int32 n) s = (Inr la, s1)" "conn_faults s1 = []" by blast
  have s1: "tss_db_ok s1 \<and> submitter_transactions s1 = submitter_transactions s"
    by (rule ca_Lock_ok_on_keys [OF la(1) assms(2)]) simp
  with Lock_progress [OF la(2) _ _ refl free(4), of "int32 n"] free(3) obtain lt s2 where
    lt: "TransactionModel_Lock (tx_id t) (int32 c) (int32 n) s1 = (Inr lt, s2)" "conn_faults s2 = []" by auto
  from la(1) lt show ?thesis by (auto simp: p lock_pair_def bindE_def wrapE_def handleE_def ret_def)
qed

lemma lock_pairs_progress:
  assumes "conn_faults s = []" and "tss_db_ok s" and "list_all (free_pair c s) ps"
    and "distinct (map (\<lambda>p. tx_id (snd p)) ps)" and "distinct (map (\<lambda>p. ca_public_key (fst p)) ps)"
  shows "\<exists>bs s'. forE ps (lock_pair c n) s = (Inr bs, s') \<and> conn_faults s' = []"
  using assms
proof (induction ps arbitrary: s)
  case (Cons p ps)
  from Cons.prems obtain b s1 where b: "lock_pair c n p s = (Inr b, s1)" "conn_faults s1 = []"
    using lock_pair_progress [of s c p n] by auto
  from b(1) Cons.prems(2) obtain fs where ok: "tss_db_ok s1" and s1: "s1 = s\<lparr>conn_faults := fs,
        submitter_transactions := on_ids {tx_id (snd p)} (tx_lock_row (int32 n) (conn_now s)) (submitter_transactions s),
        channel_accounts := on_keys {ca_public_key (fst p)} (ca_lock_row (int32 n) (conn_now s)) (channel_accounts s)\<rparr>"
    by (rule lock_pair_ok)
  have "free_pair c s1 q" if "q \<in> set ps" for q
  proof -
    have "tx_id (snd q) \<noteq> tx_id (snd p)" and "ca_public_key (fst q) \<noteq> ca_public_key (fst p)"
      using Cons.prems(4,5) that by (auto simp: rev_image_eqI)
    with Cons.prems(3) that show ?thesis
      by (auto simp: free_pair_def s1 on_ids_def on_keys_def list_all_iff image_iff)
  qed
  with Cons.IH [OF b(2) ok] Cons.prems(4,5) obtain bs s' where
    "forE ps (lock_pair c n) s1 = (Inr bs, s')" "conn_faults s' = []" by (auto simp: list_all_iff)
  with b show ?case by (auto simp: bindE_def ret_def)
qed (auto simp: ret_def)


lemma picked_pairs_free:
  assumes "p \<in> set (picked_pairs c l s)"
  shows "free_pair c s p"
proof -
  obtain a t where p: "p = (a, t)" by fastforce
  with assms have "a \<in> set (picked_accounts c l s)" and "t \<in> set (picked_transactions c l s)"
    by (auto simp: picked_pairs_def dest: set_zip_leftD set_zip_rightD)
  then show ?thesis
    by (auto simp: p free_pair_def picked_accounts_def picked_transactions_def available_def free_accounts_def
        dest!: subsetD [OF sql_limit_subset])
qed

lemma load_and_lock_body_no_faults:
  assumes "conn_faults s = []"
  shows "load_and_lock_body c n l s =
    (if picked_transactions c l s = [] then (Inr [], s)
     else if picked_accounts c l s = [] then (Inl ErrInsuficientChannelAccounts, s)
     else forE (picked_pairs c l s) (lock_pair c n) s)"
  using assms
  by (simp add: load_and_lock_body_def fetch_unlocked_transactions_def fetch_unlocked_accounts_def
      tx_select_for_update_def ca_select_for_update_def getsE_def bindE_def wrapE_def handleE_def ret_def throw_def
      ca_filter_IsLocked picked_pairs_def picked_accounts_def picked_transactions_def available_def free_accounts_def
      tx_lockable_def)

lemma LoadAndLockTuples_ready:
  assumes "conn_faults s = []" and "tss_db_ok s" and "1 \<le> l" and "c < n"
  shows "if available c s \<noteq> [] \<and> free_accounts c s = []
    then ChannelTransactionBundleModel_LoadAndLockTuples c n l s = (Inl (TransactionExecutionError ErrInsuficientChannelAccounts), s)
    else (\<exists>bs s'. ChannelTransactionBundleModel_LoadAndLockTuples c n l s = (Inr bs, s') \<and>
       length bs = min (min (length (available c s)) (nat l)) (length (free_accounts c s)))"
proof -
  let ?call = "ChannelTransactionBundleModel_LoadAndLockTuples c n l s"
  have call: "?call = (case load_and_lock_body c n l s of (Inl e, s2) \<Rightarrow> (Inl (TransactionExecutionError e), tss_rollback s s2)
      | (Inr x, s2) \<Rightarrow> (case conn_faults s2 of [] \<Rightarrow> (Inr x, s2) | _ \<Rightarrow> ?call))"
    using assms by (auto simp: ChannelTransactionBundleModel_LoadAndLockTuples_def RunInTransactionWithResult_def ret_def
        split: sum.splits prod.splits list.splits)
  have picked: "picked_transactions c l s = [] \<longleftrightarrow> available c s = []"
    "picked_accounts c l s = [] \<longleftrightarrow> free_accounts c s = [] \<or> available c s = []"
    using length_picked [of c l s] assms(3) by (auto simp: min_def split: if_splits)
  show ?thesis
  proof (cases "available c s = [] \<or> free_accounts c s = []")
    case True
    then show ?thesis
      using call picked assms(1) by (auto simp: load_and_lock_body_no_faults tss_rollback_def)
  next
    case False
    have "list_all (free_pair c s) (picked_pairs c l s)"
      by (simp add: list_all_iff picked_pairs_free)
    with assms(1,2) picked_pairs_distinct [OF assms(2)] obtain bs s' where
      loop: "forE (picked_pairs c l s) (lock_pair c n) s = (Inr bs, s')" "conn_faults s' = []"
      using lock_pairs_progress by blast
    with call picked assms(1) False have run: "?call = (Inr bs, s')"
      by (simp add: load_and_lock_body_no_faults)
    with assms(2) have "loaded c n l s bs s'" using LoadAndLockTuples_ok by blast
    from loaded_bundles(1) [OF this] have "length bs = length (picked_pairs c l s)" by (metis length_map)
    also have "\<dots> = min (min (length (available c s)) (nat l)) (length (free_accounts c s))"
      by (simp add: picked_pairs_def length_picked)
    finally show ?thesis using run False by simp
  qed
qed

text \<open>C34: without database faults the call returns exactly as many bundles as the limit, the available
  transactions and the free channel accounts allow; when there are transactions but no free account it
  reports \<open>ErrInsuficientChannelAccounts\<close> and changes no table.\<close>

theorem LoadAndLockTuples_progress:
  assumes "conn_faults s = []" and "tss_db_ok s" and "1 \<le> l" and "c < n"
  shows "if available c s \<noteq> [] \<and> free_accounts c s = []
    then ChannelTransactionBundleModel_LoadAndLockTuples c n l s = (Inl (TransactionExecutionError ErrInsuficientChannelAccounts), s)
    else (\<exists>bs s'. ChannelTransactionBundleModel_LoadAndLockTuples c n l s = (Inr bs, s') \<and>
       length bs = min (min (length (available c s)) (nat l)) (length (free_accounts c s)))"
  using LoadAndLockTuples_ready [OF assms] .

definition example_load :: "(go_error + ChannelTransactionBundle list) \<times> tss_db" where
  "example_load = ChannelTransactionBundleModel_LoadAndLockTuples 10 20 5 example_db"

lemma example_resources: "available 10 example_db = [example_row]" "free_accounts 10 example_db = [example_account]"
  by (simp_all add: available_def free_accounts_def tx_lockable_def ChannelAccount_IsLocked_def
      TransactionModel_queryFilterForLockedState_def example_defs)

theorem LoadAndLockTuples_progress_witness:
  "\<exists>bs s'. ChannelTransactionBundleModel_LoadAndLockTuples 10 20 5 example_db = (Inr bs, s') \<and> length bs = 1"
  using LoadAndLockTuples_progress [of example_db 5 10 20] example_db_ok
  by (simp add: example_resources) (simp add: example_db_def)

lemma example_load_value:
  "example_load = (Inr [\<lparr>cb_channel_account = ca_lock_row 20 7 example_account, cb_transaction = tx_lock_row 20 7 example_row,
       cb_locked_until_ledger_number = 20\<rparr>],
     example_db\<lparr>submitter_transactions := [tx_lock_row 20 7 example_row],
       channel_accounts := [ca_lock_row 20 7 example_account]\<rparr>)"
proof -
  have "picked_pairs 10 5 example_db = [(example_account, example_row)]"
    by (simp add: picked_pairs_def picked_accounts_def picked_transactions_def example_resources sql_limit_def sql_order_by_def)
  moreover have "picked_transactions 10 5 example_db = [example_row]" "picked_accounts 10 5 example_db = [example_account]"
    by (simp_all add: picked_accounts_def picked_transactions_def example_resources sql_limit_def sql_order_by_def)
  moreover have "conn_faults example_db = []" "ca_public_key example_account = ''C''" "tx_id example_row = ''a''"
    by (simp_all add: example_defs)
  moreover have "TransactionModel_Lock ''a'' 10 20 (example_db\<lparr>channel_accounts := as\<rparr>) =
     (Inr (tx_lock_row 20 7 example_row),
      example_db\<lparr>channel_accounts := as, submitter_transactions := [tx_lock_row 20 7 example_row]\<rparr>)" for as
    using example_lock
    by (simp add: TransactionModel_Lock_def not_found_or_wrap_def handleE_def tx_update_returning_def Let_def ret_def
        throw_def example_db_def split: list.splits if_splits)
  ultimately show ?thesis
    by (simp add: example_load_def ChannelTransactionBundleModel_LoadAndLockTuples_def RunInTransactionWithResult_def
        load_and_lock_body_no_faults lock_pair_def example_account_lock bindE_def wrapE_def handleE_def ret_def)
qed

theorem LoadAndLockTuples_locks_witness:
  "list_all (bundle_locked 10 20 example_db (snd example_load))
     [\<lparr>cb_channel_account = ca_lock_row 20 7 example_account, cb_transaction = tx_lock_row 20 7 example_row,
       cb_locked_until_ledger_number = 20\<rparr>]"
  using LoadAndLockTuples_locks [OF _ example_db_ok, of 10 20 5] example_load_value
  unfolding example_load_def by simp


theorem LoadAndLockTuples_disjoint_witness:
  "\<exists>bs s1 bs' s2. ChannelTransactionBundleModel_LoadAndLockTuples 10 20 5 example_db = (Inr bs, s1) \<and>
     ChannelTransactionBundleModel_LoadAndLockTuples 15 30 5 s1 = (Inr bs', s2) \<and> bs \<noteq> [] \<and>
     set (map (\<lambda>b. tx_id (cb_transaction b)) bs) \<inter> set (map (\<lambda>b. tx_id (cb_transaction b)) bs') = {}"
proof -
  obtain bs s1 where first: "ChannelTransactionBundleModel_LoadAndLockTuples 10 20 5 example_db = (Inr bs, s1)" "bs \<noteq> []"
    and s1: "s1 = example_db\<lparr>submitter_transactions := [tx_lock_row 20 7 example_row],
       channel_accounts := [ca_lock_row 20 7 example_account]\<rparr>"
    using example_load_value unfolding example_load_def by simp
  have "available 15 s1 = []" and "conn_faults s1 = []"
    by (simp_all add: s1 available_def tx_lockable_def TransactionModel_queryFilterForLockedState_def set_defs example_defs)
  moreover have "tss_db_ok s1"
    using keepsD [OF store_constraints.keeps_LoadAndLockTuples first(1)] example_db_ok by blast
  ultimately obtain bs' s2 where second: "ChannelTransactionBundleModel_LoadAndLockTuples 15 30 5 s1 = (Inr bs', s2)"
    using LoadAndLockTuples_ready [of s1 5 15 30] by auto
  show ?thesis
    using first second LoadAndLockTuples_disjoint [OF first(1) example_db_ok second] by auto
qed

definition example_no_accounts :: tss_db where
  "example_no_accounts = example_db\<lparr>channel_accounts := []\<rparr>"

theorem LoadAndLockTuples_rollback_witness:
  "\<exists>e s'. ChannelTransactionBundleModel_LoadAndLockTuples 10 20 5 example_no_accounts = (Inl e, s') \<and>
     (submitter_transactions s' = submitter_transactions example_no_accounts \<and>
      channel_accounts s' = channel_accounts example_no_accounts \<or> (\<exists>bs. loaded 10 20 5 example_no_accounts bs s'))"
proof -
  have "available 10 example_no_accounts \<noteq> []" "free_accounts 10 example_no_accounts = []" "conn_faults example_no_accounts = []"
    using example_resources(1)
    by (simp_all add: example_no_accounts_def available_def free_accounts_def) (simp add: example_db_def)
  moreover have "tss_db_ok example_no_accounts"
    using example_db_ok by (simp add: example_no_accounts_def tss_db_ok_def ca_table_ok_def)
  ultimately show ?thesis
    using LoadAndLockTuples_ready [of example_no_accounts 5 10 20] LoadAndLockTuples_rollback [of 10 20 5 example_no_accounts]
    by fastforce
qed

end
