(* ===== verification/Tx_Limiter.thy ===== *)
theory Tx_Limiter
  imports Tx_Errors Bundle_Store
begin

text \<open>
  The processing limiter (\<open>src/internal/transactionsubmission/engine/tx_processing_limiter.go\<close>), the
  ledger number tracker (\<open>engine/preconditions/ledger_number_tracker.go\<close>) and the state of the running
  service: the database, the limiter, the tracker, the number of network calls made so far and the
  log of what the service told or asked the outside world. A network call is a parameter that takes
  the number of the call, so each call may answer anything. Times are nanoseconds.
\<close>

section \<open>The limiter\<close>

definition DefaultBundlesSelectionLimit :: int where "DefaultBundlesSelectionLimit = 8"
definition IndeterminateResponsesToleranceLimit :: int where "IndeterminateResponsesToleranceLimit = 10"
definition MinutesInWindow :: int where "MinutesInWindow = 3"

definition time_Second :: int where "time_Second = 10 ^ 9"
definition time_Minute :: int where "time_Minute = 60 * time_Second"

record TransactionProcessingLimiterImpl =
  CurrNumChannelAccounts :: int
  IndeterminateResponsesCounter :: int
  CounterLastUpdated :: int
  limitValue :: int

definition NewTransactionProcessingLimiter :: "int \<Rightarrow> int \<Rightarrow> TransactionProcessingLimiterImpl" where
  "NewTransactionProcessingLimiter now limit =
     (let limit' = (if limit < 0 then DefaultBundlesSelectionLimit else limit)
      in \<lparr>CurrNumChannelAccounts = limit', IndeterminateResponsesCounter = 0, CounterLastUpdated = now,
          limitValue = limit'\<rparr>)"

definition shouldAdjustLimitForHorizonError :: "horizon_error \<Rightarrow> bool" where
  "shouldAdjustLimitForHorizonError hErr = (IsRateLimit hErr \<or> IsGatewayTimeout hErr \<or> IsTxInsufficientFee hErr)"

definition shouldAdjustLimitForRPCError :: "rpc_error \<Rightarrow> bool" where
  "shouldAdjustLimitForRPCError rpcErr = RPCError_IsRetryable rpcErr"

definition adjustLimitIfNeeded :: "int \<Rightarrow> TransactionProcessingLimiterImpl \<Rightarrow> TransactionProcessingLimiterImpl" where
  "adjustLimitIfNeeded now tpl =
     (let tpl' = tpl\<lparr>IndeterminateResponsesCounter := IndeterminateResponsesCounter tpl + 1\<rparr>
      in if IndeterminateResponsesCounter tpl' \<ge> IndeterminateResponsesToleranceLimit
         then tpl'\<lparr>limitValue := DefaultBundlesSelectionLimit, CounterLastUpdated := now\<rparr>
         else tpl')"

definition congestion :: "TransactionError \<Rightarrow> bool" where
  "congestion err =
     (case as_horizon_error (of_TransactionError err) of
        Some horizonErr \<Rightarrow> IsHorizonError horizonErr \<and> shouldAdjustLimitForHorizonError horizonErr
      | None \<Rightarrow>
          (case as_rpc_error (of_TransactionError err) of
             Some rpcErr \<Rightarrow> IsRPCError rpcErr \<and> shouldAdjustLimitForRPCError rpcErr
           | None \<Rightarrow> False))"

definition Limiter_AdjustLimitIfNeeded ::
  "int \<Rightarrow> TransactionError \<Rightarrow> TransactionProcessingLimiterImpl \<Rightarrow> TransactionProcessingLimiterImpl" where
  "Limiter_AdjustLimitIfNeeded now err tpl = (if congestion err then adjustLimitIfNeeded now tpl else tpl)"

definition Limiter_LimitValue :: "int \<Rightarrow> TransactionProcessingLimiterImpl \<Rightarrow> int \<times> TransactionProcessingLimiterImpl" where
  "Limiter_LimitValue now tpl =
     (let tpl' = (if now > CounterLastUpdated tpl + MinutesInWindow * time_Minute
                  then tpl\<lparr>IndeterminateResponsesCounter := 0, CounterLastUpdated := now,
                           limitValue := CurrNumChannelAccounts tpl\<rparr>
                  else tpl)
      in (limitValue tpl', tpl'))"

section \<open>The ledger number tracker\<close>

definition MaxLedgerAge :: int where "MaxLedgerAge = 10 * time_Second"
definition IncrementForMaxLedgerBounds :: int where "IncrementForMaxLedgerBounds = 10"

text \<open>\<open>lastUpdatedAt\<close> is \<open>None\<close> for the zero time of a new tracker.\<close>

record DefaultLedgerNumberTracker =
  ledgerNumber :: int
  lastUpdatedAt :: "int option"

definition NewLedgerNumberTracker :: DefaultLedgerNumberTracker where
  "NewLedgerNumberTracker = \<lparr>ledgerNumber = 0, lastUpdatedAt = None\<rparr>"

section \<open>The state of the service\<close>

text \<open>A Horizon transaction: what the code reads of it. \<open>ht_other_fields\<close> says whether any other field
  is set, for the test against the empty value.\<close>

record horizon_transaction =
  ht_Successful :: bool
  ht_ResultXdr :: string
  ht_other_fields :: bool

definition empty_horizon_transaction :: horizon_transaction where
  "empty_horizon_transaction = \<lparr>ht_Successful = False, ht_ResultXdr = [], ht_other_fields = False\<rparr>"

text \<open>
  What the log records: \<open>EvSubmit\<close> a submission to Horizon for a transaction id, with the hash of the
  envelope and the answer; \<open>EvDetail\<close> a question for a hash and the answer; \<open>EvRestore\<close> the submission
  of a restore transaction; \<open>EvMonitor\<close> a monitoring event (transaction id, tag, event type,
  \<open>IsHorizonErr\<close>, error text); \<open>EvCrashReport\<close> a report to the crash tracker.
\<close>

datatype event =
    EvSubmit string string "go_error option \<times> horizon_transaction"
  | EvDetail string string "go_error + horizon_transaction"
  | EvRestore string
  | EvMonitor string string string bool string
  | EvCrashReport go_error string

text \<open>\<open>w_job\<close> is the job of the worker that is running: workers of one batch hold different
  transactions and accounts, so they are run one after the other.\<close>

record tss_state = tss_db +
  tss_limiter :: TransactionProcessingLimiterImpl
  tss_ledger :: DefaultLedgerNumberTracker
  tss_calls :: nat
  tss_log :: "event list"
  w_job :: ChannelTransactionBundle

definition log_event :: "event \<Rightarrow> ('z tss_state_scheme, go_error, unit) prog" where
  "log_event ev = modifyE (\<lambda>s. s\<lparr>tss_log := tss_log s @ [ev]\<rparr>)"

text \<open>A network call: the answer may depend on everything the environment knows, here the number of
  the call.\<close>

definition net_call :: "(nat \<Rightarrow> 'a) \<Rightarrow> ('z tss_state_scheme, go_error, 'a) prog" where
  "net_call f = (\<lambda>s. (Inr (f (tss_calls s)), s\<lparr>tss_calls := Suc (tss_calls s)\<rparr>))"

definition liftE :: "go_error + 'a \<Rightarrow> ('s, go_error, 'a) prog" where
  "liftE r = (case r of Inl e \<Rightarrow> throw e | Inr x \<Rightarrow> ret x)"

definition AdjustLimitIfNeeded :: "TransactionError \<Rightarrow> ('z tss_state_scheme, go_error, unit) prog" where
  "AdjustLimitIfNeeded err =
     modifyE (\<lambda>s. s\<lparr>tss_limiter := Limiter_AdjustLimitIfNeeded (conn_now s) err (tss_limiter s)\<rparr>)"

definition LimitValue :: "('z tss_state_scheme, go_error, int) prog" where
  "LimitValue = (\<lambda>s. let (l, tpl) = Limiter_LimitValue (conn_now s) (tss_limiter s)
     in (Inr l, s\<lparr>tss_limiter := tpl\<rparr>))"

text \<open>\<open>Root\<close> is \<open>hClient.Root()\<close>: an error or the \<open>HorizonSequence\<close> of the answer.\<close>

definition getLedgerNumberFromHorizon ::
  "stellar_sdk \<Rightarrow> (nat \<Rightarrow> go_error + int) \<Rightarrow> ('z tss_state_scheme, go_error, int) prog" where
  "getLedgerNumberFromHorizon sdk Root = bindE (net_call Root) (\<lambda>r. case r of
       Inl err \<Rightarrow> throw (of_horizon_error (NewHorizonErrorWrapper sdk err))
     | Inr ledger \<Rightarrow> ret ledger)"

definition ledger_stale :: "'z tss_state_scheme \<Rightarrow> bool" where
  "ledger_stale s = (case lastUpdatedAt (tss_ledger s) of None \<Rightarrow> True | Some t \<Rightarrow> conn_now s - t > MaxLedgerAge)"

definition GetLedgerNumber :: "stellar_sdk \<Rightarrow> (nat \<Rightarrow> go_error + int) \<Rightarrow> ('z tss_state_scheme, go_error, int) prog" where
  "GetLedgerNumber sdk Root = bindE (getsE ledger_stale) (\<lambda>stale.
     if stale
     then bindE (wrapE ''getting ledger number from horizon'' (getLedgerNumberFromHorizon sdk Root)) (\<lambda>n.
          bindE (modifyE (\<lambda>s. s\<lparr>tss_ledger := (tss_ledger s)\<lparr>ledgerNumber := n, lastUpdatedAt := Some (conn_now s)\<rparr>\<rparr>)) (\<lambda>_.
          getsE (\<lambda>s. ledgerNumber (tss_ledger s))))
     else getsE (\<lambda>s. ledgerNumber (tss_ledger s)))"

definition GetLedgerBounds :: "stellar_sdk \<Rightarrow> (nat \<Rightarrow> go_error + int) \<Rightarrow> ('z tss_state_scheme, go_error, int) prog" where
  "GetLedgerBounds sdk Root =
     bindE (wrapE ''getting ledger number'' (GetLedgerNumber sdk Root)) (\<lambda>n.
     ret (uint32 (n + IncrementForMaxLedgerBounds)))"

lemma liftE_ok [prog_ok]: "liftE r s = (Inr x, s') \<longleftrightarrow> r = Inr x \<and> s' = s"
  by (auto simp: liftE_def throw_def ret_def split: sum.splits)

lemma net_call_ok [prog_ok]: "net_call f s = (Inr x, s') \<longleftrightarrow> x = f (tss_calls s) \<and> s' = s\<lparr>tss_calls := Suc (tss_calls s)\<rparr>"
  by (auto simp: net_call_def)

section \<open>Properties of the limiter\<close>

datatype limiter_op = Adjust int TransactionError | Read int

fun limiter_step :: "TransactionProcessingLimiterImpl \<Rightarrow> limiter_op \<Rightarrow> TransactionProcessingLimiterImpl" where
  "limiter_step tpl (Adjust now err) = Limiter_AdjustLimitIfNeeded now err tpl"
| "limiter_step tpl (Read now) = snd (Limiter_LimitValue now tpl)"

definition limiter_run :: "TransactionProcessingLimiterImpl \<Rightarrow> limiter_op list \<Rightarrow> TransactionProcessingLimiterImpl" where
  "limiter_run tpl ops = foldl limiter_step tpl ops"

lemma limiter_run_simps [simp]:
  "limiter_run tpl [] = tpl" "limiter_run tpl (op # ops) = limiter_run (limiter_step tpl op) ops"
  by (simp_all add: limiter_run_def)

definition limiter_ok :: "int \<Rightarrow> TransactionProcessingLimiterImpl \<Rightarrow> bool" where
  "limiter_ok limit tpl \<longleftrightarrow> CurrNumChannelAccounts tpl = limit \<and> 0 \<le> IndeterminateResponsesCounter tpl \<and>
     (limitValue tpl = limit \<or>
      limitValue tpl = DefaultBundlesSelectionLimit \<and> IndeterminateResponsesCounter tpl \<ge> IndeterminateResponsesToleranceLimit)"

lemma limiter_step_ok: "limiter_ok limit tpl \<Longrightarrow> limiter_ok limit (limiter_step tpl op)"
  by (cases op) (auto simp: limiter_ok_def Limiter_AdjustLimitIfNeeded_def adjustLimitIfNeeded_def Limiter_LimitValue_def Let_def)

lemma limiter_run_ok: "limiter_ok limit tpl \<Longrightarrow> limiter_ok limit (limiter_run tpl ops)"
  by (induction ops arbitrary: tpl) (auto intro: limiter_step_ok)

lemma limiter_new_ok: "0 \<le> limit \<Longrightarrow> limiter_ok limit (NewTransactionProcessingLimiter now limit)"
  by (simp add: limiter_ok_def NewTransactionProcessingLimiter_def Let_def)

fun adjustments :: "limiter_op list \<Rightarrow> int" where
  "adjustments [] = 0"
| "adjustments (Adjust now err # ops) = (if congestion err then 1 else 0) + adjustments ops"
| "adjustments (Read now # ops) = adjustments ops"

lemma adjustments_nonneg: "0 \<le> adjustments ops"
  by (induction ops rule: adjustments.induct) auto

lemma adjustments_run:
  assumes "limiter_ok limit tpl" and "\<forall>op \<in> set ops. \<exists>now err. op = Adjust now err"
    and "IndeterminateResponsesCounter tpl \<ge> IndeterminateResponsesToleranceLimit \<Longrightarrow> limitValue tpl = DefaultBundlesSelectionLimit"
  shows "limitValue (limiter_run tpl ops) =
    (if IndeterminateResponsesCounter tpl + adjustments ops \<ge> IndeterminateResponsesToleranceLimit
     then DefaultBundlesSelectionLimit else limit)"
  using assms
proof (induction ops arbitrary: tpl)
  case Nil
  then show ?case by (auto simp: limiter_ok_def)
next
  case (Cons op ops)
  then obtain now err where op: "op = Adjust now err" by auto
  let ?tpl = "limiter_step tpl op"
  have "limitValue (limiter_run ?tpl ops) =
    (if IndeterminateResponsesCounter ?tpl + adjustments ops \<ge> IndeterminateResponsesToleranceLimit
     then DefaultBundlesSelectionLimit else limit)"
    using Cons.prems
    by (intro Cons.IH limiter_step_ok)
      (auto simp: op Limiter_AdjustLimitIfNeeded_def adjustLimitIfNeeded_def Let_def split: if_splits)
  moreover have "IndeterminateResponsesCounter ?tpl = IndeterminateResponsesCounter tpl + (if congestion err then 1 else 0)"
    by (simp add: op Limiter_AdjustLimitIfNeeded_def adjustLimitIfNeeded_def Let_def)
  ultimately show ?case by (simp add: op algebra_simps)
qed

text \<open>From a new limiter, any sequence of error reports and reads leaves the limit at the configured
  value or at the default of 8, the latter only after ten or more congestion errors; a sequence of error
  reports alone lowers it exactly when it holds ten congestion errors; and a read more than three
  minutes after the last update restores the configured value.\<close>

theorem limiter_limits:
  assumes "0 \<le> limit"
  shows "limiter_ok limit (limiter_run (NewTransactionProcessingLimiter now limit) ops) \<and>
    limitValue (limiter_run (NewTransactionProcessingLimiter now limit) (map (\<lambda>(t, e). Adjust t e) errs)) =
      (if adjustments (map (\<lambda>(t, e). Adjust t e) errs) \<ge> 10 then 8 else limit) \<and>
    (let tpl = limiter_run (NewTransactionProcessingLimiter now limit) ops
     in t > CounterLastUpdated tpl + MinutesInWindow * time_Minute \<longrightarrow> fst (Limiter_LimitValue t tpl) = limit)"
proof (intro conjI)
  note new = limiter_new_ok [OF assms, of now]
  show ok: "limiter_ok limit (limiter_run (NewTransactionProcessingLimiter now limit) ops)"
    using new by (rule limiter_run_ok)
  show "limitValue (limiter_run (NewTransactionProcessingLimiter now limit) (map (\<lambda>(t, e). Adjust t e) errs)) =
      (if adjustments (map (\<lambda>(t, e). Adjust t e) errs) \<ge> 10 then 8 else limit)"
  proof -
    have "\<forall>op \<in> set (map (\<lambda>(t, e). Adjust t e) errs). \<exists>now err. op = Adjust now err" by auto
    moreover have "IndeterminateResponsesCounter (NewTransactionProcessingLimiter now limit) = 0"
      by (simp add: NewTransactionProcessingLimiter_def Let_def)
    ultimately show ?thesis
      using adjustments_run [OF new, of "map (\<lambda>(t, e). Adjust t e) errs"]
      by (simp add: IndeterminateResponsesToleranceLimit_def DefaultBundlesSelectionLimit_def)
  qed
  show "let tpl = limiter_run (NewTransactionProcessingLimiter now limit) ops
     in t > CounterLastUpdated tpl + MinutesInWindow * time_Minute \<longrightarrow> fst (Limiter_LimitValue t tpl) = limit"
    using ok by (auto simp: Let_def Limiter_LimitValue_def limiter_ok_def)
qed

definition example_timeout :: TransactionError where
  "example_timeout = THorizon \<lparr>hw_StatusCode = 504, hw_Problem = empty_problem\<lparr>prob_status := 504\<rparr>,
     hw_Err = Errorf ''timeout'', hw_ResultCodes = None\<rparr>"

lemma example_timeout_congestion: "congestion example_timeout"
  by (simp add: example_timeout_def congestion_def IsHorizonError_def shouldAdjustLimitForHorizonError_def
      IsGatewayTimeout_def empty_problem_def)

text \<open>The limit can also rise under congestion: a service configured with five accounts at a time goes to
  eight after ten timeouts.\<close>

lemma adjustments_replicate: "adjustments (map (\<lambda>(t, e). Adjust t e) (replicate n (1, example_timeout))) = int n"
  by (induction n) (auto simp: example_timeout_congestion)

theorem limiter_limits_witness:
  "limitValue (limiter_run (NewTransactionProcessingLimiter 0 5) (map (\<lambda>(t, e). Adjust t e) (replicate 10 (1, example_timeout)))) = 8"
  using limiter_limits [of 5 0 "[]" "replicate 10 (1, example_timeout)" 0]
  unfolding adjustments_replicate by simp

section \<open>Properties of the tracker\<close>

lemma GetLedgerNumber_cases:
  assumes "GetLedgerNumber sdk Root s = (r, s')"
  obtains (cached) "\<not> ledger_stale s" and "s' = s" and "r = Inr (ledgerNumber (tss_ledger s))"
  | (failed) e where "ledger_stale s" and "s' = s\<lparr>tss_calls := Suc (tss_calls s)\<rparr>" and "r = Inl e"
      and "isl (Root (tss_calls s))"
  | (fetched) n where "ledger_stale s" and "Root (tss_calls s) = Inr n" and "r = Inr n"
      and "s' = s\<lparr>tss_calls := Suc (tss_calls s), tss_ledger := \<lparr>ledgerNumber = n, lastUpdatedAt = Some (conn_now s)\<rparr>\<rparr>"
proof (cases "ledger_stale s")
  case False
  with assms show ?thesis
    by (intro cached) (auto simp: GetLedgerNumber_def bindE_def getsE_def)
next
  case True
  show ?thesis
  proof (cases "Root (tss_calls s)")
    case (Inl e)
    with True assms show ?thesis
      by (intro failed) (auto simp: GetLedgerNumber_def getLedgerNumberFromHorizon_def net_call_def prog_defs)
  next
    case (Inr n)
    with True assms show ?thesis
      by (intro fetched [of n])
        (auto simp: GetLedgerNumber_def getLedgerNumberFromHorizon_def net_call_def prog_defs)
  qed
qed

text \<open>A ledger number that is returned was answered by Horizon at most ten seconds ago: either the
  tracker's number is that fresh and no call is made, or exactly one call is made now, and it becomes
  the tracker's number. A failed call changes nothing in the tracker.\<close>

theorem GetLedgerNumber_fresh:
  "(case GetLedgerNumber sdk Root s of (r, s') \<Rightarrow> case r of
       Inr n \<Rightarrow> ledgerNumber (tss_ledger s') = n \<and>
         (\<exists>t. lastUpdatedAt (tss_ledger s') = Some t \<and> conn_now s - t \<le> 10 * time_Second) \<and>
         (s' = s \<or> Root (tss_calls s) = Inr n \<and> tss_calls s' = Suc (tss_calls s))
     | Inl e \<Rightarrow> tss_ledger s' = tss_ledger s \<and> tss_calls s' = Suc (tss_calls s) \<and> isl (Root (tss_calls s)))"
proof -
  obtain r s' where run: "GetLedgerNumber sdk Root s = (r, s')" by fastforce
  then show ?thesis
    by (cases rule: GetLedgerNumber_cases)
      (auto simp: run ledger_stale_def MaxLedgerAge_def time_Second_def split: option.splits)
qed

end
