(* ===== verification/Tx_Handlers.thy ===== *)
theory Tx_Handlers
  imports Tx_Limiter
begin

text \<open>
  Accounts (\<open>src/pkg/schema/account_type.go\<close>, \<open>transaction_account.go\<close>) and the transaction handlers
  (\<open>src/internal/transactionsubmission/payment_transaction_handler.go\<close>,
  \<open>wallet_creation_transaction_handler.go\<close>, \<open>sponsored_transaction_handler.go\<close>,
  \<open>transaction_handler_factory.go\<close>), which build the inner transaction of a job. The engine's services
  (Horizon, RPC, signers, the SDK's transaction builder) are a record of parameters; a built
  transaction is opaque, but what it is built from is not.
\<close>

section \<open>Account types\<close>

type_synonym AccountType = string

definition HostStellarEnv :: AccountType where "HostStellarEnv = ''HOST.STELLAR.ENV''"
definition ChannelAccountStellarDB :: AccountType where "ChannelAccountStellarDB = ''CHANNEL_ACCOUNT.STELLAR.DB''"
definition DistributionAccountStellarEnv :: AccountType where
  "DistributionAccountStellarEnv = ''DISTRIBUTION_ACCOUNT.STELLAR.ENV''"
definition DistributionAccountStellarDBVault :: AccountType where
  "DistributionAccountStellarDBVault = ''DISTRIBUTION_ACCOUNT.STELLAR.DB_VAULT''"
definition DistributionAccountCircleDBVault :: AccountType where
  "DistributionAccountCircleDBVault = ''DISTRIBUTION_ACCOUNT.CIRCLE.DB_VAULT''"

lemmas account_type_defs = HostStellarEnv_def ChannelAccountStellarDB_def DistributionAccountStellarEnv_def
  DistributionAccountStellarDBVault_def DistributionAccountCircleDBVault_def

definition AllAccountTypes :: "AccountType list" where
  "AllAccountTypes = [HostStellarEnv, ChannelAccountStellarDB, DistributionAccountStellarEnv,
     DistributionAccountStellarDBVault, DistributionAccountCircleDBVault]"

text \<open>Go maps return the zero value, here the empty string, for a missing key.\<close>

definition go_map_get :: "('k \<times> string) list \<Rightarrow> 'k \<Rightarrow> string" where
  "go_map_get m k = (case map_of m k of None \<Rightarrow> [] | Some v \<Rightarrow> v)"

definition accRoleMap :: "(AccountType \<times> string) list" where
  "accRoleMap = [(HostStellarEnv, ''HOST''), (ChannelAccountStellarDB, ''CHANNEL_ACCOUNT''),
     (DistributionAccountStellarEnv, ''DISTRIBUTION_ACCOUNT''), (DistributionAccountStellarDBVault, ''DISTRIBUTION_ACCOUNT''),
     (DistributionAccountCircleDBVault, ''DISTRIBUTION_ACCOUNT'')]"

definition AccountType_Role :: "AccountType \<Rightarrow> string" where
  "AccountType_Role t = go_map_get accRoleMap t"

definition accPlatformMap :: "(AccountType \<times> string) list" where
  "accPlatformMap = [(HostStellarEnv, ''STELLAR''), (ChannelAccountStellarDB, ''STELLAR''),
     (DistributionAccountStellarEnv, ''STELLAR''), (DistributionAccountStellarDBVault, ''STELLAR''),
     (DistributionAccountCircleDBVault, ''CIRCLE'')]"

definition AccountType_Platform :: "AccountType \<Rightarrow> string" where
  "AccountType_Platform t = go_map_get accPlatformMap t"

definition accStorageMethodMap :: "(AccountType \<times> string) list" where
  "accStorageMethodMap = [(HostStellarEnv, ''ENV''), (ChannelAccountStellarDB, ''DB''),
     (DistributionAccountStellarEnv, ''ENV''), (DistributionAccountStellarDBVault, ''DB_VAULT''),
     (DistributionAccountCircleDBVault, ''DB_VAULT'')]"

definition AccountType_StorageMethod :: "AccountType \<Rightarrow> string" where
  "AccountType_StorageMethod t = go_map_get accStorageMethodMap t"

definition DistributionAccountTypes :: "AccountType list" where
  "DistributionAccountTypes = filter (\<lambda>t. AccountType_Role t = ''DISTRIBUTION_ACCOUNT'') AllAccountTypes"

definition AccountType_IsStellar :: "AccountType \<Rightarrow> bool" where
  "AccountType_IsStellar t = (AccountType_Platform t = ''STELLAR'')"

definition AccountType_IsCircle :: "AccountType \<Rightarrow> bool" where
  "AccountType_IsCircle t = (AccountType_Platform t = ''CIRCLE'')"

record TransactionAccount =
  ta_Address :: string
  ta_CircleWalletID :: string
  ta_Type :: AccountType
  ta_Status :: string

definition TransactionAccount_ID :: "TransactionAccount \<Rightarrow> string option" where
  "TransactionAccount_ID da =
     (let platform = AccountType_Platform (ta_Type da) in
      if platform = ''STELLAR'' then Some (ToLower platform @ '':'' @ ta_Address da)
      else if platform = ''CIRCLE'' then Some (ToLower platform @ '':'' @ ta_CircleWalletID da)
      else None)"

definition TransactionAccount_IsStellar :: "TransactionAccount \<Rightarrow> bool" where
  "TransactionAccount_IsStellar da = AccountType_IsStellar (ta_Type da)"

definition TransactionAccount_IsCircle :: "TransactionAccount \<Rightarrow> bool" where
  "TransactionAccount_IsCircle da = AccountType_IsCircle (ta_Type da)"

definition TransactionAccount_IsActive :: "TransactionAccount \<Rightarrow> bool" where
  "TransactionAccount_IsActive da = (ta_Status da = ''ACTIVE'')"

definition TransactionAccount_IsPendingUserActivation :: "TransactionAccount \<Rightarrow> bool" where
  "TransactionAccount_IsPendingUserActivation da = (ta_Status da = ''PENDING_USER_ACTIVATION'')"

section \<open>What a transaction is built from\<close>

datatype asset = NativeAsset | CreditAsset string string

text \<open>\<open>sc_address\<close> and \<open>auth_credentials\<close> are the parts of a Soroban authorization entry the code
  inspects; nil pointers are \<open>None\<close>. Host functions other than contract creation are opaque.\<close>

datatype sc_address = ScAccount "string option" | ScMuxed "string option" | ScContract | ScClaimableBalance | ScLiquidityPool

datatype auth_credentials = SourceAccountCredentials | AddressCredentials "sc_address option"

datatype host_function =
    CreateContractV2 string "8 word list" "8 word list" "8 word list"
  | InvokeContract "string option"
  | UploadWasm string

record invoke_op =
  op_HostFunction :: host_function
  op_Auth :: "auth_credentials list"

datatype operation =
    OpPayment string string string asset
  | OpPaymentToContract string string string asset
  | OpInvokeHostFunction string host_function "auth_credentials list" "string option"

record txn_params =
  tp_SourceAccount :: string
  tp_Sequence :: int
  tp_Operations :: "operation list"
  tp_Memo :: "txnbuild_memo option"
  tp_BaseFee :: int
  tp_Timeout :: int
  tp_MaxLedger :: int
  tp_IncrementSequenceNum :: bool

record simulation_response =
  sr_AuthXDR :: "string list"
  sr_TransactionDataXDR :: string

type_synonym built_tx = string

text \<open>The engine: Horizon, the RPC server, the signers, the resolver of distribution accounts and the
  transaction builder of the SDK. \<open>account_key\<close> is the ed25519 key of a valid address.\<close>

record submitter_engine =
  eng_sdk :: stellar_sdk
  eng_MaxBaseFee :: int
  eng_has_rpc :: bool
  Horizon_Root :: "nat \<Rightarrow> go_error + int"
  Horizon_AccountDetail :: "nat \<Rightarrow> string \<Rightarrow> go_error + int"
  Horizon_TransactionDetail :: "nat \<Rightarrow> string \<Rightarrow> go_error + horizon_transaction"
  Horizon_Submit :: "nat \<Rightarrow> built_tx \<Rightarrow> go_error option \<times> horizon_transaction"
  Rpc_SimulateTransaction :: "nat \<Rightarrow> string \<Rightarrow> (sim_error_type \<times> go_error option) + simulation_response"
  eng_DistributionAccount :: "nat \<Rightarrow> string \<Rightarrow> go_error + TransactionAccount"
  Sign_Transaction :: "nat \<Rightarrow> built_tx \<Rightarrow> TransactionAccount list \<Rightarrow> go_error + built_tx"
  Sign_FeeBump :: "nat \<Rightarrow> built_tx \<Rightarrow> TransactionAccount list \<Rightarrow> go_error + built_tx"
  NewTransaction :: "txn_params \<Rightarrow> go_error + built_tx"
  NewFeeBumpTransaction :: "built_tx \<Rightarrow> string \<Rightarrow> int \<Rightarrow> go_error + built_tx"
  NewPaymentToContract :: "string \<Rightarrow> string \<Rightarrow> asset \<Rightarrow> string \<Rightarrow> go_error + operation"
  NewAssetBalanceRestoration :: "string \<Rightarrow> asset \<Rightarrow> string \<Rightarrow> go_error + operation"
  tx_Base64 :: "built_tx \<Rightarrow> go_error + string"
  feebump_Base64 :: "built_tx \<Rightarrow> go_error + string"
  feebump_HashHex :: "built_tx \<Rightarrow> go_error + string"
  feebump_FeeAccount :: "built_tx \<Rightarrow> string"
  sha256_Sum256 :: "8 word list \<Rightarrow> 8 word list"
  base64_decode :: "string \<Rightarrow> go_error + string"
  unmarshal_InvokeHostFunctionOp :: "string \<Rightarrow> go_error + invoke_op"
  unmarshal_AuthorizationEntry :: "string \<Rightarrow> go_error + auth_credentials"
  unmarshal_TransactionData :: "string \<Rightarrow> go_error + string"
  account_key :: "string \<Rightarrow> string"
  decimal_StringFixed7 :: "rat \<Rightarrow> string"

type_synonym TxJob = ChannelTransactionBundle


section \<open>Payments\<close>

definition is_native_code :: "string \<Rightarrow> bool" where
  "is_native_code c \<longleftrightarrow> c = ''XLM'' \<or> c = ''NATIVE''"

definition payment_params :: "submitter_engine \<Rightarrow> TxJob \<Rightarrow> int \<Rightarrow> operation \<Rightarrow> txnbuild_memo option \<Rightarrow> txn_params" where
  "payment_params eng txJob channelAccountSequenceNum operation txMemo =
     \<lparr>tp_SourceAccount = ca_public_key (cb_channel_account txJob), tp_Sequence = channelAccountSequenceNum,
      tp_Operations = [operation], tp_Memo = txMemo, tp_BaseFee = eng_MaxBaseFee eng, tp_Timeout = 300,
      tp_MaxLedger = uint32 (cb_locked_until_ledger_number txJob), tp_IncrementSequenceNum = True\<rparr>"

definition PaymentTransactionHandler_operation ::
  "submitter_engine \<Rightarrow> TxJob \<Rightarrow> string \<Rightarrow> asset \<Rightarrow> go_error + (operation \<times> txnbuild_memo option)" where
  "PaymentTransactionHandler_operation eng txJob distributionAccount asset =
     (let tx = cb_transaction txJob; p = tx_payment tx; amount = decimal_StringFixed7 eng (Amount p); sdk = eng_sdk eng in
      if IsValidEd25519PublicKey sdk (Destination p) then
        (case Transaction_BuildMemo tx of
           Inl e \<Rightarrow> Inl (Wrapf ''building memo'' e)
         | Inr memo \<Rightarrow> Inr (OpPayment distributionAccount amount (Destination p) asset, memo))
      else if IsValidContractAddress sdk (Destination p) then
        (if PMemo p \<noteq> [] then Inl (Errorf ''memo is not supported for contract destination (%s)'')
         else (case NewPaymentToContract eng (Destination p) amount asset distributionAccount of
                 Inl e \<Rightarrow> Inl (Wrapf ''building payment to contract operation'' e)
               | Inr op \<Rightarrow> Inr (op, None)))
      else Inl (Errorf ''invalid destination account (%s)''))"

definition PaymentTransactionHandler_BuildInnerTransaction ::
  "submitter_engine \<Rightarrow> TxJob \<Rightarrow> int \<Rightarrow> string \<Rightarrow> go_error + built_tx" where
  "PaymentTransactionHandler_BuildInnerTransaction eng txJob channelAccountSequenceNum distributionAccount =
     (let p = tx_payment (cb_transaction txJob) in
      if AssetCode p = [] then Inl (Errorf ''asset code cannot be empty'')
      else if \<not> is_native_code (AssetCode p) \<and> \<not> IsValidEd25519PublicKey (eng_sdk eng) (AssetIssuer p)
        then Inl (Errorf ''invalid asset issuer: %v'')
      else
        (case PaymentTransactionHandler_operation eng txJob distributionAccount
            (if is_native_code (AssetCode p) then NativeAsset else CreditAsset (AssetCode p) (AssetIssuer p)) of
           Inl e \<Rightarrow> Inl e
         | Inr (operation, txMemo) \<Rightarrow>
             wrap_result ''building payment transaction''
               (NewTransaction eng (payment_params eng txJob channelAccountSequenceNum operation txMemo))))"

section \<open>Wallet creation\<close>

definition soroban_params :: "submitter_engine \<Rightarrow> TxJob \<Rightarrow> int \<Rightarrow> operation \<Rightarrow> txn_params" where
  "soroban_params eng txJob channelAccountSequenceNum operation =
     \<lparr>tp_SourceAccount = ca_public_key (cb_channel_account txJob), tp_Sequence = channelAccountSequenceNum + 1,
      tp_Operations = [operation], tp_Memo = None, tp_BaseFee = eng_MaxBaseFee eng, tp_Timeout = 300,
      tp_MaxLedger = uint32 (cb_locked_until_ledger_number txJob), tp_IncrementSequenceNum = False\<rparr>"

fun extractAuthEntries :: "submitter_engine \<Rightarrow> string list \<Rightarrow> go_error + auth_credentials list" where
  "extractAuthEntries eng [] = Inr []"
| "extractAuthEntries eng (b64 # bs) =
     (case unmarshal_AuthorizationEntry eng b64 of
        Inl e \<Rightarrow> Inl (Wrapf ''unmarshalling authorization entry'' e)
      | Inr a \<Rightarrow> (case extractAuthEntries eng bs of Inl e \<Rightarrow> Inl e | Inr as \<Rightarrow> Inr (a # as)))"

definition applyTransactionData :: "submitter_engine \<Rightarrow> simulation_response \<Rightarrow> go_error + string option" where
  "applyTransactionData eng simulationResponse =
     (if sr_TransactionDataXDR simulationResponse = [] then Inr None
      else (case unmarshal_TransactionData eng (sr_TransactionDataXDR simulationResponse) of
              Inl e \<Rightarrow> Inl (Wrapf ''unmarshaling transaction data'' e)
            | Inr d \<Rightarrow> Inr (Some d)))"

text \<open>The simulation of the initial transaction, shared by the two Soroban handlers.\<close>

definition simulate_initial :: "submitter_engine \<Rightarrow> txn_params \<Rightarrow> ('z tss_state_scheme, go_error, simulation_response) prog" where
  "simulate_initial eng txParams =
     bindE (wrapE ''building initial transaction'' (liftE (NewTransaction eng txParams))) (\<lambda>initialTx.
     bindE (wrapE ''encoding transaction envelope'' (liftE (tx_Base64 eng initialTx))) (\<lambda>txEnvelope.
     bindE (net_call (\<lambda>n. Rpc_SimulateTransaction eng n txEnvelope)) (\<lambda>r. case r of
         Inl (t, e) \<Rightarrow> throw (of_rpc_error (NewRPCErrorWrapper (SimulationError t e)))
       | Inr response \<Rightarrow> ret response)))"

definition wallet_keys :: "WalletCreation \<Rightarrow> go_error + (8 word list \<times> 8 word list)" where
  "wallet_keys wc =
     (if PublicKey wc = [] then Inl (Errorf ''public key cannot be empty'')
      else if WasmHash wc = [] then Inl (Errorf ''wasm hash cannot be empty'')
      else (case hex_DecodeString (PublicKey wc) of
          Inl e \<Rightarrow> Inl (Wrapf ''decoding public key'' e)
        | Inr publicKeyBytes \<Rightarrow>
            (if length publicKeyBytes \<noteq> 65 then Inl (Errorf ''public key must be %d bytes, got %d'')
             else (case hex_DecodeString (WasmHash wc) of
                 Inl e \<Rightarrow> Inl (Wrapf ''decoding wasm hash'' e)
               | Inr wasmHashBytes \<Rightarrow>
                   (if length wasmHashBytes \<noteq> 32 then Inl (Errorf ''wasm hash must be %d bytes, got %d'')
                    else Inr (publicKeyBytes, wasmHashBytes))))))"

definition WalletCreationTransactionHandler_BuildInnerTransaction ::
  "submitter_engine \<Rightarrow> TxJob \<Rightarrow> int \<Rightarrow> string \<Rightarrow> ('z tss_state_scheme, go_error, built_tx) prog" where
  "WalletCreationTransactionHandler_BuildInnerTransaction eng txJob channelAccountSequenceNum distributionAccount =
     bindE (liftE (wallet_keys (tx_wallet_creation (cb_transaction txJob)))) (\<lambda>(publicKeyBytes, wasmHashBytes).
     let hostFunction = CreateContractV2 distributionAccount (sha256_Sum256 eng publicKeyBytes) wasmHashBytes publicKeyBytes;
         params = (\<lambda>auth ext. soroban_params eng txJob channelAccountSequenceNum
                      (OpInvokeHostFunction distributionAccount hostFunction auth ext)) in
     bindE (simulate_initial eng (params [] None)) (\<lambda>response.
     bindE (wrapE ''extracting auth entries'' (liftE (extractAuthEntries eng (sr_AuthXDR response)))) (\<lambda>auth.
     bindE (wrapE ''applying transaction data'' (liftE (applyTransactionData eng response))) (\<lambda>ext.
     wrapE ''building final transaction'' (liftE (NewTransaction eng (params auth ext)))))))"

section \<open>Sponsored transactions\<close>

fun check_sponsored_auth :: "submitter_engine \<Rightarrow> string \<Rightarrow> string \<Rightarrow> auth_credentials list \<Rightarrow> go_error + unit" where
  "check_sponsored_auth eng channelAccountID distributionAccountID [] = Inr ()"
| "check_sponsored_auth eng channelAccountID distributionAccountID (auth # auths) =
     (case auth of
        SourceAccountCredentials \<Rightarrow> Inl (Errorf ''invalid auth credentials type'')
      | AddressCredentials None \<Rightarrow> Inl (Errorf ''auth credentials address cannot be nil'')
      | AddressCredentials (Some (ScAccount None)) \<Rightarrow> Inl (Errorf ''auth credentials account ID cannot be nil'')
      | AddressCredentials (Some (ScAccount (Some authAccountID))) \<Rightarrow>
          (if authAccountID = account_key eng channelAccountID
             then Inl (Errorf ''sponsored operation cannot require authorization from channel account'')
           else if authAccountID = account_key eng distributionAccountID
             then Inl (Errorf ''sponsored operation cannot require authorization from distribution account'')
           else check_sponsored_auth eng channelAccountID distributionAccountID auths)
      | AddressCredentials (Some (ScMuxed None)) \<Rightarrow> Inl (Errorf ''auth credentials muxed account cannot be nil'')
      | AddressCredentials (Some (ScMuxed (Some authMuxedEd25519))) \<Rightarrow>
          (if authMuxedEd25519 = account_key eng channelAccountID
             then Inl (Errorf ''sponsored operation cannot require authorization from channel account'')
           else if authMuxedEd25519 = account_key eng distributionAccountID
             then Inl (Errorf ''sponsored operation cannot require authorization from distribution account'')
           else check_sponsored_auth eng channelAccountID distributionAccountID auths)
      | AddressCredentials (Some _) \<Rightarrow> check_sponsored_auth eng channelAccountID distributionAccountID auths)"

definition sponsored_operation :: "submitter_engine \<Rightarrow> TxJob \<Rightarrow> string \<Rightarrow> go_error + invoke_op" where
  "sponsored_operation eng txJob distributionAccount =
     (let sp = tx_sponsored (cb_transaction txJob) in
      if SponsoredAccount sp = [] then Inl (Errorf ''sponsored account cannot be empty'')
      else if SponsoredOperationXDR sp = [] then Inl (Errorf ''sponsored operation XDR cannot be empty'')
      else if \<not> IsValidContractAddress (eng_sdk eng) (SponsoredAccount sp)
        then Inl (Errorf ''sponsored account is not a valid contract address'')
      else (case base64_decode eng (SponsoredOperationXDR sp) of
          Inl e \<Rightarrow> Inl (Wrapf ''sponsored operation XDR is not valid base64'' e)
        | Inr xdrBytes \<Rightarrow>
            (case unmarshal_InvokeHostFunctionOp eng xdrBytes of
               Inl e \<Rightarrow> Inl (Wrapf ''sponsored operation XDR is not valid'' e)
             | Inr operation \<Rightarrow>
                 (case op_HostFunction operation of
                    InvokeContract None \<Rightarrow> Inl (Errorf ''invoke contract operation is missing contract details'')
                  | InvokeContract (Some c) \<Rightarrow>
                      (case check_sponsored_auth eng (ca_public_key (cb_channel_account txJob)) distributionAccount (op_Auth operation) of
                         Inl e \<Rightarrow> Inl e | Inr _ \<Rightarrow> Inr operation)
                  | _ \<Rightarrow> Inl (Errorf ''unsupported host function type: %v'')))))"

definition SponsoredTransactionHandler_BuildInnerTransaction ::
  "submitter_engine \<Rightarrow> TxJob \<Rightarrow> int \<Rightarrow> string \<Rightarrow> ('z tss_state_scheme, go_error, built_tx) prog" where
  "SponsoredTransactionHandler_BuildInnerTransaction eng txJob channelAccountSequenceNum distributionAccount =
     bindE (liftE (sponsored_operation eng txJob distributionAccount)) (\<lambda>operation.
     let params = (\<lambda>ext. soroban_params eng txJob channelAccountSequenceNum
                      (OpInvokeHostFunction distributionAccount (op_HostFunction operation) (op_Auth operation) ext)) in
     bindE (simulate_initial eng (params None)) (\<lambda>response.
     bindE (wrapE ''applying transaction data'' (liftE (applyTransactionData eng response))) (\<lambda>ext.
     wrapE ''building final transaction'' (liftE (NewTransaction eng (params ext))))))"

section \<open>The handler of a transaction\<close>

datatype handler = PaymentTransactionHandler | WalletCreationTransactionHandler | SponsoredTransactionHandler

definition GetTransactionHandler :: "submitter_engine \<Rightarrow> Transaction \<Rightarrow> go_error + handler" where
  "GetTransactionHandler eng tx =
     (if tx_type tx = TransactionTypePayment then Inr PaymentTransactionHandler
      else if tx_type tx = TransactionTypeWalletCreation then
        (if \<not> eng_has_rpc eng then Inl (Errorf ''rpc client is required for wallet creation transaction handler'')
         else Inr WalletCreationTransactionHandler)
      else if tx_type tx = TransactionTypeSponsored then
        (if \<not> eng_has_rpc eng then Inl (Errorf ''rpc client is required for sponsored transaction handler'')
         else Inr SponsoredTransactionHandler)
      else Inl (Errorf ''unsupported transaction type: %s''))"

fun RequiresRebuildOnRetry :: "handler \<Rightarrow> bool" where
  "RequiresRebuildOnRetry PaymentTransactionHandler = False"
| "RequiresRebuildOnRetry WalletCreationTransactionHandler = True"
| "RequiresRebuildOnRetry SponsoredTransactionHandler = False"

fun BuildInnerTransaction :: "handler \<Rightarrow> submitter_engine \<Rightarrow> TxJob \<Rightarrow> int \<Rightarrow> string \<Rightarrow> ('z tss_state_scheme, go_error, built_tx) prog" where
  "BuildInnerTransaction PaymentTransactionHandler eng job n d =
     liftE (PaymentTransactionHandler_BuildInnerTransaction eng job n d)"
| "BuildInnerTransaction WalletCreationTransactionHandler eng job n d =
     WalletCreationTransactionHandler_BuildInnerTransaction eng job n d"
| "BuildInnerTransaction SponsoredTransactionHandler eng job n d =
     SponsoredTransactionHandler_BuildInnerTransaction eng job n d"

section \<open>Monitoring\<close>

text \<open>\<open>LogAndMonitorTransaction\<close> with a tag, the event type, \<open>IsHorizonErr\<close> and the error text. The job's
  UUID and its channel account, which only label the metric, are left out.\<close>

definition LogAndMonitorTransaction :: "TxJob \<Rightarrow> string \<Rightarrow> string \<Rightarrow> bool \<Rightarrow> string \<Rightarrow> ('z tss_state_scheme, go_error, unit) prog" where
  "LogAndMonitorTransaction txJob tag eventType isHorizonErr errStack =
     log_event (EvMonitor (tx_id (cb_transaction txJob)) tag eventType isHorizonErr errStack)"

datatype ReconcileSuccessType = ReconcileReprocessing | ReconcileSuccess

definition PaymentTransactionHandler_MonitorTransactionProcessingStarted :: "TxJob \<Rightarrow> ('z tss_state_scheme, go_error, unit) prog" where
  "PaymentTransactionHandler_MonitorTransactionProcessingStarted txJob =
     LogAndMonitorTransaction txJob ''payment_processing_started'' ''payment_processing_started'' False []"

definition PaymentTransactionHandler_MonitorTransactionProcessingSuccess :: "TxJob \<Rightarrow> ('z tss_state_scheme, go_error, unit) prog" where
  "PaymentTransactionHandler_MonitorTransactionProcessingSuccess txJob =
     LogAndMonitorTransaction txJob ''payment_transaction_successful''
       (if tx_attempts_count (cb_transaction txJob) > 1 then ''payment_reprocessing_successful''
        else ''payment_processing_successful'') False []"

definition PaymentTransactionHandler_MonitorTransactionProcessingFailed :: "TxJob \<Rightarrow> bool \<Rightarrow> string \<Rightarrow> ('z tss_state_scheme, go_error, unit) prog" where
  "PaymentTransactionHandler_MonitorTransactionProcessingFailed txJob isRetryable errStack =
     LogAndMonitorTransaction txJob ''payment_error''
       (if isRetryable then ''payment_marked_for_reprocessing'' else ''payment_failed'') isRetryable errStack"

definition PaymentTransactionHandler_MonitorTransactionReconciliationSuccess :: "TxJob \<Rightarrow> ReconcileSuccessType \<Rightarrow> ('z tss_state_scheme, go_error, unit) prog" where
  "PaymentTransactionHandler_MonitorTransactionReconciliationSuccess txJob successType =
     LogAndMonitorTransaction txJob ''payment_reconciliation_successful''
       (if successType = ReconcileReprocessing then ''payment_reconciliation_marked_for_reprocessing''
        else ''payment_reconciliation_transaction_successful'') False []"

definition PaymentTransactionHandler_MonitorTransactionReconciliationFailure :: "TxJob \<Rightarrow> bool \<Rightarrow> string \<Rightarrow> ('z tss_state_scheme, go_error, unit) prog" where
  "PaymentTransactionHandler_MonitorTransactionReconciliationFailure txJob isHorizonErr errStack =
     LogAndMonitorTransaction txJob ''payment_reconciliation_failure'' ''payment_reconciliation_unexpected_error''
       isHorizonErr errStack"

definition WalletCreationTransactionHandler_MonitorTransactionProcessingStarted :: "TxJob \<Rightarrow> ('z tss_state_scheme, go_error, unit) prog" where
  "WalletCreationTransactionHandler_MonitorTransactionProcessingStarted txJob =
     LogAndMonitorTransaction txJob ''wallet_creation_processing_started'' ''wallet_creation_processing_started'' False []"

definition WalletCreationTransactionHandler_MonitorTransactionProcessingSuccess :: "TxJob \<Rightarrow> ('z tss_state_scheme, go_error, unit) prog" where
  "WalletCreationTransactionHandler_MonitorTransactionProcessingSuccess txJob =
     LogAndMonitorTransaction txJob ''wallet_creation_transaction_successful''
       (if tx_attempts_count (cb_transaction txJob) > 1 then ''wallet_creation_reprocessing_successful''
        else ''wallet_creation_processing_successful'') False []"

definition WalletCreationTransactionHandler_MonitorTransactionProcessingFailed :: "TxJob \<Rightarrow> bool \<Rightarrow> string \<Rightarrow> ('z tss_state_scheme, go_error, unit) prog" where
  "WalletCreationTransactionHandler_MonitorTransactionProcessingFailed txJob isRetryable errStack =
     LogAndMonitorTransaction txJob ''wallet_creation_error''
       (if isRetryable then ''wallet_creation_marked_for_reprocessing'' else ''wallet_creation_failed'') isRetryable errStack"

definition WalletCreationTransactionHandler_MonitorTransactionReconciliationSuccess :: "TxJob \<Rightarrow> ReconcileSuccessType \<Rightarrow> ('z tss_state_scheme, go_error, unit) prog" where
  "WalletCreationTransactionHandler_MonitorTransactionReconciliationSuccess txJob successType =
     LogAndMonitorTransaction txJob ''wallet_creation_reconciliation_successful''
       (if successType = ReconcileReprocessing then ''wallet_creation_reconciliation_marked_for_reprocessing''
        else ''wallet_creation_reconciliation_transaction_successful'') False []"

definition WalletCreationTransactionHandler_MonitorTransactionReconciliationFailure :: "TxJob \<Rightarrow> bool \<Rightarrow> string \<Rightarrow> ('z tss_state_scheme, go_error, unit) prog" where
  "WalletCreationTransactionHandler_MonitorTransactionReconciliationFailure txJob isHorizonErr errStack =
     LogAndMonitorTransaction txJob ''wallet_creation_reconciliation_failure'' ''wallet_creation_reconciliation_unexpected_error''
       isHorizonErr errStack"

definition SponsoredTransactionHandler_MonitorTransactionProcessingStarted :: "TxJob \<Rightarrow> ('z tss_state_scheme, go_error, unit) prog" where
  "SponsoredTransactionHandler_MonitorTransactionProcessingStarted txJob =
     LogAndMonitorTransaction txJob ''sponsored_transaction_processing_started'' ''sponsored_transaction_processing_started'' False []"

definition SponsoredTransactionHandler_MonitorTransactionProcessingSuccess :: "TxJob \<Rightarrow> ('z tss_state_scheme, go_error, unit) prog" where
  "SponsoredTransactionHandler_MonitorTransactionProcessingSuccess txJob =
     LogAndMonitorTransaction txJob ''sponsored_transaction_transaction_successful''
       (if tx_attempts_count (cb_transaction txJob) > 1 then ''sponsored_transaction_reprocessing_successful''
        else ''sponsored_transaction_processing_successful'') False []"

definition SponsoredTransactionHandler_MonitorTransactionProcessingFailed :: "TxJob \<Rightarrow> bool \<Rightarrow> string \<Rightarrow> ('z tss_state_scheme, go_error, unit) prog" where
  "SponsoredTransactionHandler_MonitorTransactionProcessingFailed txJob isRetryable errStack =
     LogAndMonitorTransaction txJob ''sponsored_transaction_error''
       (if isRetryable then ''sponsored_transaction_marked_for_reprocessing'' else ''sponsored_transaction_failed'') isRetryable errStack"

definition SponsoredTransactionHandler_MonitorTransactionReconciliationSuccess :: "TxJob \<Rightarrow> ReconcileSuccessType \<Rightarrow> ('z tss_state_scheme, go_error, unit) prog" where
  "SponsoredTransactionHandler_MonitorTransactionReconciliationSuccess txJob successType =
     LogAndMonitorTransaction txJob ''sponsored_transaction_reconciliation_successful''
       (if successType = ReconcileReprocessing then ''sponsored_transaction_reconciliation_marked_for_reprocessing''
        else ''sponsored_transaction_reconciliation_transaction_successful'') False []"

definition SponsoredTransactionHandler_MonitorTransactionReconciliationFailure :: "TxJob \<Rightarrow> bool \<Rightarrow> string \<Rightarrow> ('z tss_state_scheme, go_error, unit) prog" where
  "SponsoredTransactionHandler_MonitorTransactionReconciliationFailure txJob isHorizonErr errStack =
     LogAndMonitorTransaction txJob ''sponsored_transaction_reconciliation_failure'' ''sponsored_transaction_reconciliation_unexpected_error''
       isHorizonErr errStack"

fun MonitorTransactionProcessingStarted :: "handler \<Rightarrow> TxJob \<Rightarrow> ('z tss_state_scheme, go_error, unit) prog" where
  "MonitorTransactionProcessingStarted PaymentTransactionHandler job =
     PaymentTransactionHandler_MonitorTransactionProcessingStarted job"
| "MonitorTransactionProcessingStarted WalletCreationTransactionHandler job =
     WalletCreationTransactionHandler_MonitorTransactionProcessingStarted job"
| "MonitorTransactionProcessingStarted SponsoredTransactionHandler job =
     SponsoredTransactionHandler_MonitorTransactionProcessingStarted job"

fun MonitorTransactionProcessingSuccess :: "handler \<Rightarrow> TxJob \<Rightarrow> ('z tss_state_scheme, go_error, unit) prog" where
  "MonitorTransactionProcessingSuccess PaymentTransactionHandler job =
     PaymentTransactionHandler_MonitorTransactionProcessingSuccess job"
| "MonitorTransactionProcessingSuccess WalletCreationTransactionHandler job =
     WalletCreationTransactionHandler_MonitorTransactionProcessingSuccess job"
| "MonitorTransactionProcessingSuccess SponsoredTransactionHandler job =
     SponsoredTransactionHandler_MonitorTransactionProcessingSuccess job"

fun MonitorTransactionProcessingFailed :: "handler \<Rightarrow> TxJob \<Rightarrow> bool \<Rightarrow> string \<Rightarrow> ('z tss_state_scheme, go_error, unit) prog" where
  "MonitorTransactionProcessingFailed PaymentTransactionHandler job b t =
     PaymentTransactionHandler_MonitorTransactionProcessingFailed job b t"
| "MonitorTransactionProcessingFailed WalletCreationTransactionHandler job b t =
     WalletCreationTransactionHandler_MonitorTransactionProcessingFailed job b t"
| "MonitorTransactionProcessingFailed SponsoredTransactionHandler job b t =
     SponsoredTransactionHandler_MonitorTransactionProcessingFailed job b t"

fun MonitorTransactionReconciliationSuccess :: "handler \<Rightarrow> TxJob \<Rightarrow> ReconcileSuccessType \<Rightarrow> ('z tss_state_scheme, go_error, unit) prog" where
  "MonitorTransactionReconciliationSuccess PaymentTransactionHandler job k =
     PaymentTransactionHandler_MonitorTransactionReconciliationSuccess job k"
| "MonitorTransactionReconciliationSuccess WalletCreationTransactionHandler job k =
     WalletCreationTransactionHandler_MonitorTransactionReconciliationSuccess job k"
| "MonitorTransactionReconciliationSuccess SponsoredTransactionHandler job k =
     SponsoredTransactionHandler_MonitorTransactionReconciliationSuccess job k"

fun MonitorTransactionReconciliationFailure :: "handler \<Rightarrow> TxJob \<Rightarrow> bool \<Rightarrow> string \<Rightarrow> ('z tss_state_scheme, go_error, unit) prog" where
  "MonitorTransactionReconciliationFailure PaymentTransactionHandler job b t =
     PaymentTransactionHandler_MonitorTransactionReconciliationFailure job b t"
| "MonitorTransactionReconciliationFailure WalletCreationTransactionHandler job b t =
     WalletCreationTransactionHandler_MonitorTransactionReconciliationFailure job b t"
| "MonitorTransactionReconciliationFailure SponsoredTransactionHandler job b t =
     SponsoredTransactionHandler_MonitorTransactionReconciliationFailure job b t"

lemmas monitor_defs = LogAndMonitorTransaction_def
  PaymentTransactionHandler_MonitorTransactionProcessingStarted_def
  PaymentTransactionHandler_MonitorTransactionProcessingSuccess_def
  PaymentTransactionHandler_MonitorTransactionProcessingFailed_def
  PaymentTransactionHandler_MonitorTransactionReconciliationSuccess_def
  PaymentTransactionHandler_MonitorTransactionReconciliationFailure_def
  WalletCreationTransactionHandler_MonitorTransactionProcessingStarted_def
  WalletCreationTransactionHandler_MonitorTransactionProcessingSuccess_def
  WalletCreationTransactionHandler_MonitorTransactionProcessingFailed_def
  WalletCreationTransactionHandler_MonitorTransactionReconciliationSuccess_def
  WalletCreationTransactionHandler_MonitorTransactionReconciliationFailure_def
  SponsoredTransactionHandler_MonitorTransactionProcessingStarted_def
  SponsoredTransactionHandler_MonitorTransactionProcessingSuccess_def
  SponsoredTransactionHandler_MonitorTransactionProcessingFailed_def
  SponsoredTransactionHandler_MonitorTransactionReconciliationSuccess_def
  SponsoredTransactionHandler_MonitorTransactionReconciliationFailure_def

end
