(* ===== verification/Tx_Worker.thy ===== *)
theory Tx_Worker
  imports Tx_Handlers
begin

text \<open>
  The worker (\<open>src/internal/transactionsubmission/transaction_worker.go\<close>) that takes one job through
  validation, building, signing, recording of the hash, submission and the handling of the answer, or
  reconciles a job that was submitted before; and the manager's loop body (\<open>manager.go\<close>). The job is
  mutable in the code (\<open>txJob.Transaction = *updatedTx\<close>), so it is part of the state.
\<close>

section \<open>Helpers\<close>

definition job_tx :: "'z tss_state_scheme \<Rightarrow> Transaction" where
  "job_tx s = cb_transaction (w_job s)"

definition set_job_tx :: "Transaction \<Rightarrow> ('z tss_state_scheme, go_error, unit) prog" where
  "set_job_tx tx = modifyE (\<lambda>s. s\<lparr>w_job := (w_job s)\<lparr>cb_transaction := tx\<rparr>\<rparr>)"

text \<open>\<open>updatedTx, err := op; if err != nil ...; txJob.Transaction = *updatedTx\<close>\<close>

definition update_job :: "('z tss_state_scheme, go_error, Transaction) prog \<Rightarrow> ('z tss_state_scheme, go_error, unit) prog" where
  "update_job m = bindE m set_job_tx"

definition with_tx :: "(Transaction \<Rightarrow> ('z tss_state_scheme, 'e, 'a) prog) \<Rightarrow> ('z tss_state_scheme, 'e, 'a) prog" where
  "with_tx f = (\<lambda>s. f (job_tx s) s)"

definition with_job :: "(TxJob \<Rightarrow> ('z tss_state_scheme, 'e, 'a) prog) \<Rightarrow> ('z tss_state_scheme, 'e, 'a) prog" where
  "with_job f = (\<lambda>s. f (w_job s) s)"

definition LogAndReportErrors :: "go_error \<Rightarrow> string \<Rightarrow> ('z tss_state_scheme, go_error, unit) prog" where
  "LogAndReportErrors err msg = log_event (EvCrashReport err msg)"

section \<open>Operations of the worker\<close>

definition validateJob :: "submitter_engine \<Rightarrow> ('z tss_state_scheme, go_error, unit) prog" where
  "validateJob eng = with_tx (\<lambda>tx.
     if tx_status tx \<notin> {TransactionStatusPending, TransactionStatusProcessing}
     then throw (Errorf ''invalid transaction status: %v'')
     else bindE (wrapE ''getting current ledger number'' (GetLedgerNumber (eng_sdk eng) (Horizon_Root eng))) (\<lambda>currentLedgerNumber.
       with_job (\<lambda>job.
         if \<not> Transaction_IsLocked (cb_transaction job) (int32 currentLedgerNumber)
           then throw (Errorf ''transaction should be locked'')
         else if \<not> ChannelAccount_IsLocked (cb_channel_account job) (int32 currentLedgerNumber)
           then throw (Errorf ''channel account should be locked'')
         else ret ())))"

definition saveResponseXDRIfPresent :: "submitter_engine \<Rightarrow> horizon_transaction \<Rightarrow> ('z tss_state_scheme, go_error, unit) prog" where
  "saveResponseXDRIfPresent eng resp =
     (if resp = empty_horizon_transaction then ret ()
      else with_tx (\<lambda>tx. update_job (wrapE ''updating XDRReceived(%s) for job %v''
             (TransactionModel_UpdateStellarTransactionXDRReceived (eng_sdk eng) (tx_id tx) (ht_ResultXdr resp)))))"

definition unlockJob :: "('z tss_state_scheme, go_error, unit) prog" where
  "unlockJob = with_job (\<lambda>job.
     bindE (wrapE ''unlocking channel account'' (ChannelAccountModel_Unlock (ca_public_key (cb_channel_account job)))) (\<lambda>_.
     bindE (wrapE ''unlocking transaction'' (TransactionModel_Unlock (tx_id (cb_transaction job)))) (\<lambda>_.
     ret ())))"

definition markTransactionAsError :: "string \<Rightarrow> ('z tss_state_scheme, go_error, unit) prog" where
  "markTransactionAsError errorMsg = with_tx (\<lambda>tx. update_job
     (wrapE ''updating transaction status to error'' (TransactionModel_UpdateStatusToError tx errorMsg)))"

definition handleSuccessfulTransaction :: "submitter_engine \<Rightarrow> handler \<Rightarrow> horizon_transaction \<Rightarrow> ('z tss_state_scheme, go_error, unit) prog" where
  "handleSuccessfulTransaction eng h hTxResp =
     bindE (wrapE ''saving response XDR'' (saveResponseXDRIfPresent eng hTxResp)) (\<lambda>_.
     if \<not> ht_Successful hTxResp then throw (Errorf ''transaction was not successful for some reason'')
     else
     bindE (with_tx (\<lambda>tx. update_job (handleE (TransactionModel_UpdateStatusToSuccess tx)
              (\<lambda>err. throw (TransactionStatusUpdateError ''SUCCESS'' (tx_id tx) False err)) ret))) (\<lambda>_.
     bindE (wrapE ''unlocking job'' unlockJob) (\<lambda>_.
     with_job (MonitorTransactionProcessingSuccess h))))"

text \<open>The restore transaction: resolve the distribution account, build, sign and submit. Its signers and
  its envelope are the engine's; a submission is logged.\<close>

definition restore_params :: "submitter_engine \<Rightarrow> TxJob \<Rightarrow> int \<Rightarrow> operation \<Rightarrow> txn_params" where
  "restore_params eng txJob sequence restoreOp =
     \<lparr>tp_SourceAccount = ca_public_key (cb_channel_account txJob), tp_Sequence = sequence, tp_Operations = [restoreOp],
      tp_Memo = None, tp_BaseFee = eng_MaxBaseFee eng, tp_Timeout = 300, tp_MaxLedger = 0, tp_IncrementSequenceNum = True\<rparr>"

definition channel_transaction_account :: "TxJob \<Rightarrow> TransactionAccount" where
  "channel_transaction_account txJob =
     \<lparr>ta_Address = ca_public_key (cb_channel_account txJob), ta_CircleWalletID = [], ta_Type = ChannelAccountStellarDB, ta_Status = []\<rparr>"

definition restoreArchivedEntries :: "submitter_engine \<Rightarrow> ('z tss_state_scheme, go_error, unit) prog" where
  "restoreArchivedEntries eng = with_job (\<lambda>txJob.
     let tx = cb_transaction txJob; p = tx_payment tx in
     bindE (net_call (\<lambda>n. eng_DistributionAccount eng n (tx_tenant_id tx))) (\<lambda>r.
     bindE (wrapE ''resolving distribution account'' (liftE r)) (\<lambda>distributionAccount.
     bindE (wrapE ''building restore footprint operation'' (liftE (NewAssetBalanceRestoration eng (Destination p)
              (if is_native_code (AssetCode p) then NativeAsset else CreditAsset (AssetCode p) (AssetIssuer p))
              (ta_Address distributionAccount)))) (\<lambda>restoreOp.
     bindE (net_call (\<lambda>n. Horizon_AccountDetail eng n (ca_public_key (cb_channel_account txJob)))) (\<lambda>acc.
     bindE (wrapE ''getting channel account detail'' (liftE acc)) (\<lambda>sequence.
     bindE (wrapE ''building restore transaction'' (liftE (NewTransaction eng (restore_params eng txJob sequence restoreOp)))) (\<lambda>restoreTx.
     bindE (net_call (\<lambda>n. Sign_Transaction eng n restoreTx [channel_transaction_account txJob, distributionAccount])) (\<lambda>sr.
     bindE (wrapE ''signing restore transaction'' (liftE sr)) (\<lambda>signedTx.
     bindE (wrapE ''building restore fee bump transaction'' (liftE
              (NewFeeBumpTransaction eng signedTx (ta_Address distributionAccount) (eng_MaxBaseFee eng)))) (\<lambda>feeBumpTx.
     bindE (net_call (\<lambda>n. Sign_FeeBump eng n feeBumpTx [distributionAccount])) (\<lambda>fr.
     bindE (wrapE ''signing restore fee bump transaction'' (liftE fr)) (\<lambda>signedFeeBumpTx.
     bindE (net_call (\<lambda>n. Horizon_Submit eng n signedFeeBumpTx)) (\<lambda>(err, resp).
     bindE (log_event (EvRestore (tx_id tx))) (\<lambda>_.
     case err of Some e \<Rightarrow> throw (Wrapf ''submitting restore transaction'' e) | None \<Rightarrow> ret ()))))))))))))))"

text \<open>\<open>tagged b m\<close>: the pair \<open>(retryable, error)\<close> that \<open>handleEntryArchived\<close> returns.\<close>

definition tagged :: "bool \<Rightarrow> ('s, go_error, 'a) prog \<Rightarrow> ('s, bool \<times> go_error, bool) prog" where
  "tagged b m = handleE m (\<lambda>e. throw (b, e)) (\<lambda>_. ret b)"

definition maxRestoreAttempts :: int where "maxRestoreAttempts = 3"

definition handleEntryArchived :: "submitter_engine \<Rightarrow> TransactionError \<Rightarrow> ('z tss_state_scheme, bool \<times> go_error, bool) prog" where
  "handleEntryArchived eng txErr = with_tx (\<lambda>tx.
     if \<not> IsValidContractAddress (eng_sdk eng) (Destination (tx_payment tx)) then
       tagged False
         (bindE (markTransactionAsError (''entry_archived is only recoverable for contract destinations, got '' @ Destination (tx_payment tx))) (\<lambda>_.
          bindE (LogAndReportErrors (of_TransactionError txErr) ''entry_archived: non-contract destination'') (\<lambda>_.
          unlockJob)))
     else if tx_attempts_count tx > maxRestoreAttempts then
       tagged False
         (bindE (markTransactionAsError ''entry_archived: max restoration attempts (3) exceeded'') (\<lambda>_.
          bindE (LogAndReportErrors (Wrapf ''entry_archived: max restoration attempts exceeded for %v'' (of_TransactionError txErr))
                   ''entry_archived: max restoration attempts exceeded'') (\<lambda>_.
          unlockJob)))
     else
       tagged True
         (bindE (handleE (restoreArchivedEntries eng) (\<lambda>_. ret ()) ret) (\<lambda>_.
          bindE (wrapE ''preparing transaction for reprocessing after restore''
                   (TransactionModel_PrepareTransactionForReprocessing (tx_id tx))) (\<lambda>_.
          unlockJob))))"

definition handle_failed_body ::
  "submitter_engine \<Rightarrow> handler \<Rightarrow> horizon_transaction \<Rightarrow> TransactionError \<Rightarrow> ('z tss_state_scheme, bool \<times> go_error, bool) prog" where
  "handle_failed_body eng h hTxResp txErr =
     (let isRetryable = TransactionError_IsRetryable txErr;
          hErr = as_horizon_error (of_TransactionError txErr) in
      handleE (wrapE ''saving response XDR'' (saveResponseXDRIfPresent eng hTxResp)) (\<lambda>e. throw (isRetryable, e)) (\<lambda>_.
      handleE (AdjustLimitIfNeeded txErr) (\<lambda>e. throw (isRetryable, e)) (\<lambda>_.
      if (case hErr of None \<Rightarrow> False | Some w \<Rightarrow> IsEntryArchived w) then handleEntryArchived eng txErr
      else tagged isRetryable
        (bindE
          (if TransactionError_ShouldMarkAsError txErr
           then bindE (markTransactionAsError (TransactionError_Error (eng_sdk eng) txErr)) (\<lambda>_.
                if TransactionError_ShouldReportToCrashTracker txErr
                then LogAndReportErrors (of_TransactionError txErr)
                       (ToLower (TransactionError_GetErrorType txErr) @ '' transaction error - cannot be retried'')
                else ret ())
           else bindE (if TransactionError_IsRetryable txErr \<and> RequiresRebuildOnRetry h
                       then with_tx (\<lambda>tx. bindE (wrapE ''preparing transaction for reprocessing''
                              (TransactionModel_PrepareTransactionForReprocessing (tx_id tx))) (\<lambda>_. ret ()))
                       else ret ()) (\<lambda>_.
                if (case hErr of None \<Rightarrow> False | Some w \<Rightarrow> IsBadSequence w)
                then LogAndReportErrors (of_TransactionError txErr) ''tx_bad_seq detected!''
                else ret ())) (\<lambda>_.
         wrapE ''unlocking job'' unlockJob)))))"

text \<open>The deferred monitoring call runs on every path, with the value of \<open>isRetryable\<close> at the return.\<close>

definition handleFailedTransaction ::
  "submitter_engine \<Rightarrow> handler \<Rightarrow> horizon_transaction \<Rightarrow> TransactionError \<Rightarrow> ('z tss_state_scheme, go_error, unit) prog" where
  "handleFailedTransaction eng h hTxResp txErr =
     handleE (handle_failed_body eng h hTxResp txErr)
       (\<lambda>(isRetryable, e). bindE (with_job (\<lambda>job. MonitorTransactionProcessingFailed h job isRetryable (TransactionError_Error (eng_sdk eng) txErr)))
          (\<lambda>_. throw e))
       (\<lambda>isRetryable. with_job (\<lambda>job. MonitorTransactionProcessingFailed h job isRetryable (TransactionError_Error (eng_sdk eng) txErr)))"

definition handlePreparationError :: "submitter_engine \<Rightarrow> handler \<Rightarrow> go_error \<Rightarrow> ('z tss_state_scheme, go_error, 'a) prog" where
  "handlePreparationError eng h err =
     (case as_horizon_error err of
        Some hErr \<Rightarrow>
          if IsHorizonError hErr
          then bindE (wrapE ''handling horizon error'' (handleFailedTransaction eng h empty_horizon_transaction (THorizon hErr)))
                 (\<lambda>_. throw ErrTransactionHandled)
          else (case as_rpc_error err of
              Some rpcErr \<Rightarrow>
                if IsRPCError rpcErr
                then bindE (wrapE ''handling rpc error'' (handleFailedTransaction eng h empty_horizon_transaction (TRPC rpcErr)))
                       (\<lambda>_. throw ErrTransactionHandled)
                else throw err
            | None \<Rightarrow> throw err)
      | None \<Rightarrow>
          (case as_rpc_error err of
              Some rpcErr \<Rightarrow>
                if IsRPCError rpcErr
                then bindE (wrapE ''handling rpc error'' (handleFailedTransaction eng h empty_horizon_transaction (TRPC rpcErr)))
                       (\<lambda>_. throw ErrTransactionHandled)
                else throw err
            | None \<Rightarrow> throw err))"

definition buildAndSignTransaction :: "submitter_engine \<Rightarrow> handler \<Rightarrow> ('z tss_state_scheme, go_error, built_tx) prog" where
  "buildAndSignTransaction eng h = with_job (\<lambda>txJob.
     bindE (net_call (\<lambda>n. eng_DistributionAccount eng n (tx_tenant_id (cb_transaction txJob)))) (\<lambda>r.
     bindE (wrapE ''resolving distribution account for tenantID=%s'' (liftE r)) (\<lambda>distributionAccount.
     if \<not> TransactionAccount_IsStellar distributionAccount
     then throw (Errorf ''expected distribution account to be a STELLAR account but got %q'')
     else
     bindE (net_call (\<lambda>n. Horizon_AccountDetail eng n (ca_public_key (cb_channel_account txJob)))) (\<lambda>acc.
     bindE (handleE (liftE acc) (handlePreparationError eng h) ret) (\<lambda>sequence.
     bindE (handleE (BuildInnerTransaction h eng txJob sequence (ta_Address distributionAccount))
              (handlePreparationError eng h) ret) (\<lambda>innerTx.
     bindE (net_call (\<lambda>n. Sign_Transaction eng n innerTx [channel_transaction_account txJob, distributionAccount])) (\<lambda>sr.
     bindE (wrapE ''signing transaction in job=%v'' (liftE sr)) (\<lambda>signedTx.
     bindE (wrapE ''building fee-bump transaction for job %v'' (liftE
              (NewFeeBumpTransaction eng signedTx (ta_Address distributionAccount) (eng_MaxBaseFee eng)))) (\<lambda>feeBumpTx.
     bindE (net_call (\<lambda>n. Sign_FeeBump eng n feeBumpTx [distributionAccount])) (\<lambda>fr.
     wrapE ''signing fee-bump transaction for job %v'' (liftE fr)))))))))))"

definition prepareForSubmission :: "submitter_engine \<Rightarrow> handler \<Rightarrow> ('z tss_state_scheme, go_error, built_tx) prog" where
  "prepareForSubmission eng h =
     bindE (buildAndSignTransaction eng h) (\<lambda>feeBumpTx.
     bindE (wrapE ''hashing transaction for job %v'' (liftE (feebump_HashHex eng feeBumpTx))) (\<lambda>feeBumpTxHash.
     bindE (wrapE ''getting envelopeXDR for job %v'' (liftE (feebump_Base64 eng feeBumpTx))) (\<lambda>sentXDR.
     bindE (with_tx (\<lambda>tx. update_job (wrapE ''saving transaction metadata for job %v''
              (TransactionModel_UpdateStellarTransactionHashXDRSentAndDistributionAccount (eng_sdk eng) (tx_id tx)
                 feeBumpTxHash sentXDR (feebump_FeeAccount eng feeBumpTx))))) (\<lambda>_.
     ret feeBumpTx))))"

definition envelope_hash :: "submitter_engine \<Rightarrow> built_tx \<Rightarrow> string" where
  "envelope_hash eng feeBumpTx = (case feebump_HashHex eng feeBumpTx of Inl _ \<Rightarrow> [] | Inr h \<Rightarrow> h)"

definition submit :: "submitter_engine \<Rightarrow> handler \<Rightarrow> built_tx \<Rightarrow> ('z tss_state_scheme, go_error, unit) prog" where
  "submit eng h feeBumpTx =
     bindE (net_call (\<lambda>n. Horizon_Submit eng n feeBumpTx)) (\<lambda>(err, resp).
     bindE (with_tx (\<lambda>tx. log_event (EvSubmit (tx_id tx) (envelope_hash eng feeBumpTx) (err, resp)))) (\<lambda>_.
     case err of
       Some e \<Rightarrow> wrapE ''handling failed transaction''
                    (handleFailedTransaction eng h resp (THorizon (NewHorizonErrorWrapper (eng_sdk eng) e)))
     | None \<Rightarrow> wrapE ''handling successful transaction'' (handleSuccessfulTransaction eng h resp)))"

definition processTransactionSubmission :: "submitter_engine \<Rightarrow> handler \<Rightarrow> ('z tss_state_scheme, go_error, unit) prog" where
  "processTransactionSubmission eng h =
     bindE (with_job (MonitorTransactionProcessingStarted h)) (\<lambda>_.
     bindE (wrapE ''validating bundle'' (validateJob eng)) (\<lambda>_.
     handleE (prepareForSubmission eng h)
       (\<lambda>err. if error_is err ErrTransactionHandled then ret () else throw (Wrapf ''preparing bundle for processing'' err))
       (\<lambda>feeBumpTx. wrapE ''processing bundle'' (submit eng h feeBumpTx))))"

definition reconcile_for_resubmission :: "handler \<Rightarrow> ('z tss_state_scheme, go_error, unit) prog" where
  "reconcile_for_resubmission h =
     bindE (with_tx (\<lambda>tx. wrapE ''pushing back transaction to queue'' (TransactionModel_PrepareTransactionForReprocessing (tx_id tx)))) (\<lambda>_.
     bindE (wrapE ''unlocking job'' unlockJob) (\<lambda>_.
     with_job (\<lambda>job. MonitorTransactionReconciliationSuccess h job ReconcileReprocessing)))"

definition reconcileSubmittedTransaction :: "submitter_engine \<Rightarrow> handler \<Rightarrow> ('z tss_state_scheme, go_error, unit) prog" where
  "reconcileSubmittedTransaction eng h =
     bindE (wrapE ''validating bundle'' (validateJob eng)) (\<lambda>_.
     with_tx (\<lambda>tx. let txHash = nullable (tx_stellar_transaction_hash tx) in
     bindE (net_call (\<lambda>n. Horizon_TransactionDetail eng n txHash)) (\<lambda>detail.
     bindE (log_event (EvDetail (tx_id tx) txHash detail)) (\<lambda>_.
     case detail of
       Inr txDetail \<Rightarrow>
         if ht_Successful txDetail
         then handleE (handleSuccessfulTransaction eng h txDetail)
                (\<lambda>err. bindE (with_job (\<lambda>job. MonitorTransactionReconciliationFailure h job False (error_text (eng_sdk eng) err)))
                   (\<lambda>_. throw (Wrapf ''handling successful transaction'' err)))
                (\<lambda>_. with_job (\<lambda>job. MonitorTransactionReconciliationSuccess h job ReconcileSuccess))
         else reconcile_for_resubmission h
     | Inl err \<Rightarrow>
         let hWrapperErr = NewHorizonErrorWrapper (eng_sdk eng) err in
         if \<not> IsNotFound hWrapperErr
         then bindE (with_job (\<lambda>job. MonitorTransactionReconciliationFailure h job True (HorizonErrorWrapper_Error (eng_sdk eng) hWrapperErr)))
                (\<lambda>_. throw (Wrapf ''unexpected error'' (of_horizon_error hWrapperErr)))
         else reconcile_for_resubmission h))))"

definition runJob :: "submitter_engine \<Rightarrow> handler \<Rightarrow> ('z tss_state_scheme, go_error, unit) prog" where
  "runJob eng h =
     bindE (wrapE ''validating job'' (validateJob eng)) (\<lambda>_.
     with_tx (\<lambda>tx. if tx_stellar_transaction_hash tx \<noteq> None then reconcileSubmittedTransaction eng h
                   else processTransactionSubmission eng h))"

definition Run :: "submitter_engine \<Rightarrow> handler \<Rightarrow> TxJob \<Rightarrow> ('z tss_state_scheme, go_error, unit) prog" where
  "Run eng h txJob =
     bindE (modifyE (\<lambda>s. s\<lparr>w_job := txJob\<rparr>)) (\<lambda>_.
     handleE (runJob eng h) (\<lambda>err. LogAndReportErrors err ''unexpected TSS error'') ret)"

section \<open>The manager's loop body\<close>

definition loadReadyForProcessingBundles :: "submitter_engine \<Rightarrow> ('z tss_state_scheme, go_error, ChannelTransactionBundle list) prog" where
  "loadReadyForProcessingBundles eng =
     bindE (wrapE ''getting current ledger number'' (GetLedgerNumber (eng_sdk eng) (Horizon_Root eng))) (\<lambda>currentLedgerNumber.
     bindE LimitValue (\<lambda>limit.
     wrapE ''loading channel transaction bundles''
       (ChannelTransactionBundleModel_LoadAndLockTuples currentLedgerNumber (currentLedgerNumber + IncrementForMaxLedgerBounds) limit)))"

definition run_bundle :: "submitter_engine \<Rightarrow> TxJob \<Rightarrow> ('z tss_state_scheme, go_error, unit) prog" where
  "run_bundle eng txJob =
     (case GetTransactionHandler eng (cb_transaction txJob) of
        Inl err \<Rightarrow> LogAndReportErrors (Wrapf ''getting transaction handler for transaction '' err) []
      | Inr txHandler \<Rightarrow> Run eng txHandler txJob)"

definition process_tick :: "submitter_engine \<Rightarrow> ('z tss_state_scheme, go_error, unit) prog" where
  "process_tick eng =
     handleE (loadReadyForProcessingBundles eng)
       (\<lambda>err. if error_is err ErrInsuficientChannelAccounts then ret ()
              else LogAndReportErrors (Wrapf ''attempting to load transactions from database'' err) [])
       (\<lambda>jobs. bindE (forE jobs (run_bundle eng)) (\<lambda>_. ret ()))"

end
