(* ===== verification/Tx_Worker_Rel.thy ===== *)
theory Tx_Worker_Rel
  imports Tx_Worker
begin

text \<open>
  The interface for properties of a running worker: \<open>job_relation\<close> is a relation between states built
  from what may happen to a row and which events may be logged while the job of transaction \<open>i\<close> runs.
  Inside it every program of the worker is shown to respect the relation when the row updates and the
  events of the program are allowed, for every answer of the network and every database fault.
\<close>

section \<open>Relations for a running job\<close>

definition job_rel ::
  "string \<Rightarrow> (Transaction \<Rightarrow> Transaction \<Rightarrow> bool) \<Rightarrow> (event \<Rightarrow> bool) \<Rightarrow> 'z tss_state_scheme \<Rightarrow> 'z tss_state_scheme \<Rightarrow> bool" where
  "job_rel i row_step ev_ok s s' \<longleftrightarrow>
     (tx_id (job_tx s) = i \<longrightarrow>
        tx_id (job_tx s') = i \<and> tss_state.more s' = tss_state.more s \<and> (tss_db_ok s \<longrightarrow> tss_db_ok s') \<and> list_all2 row_step (submitter_transactions s) (submitter_transactions s') \<and>
        (\<exists>evs. tss_log s' = tss_log s @ evs \<and> list_all ev_ok evs))"

lemma tss_db_ok_simps [simp]:
  "tss_db_ok (s\<lparr>conn_faults := fs\<rparr>) = tss_db_ok s" "tss_db_ok (tss_rollback s s') = tss_db_ok s"
  "tss_db_ok (s\<lparr>tss_limiter := l\<rparr>) = tss_db_ok s" "tss_db_ok (s\<lparr>tss_ledger := g\<rparr>) = tss_db_ok s"
  "tss_db_ok (s\<lparr>tss_calls := n\<rparr>) = tss_db_ok s" "tss_db_ok (s\<lparr>tss_log := es\<rparr>) = tss_db_ok s"
  "tss_db_ok (s\<lparr>w_job := j\<rparr>) = tss_db_ok s"
  "tss_db_ok (s\<lparr>submitter_transactions := t\<rparr>) \<longleftrightarrow> tx_table_ok t \<and> ca_table_ok (channel_accounts s)"
  "tss_db_ok (s\<lparr>channel_accounts := c\<rparr>) \<longleftrightarrow> tx_table_ok (submitter_transactions s) \<and> ca_table_ok c"
  by (simp_all add: tss_db_ok_def tss_rollback_def)

lemma job_tx_simps [simp]:
  "job_tx (s\<lparr>conn_faults := fs\<rparr>) = job_tx s" "job_tx (s\<lparr>submitter_transactions := t\<rparr>) = job_tx s"
  "job_tx (s\<lparr>channel_accounts := c\<rparr>) = job_tx s" "job_tx (s\<lparr>tss_limiter := l\<rparr>) = job_tx s"
  "job_tx (s\<lparr>tss_ledger := g\<rparr>) = job_tx s" "job_tx (s\<lparr>tss_calls := n\<rparr>) = job_tx s"
  "job_tx (s\<lparr>tss_log := es\<rparr>) = job_tx s" "job_tx (s\<lparr>w_job := j\<rparr>) = cb_transaction j"
  "job_tx (tss_rollback s s') = job_tx s'"
  by (simp_all add: job_tx_def tss_rollback_def)

definition row_allows :: "string \<Rightarrow> (Transaction \<Rightarrow> Transaction \<Rightarrow> bool) \<Rightarrow> (int \<Rightarrow> Transaction \<Rightarrow> Transaction) \<Rightarrow> bool" where
  "row_allows i row_step f \<longleftrightarrow> (\<forall>now r. tx_id r = i \<longrightarrow> row_step r (touched f now r))"

locale job_relation =
  fixes i :: string and row_step :: "Transaction \<Rightarrow> Transaction \<Rightarrow> bool" and ev_ok :: "event \<Rightarrow> bool"
  assumes step_refl: "row_step r r"
    and step_trans: "row_step r r' \<Longrightarrow> row_step r' r'' \<Longrightarrow> row_step r r''"
    and mon_ok: "ev_ok (EvMonitor i tag label b t)"
    and crash_ok: "ev_ok (EvCrashReport e m)"
    and restore_ok: "ev_ok (EvRestore i)"
    and allows_received: "row_allows i row_step (set_xdr_received x)"
    and allows_unlocked: "row_allows i row_step set_unlocked"
    and allows_error: "row_allows i row_step (set_error msg)"
begin

lemma rows_refl: "list_all2 row_step t t"
  by (simp add: list_all2_refl step_refl)

lemma rows_trans: "list_all2 row_step a b \<Longrightarrow> list_all2 row_step b c \<Longrightarrow> list_all2 row_step a c"
  using list_all2_trans [of row_step row_step row_step a b c] step_trans by blast

lemma rel_refl: "job_rel i row_step ev_ok s s"
  by (auto simp: job_rel_def rows_refl)

lemma rel_trans: "job_rel i row_step ev_ok s t \<Longrightarrow> job_rel i row_step ev_ok t u \<Longrightarrow> job_rel i row_step ev_ok s u"
  by (auto simp: job_rel_def intro: rows_trans)

end

sublocale job_relation < tx_update_relation "job_rel i row_step ev_ok" row_step
proof
  fix s t u :: "'a tss_state_scheme"
  show "job_rel i row_step ev_ok s s" by (rule rel_refl)
  show "job_rel i row_step ev_ok s t \<Longrightarrow> job_rel i row_step ev_ok t u \<Longrightarrow> job_rel i row_step ev_ok s u" by (rule rel_trans)
qed (auto simp: job_rel_def rows_refl step_refl tss_db_ok_def, auto simp: tss_rollback_def rows_refl)

sublocale job_relation < ca_relation "job_rel i row_step ev_ok"
  by unfold_locales (auto simp: job_rel_def rows_refl tss_db_ok_def)


text \<open>The row an update returns has the id that was asked for.\<close>

definition returns_id :: "string \<Rightarrow> ('s, 'e, Transaction) prog \<Rightarrow> bool" where
  "returns_id i m \<longleftrightarrow> (\<forall>s r s'. m s = (Inr r, s') \<longrightarrow> tx_id r = i)"

lemma returns_id_update:
  "(\<And>r. P r \<Longrightarrow> tx_id r = i) \<Longrightarrow> (\<And>now r. tx_id (f now r) = tx_id r) \<Longrightarrow> returns_id i (tx_update_returning P f)"
  unfolding returns_id_def by (auto elim!: tx_update_returning_cases)

lemma returns_id_wrap:
  "returns_id i m \<Longrightarrow> returns_id i (wrapE msg m)"
  "returns_id i m \<Longrightarrow> returns_id i (not_found_or_wrap msg m)"
  "returns_id i m \<Longrightarrow> returns_id i (handleE m (\<lambda>e. throw (g e)) ret)"
  by (auto simp: returns_id_def prog_ok handleE_def throw_def ret_def split: prod.splits sum.splits)

lemma returns_id_throw: "returns_id i (throw e)"
  by (simp add: returns_id_def throw_def)

lemma returns_id_if: "returns_id i m \<Longrightarrow> returns_id i n \<Longrightarrow> returns_id i (if b then m else n)"
  by simp

lemma returns_id_case_sum:
  "(\<And>e. returns_id i (f e)) \<Longrightarrow> (\<And>y. returns_id i (g y)) \<Longrightarrow> returns_id i (case x of Inl e \<Rightarrow> f e | Inr y \<Rightarrow> g y)"
  by (cases x) auto

lemmas returns_id_intros = returns_id_throw returns_id_if returns_id_case_sum returns_id_wrap returns_id_update

lemma returns_id_store:
  "returns_id (tx_id tx) (TransactionModel_UpdateStatusToSuccess tx)"
  "returns_id (tx_id tx) (TransactionModel_UpdateStatusToError tx m)"
  "returns_id i (TransactionModel_UpdateStellarTransactionHashXDRSentAndDistributionAccount sdk i h x d)"
  "returns_id i (TransactionModel_UpdateStellarTransactionXDRReceived sdk i x)"
  unfolding TransactionModel_UpdateStatusToSuccess_def TransactionModel_UpdateStatusToError_def
    TransactionModel_UpdateStellarTransactionHashXDRSentAndDistributionAccount_def
    TransactionModel_UpdateStellarTransactionXDRReceived_def
  by (intro returns_id_intros; simp add: set_defs)+

context job_relation
begin

lemma keeps_with_tx:
  "(\<And>tx. tx_id tx = i \<Longrightarrow> keeps (job_rel i row_step ev_ok) (f tx)) \<Longrightarrow> keeps (job_rel i row_step ev_ok) (with_tx f)"
  unfolding keeps_def with_tx_def by (metis job_rel_def)

lemma keeps_with_job:
  "(\<And>job. tx_id (cb_transaction job) = i \<Longrightarrow> keeps (job_rel i row_step ev_ok) (f job)) \<Longrightarrow> keeps (job_rel i row_step ev_ok) (with_job f)"
  unfolding keeps_def with_job_def by (metis job_rel_def job_tx_def)

lemma keeps_log_event: "ev_ok ev \<Longrightarrow> keeps (job_rel i row_step ev_ok) (log_event ev)"
  by (simp add: keeps_def log_event_def modifyE_def job_rel_def rows_refl)

lemma keeps_net_call [keeps_intros]: "keeps (job_rel i row_step ev_ok) (net_call f)"
  by (simp add: keeps_def net_call_def job_rel_def rows_refl)

lemma keeps_liftE [keeps_intros]: "keeps (job_rel i row_step ev_ok) (liftE r)"
  unfolding liftE_def by (intro keeps_intros)

lemma keeps_AdjustLimitIfNeeded [keeps_intros]: "keeps (job_rel i row_step ev_ok) (AdjustLimitIfNeeded e)"
  by (simp add: keeps_def AdjustLimitIfNeeded_def modifyE_def job_rel_def rows_refl)

lemma keeps_GetLedgerNumber [keeps_intros]: "keeps (job_rel i row_step ev_ok) (GetLedgerNumber sdk Root)"
  by (rule keepsI, erule GetLedgerNumber_cases) (auto simp: job_rel_def rows_refl)

lemma keeps_update_job:
  assumes "keeps (job_rel i row_step ev_ok) m" and "returns_id i m"
  shows "keeps (job_rel i row_step ev_ok) (update_job m)"
proof (rule keepsI)
  fix s s' :: "'a tss_state_scheme" and r assume run: "update_job m s = (r, s')"
  obtain x s1 where m: "m s = (x, s1)" by fastforce
  with assms(1) have "job_rel i row_step ev_ok s s1" by (rule keepsD)
  moreover have "job_rel i row_step ev_ok s1 s'"
  proof (cases x)
    case (Inl e)
    with run m show ?thesis by (simp add: update_job_def bindE_def rel_refl)
  next
    case (Inr tx)
    with assms(2) m have "tx_id tx = i" by (auto simp: returns_id_def)
    with Inr run m show ?thesis
      by (auto simp: update_job_def bindE_def set_job_tx_def modifyE_def job_rel_def rows_refl)
  qed
  ultimately show "job_rel i row_step ev_ok s s'" by (rule rel_trans)
qed

lemma keeps_validateJob [keeps_intros]: "keeps (job_rel i row_step ev_ok) (validateJob eng)"
  unfolding validateJob_def by (intro keeps_with_tx keeps_with_job keeps_intros)

lemma keeps_saveResponse [keeps_intros]: "keeps (job_rel i row_step ev_ok) (saveResponseXDRIfPresent eng resp)"
  unfolding saveResponseXDRIfPresent_def
  by (intro keeps_if keeps_ret keeps_with_tx keeps_update_job keeps_wrapE keeps_UpdateReceived)
    (use allows_received in \<open>auto simp: row_allows_def intro: returns_id_wrap returns_id_store\<close>)

lemma keeps_unlockJob [keeps_intros]: "keeps (job_rel i row_step ev_ok) unlockJob"
  unfolding unlockJob_def
  by (intro keeps_with_job keeps_intros keeps_Unlock) (use allows_unlocked in \<open>auto simp: row_allows_def\<close>)

lemma keeps_markTransactionAsError [keeps_intros]: "keeps (job_rel i row_step ev_ok) (markTransactionAsError m)"
  unfolding markTransactionAsError_def
  by (intro keeps_with_tx keeps_update_job keeps_wrapE keeps_UpdateStatusToError)
    (use allows_error in \<open>auto simp: row_allows_def intro!: returns_id_wrap returns_id_store\<close>)

lemma keeps_monitors:
  "keeps (job_rel i row_step ev_ok) (with_job (MonitorTransactionProcessingStarted h))"
  "keeps (job_rel i row_step ev_ok) (with_job (MonitorTransactionProcessingSuccess h))"
  "keeps (job_rel i row_step ev_ok) (with_job (\<lambda>job. MonitorTransactionProcessingFailed h job b t))"
  "keeps (job_rel i row_step ev_ok) (with_job (\<lambda>job. MonitorTransactionReconciliationSuccess h job k))"
  "keeps (job_rel i row_step ev_ok) (with_job (\<lambda>job. MonitorTransactionReconciliationFailure h job b t))"
  by (cases h; simp only: MonitorTransactionProcessingStarted.simps MonitorTransactionProcessingSuccess.simps
      MonitorTransactionProcessingFailed.simps MonitorTransactionReconciliationSuccess.simps
      MonitorTransactionReconciliationFailure.simps monitor_defs; intro keeps_with_job keeps_log_event; simp add: mon_ok)+

lemma keeps_LogAndReportErrors [keeps_intros]: "keeps (job_rel i row_step ev_ok) (LogAndReportErrors e m)"
  unfolding LogAndReportErrors_def by (intro keeps_log_event crash_ok)

lemma keeps_BuildInnerTransaction [keeps_intros]: "keeps (job_rel i row_step ev_ok) (BuildInnerTransaction h eng job n d)"
  by (cases h)
    (auto simp: WalletCreationTransactionHandler_BuildInnerTransaction_def SponsoredTransactionHandler_BuildInnerTransaction_def
      simulate_initial_def Let_def intro!: keeps_intros)

lemma keeps_handleSuccessful:
  assumes "ht_Successful resp \<Longrightarrow> row_allows i row_step set_success"
  shows "keeps (job_rel i row_step ev_ok) (handleSuccessfulTransaction eng h resp)"
proof (cases "ht_Successful resp")
  case True
  have "keeps (job_rel i row_step ev_ok) (with_tx (\<lambda>tx. update_job (handleE (TransactionModel_UpdateStatusToSuccess tx)
      (\<lambda>err. throw (TransactionStatusUpdateError ''SUCCESS'' (tx_id tx) False err)) ret)))"
    using assms [OF True]
    by (intro keeps_with_tx keeps_update_job keeps_handleE keeps_throw keeps_ret keeps_UpdateStatusToSuccess)
      (auto simp: row_allows_def intro: returns_id_wrap returns_id_store)
  then show ?thesis
    unfolding handleSuccessfulTransaction_def by (intro keeps_intros keeps_monitors)
qed (simp add: handleSuccessfulTransaction_def, intro keeps_intros)

lemma keeps_restoreArchivedEntries [keeps_intros]: "keeps (job_rel i row_step ev_ok) (restoreArchivedEntries eng)"
  unfolding restoreArchivedEntries_def Let_def
  by (intro keeps_with_job keeps_intros keeps_log_event) (simp add: restore_ok)

lemma keeps_tagged [keeps_intros]:
  "keeps (job_rel i row_step ev_ok) m \<Longrightarrow> keeps (job_rel i row_step ev_ok) (tagged b m)"
  unfolding tagged_def by (intro keeps_intros)

lemma keeps_if_cases: "(b \<Longrightarrow> keeps R m) \<Longrightarrow> (\<not> b \<Longrightarrow> keeps R n) \<Longrightarrow> keeps R (if b then m else n)"
  by simp

lemma keeps_Prepare_job:
  "row_allows i row_step set_reprocess \<Longrightarrow> tx_id tx = i \<Longrightarrow>
   keeps (job_rel i row_step ev_ok) (TransactionModel_PrepareTransactionForReprocessing (tx_id tx))"
  by (rule keeps_Prepare) (auto simp: row_allows_def)

lemma keeps_handleEntryArchived:
  "row_allows i row_step set_reprocess \<Longrightarrow> keeps (job_rel i row_step ev_ok) (handleEntryArchived eng e)"
  unfolding handleEntryArchived_def by (intro keeps_with_tx keeps_intros keeps_Prepare_job)

lemma keeps_handle_failed_body:
  assumes "(case as_horizon_error (of_TransactionError txErr) of None \<Rightarrow> False | Some w \<Rightarrow> IsEntryArchived w) \<or>
      TransactionError_IsRetryable txErr \<and> RequiresRebuildOnRetry h \<Longrightarrow> row_allows i row_step set_reprocess"
  shows "keeps (job_rel i row_step ev_ok) (handle_failed_body eng h resp txErr)"
  unfolding handle_failed_body_def Let_def
  by (intro keeps_handleE keeps_bindE keeps_wrapE keeps_throw keeps_ret keeps_saveResponse keeps_AdjustLimitIfNeeded
      keeps_if_cases keeps_tagged keeps_markTransactionAsError keeps_LogAndReportErrors keeps_unlockJob keeps_with_tx
      keeps_handleEntryArchived keeps_Prepare_job assms) simp_all

lemma keeps_handleFailed:
  assumes "(case as_horizon_error (of_TransactionError txErr) of None \<Rightarrow> False | Some w \<Rightarrow> IsEntryArchived w) \<or>
      TransactionError_IsRetryable txErr \<and> RequiresRebuildOnRetry h \<Longrightarrow> row_allows i row_step set_reprocess"
  shows "keeps (job_rel i row_step ev_ok) (handleFailedTransaction eng h resp txErr)"
  unfolding handleFailedTransaction_def
  by (intro keeps_handleE keeps_handle_failed_body keeps_case_prod keeps_bindE keeps_monitors keeps_throw assms)

lemma keeps_handlePreparationError:
  "row_allows i row_step set_reprocess \<Longrightarrow> keeps (job_rel i row_step ev_ok) (handlePreparationError eng h err)"
  unfolding handlePreparationError_def by (intro keeps_intros keeps_handleFailed)

lemma keeps_buildAndSign:
  "row_allows i row_step set_reprocess \<Longrightarrow> keeps (job_rel i row_step ev_ok) (buildAndSignTransaction eng h)"
  unfolding buildAndSignTransaction_def by (intro keeps_with_job keeps_intros keeps_handlePreparationError)

lemma keeps_prepareForSubmission:
  assumes "row_allows i row_step set_reprocess" and "\<And>h x d. row_allows i row_step (set_hash_and_xdr_sent h x d)"
  shows "keeps (job_rel i row_step ev_ok) (prepareForSubmission eng h)"
  unfolding prepareForSubmission_def
  by (intro keeps_bindE keeps_wrapE keeps_liftE keeps_ret keeps_buildAndSign keeps_with_tx keeps_update_job keeps_UpdateHash)
    (use assms in \<open>auto simp: row_allows_def intro: returns_id_wrap returns_id_store\<close>)

lemma keeps_reconcile_for_resubmission:
  "row_allows i row_step set_reprocess \<Longrightarrow> keeps (job_rel i row_step ev_ok) (reconcile_for_resubmission h)"
  unfolding reconcile_for_resubmission_def
  by (intro keeps_bindE keeps_with_tx keeps_wrapE keeps_Prepare_job keeps_unlockJob keeps_monitors)

text \<open>A relation that allows every row update and every event is respected by the whole job.\<close>

lemma keeps_runJob:
  assumes rows: "\<And>f. row_allows i row_step f" and evs: "\<And>ev. ev_ok ev"
  shows "keeps (job_rel i row_step ev_ok) (runJob eng h)"
proof -
  have submit: "keeps (job_rel i row_step ev_ok) (submit eng h tx)" for tx
    unfolding submit_def
    by (intro keeps_bindE keeps_net_call keeps_case_prod keeps_with_tx keeps_log_event keeps_case_option keeps_wrapE
        keeps_handleFailed keeps_handleSuccessful rows evs)
  have "keeps (job_rel i row_step ev_ok) (processTransactionSubmission eng h)"
    unfolding processTransactionSubmission_def
    by (intro keeps_bindE keeps_monitors keeps_wrapE keeps_validateJob keeps_handleE keeps_prepareForSubmission
        keeps_if keeps_ret keeps_throw submit rows)
  moreover have "keeps (job_rel i row_step ev_ok) (reconcileSubmittedTransaction eng h)"
    unfolding reconcileSubmittedTransaction_def Let_def
    by (intro keeps_bindE keeps_wrapE keeps_validateJob keeps_with_tx keeps_net_call keeps_log_event keeps_case_sum
        keeps_if keeps_handleE keeps_handleSuccessful keeps_monitors keeps_throw keeps_reconcile_for_resubmission rows evs)
  ultimately show ?thesis
    unfolding runJob_def by (intro keeps_bindE keeps_wrapE keeps_validateJob keeps_with_tx keeps_if)
qed

end

end
