(* ===== verification/Tx_Worker_Spec.thy ===== *)
theory Tx_Worker_Spec
  imports Tx_Worker_Rel
begin

text \<open>
  What a worker promises about its transaction, as an abstract specification \<open>worker_run\<close> over the
  table of transactions and the log, and the proof that \<open>Run\<close> implements it: the row of another
  transaction never changes, an envelope is submitted at most once per run and only when the row had
  no hash, its hash is recorded before it is submitted, the hash is erased only after Horizon
  said that the envelope failed, and the row becomes successful only after Horizon said so.
\<close>

section \<open>The specification\<close>

text \<open>How the rows may evolve while the job of \<open>i\<close> runs: only row \<open>i\<close> changes, it keeps its payload and
  extends its history, becomes successful only if \<open>succ\<close>, and its hash only becomes one of \<open>hs\<close>.\<close>

definition step_with :: "string \<Rightarrow> bool \<Rightarrow> string option set \<Rightarrow> Transaction \<Rightarrow> Transaction \<Rightarrow> bool" where
  "step_with i succ hs r r' \<longleftrightarrow> row_le r r' \<and> (tx_id r \<noteq> i \<longrightarrow> r' = r) \<and>
     (tx_status r' = TransactionStatusSuccess \<longrightarrow> tx_status r = TransactionStatusSuccess \<or> succ) \<and>
     (tx_stellar_transaction_hash r' = tx_stellar_transaction_hash r \<or> tx_stellar_transaction_hash r' \<in> hs)"

fun quiet_event :: "string \<Rightarrow> event \<Rightarrow> bool" where
  "quiet_event i (EvRestore j) = (j = i)"
| "quiet_event i (EvMonitor j tag label b t) = (j = i)"
| "quiet_event i (EvCrashReport e m) = True"
| "quiet_event i _ = False"

type_synonym submit_answer = "go_error option \<times> horizon_transaction"
type_synonym detail_answer = "go_error + horizon_transaction"

fun answer_successful :: "submit_answer \<Rightarrow> bool" where
  "answer_successful (err, resp) = (err = None \<and> ht_Successful resp)"

fun answer_archived :: "stellar_sdk \<Rightarrow> submit_answer \<Rightarrow> bool" where
  "answer_archived sdk (None, resp) = False"
| "answer_archived sdk (Some e, resp) = IsEntryArchived (NewHorizonErrorWrapper sdk e)"

fun answer_retryable :: "stellar_sdk \<Rightarrow> submit_answer \<Rightarrow> bool" where
  "answer_retryable sdk (None, resp) = False"
| "answer_retryable sdk (Some e, resp) = TransactionError_IsRetryable (THorizon (NewHorizonErrorWrapper sdk e))"

fun detail_successful :: "detail_answer \<Rightarrow> bool" where
  "detail_successful (Inl e) = False"
| "detail_successful (Inr d) = ht_Successful d"

text \<open>Horizon does not know the hash, or says that its transaction failed.\<close>

fun detail_gone :: "stellar_sdk \<Rightarrow> detail_answer \<Rightarrow> bool" where
  "detail_gone sdk (Inl e) = IsNotFound (NewHorizonErrorWrapper sdk e)"
| "detail_gone sdk (Inr d) = (\<not> ht_Successful d)"

definition may_erase :: "stellar_sdk \<Rightarrow> handler \<Rightarrow> submit_answer \<Rightarrow> bool" where
  "may_erase sdk h ans \<longleftrightarrow> answer_archived sdk ans \<or> answer_retryable sdk ans \<and> RequiresRebuildOnRetry h"

definition erased_if :: "bool \<Rightarrow> string option set" where
  "erased_if b = (if b then {None} else {})"

definition hash_is :: "string \<Rightarrow> string option \<Rightarrow> Transaction list \<Rightarrow> bool" where
  "hash_is i h t \<longleftrightarrow> (\<forall>r \<in> set t. tx_id r = i \<longrightarrow> tx_stellar_transaction_hash r = h)"

definition hash_recorded :: "string \<Rightarrow> string \<Rightarrow> Transaction list \<Rightarrow> bool" where
  "hash_recorded i h t \<longleftrightarrow> (\<exists>r \<in> set t. tx_id r = i \<and> h \<in> he_stellar_transaction_hash ` set (tx_status_history r))"

inductive worker_run ::
  "stellar_sdk \<Rightarrow> handler \<Rightarrow> string \<Rightarrow> Transaction list \<times> event list \<Rightarrow> Transaction list \<times> event list \<Rightarrow> bool"
  for sdk h i where
  idle: "list_all2 (step_with i False {}) t t' \<Longrightarrow> list_all (quiet_event i) evs \<Longrightarrow>
    worker_run sdk h i (t, L) (t', L @ evs)"
| not_submitted: "hash_is i None t \<Longrightarrow> list_all2 (step_with i False UNIV) t t' \<Longrightarrow> list_all (quiet_event i) evs \<Longrightarrow>
    worker_run sdk h i (t, L) (t', L @ evs)"
| submitted: "hash_is i None t \<Longrightarrow> list_all2 (step_with i False UNIV) t t1 \<Longrightarrow> list_all (quiet_event i) before \<Longrightarrow>
    hash_is i (Some x) t1 \<Longrightarrow> hash_recorded i x t1 \<Longrightarrow>
    list_all2 (step_with i (answer_successful ans) (erased_if (may_erase sdk h ans))) t1 t' \<Longrightarrow> list_all (quiet_event i) after \<Longrightarrow>
    worker_run sdk h i (t, L) (t', L @ before @ [EvSubmit i x ans] @ after)"
| asked: "hash_is i (Some x) t \<Longrightarrow>
    list_all2 (step_with i (detail_successful d) (erased_if (detail_gone sdk d))) t t' \<Longrightarrow> list_all (quiet_event i) evs \<Longrightarrow>
    worker_run sdk h i (t, L) (t', L @ [EvDetail i x d] @ evs)"

section \<open>The worker's relation at the specification's row steps\<close>

lemma step_with_trans: "step_with i succ hs r r' \<Longrightarrow> step_with i succ hs r' r'' \<Longrightarrow> step_with i succ hs r r''"
  unfolding step_with_def by (metis row_le_def row_le_trans)

lemma step_with_touched:
  "row_le r (touched f now r) \<Longrightarrow>
   (tx_status (touched f now r) = TransactionStatusSuccess \<longrightarrow> tx_status r = TransactionStatusSuccess \<or> succ) \<Longrightarrow>
   (tx_stellar_transaction_hash (touched f now r) \<in> insert (tx_stellar_transaction_hash r) hs) \<Longrightarrow> tx_id r = i \<Longrightarrow>
   step_with i succ hs r (touched f now r)"
  by (auto simp: step_with_def)

interpretation steps: job_relation i "step_with i succ hs" "quiet_event i" for i succ hs
proof
  show "step_with i succ hs r r'' " if "step_with i succ hs r r'" and "step_with i succ hs r' r''" for r r' r''
    using that by (rule step_with_trans)
qed (auto simp: step_with_def row_allows_def row_le_def set_defs transaction_status_defs)

lemma step_with_allows:
  "row_allows i (step_with i True hs) set_success"
  "None \<in> hs \<Longrightarrow> row_allows i (step_with i succ hs) set_reprocess"
  "row_allows i (step_with i succ UNIV) (set_hash_and_xdr_sent h x d)"
  by (auto simp: step_with_def row_allows_def row_le_def set_defs)

section \<open>The phases of a run\<close>

lemma job_rel_elim:
  assumes "keeps (job_rel i st ev) m" and "m s = (r, s')" and "tx_id (job_tx s) = i"
  obtains evs where "tss_log s' = tss_log s @ evs" and "list_all ev evs"
    and "list_all2 st (submitter_transactions s) (submitter_transactions s')" and "tx_id (job_tx s') = i"
  using keepsD [OF assms(1,2)] assms(3) by (auto simp: job_rel_def)

definition same_job :: "'z tss_state_scheme \<Rightarrow> 'z tss_state_scheme \<Rightarrow> bool" where
  "same_job s s' \<longleftrightarrow> w_job s' = w_job s \<and> submitter_transactions s' = submitter_transactions s \<and>
     channel_accounts s' = channel_accounts s \<and> tss_log s' = tss_log s"

interpretation unchanged: state_preorder same_job
  by unfold_locales (auto simp: same_job_def)

lemma keeps_validateJob_same: "keeps same_job (validateJob eng)"
proof (rule keepsI)
  fix s s' :: "'a tss_state_scheme" and r assume run: "validateJob eng s = (r, s')"
  obtain x s1 where x: "GetLedgerNumber (eng_sdk eng) (Horizon_Root eng) s = (x, s1)" by fastforce
  then have "same_job s s1" by (cases rule: GetLedgerNumber_cases) (auto simp: same_job_def)
  moreover have "s' = s \<or> s' = s1"
    using run x by (cases x) (auto simp: validateJob_def with_tx_def with_job_def prog_defs split: if_splits)
  ultimately show "same_job s s'" by (auto simp: same_job_def)
qed

lemma touched_id: "tx_id (touched (set_hash_and_xdr_sent x xdr d) now r) = tx_id r"
  by (simp add: set_defs)

lemma touched_hash: "tx_stellar_transaction_hash (touched (set_hash_and_xdr_sent x xdr d) now r) = Some x"
  by (simp add: set_defs)

lemma prepareForSubmission_ok:
  assumes "prepareForSubmission eng h s = (Inr tx, s')" and "tx_id (job_tx s) = i"
  obtains x where "envelope_hash eng tx = x" and "hash_is i (Some x) (submitter_transactions s')"
    and "hash_recorded i x (submitter_transactions s')"
proof -
  from assms(1) obtain x xdr d s1 s2 where x: "feebump_HashHex eng tx = Inr x"
    and build: "buildAndSignTransaction eng h s = (Inr tx, s1)"
    and upd: "update_job (wrapE ''saving transaction metadata for job %v''
       (TransactionModel_UpdateStellarTransactionHashXDRSentAndDistributionAccount (eng_sdk eng) (tx_id (job_tx s1)) x xdr d)) s1 = (Inr (), s')"
    by (auto simp: prepareForSubmission_def prog_ok with_tx_def)
  have "keeps (job_rel i (step_with i False UNIV) (quiet_event i)) (buildAndSignTransaction eng h)"
    by (rule steps.keeps_buildAndSign) (simp add: step_with_allows)
  with build assms(2) have i: "tx_id (job_tx s1) = i" by (auto elim: job_rel_elim)
  from upd obtain row s2 where "tx_update_returning (\<lambda>r. tx_id r = i) (set_hash_and_xdr_sent x xdr d) s1 = (Inr row, s2)"
    and s': "s' = s2\<lparr>w_job := (w_job s2)\<lparr>cb_transaction := row\<rparr>\<rparr>"
    by (auto simp: update_job_def set_job_tx_def modifyE_def prog_ok i
        TransactionModel_UpdateStellarTransactionHashXDRSentAndDistributionAccount_def split: if_splits)
  then obtain r where r: "r \<in> set (submitter_transactions s1)" "tx_id r = i"
    and t: "submitter_transactions s' = tx_updated (\<lambda>r. tx_id r = i) (set_hash_and_xdr_sent x xdr d) (conn_now s1) (submitter_transactions s1)"
    by (elim tx_update_returning_cases) auto
  show ?thesis
  proof (rule that)
    show "envelope_hash eng tx = x" by (simp add: envelope_hash_def x)
    show "hash_is i (Some x) (submitter_transactions s')"
      unfolding hash_is_def t tx_updated_touched by (auto simp: touched_hash)
    have "touched (set_hash_and_xdr_sent x xdr d) (conn_now s1) r \<in> set (submitter_transactions s')"
      using r unfolding t tx_updated_touched by force
    moreover have "x \<in> he_stellar_transaction_hash ` set (tx_status_history (touched (set_hash_and_xdr_sent x xdr d) (conn_now s1) r))"
      by (simp add: set_defs status_history_entry_def nullable_def)
    ultimately show "hash_recorded i x (submitter_transactions s')"
      using r(2) unfolding hash_recorded_def by (metis touched_id)
  qed
qed

lemma submit_run:
  fixes s s' :: "'z tss_state_scheme"
  assumes "submit eng h tx s = (r, s')" and "tx_id (job_tx s) = i"
  obtains ans after where "tss_log s' = tss_log s @ [EvSubmit i (envelope_hash eng tx) ans] @ after"
    and "list_all (quiet_event i) after"
    and "list_all2 (step_with i (answer_successful ans) (erased_if (may_erase (eng_sdk eng) h ans)))
           (submitter_transactions s) (submitter_transactions s')"
proof -
  obtain err resp where ans: "Horizon_Submit eng (tss_calls s) tx = (err, resp)" by fastforce
  let ?ans = "(err, resp)" and ?s = "s\<lparr>tss_calls := Suc (tss_calls s), tss_log := tss_log s @ [EvSubmit i (envelope_hash eng tx) (err, resp)]\<rparr>"
  define rest :: "('z tss_state_scheme, go_error, unit) prog" where "rest = (case err of
       Some e \<Rightarrow> wrapE ''handling failed transaction''
                    (handleFailedTransaction eng h resp (THorizon (NewHorizonErrorWrapper (eng_sdk eng) e)))
     | None \<Rightarrow> wrapE ''handling successful transaction'' (handleSuccessfulTransaction eng h resp))"
  have run: "rest ?s = (r, s')"
    using assms by (simp add: submit_def net_call_def bindE_def with_tx_def log_event_def modifyE_def ans rest_def)
  have "keeps (job_rel i (step_with i (answer_successful ?ans) (erased_if (may_erase (eng_sdk eng) h ?ans))) (quiet_event i)) rest"
    unfolding rest_def
    by (cases err) (auto intro!: steps.keeps_wrapE steps.keeps_handleSuccessful steps.keeps_handleFailed step_with_allows
        simp: may_erase_def erased_if_def)
  from job_rel_elim [OF this run] assms(2) obtain after where
    "tss_log s' = tss_log ?s @ after" and "list_all (quiet_event i) after" and
    "list_all2 (step_with i (answer_successful ?ans) (erased_if (may_erase (eng_sdk eng) h ?ans)))
       (submitter_transactions ?s) (submitter_transactions s')" by (metis job_tx_simps(6,7))
  then show ?thesis by (intro that [of ?ans after]) simp_all
qed

lemma process_phases:
  fixes s s' :: "'z tss_state_scheme"
  assumes "processTransactionSubmission eng h s = (r, s')"
  obtains (stopped) "job_rel i (step_with i False UNIV) (quiet_event i) s s'"
  | (prepared) s1 e where "job_rel i (step_with i False UNIV) (quiet_event i) s s1"
      and "prepareForSubmission eng h s1 = (Inl e, s')"
  | (sent) s1 tx s2 y where "job_rel i (step_with i False UNIV) (quiet_event i) s s1"
      and "prepareForSubmission eng h s1 = (Inr tx, s2)" and "submit eng h tx s2 = (y, s')"
proof -
  let ?R = "job_rel i (step_with i False UNIV) (quiet_event i)"
  from assms obtain s1 where s1: "with_job (MonitorTransactionProcessingStarted h) s = (Inr (), s1)"
    and run: "bindE (wrapE ''validating bundle'' (validateJob eng)) (\<lambda>_. handleE (prepareForSubmission eng h)
       (\<lambda>err. if error_is err ErrTransactionHandled then ret () else throw (Wrapf ''preparing bundle for processing'' err))
       (\<lambda>feeBumpTx. wrapE ''processing bundle'' (submit eng h feeBumpTx))) s1 = (r, s')"
    by (cases h) (auto simp: processTransactionSubmission_def with_job_def monitor_defs
        log_event_def modifyE_def bindE_def)
  have r1: "?R s s1" by (rule keepsD [OF steps.keeps_monitors(1) s1])
  from run show ?thesis
  proof (cases rule: bindE_cases)
    case (err e)
    from keepsD [OF steps.keeps_wrapE [OF steps.keeps_validateJob] err(1)] r1 show ?thesis
      by (blast intro: stopped steps.rel_trans)
  next
    case (ok u s2)
    from keepsD [OF steps.keeps_wrapE [OF steps.keeps_validateJob] ok(1)] r1 have r2: "?R s s2"
      by (blast intro: steps.rel_trans)
    from ok(2) show ?thesis
    proof (cases rule: handleE_cases)
      case (err e s3)
      then have "s' = s3" by (auto simp: ret_def throw_def split: if_splits)
      with r2 err(1) show ?thesis by (auto intro: prepared)
    next
      case (ok tx s3)
      from ok(2) obtain y where "submit eng h tx s3 = (y, s')" by (rule wrapE_cases) auto
      with r2 ok(1) show ?thesis by (rule sent)
    qed
  qed
qed

lemma process_run:
  fixes s s' :: "'z tss_state_scheme"
  assumes run: "processTransactionSubmission eng h s = (r, s')" and i: "tx_id (job_tx s) = i"
    and none: "hash_is i None (submitter_transactions s)"
  shows "worker_run (eng_sdk eng) h i (submitter_transactions s, tss_log s) (submitter_transactions s', tss_log s')"
proof -
  define R :: "'z tss_state_scheme \<Rightarrow> 'z tss_state_scheme \<Rightarrow> bool" where "R = job_rel i (step_with i False UNIV) (quiet_event i)"
  have quiet: "worker_run (eng_sdk eng) h i (submitter_transactions s, tss_log s) (submitter_transactions s1, tss_log s1)"
    if "R s s1" for s1
    using that i none unfolding R_def job_rel_def by (auto intro: worker_run.not_submitted)
  have prep: "keeps R (prepareForSubmission eng h)"
    unfolding R_def by (intro steps.keeps_prepareForSubmission step_with_allows) simp
  from run show ?thesis
  proof (cases rule: process_phases [where i = i])
    case stopped
    then show ?thesis unfolding R_def [symmetric] by (rule quiet)
  next
    case (prepared s1 e)
    with keepsD [OF prep prepared(2)] have "R s s'" unfolding R_def by (blast intro: steps.rel_trans)
    then show ?thesis by (rule quiet)
  next
    case (sent s1 tx s2 y)
    note sent = sent [folded R_def]
    with i have i1: "tx_id (job_tx s1) = i" by (simp add: R_def job_rel_def)
    from sent(1) keepsD [OF prep sent(2)] have "R s s2" unfolding R_def by (blast intro: steps.rel_trans)
    with i obtain before where s2: "tss_log s2 = tss_log s @ before" "list_all (quiet_event i) before"
      "list_all2 (step_with i False UNIV) (submitter_transactions s) (submitter_transactions s2)" "tx_id (job_tx s2) = i"
      by (auto simp: R_def job_rel_def)
    from prepareForSubmission_ok [OF sent(2) i1] have
      x: "hash_is i (Some (envelope_hash eng tx)) (submitter_transactions s2)"
        "hash_recorded i (envelope_hash eng tx) (submitter_transactions s2)" by blast+
    from sent(3) s2(4) obtain ans after where
      after: "tss_log s' = tss_log s2 @ [EvSubmit i (envelope_hash eng tx) ans] @ after" "list_all (quiet_event i) after"
      "list_all2 (step_with i (answer_successful ans) (erased_if (may_erase (eng_sdk eng) h ans)))
         (submitter_transactions s2) (submitter_transactions s')"
      by (rule submit_run)
    from worker_run.submitted [OF none s2(3,2) x after(3,2)] show ?thesis
      by (simp add: after(1) s2(1))
  qed
qed

definition reconcile_answer :: "submitter_engine \<Rightarrow> handler \<Rightarrow> detail_answer \<Rightarrow> ('z tss_state_scheme, go_error, unit) prog" where
  "reconcile_answer eng h detail = (case detail of
       Inr txDetail \<Rightarrow>
         if ht_Successful txDetail
         then handleE (handleSuccessfulTransaction eng h txDetail)
                (\<lambda>err. bindE (with_job (\<lambda>job. MonitorTransactionReconciliationFailure h job False (error_text (eng_sdk eng) err)))
                   (\<lambda>_. throw (Wrapf ''handling successful transaction'' err)))
                (\<lambda>_. with_job (\<lambda>job. MonitorTransactionReconciliationSuccess h job ReconcileSuccess))
         else reconcile_for_resubmission h
     | Inl err \<Rightarrow>
         let hWrapperErr = NewHorizonErrorWrapper (eng_sdk eng) err in
         if \<not> IsNotFound hWrapperErr
         then bindE (with_job (\<lambda>job. MonitorTransactionReconciliationFailure h job True (HorizonErrorWrapper_Error (eng_sdk eng) hWrapperErr)))
                (\<lambda>_. throw (Wrapf ''unexpected error'' (of_horizon_error hWrapperErr)))
         else reconcile_for_resubmission h)"

lemma keeps_reconcile_answer:
  "keeps (job_rel i (step_with i (detail_successful d) (erased_if (detail_gone (eng_sdk eng) d))) (quiet_event i)) (reconcile_answer eng h d)"
proof (cases d)
  case (Inl e)
  show ?thesis
  proof (cases "IsNotFound (NewHorizonErrorWrapper (eng_sdk eng) e)")
    case True
    then show ?thesis unfolding reconcile_answer_def Inl
      by (simp add: erased_if_def steps.keeps_reconcile_for_resubmission step_with_allows)
  next
    case False
    then show ?thesis unfolding reconcile_answer_def Inl
      by (simp add: Let_def steps.keeps_bindE steps.keeps_monitors steps.keeps_throw)
  qed
next
  case (Inr t)
  show ?thesis
  proof (cases "ht_Successful t")
    case True
    then show ?thesis unfolding reconcile_answer_def Inr
      by (simp add: steps.keeps_handleE steps.keeps_handleSuccessful step_with_allows
          steps.keeps_bindE steps.keeps_monitors steps.keeps_throw)
  next
    case False
    then show ?thesis unfolding reconcile_answer_def Inr
      by (simp add: erased_if_def steps.keeps_reconcile_for_resubmission step_with_allows)
  qed
qed

lemma worker_run_refl: "worker_run sdk h i (t, L) (t, L)"
  using worker_run.idle [of i t t "[]" sdk h L] by (simp add: steps.rows_refl)

lemma reconcile_run:
  fixes s s' :: "'z tss_state_scheme"
  assumes run: "reconcileSubmittedTransaction eng h s = (r, s')" and i: "tx_id (job_tx s) = i"
    and x: "tx_stellar_transaction_hash (job_tx s) = Some x" "hash_is i (Some x) (submitter_transactions s)"
  shows "worker_run (eng_sdk eng) h i (submitter_transactions s, tss_log s) (submitter_transactions s', tss_log s')"
  using run unfolding reconcileSubmittedTransaction_def
proof (cases rule: bindE_cases)
  case (err e)
  then obtain y where "validateJob eng s = (y, s')" by (elim wrapE_cases) auto
  from keepsD [OF keeps_validateJob_same this] show ?thesis by (simp add: same_job_def worker_run_refl)
next
  case (ok u s1)
  then have s1: "same_job s s1" by (intro keepsD [OF keeps_validateJob_same]) (auto elim: wrapE_cases)
  let ?d = "Horizon_TransactionDetail eng (tss_calls s1) x"
  let ?s = "s1\<lparr>tss_calls := Suc (tss_calls s1), tss_log := tss_log s1 @ [EvDetail i x ?d]\<rparr>"
  have job: "job_tx s1 = job_tx s" using s1 by (simp add: same_job_def job_tx_def)
  with ok(2) i x(1) have "reconcile_answer eng h ?d ?s = (r, s')"
    by (simp add: with_tx_def net_call_def bindE_def log_event_def modifyE_def nullable_def reconcile_answer_def)
  from job_rel_elim [OF keeps_reconcile_answer this] job i obtain evs where
    "tss_log s' = tss_log ?s @ evs" and evs: "list_all (quiet_event i) evs" and
    t: "list_all2 (step_with i (detail_successful ?d) (erased_if (detail_gone (eng_sdk eng) ?d)))
       (submitter_transactions ?s) (submitter_transactions s')" by (metis job_tx_simps(6,7))
  with worker_run.asked [OF x(2) _ evs, of ?d "eng_sdk eng" "submitter_transactions s'" h "tss_log s"] s1
  show ?thesis by (simp add: same_job_def)
qed

lemma runJob_run:
  fixes s s' :: "'z tss_state_scheme"
  assumes run: "runJob eng h s = (r, s')" and i: "tx_id (job_tx s) = i"
    and x: "hash_is i (tx_stellar_transaction_hash (job_tx s)) (submitter_transactions s)"
  shows "worker_run (eng_sdk eng) h i (submitter_transactions s, tss_log s) (submitter_transactions s', tss_log s')"
  using run unfolding runJob_def
proof (cases rule: bindE_cases)
  case (err e)
  then obtain y where "validateJob eng s = (y, s')" by (elim wrapE_cases) auto
  from keepsD [OF keeps_validateJob_same this] show ?thesis by (simp add: same_job_def worker_run_refl)
next
  case (ok u s1)
  then have "same_job s s1" by (intro keepsD [OF keeps_validateJob_same]) (auto elim: wrapE_cases)
  then have s1: "job_tx s1 = job_tx s" "submitter_transactions s1 = submitter_transactions s" "tss_log s1 = tss_log s"
    by (simp_all add: same_job_def job_tx_def)
  show ?thesis
  proof (cases "tx_stellar_transaction_hash (job_tx s)")
    case None
    with ok(2) s1 process_run [of eng h s1 r s' i] i x show ?thesis by (simp add: with_tx_def)
  next
    case (Some y)
    with ok(2) s1 reconcile_run [of eng h s1 r s' i y] i x show ?thesis by (simp add: with_tx_def)
  qed
qed

lemma worker_run_crash:
  assumes "worker_run sdk h i (t, L) (t', L')"
  shows "worker_run sdk h i (t, L) (t', L' @ [EvCrashReport e m])"
  using assms
proof cases
  case (idle evs)
  then show ?thesis using worker_run.idle [of i t t' "evs @ [EvCrashReport e m]"] by simp
next
  case (not_submitted evs)
  then show ?thesis using worker_run.not_submitted [of i t t' "evs @ [EvCrashReport e m]"] by simp
next
  case (submitted t1 before x ans after)
  then show ?thesis
    using worker_run.submitted [of i t t1 before x ans sdk h t' "after @ [EvCrashReport e m]"] by simp
next
  case (asked x d evs)
  then show ?thesis using worker_run.asked [of i x t d sdk t' "evs @ [EvCrashReport e m]"] by simp
qed

lemma Run_refines:
  fixes s s' :: "'z tss_state_scheme"
  assumes run: "Run eng h job s = (r, s')"
    and x: "hash_is (tx_id (cb_transaction job)) (tx_stellar_transaction_hash (cb_transaction job)) (submitter_transactions s)"
  shows "worker_run (eng_sdk eng) h (tx_id (cb_transaction job)) (submitter_transactions s, tss_log s) (submitter_transactions s', tss_log s')"
proof -
  let ?s = "s\<lparr>w_job := job\<rparr>"
  obtain y s1 where run1: "runJob eng h ?s = (y, s1)" by fastforce
  from runJob_run [OF this refl] x
  have "worker_run (eng_sdk eng) h (tx_id (cb_transaction job)) (submitter_transactions s, tss_log s) (submitter_transactions s1, tss_log s1)"
    by simp
  moreover have "submitter_transactions s' = submitter_transactions s1 \<and>
     (tss_log s' = tss_log s1 \<or> (\<exists>e m. tss_log s' = tss_log s1 @ [EvCrashReport e m]))"
    using run run1
    by (cases y) (auto simp: Run_def bindE_def modifyE_def handleE_def LogAndReportErrors_def log_event_def ret_def)
  ultimately show ?thesis by (auto intro: worker_run_crash)
qed

end
