(* ===== verification/Tx_Service.thy ===== *)
theory Tx_Service
  imports Tx_Worker_Spec
begin

text \<open>
  The transaction submission service as a state machine: insertion of transactions and channel
  accounts, ticks of the manager, the synchronisation, and an environment that moves the clock, breaks the
  database and holds rows. Invariants of every reachable state, proved over the specification
  \<open>worker_run\<close>: what was submitted is recorded, no payment is submitted again while an earlier envelope
  may still succeed, and a successful transaction is one that Horizon confirmed.
\<close>

section \<open>What the log says about a transaction\<close>

text \<open>The envelope of \<open>i\<close> that may still succeed: the last one submitted, unless it was refused because
  of an archived entry, or Horizon answered that it does not know the hash or that it failed.\<close>

definition pending_step :: "stellar_sdk \<Rightarrow> string \<Rightarrow> string option \<Rightarrow> event \<Rightarrow> string option" where
  "pending_step sdk i p ev = (case ev of
       EvSubmit j x ans \<Rightarrow> if j = i then (if answer_archived sdk ans then None else Some x) else p
     | EvDetail j x d \<Rightarrow> if j = i \<and> p = Some x \<and> detail_gone sdk d then None else p
     | _ \<Rightarrow> p)"

definition pending :: "stellar_sdk \<Rightarrow> string \<Rightarrow> event list \<Rightarrow> string option" where
  "pending sdk i L = foldl (pending_step sdk i) None L"

text \<open>No envelope of \<open>i\<close> is submitted while another one is pending.\<close>

fun never_resubmitted :: "stellar_sdk \<Rightarrow> string \<Rightarrow> string option \<Rightarrow> event list \<Rightarrow> bool" where
  "never_resubmitted sdk i p [] = True"
| "never_resubmitted sdk i p (ev # L) =
     ((case ev of EvSubmit j x ans \<Rightarrow> j = i \<longrightarrow> p = None | _ \<Rightarrow> True) \<and> never_resubmitted sdk i (pending_step sdk i p ev) L)"

fun confirms :: "string \<Rightarrow> string \<Rightarrow> event \<Rightarrow> bool" where
  "confirms i x (EvSubmit j y ans) = (j = i \<and> y = x \<and> answer_successful ans)"
| "confirms i x (EvDetail j y d) = (j = i \<and> y = x \<and> detail_successful d)"
| "confirms i x _ = False"

fun about :: "string \<Rightarrow> event \<Rightarrow> bool" where
  "about i (EvSubmit j x ans) = (j = i)"
| "about i (EvDetail j x d) = (j = i)"
| "about i _ = False"

lemma pending_append: "pending sdk i (L @ M) = foldl (pending_step sdk i) (pending sdk i L) M"
  by (simp add: pending_def)

lemma never_resubmitted_append:
  "never_resubmitted sdk i p (L @ M) \<longleftrightarrow>
     never_resubmitted sdk i p L \<and> never_resubmitted sdk i (foldl (pending_step sdk i) p L) M"
  by (induction L arbitrary: p) auto

lemma not_about_irrelevant:
  assumes "list_all (\<lambda>ev. \<not> about i ev) M"
  shows "foldl (pending_step sdk i) p M = p" and "never_resubmitted sdk i p M"
proof -
  have step: "pending_step sdk i p ev = p" if "\<not> about i ev" for ev p
    using that by (cases ev) (auto simp: pending_step_def)
  show "foldl (pending_step sdk i) p M = p"
    using assms by (induction M) (auto simp: step)
  show "never_resubmitted sdk i p M"
    using assms by (induction M) (auto simp: step split: event.splits)
qed

lemma quiet_not_about: "quiet_event j ev \<Longrightarrow> \<not> about i ev"
  by (cases ev) auto

lemma quiet_not_about_list: "list_all (quiet_event j) M \<Longrightarrow> list_all (\<lambda>ev. \<not> about i ev) M"
  by (auto simp: list_all_iff dest: quiet_not_about)

lemmas quiet_irrelevant [simp] = not_about_irrelevant [OF quiet_not_about_list]

section \<open>The invariant\<close>

text \<open>Payments and sponsored transactions keep their envelope on a retry; a wallet creation is rebuilt.\<close>

definition keeps_envelope :: "Transaction \<Rightarrow> bool" where
  "keeps_envelope r \<longleftrightarrow> tx_type r \<noteq> TransactionTypeWalletCreation"

definition submissions_recorded :: "Transaction list \<Rightarrow> event list \<Rightarrow> bool" where
  "submissions_recorded t L \<longleftrightarrow> (\<forall>j x ans. EvSubmit j x ans \<in> set L \<longrightarrow> hash_recorded j x t)"

definition row_settled :: "stellar_sdk \<Rightarrow> event list \<Rightarrow> Transaction \<Rightarrow> bool" where
  "row_settled sdk L r \<longleftrightarrow>
     (keeps_envelope r \<longrightarrow>
        pending sdk (tx_id r) L \<in> {None, tx_stellar_transaction_hash r} \<and> never_resubmitted sdk (tx_id r) None L) \<and>
     (tx_status r = TransactionStatusSuccess \<longrightarrow>
        (\<exists>x. tx_stellar_transaction_hash r = Some x \<and> list_ex (confirms (tx_id r) x) L))"

definition service_inv :: "stellar_sdk \<Rightarrow> Transaction list \<Rightarrow> event list \<Rightarrow> bool" where
  "service_inv sdk t L \<longleftrightarrow> submissions_recorded t L \<and> list_all (row_settled sdk L) t"

text \<open>How rows change outside a worker, and in the rows of others: the payload, the history and the hash
  stay, and no row becomes successful.\<close>

definition calm_step :: "(Transaction \<Rightarrow> bool) \<Rightarrow> Transaction \<Rightarrow> Transaction \<Rightarrow> bool" where
  "calm_step Q r r' \<longleftrightarrow> row_le r r' \<and> tx_stellar_transaction_hash r' = tx_stellar_transaction_hash r \<and>
     (tx_status r' = TransactionStatusSuccess \<longrightarrow> tx_status r = TransactionStatusSuccess) \<and> (r' = r \<or> Q r)"

lemma list_all2_back: "list_all2 P t t' \<Longrightarrow> r' \<in> set t' \<Longrightarrow> \<exists>r \<in> set t. P r r'"
  by (induction rule: list_all2_induct) auto

lemma hash_recorded_le:
  assumes "list_all2 P t t'" and "\<And>r r'. P r r' \<Longrightarrow> row_le r r'" and "hash_recorded j x t"
  shows "hash_recorded j x t'"
proof -
  from assms(3) obtain r where r: "r \<in> set t" "tx_id r = j" "x \<in> he_stellar_transaction_hash ` set (tx_status_history r)"
    by (auto simp: hash_recorded_def)
  from list_all2_le_exists [OF assms(1) r(1)] obtain r' where "r' \<in> set t'" "row_le r r'"
    using assms(2) by blast
  with r show ?thesis by (auto simp: hash_recorded_def row_le_def)
qed

lemma row_settled_calm:
  assumes "calm_step Q r r'" and "row_settled sdk L r" and "list_all (\<lambda>ev. \<not> about (tx_id r) ev) M"
  shows "row_settled sdk (L @ M) r'"
  using assms
  by (auto simp: row_settled_def calm_step_def row_le_def keeps_envelope_def pending_append
      never_resubmitted_append not_about_irrelevant pending_def)

lemma service_inv_calm:
  assumes "list_all2 (calm_step Q) t t'" and "list_all (\<lambda>ev. \<forall>i. \<not> about i ev) M" and "service_inv sdk t L"
  shows "service_inv sdk t' (L @ M)"
proof -
  have "EvSubmit j x ans \<notin> set M" for j x ans
    using assms(2) by (auto simp: list_all_iff)
  then have "submissions_recorded t' (L @ M)"
    using assms(1,3) hash_recorded_le [OF assms(1)]
    by (auto simp: service_inv_def submissions_recorded_def calm_step_def)
  moreover have "row_settled sdk (L @ M) r'" if "r' \<in> set t'" for r'
  proof -
    from list_all2_back [OF assms(1) that] obtain r where "r \<in> set t" "calm_step Q r r'" by blast
    moreover have "list_all (\<lambda>ev. \<not> about (tx_id r) ev) M" using assms(2) by (auto simp: list_all_iff)
    ultimately show ?thesis using assms(3) by (auto simp: service_inv_def list_all_iff intro: row_settled_calm)
  qed
  ultimately show ?thesis by (simp add: service_inv_def list_all_iff)
qed

section \<open>A worker keeps the invariant\<close>

text \<open>What a worker starts from: its row is not yet successful, and only a wallet creation is rebuilt.\<close>

definition startable :: "handler \<Rightarrow> string \<Rightarrow> Transaction list \<Rightarrow> bool" where
  "startable h i t \<longleftrightarrow> (\<forall>r \<in> set t. tx_id r = i \<longrightarrow>
     tx_status r \<noteq> TransactionStatusSuccess \<and> (RequiresRebuildOnRetry h \<longrightarrow> \<not> keeps_envelope r))"

lemma step_with_calm: "step_with i False {} r r' \<Longrightarrow> calm_step (\<lambda>r. tx_id r = i) r r'"
  by (auto simp: step_with_def calm_step_def)

lemma settled_other:
  assumes "row_settled sdk L r" and "list_all (\<lambda>ev. \<not> about (tx_id r) ev) M"
  shows "row_settled sdk (L @ M) r"
  using row_settled_calm [of "\<lambda>_. True" r r] assms by (simp add: calm_step_def)

lemma settled_submitted:
  assumes "row_settled sdk L r" and "tx_id r = i" and "tx_stellar_transaction_hash r = None"
    and "tx_status r \<noteq> TransactionStatusSuccess"
    and "step_with i False UNIV r r1" and "tx_stellar_transaction_hash r1 = Some x"
    and "step_with i (answer_successful ans) (erased_if (may_erase sdk h ans)) r1 r'"
    and "RequiresRebuildOnRetry h \<longrightarrow> \<not> keeps_envelope r"
    and "list_all (quiet_event i) before" and "list_all (quiet_event i) after"
  shows "row_settled sdk (L @ before @ [EvSubmit i x ans] @ after) r'"
proof -
  let ?L = "L @ before @ [EvSubmit i x ans] @ after"
  from assms(5,7) have le: "row_le r r1" "row_le r1 r'" by (simp_all add: step_with_def)
  with assms(2) have id: "tx_id r' = i" and env: "keeps_envelope r' = keeps_envelope r"
    by (simp_all add: row_le_def keeps_envelope_def)
  have hash: "tx_stellar_transaction_hash r' = Some x \<or> may_erase sdk h ans \<and> tx_stellar_transaction_hash r' = None"
    using assms(6,7) by (auto simp: step_with_def erased_if_def split: if_splits)
  have "pending sdk i ?L \<in> {None, tx_stellar_transaction_hash r'}" and "never_resubmitted sdk i None ?L" if "keeps_envelope r"
  proof -
    have none: "pending sdk i L = None" and safe: "never_resubmitted sdk i None L"
      using assms(1-3) that by (auto simp: row_settled_def)
    have "may_erase sdk h ans = answer_archived sdk ans"
      using assms(8) that by (simp add: may_erase_def)
    with hash assms(9,10) none show "pending sdk i ?L \<in> {None, tx_stellar_transaction_hash r'}"
      by (auto simp: pending_append pending_step_def)
    show "never_resubmitted sdk i None ?L"
      using safe none [unfolded pending_def] assms(9,10) by (simp add: never_resubmitted_append)
  qed
  moreover have "tx_stellar_transaction_hash r' = Some x \<and> list_ex (confirms i x) ?L" if "tx_status r' = TransactionStatusSuccess"
  proof -
    from that assms(4,5,7) have "answer_successful ans" by (auto simp: step_with_def)
    moreover from this have "\<not> may_erase sdk h ans" by (cases ans) (auto simp: may_erase_def)
    ultimately show ?thesis using hash by simp
  qed
  ultimately show ?thesis by (auto simp: row_settled_def id env)
qed

lemma settled_asked:
  assumes "row_settled sdk L r" and "tx_id r = i" and "tx_stellar_transaction_hash r = Some x"
    and "tx_status r \<noteq> TransactionStatusSuccess"
    and "step_with i (detail_successful d) (erased_if (detail_gone sdk d)) r r'"
    and "list_all (quiet_event i) evs"
  shows "row_settled sdk (L @ [EvDetail i x d] @ evs) r'"
proof -
  let ?L = "L @ [EvDetail i x d] @ evs"
  from assms(2,5) have id: "tx_id r' = i" and env: "keeps_envelope r' = keeps_envelope r"
    by (simp_all add: step_with_def row_le_def keeps_envelope_def)
  have hash: "tx_stellar_transaction_hash r' = Some x \<or> detail_gone sdk d \<and> tx_stellar_transaction_hash r' = None"
    using assms(3,5) by (auto simp: step_with_def erased_if_def split: if_splits)
  have "pending sdk i ?L \<in> {None, tx_stellar_transaction_hash r'}" and "never_resubmitted sdk i None ?L" if "keeps_envelope r"
  proof -
    have p: "pending sdk i L \<in> {None, Some x}" and safe: "never_resubmitted sdk i None L"
      using assms(1-3) that by (auto simp: row_settled_def)
    with hash assms(6) show "pending sdk i ?L \<in> {None, tx_stellar_transaction_hash r'}"
      by (auto simp: pending_append pending_step_def)
    show "never_resubmitted sdk i None ?L"
      using safe assms(6) by (simp add: never_resubmitted_append)
  qed
  moreover have "tx_stellar_transaction_hash r' = Some x \<and> list_ex (confirms i x) ?L" if "tx_status r' = TransactionStatusSuccess"
  proof -
    from that assms(4,5) have "detail_successful d" by (auto simp: step_with_def)
    moreover from this have "\<not> detail_gone sdk d" by (cases d) auto
    ultimately show ?thesis using hash by simp
  qed
  ultimately show ?thesis by (auto simp: row_settled_def id env)
qed

lemma list_all2_trans_back:
  assumes "list_all2 P t t1" and "list_all2 Q t1 t'" and "r' \<in> set t'"
  obtains r r1 where "r \<in> set t" and "r1 \<in> set t1" and "P r r1" and "Q r1 r'"
  using list_all2_back [OF assms(2,3)] list_all2_back [OF assms(1)] that by blast

lemma worker_run_inv:
  assumes "worker_run sdk h i (t, L) (t', L')" and "startable h i t" and "service_inv sdk t L"
  shows "service_inv sdk t' L'"
  using assms(1)
proof cases
  case (idle evs)
  from idle(2) have "list_all2 (calm_step (\<lambda>r. tx_id r = i)) t t'"
    by (rule list_all2_mono) (rule step_with_calm)
  moreover have "list_all (\<lambda>ev. \<forall>j. \<not> about j ev) evs"
    using idle(3) quiet_not_about by (fastforce simp: list_all_iff)
  ultimately show ?thesis using service_inv_calm assms(3) unfolding idle(1) by blast
next
  case (not_submitted evs)
  have "submissions_recorded t' L'"
    using assms(3) not_submitted(4) hash_recorded_le [OF not_submitted(3)] quiet_not_about
    unfolding not_submitted(1) service_inv_def submissions_recorded_def
    by (fastforce simp: list_all_iff step_with_def)
  moreover have "row_settled sdk L' r'" if "r' \<in> set t'" for r'
  proof -
    from list_all2_back [OF not_submitted(3) that] obtain r where r: "r \<in> set t" "step_with i False UNIV r r'" by blast
    with assms(3) have old: "row_settled sdk L r" by (simp add: service_inv_def list_all_iff)
    show ?thesis
    proof (cases "tx_id r = i")
      case False
      with r(2) have "r' = r" by (simp add: step_with_def)
      with old not_submitted(1,4) show ?thesis by (auto intro: settled_other quiet_not_about_list)
    next
      case True
      with not_submitted(2) r assms(2) have "tx_stellar_transaction_hash r = None" "tx_status r \<noteq> TransactionStatusSuccess"
        by (simp_all add: hash_is_def startable_def)
      with old r(2) True not_submitted(4) show ?thesis unfolding not_submitted(1)
        by (auto simp: row_settled_def step_with_def row_le_def keeps_envelope_def pending_append never_resubmitted_append)
    qed
  qed
  ultimately show ?thesis by (simp add: service_inv_def list_all_iff)
next
  case (submitted t1 before x ans after)
  have "hash_recorded j y t'" if "EvSubmit j y a \<in> set L'" for j y a
  proof -
    have later: "hash_recorded j y t1 \<Longrightarrow> hash_recorded j y t'"
      by (rule hash_recorded_le [OF submitted(7)]) (simp add: step_with_def)
    have earlier: "hash_recorded j y t \<Longrightarrow> hash_recorded j y t1"
      by (rule hash_recorded_le [OF submitted(3)]) (simp add: step_with_def)
    from that submitted(4,8) consider "EvSubmit j y a \<in> set L" | "j = i" "y = x"
      unfolding submitted(1) by (auto simp: list_all_iff)
    then have "hash_recorded j y t1"
      using assms(3) submitted(6) earlier unfolding service_inv_def submissions_recorded_def by metis
    then show ?thesis by (rule later)
  qed
  then have "submissions_recorded t' L'" by (simp add: submissions_recorded_def)
  moreover have "row_settled sdk L' r'" if "r' \<in> set t'" for r'
  proof -
    from list_all2_trans_back [OF submitted(3,7) that] obtain r r1 where
      r: "r \<in> set t" "r1 \<in> set t1" "step_with i False UNIV r r1"
      "step_with i (answer_successful ans) (erased_if (may_erase sdk h ans)) r1 r'" .
    with assms(3) have old: "row_settled sdk L r" by (simp add: service_inv_def list_all_iff)
    show ?thesis
    proof (cases "tx_id r = i")
      case False
      with r(3,4) have "r' = r" by (auto simp: step_with_def)
      with old False show ?thesis unfolding submitted(1)
        by (simp add: settled_other quiet_not_about_list [OF submitted(4)] quiet_not_about_list [OF submitted(8)])
    next
      case True
      with r(3) have "tx_id r1 = i" by (simp add: step_with_def row_le_def)
      with True r submitted(2,5) assms(2) show ?thesis unfolding submitted(1)
        by (intro settled_submitted [OF old True _ _ r(3) _ r(4)] submitted(4,8)) (auto simp: hash_is_def startable_def)
    qed
  qed
  ultimately show ?thesis by (simp add: service_inv_def list_all_iff)
next
  case (asked x d evs)
  have "submissions_recorded t' L'"
    using assms(3) asked(4) hash_recorded_le [OF asked(3)] quiet_not_about
    unfolding asked(1) service_inv_def submissions_recorded_def
    by (fastforce simp: list_all_iff step_with_def)
  moreover have "row_settled sdk L' r'" if "r' \<in> set t'" for r'
  proof -
    from list_all2_back [OF asked(3) that] obtain r where
      r: "r \<in> set t" "step_with i (detail_successful d) (erased_if (detail_gone sdk d)) r r'" by blast
    with assms(3) have old: "row_settled sdk L r" by (simp add: service_inv_def list_all_iff)
    show ?thesis
    proof (cases "tx_id r = i")
      case False
      with r(2) have "r' = r" by (simp add: step_with_def)
      with old False show ?thesis unfolding asked(1)
        by (simp add: settled_other quiet_not_about_list [OF asked(4)])
    next
      case True
      with r asked(2) assms(2) show ?thesis unfolding asked(1)
        by (intro settled_asked [OF old True _ _ r(2)] asked(4)) (auto simp: hash_is_def startable_def)
    qed
  qed
  ultimately show ?thesis by (simp add: service_inv_def list_all_iff)
qed

section \<open>Steps outside the workers\<close>

definition calm_rel :: "(Transaction \<Rightarrow> bool) \<Rightarrow> 'z tss_state_scheme \<Rightarrow> 'z tss_state_scheme \<Rightarrow> bool" where
  "calm_rel Q s s' \<longleftrightarrow> list_all2 (calm_step Q) (submitter_transactions s) (submitter_transactions s') \<and>
     tss_log s' = tss_log s \<and> (tss_db_ok s \<longrightarrow> tss_db_ok s')"

lemma calm_step_refl: "calm_step Q r r"
  by (simp add: calm_step_def)

lemma calm_step_trans: "calm_step Q a b \<Longrightarrow> calm_step Q b c \<Longrightarrow> calm_step Q a c"
  unfolding calm_step_def by (metis row_le_trans)

lemma calm_rows_refl: "list_all2 (calm_step Q) t t"
  by (simp add: list_all2_refl calm_step_refl)

lemma calm_rows_trans: "list_all2 (calm_step Q) a b \<Longrightarrow> list_all2 (calm_step Q) b c \<Longrightarrow> list_all2 (calm_step Q) a c"
  by (rule list_all2_trans [of "calm_step Q" "calm_step Q"]) (rule calm_step_trans)

interpretation calm: tx_update_relation "calm_rel Q" "calm_step Q" for Q
proof
  fix s t u :: "'a tss_state_scheme"
  show "calm_rel Q s s" by (simp add: calm_rel_def calm_rows_refl)
  show "calm_rel Q s t \<Longrightarrow> calm_rel Q t u \<Longrightarrow> calm_rel Q s u"
    unfolding calm_rel_def using calm_rows_trans by metis
qed (auto simp: calm_rel_def calm_rows_refl calm_step_refl tss_db_ok_def, auto simp: tss_rollback_def calm_rows_refl)

interpretation calm_ca: ca_relation "calm_rel Q" for Q
  by unfold_locales (auto simp: calm_rel_def calm_rows_refl tss_db_ok_def)

interpretation calm_load: bundle_relation "calm_rel (tx_lockable (int32 c))" "calm_step (tx_lockable (int32 c))" c for c
  by unfold_locales (auto simp: calm_step_def row_le_def set_defs transaction_status_defs)

lemma calm_rel_same: "same_job s s' \<Longrightarrow> calm_rel Q s s'"
  by (simp add: calm_rel_def same_job_def calm_rows_refl tss_db_ok_def)

lemma keeps_GetLedgerNumber_same: "keeps same_job (GetLedgerNumber sdk Root)"
  by (rule keepsI, erule GetLedgerNumber_cases) (auto simp: same_job_def)

lemma LimitValue_same: "LimitValue s = (r, s') \<Longrightarrow> same_job s s' \<and> \<not> isl r"
  by (auto simp: LimitValue_def same_job_def split: prod.splits)

definition syncable :: "Transaction \<Rightarrow> bool" where
  "syncable r \<longleftrightarrow> tx_status r \<in> {TransactionStatusSuccess, TransactionStatusError}"

lemma keeps_UpdateSynced_calm: "keeps (calm_rel syncable) (TransactionModel_UpdateSyncedTransactions is)"
  unfolding TransactionModel_UpdateSyncedTransactions_def
  by (intro keeps_if calm.keeps_throw calm.keeps_ret calm.keeps_bindE calm.keeps_wrapE calm.keeps_tx_update_exec)
    (auto simp: calm_step_def row_le_def set_defs syncable_def)

section \<open>A tick of the manager\<close>

text \<open>What loading the bundles does: nothing at all, or, at the ledger the tracker answered, locking free rows.\<close>

definition jobs_ready :: "Transaction list \<Rightarrow> ChannelTransactionBundle list \<Rightarrow> bool" where
  "jobs_ready t jobs \<longleftrightarrow> distinct (map (\<lambda>b. tx_id (cb_transaction b)) jobs) \<and>
     list_all (\<lambda>b. cb_transaction b \<in> set t \<and> tx_status (cb_transaction b) = TransactionStatusProcessing) jobs"

lemma loaded_bundle_row:
  assumes "loaded c n l s bs s'" and "b \<in> set bs"
  obtains r where "r \<in> set (submitter_transactions s)" and "tx_id r = tx_id (cb_transaction b)"
    and "tx_lockable (int32 c) r" and "cb_transaction b = tx_lock_row (int32 n) (conn_now s) r"
    and "cb_transaction b \<in> set (submitter_transactions s')"
proof -
  let ?ids = "set (map (\<lambda>p. tx_id (snd p)) (picked_pairs c l s))"
  from assms(1) have all: "list_all2 (bundle_of c n s (conn_now s)) (picked_pairs c l s) bs"
    and st: "submitter_transactions s' = on_ids ?ids (tx_lock_row (int32 n) (conn_now s)) (submitter_transactions s)"
    by (simp_all add: loaded_def Let_def)
  from all assms(2) obtain p where p: "p \<in> set (picked_pairs c l s)" and b: "bundle_of c n s (conn_now s) p b"
    by (metis in_set_conv_nth list_all2_conv_all_nth)
  then obtain r where r: "r \<in> set (submitter_transactions s)" "tx_id r = tx_id (snd p)" "tx_lockable (int32 c) r"
      "cb_transaction b = tx_lock_row (int32 n) (conn_now s) r" by (auto simp: bundle_of_def)
  with p have "tx_id r \<in> ?ids" by auto
  then have "cb_transaction b \<in> set (submitter_transactions s')"
    using r(1,4) unfolding st on_ids_def by (simp add: rev_image_eqI)
  with r that show ?thesis by (metis lock_row_id(1))
qed

lemma set_locked_status: "tx_status (tx_lock_row n now r) = TransactionStatusProcessing"
  by (simp add: set_defs)

lemma loaded_jobs_ready:
  assumes "loaded c n l s bs s'" and "tss_db_ok s"
  shows "jobs_ready (submitter_transactions s') bs"
    and "list_all (\<lambda>b. \<exists>r \<in> set (submitter_transactions s). tx_id r = tx_id (cb_transaction b) \<and> tx_lockable (int32 c) r) bs"
proof -
  have "cb_transaction b \<in> set (submitter_transactions s') \<and> tx_status (cb_transaction b) = TransactionStatusProcessing \<and>
     (\<exists>r \<in> set (submitter_transactions s). tx_id r = tx_id (cb_transaction b) \<and> tx_lockable (int32 c) r)" if "b \<in> set bs" for b
    by (rule loaded_bundle_row [OF assms(1) that]) (metis (no_types, lifting) set_locked_status)
  then show "jobs_ready (submitter_transactions s') bs"
    and "list_all (\<lambda>b. \<exists>r \<in> set (submitter_transactions s). tx_id r = tx_id (cb_transaction b) \<and> tx_lockable (int32 c) r) bs"
    by (simp_all add: jobs_ready_def list_all_iff loaded_bundles [OF assms(1)] picked_pairs_distinct [OF assms(2)])
qed

lemma load_cases:
  fixes s s' :: "'z tss_state_scheme"
  assumes "loadReadyForProcessingBundles eng s = (x, s')"
  obtains (no_ledger) "same_job s s'" and "isl x" and "isl (fst (GetLedgerNumber (eng_sdk eng) (Horizon_Root eng) s))"
  | (loaded) c s1 s2 l y where "GetLedgerNumber (eng_sdk eng) (Horizon_Root eng) s = (Inr c, s1)" and "same_job s s2"
      and "ChannelTransactionBundleModel_LoadAndLockTuples c (c + IncrementForMaxLedgerBounds) l s2 = (y, s')"
      and "\<And>bs. x = Inr bs \<Longrightarrow> y = Inr bs" and "calm_rel (tx_lockable (int32 c)) s s'"
  using assms unfolding loadReadyForProcessingBundles_def
proof (cases rule: bindE_cases)
  case (err e)
  then obtain y where y: "GetLedgerNumber (eng_sdk eng) (Horizon_Root eng) s = (Inl y, s')" by (auto elim: wrapE_cases)
  with keepsD [OF keeps_GetLedgerNumber_same this] err(2) show ?thesis by (intro no_ledger) auto
next
  case (ok c s1)
  then have c: "GetLedgerNumber (eng_sdk eng) (Horizon_Root eng) s = (Inr c, s1)" by (auto elim: wrapE_cases)
  then have same1: "same_job s s1" by (rule keepsD [OF keeps_GetLedgerNumber_same])
  obtain z s2 where z: "LimitValue s1 = (z, s2)" by fastforce
  with LimitValue_same [OF z] obtain l where l: "z = Inr l" and "same_job s1 s2" by (cases z) auto
  with same1 have same: "same_job s s2" by (auto simp: same_job_def)
  from ok(2) z l obtain y where y: "ChannelTransactionBundleModel_LoadAndLockTuples c (c + IncrementForMaxLedgerBounds) l s2 = (y, s')"
    and xy: "\<And>bs. x = Inr bs \<Longrightarrow> y = Inr bs"
    by (auto simp: bindE_def elim!: wrapE_cases)
  have "calm_rel (tx_lockable (int32 c)) s2 s'"
    by (rule keepsD [OF calm_load.keeps_LoadAndLockTuples y])
  with calm_rel_same [OF same] have "calm_rel (tx_lockable (int32 c)) s s'" by (rule calm.R_trans)
  with c same y xy show ?thesis by (rule loaded)
qed

text \<open>One bundle, then all of them in turn.\<close>

definition frame_step :: "string set \<Rightarrow> Transaction \<Rightarrow> Transaction \<Rightarrow> bool" where
  "frame_step I r r' \<longleftrightarrow> row_le r r' \<and> (tx_id r \<notin> I \<longrightarrow> r' = r)"

lemma frame_step_trans: "frame_step I a b \<Longrightarrow> frame_step J b c \<Longrightarrow> frame_step (I \<union> J) a c"
  unfolding frame_step_def row_le_def by auto

lemma frame_rows_trans:
  "list_all2 (frame_step I) a b \<Longrightarrow> list_all2 (frame_step J) b c \<Longrightarrow> list_all2 (frame_step (I \<union> J)) a c"
  by (rule list_all2_trans [of "frame_step I" "frame_step J"]) (auto intro: frame_step_trans)

lemma frame_rows_refl: "list_all2 (frame_step I) t t"
  by (simp add: list_all2_refl frame_step_def)

lemma frame_ids: "list_all2 (frame_step I) t t' \<Longrightarrow> map tx_id t' = map tx_id t"
  by (induction rule: list_all2_induct) (auto simp: frame_step_def row_le_def)

lemma worker_run_frame:
  assumes "worker_run sdk h i (t, L) (t', L')"
  shows "list_all2 (frame_step {i}) t t'"
proof -
  have step: "list_all2 (step_with i succ hs) a b \<Longrightarrow> list_all2 (frame_step {i}) a b" for succ hs a b
    by (erule list_all2_mono) (simp add: step_with_def frame_step_def)
  from assms show ?thesis
  proof cases
    case (submitted t1 before x ans after)
    from frame_rows_trans [OF step [OF submitted(3)] step [OF submitted(7)]] show ?thesis by simp
  qed (rule step, assumption)+
qed

lemma GetTransactionHandler_rebuild:
  "GetTransactionHandler eng tx = Inr h \<Longrightarrow> RequiresRebuildOnRetry h \<Longrightarrow> tx_type tx = TransactionTypeWalletCreation"
  by (auto simp: GetTransactionHandler_def split: if_splits)

interpretation anything: job_relation i "\<lambda>_ _. True" "\<lambda>_. True" for i
  by unfold_locales (simp_all add: row_allows_def)

lemma keeps_Run_ok:
  fixes s s' :: "'z tss_state_scheme"
  assumes run: "Run eng h job s = (r, s')" and ok: "tss_db_ok s"
  shows "tss_db_ok s'"
proof -
  obtain y s1 where run1: "runJob eng h (s\<lparr>w_job := job\<rparr>) = (y, s1)" by fastforce
  have "keeps (job_rel (tx_id (cb_transaction job)) (\<lambda>_ _. True) (\<lambda>_. True)) (runJob eng h)"
    by (rule anything.keeps_runJob) (simp_all add: row_allows_def)
  from keepsD [OF this run1] ok have "tss_db_ok s1" by (simp add: job_rel_def)
  with run run1 show ?thesis
    by (cases y) (auto simp: Run_def bindE_def modifyE_def handleE_def LogAndReportErrors_def log_event_def ret_def)
qed

lemma run_bundle_run:
  fixes s s' :: "'z tss_state_scheme"
  assumes run: "run_bundle eng job s = (r, s')"
    and x: "hash_is (tx_id (cb_transaction job)) (tx_stellar_transaction_hash (cb_transaction job)) (submitter_transactions s)"
    and ok: "tss_db_ok s"
  obtains h where "worker_run (eng_sdk eng) h (tx_id (cb_transaction job)) (submitter_transactions s, tss_log s) (submitter_transactions s', tss_log s')"
    and "RequiresRebuildOnRetry h \<Longrightarrow> tx_type (cb_transaction job) = TransactionTypeWalletCreation"
    and "tss_db_ok s'"
proof (cases "GetTransactionHandler eng (cb_transaction job)")
  case (Inl e)
  with run worker_run_crash [OF worker_run_refl] ok show ?thesis
    by (intro that [of PaymentTransactionHandler])
      (auto simp: run_bundle_def LogAndReportErrors_def log_event_def modifyE_def)
next
  case (Inr h)
  with run have "Run eng h job s = (r, s')" by (simp add: run_bundle_def)
  from that [OF Run_refines [OF this x] _ keeps_Run_ok [OF this ok]] Inr show ?thesis
    by (blast intro: GetTransactionHandler_rebuild)
qed

lemma jobs_ready_first:
  assumes "jobs_ready t (job # jobs)" and "distinct (map tx_id t)"
  shows "hash_is (tx_id (cb_transaction job)) (tx_stellar_transaction_hash (cb_transaction job)) t"
    and "(RequiresRebuildOnRetry h \<Longrightarrow> tx_type (cb_transaction job) = TransactionTypeWalletCreation) \<Longrightarrow>
      startable h (tx_id (cb_transaction job)) t"
proof -
  have row: "r = cb_transaction job" if "r \<in> set t" "tx_id r = tx_id (cb_transaction job)" for r
    using assms that by (intro unique_by_key [OF assms(2)]) (auto simp: jobs_ready_def)
  then show "hash_is (tx_id (cb_transaction job)) (tx_stellar_transaction_hash (cb_transaction job)) t"
    by (auto simp: hash_is_def)
  have "tx_status (cb_transaction job) \<noteq> TransactionStatusSuccess"
    using assms(1) by (simp add: jobs_ready_def transaction_status_defs)
  with row show "(RequiresRebuildOnRetry h \<Longrightarrow> tx_type (cb_transaction job) = TransactionTypeWalletCreation) \<Longrightarrow>
      startable h (tx_id (cb_transaction job)) t"
    by (auto simp: startable_def keeps_envelope_def)
qed

lemma jobs_ready_rest:
  assumes "jobs_ready t (job # jobs)" and "list_all2 (frame_step {tx_id (cb_transaction job)}) t t'"
  shows "jobs_ready t' jobs"
proof -
  have "cb_transaction b \<in> set t'" if "b \<in> set jobs" for b
  proof -
    from assms(1) that have "cb_transaction b \<in> set t" "tx_id (cb_transaction b) \<noteq> tx_id (cb_transaction job)"
      by (force simp: jobs_ready_def list_all_iff image_iff)+
    with list_all2_le_exists [OF assms(2)] show ?thesis by (fastforce simp: frame_step_def)
  qed
  with assms(1) show ?thesis by (simp add: jobs_ready_def list_all_iff)
qed

lemma run_bundles_inv:
  fixes s s' :: "'z tss_state_scheme"
  assumes "forE jobs (run_bundle eng) s = (r, s')" and "jobs_ready (submitter_transactions s) jobs" and "tss_db_ok s"
  shows "tss_db_ok s' \<and>
    list_all2 (frame_step (set (map (\<lambda>b. tx_id (cb_transaction b)) jobs))) (submitter_transactions s) (submitter_transactions s') \<and>
    (service_inv (eng_sdk eng) (submitter_transactions s) (tss_log s) \<longrightarrow>
       service_inv (eng_sdk eng) (submitter_transactions s') (tss_log s'))"
  using assms
proof (induction jobs arbitrary: s r)
  case Nil
  then show ?case by (simp add: ret_def frame_rows_refl)
next
  case (Cons job jobs)
  obtain y s1 where y: "run_bundle eng job s = (y, s1)" by fastforce
  have d: "distinct (map tx_id (submitter_transactions s))"
    using Cons.prems(3) by (simp add: tss_db_ok_def tx_table_ok_ids)
  note first = jobs_ready_first [OF Cons.prems(2) d]
  from run_bundle_run [OF y first(1) Cons.prems(3)] obtain h where
    run: "worker_run (eng_sdk eng) h (tx_id (cb_transaction job)) (submitter_transactions s, tss_log s) (submitter_transactions s1, tss_log s1)"
    and reb: "RequiresRebuildOnRetry h \<Longrightarrow> tx_type (cb_transaction job) = TransactionTypeWalletCreation"
    and ok1: "tss_db_ok s1" by blast
  note frame1 = worker_run_frame [OF run]
  note inv1 = worker_run_inv [OF run first(2) [OF reb]]
  from Cons.prems(1) y consider (stop) "s' = s1" | (next_job) z where "forE jobs (run_bundle eng) s1 = (z, s')"
    by (cases y) (auto simp: bindE_def ret_def split: prod.splits sum.splits)
  then show ?case
  proof cases
    case stop
    from frame_rows_trans [OF frame1 frame_rows_refl [of "set (map (\<lambda>b. tx_id (cb_transaction b)) jobs)"]]
    show ?thesis using ok1 inv1 by (simp add: stop)
  next
    case (next_job z)
    note rest = Cons.IH [OF next_job jobs_ready_rest [OF Cons.prems(2) frame1] ok1]
    with frame_rows_trans [OF frame1] inv1 show ?thesis by fastforce
  qed
qed

definition only_free :: "int \<Rightarrow> Transaction \<Rightarrow> Transaction \<Rightarrow> bool" where
  "only_free c r r' \<longleftrightarrow> row_le r r' \<and> (r' = r \<or> tx_lockable (int32 c) r)"

lemma only_free_calm: "list_all2 (calm_step (tx_lockable (int32 c))) t t' \<Longrightarrow> list_all2 (only_free c) t t'"
  by (erule list_all2_mono) (auto simp: calm_step_def only_free_def)

lemma only_free_frame:
  assumes "list_all2 (calm_step (tx_lockable (int32 c))) t t1" and "list_all2 (frame_step I) t1 t'"
    and "\<And>r. r \<in> set t \<Longrightarrow> tx_id r \<in> I \<Longrightarrow> tx_lockable (int32 c) r"
  shows "list_all2 (only_free c) t t'"
proof -
  have "only_free c (t ! n) (t' ! n)" if "n < length t" for n
  proof -
    from assms(1,2) that have a: "calm_step (tx_lockable (int32 c)) (t ! n) (t1 ! n)" and b: "frame_step I (t1 ! n) (t' ! n)"
      by (simp_all add: list_all2_conv_all_nth)
    then have "row_le (t ! n) (t' ! n)" by (auto simp: calm_step_def frame_step_def intro: row_le_trans)
    moreover have "t' ! n = t ! n \<or> tx_lockable (int32 c) (t ! n)"
      using a b assms(3) [of "t ! n"] that by (auto simp: calm_step_def frame_step_def row_le_def)
    ultimately show ?thesis by (simp add: only_free_def)
  qed
  with assms(1,2) show ?thesis by (simp add: list_all2_conv_all_nth)
qed

definition tick_frame :: "submitter_engine \<Rightarrow> 'z tss_state_scheme \<Rightarrow> 'z tss_state_scheme \<Rightarrow> bool" where
  "tick_frame eng s s' \<longleftrightarrow>
     (case fst (GetLedgerNumber (eng_sdk eng) (Horizon_Root eng) s) of
        Inl e \<Rightarrow> submitter_transactions s' = submitter_transactions s
      | Inr c \<Rightarrow> list_all2 (only_free c) (submitter_transactions s) (submitter_transactions s'))"

definition tick_good :: "submitter_engine \<Rightarrow> 'z tss_state_scheme \<Rightarrow> 'z tss_state_scheme \<Rightarrow> bool" where
  "tick_good eng s s' \<longleftrightarrow> tss_db_ok s' \<and> tick_frame eng s s' \<and>
     (service_inv (eng_sdk eng) (submitter_transactions s) (tss_log s) \<longrightarrow>
      service_inv (eng_sdk eng) (submitter_transactions s') (tss_log s'))"

lemma after_load_error:
  assumes "(if error_is err ErrInsuficientChannelAccounts then ret ()
     else LogAndReportErrors (Wrapf m err) []) s1 = (r, s')"
  obtains M where "submitter_transactions s' = submitter_transactions s1" and "channel_accounts s' = channel_accounts s1"
    and "tss_log s' = tss_log s1 @ M" and "list_all (\<lambda>ev. \<forall>i. \<not> about i ev) M"
  using assms that [of "[]"] that [of "[EvCrashReport (Wrapf m err) []]"]
  by (auto simp: LogAndReportErrors_def log_event_def modifyE_def ret_def split: if_splits)

lemma process_tick_good:
  fixes s s' :: "'z tss_state_scheme"
  assumes run: "process_tick eng s = (r, s')" and ok: "tss_db_ok s"
  shows "tick_good eng s s'"
  using run unfolding process_tick_def
proof (cases rule: handleE_cases)
  case (err e s1)
  from err(2) obtain M where M: "submitter_transactions s' = submitter_transactions s1" "channel_accounts s' = channel_accounts s1"
    "tss_log s' = tss_log s1 @ M" "list_all (\<lambda>ev. \<forall>i. \<not> about i ev) M" by (rule after_load_error)
  from err(1) show ?thesis
  proof (cases rule: load_cases)
    case no_ledger
    then have "submitter_transactions s1 = submitter_transactions s" "channel_accounts s1 = channel_accounts s" "tss_log s1 = tss_log s"
      by (simp_all add: same_job_def)
    with M no_ledger(3) ok service_inv_calm [OF calm_rows_refl M(4)] show ?thesis
      by (auto simp: tick_good_def tick_frame_def tss_db_ok_def split: sum.splits)
  next
    case (loaded c s0 s2 l y)
    then have c: "list_all2 (calm_step (tx_lockable (int32 c))) (submitter_transactions s) (submitter_transactions s1)"
      and "tss_log s1 = tss_log s" and "tss_db_ok s1" using ok by (simp_all add: calm_rel_def)
    with M loaded(1) only_free_calm [OF c] service_inv_calm [OF c M(4)] show ?thesis
      by (auto simp: tick_good_def tick_frame_def tss_db_ok_def)
  qed
next
  case (ok jobs s1)
  from ok(2) obtain y where loop: "forE jobs (run_bundle eng) s1 = (y, s')"
    by (cases rule: bindE_cases) (auto simp: ret_def)
  from ok(1) show ?thesis
  proof (cases rule: load_cases)
    case no_ledger
    then show ?thesis by simp
  next
    case (loaded c s0 s2 l z)
    have same: "submitter_transactions s2 = submitter_transactions s" and ok2: "tss_db_ok s2"
      using loaded(2) assms(2) by (simp_all add: same_job_def tss_db_ok_def)
    from loaded(3,4) have "ChannelTransactionBundleModel_LoadAndLockTuples c (c + IncrementForMaxLedgerBounds) l s2 = (Inr jobs, s1)"
      by simp
    from LoadAndLockTuples_ok [OF this ok2] have "Bundle_Store.loaded c (c + IncrementForMaxLedgerBounds) l s2 jobs s1" by simp
    note ready = loaded_jobs_ready [OF this ok2]
    have c: "list_all2 (calm_step (tx_lockable (int32 c))) (submitter_transactions s) (submitter_transactions s1)"
      and log: "tss_log s1 = tss_log s" and ok1: "tss_db_ok s1"
      using loaded(5) assms(2) by (simp_all add: calm_rel_def)
    note bundles = run_bundles_inv [OF loop ready(1) ok1]
    have "tx_lockable (int32 c) r" if "r \<in> set (submitter_transactions s)"
      and "tx_id r \<in> set (map (\<lambda>b. tx_id (cb_transaction b)) jobs)" for r
    proof -
      from that(2) ready(2) obtain r' where r': "r' \<in> set (submitter_transactions s)" "tx_id r' = tx_id r" "tx_lockable (int32 c) r'"
        by (auto simp: list_all_iff same)
      with that(1) assms(2) have "r' = r"
        by (intro unique_by_key [of tx_id]) (auto simp: tss_db_ok_def tx_table_ok_ids)
      with r' show ?thesis by simp
    qed
    from only_free_frame [OF c _ this] bundles loaded(1) service_inv_calm [OF c, of "[]"] log show ?thesis
      by (auto simp: tick_good_def tick_frame_def)
  qed
qed

section \<open>The service as a state machine\<close>

text \<open>
  The manager ticks; the other parts of the platform insert transactions and channel accounts, delete
  accounts and mark transactions as synchronised; and the environment moves the clock, sets the
  faults of the coming statements and holds rows in other database transactions.
\<close>

definition initial :: "tss_state \<Rightarrow> bool" where
  "initial s \<longleftrightarrow> submitter_transactions s = [] \<and> channel_accounts s = [] \<and> tss_log s = []"

inductive service_step :: "submitter_engine \<Rightarrow> tss_state \<Rightarrow> tss_state \<Rightarrow> bool" for eng where
  tick: "process_tick eng s = (r, s') \<Longrightarrow> service_step eng s s'"
| insert: "TransactionModel_BulkInsert (eng_sdk eng) txs s = (rs, s') \<Longrightarrow> service_step eng s s'"
| synced: "TransactionModel_UpdateSyncedTransactions is s = (u, s') \<Longrightarrow> service_step eng s s'"
| add_accounts: "ChannelAccountModel_BatchInsert keys s = (u, s') \<Longrightarrow> service_step eng s s'"
| delete_account: "ChannelAccountModel_DeleteIfLockedUntil k n s = (u, s') \<Longrightarrow> service_step eng s s'"
| environment: "service_step eng s (s\<lparr>conn_now := now, conn_faults := fs, conn_held := ks\<rparr>)"

inductive reachable :: "submitter_engine \<Rightarrow> tss_state \<Rightarrow> bool" for eng where
  start: "initial s \<Longrightarrow> reachable eng s"
| step: "reachable eng s \<Longrightarrow> service_step eng s s' \<Longrightarrow> reachable eng s'"

definition service_ok :: "stellar_sdk \<Rightarrow> 'z tss_state_scheme \<Rightarrow> bool" where
  "service_ok sdk s \<longleftrightarrow> tss_db_ok s \<and> service_inv sdk (submitter_transactions s) (tss_log s)"

lemma calm_rel_ok: "calm_rel Q s s' \<Longrightarrow> service_ok sdk s \<Longrightarrow> service_ok sdk s'"
  using service_inv_calm [of Q _ _ "[]"] by (auto simp: calm_rel_def service_ok_def)

lemma never_submitted:
  assumes "\<forall>x ans. EvSubmit i x ans \<notin> set L"
  shows "foldl (pending_step sdk i) None L = None \<and> never_resubmitted sdk i None L"
  using assms
proof (induction L)
  case (Cons ev L)
  then have "pending_step sdk i None ev = None" by (cases ev) (auto simp: pending_step_def)
  with Cons show ?case by (cases ev) auto
qed simp

interpretation log_kept: tx_relation "\<lambda>s s'. tss_log s' = tss_log s" "\<lambda>_ _. True"
  by unfold_locales (auto simp: tss_rollback_def)

lemma BulkInsert_rows:
  assumes "TransactionModel_BulkInsert sdk txs s = (x, s')"
  obtains rows where "submitter_transactions s' = submitter_transactions s @ rows"
    and "list_all (\<lambda>r. tx_status r = TransactionStatusPending \<and> tx_stellar_transaction_hash r = None) rows"
proof -
  consider "s' = s" | y where "insert_statement txs s = (y, s')"
    using assms by (auto simp: TransactionModel_BulkInsert_def ret_def throw_def split: if_splits sum.splits elim: wrapE_cases)
  then show ?thesis
  proof cases
    case 2
    then show ?thesis
      by (cases rule: insert_statement_cases) (auto dest!: inserted_rows_facts intro: that simp: list_all_iff)
  qed (auto intro: that [of "[]"])
qed

text \<open>Appending rows that are pending and name no envelope keeps the invariant.\<close>

lemma service_inv_append:
  assumes inv: "service_inv sdk t L" and "distinct (map tx_id (t @ rows))"
    and rows: "list_all (\<lambda>r. tx_status r = TransactionStatusPending \<and> tx_stellar_transaction_hash r = None) rows"
  shows "service_inv sdk (t @ rows) L"
proof -
  have "submissions_recorded (t @ rows) L"
    using inv unfolding service_inv_def submissions_recorded_def hash_recorded_def set_append by blast
  moreover have "row_settled sdk L r" if "r \<in> set rows" for r
  proof -
    from assms(2) that have "tx_id r \<notin> tx_id ` set t"
      unfolding map_append distinct_append set_map by blast
    with inv have "\<forall>x ans. EvSubmit (tx_id r) x ans \<notin> set L"
      unfolding service_inv_def submissions_recorded_def hash_recorded_def by (metis imageI)
    from never_submitted [OF this] rows that show ?thesis
      by (auto simp: row_settled_def pending_def list_all_iff transaction_status_defs)
  qed
  ultimately show ?thesis using inv by (auto simp: service_inv_def list_all_iff)
qed

lemma insert_ok:
  fixes s s' :: "'z tss_state_scheme"
  assumes run: "TransactionModel_BulkInsert sdk txs s = (x, s')" and ok: "service_ok sdk s"
  shows "service_ok sdk s'"
proof -
  have log: "tss_log s' = tss_log s" by (rule keepsD [OF log_kept.keeps_BulkInsert run])
  have db: "tss_db_ok s'" using keepsD [OF constraints.keeps_BulkInsert run] ok by (simp add: service_ok_def)
  from BulkInsert_rows [OF run] obtain rows where t: "submitter_transactions s' = submitter_transactions s @ rows"
    and rows: "list_all (\<lambda>r. tx_status r = TransactionStatusPending \<and> tx_stellar_transaction_hash r = None) rows"
    by blast
  from db have "distinct (map tx_id (submitter_transactions s @ rows))"
    by (intro tx_table_ok_ids) (simp add: tss_db_ok_def t)
  from service_inv_append [OF _ this rows] ok db show ?thesis by (simp add: service_ok_def t log)
qed

lemma reachable_ok: "reachable eng s \<Longrightarrow> service_ok (eng_sdk eng) s"
proof (induction rule: reachable.induct)
  case (start s)
  then show ?case
    by (simp add: initial_def service_ok_def service_inv_def submissions_recorded_def tss_db_ok_def tx_table_ok_def
        tx_unique_ok_def ca_table_ok_def)
next
  case (step s s')
  from step.hyps(2) show ?case
  proof cases
    case (tick r)
    then have "tick_good eng s s'" using step.IH by (intro process_tick_good) (simp_all add: service_ok_def)
    with step.IH show ?thesis by (simp add: tick_good_def service_ok_def)
  next
    case (insert txs rs)
    then show ?thesis using step.IH by (rule insert_ok)
  next
    case (synced "is" u)
    from keepsD [OF keeps_UpdateSynced_calm synced] step.IH show ?thesis by (rule calm_rel_ok)
  next
    case (add_accounts keys u)
    from keepsD [OF calm_ca.keeps_ca_BatchInsert add_accounts] step.IH show ?thesis by (rule calm_rel_ok)
  next
    case (delete_account k n u)
    from keepsD [OF calm_ca.keeps_ca_DeleteIfLockedUntil delete_account] step.IH show ?thesis by (rule calm_rel_ok)
  next
    case (environment now fs ks)
    with step.IH show ?thesis by (simp add: service_ok_def tss_db_ok_def)
  qed
qed

end
