(* ===== verification/Tx_Worker_Live.thy ===== *)
theory Tx_Worker_Live
  imports Tx_Service
begin

text \<open>
  Progress of the worker: when the database does not fail and Horizon, the signers and the account
  resolver answer, a payment that was loaded and locked is recorded, submitted, marked successful and
  unlocked in one run, and no other row or account changes.
\<close>

section \<open>One row of the tables\<close>

definition put_row :: "string \<Rightarrow> Transaction \<Rightarrow> Transaction list \<Rightarrow> Transaction list" where
  "put_row i r t = map (\<lambda>r'. if tx_id r' = i then r else r') t"

definition put_account :: "string \<Rightarrow> ChannelAccount \<Rightarrow> ChannelAccount list \<Rightarrow> ChannelAccount list" where
  "put_account k a t = map (\<lambda>a'. if ca_public_key a' = k then a else a') t"

lemma put_row_put_row [simp]: "tx_id r = i \<Longrightarrow> put_row i r' (put_row i r t) = put_row i r' t"
  by (simp add: put_row_def)

lemma put_row_self: "distinct (map tx_id t) \<Longrightarrow> r \<in> set t \<Longrightarrow> tx_id r = i \<Longrightarrow> put_row i r t = t"
  by (auto simp: put_row_def intro!: map_idI dest: unique_by_key)

lemma put_account_self: "distinct (map ca_public_key t) \<Longrightarrow> a \<in> set t \<Longrightarrow> ca_public_key a = k \<Longrightarrow> put_account k a t = t"
  by (auto simp: put_account_def intro!: map_idI dest: unique_by_key)

lemma in_put_row: "x \<in> set (put_row i r t) \<Longrightarrow> x = r \<or> x \<in> set t \<and> tx_id x \<noteq> i"
  by (auto simp: put_row_def split: if_splits)

text \<open>The row that an update by id leaves, and its statement on a table whose row is known.\<close>

lemma tx_update_put:
  assumes "conn_faults s = []" and "submitter_transactions s = put_row i r t" and "i \<in> tx_id ` set t"
    and "tx_id r = i" and "P r" and "\<And>r'. P r' \<Longrightarrow> tx_id r' = i"
    and "tx_table_ok (put_row i (touched f (conn_now s) r) t)"
  shows "tx_update_returning P f s =
    (Inr (touched f (conn_now s) r), s\<lparr>submitter_transactions := put_row i (touched f (conn_now s) r) t\<rparr>)"
proof -
  have all: "x = r" if "x \<in> set (put_row i r t)" "tx_id x = i" for x
    using that by (auto dest: in_put_row)
  obtain rows where f: "filter P (put_row i r t) = r # rows"
  proof (cases "filter P (put_row i r t)")
    case Nil
    have "r \<in> set (put_row i r t)" using assms(3) by (auto simp: put_row_def)
    with Nil assms(5) show ?thesis by (simp add: filter_empty_conv)
  next
    case (Cons x rows)
    then have "x \<in> set (put_row i r t)" "P x" by (auto simp: filter_eq_Cons_iff)
    with all assms(6) have "x = r" by blast
    with Cons that show ?thesis by simp
  qed
  have "sql_update P (\<lambda>r. (f (conn_now s) r)\<lparr>tx_updated_at := conn_now s\<rparr>) (put_row i r t) = put_row i (touched f (conn_now s) r) t"
    using assms(4-6) by (auto simp: sql_update_def put_row_def touched_def)
  with assms(1,2,7) f show ?thesis
    by (simp add: tx_update_returning_def Let_def touched_def)
qed

lemma ca_unlock_put:
  assumes "conn_faults s = []" and "a \<in> set (channel_accounts s)" and "ca_table_ok (channel_accounts s)"
  shows "ChannelAccountModel_Unlock (ca_public_key a) s =
    (Inr (ca_touched ca_set_unlocked (conn_now s) a),
     s\<lparr>channel_accounts := put_account (ca_public_key a) (ca_touched ca_set_unlocked (conn_now s) a) (channel_accounts s)\<rparr>)"
proof -
  let ?P = "\<lambda>r. ca_public_key r = ca_public_key a"
  have all: "x = a" if "x \<in> set (channel_accounts s)" "?P x" for x
    using that assms(2,3) by (intro unique_by_key [of ca_public_key]) (auto simp: ca_table_ok_keys)
  obtain rows where f: "filter ?P (channel_accounts s) = a # rows"
  proof (cases "filter ?P (channel_accounts s)")
    case Nil
    with assms(2) have False by (auto simp: filter_empty_conv)
    then show ?thesis ..
  next
    case (Cons x rows)
    then have "x \<in> set (channel_accounts s)" "?P x" by (auto simp: filter_eq_Cons_iff)
    with all Cons that show ?thesis by simp
  qed
  have "sql_update ?P (ca_touched ca_set_unlocked (conn_now s)) (channel_accounts s) =
      put_account (ca_public_key a) (ca_touched ca_set_unlocked (conn_now s) a) (channel_accounts s)"
    using all by (auto simp: sql_update_def put_account_def)
  with assms(1) f show ?thesis
    by (simp add: ChannelAccountModel_Unlock_def not_found_or_wrap_def handleE_def ret_def ca_update_returning_def)
qed

text \<open>Replacing one row keeps the constraints of the table when the new row fits: its unique columns
  are its own or unused by the others.\<close>

definition unused :: "(Transaction \<Rightarrow> string option) \<Rightarrow> Transaction \<Rightarrow> Transaction list \<Rightarrow> bool" where
  "unused k r t \<longleftrightarrow> (k r = None \<or> list_all (\<lambda>r'. tx_id r' \<noteq> tx_id r \<longrightarrow> k r' \<noteq> k r) t)"

definition fits :: "Transaction \<Rightarrow> Transaction list \<Rightarrow> bool" where
  "fits r t \<longleftrightarrow> tx_row_ok r \<and> unused tx_stellar_transaction_hash r t \<and> unused tx_xdr_sent r t \<and> unused tx_xdr_received r t"

lemma put_row_absent: "i \<notin> tx_id ` set t \<Longrightarrow> put_row i r t = t"
  by (auto simp: put_row_def intro!: map_idI)

lemma distinct_somes_put:
  assumes "distinct (somes (map k t))" and "distinct (map tx_id t)" and "unused k r t" and "tx_id r = i"
  shows "distinct (somes (map k (put_row i r t)))"
  using assms(1-3)
proof (induction t)
  case Nil
  then show ?case by (simp add: put_row_def)
next
  case (Cons x t)
  have rest: "unused k r t" "distinct (somes (map k t))"
    using Cons.prems by (auto simp: unused_def map_filter_Cons split: option.splits)
  show ?case
  proof (cases "tx_id x = i")
    case True
    then have absent: "i \<notin> tx_id ` set t" using Cons.prems(2) by auto
    then have put: "put_row i r (x # t) = r # t"
      using True put_row_absent [OF absent] by (simp add: put_row_def)
    have "k r \<noteq> Some y" if y: "Some y \<in> k ` set t" for y
    proof
      assume r: "k r = Some y"
      from y obtain z where z: "z \<in> set t" "k z = Some y" by auto
      with absent assms(4) have "tx_id z \<noteq> tx_id r" by (metis image_eqI)
      with Cons.prems(3) z r show False by (auto simp: unused_def list_all_iff)
    qed
    with rest put show ?thesis by (auto simp: map_filter_Cons split: option.splits)
  next
    case False
    then have put: "put_row i r (x # t) = x # put_row i r t" by (simp add: put_row_def)
    have IH: "distinct (somes (map k (put_row i r t)))" using Cons rest by auto
    have "Some y \<notin> k ` set (put_row i r t)" if y: "k x = Some y" for y
    proof
      assume "Some y \<in> k ` set (put_row i r t)"
      then obtain z where "z \<in> set (put_row i r t)" "k z = Some y" by auto
      then have "z = r \<or> z \<in> set t" by (auto dest: in_put_row)
      moreover have "z \<noteq> r"
        using Cons.prems(3) False y \<open>k z = Some y\<close> assms(4) by (auto simp: unused_def)
      ultimately have "Some y \<in> k ` set t" using \<open>k z = Some y\<close> by force
      with Cons.prems(1) y show False by (auto simp: map_filter_Cons)
    qed
    with IH put show ?thesis by (auto simp: map_filter_Cons split: option.splits)
  qed
qed

lemma tx_table_ok_put:
  assumes "tx_table_ok t" and "x \<in> set t" and "tx_id x = tx_id r" and "tx_external_id r = tx_external_id x"
    and "tx_status x \<noteq> TransactionStatusError" and "fits r t"
  shows "tx_table_ok (put_row (tx_id r) r t)"
proof -
  from assms(1) have ids: "distinct (map tx_id t)" by (rule tx_table_ok_ids)
  then have x: "y = x" if "y \<in> set t" "tx_id y = tx_id r" for y
    using that assms(2,3) by (auto intro: unique_by_key)
  have "map tx_id (put_row (tx_id r) r t) = map tx_id t" by (auto simp: put_row_def)
  moreover have "distinct (map tx_external_id (filter (\<lambda>r. tx_status r \<noteq> TransactionStatusError) (put_row (tx_id r) r t)))"
  proof -
    have put: "put_row (tx_id r) r t = map (\<lambda>y. if y = x then r else y) t"
      unfolding put_row_def by (rule map_cong [OF refl]) (use x assms(3) in metis)
    have uniq: "distinct (map tx_external_id (filter (\<lambda>r. tx_status r \<noteq> TransactionStatusError) t))"
      using assms(1) by (simp add: tx_table_ok_def tx_unique_ok_def)
    show ?thesis unfolding put
      by (rule distinct_filter_update [OF uniq]) (use assms(4,5) in \<open>simp_all split: if_splits\<close>)
  qed
  moreover have "list_all tx_row_ok (put_row (tx_id r) r t)"
    using assms(1,6) by (auto simp: tx_table_ok_def fits_def list_all_iff dest!: in_put_row)
  ultimately show ?thesis
    using assms(1,6) ids by (auto simp: tx_table_ok_def tx_unique_ok_def fits_def intro!: distinct_somes_put)
qed

section \<open>A run without obstacles\<close>

text \<open>What the engine answers for the payment of a job: the distribution account is a Stellar account,
  Horizon knows the channel account, and building and signing give the envelope \<open>fb\<close> with hash \<open>x\<close> and
  text \<open>xdr\<close>, which the store accepts.\<close>

definition builds :: "submitter_engine \<Rightarrow> TxJob \<Rightarrow> built_tx \<Rightarrow> string \<Rightarrow> string \<Rightarrow> bool" where
  "builds eng job fb x xdr \<longleftrightarrow>
     (\<exists>d seq inner signed fb0.
        (\<forall>n. eng_DistributionAccount eng n (tx_tenant_id (cb_transaction job)) = Inr d) \<and> TransactionAccount_IsStellar d \<and>
        (\<forall>n. Horizon_AccountDetail eng n (ca_public_key (cb_channel_account job)) = Inr seq) \<and>
        PaymentTransactionHandler_BuildInnerTransaction eng job seq (ta_Address d) = Inr inner \<and>
        (\<forall>n. Sign_Transaction eng n inner [channel_transaction_account job, d] = Inr signed) \<and>
        NewFeeBumpTransaction eng signed (ta_Address d) (eng_MaxBaseFee eng) = Inr fb0 \<and>
        (\<forall>n. Sign_FeeBump eng n fb0 [d] = Inr fb)) \<and>
     feebump_HashHex eng fb = Inr x \<and> feebump_Base64 eng fb = Inr xdr \<and> length x = 64 \<and>
     IsValidEd25519PublicKey (eng_sdk eng) (feebump_FeeAccount eng fb) \<and> decodes_TransactionEnvelope (eng_sdk eng) xdr"

text \<open>A job that passes the validation: processing, its transaction and account locked at the current
  ledger, which the tracker knows.\<close>

definition job_valid :: "TxJob \<Rightarrow> 'z tss_state_scheme \<Rightarrow> bool" where
  "job_valid job s \<longleftrightarrow> \<not> ledger_stale s \<and> tx_status (cb_transaction job) = TransactionStatusProcessing \<and>
     Transaction_IsLocked (cb_transaction job) (int32 (ledgerNumber (tss_ledger s))) \<and>
     ChannelAccount_IsLocked (cb_channel_account job) (int32 (ledgerNumber (tss_ledger s)))"

lemma ledger_stale_simps [simp]:
  "ledger_stale (s\<lparr>tss_calls := n\<rparr>) = ledger_stale s" "ledger_stale (s\<lparr>tss_log := l\<rparr>) = ledger_stale s"
  "ledger_stale (s\<lparr>w_job := j\<rparr>) = ledger_stale s" "ledger_stale (s\<lparr>submitter_transactions := t\<rparr>) = ledger_stale s"
  by (simp_all add: ledger_stale_def split: option.splits)

lemma GetLedgerNumber_known: "\<not> ledger_stale s \<Longrightarrow> GetLedgerNumber sdk Root s = (Inr (ledgerNumber (tss_ledger s)), s)"
  by (simp add: GetLedgerNumber_def bindE_def getsE_def)

lemma validateJob_valid: "job_valid (w_job s) s \<Longrightarrow> validateJob eng s = (Inr (), s)"
  by (simp add: job_valid_def validateJob_def with_tx_def with_job_def job_tx_def wrapE_def handleE_def bindE_def
      GetLedgerNumber_known ret_def)

lemma buildAndSign_builds:
  assumes "builds eng (w_job s) fb x xdr"
  shows "buildAndSignTransaction eng PaymentTransactionHandler s = (Inr fb, s\<lparr>tss_calls := Suc (Suc (Suc (Suc (tss_calls s))))\<rparr>)"
  using assms
  by (auto simp: builds_def buildAndSignTransaction_def with_job_def bindE_def net_call_def wrapE_def handleE_def liftE_def ret_def)

definition row_recorded :: "submitter_engine \<Rightarrow> built_tx \<Rightarrow> string \<Rightarrow> string \<Rightarrow> int \<Rightarrow> Transaction \<Rightarrow> Transaction" where
  "row_recorded eng fb x xdr = touched (set_hash_and_xdr_sent x xdr (feebump_FeeAccount eng fb))"

lemma row_recorded_simps [simp]:
  "tx_id (row_recorded eng fb x xdr now r) = tx_id r" "tx_external_id (row_recorded eng fb x xdr now r) = tx_external_id r"
  "tx_status (row_recorded eng fb x xdr now r) = tx_status r"
  "tx_stellar_transaction_hash (row_recorded eng fb x xdr now r) = Some x"
  by (simp_all add: row_recorded_def set_defs)

lemma update_job_ok: "m s = (Inr r, s') \<Longrightarrow> update_job m s = (Inr (), s'\<lparr>w_job := (w_job s')\<lparr>cb_transaction := r\<rparr>\<rparr>)"
  by (simp add: update_job_def bindE_def set_job_tx_def modifyE_def)

lemma wrapE_run: "m s = (Inr r, s') \<Longrightarrow> wrapE msg m s = (Inr r, s')"
  "m s = (Inr r, s') \<Longrightarrow> not_found_or_wrap msg m s = (Inr r, s')"
  "m s = (Inr r, s') \<Longrightarrow> handleE m h k s = k r s'"
  "m s = (Inr r, s') \<Longrightarrow> bindE m f s = f r s'"
  by (simp_all add: wrapE_def not_found_or_wrap_def handleE_def ret_def bindE_def)

text \<open>A job's row in the table, at some stage of the run: the rest of the table is as it was in \<open>t\<close>.\<close>

definition at_stage :: "Transaction list \<Rightarrow> Transaction \<Rightarrow> 'z tss_state_scheme \<Rightarrow> bool" where
  "at_stage t r s \<longleftrightarrow> conn_faults s = [] \<and> tx_table_ok t \<and> cb_transaction (w_job s) = r \<and>
     submitter_transactions s = put_row (tx_id r) r t \<and>
     (\<exists>x \<in> set t. tx_id x = tx_id r \<and> tx_external_id x = tx_external_id r \<and> tx_status x \<noteq> TransactionStatusError)"

lemma stage_update:
  assumes "at_stage t r s" and "tx_id (touched f (conn_now s) r) = tx_id r"
    and "tx_external_id (touched f (conn_now s) r) = tx_external_id r" and "fits (touched f (conn_now s) r) t"
    and "P r" and "\<And>r'. P r' \<Longrightarrow> tx_id r' = tx_id r"
  shows "tx_update_returning P f s =
    (Inr (touched f (conn_now s) r), s\<lparr>submitter_transactions := put_row (tx_id r) (touched f (conn_now s) r) t\<rparr>)"
proof -
  from assms(1) obtain x where x: "x \<in> set t" "tx_id x = tx_id r" "tx_external_id x = tx_external_id r"
    "tx_status x \<noteq> TransactionStatusError" by (auto simp: at_stage_def)
  have "tx_table_ok (put_row (tx_id (touched f (conn_now s) r)) (touched f (conn_now s) r) t)"
    using x assms(1-4) by (intro tx_table_ok_put [of t x]) (simp_all add: at_stage_def)
  then have ok: "tx_table_ok (put_row (tx_id r) (touched f (conn_now s) r) t)" by (simp only: assms(2))
  have "tx_id r \<in> tx_id ` set t" using x(1,2) by (metis image_eqI)
  moreover from assms(1) have "conn_faults s = []" and "submitter_transactions s = put_row (tx_id r) r t"
    by (simp_all add: at_stage_def)
  ultimately show ?thesis
    by (intro tx_update_put [where i = "tx_id r" and r = r and t = t and P = P and f = f] refl ok assms(5)) (assumption | erule assms(6))+
qed

lemma at_stage_next:
  assumes "at_stage t r s" and "tx_id r' = tx_id r" and "tx_external_id r' = tx_external_id r"
  shows "at_stage t r' (s\<lparr>tss_calls := n, tss_log := l, submitter_transactions := put_row (tx_id r) r' t,
      w_job := (w_job s)\<lparr>cb_transaction := r'\<rparr>\<rparr>)"
  using assms by (auto simp: at_stage_def)

lemma prepare_builds:
  fixes s :: "'z tss_state_scheme"
  assumes b: "builds eng (w_job s) fb x xdr" and st: "at_stage t r s"
    and fit: "fits (row_recorded eng fb x xdr (conn_now s) r) t"
  shows "prepareForSubmission eng PaymentTransactionHandler s = (Inr fb,
    s\<lparr>tss_calls := Suc (Suc (Suc (Suc (tss_calls s)))),
      submitter_transactions := put_row (tx_id r) (row_recorded eng fb x xdr (conn_now s) r) t,
      w_job := (w_job s)\<lparr>cb_transaction := row_recorded eng fb x xdr (conn_now s) r\<rparr>\<rparr>)"
proof -
  let ?s = "s\<lparr>tss_calls := Suc (Suc (Suc (Suc (tss_calls s))))\<rparr>"
  from st have st': "at_stage t r ?s" by (simp add: at_stage_def)
  have job: "job_tx ?s = r" using st by (simp add: at_stage_def job_tx_def)
  have upd: "tx_update_returning (\<lambda>r'. tx_id r' = tx_id r) (set_hash_and_xdr_sent x xdr (feebump_FeeAccount eng fb)) ?s =
     (Inr (row_recorded eng fb x xdr (conn_now s) r),
      ?s\<lparr>submitter_transactions := put_row (tx_id r) (row_recorded eng fb x xdr (conn_now s) r) t\<rparr>)"
    using stage_update [OF st', of "set_hash_and_xdr_sent x xdr (feebump_FeeAccount eng fb)" "\<lambda>r'. tx_id r' = tx_id r"] fit
    by (simp add: row_recorded_def [symmetric] set_defs(3) row_recorded_simps [unfolded row_recorded_def set_defs(3)])
  have "TransactionModel_UpdateStellarTransactionHashXDRSentAndDistributionAccount (eng_sdk eng) (tx_id r) x xdr (feebump_FeeAccount eng fb) ?s =
     (Inr (row_recorded eng fb x xdr (conn_now s) r),
      ?s\<lparr>submitter_transactions := put_row (tx_id r) (row_recorded eng fb x xdr (conn_now s) r) t\<rparr>)"
    using b upd
    by (simp add: builds_def TransactionModel_UpdateStellarTransactionHashXDRSentAndDistributionAccount_def wrapE_run(2))
  then have "update_job (wrapE ''saving transaction metadata for job %v''
       (TransactionModel_UpdateStellarTransactionHashXDRSentAndDistributionAccount (eng_sdk eng) (tx_id r) x xdr (feebump_FeeAccount eng fb))) ?s =
     (Inr (), ?s\<lparr>submitter_transactions := put_row (tx_id r) (row_recorded eng fb x xdr (conn_now s) r) t,
        w_job := (w_job s)\<lparr>cb_transaction := row_recorded eng fb x xdr (conn_now s) r\<rparr>\<rparr>)"
    using update_job_ok [OF wrapE_run(1)] by fastforce
  with b job buildAndSign_builds [OF b] show ?thesis
    by (simp add: prepareForSubmission_def bindE_def wrapE_def handleE_def liftE_def ret_def with_tx_def builds_def)
qed

definition row_delivered :: "string \<Rightarrow> int \<Rightarrow> Transaction \<Rightarrow> Transaction" where
  "row_delivered res now r = touched set_unlocked now (touched set_success now (touched (set_xdr_received res) now r))"

lemma fits_later:
  assumes "fits (touched (set_xdr_received res) now r) t"
  shows "fits (touched set_success now (touched (set_xdr_received res) now r)) t"
    and "fits (row_delivered res now r) t"
  using assms
  by (simp_all add: fits_def row_delivered_def unused_def set_defs tx_row_ok_def Let_def TransactionStatus_All_def)

lemmas run_defs = update_job_def set_job_tx_def modifyE_def wrapE_def handleE_def bindE_def ret_def

lemma saveResponse_run:
  assumes "at_stage t r s" and "ht_Successful resp" and "decodes_TransactionResult (eng_sdk eng) (ht_ResultXdr resp)"
    and "fits (touched (set_xdr_received (ht_ResultXdr resp)) (conn_now s) r) t"
  shows "saveResponseXDRIfPresent eng resp s = (Inr (),
     s\<lparr>submitter_transactions := put_row (tx_id r) (touched (set_xdr_received (ht_ResultXdr resp)) (conn_now s) r) t,
       w_job := (w_job s)\<lparr>cb_transaction := touched (set_xdr_received (ht_ResultXdr resp)) (conn_now s) r\<rparr>\<rparr>)"
proof -
  let ?r = "touched (set_xdr_received (ht_ResultXdr resp)) (conn_now s) r"
  have "tx_update_returning (\<lambda>r'. tx_id r' = tx_id r) (set_xdr_received (ht_ResultXdr resp)) s =
      (Inr ?r, s\<lparr>submitter_transactions := put_row (tx_id r) ?r t\<rparr>)"
    by (rule stage_update [OF assms(1)]) (simp_all add: assms(4), simp_all add: set_defs)
  then have "TransactionModel_UpdateStellarTransactionXDRReceived (eng_sdk eng) (tx_id r) (ht_ResultXdr resp) s =
      (Inr ?r, s\<lparr>submitter_transactions := put_row (tx_id r) ?r t\<rparr>)"
    using assms(3) by (simp add: TransactionModel_UpdateStellarTransactionXDRReceived_def wrapE_run(2))
  moreover have "resp \<noteq> empty_horizon_transaction" using assms(2) by (auto simp: empty_horizon_transaction_def)
  moreover have "job_tx s = r" using assms(1) by (simp add: at_stage_def job_tx_def)
  ultimately show ?thesis
    by (simp add: saveResponseXDRIfPresent_def with_tx_def run_defs)
qed

lemma markSuccess_run:
  assumes "at_stage t r s" and "tx_status r = TransactionStatusProcessing" and "fits (touched set_success (conn_now s) r) t"
  shows "with_tx (\<lambda>tx. update_job (handleE (TransactionModel_UpdateStatusToSuccess tx)
      (\<lambda>err. throw (TransactionStatusUpdateError ''SUCCESS'' (tx_id tx) False err)) ret)) s = (Inr (),
     s\<lparr>submitter_transactions := put_row (tx_id r) (touched set_success (conn_now s) r) t,
       w_job := (w_job s)\<lparr>cb_transaction := touched set_success (conn_now s) r\<rparr>\<rparr>)"
proof -
  let ?r = "touched set_success (conn_now s) r"
  have "tx_update_returning (\<lambda>r'. tx_id r' = tx_id r) set_success s =
      (Inr ?r, s\<lparr>submitter_transactions := put_row (tx_id r) ?r t\<rparr>)"
    by (rule stage_update [OF assms(1)]) (simp_all add: assms(3), simp_all add: set_defs)
  moreover have "TransactionStatus_CanTransitionTo (tx_status r) TransactionStatusSuccess = Inr ()"
    by (simp add: tss_transition_iff assms(2))
  ultimately have "TransactionModel_UpdateStatusToSuccess r s = (Inr ?r, s\<lparr>submitter_transactions := put_row (tx_id r) ?r t\<rparr>)"
    by (simp add: TransactionModel_UpdateStatusToSuccess_def wrapE_run(1))
  moreover have "job_tx s = r" using assms(1) by (simp add: at_stage_def job_tx_def)
  ultimately show ?thesis by (simp add: with_tx_def run_defs)
qed

lemma unlockJob_run:
  assumes st: "at_stage t r s" and a: "cb_channel_account (w_job s) \<in> set (channel_accounts s)"
    and ok: "ca_table_ok (channel_accounts s)" and fit: "fits (touched set_unlocked (conn_now s) r) t"
  shows "unlockJob s = (Inr (),
     s\<lparr>channel_accounts := put_account (ca_public_key (cb_channel_account (w_job s)))
          (ca_touched ca_set_unlocked (conn_now s) (cb_channel_account (w_job s))) (channel_accounts s),
       submitter_transactions := put_row (tx_id r) (touched set_unlocked (conn_now s) r) t\<rparr>)"
proof -
  let ?k = "ca_public_key (cb_channel_account (w_job s))" and ?r = "touched set_unlocked (conn_now s) r"
  let ?s = "s\<lparr>channel_accounts := put_account ?k (ca_touched ca_set_unlocked (conn_now s) (cb_channel_account (w_job s))) (channel_accounts s)\<rparr>"
  have "conn_faults s = []" using st by (simp add: at_stage_def)
  note ca = ca_unlock_put [OF this a ok]
  have st': "at_stage t r ?s" using st by (simp add: at_stage_def)
  have "tx_update_returning (\<lambda>r'. tx_id r' = tx_id r) set_unlocked ?s = (Inr ?r, ?s\<lparr>submitter_transactions := put_row (tx_id r) ?r t\<rparr>)"
    using stage_update [OF st', of set_unlocked "\<lambda>r'. tx_id r' = tx_id r"] fit by (simp add: set_defs)
  then have "TransactionModel_Unlock (tx_id r) ?s = (Inr ?r, ?s\<lparr>submitter_transactions := put_row (tx_id r) ?r t\<rparr>)"
    by (simp add: TransactionModel_Unlock_def wrapE_run(2))
  moreover have "cb_transaction (w_job s) = r" using st by (simp add: at_stage_def)
  ultimately show ?thesis
    using ca by (simp add: unlockJob_def with_job_def run_defs)
qed

definition success_event :: "Transaction \<Rightarrow> event" where
  "success_event r = EvMonitor (tx_id r) ''payment_transaction_successful''
     (if tx_attempts_count r > 1 then ''payment_reprocessing_successful'' else ''payment_processing_successful'') False []"

definition started_event :: "Transaction \<Rightarrow> event" where
  "started_event r = EvMonitor (tx_id r) ''payment_processing_started'' ''payment_processing_started'' False []"

lemma handleSuccessful_run:
  fixes s :: "'z tss_state_scheme"
  assumes st: "at_stage t r s" and proc: "tx_status r = TransactionStatusProcessing"
    and ok: "ht_Successful resp" "decodes_TransactionResult (eng_sdk eng) (ht_ResultXdr resp)"
    and fit: "fits (touched (set_xdr_received (ht_ResultXdr resp)) (conn_now s) r) t"
    and a: "cb_channel_account (w_job s) \<in> set (channel_accounts s)" "ca_table_ok (channel_accounts s)"
  obtains s' where "handleSuccessfulTransaction eng PaymentTransactionHandler resp s = (Inr (), s')"
    and "submitter_transactions s' = put_row (tx_id r) (row_delivered (ht_ResultXdr resp) (conn_now s) r) t"
    and "channel_accounts s' = put_account (ca_public_key (cb_channel_account (w_job s)))
          (ca_touched ca_set_unlocked (conn_now s) (cb_channel_account (w_job s))) (channel_accounts s)"
    and "tss_log s' = tss_log s @ [success_event r]" and "conn_faults s' = []" and "tss_ledger s' = tss_ledger s"
    and "conn_now s' = conn_now s" and "conn_held s' = conn_held s"
proof -
  let ?r2 = "touched (set_xdr_received (ht_ResultXdr resp)) (conn_now s) r"
  let ?r3 = "touched set_success (conn_now s) ?r2"
  let ?s2 = "s\<lparr>submitter_transactions := put_row (tx_id r) ?r2 t, w_job := (w_job s)\<lparr>cb_transaction := ?r2\<rparr>\<rparr>"
  let ?s3 = "s\<lparr>submitter_transactions := put_row (tx_id r) ?r3 t, w_job := (w_job s)\<lparr>cb_transaction := ?r3\<rparr>\<rparr>"
  have r: "tx_id ?r2 = tx_id r" "tx_external_id ?r2 = tx_external_id r" "tx_status ?r2 = TransactionStatusProcessing"
    "tx_id ?r3 = tx_id r" "tx_external_id ?r3 = tx_external_id r" "tx_attempts_count ?r3 = tx_attempts_count r"
    using proc by (simp_all add: set_defs)
  have st2: "at_stage t ?r2 ?s2" and st3: "at_stage t ?r3 ?s3"
    using st r by (auto simp: at_stage_def)
  note save = saveResponse_run [where eng = eng, OF st ok fit]
  note mark = markSuccess_run [OF st2 r(3)] 
  have mark': "with_tx (\<lambda>tx. update_job (handleE (TransactionModel_UpdateStatusToSuccess tx)
      (\<lambda>err. throw (TransactionStatusUpdateError ''SUCCESS'' (tx_id tx) False err)) ret)) ?s2 = (Inr (), ?s3)"
    using mark fits_later(1) [OF fit] r(1) by simp
  have unlock: "unlockJob ?s3 = (Inr (),
     ?s3\<lparr>channel_accounts := put_account (ca_public_key (cb_channel_account (w_job s)))
          (ca_touched ca_set_unlocked (conn_now s) (cb_channel_account (w_job s))) (channel_accounts s),
       submitter_transactions := put_row (tx_id r) (row_delivered (ht_ResultXdr resp) (conn_now s) r) t\<rparr>)"
    using unlockJob_run [OF st3] a fits_later(2) [OF fit] r(4) by (simp add: row_delivered_def)
  have "handleSuccessfulTransaction eng PaymentTransactionHandler resp s = (Inr (),
     ?s3\<lparr>channel_accounts := put_account (ca_public_key (cb_channel_account (w_job s)))
          (ca_touched ca_set_unlocked (conn_now s) (cb_channel_account (w_job s))) (channel_accounts s),
       submitter_transactions := put_row (tx_id r) (row_delivered (ht_ResultXdr resp) (conn_now s) r) t,
       tss_log := tss_log s @ [success_event r]\<rparr>)"
    using save mark' unlock ok(1) r(4,6)
    by (simp add: handleSuccessfulTransaction_def bindE_def wrapE_def [of _ "saveResponseXDRIfPresent eng resp"]
        wrapE_def [of _ unlockJob] handleE_def [of "saveResponseXDRIfPresent eng resp"] handleE_def [of unlockJob]
        ret_def with_job_def monitor_defs log_event_def modifyE_def success_event_def)
  then show ?thesis by (rule that) (use st in \<open>simp_all add: at_stage_def\<close>)
qed

text \<open>The conditions under which a run delivers the payment of a job.\<close>

definition deliverable :: "submitter_engine \<Rightarrow> TxJob \<Rightarrow> built_tx \<Rightarrow> string \<Rightarrow> string \<Rightarrow> horizon_transaction \<Rightarrow> 'z tss_state_scheme \<Rightarrow> bool" where
  "deliverable eng job fb x xdr resp s \<longleftrightarrow>
     conn_faults s = [] \<and> tss_db_ok s \<and> job_valid job s \<and> builds eng job fb x xdr \<and>
     cb_transaction job \<in> set (submitter_transactions s) \<and> tx_stellar_transaction_hash (cb_transaction job) = None \<and>
     cb_channel_account job \<in> set (channel_accounts s) \<and>
     (\<forall>n. Horizon_Submit eng n fb = (None, resp)) \<and> ht_Successful resp \<and>
     decodes_TransactionResult (eng_sdk eng) (ht_ResultXdr resp) \<and>
     fits (row_recorded eng fb x xdr (conn_now s) (cb_transaction job)) (submitter_transactions s) \<and>
     fits (touched (set_xdr_received (ht_ResultXdr resp)) (conn_now s)
       (row_recorded eng fb x xdr (conn_now s) (cb_transaction job))) (submitter_transactions s)"

definition delivered :: "submitter_engine \<Rightarrow> TxJob \<Rightarrow> built_tx \<Rightarrow> string \<Rightarrow> string \<Rightarrow> horizon_transaction \<Rightarrow> 'z tss_state_scheme \<Rightarrow> 'z tss_state_scheme \<Rightarrow> bool" where
  "delivered eng job fb x xdr resp s s' \<longleftrightarrow>
     (let tx = cb_transaction job; a = cb_channel_account job;
          r = row_delivered (ht_ResultXdr resp) (conn_now s) (row_recorded eng fb x xdr (conn_now s) tx) in
      submitter_transactions s' = put_row (tx_id tx) r (submitter_transactions s) \<and>
      tx_status r = TransactionStatusSuccess \<and> tx_stellar_transaction_hash r = Some x \<and> tx_xdr_sent r = Some xdr \<and>
      tx_xdr_received r = Some (ht_ResultXdr resp) \<and> tx_completed_at r = Some (conn_now s) \<and>
      tx_locked_until_ledger_number r = None \<and> tx_attempts_count r = tx_attempts_count tx + 1 \<and>
      channel_accounts s' = put_account (ca_public_key a) (ca_touched ca_set_unlocked (conn_now s) a) (channel_accounts s) \<and>
      tss_log s' = tss_log s @ [started_event tx, EvSubmit (tx_id tx) x (None, resp),
        success_event (row_recorded eng fb x xdr (conn_now s) tx)])"

lemma submit_delivers:
  fixes s :: "'z tss_state_scheme"
  assumes st: "at_stage t r s" and proc: "tx_status r = TransactionStatusProcessing"
    and ans: "\<forall>n. Horizon_Submit eng n fb = (None, resp)" and x: "envelope_hash eng fb = x"
    and ok: "ht_Successful resp" "decodes_TransactionResult (eng_sdk eng) (ht_ResultXdr resp)"
    and fit: "fits (touched (set_xdr_received (ht_ResultXdr resp)) (conn_now s) r) t"
    and a: "cb_channel_account (w_job s) \<in> set (channel_accounts s)" "ca_table_ok (channel_accounts s)"
  obtains s' where "submit eng PaymentTransactionHandler fb s = (Inr (), s')"
    and "submitter_transactions s' = put_row (tx_id r) (row_delivered (ht_ResultXdr resp) (conn_now s) r) t"
    and "channel_accounts s' = put_account (ca_public_key (cb_channel_account (w_job s)))
          (ca_touched ca_set_unlocked (conn_now s) (cb_channel_account (w_job s))) (channel_accounts s)"
    and "tss_log s' = tss_log s @ [EvSubmit (tx_id r) x (None, resp), success_event r]"
proof -
  let ?s = "s\<lparr>tss_calls := Suc (tss_calls s), tss_log := tss_log s @ [EvSubmit (tx_id r) x (None, resp)]\<rparr>"
  have st': "at_stage t r ?s" using st by (simp add: at_stage_def)
  have fit': "fits (touched (set_xdr_received (ht_ResultXdr resp)) (conn_now ?s) r) t" using fit by simp
  have a': "cb_channel_account (w_job ?s) \<in> set (channel_accounts ?s)" "ca_table_ok (channel_accounts ?s)" using a by simp_all
  obtain s' where run: "handleSuccessfulTransaction eng PaymentTransactionHandler resp ?s = (Inr (), s')"
    and s': "submitter_transactions s' = put_row (tx_id r) (row_delivered (ht_ResultXdr resp) (conn_now ?s) r) t"
      "channel_accounts s' = put_account (ca_public_key (cb_channel_account (w_job ?s)))
          (ca_touched ca_set_unlocked (conn_now ?s) (cb_channel_account (w_job ?s))) (channel_accounts ?s)"
      "tss_log s' = tss_log ?s @ [success_event r]"
    by (rule handleSuccessful_run [OF st' proc ok fit' a'])
  have "job_tx s = r" using st by (simp add: at_stage_def job_tx_def)
  with run ans x have "submit eng PaymentTransactionHandler fb s = (Inr (), s')"
    by (simp add: submit_def net_call_def bindE_def with_tx_def log_event_def modifyE_def wrapE_run(1))
  with s' that show ?thesis by simp
qed

lemma Run_delivers:
  fixes s :: "'z tss_state_scheme"
  assumes "deliverable eng job fb x xdr resp s"
  obtains s' where "Run eng PaymentTransactionHandler job s = (Inr (), s')" and "delivered eng job fb x xdr resp s s'"
proof -
  let ?tx = "cb_transaction job" and ?a = "cb_channel_account job"
  let ?r = "row_recorded eng fb x xdr (conn_now s) ?tx"
  let ?s1 = "s\<lparr>w_job := job\<rparr>" and ?s2 = "s\<lparr>w_job := job, tss_log := tss_log s @ [started_event ?tx]\<rparr>"
  let ?s3 = "?s2\<lparr>tss_calls := Suc (Suc (Suc (Suc (tss_calls s)))),
      submitter_transactions := put_row (tx_id ?tx) ?r (submitter_transactions s), w_job := job\<lparr>cb_transaction := ?r\<rparr>\<rparr>"
  from assms have f: "conn_faults s = []" and ok: "tx_table_ok (submitter_transactions s)" "ca_table_ok (channel_accounts s)"
    and v: "job_valid job s" and b: "builds eng job fb x xdr"
    and tx: "?tx \<in> set (submitter_transactions s)" "tx_stellar_transaction_hash ?tx = None"
    and a: "?a \<in> set (channel_accounts s)" and ans: "\<forall>n. Horizon_Submit eng n fb = (None, resp)"
    and resp: "ht_Successful resp" "decodes_TransactionResult (eng_sdk eng) (ht_ResultXdr resp)"
    and fit: "fits ?r (submitter_transactions s)"
      "fits (touched (set_xdr_received (ht_ResultXdr resp)) (conn_now s) ?r) (submitter_transactions s)"
    by (simp_all add: deliverable_def tss_db_ok_def)
  from v have proc: "tx_status ?tx = TransactionStatusProcessing" by (simp add: job_valid_def)
  have ids: "distinct (map tx_id (submitter_transactions s))" using ok(1) by (rule tx_table_ok_ids)
  have st: "at_stage (submitter_transactions s) ?tx ?s2"
    using f ok tx proc put_row_self [OF ids tx(1) refl] by (auto simp: at_stage_def)
  have v12: "validateJob eng ?s1 = (Inr (), ?s1)" "validateJob eng ?s2 = (Inr (), ?s2)"
    using v by (intro validateJob_valid; simp add: job_valid_def)+
  have start: "with_job (MonitorTransactionProcessingStarted PaymentTransactionHandler) ?s1 = (Inr (), ?s2)"
    by (simp add: with_job_def monitor_defs log_event_def modifyE_def started_event_def)
  have prep: "prepareForSubmission eng PaymentTransactionHandler ?s2 = (Inr fb, ?s3)"
    using prepare_builds [OF _ st, of eng fb x xdr] b fit(1) by simp
  have st3: "at_stage (submitter_transactions s) ?r ?s3"
    using st by (simp add: at_stage_def)
  have "envelope_hash eng fb = x" using b by (simp add: builds_def envelope_hash_def)
  obtain s' where sub: "submit eng PaymentTransactionHandler fb ?s3 = (Inr (), s')"
    and s': "submitter_transactions s' = put_row (tx_id ?r) (row_delivered (ht_ResultXdr resp) (conn_now ?s3) ?r) (submitter_transactions s)"
      "channel_accounts s' = put_account (ca_public_key (cb_channel_account (w_job ?s3)))
          (ca_touched ca_set_unlocked (conn_now ?s3) (cb_channel_account (w_job ?s3))) (channel_accounts ?s3)"
      "tss_log s' = tss_log ?s3 @ [EvSubmit (tx_id ?r) x (None, resp), success_event ?r]"
    by (rule submit_delivers [OF st3 _ ans \<open>envelope_hash eng fb = x\<close> resp]) (use proc fit a ok in simp_all)
  have "processTransactionSubmission eng PaymentTransactionHandler ?s1 = (Inr (), s')"
    using start v12(2) prep sub
    by (simp add: processTransactionSubmission_def bindE_def wrapE_run(1) [of "validateJob eng"] handleE_def [of "prepareForSubmission _ _"] wrapE_run(1))
  then have "Run eng PaymentTransactionHandler job s = (Inr (), s')"
    using tx(2) v12(1)
    by (simp add: Run_def bindE_def modifyE_def runJob_def handleE_def wrapE_def with_tx_def job_tx_def ret_def)
  moreover have "delivered eng job fb x xdr resp s s'"
    using s' by (simp add: delivered_def Let_def row_delivered_def row_recorded_def set_defs)
  ultimately show ?thesis by (rule that)
qed

end
