(* ===== verification/Service_Example.thy ===== *)
theory Service_Example
  imports Tx_Worker_Live
begin

text \<open>
  A small run of the service: an engine whose Horizon accepts every submission, one channel account, one
  payment. The run inserts both, ticks once and ends with the payment delivered; the states on the way are
  used to apply the theorems to concrete inputs.
\<close>

section \<open>The engine and the states\<close>

definition service_engine :: submitter_engine where
  "service_engine = \<lparr>eng_sdk = example_sdk, eng_MaxBaseFee = 100, eng_has_rpc = False,
     Horizon_Root = (\<lambda>n. Inr 10), Horizon_AccountDetail = (\<lambda>n a. Inr 7),
     Horizon_TransactionDetail = (\<lambda>n h. Inl (HorizonClientError (empty_problem\<lparr>prob_status := 404\<rparr>) None)),
     Horizon_Submit = (\<lambda>n b. (None, \<lparr>ht_Successful = True, ht_ResultXdr = ''AAAA'', ht_other_fields = True\<rparr>)),
     Rpc_SimulateTransaction = (\<lambda>n x. Inl (SimUnknown, None)),
     eng_DistributionAccount = (\<lambda>n t. Inr \<lparr>ta_Address = replicate 56 CHR ''D'', ta_CircleWalletID = [],
        ta_Type = DistributionAccountStellarEnv, ta_Status = ''ACTIVE''\<rparr>),
     Sign_Transaction = (\<lambda>n b as. Inr b), Sign_FeeBump = (\<lambda>n b as. Inr b),
     NewTransaction = (\<lambda>p. Inr (replicate 64 CHR ''h'')), NewFeeBumpTransaction = (\<lambda>b d f. Inr b),
     NewPaymentToContract = (\<lambda>d a as s. Inl (Errorf [])), NewAssetBalanceRestoration = (\<lambda>d as s. Inl (Errorf [])),
     tx_Base64 = Inr, feebump_Base64 = Inr, feebump_HashHex = Inr, feebump_FeeAccount = (\<lambda>b. replicate 56 CHR ''D''),
     sha256_Sum256 = (\<lambda>b. b), base64_decode = Inr, unmarshal_InvokeHostFunctionOp = (\<lambda>x. Inl (Errorf [])),
     unmarshal_AuthorizationEntry = (\<lambda>x. Inl (Errorf [])), unmarshal_TransactionData = Inr, account_key = (\<lambda>a. a), decimal_StringFixed7 = (\<lambda>x. ''5.0000000'')\<rparr>"

definition service_start :: tss_state where
  "service_start = \<lparr>conn_now = 7, conn_faults = [], conn_held = [], conn_uuid = (\<lambda>n. replicate (Suc n) CHR ''u''),
     conn_uuid_next = 0, submitter_transactions = [], channel_accounts = [],
     tss_limiter = NewTransactionProcessingLimiter 0 5, tss_ledger = NewLedgerNumberTracker, tss_calls = 0, tss_log = [],
     w_job = \<lparr>cb_channel_account = example_account, cb_transaction = example_row, cb_locked_until_ledger_number = 0\<rparr>\<rparr>"

definition service_row :: Transaction where
  "service_row = inserted_row ''u'' 7 5 (example_request ''p2'')"

definition service_account :: ChannelAccount where
  "service_account = new_channel_account 7 ''C'' ''S''"

definition service_funded :: tss_state where
  "service_funded = service_start\<lparr>channel_accounts := [service_account]\<rparr>"

definition service_inserted :: tss_state where
  "service_inserted = service_funded\<lparr>conn_uuid_next := 1, submitter_transactions := [service_row]\<rparr>"

lemma service_accounts_added: "ChannelAccountModel_BatchInsert [(''C'', ''S'')] service_start = (Inr (), service_funded)"
  by (simp add: ChannelAccountModel_BatchInsert_def ca_insert_exec_def service_funded_def service_start_def service_account_def
    new_channel_account_def wrapE_def handleE_def bindE_def ret_def RunInTransaction_def RunInTransactionWithResult_def ca_table_ok_def)

lemma service_row_ok: "tx_table_ok [service_row]"
  by (simp add: service_row_def tx_table_ok_def tx_unique_ok_def map_filter_Cons tx_row_ok_def Let_def example_defs
      TransactionStatus_All_def transaction_type_defs)

lemma service_inserts: "TransactionModel_BulkInsert example_sdk [example_request ''p2''] service_funded = (Inr [service_row], service_inserted)"
  using service_row_ok
    by (simp add: TransactionModel_BulkInsert_def example_insert_validates wrapE_def service_row_def
        insert_statement_def example_insert_rows Let_def handleE_def ret_def service_inserted_def service_funded_def service_start_def
        del: inserted_rows.simps)

lemma service_inserted_reachable: "reachable service_engine service_inserted"
proof -
  have "reachable service_engine service_start"
    by (rule reachable.start) (simp add: initial_def service_start_def)
  then have "reachable service_engine service_funded"
    by (rule reachable.step) (rule service_step.add_accounts [OF service_accounts_added])
  then show ?thesis
    by (rule reachable.step) (rule service_step.insert [of _ "[example_request ''p2'']" _ "Inr [service_row]"],
      simp add: service_engine_def service_inserts)
qed

definition service_job :: TxJob where
  "service_job = \<lparr>cb_channel_account = ca_lock_row 20 7 service_account, cb_transaction = tx_lock_row 20 7 service_row,
     cb_locked_until_ledger_number = 20\<rparr>"

text \<open>The state before the tick, whatever state record extends it, and after the tick loaded the bundle.\<close>

definition service_ready :: "'z tss_state_scheme \<Rightarrow> bool" where
  "service_ready s \<longleftrightarrow> conn_now s = 7 \<and> conn_faults s = [] \<and> conn_held s = [] \<and> submitter_transactions s = [service_row] \<and>
     channel_accounts s = [service_account] \<and> tss_limiter s = NewTransactionProcessingLimiter 0 5 \<and>
     tss_ledger s = NewLedgerNumberTracker \<and> tss_log s = []"

definition service_load :: "'z tss_state_scheme \<Rightarrow> 'z tss_state_scheme" where
  "service_load s = s\<lparr>tss_ledger := \<lparr>ledgerNumber = 10, lastUpdatedAt = Some 7\<rparr>, tss_calls := Suc (tss_calls s),
     submitter_transactions := [tx_lock_row 20 7 service_row], channel_accounts := [ca_lock_row 20 7 service_account]\<rparr>"

definition service_loaded :: tss_state where
  "service_loaded = service_load service_inserted"

lemma service_inserted_ready: "service_ready service_inserted"
  by (simp add: service_ready_def service_inserted_def service_funded_def service_start_def)

lemmas service_state_defs = service_loaded_def service_load_def service_inserted_def service_funded_def service_start_def

lemma service_locked_ok: "tx_table_ok [tx_lock_row 20 7 service_row]"
  using service_row_ok
  by (simp add: tx_table_ok_def tx_unique_ok_def map_filter_Cons tx_row_ok_def Let_def set_defs
      TransactionStatus_All_def split: option.splits)

lemma service_loads:
  fixes s :: "'z tss_state_scheme"
  assumes "service_ready s"
  shows "loadReadyForProcessingBundles service_engine s = (Inr [service_job], service_load s)"
proof -
  let ?s = "s\<lparr>tss_ledger := \<lparr>ledgerNumber = 10, lastUpdatedAt = Some 7\<rparr>, tss_calls := Suc (tss_calls s)\<rparr>"
  note ready = assms [unfolded service_ready_def]
  have av: "available 10 ?s = [service_row]" "free_accounts 10 ?s = [service_account]"
    using ready by (simp_all add: available_def free_accounts_def tx_lockable_def ChannelAccount_IsLocked_def ready
        TransactionModel_queryFilterForLockedState_def service_row_def service_account_def new_channel_account_def example_defs)
  have picked: "picked_pairs 10 5 ?s = [(service_account, service_row)]" "picked_transactions 10 5 ?s = [service_row]"
    "picked_accounts 10 5 ?s = [service_account]"
    using av by (simp_all add: picked_pairs_def picked_accounts_def picked_transactions_def sql_limit_def sql_order_by_def)
  have "tx_lockable 10 service_row" and "tx_id service_row = ''u''" "ca_public_key service_account = ''C''"
    by (simp_all add: tx_lockable_def TransactionModel_queryFilterForLockedState_def example_defs service_row_def service_account_def new_channel_account_def)
  moreover note service_locked_ok
  ultimately have "TransactionModel_Lock ''u'' 10 20 (?s\<lparr>channel_accounts := as\<rparr>) =
     (Inr (tx_lock_row 20 7 service_row), ?s\<lparr>channel_accounts := as, submitter_transactions := [tx_lock_row 20 7 service_row]\<rparr>)" for as
    by (simp add: TransactionModel_Lock_def not_found_or_wrap_def handleE_def tx_update_returning_def
        Let_def ret_def sql_update_def touched_def ready)
  moreover have "ChannelAccountModel_Lock ''C'' 10 20 ?s =
     (Inr (ca_lock_row 20 7 service_account), ?s\<lparr>channel_accounts := [ca_lock_row 20 7 service_account]\<rparr>)"
    by (simp add: ChannelAccountModel_Lock_def not_found_or_wrap_def handleE_def ret_def
      ca_update_returning_def sql_update_def ChannelAccountModel_queryFilterForLockedState_def ready
      service_account_def new_channel_account_def)
  moreover have "conn_faults ?s = []" by (simp add: ready)
  ultimately have load: "ChannelTransactionBundleModel_LoadAndLockTuples 10 20 5 ?s = (Inr [service_job], service_load s)"
    using picked \<open>tx_id service_row = ''u''\<close> \<open>ca_public_key service_account = ''C''\<close>
    by (simp add: ChannelTransactionBundleModel_LoadAndLockTuples_def RunInTransactionWithResult_def service_job_def
        load_and_lock_body_no_faults lock_pair_def bindE_def wrapE_def handleE_def ret_def service_load_def)
  have led: "GetLedgerNumber example_sdk (Horizon_Root service_engine) s = (Inr 10, ?s)"
    by (simp add: GetLedgerNumber_def bindE_def getsE_def ledger_stale_def ready NewLedgerNumberTracker_def
      getLedgerNumberFromHorizon_def wrapE_def handleE_def ret_def net_call_def service_engine_def modifyE_def)
  have "LimitValue ?s = (Inr 5, ?s)"
    by (simp add: LimitValue_def Limiter_LimitValue_def ready NewTransactionProcessingLimiter_def Let_def MinutesInWindow_def time_Minute_def time_Second_def)
  with load led show ?thesis
    by (simp add: loadReadyForProcessingBundles_def bindE_def wrapE_def handleE_def ret_def service_engine_def IncrementForMaxLedgerBounds_def)
qed


definition service_envelope :: built_tx where
  "service_envelope = replicate 64 CHR ''h''"

definition service_answer :: horizon_transaction where
  "service_answer = \<lparr>ht_Successful = True, ht_ResultXdr = ''AAAA'', ht_other_fields = True\<rparr>"

lemma service_deliverable:
  fixes s :: "'z tss_state_scheme"
  assumes "service_ready s"
  shows "deliverable service_engine service_job service_envelope service_envelope service_envelope service_answer (service_load s)"
proof -
  have rows: "cb_transaction service_job = tx_lock_row 20 7 service_row" "cb_channel_account service_job = ca_lock_row 20 7 service_account"
    "submitter_transactions (service_load s) = [tx_lock_row 20 7 service_row]" "channel_accounts (service_load s) = [ca_lock_row 20 7 service_account]"
    "conn_faults (service_load s) = []" "conn_now (service_load s) = 7" "eng_sdk service_engine = example_sdk"
    using assms by (simp_all add: service_job_def service_load_def service_ready_def service_engine_def)
  have ok: "tss_db_ok (service_load s)"
    using service_locked_ok by (simp add: rows tss_db_ok_def ca_table_ok_def service_account_def new_channel_account_def ca_set_defs)
  have valid: "job_valid service_job (service_load s)"
    by (simp add: job_valid_def ledger_stale_def rows Transaction_IsLocked_def ChannelAccount_IsLocked_def set_defs)
      (use assms in \<open>simp add: service_load_def service_ready_def ca_set_defs MaxLedgerAge_def time_Second_def\<close>)
  have pay: "Transaction_BuildMemo (tx_lock_row 20 7 service_row) = Inr None"
    "is_native_code ''XLM''" "AccountType_IsStellar DistributionAccountStellarEnv"
    by (simp_all add: service_row_def example_defs set_defs Transaction_BuildMemo_def NewMemo_def is_native_code_def
      AccountType_IsStellar_def AccountType_Platform_def accPlatformMap_def go_map_get_def account_type_defs)
  have "builds service_engine service_job service_envelope service_envelope service_envelope"
    using pay(2,3) pay(1) by (simp add: builds_def rows service_engine_def service_envelope_def example_sdk_def TransactionAccount_IsStellar_def
      PaymentTransactionHandler_BuildInnerTransaction_def PaymentTransactionHandler_operation_def Let_def wrap_result_def)
      (simp add: pay service_row_def example_defs set_defs)
  moreover have "fits (row_recorded service_engine service_envelope service_envelope service_envelope 7 (tx_lock_row 20 7 service_row)) (submitter_transactions (service_load s))"
    "fits (touched (set_xdr_received (ht_ResultXdr service_answer)) 7
       (row_recorded service_engine service_envelope service_envelope service_envelope 7 (tx_lock_row 20 7 service_row))) (submitter_transactions (service_load s))"
    by (simp_all add: fits_def unused_def rows row_recorded_def set_defs tx_row_ok_def Let_def TransactionStatus_All_def
        service_envelope_def service_engine_def)
      (simp_all add: service_row_def example_defs transaction_type_defs)
  ultimately show ?thesis
    using ok valid by (simp add: deliverable_def rows)
      (simp add: service_engine_def service_answer_def set_defs service_row_def example_defs)
qed


lemmas service_loaded_deliverable = service_deliverable [OF service_inserted_ready, folded service_loaded_def]

text \<open>The tick delivers the payment.\<close>

definition service_delivered :: "'z tss_state_scheme \<Rightarrow> 'z tss_state_scheme \<Rightarrow> bool" where
  "service_delivered s s' \<longleftrightarrow> delivered service_engine service_job service_envelope service_envelope service_envelope service_answer (service_load s) s'"

lemma service_ticks:
  fixes s :: "'z tss_state_scheme"
  assumes "service_ready s"
  obtains s' where "process_tick service_engine s = (Inr (), s')" and "service_delivered s s'"
proof -
  obtain s' where run: "Run service_engine PaymentTransactionHandler service_job (service_load s) = (Inr (), s')"
    and s': "service_delivered s s'"
    unfolding service_delivered_def by (rule Run_delivers [OF service_deliverable [OF assms]])
  have "GetTransactionHandler service_engine (cb_transaction service_job) = Inr PaymentTransactionHandler"
    by (simp add: GetTransactionHandler_def service_job_def service_row_def example_defs set_defs)
  with run have tick: "process_tick service_engine s = (Inr (), s')"
    by (simp add: process_tick_def service_loads [OF assms] handleE_def bindE_def run_bundle_def ret_def)
  from tick s' show ?thesis by (rule that)
qed

definition service_done :: tss_state where
  "service_done = snd (process_tick service_engine service_inserted)"

lemma service_tick:
  "process_tick service_engine service_inserted = (Inr (), service_done)"
  "service_delivered service_inserted service_done"
  by (rule service_ticks [OF service_inserted_ready]; simp add: service_done_def)+

lemma service_delivered_facts:
  assumes "service_delivered s s'" and "service_ready s"
  shows "tss_log s' = [started_event (cb_transaction service_job), EvSubmit ''u'' service_envelope (None, service_answer),
       success_event (row_recorded service_engine service_envelope service_envelope service_envelope 7 (cb_transaction service_job))]"
    and "\<exists>r. submitter_transactions s' = [r] \<and> tx_id r = ''u'' \<and> tx_status r = TransactionStatusSuccess \<and>
       tx_type r = TransactionTypePayment \<and> tx_stellar_transaction_hash r = Some service_envelope \<and> row_le service_row r \<and>
       tx_synced_at r = None \<and> tx_distribution_account r = Some (replicate 56 CHR ''D'') \<and> tx_status_message r = None"
proof -
  have job: "cb_transaction service_job = tx_lock_row 20 7 service_row" "tx_id service_row = ''u''"
    "tx_type service_row = TransactionTypePayment" "tss_log (service_load s) = []" "tx_synced_at service_row = None" "tx_status_message service_row = None"
    "submitter_transactions (service_load s) = [tx_lock_row 20 7 service_row]" "conn_now (service_load s) = 7"
    using assms(2) by (simp_all add: service_job_def service_row_def example_defs service_load_def service_ready_def)
  with assms(1) show "tss_log s' = [started_event (cb_transaction service_job), EvSubmit ''u'' service_envelope (None, service_answer),
       success_event (row_recorded service_engine service_envelope service_envelope service_envelope 7 (cb_transaction service_job))]"
    by (simp add: service_delivered_def delivered_def Let_def put_row_def row_delivered_def row_recorded_def set_defs)
  from assms(1) job show "\<exists>r. submitter_transactions s' = [r] \<and> tx_id r = ''u'' \<and> tx_status r = TransactionStatusSuccess \<and>
       tx_type r = TransactionTypePayment \<and> tx_stellar_transaction_hash r = Some service_envelope \<and> row_le service_row r \<and>
       tx_synced_at r = None \<and> tx_distribution_account r = Some (replicate 56 CHR ''D'') \<and> tx_status_message r = None"
    by (simp add: service_delivered_def delivered_def Let_def put_row_def row_delivered_def row_recorded_def row_le_def set_defs service_engine_def)
qed

lemmas service_done_log = service_delivered_facts [OF service_tick(2) service_inserted_ready]

lemma service_done_reachable: "reachable service_engine service_done"
  by (rule reachable.step [OF service_inserted_reachable service_step.tick [OF service_tick(1)]])

end
