(* ===== verification/Handler_Props.thy ===== *)
theory Handler_Props
  imports Service_Example
begin

text \<open>
  What the transaction handlers build: a payment transaction moves exactly the stored amount to the stored
  destination within the ledger bound of the lock, and a sponsored operation never needs the
  signature of the channel or the distribution account.
\<close>

section \<open>The payment transaction\<close>

text \<open>The operation of a payment: a classic payment to an account or a transfer to a contract, always from
  the distribution account, of the stored amount to the stored destination.\<close>

definition inner_pays :: "submitter_engine \<Rightarrow> Transaction \<Rightarrow> string \<Rightarrow> operation \<Rightarrow> txnbuild_memo option \<Rightarrow> bool" where
  "inner_pays eng tx from op memo \<longleftrightarrow>
     (let p = tx_payment tx; sdk = eng_sdk eng; amount = decimal_StringFixed7 eng (Amount p);
          asset = (if AssetCode p \<in> {''XLM'', ''NATIVE''} then NativeAsset else CreditAsset (AssetCode p) (AssetIssuer p)) in
      (IsValidEd25519PublicKey sdk (Destination p) \<and> op = OpPayment from amount (Destination p) asset \<and>
         Transaction_BuildMemo tx = Inr memo) \<or>
      (\<not> IsValidEd25519PublicKey sdk (Destination p) \<and> IsValidContractAddress sdk (Destination p) \<and> PMemo p = [] \<and>
         memo = None \<and> NewPaymentToContract eng (Destination p) amount asset from = Inr op))"

text \<open>C30: an inner payment transaction is what the SDK makes of exactly one operation that pays the stored
  amount to the stored destination from the distribution account, with the channel account as source, the
  memo of the row and a maximum ledger that is the ledger the job is locked until.\<close>

theorem payment_transaction_pays:
  assumes "PaymentTransactionHandler_BuildInnerTransaction eng job seq d = Inr tx"
  shows "\<exists>params op memo. NewTransaction eng params = Inr tx \<and> inner_pays eng (cb_transaction job) d op memo \<and>
    tp_Operations params = [op] \<and> tp_Memo params = memo \<and> tp_Sequence params = seq \<and>
    tp_SourceAccount params = ca_public_key (cb_channel_account job) \<and>
    tp_MaxLedger params = uint32 (cb_locked_until_ledger_number job) \<and> tp_BaseFee params = eng_MaxBaseFee eng"
proof -
  let ?p = "tx_payment (cb_transaction job)"
  let ?asset = "if is_native_code (AssetCode ?p) then NativeAsset else CreditAsset (AssetCode ?p) (AssetIssuer ?p)"
  from assms obtain op memo where op: "PaymentTransactionHandler_operation eng job d ?asset = Inr (op, memo)"
    and tx: "NewTransaction eng (payment_params eng job seq op memo) = Inr tx"
    by (auto simp: PaymentTransactionHandler_BuildInnerTransaction_def Let_def wrap_result_def split: if_splits sum.splits)
  from op have "inner_pays eng (cb_transaction job) d op memo"
    by (auto simp: PaymentTransactionHandler_operation_def inner_pays_def Let_def is_native_code_def split: if_splits sum.splits)
  with tx show ?thesis
    by (intro exI [of _ "payment_params eng job seq op memo"] exI [of _ op] exI [of _ memo]) (simp add: payment_params_def)
qed

theorem payment_transaction_pays_witness:
  "\<exists>params op memo. NewTransaction service_engine params = Inr service_envelope \<and>
    inner_pays service_engine (cb_transaction service_job) ''D'' op memo \<and> tp_Operations params = [op] \<and> tp_MaxLedger params = 20"
proof -
  have "PaymentTransactionHandler_BuildInnerTransaction service_engine service_job 7 ''D'' = Inr service_envelope"
    by (simp add: PaymentTransactionHandler_BuildInnerTransaction_def PaymentTransactionHandler_operation_def Let_def
        wrap_result_def service_job_def service_row_def example_defs set_defs service_engine_def is_native_code_def
        Transaction_BuildMemo_def NewMemo_def service_envelope_def)
  from payment_transaction_pays [OF this] show ?thesis
    by (fastforce simp: service_job_def uint32_def)
qed

section \<open>Sponsored operations\<close>

definition foreign_auth :: "submitter_engine \<Rightarrow> string list \<Rightarrow> auth_credentials \<Rightarrow> bool" where
  "foreign_auth eng accounts auth = (case auth of
       SourceAccountCredentials \<Rightarrow> False
     | AddressCredentials None \<Rightarrow> False
     | AddressCredentials (Some (ScAccount None)) \<Rightarrow> False
     | AddressCredentials (Some (ScMuxed None)) \<Rightarrow> False
     | AddressCredentials (Some (ScAccount (Some key))) \<Rightarrow> key \<notin> account_key eng ` set accounts
     | AddressCredentials (Some (ScMuxed (Some key))) \<Rightarrow> key \<notin> account_key eng ` set accounts
     | AddressCredentials (Some _) \<Rightarrow> True)"

lemma check_sponsored_auth_iff:
  "check_sponsored_auth eng c d auths = Inr () \<longleftrightarrow> list_all (foreign_auth eng [c, d]) auths"
proof (induction auths)
  case (Cons auth auths)
  then show ?case
  proof (cases auth)
    case (AddressCredentials x)
    then show ?thesis
      using Cons by (cases x; cases "the x") (auto simp: foreign_auth_def split: option.splits)
  qed (simp add: foreign_auth_def)
qed simp

text \<open>C31: a sponsored operation is accepted only when it invokes a contract, for a contract account, and all
  its authorization entries are signed by others than the channel and the distribution account.\<close>

theorem sponsored_never_spends_for_the_platform:
  assumes "sponsored_operation eng job d = Inr op"
  shows "(\<exists>c. op_HostFunction op = InvokeContract (Some c)) \<and>
    IsValidContractAddress (eng_sdk eng) (SponsoredAccount (tx_sponsored (cb_transaction job))) \<and>
    list_all (foreign_auth eng [ca_public_key (cb_channel_account job), d]) (op_Auth op)"
  using assms
  by (auto simp: sponsored_operation_def Let_def check_sponsored_auth_iff [symmetric]
      split: if_splits sum.splits host_function.splits option.splits)

definition sponsoring_engine :: submitter_engine where
  "sponsoring_engine = service_engine\<lparr>eng_sdk := example_sdk\<lparr>IsValidContractAddress := (\<lambda>a. True)\<rparr>,
     unmarshal_InvokeHostFunctionOp := (\<lambda>x. Inr \<lparr>op_HostFunction = InvokeContract (Some ''c''),
       op_Auth = [AddressCredentials (Some (ScAccount (Some ''user'')))]\<rparr>)\<rparr>"

definition sponsored_job :: TxJob where
  "sponsored_job = service_job\<lparr>cb_transaction := service_row\<lparr>tx_sponsored := \<lparr>SponsoredAccount = ''C'', SponsoredOperationXDR = ''x''\<rparr>\<rparr>\<rparr>"

theorem sponsored_never_spends_for_the_platform_witness:
  "list_all (foreign_auth sponsoring_engine [''C'', ''D'']) [AddressCredentials (Some (ScAccount (Some ''user'')))]"
proof -
  have "sponsored_operation sponsoring_engine sponsored_job ''D'' =
      Inr \<lparr>op_HostFunction = InvokeContract (Some ''c''), op_Auth = [AddressCredentials (Some (ScAccount (Some ''user'')))]\<rparr>"
    by (simp add: sponsored_operation_def sponsored_job_def sponsoring_engine_def service_engine_def service_job_def
        service_account_def new_channel_account_def ca_set_defs)
  from sponsored_never_spends_for_the_platform [OF this] show ?thesis
    by (simp add: sponsored_job_def service_job_def service_account_def new_channel_account_def ca_set_defs)
qed

end
