(* ===== verification/Sdp_State.thy ===== *)
theory Sdp_State
  imports Tx_Worker_Live
begin

text \<open>
  The tenant's own database (\<open>src/internal/data\<close>): organizations, assets, wallets, receiver wallets,
  disbursements and payments as the Go structs read them, and the state of a tenant's platform, which is
  the state of its transaction submission service with these tables. The two databases are
  reached through separate pools; a statement of either consumes one entry of the common fault schedule, so
  every interleaving of failures of the two is covered. Row columns that no modelled operation
  reads or writes are left out.
\<close>

section \<open>Rows\<close>

record Asset =
  as_ID :: string
  as_Code :: string
  as_Issuer :: string

record Wallet =
  wl_ID :: string
  wl_Name :: string
  wl_SEP10ClientDomain :: string
  wl_Enabled :: bool
  wl_UserManaged :: bool
  wl_Embedded :: bool
  wl_DeletedAt :: "int option"

record Organization =
  org_Name :: string
  org_IsApprovalRequired :: bool
  org_IsMemoTracingEnabled :: bool
  org_PaymentCancellationPeriodDays :: "int option"
  org_CAPTCHADisabled :: "bool option"

text \<open>Receivers: the columns that may be null as the table has them, and the struct, with the empty string
  for null.\<close>

record receiver_row =
  rr_id :: string
  rr_email :: "string option"
  rr_phone_number :: "string option"
  rr_external_id :: string
  rr_recipient_name :: "string option"
  rr_currency_type :: "string option"
  rr_created_at :: int
  rr_updated_at :: int

record Receiver =
  rc_ID :: string
  rc_Email :: string
  rc_PhoneNumber :: string
  rc_ExternalID :: string
  rc_RecipientName :: string
  rc_CurrencyType :: string

type_synonym ReceiverContactType = string

definition ReceiverContactTypeEmail :: ReceiverContactType where "ReceiverContactTypeEmail = ''EMAIL''"
definition ReceiverContactTypeSMS :: ReceiverContactType where "ReceiverContactTypeSMS = ''PHONE_NUMBER''"

record RegistrationContactType =
  rt_ReceiverContactType :: ReceiverContactType
  rt_IncludesWalletAddress :: bool

type_synonym VerificationType = string

definition VerificationTypeDateOfBirth :: VerificationType where "VerificationTypeDateOfBirth = ''DATE_OF_BIRTH''"
definition VerificationTypeYearMonth :: VerificationType where "VerificationTypeYearMonth = ''YEAR_MONTH''"
definition VerificationTypePin :: VerificationType where "VerificationTypePin = ''PIN''"
definition VerificationTypeNationalID :: VerificationType where "VerificationTypeNationalID = ''NATIONAL_ID_NUMBER''"

definition GetAllVerificationTypes :: "VerificationType list" where
  "GetAllVerificationTypes = [VerificationTypeDateOfBirth, VerificationTypeYearMonth, VerificationTypePin, VerificationTypeNationalID]"

record ReceiverVerification =
  rv_ReceiverID :: string
  rv_VerificationField :: VerificationType
  rv_HashedValue :: string
  rv_Attempts :: int
  rv_ConfirmedByType :: "string option"
  rv_ConfirmedByID :: "string option"
  rv_ConfirmedAt :: "int option"
  rv_FailedAt :: "int option"
  rv_VerificationChannel :: "string option"
  rv_UpdatedAt :: int

record ReceiversWalletStatusHistoryEntry =
  rh_Status :: ReceiversWalletStatus
  rh_Timestamp :: int

record ReceiverWallet =
  rw_ID :: string
  rw_receiver_id :: string
  rw_wallet_id :: string
  rw_StellarAddress :: string
  rw_StellarMemo :: string
  rw_StellarMemoType :: MemoType
  rw_Status :: ReceiversWalletStatus
  rw_StatusHistory :: "ReceiversWalletStatusHistoryEntry list"
  rw_SEP24TransactionID :: "string option"
  rw_OTP :: string
  rw_OTPAttempts :: int
  rw_OTPCreatedAt :: "int option"
  rw_OTPConfirmedAt :: "int option"
  rw_OTPConfirmedWith :: string
  rw_InvitationSentAt :: "int option"
  rw_UpdatedAt :: int

record DisbursementStatusHistoryEntry =
  dh_UserID :: string
  dh_Status :: DisbursementStatus
  dh_Timestamp :: int
  dh_Reason :: string

record disbursement_row =
  ds_ID :: string
  ds_Name :: string
  ds_wallet_id :: string
  ds_asset_id :: string
  ds_Status :: DisbursementStatus
  ds_StatusHistory :: "DisbursementStatusHistoryEntry list"
  ds_VerificationField :: VerificationType
  ds_ReceiverRegistrationMessageTemplate :: string
  ds_RegistrationContactType :: RegistrationContactType
  ds_FileName :: string
  ds_FileContent :: string
  ds_CreatedAt :: int
  ds_UpdatedAt :: int

record DisbursementStats =
  st_TotalPayments :: int
  st_SuccessfulPayments :: int
  st_FailedPayments :: int
  st_CanceledPayments :: int
  st_RemainingPayments :: int
  st_AmountDisbursed :: string
  st_TotalAmount :: string
  st_AverageAmount :: string

text \<open>A disbursement as the queries return it: its row, joined with its wallet and asset, and the
  statistics when they were populated.\<close>

record Disbursement =
  ds_row :: disbursement_row
  ds_Wallet :: Wallet
  ds_Asset :: Asset
  ds_DisbursementStats :: "DisbursementStats option"

type_synonym PaymentType = string

definition PaymentTypeDisbursement :: PaymentType where "PaymentTypeDisbursement = ''DISBURSEMENT''"
definition PaymentTypeDirect :: PaymentType where "PaymentTypeDirect = ''DIRECT''"

record PaymentStatusHistoryEntry =
  ph_Status :: PaymentStatus
  ph_StatusMessage :: string
  ph_Timestamp :: int

record payment_row =
  pm_ID :: string
  pm_Amount :: string
  pm_StellarTransactionID :: string
  pm_Status :: PaymentStatus
  pm_StatusHistory :: "PaymentStatusHistoryEntry list"
  pm_Type :: PaymentType
  pm_disbursement_id :: "string option"
  pm_asset_id :: string
  pm_receiver_id :: string
  pm_receiver_wallet_id :: string
  pm_CreatedAt :: int
  pm_UpdatedAt :: int
  pm_ExternalPaymentID :: string
  pm_SenderAddress :: string

text \<open>A payment as \<open>basePaymentQuery\<close> returns it.\<close>

record data_Payment =
  dp_row :: payment_row
  dp_Disbursement :: "disbursement_row option"
  dp_Asset :: Asset
  dp_ReceiverWallet :: ReceiverWallet

section \<open>The state\<close>

record platform = tss_state +
  organizations :: "Organization list"
  assets :: "Asset list"
  wallets :: "Wallet list"
  receivers :: "receiver_row list"
  receiver_verifications :: "ReceiverVerification list"
  receiver_wallets :: "ReceiverWallet list"
  disbursements :: "disbursement_row list"
  payments :: "payment_row list"

definition sdp_rollback :: "'z platform_scheme \<Rightarrow> 'z platform_scheme \<Rightarrow> 'z platform_scheme" where
  "sdp_rollback before after =
     after\<lparr>organizations := organizations before, assets := assets before, wallets := wallets before,
       receivers := receivers before, receiver_verifications := receiver_verifications before,
       receiver_wallets := receiver_wallets before, disbursements := disbursements before, payments := payments before\<rparr>"

text \<open>
  The environment: the Stellar SDK's checks, the amount parser of the SDK, the decimal package, bcrypt
  (whose hashes are salted, so one may get another hash each time), the random one-time passwords, the order in which
  a Go map is iterated,
  the text that PostgreSQL returns for an amount stored as \<open>NUMERIC(19,7)\<close> (\<open>None\<close> when it refuses it), the
  tenant of the context (its id and base URL), the hash of a base URL, and the services that resolve the
  distribution account of the tenant and its balance.
\<close>

record sdp_env =
  env_sdk :: stellar_sdk
  amount_ParseInt64 :: "string \<Rightarrow> go_error + int"
  decimal_NewFromString :: "string \<Rightarrow> go_error + rat"
  decimal_Truncate :: "nat \<Rightarrow> rat \<Rightarrow> rat"
  numeric_column :: "string \<Rightarrow> string option"
  numeric_value :: "string \<Rightarrow> rat"
  numeric_round_2 :: "rat \<Rightarrow> string"
  bcrypt_GenerateFromPassword :: "nat \<Rightarrow> string \<Rightarrow> go_error + string"
  bcrypt_CompareHashAndPassword :: "string \<Rightarrow> string \<Rightarrow> bool"
  phonenumbers_IsValidNumber :: "string \<Rightarrow> bool"
  RandomString_6 :: "nat \<Rightarrow> go_error + string"
  IsTestNetwork :: bool
  map_range :: "nat \<Rightarrow> string list \<Rightarrow> string list"
  GetTenantFromContext :: "go_error + (string \<times> string)"
  GenerateHashFromBaseURL :: "string \<Rightarrow> string"
  DistributionAccountFromContext :: "nat \<Rightarrow> go_error + TransactionAccount"
  GetBalance :: "nat \<Rightarrow> TransactionAccount \<Rightarrow> Asset \<Rightarrow> go_error + rat"

section \<open>Integrity constraints of the migrations\<close>

definition payment_row_ok :: "'z platform_scheme \<Rightarrow> payment_row \<Rightarrow> bool" where
  "payment_row_ok s p \<longleftrightarrow>
     pm_Status p \<in> set PaymentStatuses \<and>
     (pm_Type p = PaymentTypeDisbursement \<and> pm_disbursement_id p \<noteq> None \<or>
      pm_Type p = PaymentTypeDirect \<and> pm_disbursement_id p = None) \<and>
     length (pm_StellarTransactionID p) \<le> 64 \<and> length (pm_ExternalPaymentID p) \<le> 64 \<and>
     (case pm_disbursement_id p of None \<Rightarrow> True | Some d \<Rightarrow> d \<in> ds_ID ` set (disbursements s)) \<and>
     pm_asset_id p \<in> as_ID ` set (assets s) \<and> pm_receiver_wallet_id p \<in> rw_ID ` set (receiver_wallets s)"

definition payments_ok :: "'z platform_scheme \<Rightarrow> bool" where
  "payments_ok s \<longleftrightarrow> distinct (map pm_ID (payments s)) \<and> list_all (payment_row_ok s) (payments s)"

definition disbursements_ok :: "'z platform_scheme \<Rightarrow> bool" where
  "disbursements_ok s \<longleftrightarrow> distinct (map ds_ID (disbursements s)) \<and> distinct (map ds_Name (disbursements s)) \<and>
     list_all (\<lambda>d. ds_Status d \<in> set DisbursementStatuses \<and> ds_wallet_id d \<in> wl_ID ` set (wallets s) \<and>
       ds_asset_id d \<in> as_ID ` set (assets s)) (disbursements s)"

text \<open>The contacts of receivers are unique up to case; a receiver has one verification per field and one wallet of a
  kind; and a stellar address belongs to one receiver.\<close>

definition lower_contacts :: "(receiver_row \<Rightarrow> string option) \<Rightarrow> receiver_row list \<Rightarrow> string list" where
  "lower_contacts f rs = List.map_filter (\<lambda>r. map_option ToLower (f r)) rs"

definition receivers_ok :: "'z platform_scheme \<Rightarrow> bool" where
  "receivers_ok s \<longleftrightarrow> distinct (map rr_id (receivers s)) \<and> distinct (lower_contacts rr_email (receivers s)) \<and>
     distinct (lower_contacts rr_phone_number (receivers s)) \<and>
     list_all (\<lambda>r. rr_email r \<noteq> None \<or> rr_phone_number r \<noteq> None) (receivers s)"

definition receiver_verifications_ok :: "'z platform_scheme \<Rightarrow> bool" where
  "receiver_verifications_ok s \<longleftrightarrow>
     distinct (map (\<lambda>v. (rv_ReceiverID v, rv_VerificationField v)) (receiver_verifications s)) \<and>
     list_all (\<lambda>v. rv_ReceiverID v \<in> rr_id ` set (receivers s) \<and> rv_VerificationField v \<in> set GetAllVerificationTypes) (receiver_verifications s)"

definition one_owner :: "ReceiverWallet list \<Rightarrow> bool" where
  "one_owner rs \<longleftrightarrow> list_all (\<lambda>r. TrimSpace (rw_StellarAddress r) = [] \<or>
     list_all (\<lambda>q. rw_StellarAddress q = rw_StellarAddress r \<longrightarrow> rw_receiver_id q = rw_receiver_id r) rs) rs"

definition receiver_wallets_ok :: "'z platform_scheme \<Rightarrow> bool" where
  "receiver_wallets_ok s \<longleftrightarrow> distinct (map rw_ID (receiver_wallets s)) \<and>
     distinct (map (\<lambda>r. (rw_receiver_id r, rw_wallet_id r)) (receiver_wallets s)) \<and> one_owner (receiver_wallets s) \<and>
     list_all (\<lambda>r. rw_Status r \<in> set ReceiversWalletStatuses \<and> rw_StellarMemoType r \<in> {[], MemoTypeText, MemoTypeID, MemoTypeHash, MemoTypeReturn} \<and> rw_wallet_id r \<in> wl_ID ` set (wallets s) \<and>
       rw_receiver_id r \<in> rr_id ` set (receivers s)) (receiver_wallets s)"

definition sdp_db_ok :: "'z platform_scheme \<Rightarrow> bool" where
  "sdp_db_ok s \<longleftrightarrow> distinct (map as_ID (assets s)) \<and> distinct (map wl_ID (wallets s)) \<and>
     length (organizations s) \<le> 1 \<and> receivers_ok s \<and> receiver_verifications_ok s \<and> receiver_wallets_ok s \<and> disbursements_ok s \<and> payments_ok s"

section \<open>Statements\<close>

text \<open>\<open>UPDATE\<close> of the payments, disbursements or receiver wallets that returns the number of rows; the
  triggers set \<open>updated_at\<close>. A statement that would break a constraint fails and changes nothing.\<close>

definition pm_touched :: "(int \<Rightarrow> payment_row \<Rightarrow> payment_row) \<Rightarrow> int \<Rightarrow> payment_row \<Rightarrow> payment_row" where
  "pm_touched f now p = (f now p)\<lparr>pm_UpdatedAt := now\<rparr>"

definition pm_update_exec ::
  "(payment_row \<Rightarrow> bool) \<Rightarrow> (int \<Rightarrow> payment_row \<Rightarrow> payment_row) \<Rightarrow> ('z platform_scheme, go_error, nat) prog" where
  "pm_update_exec P f = db_call (\<lambda>s.
     let s' = s\<lparr>payments := sql_update P (pm_touched f (conn_now s)) (payments s)\<rparr>
     in if payments_ok s' then (Inr (length (filter P (payments s))), s') else (Inl (ConstraintViolation ''payments''), s))"

definition ds_touched :: "(int \<Rightarrow> disbursement_row \<Rightarrow> disbursement_row) \<Rightarrow> int \<Rightarrow> disbursement_row \<Rightarrow> disbursement_row" where
  "ds_touched f now d = (f now d)\<lparr>ds_UpdatedAt := now\<rparr>"

text \<open>The condition of a statement on disbursements may refer to the payments.\<close>

definition ds_update_exec ::
  "(payment_row list \<Rightarrow> disbursement_row \<Rightarrow> bool) \<Rightarrow> (int \<Rightarrow> disbursement_row \<Rightarrow> disbursement_row) \<Rightarrow>
   ('z platform_scheme, go_error, disbursement_row list) prog" where
  "ds_update_exec P f = db_call (\<lambda>s.
     let g = ds_touched f (conn_now s); s' = s\<lparr>disbursements := sql_update (P (payments s)) g (disbursements s)\<rparr>
     in if disbursements_ok s' then (Inr (map g (filter (P (payments s)) (disbursements s))), s')
        else (Inl (ConstraintViolation ''disbursements''), s))"

definition rw_touched :: "(int \<Rightarrow> ReceiverWallet \<Rightarrow> ReceiverWallet) \<Rightarrow> int \<Rightarrow> ReceiverWallet \<Rightarrow> ReceiverWallet" where
  "rw_touched f now r = (f now r)\<lparr>rw_UpdatedAt := now\<rparr>"

definition rw_update_exec ::
  "(payment_row list \<Rightarrow> ReceiverWallet \<Rightarrow> bool) \<Rightarrow> (int \<Rightarrow> ReceiverWallet \<Rightarrow> ReceiverWallet) \<Rightarrow>
   ('z platform_scheme, go_error, nat) prog" where
  "rw_update_exec P f = db_call (\<lambda>s.
     let s' = s\<lparr>receiver_wallets := sql_update (P (payments s)) (rw_touched f (conn_now s)) (receiver_wallets s)\<rparr>
     in if receiver_wallets_ok s' then (Inr (length (filter (P (payments s)) (receiver_wallets s))), s')
        else (Inl (ConstraintViolation (if one_owner (receiver_wallets s') then ''receiver_wallets'' else ''already belongs to another receiver'')), s))"

section \<open>Organizations and assets\<close>

definition OrganizationModel_Get :: "('z platform_scheme, go_error, Organization) prog" where
  "OrganizationModel_Get = handleE (get_first (db_call (getsE organizations)))
     (\<lambda>e. if error_is e ErrNoRows then throw ErrRecordNotFound
          else throw (Wrapf ''error querying organization table'' e)) ret"

definition Asset_IsNative :: "Asset \<Rightarrow> bool" where
  "Asset_IsNative a \<longleftrightarrow> TrimSpace (as_Issuer a) = [] \<and> (as_Code a = ''XLM'' \<or> as_Code a = ''NATIVE'')"

text \<open>\<open>strings.EqualFold\<close> on ASCII.\<close>

definition EqualFold :: "string \<Rightarrow> string \<Rightarrow> bool" where
  "EqualFold s t \<longleftrightarrow> ToLower s = ToLower t"

definition Asset_Equals :: "Asset \<Rightarrow> Asset \<Rightarrow> bool" where
  "Asset_Equals a other \<longleftrightarrow>
     (if Asset_IsNative a \<and> Asset_IsNative other then True
      else as_Code a = as_Code other \<and> EqualFold (as_Issuer a) (as_Issuer other))"

end
