(* ===== verification/Payment_Store.thy ===== *)
theory Payment_Store
  imports Sdp_State "HOL-Library.Product_Lexorder"
begin

text \<open>
  The payments of a tenant (\<open>src/internal/data/payments.go\<close>): validation, insertion, the queries of
  payments that are ready to be sent, the status changes and their history, retry and cancellation.
\<close>

section \<open>Validation\<close>

definition PaymentType_Validate :: "PaymentType \<Rightarrow> go_error + unit" where
  "PaymentType_Validate pt =
     (if pt = PaymentTypeDisbursement \<or> pt = PaymentTypeDirect then Inr () else Inl (Errorf ''invalid payment type: %s''))"

definition ValidateAmount :: "sdp_env \<Rightarrow> string \<Rightarrow> go_error + unit" where
  "ValidateAmount env s =
     (if s = [] then Inl (Errorf ''amount cannot be empty'')
      else (case amount_ParseInt64 env s of
          Inl err \<Rightarrow>
            (if contains_substr (error_text (env_sdk env) err) ''more than 7 significant digits''
               then Inl (Errorf ''the provided amount exceeds the maximum supported precision of 7 decimal places'')
             else if contains_substr (error_text (env_sdk env) err) ''outside bounds of int64''
               then Inl (Errorf ''the provided amount exceeds the maximum supported value'')
             else Inl (Errorf ''the provided amount is not a valid number''))
        | Inr parsed \<Rightarrow>
            (if parsed \<le> 0 then Inl (Errorf ''the provided amount must be greater than zero'') else Inr ())))"

record PaymentInsert =
  pi_ReceiverID :: string
  pi_DisbursementID :: "string option"
  pi_PaymentType :: PaymentType
  pi_Amount :: string
  pi_AssetID :: string
  pi_ReceiverWalletID :: string
  pi_ExternalPaymentID :: "string option"

record PaymentUpdate =
  pu_Status :: PaymentStatus
  pu_StatusMessage :: string
  pu_StellarTransactionID :: string
  pu_SenderAddress :: string

definition PaymentInsert_Validate :: "sdp_env \<Rightarrow> PaymentInsert \<Rightarrow> go_error + unit" where
  "PaymentInsert_Validate env p =
     (if TrimSpace (pi_ReceiverID p) = [] then Inl (Errorf ''receiver_id is required'')
      else (case PaymentType_Validate (pi_PaymentType p) of
          Inl e \<Rightarrow> Inl (Wrapf ''type is invalid'' e)
        | Inr _ \<Rightarrow>
            (if pi_PaymentType p = PaymentTypeDisbursement \<and> (pi_DisbursementID p = None \<or> pi_DisbursementID p = Some [])
               then Inl (Errorf ''disbursement_id is required for disbursement payments'')
             else if pi_PaymentType p = PaymentTypeDirect \<and> pi_DisbursementID p \<noteq> None
               then Inl (Errorf ''disbursement_id must be null for direct payments'')
             else (case ValidateAmount env (pi_Amount p) of
                 Inl e \<Rightarrow> Inl (Wrapf ''amount is invalid'' e)
               | Inr _ \<Rightarrow>
                   (if TrimSpace (pi_AssetID p) = [] then Inl (Errorf ''asset_id is required'')
                    else if TrimSpace (pi_ReceiverWalletID p) = [] then Inl (Errorf ''receiver_wallet_id is required'')
                    else Inr ())))))"

definition PaymentUpdate_Validate :: "PaymentUpdate \<Rightarrow> go_error + unit" where
  "PaymentUpdate_Validate p =
     (case PaymentStatus_Validate (pu_Status p) of
        Inl e \<Rightarrow> Inl (Wrapf ''status is invalid'' e)
      | Inr _ \<Rightarrow> (if TrimSpace (pu_StellarTransactionID p) = [] then Inl (Errorf ''stellar transaction id is required'') else Inr ()))"

section \<open>Insertion\<close>

definition payment_history :: "int \<Rightarrow> PaymentStatus \<Rightarrow> string \<Rightarrow> PaymentStatusHistoryEntry" where
  "payment_history now status message = \<lparr>ph_Status = status, ph_StatusMessage = message, ph_Timestamp = now\<rparr>"

text \<open>\<open>INSERT INTO payments\<close>: the status and the history of the row are given or the defaults of the
  table; the amount is stored as \<open>NUMERIC(19,7)\<close>.\<close>

definition inserted_payment ::
  "sdp_env \<Rightarrow> PaymentStatus \<Rightarrow> string \<Rightarrow> PaymentInsert \<Rightarrow> 'z platform_scheme \<Rightarrow> payment_row option" where
  "inserted_payment env status message i s =
     map_option (\<lambda>amount.
       \<lparr>pm_ID = conn_uuid s (conn_uuid_next s), pm_Amount = amount, pm_StellarTransactionID = [], pm_Status = status,
        pm_StatusHistory = [payment_history (conn_now s) status message], pm_Type = pi_PaymentType i,
        pm_disbursement_id = pi_DisbursementID i, pm_asset_id = pi_AssetID i, pm_receiver_id = pi_ReceiverID i,
        pm_receiver_wallet_id = pi_ReceiverWalletID i, pm_CreatedAt = conn_now s, pm_UpdatedAt = conn_now s,
        pm_ExternalPaymentID = nullable (pi_ExternalPaymentID i), pm_SenderAddress = []\<rparr>)
       (numeric_column env (pi_Amount i))"

definition pm_insert_exec ::
  "sdp_env \<Rightarrow> PaymentStatus \<Rightarrow> string \<Rightarrow> PaymentInsert \<Rightarrow> ('z platform_scheme, go_error, string) prog" where
  "pm_insert_exec env status message i = db_call (\<lambda>s.
     case inserted_payment env status message i s of
       None \<Rightarrow> (Inl (ConstraintViolation ''payments''), s)
     | Some p \<Rightarrow>
         let s' = s\<lparr>payments := payments s @ [p], conn_uuid_next := Suc (conn_uuid_next s)\<rparr>
         in if payments_ok s' then (Inr (pm_ID p), s') else (Inl (ConstraintViolation ''payments''), s))"

fun validate_inserts :: "sdp_env \<Rightarrow> PaymentInsert list \<Rightarrow> go_error + unit" where
  "validate_inserts env [] = Inr ()"
| "validate_inserts env (p # ps) =
     (case PaymentInsert_Validate env p of Inl e \<Rightarrow> Inl (Wrapf ''error validating payment'' e) | Inr _ \<Rightarrow> validate_inserts env ps)"

definition PaymentModel_InsertAll :: "sdp_env \<Rightarrow> PaymentInsert list \<Rightarrow> ('z platform_scheme, go_error, unit) prog" where
  "PaymentModel_InsertAll env inserts =
     (case validate_inserts env inserts of
        Inl e \<Rightarrow> throw e
      | Inr _ \<Rightarrow> bindE (forE inserts (\<lambda>i. wrapE ''error inserting payment'' (pm_insert_exec env DraftPaymentStatus [] i))) (\<lambda>_. ret ()))"

definition PaymentModel_CreateDirectPayment ::
  "sdp_env \<Rightarrow> PaymentInsert \<Rightarrow> string \<Rightarrow> ('z platform_scheme, go_error, string) prog" where
  "PaymentModel_CreateDirectPayment env payment userID =
     (case PaymentInsert_Validate env payment of
        Inl e \<Rightarrow> throw (Wrapf ''validating payment'' e)
      | Inr _ \<Rightarrow> wrapE ''inserting direct payment''
          (pm_insert_exec env ReadyPaymentStatus (''Payment submitted by user_id '' @ userID)
             (payment\<lparr>pi_DisbursementID := None\<rparr>)))"

section \<open>Queries\<close>

text \<open>\<open>basePaymentQuery\<close>: a payment joined with its disbursement (if any), asset, receiver wallet and wallet;
  a payment without one of the last three is not returned. A direct payment has no disbursement.\<close>

definition joined_payment :: "'z platform_scheme \<Rightarrow> payment_row \<Rightarrow> data_Payment option" where
  "joined_payment s p =
     (case (List.find (\<lambda>a. as_ID a = pm_asset_id p) (assets s), List.find (\<lambda>r. rw_ID r = pm_receiver_wallet_id p) (receiver_wallets s)) of
        (Some a, Some r) \<Rightarrow>
          (if list_ex (\<lambda>w. wl_ID w = rw_wallet_id r) (wallets s)
           then Some \<lparr>dp_row = p, dp_Disbursement = List.find (\<lambda>d. pm_disbursement_id p = Some (ds_ID d)) (disbursements s),
                      dp_Asset = a, dp_ReceiverWallet = r\<rparr>
           else None)
      | _ \<Rightarrow> None)"

definition base_payments :: "'z platform_scheme \<Rightarrow> data_Payment list" where
  "base_payments s = List.map_filter (joined_payment s) (payments s)"

definition removeEmptyDisbursementForDirect :: "data_Payment list \<Rightarrow> data_Payment list" where
  "removeEmptyDisbursementForDirect ps =
     map (\<lambda>p. if pm_Type (dp_row p) = PaymentTypeDirect then p\<lparr>dp_Disbursement := None\<rparr> else p) ps"

text \<open>The conditions of the queries for payments that are ready to be sent.\<close>

definition ready_to_pay :: "data_Payment \<Rightarrow> bool" where
  "ready_to_pay p \<longleftrightarrow> pm_Status (dp_row p) = ReadyPaymentStatus \<and> rw_Status (dp_ReceiverWallet p) = RegisteredReceiversWalletStatus"

definition disbursement_started :: "data_Payment \<Rightarrow> bool" where
  "disbursement_started p \<longleftrightarrow> (case dp_Disbursement p of None \<Rightarrow> False | Some d \<Rightarrow> ds_Status d = StartedDisbursementStatus)"

definition not_held :: "'z platform_scheme \<Rightarrow> string list \<Rightarrow> bool" where
  "not_held s ks \<longleftrightarrow> set ks \<inter> set (conn_held s) = {}"

definition sort_direct :: "data_Payment list \<Rightarrow> data_Payment list" where
  "sort_direct = sql_order_by (\<lambda>p. pm_UpdatedAt (dp_row p))"

definition disbursement_payments_query :: "'z platform_scheme \<Rightarrow> data_Payment list" where
  "disbursement_payments_query s =
     sql_order_by (\<lambda>p. (nullable (pm_disbursement_id (dp_row p)), pm_UpdatedAt (dp_row p)))
       (filter (\<lambda>p. ready_to_pay p \<and> disbursement_started p \<and> pm_Type (dp_row p) = PaymentTypeDisbursement \<and>
          not_held s [pm_ID (dp_row p), nullable (pm_disbursement_id (dp_row p)), as_ID (dp_Asset p),
            rw_ID (dp_ReceiverWallet p), rw_wallet_id (dp_ReceiverWallet p)])
         (base_payments s))"

definition direct_payments_query :: "'z platform_scheme \<Rightarrow> data_Payment list" where
  "direct_payments_query s =
     sort_direct (filter (\<lambda>p. ready_to_pay p \<and> pm_Type (dp_row p) = PaymentTypeDirect \<and>
       not_held s [pm_ID (dp_row p), rw_ID (dp_ReceiverWallet p)]) (base_payments s))"

definition PaymentModel_GetBatchForUpdate :: "int \<Rightarrow> ('z platform_scheme, go_error, data_Payment list) prog" where
  "PaymentModel_GetBatchForUpdate batchSize =
     (if batchSize \<le> 0 then throw (Errorf ''batch size must be greater than 0'')
      else bindE (wrapE ''getting disbursement payments'' (db_call (getsE disbursement_payments_query))) (\<lambda>disbursementPayments.
           bindE (wrapE ''getting direct payments'' (db_call (getsE direct_payments_query))) (\<lambda>directPayments.
           let allPayments = disbursementPayments @ directPayments in
           ret (removeEmptyDisbursementForDirect
             (if int (length allPayments) > batchSize then take (nat batchSize) allPayments else allPayments)))))"

definition ready_base :: "data_Payment \<Rightarrow> bool" where
  "ready_base p \<longleftrightarrow> ready_to_pay p \<and> disbursement_started p"

definition PaymentModel_GetReadyByDisbursementID :: "string \<Rightarrow> ('z platform_scheme, go_error, data_Payment list) prog" where
  "PaymentModel_GetReadyByDisbursementID disbursementID =
     bindE (wrapE ''getting ready payments for disbursement ID %s''
       (db_call (getsE (\<lambda>s. filter (\<lambda>p. ready_base p \<and> pm_disbursement_id (dp_row p) = Some disbursementID) (base_payments s)))))
       (\<lambda>ps. ret (removeEmptyDisbursementForDirect ps))"

definition ready_any :: "data_Payment \<Rightarrow> bool" where
  "ready_any p \<longleftrightarrow> ready_to_pay p \<and>
     (pm_Type (dp_row p) = PaymentTypeDisbursement \<and> disbursement_started p \<or> pm_Type (dp_row p) = PaymentTypeDirect)"

definition PaymentModel_GetReadyByID :: "string list \<Rightarrow> ('z platform_scheme, go_error, data_Payment list) prog" where
  "PaymentModel_GetReadyByID paymentIDs =
     bindE (wrapE ''getting ready payments by IDs''
       (db_call (getsE (\<lambda>s. sort_direct (filter (\<lambda>p. pm_ID (dp_row p) \<in> set paymentIDs \<and> ready_any p) (base_payments s))))))
       (\<lambda>ps. ret (removeEmptyDisbursementForDirect ps))"

definition PaymentModel_GetReadyByReceiverWalletID :: "string \<Rightarrow> ('z platform_scheme, go_error, data_Payment list) prog" where
  "PaymentModel_GetReadyByReceiverWalletID receiverWalletID =
     bindE (wrapE ''getting ready payments by receiver wallet ID %s''
       (db_call (getsE (\<lambda>s. filter (\<lambda>p. rw_ID (dp_ReceiverWallet p) = receiverWalletID \<and> ready_any p) (base_payments s)))))
       (\<lambda>ps. ret (removeEmptyDisbursementForDirect ps))"

definition PaymentModel_GetAllReadyToPatchCompletionAnchorTransactions :: "('z platform_scheme, go_error, data_Payment list) prog" where
  "PaymentModel_GetAllReadyToPatchCompletionAnchorTransactions =
     bindE (wrapE ''getting payments'' (db_call (getsE (\<lambda>s. sql_order_by (\<lambda>p. pm_CreatedAt (dp_row p))
         (filter (\<lambda>p. pm_Status (dp_row p) \<in> {SuccessPaymentStatus, FailedPaymentStatus} \<and>
            rw_Status (dp_ReceiverWallet p) = RegisteredReceiversWalletStatus \<and> rw_SEP24TransactionID (dp_ReceiverWallet p) \<noteq> None \<and>
            not_held s [pm_ID (dp_row p), rw_ID (dp_ReceiverWallet p)]) (base_payments s))))))
       (\<lambda>ps. ret (removeEmptyDisbursementForDirect ps))"

text \<open>\<open>newPaymentQuery\<close>: the conditions are joined with \<open>AND\<close>; a filter value is one value or a list
  (\<open>= ANY\<close>), and an empty list cannot be compared with \<open>=\<close>. \<open>ilike\<close> is the database's operator.\<close>

datatype 'a filter_value = One 'a | Many "'a list"

datatype sort_field = SortFieldNone | SortFieldCreatedAt | SortFieldUpdatedAt
datatype sort_order = SortOrderASC | SortOrderDESC
datatype query_type = QueryTypeSingle | QueryTypeSelectAll | QueryTypeSelectPaginated

record QueryParams =
  qp_Query :: string
  qp_ID :: "string filter_value option"
  qp_Status :: "PaymentStatus filter_value option"
  qp_ReceiverID :: "string option"
  qp_DisbursementID :: "string option"
  qp_CreatedAtAfter :: "int option"
  qp_CreatedAtBefore :: "int option"
  qp_PaymentType :: "PaymentType filter_value option"
  qp_Page :: int
  qp_PageLimit :: int
  qp_SortBy :: sort_field
  qp_SortOrder :: sort_order

definition no_filters :: QueryParams where
  "no_filters = \<lparr>qp_Query = [], qp_ID = None, qp_Status = None, qp_ReceiverID = None, qp_DisbursementID = None,
     qp_CreatedAtAfter = None, qp_CreatedAtBefore = None, qp_PaymentType = None, qp_Page = 0, qp_PageLimit = 0,
     qp_SortBy = SortFieldNone, qp_SortOrder = SortOrderASC\<rparr>"

definition addArrayOrSingleCondition :: "'a filter_value option \<Rightarrow> 'a \<Rightarrow> bool" where
  "addArrayOrSingleCondition f x = (case f of None \<Rightarrow> True | Some (One v) \<Rightarrow> x = v | Some (Many vs) \<Rightarrow> x \<in> set vs)"

definition empty_filter :: "'a filter_value option \<Rightarrow> bool" where
  "empty_filter f \<longleftrightarrow> f = Some (Many [])"

definition payment_condition :: "(string \<Rightarrow> string \<Rightarrow> bool) \<Rightarrow> QueryParams \<Rightarrow> data_Payment \<Rightarrow> bool" where
  "payment_condition ilike q p \<longleftrightarrow>
     (qp_Query q = [] \<or>
        (let pat = ''%'' @ qp_Query q @ ''%'' in
         ilike (pm_ID (dp_row p)) pat \<or> ilike (pm_ExternalPaymentID (dp_row p)) pat \<or>
         ilike (rw_StellarAddress (dp_ReceiverWallet p)) pat \<or>
         ilike (case dp_Disbursement p of None \<Rightarrow> [] | Some d \<Rightarrow> ds_Name d) pat)) \<and>
     addArrayOrSingleCondition (qp_ID q) (pm_ID (dp_row p)) \<and>
     addArrayOrSingleCondition (qp_Status q) (pm_Status (dp_row p)) \<and>
     addArrayOrSingleCondition (map_option One (qp_ReceiverID q)) (pm_receiver_id (dp_row p)) \<and>
     (case qp_DisbursementID q of None \<Rightarrow> True | Some d \<Rightarrow> pm_disbursement_id (dp_row p) = Some d) \<and>
     (case qp_CreatedAtAfter q of None \<Rightarrow> True | Some t \<Rightarrow> t \<le> pm_CreatedAt (dp_row p)) \<and>
     (case qp_CreatedAtBefore q of None \<Rightarrow> True | Some t \<Rightarrow> pm_CreatedAt (dp_row p) \<le> t) \<and>
     addArrayOrSingleCondition (qp_PaymentType q) (pm_Type (dp_row p))"

definition add_sorting :: "QueryParams \<Rightarrow> data_Payment list \<Rightarrow> data_Payment list" where
  "add_sorting q ps =
     (let key = (case qp_SortBy q of SortFieldNone \<Rightarrow> (\<lambda>p. 0) | SortFieldCreatedAt \<Rightarrow> (\<lambda>p. pm_CreatedAt (dp_row p))
                   | SortFieldUpdatedAt \<Rightarrow> (\<lambda>p. pm_UpdatedAt (dp_row p)))
      in case qp_SortOrder q of SortOrderASC \<Rightarrow> sql_order_by key ps | SortOrderDESC \<Rightarrow> sql_order_by (\<lambda>p. - key p) ps)"

definition add_pagination :: "QueryParams \<Rightarrow> 'a list \<Rightarrow> 'a list" where
  "add_pagination q ps =
     (if qp_Page q > 0 \<and> qp_PageLimit q > 0
      then sql_limit (qp_PageLimit q) (drop (nat ((qp_Page q - 1) * qp_PageLimit q)) ps) else ps)"

definition newPaymentQuery ::
  "(string \<Rightarrow> string \<Rightarrow> bool) \<Rightarrow> QueryParams \<Rightarrow> query_type \<Rightarrow> data_Payment list \<Rightarrow> go_error + data_Payment list" where
  "newPaymentQuery ilike q ty ps =
     (if empty_filter (qp_ID q) \<or> empty_filter (qp_Status q) \<or> empty_filter (qp_PaymentType q) then Inl DriverError
      else let rows = filter (payment_condition ilike q) ps in
        Inr (case ty of QueryTypeSelectPaginated \<Rightarrow> add_pagination q (add_sorting q rows)
             | QueryTypeSelectAll \<Rightarrow> add_sorting q rows | QueryTypeSingle \<Rightarrow> rows))"

definition PaymentModel_GetAll ::
  "(string \<Rightarrow> string \<Rightarrow> bool) \<Rightarrow> QueryParams \<Rightarrow> query_type \<Rightarrow> ('z platform_scheme, go_error, data_Payment list) prog" where
  "PaymentModel_GetAll ilike queryParams queryType =
     bindE (wrapE ''selecting payments'' (db_call (\<lambda>s. (newPaymentQuery ilike queryParams queryType (base_payments s), s))))
       (\<lambda>ps. ret (removeEmptyDisbursementForDirect ps))"

definition PaymentModel_Count :: "(string \<Rightarrow> string \<Rightarrow> bool) \<Rightarrow> QueryParams \<Rightarrow> ('z platform_scheme, go_error, int) prog" where
  "PaymentModel_Count ilike queryParams = wrapE ''error counting payments''
     (bindE (db_call (\<lambda>s. (newPaymentQuery ilike queryParams QueryTypeSingle (base_payments s), s))) (\<lambda>ps. ret (int (length ps))))"

definition never_ilike :: "string \<Rightarrow> string \<Rightarrow> bool" where
  "never_ilike a b = False"

text \<open>Queries without a search text do not use the operator.\<close>

definition PaymentModel_Get :: "string \<Rightarrow> ('z platform_scheme, go_error, data_Payment) prog" where
  "PaymentModel_Get paymentID =
     bindE (wrapE ''getting payment by ID %s'' (PaymentModel_GetAll never_ilike (no_filters\<lparr>qp_ID := Some (One paymentID)\<rparr>) QueryTypeSingle))
       (\<lambda>ps. case ps of [] \<Rightarrow> throw ErrRecordNotFound | p # _ \<Rightarrow> ret p)"

definition PaymentModel_GetByIDs :: "string list \<Rightarrow> ('z platform_scheme, go_error, data_Payment list) prog" where
  "PaymentModel_GetByIDs paymentIDs =
     wrapE ''getting payments by IDs'' (PaymentModel_GetAll never_ilike
       (no_filters\<lparr>qp_ID := Some (Many paymentIDs), qp_SortBy := SortFieldUpdatedAt, qp_SortOrder := SortOrderASC\<rparr>) QueryTypeSelectAll)"

section \<open>Status changes\<close>

text \<open>\<open>SET status = $1, status_history = array_append(...)\<close>\<close>

definition set_payment_status :: "PaymentStatus \<Rightarrow> string \<Rightarrow> int \<Rightarrow> payment_row \<Rightarrow> payment_row" where
  "set_payment_status status message now p =
     p\<lparr>pm_Status := status, pm_StatusHistory := pm_StatusHistory p @ [payment_history now status message]\<rparr>"

text \<open>An update whose new status is a parameter: one that is no value of the enumeration is refused.\<close>

definition pm_set_status_exec ::
  "PaymentStatus \<Rightarrow> (payment_row \<Rightarrow> bool) \<Rightarrow> (int \<Rightarrow> payment_row \<Rightarrow> payment_row) \<Rightarrow> ('z platform_scheme, go_error, nat) prog" where
  "pm_set_status_exec status P f =
     (if status \<in> set PaymentStatuses then pm_update_exec P f else db_call (throw (ConstraintViolation ''payment_status'')))"

definition PaymentModel_DeleteAllDraftForDisbursement :: "string \<Rightarrow> ('z platform_scheme, go_error, unit) prog" where
  "PaymentModel_DeleteAllDraftForDisbursement disbursementID =
     wrapE ''error deleting payments for disbursement'' (db_call (\<lambda>s. (Inr (),
       s\<lparr>payments := filter (\<lambda>p. \<not> (pm_disbursement_id p = Some disbursementID \<and> pm_Status p = DraftPaymentStatus)) (payments s)\<rparr>)))"

definition PaymentModel_UpdateStatusByDisbursementID :: "string \<Rightarrow> PaymentStatus \<Rightarrow> ('z platform_scheme, go_error, unit) prog" where
  "PaymentModel_UpdateStatusByDisbursementID disbursementID targetStatus =
     bindE (wrapE ''error updating payment statuses for disbursement %s''
       (pm_set_status_exec targetStatus (\<lambda>p. pm_disbursement_id p = Some disbursementID \<and> pm_Status p \<in> set (PaymentStatus_SourceStatuses targetStatus))
          (set_payment_status targetStatus []))) (\<lambda>_. ret ())"

fun check_transitions :: "PaymentStatus \<Rightarrow> data_Payment list \<Rightarrow> go_error + unit" where
  "check_transitions toStatus [] = Inr ()"
| "check_transitions toStatus (p # ps) =
     (case PaymentStatus_TransitionTo (pm_Status (dp_row p)) toStatus of
        Inl e \<Rightarrow> Inl (Wrapf ''cannot transition from %s to %s for payment %s'' e)
      | Inr _ \<Rightarrow> check_transitions toStatus ps)"

definition PaymentModel_UpdateStatuses :: "data_Payment list \<Rightarrow> PaymentStatus \<Rightarrow> ('z platform_scheme, go_error, int) prog" where
  "PaymentModel_UpdateStatuses ps toStatus =
     (if ps = [] then ret 0
      else (case check_transitions toStatus ps of
          Inl e \<Rightarrow> throw e
        | Inr _ \<Rightarrow> bindE (wrapE ''error updating payment statuses''
            (pm_set_status_exec toStatus (\<lambda>p. pm_ID p \<in> set (map (\<lambda>p. pm_ID (dp_row p)) ps)) (set_payment_status toStatus [])))
            (\<lambda>numRowsAffected. ret (int numRowsAffected))))"

definition set_payment_update :: "PaymentUpdate \<Rightarrow> int \<Rightarrow> payment_row \<Rightarrow> payment_row" where
  "set_payment_update u now p =
     (set_payment_status (pu_Status u) (pu_StatusMessage u) now p)
       \<lparr>pm_StellarTransactionID := pu_StellarTransactionID u,
        pm_SenderAddress := (if pu_SenderAddress u = [] then pm_SenderAddress p else pu_SenderAddress u)\<rparr>"

definition PaymentModel_Update :: "data_Payment \<Rightarrow> PaymentUpdate \<Rightarrow> ('z platform_scheme, go_error, unit) prog" where
  "PaymentModel_Update payment update =
     (case PaymentUpdate_Validate update of
        Inl e \<Rightarrow> throw (Wrapf ''error validating payment update'' e)
      | Inr _ \<Rightarrow> (case PaymentStatus_TransitionTo (pm_Status (dp_row payment)) (pu_Status update) of
          Inl e \<Rightarrow> throw (Wrapf ''cannot transition from %s to %s for payment %s'' e)
        | Inr _ \<Rightarrow> bindE (wrapE ''error updating payment with id %s''
            (pm_set_status_exec (pu_Status update) (\<lambda>p. pm_ID p = pm_ID (dp_row payment)) (set_payment_update update)))
            (\<lambda>numRowsAffected.
               if numRowsAffected = 0 then throw (Errorf ''payment %s status was not updated from %s to %s'')
               else if numRowsAffected = 1 then ret ()
               else throw (Errorf ''unexpected number of rows affected: %d when updating payment %s status from %s to %s''))))"

definition retry_message :: "string \<Rightarrow> string \<Rightarrow> string" where
  "retry_message email stellarTransactionID =
     ''User '' @ email @ '' has requested to retry the payment - Previous Stellar Transaction ID: '' @ stellarTransactionID"

definition set_retried :: "string \<Rightarrow> int \<Rightarrow> payment_row \<Rightarrow> payment_row" where
  "set_retried email now p =
     (set_payment_status ReadyPaymentStatus (retry_message email (pm_StellarTransactionID p)) now p)\<lparr>pm_StellarTransactionID := []\<rparr>"

definition PaymentModel_RetryFailedPayments :: "string \<Rightarrow> string list \<Rightarrow> ('z platform_scheme, go_error, unit) prog" where
  "PaymentModel_RetryFailedPayments email paymentIDs =
     (if paymentIDs = [] then throw (Wrapf ''payment ids is required'' ErrMissingInput)
      else if email = [] then throw (Wrapf ''user email is required'' ErrMissingInput)
      else bindE (wrapE ''error retrying failed payments''
        (pm_update_exec (\<lambda>p. pm_ID p \<in> set paymentIDs \<and> pm_Status p = FailedPaymentStatus) (set_retried email)))
        (\<lambda>numRowsAffected. if numRowsAffected \<noteq> length paymentIDs then throw ErrMismatchNumRowsAffected else ret ()))"

text \<open>The latest time the payment became ready, by its history.\<close>

definition last_ready :: "payment_row \<Rightarrow> int option" where
  "last_ready p = (case map ph_Timestamp (filter (\<lambda>h. ph_Status h = ReadyPaymentStatus) (pm_StatusHistory p)) of
       [] \<Rightarrow> None | t # ts \<Rightarrow> Some (foldl max t ts))"

definition time_Day :: int where "time_Day = 24 * 60 * 60 * 10 ^ 9"

definition cancellable :: "int \<Rightarrow> payment_row \<Rightarrow> bool" where
  "cancellable limit p \<longleftrightarrow> pm_Status p = ReadyPaymentStatus \<and> (case last_ready p of None \<Rightarrow> False | Some t \<Rightarrow> t \<le> limit)"

definition PaymentModel_CancelPaymentsWithinPeriodDays :: "int \<Rightarrow> ('z platform_scheme, go_error, unit) prog" where
  "PaymentModel_CancelPaymentsWithinPeriodDays periodInDays =
     bindE (getsE conn_now) (\<lambda>now.
     bindE (wrapE ''error canceling payments''
       (pm_update_exec (cancellable (now - periodInDays * time_Day)) (set_payment_status CanceledPaymentStatus []))) (\<lambda>_. ret ()))"

definition PaymentModel_UpdateStatus ::
  "string \<Rightarrow> PaymentStatus \<Rightarrow> string option \<Rightarrow> string \<Rightarrow> ('z platform_scheme, go_error, unit) prog" where
  "PaymentModel_UpdateStatus paymentID status statusMsg stellarTransactionHash =
     (if paymentID = [] then throw (Errorf ''paymentID is required'')
      else (case PaymentStatus_Validate status of
          Inl e \<Rightarrow> throw (Wrapf ''status is invalid'' e)
        | Inr _ \<Rightarrow> bindE (wrapE ''marking payment as %s''
            (pm_set_status_exec status (\<lambda>p. pm_ID p = paymentID)
               (\<lambda>now p. let p' = set_payment_status status (nullable statusMsg) now p in
                  if stellarTransactionHash = [] then p' else p'\<lparr>pm_StellarTransactionID := stellarTransactionHash\<rparr>)))
            (\<lambda>numRowsAffected. if numRowsAffected = 0 then throw (Wrapf ''payment with ID %s was not found'' ErrRecordNotFound) else ret ())))"

definition CancelReadyPayments :: "('z platform_scheme, go_error, unit) prog" where
  "CancelReadyPayments =
     bindE (wrapE ''error getting organization'' OrganizationModel_Get) (\<lambda>organization.
       case org_PaymentCancellationPeriodDays organization of
         None \<Rightarrow> ret ()
       | Some days \<Rightarrow> wrapE ''canceling ready payments after %d days'' (PaymentModel_CancelPaymentsWithinPeriodDays days))"

end
