(* ===== verification/Disbursement_Store.thy ===== *)
theory Disbursement_Store
  imports Payment_Store
begin

text \<open>
  The disbursements of a tenant (\<open>src/internal/data/disbursements.go\<close>): the queries with their statistics,
  insertion, the status changes guarded by the source statuses of the state machine, deletion and completion; and
  the status change of the receiver wallets of a disbursement (\<open>receivers_wallet.go\<close>).
\<close>

section \<open>Queries\<close>

definition joined_disbursement :: "'z platform_scheme \<Rightarrow> disbursement_row \<Rightarrow> Disbursement option" where
  "joined_disbursement s d =
     (case (List.find (\<lambda>w. wl_ID w = ds_wallet_id d) (wallets s), List.find (\<lambda>a. as_ID a = ds_asset_id d) (assets s)) of
        (Some w, Some a) \<Rightarrow> Some \<lparr>ds_row = d, ds_Wallet = w, ds_Asset = a, ds_DisbursementStats = None\<rparr>
      | _ \<Rightarrow> None)"

definition select_disbursements :: "'z platform_scheme \<Rightarrow> Disbursement list" where
  "select_disbursements s = List.map_filter (joined_disbursement s) (disbursements s)"

definition get_disbursement :: "(disbursement_row \<Rightarrow> bool) \<Rightarrow> string \<Rightarrow> ('z platform_scheme, go_error, Disbursement) prog" where
  "get_disbursement P msg = handleE
     (get_first (db_call (getsE (\<lambda>s. filter (\<lambda>d. P (ds_row d)) (select_disbursements s)))))
     (\<lambda>e. if error_is e ErrNoRows then throw ErrRecordNotFound else throw (Wrapf msg e)) ret"

definition DisbursementModel_Get :: "string \<Rightarrow> ('z platform_scheme, go_error, Disbursement) prog" where
  "DisbursementModel_Get disbursementID = get_disbursement (\<lambda>d. ds_ID d = disbursementID) ''error querying disbursement ID %s''"

definition DisbursementModel_GetByName :: "string \<Rightarrow> ('z platform_scheme, go_error, Disbursement) prog" where
  "DisbursementModel_GetByName name = get_disbursement (\<lambda>d. ds_Name d = name) ''error querying disbursement with name %s''"

text \<open>The statistics of one disbursement, by the statuses and amounts of its payments; none without payments.\<close>

definition count_status :: "PaymentStatus list \<Rightarrow> payment_row list \<Rightarrow> int" where
  "count_status sts ps = int (length (filter (\<lambda>p. pm_Status p \<in> set sts) ps))"

definition sum_amounts :: "sdp_env \<Rightarrow> payment_row list \<Rightarrow> rat" where
  "sum_amounts env ps = sum_list (map (\<lambda>p. numeric_value env (pm_Amount p)) ps)"

definition payments_of :: "string \<Rightarrow> payment_row list \<Rightarrow> payment_row list" where
  "payments_of disbursementID ps = filter (\<lambda>p. pm_disbursement_id p = Some disbursementID) ps"

definition disbursement_stats :: "sdp_env \<Rightarrow> payment_row list \<Rightarrow> DisbursementStats option" where
  "disbursement_stats env ps =
     (if ps = [] then None else Some
       \<lparr>st_TotalPayments = int (length ps),
        st_SuccessfulPayments = count_status [SuccessPaymentStatus] ps,
        st_FailedPayments = count_status [FailedPaymentStatus] ps,
        st_CanceledPayments = count_status [CanceledPaymentStatus] ps,
        st_RemainingPayments = count_status [DraftPaymentStatus, ReadyPaymentStatus, PendingPaymentStatus, PausedPaymentStatus] ps,
        st_AmountDisbursed = numeric_round_2 env (sum_amounts env (filter (\<lambda>p. pm_Status p = SuccessPaymentStatus) ps)),
        st_TotalAmount = numeric_round_2 env (sum_amounts env ps),
        st_AverageAmount = numeric_round_2 env (sum_amounts env ps / of_nat (length ps))\<rparr>)"

definition populateStatistics :: "sdp_env \<Rightarrow> Disbursement list \<Rightarrow> ('z platform_scheme, go_error, Disbursement list) prog" where
  "populateStatistics env ds =
     (if ds = [] then ret []
      else wrapE ''error querying disbursement statistics'' (db_call (getsE (\<lambda>s.
        map (\<lambda>d. d\<lparr>ds_DisbursementStats := disbursement_stats env (payments_of (ds_ID (ds_row d)) (payments s))\<rparr>) ds))))"

definition DisbursementModel_GetWithStatistics :: "sdp_env \<Rightarrow> string \<Rightarrow> ('z platform_scheme, go_error, Disbursement) prog" where
  "DisbursementModel_GetWithStatistics env disbursementID =
     bindE (DisbursementModel_Get disbursementID) (\<lambda>d.
     bindE (wrapE ''error populating statistics for disbursement ID %s'' (populateStatistics env [d])) (\<lambda>ds. ret (hd ds)))"

datatype disbursement_sort = DisbursementSortNone | DisbursementSortName | DisbursementSortCreatedAt

record DisbursementQuery =
  dq_Query :: string
  dq_Status :: "DisbursementStatus list"
  dq_CreatedAtAfter :: "int option"
  dq_CreatedAtBefore :: "int option"
  dq_Page :: int
  dq_PageLimit :: int
  dq_SortBy :: disbursement_sort
  dq_SortOrder :: sort_order

definition sort_rows :: "sort_order \<Rightarrow> ('r \<Rightarrow> 'k::linorder) \<Rightarrow> 'r list \<Rightarrow> 'r list" where
  "sort_rows ord key rs = (case ord of SortOrderASC \<Rightarrow> sql_order_by key rs | SortOrderDESC \<Rightarrow> rev (sql_order_by key (rev rs)))"

definition newDisbursementQuery ::
  "(string \<Rightarrow> string \<Rightarrow> bool) \<Rightarrow> DisbursementQuery \<Rightarrow> query_type \<Rightarrow> Disbursement list \<Rightarrow> Disbursement list" where
  "newDisbursementQuery ilike q ty ds =
     (let rows = filter (\<lambda>d.
            (dq_Query q = [] \<or> ilike (ds_Name (ds_row d)) (''%'' @ dq_Query q @ ''%'')) \<and>
            (dq_Status q = [] \<or> ds_Status (ds_row d) \<in> set (dq_Status q)) \<and>
            (case dq_CreatedAtAfter q of None \<Rightarrow> True | Some t \<Rightarrow> t \<le> ds_CreatedAt (ds_row d)) \<and>
            (case dq_CreatedAtBefore q of None \<Rightarrow> True | Some t \<Rightarrow> ds_CreatedAt (ds_row d) \<le> t)) ds;
          sorted = (case dq_SortBy q of DisbursementSortNone \<Rightarrow> rows
                      | DisbursementSortName \<Rightarrow> sort_rows (dq_SortOrder q) (\<lambda>d. ds_Name (ds_row d)) rows
                      | DisbursementSortCreatedAt \<Rightarrow> sort_rows (dq_SortOrder q) (\<lambda>d. ds_CreatedAt (ds_row d)) rows)
      in case ty of
           QueryTypeSelectPaginated \<Rightarrow>
             (if dq_Page q > 0 \<and> dq_PageLimit q > 0
              then sql_limit (dq_PageLimit q) (drop (nat ((dq_Page q - 1) * dq_PageLimit q)) sorted) else sorted)
         | QueryTypeSelectAll \<Rightarrow> sorted | QueryTypeSingle \<Rightarrow> rows)"

definition DisbursementModel_Count :: "(string \<Rightarrow> string \<Rightarrow> bool) \<Rightarrow> DisbursementQuery \<Rightarrow> ('z platform_scheme, go_error, int) prog" where
  "DisbursementModel_Count ilike q = wrapE ''error counting disbursements''
     (db_call (getsE (\<lambda>s. int (length (newDisbursementQuery ilike q QueryTypeSingle (select_disbursements s))))))"

definition DisbursementModel_GetAll ::
  "sdp_env \<Rightarrow> (string \<Rightarrow> string \<Rightarrow> bool) \<Rightarrow> DisbursementQuery \<Rightarrow> query_type \<Rightarrow> ('z platform_scheme, go_error, Disbursement list) prog" where
  "DisbursementModel_GetAll env ilike q ty =
     bindE (wrapE ''error querying disbursements'' (db_call (getsE (\<lambda>s. newDisbursementQuery ilike q ty (select_disbursements s)))))
       (\<lambda>ds. wrapE ''error populating disbursement statistics'' (populateStatistics env ds))"

section \<open>Insertion and deletion\<close>

definition ErrRecordAlreadyExists :: go_error where "ErrRecordAlreadyExists = Errorf ''record already exists''"

text \<open>The id is generated by the database; a duplicate name (or id) is reported as \<open>ErrRecordAlreadyExists\<close>,
  any other refusal is wrapped.\<close>

definition DisbursementModel_Insert :: "disbursement_row \<Rightarrow> ('z platform_scheme, go_error, string) prog" where
  "DisbursementModel_Insert disbursement = handleE (db_call (\<lambda>s.
       let d = disbursement\<lparr>ds_ID := conn_uuid s (conn_uuid_next s), ds_FileName := [], ds_FileContent := [],
                 ds_CreatedAt := conn_now s, ds_UpdatedAt := conn_now s\<rparr>;
           s' = s\<lparr>disbursements := disbursements s @ [d], conn_uuid_next := Suc (conn_uuid_next s)\<rparr>
       in if \<not> distinct (map ds_ID (disbursements s')) \<or> \<not> distinct (map ds_Name (disbursements s'))
            then (Inl (ConstraintViolation ''duplicate key''), s)
          else if disbursements_ok s' then (Inr (ds_ID d), s') else (Inl (ConstraintViolation ''disbursements''), s)))
     (\<lambda>e. if e = ConstraintViolation ''duplicate key'' then throw ErrRecordAlreadyExists
          else throw (Wrapf ''unable to create disbursement %s'' e)) ret"

definition deletable :: "string \<Rightarrow> disbursement_row \<Rightarrow> bool" where
  "deletable disbursementID d \<longleftrightarrow> ds_ID d = disbursementID \<and> ds_Status d \<in> set NotStartedDisbursementStatuses"

definition DisbursementModel_Delete :: "string \<Rightarrow> ('z platform_scheme, go_error, unit) prog" where
  "DisbursementModel_Delete disbursementID =
     bindE (wrapE ''deleting disbursement %s'' (db_call (\<lambda>s.
       let s' = s\<lparr>disbursements := filter (\<lambda>d. \<not> deletable disbursementID d) (disbursements s)\<rparr>
       in if payments_ok s' then (Inr (length (filter (deletable disbursementID) (disbursements s))), s')
          else (Inl (ConstraintViolation ''violates foreign key constraint''), s))))
       (\<lambda>rowsAffected. if rowsAffected = 0 then throw ErrRecordNotFound else ret ())"

section \<open>Status changes\<close>

definition disbursement_history :: "int \<Rightarrow> DisbursementStatus \<Rightarrow> string \<Rightarrow> string \<Rightarrow> DisbursementStatusHistoryEntry" where
  "disbursement_history now status userID reason =
     \<lparr>dh_UserID = userID, dh_Status = status, dh_Timestamp = now, dh_Reason = reason\<rparr>"

definition set_disbursement_status :: "DisbursementStatus \<Rightarrow> string \<Rightarrow> string \<Rightarrow> int \<Rightarrow> disbursement_row \<Rightarrow> disbursement_row" where
  "set_disbursement_status status userID reason now d =
     d\<lparr>ds_Status := status, ds_StatusHistory := ds_StatusHistory d @ [disbursement_history now status userID reason]\<rparr>"

definition DisbursementModel_updateStatus ::
  "string \<Rightarrow> string \<Rightarrow> DisbursementStatus \<Rightarrow> string \<Rightarrow> ('z platform_scheme, go_error, unit) prog" where
  "DisbursementModel_updateStatus userID disbursementID targetStatus reason =
     bindE (wrapE ''error updating disbursement status''
       (ds_update_exec (\<lambda>_ d. ds_ID d = disbursementID \<and> ds_Status d \<in> set (DisbursementStatus_SourceStatuses targetStatus))
          (set_disbursement_status targetStatus userID reason)))
       (\<lambda>rows. if length rows = 0 then throw (Errorf ''disbursement %s status was not updated from %s to %s'')
               else if length rows = 1 then ret ()
               else throw (Errorf ''unexpected number of rows affected: %d when updating disbursement %s status from %s to %s''))"

definition DisbursementModel_UpdateStatus :: "string \<Rightarrow> string \<Rightarrow> DisbursementStatus \<Rightarrow> ('z platform_scheme, go_error, unit) prog" where
  "DisbursementModel_UpdateStatus userID disbursementID targetStatus =
     DisbursementModel_updateStatus userID disbursementID targetStatus []"

definition DisbursementModel_UpdateStatusWithReason ::
  "string \<Rightarrow> string \<Rightarrow> DisbursementStatus \<Rightarrow> string \<Rightarrow> ('z platform_scheme, go_error, unit) prog" where
  "DisbursementModel_UpdateStatusWithReason userID disbursementID targetStatus reason =
     DisbursementModel_updateStatus userID disbursementID targetStatus reason"

record DisbursementUpdate =
  du_ID :: string
  du_FileName :: string
  du_FileContent :: string

definition DisbursementUpdate_Validate :: "DisbursementUpdate \<Rightarrow> go_error + unit" where
  "DisbursementUpdate_Validate du =
     (if du_FileName du = [] then Inl (Errorf ''file name is required'')
      else if du_FileContent du = [] then Inl (Errorf ''file content is required'')
      else if du_ID du = [] then Inl (Errorf ''disbursement ID is required'')
      else Inr ())"

definition DisbursementModel_Update :: "DisbursementUpdate \<Rightarrow> ('z platform_scheme, go_error, unit) prog" where
  "DisbursementModel_Update du =
     (case DisbursementUpdate_Validate du of
        Inl e \<Rightarrow> throw (Wrapf ''error validating disbursement update'' e)
      | Inr _ \<Rightarrow> bindE (wrapE ''error updating disbursement''
          (ds_update_exec (\<lambda>_ d. ds_ID d = du_ID du) (\<lambda>now d. d\<lparr>ds_FileName := du_FileName du, ds_FileContent := du_FileContent du\<rparr>)))
          (\<lambda>rows. if length rows \<noteq> 1 then throw (Errorf ''disbursement %s was not updated'') else ret ()))"

section \<open>Completion\<close>

text \<open>\<open>id NOT IN incompleted_disbursements\<close>: no payment of a listed, started disbursement has another status than
  SUCCESS.\<close>

definition completes :: "string list \<Rightarrow> payment_row list \<Rightarrow> disbursement_row \<Rightarrow> bool" where
  "completes disbursementIDs ps d \<longleftrightarrow> ds_ID d \<in> set disbursementIDs \<and> ds_Status d = StartedDisbursementStatus \<and>
     list_all (\<lambda>p. pm_Status p = SuccessPaymentStatus) (payments_of (ds_ID d) ps)"

definition DisbursementModel_CompleteDisbursements :: "string list \<Rightarrow> ('z platform_scheme, go_error, unit) prog" where
  "DisbursementModel_CompleteDisbursements disbursementIDs =
     bindE (wrapE ''error completing disbursement''
       (ds_update_exec (completes disbursementIDs) (set_disbursement_status CompletedDisbursementStatus [] []))) (\<lambda>_. ret ())"

definition completes_if_final :: "payment_row list \<Rightarrow> disbursement_row \<Rightarrow> bool" where
  "completes_if_final ps d \<longleftrightarrow> ds_Status d = StartedDisbursementStatus \<and>
     list_all (\<lambda>p. pm_Status p \<in> set PaymentCompletedStatuses) (payments_of (ds_ID d) ps)"

definition DisbursementModel_CompleteIfNecessary :: "('z platform_scheme, go_error, string list) prog" where
  "DisbursementModel_CompleteIfNecessary =
     bindE (wrapE ''completing disbursements''
       (ds_update_exec completes_if_final (set_disbursement_status CompletedDisbursementStatus [] [])))
       (\<lambda>rows. ret (map ds_ID rows))"

section \<open>The receiver wallets of a disbursement\<close>

definition set_wallet_status :: "ReceiversWalletStatus \<Rightarrow> int \<Rightarrow> ReceiverWallet \<Rightarrow> ReceiverWallet" where
  "set_wallet_status status now r =
     r\<lparr>rw_Status := status, rw_StatusHistory := rw_StatusHistory r @ [\<lparr>rh_Status = status, rh_Timestamp = now\<rparr>]\<rparr>"

definition ReceiverWalletModel_UpdateStatusByDisbursementID ::
  "string \<Rightarrow> ReceiversWalletStatus \<Rightarrow> ReceiversWalletStatus \<Rightarrow> ('z platform_scheme, go_error, unit) prog" where
  "ReceiverWalletModel_UpdateStatusByDisbursementID disbursementID fromStatus toStatus =
     (case ReceiversWalletStatus_TransitionTo fromStatus toStatus of
        Inl e \<Rightarrow> throw (Wrapf ''cannot transition from %s to %s for receiver wallets for disbursement %s'' e)
      | Inr _ \<Rightarrow> bindE (wrapE ''error updating receiver_wallets for disbursement %s''
          (rw_update_exec (\<lambda>ps r. rw_Status r = fromStatus \<and> rw_ID r \<in> set (map pm_receiver_wallet_id (payments_of disbursementID ps)))
             (set_wallet_status toStatus))) (\<lambda>_. ret ()))"

end
