(* ===== verification/Validation.thy ===== *)
theory Validation
  imports Payment_Store "HOL-Library.AList"
begin

text \<open>
  The validation of request fields (\<open>src/internal/utils/validation.go\<close>): the regular expressions, run by a
  matcher of their own, dates as \<open>time.Parse\<close> reads them, PINs and national ids; the registration contact types
  (\<open>src/internal/data/registration_contact_type.go\<close>); and the collector of field errors
  (\<open>src/internal/serve/validators/validator.go\<close>).
\<close>

section \<open>Regular expressions\<close>

text \<open>The expressions that the code compiles, and what \<open>MatchString\<close> computes of them, by derivatives.\<close>

datatype rx = RxNone | RxEps | RxChar "char \<Rightarrow> bool" | RxSeq rx rx | RxAlt rx rx | RxStar rx

fun rx_nullable :: "rx \<Rightarrow> bool" where
  "rx_nullable RxNone = False"
| "rx_nullable RxEps = True"
| "rx_nullable (RxChar p) = False"
| "rx_nullable (RxSeq r q) = (rx_nullable r \<and> rx_nullable q)"
| "rx_nullable (RxAlt r q) = (rx_nullable r \<or> rx_nullable q)"
| "rx_nullable (RxStar r) = True"

definition rx_seq :: "rx \<Rightarrow> rx \<Rightarrow> rx" where
  "rx_seq r q = (case r of RxNone \<Rightarrow> RxNone | RxEps \<Rightarrow> q | _ \<Rightarrow> RxSeq r q)"

definition rx_alt :: "rx \<Rightarrow> rx \<Rightarrow> rx" where
  "rx_alt r q = (case r of RxNone \<Rightarrow> q | _ \<Rightarrow> (case q of RxNone \<Rightarrow> r | _ \<Rightarrow> RxAlt r q))"

fun rx_deriv :: "char \<Rightarrow> rx \<Rightarrow> rx" where
  "rx_deriv c RxNone = RxNone"
| "rx_deriv c RxEps = RxNone"
| "rx_deriv c (RxChar p) = (if p c then RxEps else RxNone)"
| "rx_deriv c (RxSeq r q) =
     (if rx_nullable r then rx_alt (rx_seq (rx_deriv c r) q) (rx_deriv c q) else rx_seq (rx_deriv c r) q)"
| "rx_deriv c (RxAlt r q) = rx_alt (rx_deriv c r) (rx_deriv c q)"
| "rx_deriv c (RxStar r) = rx_seq (rx_deriv c r) (RxStar r)"

fun rx_match :: "rx \<Rightarrow> string \<Rightarrow> bool" where
  "rx_match r [] = rx_nullable r"
| "rx_match r (c # s) = rx_match (rx_deriv c r) s"

fun rx_prefix :: "rx \<Rightarrow> string \<Rightarrow> bool" where
  "rx_prefix r [] = rx_nullable r"
| "rx_prefix r (c # s) = (rx_nullable r \<or> rx_prefix (rx_deriv c r) s)"

fun rx_search :: "rx \<Rightarrow> string \<Rightarrow> bool" where
  "rx_search r [] = rx_prefix r []"
| "rx_search r (c # s) = (rx_prefix r (c # s) \<or> rx_search r s)"

text \<open>What the expressions denote, and that the matcher decides it.\<close>

inductive rx_lang :: "rx \<Rightarrow> string \<Rightarrow> bool" where
  eps: "rx_lang RxEps []"
| char: "p c \<Longrightarrow> rx_lang (RxChar p) [c]"
| seq: "rx_lang r s \<Longrightarrow> rx_lang q t \<Longrightarrow> rx_lang (RxSeq r q) (s @ t)"
| alt1: "rx_lang r s \<Longrightarrow> rx_lang (RxAlt r q) s"
| alt2: "rx_lang q s \<Longrightarrow> rx_lang (RxAlt r q) s"
| star0: "rx_lang (RxStar r) []"
| star1: "rx_lang r s \<Longrightarrow> rx_lang (RxStar r) t \<Longrightarrow> rx_lang (RxStar r) (s @ t)"

inductive_cases rx_lang_elims: "rx_lang RxNone s" "rx_lang RxEps s" "rx_lang (RxChar p) s" "rx_lang (RxSeq r q) s" "rx_lang (RxAlt r q) s"
inductive_cases rx_star_elim: "rx_lang (RxStar r) s"

lemma rx_lang_simps [simp]:
  "\<not> rx_lang RxNone s" "rx_lang RxEps s \<longleftrightarrow> s = []" "rx_lang (RxChar p) s \<longleftrightarrow> (\<exists>c. s = [c] \<and> p c)"
  "rx_lang (RxSeq r q) s \<longleftrightarrow> (\<exists>u v. s = u @ v \<and> rx_lang r u \<and> rx_lang q v)"
  "rx_lang (RxAlt r q) s \<longleftrightarrow> rx_lang r s \<or> rx_lang q s"
  by (auto elim!: rx_lang_elims intro: rx_lang.intros)

lemma rx_seq_lang [simp]: "rx_lang (rx_seq r q) s \<longleftrightarrow> rx_lang (RxSeq r q) s"
  by (auto simp: rx_seq_def split: rx.splits)

lemma rx_alt_lang [simp]: "rx_lang (rx_alt r q) s \<longleftrightarrow> rx_lang (RxAlt r q) s"
  by (auto simp: rx_alt_def split: rx.splits)

lemma rx_nullable_lang: "rx_nullable r \<longleftrightarrow> rx_lang r []"
  by (induction r) (auto intro: rx_lang.intros)

lemma rx_star_Cons:
  "rx_lang (RxStar r) (c # s) \<longleftrightarrow> (\<exists>u v. s = u @ v \<and> rx_lang r (c # u) \<and> rx_lang (RxStar r) v)"
proof
  have "rx_lang (RxStar r) w \<Longrightarrow> w = c # s \<Longrightarrow> \<exists>u v. s = u @ v \<and> rx_lang r (c # u) \<and> rx_lang (RxStar r) v" for w
    by (induction "RxStar r" w rule: rx_lang.induct) (auto simp: append_eq_Cons_conv)
  then show "rx_lang (RxStar r) (c # s) \<Longrightarrow> \<exists>u v. s = u @ v \<and> rx_lang r (c # u) \<and> rx_lang (RxStar r) v" by blast
  show "\<exists>u v. s = u @ v \<and> rx_lang r (c # u) \<and> rx_lang (RxStar r) v \<Longrightarrow> rx_lang (RxStar r) (c # s)"
    using rx_lang.star1 by (metis append_Cons)
qed

lemma rx_deriv_lang: "rx_lang (rx_deriv c r) s \<longleftrightarrow> rx_lang r (c # s)"
proof (induction r arbitrary: s)
  case (RxSeq r q)
  then show ?case by (auto simp: rx_nullable_lang Cons_eq_append_conv)
next
  case (RxStar r)
  then show ?case by (auto simp: rx_star_Cons)
qed auto

lemma rx_match_lang: "rx_match r s \<longleftrightarrow> rx_lang r s"
  by (induction s arbitrary: r) (auto simp: rx_nullable_lang rx_deriv_lang)

section \<open>Pieces of the expressions\<close>

definition rx_opt :: "rx \<Rightarrow> rx" where "rx_opt r = RxAlt r RxEps"

definition rx_plus :: "rx \<Rightarrow> rx" where "rx_plus r = RxSeq r (RxStar r)"

fun rx_exact :: "nat \<Rightarrow> rx \<Rightarrow> rx" where
  "rx_exact 0 r = RxEps"
| "rx_exact (Suc n) r = RxSeq r (rx_exact n r)"

fun rx_upto :: "nat \<Rightarrow> rx \<Rightarrow> rx" where
  "rx_upto 0 r = RxEps"
| "rx_upto (Suc n) r = rx_opt (RxSeq r (rx_upto n r))"

definition rx_between :: "nat \<Rightarrow> nat \<Rightarrow> rx \<Rightarrow> rx" where
  "rx_between m n r = RxSeq (rx_exact m r) (rx_upto (n - m) r)"

definition char_between :: "char \<Rightarrow> char \<Rightarrow> char \<Rightarrow> bool" where
  "char_between a b c \<longleftrightarrow> (of_char a :: nat) \<le> of_char c \<and> (of_char c :: nat) \<le> of_char b"

definition ascii_digit :: "char \<Rightarrow> bool" where "ascii_digit c \<longleftrightarrow> char_between CHR ''0'' CHR ''9'' c"

definition is_alnum :: "char \<Rightarrow> bool" where
  "is_alnum c \<longleftrightarrow> ascii_digit c \<or> char_between CHR ''a'' CHR ''z'' c \<or> char_between CHR ''A'' CHR ''Z'' c"

definition rx_lit :: "char \<Rightarrow> rx" where "rx_lit a = RxChar (\<lambda>c. c = a)"

definition rxPhone :: rx where
  "rxPhone = RxSeq (rx_lit CHR ''+'') (RxSeq (RxChar (char_between CHR ''1'' CHR ''9'')) (rx_between 9 14 (RxChar ascii_digit)))"

definition rxOTP :: rx where "rxOTP = rx_exact 6 (RxChar ascii_digit)"

definition is_email_char :: "char \<Rightarrow> bool" where
  "is_email_char c \<longleftrightarrow> is_alnum c \<or> c \<in> set ''.!#$%&*+/=?^_{|}~-'' \<or> c = CHR 0x27 \<or> c = CHR 0x60"

definition rx_domain_label :: rx where
  "rx_domain_label = RxSeq (RxChar is_alnum)
     (rx_opt (RxSeq (rx_upto 61 (RxChar (\<lambda>c. is_alnum c \<or> c = CHR ''-''))) (RxChar is_alnum)))"

definition rxEmail :: rx where
  "rxEmail = RxSeq (rx_plus (RxChar is_email_char)) (RxSeq (rx_lit CHR ''@'')
     (RxSeq rx_domain_label (RxStar (RxSeq (rx_lit CHR ''.'') rx_domain_label))))"

section \<open>Fields\<close>

definition ErrInvalidE164PhoneNumber :: go_error where
  "ErrInvalidE164PhoneNumber = Errorf ''the provided phone number is not a valid E.164 number''"
definition ErrEmptyPhoneNumber :: go_error where "ErrEmptyPhoneNumber = Errorf ''phone number cannot be empty''"
definition ErrEmptyEmail :: go_error where "ErrEmptyEmail = Errorf ''email field is required''"

definition ValidatePhoneNumber :: "sdp_env \<Rightarrow> string \<Rightarrow> go_error + unit" where
  "ValidatePhoneNumber env phoneNumberStr =
     (if TrimSpace phoneNumberStr = [] then Inl ErrEmptyPhoneNumber
      else if \<not> rx_match rxPhone phoneNumberStr then Inl ErrInvalidE164PhoneNumber
      else if \<not> phonenumbers_IsValidNumber env phoneNumberStr then Inl ErrInvalidE164PhoneNumber
      else Inr ())"

definition ValidateEmail :: "string \<Rightarrow> go_error + unit" where
  "ValidateEmail email =
     (if email = [] then Inl ErrEmptyEmail
      else if \<not> rx_match rxEmail email then Inl (Errorf ''the email address provided is not valid'') else Inr ())"

definition ValidateOTP :: "string \<Rightarrow> go_error + unit" where
  "ValidateOTP otp =
     (if otp = [] then Inl (Errorf ''otp cannot be empty'')
      else if \<not> rx_match rxOTP otp then Inl (Errorf ''the provided OTP is not a valid 6 digits value'') else Inr ())"

text \<open>\<open>utf8.RuneCountInString\<close> on valid UTF-8: the bytes that do not continue a character.\<close>

definition rune_count :: "string \<Rightarrow> nat" where
  "rune_count s = length (filter (\<lambda>c. (of_char c :: nat) div 64 \<noteq> 2) s)"

definition ValidateStringLength :: "string \<Rightarrow> nat \<Rightarrow> go_error + unit" where
  "ValidateStringLength field maxLength =
     (if TrimSpace field = [] then Inl (Errorf ''%s field is required'')
      else if rune_count field > maxLength then Inl (Errorf ''%s cannot exceed %d characters'')
      else Inr ())"

section \<open>Dates\<close>

text \<open>\<open>time.Parse\<close> for the layouts \<open>2006-01-02\<close> and \<open>2006-01\<close>: the date in UTC, in
  nanoseconds since the Unix epoch.\<close>

definition leap_year :: "nat \<Rightarrow> bool" where
  "leap_year y \<longleftrightarrow> y mod 4 = 0 \<and> (y mod 100 \<noteq> 0 \<or> y mod 400 = 0)"

definition days_in_month :: "nat \<Rightarrow> nat \<Rightarrow> nat" where
  "days_in_month y m = (if m = 2 then (if leap_year y then 29 else 28) else if m \<in> {4, 6, 9, 11} then 30 else 31)"

definition days_before_year :: "nat \<Rightarrow> int" where
  "days_before_year y = 365 * int y + int ((y + 3) div 4) - int ((y + 99) div 100) + int ((y + 399) div 400)"

fun days_before_month :: "nat \<Rightarrow> nat \<Rightarrow> nat" where
  "days_before_month y 0 = 0"
| "days_before_month y (Suc m) = (if m = 0 then 0 else days_before_month y m + days_in_month y m)"

definition date_UTC :: "nat \<Rightarrow> nat \<Rightarrow> nat \<Rightarrow> int" where
  "date_UTC y m d = (days_before_year y - days_before_year 1970 + int (days_before_month y m) + int d - 1) * time_Day"

definition ascii_digit_value :: "char \<Rightarrow> nat" where "ascii_digit_value c = of_char c - 48"

definition two_digits :: "char \<Rightarrow> char \<Rightarrow> nat option" where
  "two_digits a b = (if ascii_digit a \<and> ascii_digit b then Some (10 * ascii_digit_value a + ascii_digit_value b) else None)"

definition parse_year_month :: "string \<Rightarrow> (nat \<times> nat \<times> string) option" where
  "parse_year_month s = (case s of
     y1 # y2 # y3 # y4 # sep # m1 # m2 # rest \<Rightarrow>
       (case (two_digits y1 y2, two_digits y3 y4, two_digits m1 m2) of
          (Some hi, Some lo, Some m) \<Rightarrow>
            if sep = CHR ''-'' \<and> 1 \<le> m \<and> m \<le> 12 then Some (100 * hi + lo, m, rest) else None
        | _ \<Rightarrow> None)
   | _ \<Rightarrow> None)"

definition parse_date :: "string \<Rightarrow> int option" where
  "parse_date s = (case parse_year_month s of
     Some (y, m, [sep, d1, d2]) \<Rightarrow>
       (case two_digits d1 d2 of
          Some d \<Rightarrow> if sep = CHR ''-'' \<and> 1 \<le> d \<and> d \<le> days_in_month y m then Some (date_UTC y m d) else None
        | None \<Rightarrow> None)
   | _ \<Rightarrow> None)"

definition parse_month :: "string \<Rightarrow> int option" where
  "parse_month s = (case parse_year_month s of Some (y, m, []) \<Rightarrow> Some (date_UTC y m 1) | _ \<Rightarrow> None)"

section \<open>Verification values\<close>

text \<open>The validators return a code for the response and the error, if any.\<close>

definition ValidateDateOfBirthVerification :: "int \<Rightarrow> string \<Rightarrow> string \<times> go_error option" where
  "ValidateDateOfBirthVerification now dob =
     (if dob = [] then (''EXTRA_0'', Some (Errorf ''date of birth cannot be empty''))
      else (case parse_date dob of
          None \<Rightarrow> (''EXTRA_2'', Some (Errorf ''invalid date of birth format. Correct format: 1990-01-30''))
        | Some t \<Rightarrow> (if t > now then (''EXTRA_4'', Some (Errorf ''date of birth cannot be in the future'')) else ([], None))))"

definition ValidateYearMonthVerification :: "int \<Rightarrow> string \<Rightarrow> string \<times> go_error option" where
  "ValidateYearMonthVerification now yearMonth =
     (if yearMonth = [] then (''EXTRA_0'', Some (Errorf ''year/month cannot be empty''))
      else (case parse_month yearMonth of
          None \<Rightarrow> (''EXTRA_3'', Some (Errorf ''invalid year/month format. Correct format: 1990-12''))
        | Some t \<Rightarrow> (if t > now then (''EXTRA_4'', Some (Errorf ''year/month cannot be in the future'')) else ([], None))))"

definition VerificationFieldPinMinLength :: nat where "VerificationFieldPinMinLength = 4"
definition VerificationFieldPinMaxLength :: nat where "VerificationFieldPinMaxLength = 8"
definition VerificationFieldMaxIDLength :: nat where "VerificationFieldMaxIDLength = 50"

definition ValidatePinVerification :: "string \<Rightarrow> string \<times> go_error option" where
  "ValidatePinVerification pin =
     (if length pin < VerificationFieldPinMinLength \<or> length pin > VerificationFieldPinMaxLength
      then (''EXTRA_5'', Some (Errorf ''invalid pin length. Cannot have less than %d or more than %d characters in pin'')) else ([], None))"

definition ValidateNationalIDVerification :: "string \<Rightarrow> string \<times> go_error option" where
  "ValidateNationalIDVerification nationalID =
     (if nationalID = [] then (''EXTRA_0'', Some (Errorf ''national id cannot be empty''))
      else if length nationalID > VerificationFieldMaxIDLength
        then (''EXTRA_6'', Some (Errorf ''invalid national id. Cannot have more than %d characters in national id'')) else ([], None))"

section \<open>Paths\<close>

text \<open>The pattern of \<open>pathTraversalPattern\<close>, \<open>..\<close> as a whole path component, unanchored.\<close>

definition is_slash :: "char \<Rightarrow> bool" where "is_slash c \<longleftrightarrow> c = CHR ''/'' \<or> c = CHR 0x5C"

fun path_components :: "string \<Rightarrow> string list" where
  "path_components [] = [[]]"
| "path_components (c # s) =
     (if is_slash c then [] # path_components s else (case path_components s of [] \<Rightarrow> [[c]] | p # ps \<Rightarrow> (c # p) # ps))"

definition ValidatePathIsNotTraversal :: "string \<Rightarrow> go_error + unit" where
  "ValidatePathIsNotTraversal p =
     (if ''..'' \<in> set (path_components p) then Inl (Errorf ''path cannot contain path traversal'') else Inr ())"

section \<open>Contact types\<close>

definition GetAllReceiverContactTypes :: "ReceiverContactType list" where
  "GetAllReceiverContactTypes = [ReceiverContactTypeEmail, ReceiverContactTypeSMS]"

definition contact_type :: "ReceiverContactType \<Rightarrow> bool \<Rightarrow> RegistrationContactType" where
  "contact_type t w = \<lparr>rt_ReceiverContactType = t, rt_IncludesWalletAddress = w\<rparr>"

definition AllRegistrationContactTypes :: "RegistrationContactType list" where
  "AllRegistrationContactTypes =
     [contact_type ReceiverContactTypeEmail False, contact_type ReceiverContactTypeSMS False,
      contact_type ReceiverContactTypeEmail True, contact_type ReceiverContactTypeSMS True]"

definition wallet_suffix :: string where "wallet_suffix = ''_AND_WALLET_ADDRESS''"

definition RegistrationContactType_String :: "RegistrationContactType \<Rightarrow> string" where
  "RegistrationContactType_String rct =
     (if rt_IncludesWalletAddress rct then rt_ReceiverContactType rct @ wallet_suffix else rt_ReceiverContactType rct)"

definition HasSuffix :: "string \<Rightarrow> string \<Rightarrow> bool" where
  "HasSuffix s suffix \<longleftrightarrow> length suffix \<le> length s \<and> drop (length s - length suffix) s = suffix"

definition TrimSuffix :: "string \<Rightarrow> string \<Rightarrow> string" where
  "TrimSuffix s suffix = (if HasSuffix s suffix then take (length s - length suffix) s else s)"

definition RegistrationContactType_ParseFromString :: "string \<Rightarrow> go_error + RegistrationContactType" where
  "RegistrationContactType_ParseFromString input =
     (let s = ToUpper (TrimSpace input);
          rct = contact_type (TrimSuffix s wallet_suffix) (HasSuffix s wallet_suffix)
      in if rt_ReceiverContactType rct \<in> set GetAllReceiverContactTypes then Inr rct
         else Inl (Errorf ''unknown ReceiverContactType %q''))"

section \<open>HTML\<close>

text \<open>\<open>(?i)\<close>, \<open>\s\<close> and \<open>\b\<close> of the expressions: a letter of either case, the blanks of Go's
  expressions, and a match at the start of the text or after a character that is no word character.\<close>

definition rx_letters :: "string \<Rightarrow> rx" where
  "rx_letters s = foldr (\<lambda>a r. RxSeq (RxChar (\<lambda>c. to_lower_char c = a)) r) s RxEps"

definition rx_blank :: rx where "rx_blank = RxChar (\<lambda>c. (of_char c :: nat) \<in> {9, 10, 12, 13, 32})"

definition is_word :: "char \<Rightarrow> bool" where "is_word c \<longleftrightarrow> is_alnum c \<or> c = CHR ''_''"

definition rx_search_word :: "rx \<Rightarrow> string \<Rightarrow> bool" where
  "rx_search_word r s \<longleftrightarrow> rx_prefix r s \<or> rx_search (RxSeq (RxChar (\<lambda>c. \<not> is_word c)) r) s"

definition rxHTMLTag :: rx where
  "rxHTMLTag = RxSeq (rx_lit CHR ''<'') (RxSeq (RxStar rx_blank) (RxSeq (rx_opt (rx_lit CHR ''/'')) (RxSeq (RxStar rx_blank)
     (RxSeq (RxChar (\<lambda>c. char_between CHR ''a'' CHR ''z'' (to_lower_char c))) (RxSeq (RxStar (RxChar is_alnum))
       (RxSeq (rx_opt (RxSeq (rx_plus rx_blank) (RxStar (RxChar (\<lambda>c. c \<noteq> CHR ''>''))))) (rx_lit CHR ''>'')))))))"

definition rxJSScheme :: rx where
  "rxJSScheme = RxSeq (rx_letters ''javascript'') (RxSeq (RxStar rx_blank) (rx_lit CHR '':''))"

definition rxCSSExpr :: rx where
  "rxCSSExpr = RxSeq (rx_letters ''expression'') (RxSeq (RxStar rx_blank) (rx_lit CHR ''(''))"

definition has_active_content :: "string \<Rightarrow> bool" where
  "has_active_content s \<longleftrightarrow> rx_search rxHTMLTag s \<or> rx_search_word rxJSScheme s \<or> rx_search_word rxCSSExpr s"

text \<open>\<open>html.UnescapeString\<close> is a parameter.\<close>

definition ValidateNoHTML :: "(string \<Rightarrow> string) \<Rightarrow> string \<Rightarrow> go_error + unit" where
  "ValidateNoHTML unescape s =
     (if s = [] then Inr ()
      else if has_active_content s \<or> has_active_content (unescape s)
        then Inl (Errorf ''input contains HTML or active content'')
      else Inr ())"

section \<open>The collector of errors\<close>

text \<open>\<open>Validator.Errors\<close> maps a key to its last message; the keys and messages are in the order they were added.\<close>

record Validator =
  vl_Errors :: "(string \<times> string) list"
  vl_ErrorCodes :: "string list"

definition NewValidator :: Validator where "NewValidator = \<lparr>vl_Errors = [], vl_ErrorCodes = []\<rparr>"

definition HasErrors :: "Validator \<Rightarrow> bool" where "HasErrors v \<longleftrightarrow> vl_Errors v \<noteq> []"

definition AddError :: "string \<Rightarrow> string \<Rightarrow> Validator \<Rightarrow> Validator" where
  "AddError key message v = v\<lparr>vl_Errors := AList.update key message (vl_Errors v)\<rparr>"

definition Check :: "bool \<Rightarrow> string \<Rightarrow> string \<Rightarrow> Validator \<Rightarrow> Validator" where
  "Check b key message v = (if b then v else AddError key message v)"

definition CheckError :: "stellar_sdk \<Rightarrow> go_error option \<Rightarrow> string \<Rightarrow> string \<Rightarrow> Validator \<Rightarrow> Validator" where
  "CheckError sdk err key message v =
     (case err of None \<Rightarrow> v
      | Some e \<Rightarrow> AddError key (if message = [] then error_text sdk e else message) v)"

definition WithErrorCode :: "string \<Rightarrow> Validator \<Rightarrow> Validator" where
  "WithErrorCode code v = v\<lparr>vl_ErrorCodes := vl_ErrorCodes v @ [code]\<rparr>"

lemma HasErrors_AddError [simp]: "HasErrors (AddError k m v)"
  by (cases "vl_Errors v") (auto simp: HasErrors_def AddError_def)

lemma HasErrors_Check: "HasErrors (Check b k m v) \<longleftrightarrow> HasErrors v \<or> \<not> b"
  by (simp add: Check_def)

lemma HasErrors_CheckError: "HasErrors (CheckError sdk e k m v) \<longleftrightarrow> HasErrors v \<or> e \<noteq> None"
  by (simp add: CheckError_def split: option.splits)

end
