(* ===== verification/Receiver_Store.thy ===== *)
theory Receiver_Store
  imports Disbursement_Store Validation
begin

text \<open>
  The receivers of a tenant (\<open>src/internal/data/receivers.go\<close>), what they are verified by
  (\<open>receiver_verification.go\<close>) and their wallets (\<open>receivers_wallet.go\<close>): lookup, insertion and update, the
  one-time password of a wallet, its registration and its return to the ready status.
\<close>

section \<open>Receivers\<close>

definition ErrDuplicateEmail :: go_error where "ErrDuplicateEmail = Errorf ''email already in use''"
definition ErrDuplicatePhoneNumber :: go_error where "ErrDuplicatePhoneNumber = Errorf ''phone number already in use''"

definition receiver_of :: "receiver_row \<Rightarrow> Receiver" where
  "receiver_of r = \<lparr>rc_ID = rr_id r, rc_Email = nullable (rr_email r), rc_PhoneNumber = nullable (rr_phone_number r),
     rc_ExternalID = rr_external_id r, rc_RecipientName = nullable (rr_recipient_name r),
     rc_CurrencyType = nullable (rr_currency_type r)\<rparr>"

definition Receiver_ContactByType :: "Receiver \<Rightarrow> ReceiverContactType \<Rightarrow> string" where
  "Receiver_ContactByType r contactType =
     (if contactType = ReceiverContactTypeEmail then rc_Email r
      else if contactType = ReceiverContactTypeSMS then rc_PhoneNumber r else [])"

record ReceiverInsert =
  ri_PhoneNumber :: "string option"
  ri_Email :: "string option"
  ri_ExternalID :: "string option"
  ri_RecipientName :: "string option"
  ri_CurrencyType :: "string option"

definition inserted_receiver :: "ReceiverInsert \<Rightarrow> string \<Rightarrow> string \<Rightarrow> int \<Rightarrow> receiver_row" where
  "inserted_receiver i rid externalID now =
     \<lparr>rr_id = rid, rr_email = ri_Email i, rr_phone_number = ri_PhoneNumber i, rr_external_id = externalID,
      rr_recipient_name = ri_RecipientName i, rr_currency_type = ri_CurrencyType i, rr_created_at = now, rr_updated_at = now\<rparr>"

text \<open>The error of a statement that leaves the receivers in a state that the constraints refuse.\<close>

definition receivers_error :: "'z platform_scheme \<Rightarrow> go_error" where
  "receivers_error s' =
     (if \<not> distinct (lower_contacts rr_phone_number (receivers s')) then ConstraintViolation ''receiver_unique_phone_number''
      else if \<not> distinct (lower_contacts rr_email (receivers s')) then ConstraintViolation ''receiver_unique_email''
      else ConstraintViolation ''receivers'')"

definition duplicate_contact :: "string \<Rightarrow> ('s, go_error, 'a) prog \<Rightarrow> ('s, go_error, 'a) prog" where
  "duplicate_contact msg m = handleE m
     (\<lambda>e. if e = ConstraintViolation ''receiver_unique_email'' then throw ErrDuplicateEmail
          else if e = ConstraintViolation ''receiver_unique_phone_number'' then throw ErrDuplicatePhoneNumber
          else throw (Wrapf msg e)) ret"

definition ReceiverModel_Insert :: "ReceiverInsert \<Rightarrow> ('z platform_scheme, go_error, Receiver) prog" where
  "ReceiverModel_Insert i = duplicate_contact ''inserting receiver'' (db_call (\<lambda>s.
     case ri_ExternalID i of
       None \<Rightarrow> (Inl (ConstraintViolation ''external_id''), s)
     | Some externalID \<Rightarrow>
         let r = inserted_receiver i (conn_uuid s (conn_uuid_next s)) externalID (conn_now s);
             s' = s\<lparr>receivers := receivers s @ [r], conn_uuid_next := Suc (conn_uuid_next s)\<rparr>
         in if receivers_ok s' then (Inr (receiver_of r), s') else (Inl (receivers_error s'), s)))"

record ReceiverUpdate =
  ru_PhoneNumber :: "string option"
  ru_Email :: "string option"
  ru_ExternalID :: "string option"

definition ReceiverUpdate_IsEmpty :: "ReceiverUpdate \<Rightarrow> bool" where
  "ReceiverUpdate_IsEmpty ru \<longleftrightarrow> ru_Email ru = None \<and> ru_ExternalID ru = None \<and> ru_PhoneNumber ru = None"

definition ReceiverUpdate_Validate :: "sdp_env \<Rightarrow> ReceiverUpdate \<Rightarrow> go_error + unit" where
  "ReceiverUpdate_Validate env ru =
     (if ReceiverUpdate_IsEmpty ru then Inl (Errorf ''no values provided to update receiver'')
      else (case (case ru_Email ru of None \<Rightarrow> Inr () | Some e \<Rightarrow> ValidateEmail e) of
          Inl e \<Rightarrow> Inl (Wrapf ''validating email'' e)
        | Inr _ \<Rightarrow> (case (case ru_PhoneNumber ru of None \<Rightarrow> Inr () | Some p \<Rightarrow> ValidatePhoneNumber env p) of
            Inl e \<Rightarrow> Inl (Wrapf ''validating phone number'' e)
          | Inr _ \<Rightarrow> Inr ())))"

definition set_receiver :: "ReceiverUpdate \<Rightarrow> int \<Rightarrow> receiver_row \<Rightarrow> receiver_row" where
  "set_receiver u now r = r
     \<lparr>rr_phone_number := (case ru_PhoneNumber u of None \<Rightarrow> rr_phone_number r | Some p \<Rightarrow> Some p),
      rr_email := (case ru_Email u of None \<Rightarrow> rr_email r | Some e \<Rightarrow> Some e),
      rr_external_id := (case ru_ExternalID u of None \<Rightarrow> rr_external_id r | Some x \<Rightarrow> x),
      rr_updated_at := now\<rparr>"

definition ReceiverModel_Update :: "sdp_env \<Rightarrow> string \<Rightarrow> ReceiverUpdate \<Rightarrow> ('z platform_scheme, go_error, unit) prog" where
  "ReceiverModel_Update env receiverID receiverUpdate =
     (case ReceiverUpdate_Validate env receiverUpdate of
        Inl e \<Rightarrow> throw (Wrapf ''validating receiver update'' e)
      | Inr _ \<Rightarrow> duplicate_contact ''updating receiver'' (db_call (\<lambda>s.
          let s' = s\<lparr>receivers := sql_update (\<lambda>r. rr_id r = receiverID) (set_receiver receiverUpdate (conn_now s)) (receivers s)\<rparr>
          in if receivers_ok s' then (Inr (), s') else (Inl (receivers_error s'), s))))"

definition has_contact :: "string list \<Rightarrow> receiver_row \<Rightarrow> bool" where
  "has_contact contacts r \<longleftrightarrow>
     (case rr_phone_number r of None \<Rightarrow> False | Some p \<Rightarrow> p \<in> set contacts) \<or>
     (case rr_email r of None \<Rightarrow> False | Some e \<Rightarrow> e \<in> set contacts)"

definition ReceiverModel_GetByContacts :: "string list \<Rightarrow> ('z platform_scheme, go_error, Receiver list) prog" where
  "ReceiverModel_GetByContacts contacts =
     (if contacts = [] then ret []
      else wrapE ''fetching receivers by phone numbers or email''
        (db_call (getsE (\<lambda>s. map receiver_of (filter (has_contact contacts) (receivers s))))))"

definition ReceiverModel_GetByWalletAddress :: "string \<Rightarrow> ('z platform_scheme, go_error, Receiver) prog" where
  "ReceiverModel_GetByWalletAddress walletAddress =
     bindE (wrapE ''querying receiver by wallet address %s'' (db_call (getsE (\<lambda>s. map receiver_of
       (filter (\<lambda>r. list_ex (\<lambda>w. rw_receiver_id w = rr_id r \<and> rw_StellarAddress w = walletAddress \<and>
          rw_Status w = RegisteredReceiversWalletStatus) (receiver_wallets s)) (receivers s)))))) (\<lambda>rs.
     case rs of [] \<Rightarrow> throw ErrRecordNotFound | [r] \<Rightarrow> ret r
     | _ \<Rightarrow> throw (Errorf ''multiple receivers found with wallet address %s''))"

text \<open>
  \<open>DeleteByContactInfo\<close> deletes the rows of the receiver in seven tables and then the disbursements whose id
  is not in the list of the remaining payments' disbursement ids; with a null in that list \<open>NOT IN\<close> holds of
  nothing. The messages and the rows of Circle are not part of the state, their statements can only fail.
\<close>

definition delete_exec :: "('z platform_scheme \<Rightarrow> 'z platform_scheme) \<Rightarrow> ('z platform_scheme, go_error, unit) prog" where
  "delete_exec f = wrapE ''executing query %q'' (db_call (\<lambda>s.
     if payments_ok (f s) \<and> receiver_verifications_ok (f s) \<and> receiver_wallets_ok (f s) then (Inr (), f s)
     else (Inl (ConstraintViolation ''violates foreign key constraint''), s)))"

definition without_payments :: "payment_row list \<Rightarrow> disbursement_row \<Rightarrow> bool" where
  "without_payments ps d \<longleftrightarrow> list_all (\<lambda>p. case pm_disbursement_id p of None \<Rightarrow> False | Some i \<Rightarrow> i \<noteq> ds_ID d) ps"

definition delete_receiver_body :: "string \<Rightarrow> ('z platform_scheme, go_error, unit) prog" where
  "delete_receiver_body contactInfo =
     bindE (handleE (get_first (db_call (getsE (\<lambda>s. map rr_id (filter (has_contact [contactInfo]) (receivers s))))))
       (\<lambda>e. if error_is e ErrNoRows then throw ErrRecordNotFound else throw (Wrapf ''fetching receiver by contact info %s'' e)) ret)
     (\<lambda>receiverID.
     bindE (delete_exec (\<lambda>s. s)) (\<lambda>_.
     bindE (delete_exec (\<lambda>s. s\<lparr>receiver_verifications := filter (\<lambda>v. rv_ReceiverID v \<noteq> receiverID) (receiver_verifications s)\<rparr>)) (\<lambda>_.
     bindE (delete_exec (\<lambda>s. s)) (\<lambda>_.
     bindE (delete_exec (\<lambda>s. s)) (\<lambda>_.
     bindE (delete_exec (\<lambda>s. s\<lparr>payments := filter (\<lambda>p. pm_receiver_id p \<noteq> receiverID) (payments s)\<rparr>)) (\<lambda>_.
     bindE (delete_exec (\<lambda>s. s\<lparr>receiver_wallets := filter (\<lambda>w. rw_receiver_id w \<noteq> receiverID) (receiver_wallets s)\<rparr>)) (\<lambda>_.
     bindE (delete_exec (\<lambda>s. s\<lparr>receivers := filter (\<lambda>r. rr_id r \<noteq> receiverID) (receivers s)\<rparr>)) (\<lambda>_.
     delete_exec (\<lambda>s. s\<lparr>disbursements := filter (\<lambda>d. \<not> without_payments (payments s) d) (disbursements s)\<rparr>)))))))))"

definition ReceiverModel_DeleteByContactInfo :: "string \<Rightarrow> ('z platform_scheme, go_error, unit) prog" where
  "ReceiverModel_DeleteByContactInfo contactInfo = RunInTransaction sdp_rollback (delete_receiver_body contactInfo)"

section \<open>Verifications\<close>

definition MaxAttemptsAllowed :: int where "MaxAttemptsAllowed = 15"

definition ExceededAttempts :: "int \<Rightarrow> bool" where "ExceededAttempts attempts \<longleftrightarrow> attempts \<ge> MaxAttemptsAllowed"

definition ConfirmedByTypeReceiver :: string where "ConfirmedByTypeReceiver = ''RECEIVER''"
definition ConfirmedByTypeUser :: string where "ConfirmedByTypeUser = ''USER''"

definition HashVerificationValue :: "sdp_env \<Rightarrow> string \<Rightarrow> ('z platform_scheme, go_error, string) prog" where
  "HashVerificationValue env verificationValue =
     bindE (net_call (\<lambda>n. bcrypt_GenerateFromPassword env n verificationValue)) (\<lambda>r.
     wrapE ''error hashing verification value'' (liftE r))"

definition CompareVerificationValue :: "sdp_env \<Rightarrow> string \<Rightarrow> string \<Rightarrow> bool" where
  "CompareVerificationValue env hashedValue verificationValue = bcrypt_CompareHashAndPassword env hashedValue verificationValue"

record ReceiverVerificationInsert =
  vi_ReceiverID :: string
  vi_VerificationField :: VerificationType
  vi_VerificationValue :: string

definition ReceiverVerificationInsert_Validate :: "ReceiverVerificationInsert \<Rightarrow> go_error + unit" where
  "ReceiverVerificationInsert_Validate rvi =
     (if TrimSpace (vi_ReceiverID rvi) = [] then Inl (Errorf ''receiver id is required'')
      else if vi_VerificationField rvi = [] then Inl (Errorf ''verification field is required'')
      else if TrimSpace (vi_VerificationValue rvi) = [] then Inl (Errorf ''verification value is required'')
      else Inr ())"

definition of_verification :: "string \<Rightarrow> VerificationType \<Rightarrow> ReceiverVerification \<Rightarrow> bool" where
  "of_verification receiverID field v \<longleftrightarrow> rv_ReceiverID v = receiverID \<and> rv_VerificationField v = field"

definition new_verification :: "string \<Rightarrow> VerificationType \<Rightarrow> string \<Rightarrow> int \<Rightarrow> ReceiverVerification" where
  "new_verification receiverID field hashedValue now =
     \<lparr>rv_ReceiverID = receiverID, rv_VerificationField = field, rv_HashedValue = hashedValue, rv_Attempts = 0,
      rv_ConfirmedByType = None, rv_ConfirmedByID = None, rv_ConfirmedAt = None, rv_FailedAt = None,
      rv_VerificationChannel = None, rv_UpdatedAt = now\<rparr>"

definition rv_write :: "('z platform_scheme \<Rightarrow> 'z platform_scheme) \<Rightarrow> ('z platform_scheme, go_error, unit) prog" where
  "rv_write f = db_call (\<lambda>s. if receiver_verifications_ok (f s) then (Inr (), f s)
     else (Inl (ConstraintViolation ''receiver_verifications''), s))"

definition rv_touched :: "(int \<Rightarrow> ReceiverVerification \<Rightarrow> ReceiverVerification) \<Rightarrow> int \<Rightarrow> ReceiverVerification \<Rightarrow> ReceiverVerification" where
  "rv_touched f now v = (f now v)\<lparr>rv_UpdatedAt := now\<rparr>"

definition rv_update :: "(ReceiverVerification \<Rightarrow> bool) \<Rightarrow> (int \<Rightarrow> ReceiverVerification \<Rightarrow> ReceiverVerification) \<Rightarrow>
    'z platform_scheme \<Rightarrow> 'z platform_scheme" where
  "rv_update P f s = s\<lparr>receiver_verifications := sql_update P (rv_touched f (conn_now s)) (receiver_verifications s)\<rparr>"

definition ReceiverVerificationModel_GetByReceiverIDsAndVerificationField ::
  "string list \<Rightarrow> VerificationType \<Rightarrow> ('z platform_scheme, go_error, ReceiverVerification list) prog" where
  "ReceiverVerificationModel_GetByReceiverIDsAndVerificationField receiverIds verificationField =
     wrapE ''error querying receiver verifications'' (db_call (getsE (\<lambda>s.
       filter (\<lambda>v. rv_ReceiverID v \<in> set receiverIds \<and> rv_VerificationField v = verificationField) (receiver_verifications s))))"

definition ReceiverVerificationModel_GetAllByReceiverID ::
  "string \<Rightarrow> ('z platform_scheme, go_error, ReceiverVerification list) prog" where
  "ReceiverVerificationModel_GetAllByReceiverID receiverID =
     wrapE ''error querying receiver verifications'' (db_call (getsE (\<lambda>s.
       filter (\<lambda>v. rv_ReceiverID v = receiverID) (receiver_verifications s))))"

text \<open>The order of the enumeration of the database: the values as the migrations added them.\<close>

definition verification_field_order :: "VerificationType \<Rightarrow> int" where
  "verification_field_order f = int (length (takeWhile (\<lambda>g. g \<noteq> f)
     [VerificationTypeDateOfBirth, VerificationTypePin, VerificationTypeNationalID, VerificationTypeYearMonth]))"

definition ReceiverVerificationModel_GetLatestByContactInfo ::
  "string \<Rightarrow> ('z platform_scheme, go_error, ReceiverVerification) prog" where
  "ReceiverVerificationModel_GetLatestByContactInfo contactInfo = handleE
     (get_first (db_call (getsE (\<lambda>s.
        sql_order_by (\<lambda>v. (- rv_UpdatedAt v, verification_field_order (rv_VerificationField v)))
          (filter (\<lambda>v. list_ex (\<lambda>r. rr_id r = rv_ReceiverID v \<and> has_contact [contactInfo] r) (receivers s)) (receiver_verifications s))))))
     (\<lambda>e. if error_is e ErrNoRows then throw ErrRecordNotFound
          else throw (Wrapf ''fetching receiver verifications for contact info %s'' e)) ret"

definition ReceiverVerificationModel_Insert ::
  "sdp_env \<Rightarrow> ReceiverVerificationInsert \<Rightarrow> ('z platform_scheme, go_error, string) prog" where
  "ReceiverVerificationModel_Insert env verificationInsert =
     (case ReceiverVerificationInsert_Validate verificationInsert of
        Inl e \<Rightarrow> throw (Wrapf ''error validating receiver verification insert'' e)
      | Inr _ \<Rightarrow>
          bindE (wrapE ''error hashing verification value'' (HashVerificationValue env (vi_VerificationValue verificationInsert))) (\<lambda>hashedValue.
          bindE (wrapE ''error inserting receiver verification'' (rv_write (\<lambda>s. s\<lparr>receiver_verifications := receiver_verifications s @
            [new_verification (vi_ReceiverID verificationInsert) (vi_VerificationField verificationInsert) hashedValue (conn_now s)]\<rparr>))) (\<lambda>_.
          ret hashedValue)))"

definition ReceiverVerificationModel_UpdateVerificationValue ::
  "sdp_env \<Rightarrow> string \<Rightarrow> VerificationType \<Rightarrow> string \<Rightarrow> ('z platform_scheme, go_error, unit) prog" where
  "ReceiverVerificationModel_UpdateVerificationValue env receiverID verificationField verificationValue =
     bindE (wrapE ''error hashing verification value'' (HashVerificationValue env verificationValue)) (\<lambda>hashedValue.
     wrapE ''error updating receiver verification''
       (rv_write (rv_update (of_verification receiverID verificationField) (\<lambda>now v. v\<lparr>rv_HashedValue := hashedValue\<rparr>))))"

definition upserted :: "string \<Rightarrow> string \<Rightarrow> ReceiverVerification \<Rightarrow> ReceiverVerification" where
  "upserted userID hashedValue v = v\<lparr>rv_HashedValue := hashedValue, rv_Attempts := 0,
     rv_ConfirmedByType := (if rv_ConfirmedAt v \<noteq> None then Some ConfirmedByTypeUser else rv_ConfirmedByType v),
     rv_ConfirmedByID := (if rv_ConfirmedAt v \<noteq> None then Some userID else rv_ConfirmedByID v)\<rparr>"

definition ReceiverVerificationModel_UpsertVerificationValue ::
  "sdp_env \<Rightarrow> string \<Rightarrow> string \<Rightarrow> VerificationType \<Rightarrow> string \<Rightarrow> ('z platform_scheme, go_error, unit) prog" where
  "ReceiverVerificationModel_UpsertVerificationValue env userID receiverID verificationField verificationValue =
     bindE (wrapE ''hashing verification value'' (HashVerificationValue env verificationValue)) (\<lambda>hashedValue.
     wrapE ''upserting receiver verification'' (rv_write (\<lambda>s.
       if list_ex (of_verification receiverID verificationField) (receiver_verifications s)
       then rv_update (of_verification receiverID verificationField) (\<lambda>now. upserted userID hashedValue) s
       else s\<lparr>receiver_verifications := receiver_verifications s @ [new_verification receiverID verificationField hashedValue (conn_now s)]\<rparr>)))"

record ReceiverVerificationUpdate =
  vu_ReceiverID :: string
  vu_VerificationField :: VerificationType
  vu_VerificationChannel :: string
  vu_Attempts :: "int option"
  vu_ConfirmedAt :: "int option"
  vu_ConfirmedByType :: string
  vu_ConfirmedByID :: string
  vu_FailedAt :: "int option"

definition ReceiverVerificationUpdate_Validate :: "ReceiverVerificationUpdate \<Rightarrow> go_error + unit" where
  "ReceiverVerificationUpdate_Validate rvu =
     (if TrimSpace (vu_ReceiverID rvu) = [] then Inl (Errorf ''receiver id is required'')
      else if vu_VerificationField rvu = [] then Inl (Errorf ''verification field is required'')
      else if vu_VerificationChannel rvu = [] then Inl (Errorf ''verification channel is required'')
      else Inr ())"

definition set_verification :: "ReceiverVerificationUpdate \<Rightarrow> int \<Rightarrow> ReceiverVerification \<Rightarrow> ReceiverVerification" where
  "set_verification u now v = v
     \<lparr>rv_Attempts := (case vu_Attempts u of None \<Rightarrow> rv_Attempts v | Some a \<Rightarrow> a),
      rv_ConfirmedAt := (case vu_ConfirmedAt u of None \<Rightarrow> rv_ConfirmedAt v | Some t \<Rightarrow> Some t),
      rv_ConfirmedByID := (if vu_ConfirmedByID u = [] then rv_ConfirmedByID v else Some (vu_ConfirmedByID u)),
      rv_ConfirmedByType := (if vu_ConfirmedByType u = [] then rv_ConfirmedByType v else Some (vu_ConfirmedByType u)),
      rv_FailedAt := (case vu_FailedAt u of None \<Rightarrow> rv_FailedAt v | Some t \<Rightarrow> Some t),
      rv_VerificationChannel := Some (vu_VerificationChannel u)\<rparr>"

text \<open>With no field to set the statement begins with a comma, which the database refuses.\<close>

definition sets_nothing :: "ReceiverVerificationUpdate \<Rightarrow> bool" where
  "sets_nothing u \<longleftrightarrow> vu_Attempts u = None \<and> vu_ConfirmedAt u = None \<and> vu_ConfirmedByID u = [] \<and>
     vu_ConfirmedByType u = [] \<and> vu_FailedAt u = None"

definition ReceiverVerificationModel_UpdateReceiverVerification ::
  "ReceiverVerificationUpdate \<Rightarrow> ('z platform_scheme, go_error, unit) prog" where
  "ReceiverVerificationModel_UpdateReceiverVerification update =
     (case ReceiverVerificationUpdate_Validate update of
        Inl e \<Rightarrow> throw (Wrapf ''validating receiver verification update'' e)
      | Inr _ \<Rightarrow> wrapE ''updating receiver verification''
          (if sets_nothing update then db_call (throw DriverError)
           else rv_write (rv_update (of_verification (vu_ReceiverID update) (vu_VerificationField update)) (set_verification update))))"

end
