(* ===== verification/Receiver_Wallet_Store.thy ===== *)
theory Receiver_Wallet_Store
  imports Receiver_Store
begin

text \<open>
  The wallets of the receivers (\<open>src/internal/data/receivers_wallet.go\<close>): the queries, the one-time password, the
  update that registers a wallet, and the return of a registered wallet to the ready status.
\<close>

section \<open>Errors\<close>

definition ErrWalletNotRegistered :: go_error where "ErrWalletNotRegistered = Errorf ''receiver wallet not registered''"
definition ErrPaymentsInProgressForWallet :: go_error where
  "ErrPaymentsInProgressForWallet = Errorf ''receiver wallet has payments in progress''"
definition ErrUnregisterUserManagedWallet :: go_error where
  "ErrUnregisterUserManagedWallet = Errorf ''user managed wallet cannot be unregistered''"
definition ErrDuplicateWalletAddress :: go_error where "ErrDuplicateWalletAddress = Errorf ''wallet address already in use''"
definition ErrMemosNotSupportedForContractAddresses :: go_error where
  "ErrMemosNotSupportedForContractAddresses = Errorf ''memos are not supported for contract addresses''"

section \<open>Queries\<close>

text \<open>A receiver wallet joined with its wallet.\<close>

definition with_wallet :: "'z platform_scheme \<Rightarrow> ReceiverWallet \<Rightarrow> (ReceiverWallet \<times> Wallet) option" where
  "with_wallet s rw = map_option (Pair rw) (List.find (\<lambda>w. wl_ID w = rw_wallet_id rw) (wallets s))"

definition joined_wallets :: "'z platform_scheme \<Rightarrow> (ReceiverWallet \<times> Wallet) list" where
  "joined_wallets s = List.map_filter (with_wallet s) (receiver_wallets s)"

definition query_wallet ::
  "(ReceiverWallet \<times> Wallet \<Rightarrow> bool) \<Rightarrow> ('z platform_scheme, go_error, ReceiverWallet \<times> Wallet) prog" where
  "query_wallet P = get_first (db_call (getsE (\<lambda>s. filter P (joined_wallets s))))"

definition not_found_as :: "go_error \<Rightarrow> string \<Rightarrow> ('s, go_error, 'a) prog \<Rightarrow> ('s, go_error, 'a) prog" where
  "not_found_as nf msg m = handleE m (\<lambda>e. if error_is e ErrNoRows then throw nf else throw (Wrapf msg e)) ret"

definition ReceiverWalletModel_GetByID :: "string \<Rightarrow> ('z platform_scheme, go_error, ReceiverWallet \<times> Wallet) prog" where
  "ReceiverWalletModel_GetByID rwID =
     not_found_as ErrRecordNotFound ''querying receiver wallet'' (query_wallet (\<lambda>(rw, w). rw_ID rw = rwID))"

definition ReceiverWalletModel_GetByIDs :: "string list \<Rightarrow> ('z platform_scheme, go_error, (ReceiverWallet \<times> Wallet) list) prog" where
  "ReceiverWalletModel_GetByIDs ids =
     (if ids = [] then throw (Errorf ''no receiver wallet IDs provided'')
      else wrapE ''querying receiver wallet'' (db_call (getsE (\<lambda>s. filter (\<lambda>(rw, w). rw_ID rw \<in> set ids) (joined_wallets s)))))"

definition ReceiverWalletModel_GetByReceiverIDsAndWalletID ::
  "string list \<Rightarrow> string \<Rightarrow> ('z platform_scheme, go_error, ReceiverWallet list) prog" where
  "ReceiverWalletModel_GetByReceiverIDsAndWalletID receiverIds walletID =
     wrapE ''error querying receiver wallets'' (db_call (getsE (\<lambda>s.
       filter (\<lambda>rw. rw_receiver_id rw \<in> set receiverIds \<and> rw_wallet_id rw = walletID) (receiver_wallets s))))"

definition ReceiverWalletModel_GetBySEP24TransactionIDAndAccount ::
  "string \<Rightarrow> string \<Rightarrow> string \<Rightarrow> ('z platform_scheme, go_error, ReceiverWallet) prog" where
  "ReceiverWalletModel_GetBySEP24TransactionIDAndAccount transactionID stellarAccount stellarMemo =
     not_found_as ErrRecordNotFound ''error querying receiver wallet by transaction ID'' (get_first (db_call (getsE (\<lambda>s.
       filter (\<lambda>rw. rw_SEP24TransactionID rw = Some transactionID \<and>
         (rw_StellarAddress rw = [] \<or> rw_StellarAddress rw = stellarAccount \<and> rw_StellarMemo rw = stellarMemo))
         (receiver_wallets s)))))"

text \<open>The wallets that are ready and have a payment of a disbursement in their wallet's kind.\<close>

definition pending_registration :: "'z platform_scheme \<Rightarrow> (disbursement_row \<Rightarrow> bool) \<Rightarrow> ReceiverWallet \<Rightarrow> bool" where
  "pending_registration s D rw \<longleftrightarrow> rw_Status rw = ReadyReceiversWalletStatus \<and>
     list_ex (\<lambda>r. rr_id r = rw_receiver_id rw) (receivers s) \<and> list_ex (\<lambda>w. wl_ID w = rw_wallet_id rw) (wallets s) \<and>
     list_ex (\<lambda>d. ds_wallet_id d = rw_wallet_id rw \<and> D d \<and>
       list_ex (\<lambda>p. pm_disbursement_id p = Some (ds_ID d) \<and> pm_receiver_id p = rw_receiver_id rw) (payments s)) (disbursements s)"

definition ReceiverWalletModel_GetAllPendingRegistrations :: "('z platform_scheme, go_error, ReceiverWallet list) prog" where
  "ReceiverWalletModel_GetAllPendingRegistrations =
     wrapE ''error querying pending registration receiver wallets'' (db_call (getsE (\<lambda>s.
       filter (pending_registration s (\<lambda>_. True)) (receiver_wallets s))))"

definition ReceiverWalletModel_GetAllPendingRegistrationByReceiverWalletIDs ::
  "string list \<Rightarrow> ('z platform_scheme, go_error, ReceiverWallet list) prog" where
  "ReceiverWalletModel_GetAllPendingRegistrationByReceiverWalletIDs receiverWalletIDs =
     wrapE ''error querying pending registration receiver wallets'' (db_call (getsE (\<lambda>s.
       filter (\<lambda>rw. pending_registration s (\<lambda>_. True) rw \<and> rw_ID rw \<in> set receiverWalletIDs) (receiver_wallets s))))"

definition ReceiverWalletModel_GetAllPendingRegistrationByDisbursementID ::
  "string \<Rightarrow> ('z platform_scheme, go_error, ReceiverWallet list) prog" where
  "ReceiverWalletModel_GetAllPendingRegistrationByDisbursementID disbursementID =
     wrapE ''error querying pending registration receiver wallets for disbursement ID %s'' (db_call (getsE (\<lambda>s.
       filter (pending_registration s (\<lambda>d. ds_ID d = disbursementID)) (receiver_wallets s))))"

definition ReceiverWalletModel_GetByReceiverIDAndWalletDomain ::
  "string \<Rightarrow> string \<Rightarrow> ('z platform_scheme, go_error, ReceiverWallet \<times> Wallet) prog" where
  "ReceiverWalletModel_GetByReceiverIDAndWalletDomain receiverID walletDomain =
     wrapE ''error querying receiver wallet''
       (query_wallet (\<lambda>(rw, w). rw_receiver_id rw = receiverID \<and> wl_SEP10ClientDomain w = walletDomain))"

definition ReceiverWalletModel_GetByStellarAccountAndMemo ::
  "string \<Rightarrow> string \<Rightarrow> string option \<Rightarrow> ('z platform_scheme, go_error, ReceiverWallet \<times> Wallet) prog" where
  "ReceiverWalletModel_GetByStellarAccountAndMemo stellarAccount clientDomain stellarMemo =
     not_found_as (Wrapf ''no receiver wallet could be found in GetByStellarAccountAndMemo'' ErrRecordNotFound) ''error querying receiver wallet''
       (query_wallet (\<lambda>(rw, w). rw_StellarAddress rw = stellarAccount \<and>
          (clientDomain \<noteq> [] \<longrightarrow> wl_SEP10ClientDomain w = clientDomain) \<and>
          (case stellarMemo of None \<Rightarrow> True | Some m \<Rightarrow> rw_StellarMemo rw = m)))"

definition ReceiverWalletModel_HasPaymentsInProgress :: "string \<Rightarrow> ('z platform_scheme, go_error, bool) prog" where
  "ReceiverWalletModel_HasPaymentsInProgress receiverWalletID =
     wrapE ''checking payments in progress for receiver wallet'' (db_call (getsE (\<lambda>s.
       list_ex (\<lambda>p. pm_receiver_wallet_id p = receiverWalletID \<and> pm_Status p \<in> set PaymentInProgressStatuses) (payments s))))"

section \<open>Insertion\<close>

record ReceiverWalletInsert =
  wi_ReceiverID :: string
  wi_WalletID :: string

definition inserted_wallet :: "ReceiverWalletInsert \<Rightarrow> string \<Rightarrow> int \<Rightarrow> ReceiverWallet" where
  "inserted_wallet i rwID now =
     \<lparr>rw_ID = rwID, rw_receiver_id = wi_ReceiverID i, rw_wallet_id = wi_WalletID i, rw_StellarAddress = [], rw_StellarMemo = [],
      rw_StellarMemoType = [], rw_Status = DraftReceiversWalletStatus,
      rw_StatusHistory = [\<lparr>rh_Status = DraftReceiversWalletStatus, rh_Timestamp = now\<rparr>], rw_SEP24TransactionID = None,
      rw_OTP = [], rw_OTPAttempts = 0, rw_OTPCreatedAt = None, rw_OTPConfirmedAt = None, rw_OTPConfirmedWith = [],
      rw_InvitationSentAt = None, rw_UpdatedAt = now\<rparr>"

definition ReceiverWalletModel_GetOrInsertReceiverWallet :: "ReceiverWalletInsert \<Rightarrow> ('z platform_scheme, go_error, string) prog" where
  "ReceiverWalletModel_GetOrInsertReceiverWallet i = wrapE ''error inserting receiver wallet'' (db_call (\<lambda>s.
     let rw = inserted_wallet i (conn_uuid s (conn_uuid_next s)) (conn_now s);
         s' = s\<lparr>receiver_wallets := receiver_wallets s @ [rw], conn_uuid_next := Suc (conn_uuid_next s)\<rparr>
     in if receiver_wallets_ok s' then (Inr (rw_ID rw), s') else (Inl (ConstraintViolation ''receiver_wallets''), s)))"

section \<open>Updates\<close>

text \<open>A statement on the receiver wallets whose condition may look at the other tables.\<close>

definition rw_update_where ::
  "('z platform_scheme \<Rightarrow> ReceiverWallet \<Rightarrow> bool) \<Rightarrow> (int \<Rightarrow> ReceiverWallet \<Rightarrow> ReceiverWallet) \<Rightarrow>
   ('z platform_scheme, go_error, ReceiverWallet list) prog" where
  "rw_update_where P f = db_call (\<lambda>s.
     let g = rw_touched f (conn_now s); s' = s\<lparr>receiver_wallets := sql_update (P s) g (receiver_wallets s)\<rparr>
     in if receiver_wallets_ok s' then (Inr (map g (filter (P s) (receiver_wallets s))), s')
        else (Inl (ConstraintViolation (if one_owner (receiver_wallets s') then ''receiver_wallets'' else ''already belongs to another receiver'')), s))"

definition set_otp :: "string \<Rightarrow> int \<Rightarrow> ReceiverWallet \<Rightarrow> ReceiverWallet" where
  "set_otp otp now rw = rw\<lparr>rw_OTP := otp, rw_OTPCreatedAt := Some now, rw_OTPAttempts := 0\<rparr>"

definition otp_wanted :: "string \<Rightarrow> string \<Rightarrow> 'z platform_scheme \<Rightarrow> ReceiverWallet \<Rightarrow> bool" where
  "otp_wanted contactInfo clientDomain s rw \<longleftrightarrow> rw_OTPConfirmedAt rw = None \<and>
     list_ex (\<lambda>r. rr_id r = rw_receiver_id rw \<and> has_contact [contactInfo] r) (receivers s) \<and>
     list_ex (\<lambda>w. wl_ID w = rw_wallet_id rw \<and> wl_SEP10ClientDomain w = clientDomain) (wallets s)"

definition ReceiverWalletModel_UpdateOTPByReceiverContactInfoAndWalletDomain ::
  "string \<Rightarrow> string \<Rightarrow> string \<Rightarrow> ('z platform_scheme, go_error, int) prog" where
  "ReceiverWalletModel_UpdateOTPByReceiverContactInfoAndWalletDomain receiverContactInfo sep10ClientDomain otp =
     bindE (wrapE ''updating receiver wallets otp'' (rw_update_where (otp_wanted receiverContactInfo sep10ClientDomain) (set_otp otp)))
       (\<lambda>rws. ret (int (length rws)))"

definition ReceiverWalletModel_RetryInvitationMessage :: "string \<Rightarrow> ('z platform_scheme, go_error, ReceiverWallet) prog" where
  "ReceiverWalletModel_RetryInvitationMessage receiverWalletID =
     not_found_as ErrRecordNotFound ''updating receiver wallet'' (get_first
       (rw_update_where (\<lambda>_ rw. rw_ID rw = receiverWalletID \<and> rw_Status rw = ReadyReceiversWalletStatus) (\<lambda>now rw. rw\<lparr>rw_InvitationSentAt := None\<rparr>)))"

definition ReceiverWalletModel_UpdateInvitationSentAt :: "string list \<Rightarrow> ('z platform_scheme, go_error, ReceiverWallet list) prog" where
  "ReceiverWalletModel_UpdateInvitationSentAt receiverWalletIDs =
     wrapE ''updating invitation sent at''
       (rw_update_where (\<lambda>_ rw. rw_ID rw \<in> set receiverWalletIDs \<and> rw_Status rw = ReadyReceiversWalletStatus) (\<lambda>now rw. rw\<lparr>rw_InvitationSentAt := Some now\<rparr>))"

record ReceiverWalletUpdate =
  wu_Status :: ReceiversWalletStatus
  wu_SEP24TransactionID :: string
  wu_StellarAddress :: string
  wu_StellarMemo :: "string option"
  wu_StellarMemoType :: "MemoType option"
  wu_OTPConfirmedAt :: "int option"
  wu_OTPConfirmedWith :: string
  wu_OTPAttempts :: "int option"

definition no_wallet_update :: ReceiverWalletUpdate where
  "no_wallet_update = \<lparr>wu_Status = [], wu_SEP24TransactionID = [], wu_StellarAddress = [], wu_StellarMemo = None,
     wu_StellarMemoType = None, wu_OTPConfirmedAt = None, wu_OTPConfirmedWith = [], wu_OTPAttempts = None\<rparr>"

definition ReceiverWalletUpdate_Validate :: "stellar_sdk \<Rightarrow> ReceiverWalletUpdate \<Rightarrow> go_error + unit" where
  "ReceiverWalletUpdate_Validate sdk rwu =
     (if rwu = no_wallet_update then Inl (Errorf ''no values provided to update receiver wallet'')
      else (case (if wu_Status rwu \<noteq> [] then ReceiversWalletStatus_Validate (wu_Status rwu) else Inr ()) of
          Inl e \<Rightarrow> Inl (Wrapf ''validating status'' e)
        | Inr _ \<Rightarrow>
            (if wu_StellarAddress rwu \<noteq> [] \<and> \<not> IsValidEd25519PublicKey sdk (wu_StellarAddress rwu) \<and> \<not> IsValidContractAddress sdk (wu_StellarAddress rwu)
               then Inl (Errorf ''invalid stellar address'')
             else if wu_OTPConfirmedAt rwu \<noteq> None \<and> wu_OTPConfirmedWith rwu = []
               then Inl (Errorf ''OTPConfirmedWith is required when OTPConfirmedAt is provided'')
             else if wu_OTPConfirmedWith rwu \<noteq> [] \<and> wu_OTPConfirmedAt rwu = None
               then Inl (Errorf ''OTPConfirmedAt is required when OTPConfirmedWith is provided'')
             else Inr ())))"

text \<open>The history of the status is extended at its front here, and at its end by the other statements.\<close>

definition set_receiver_wallet :: "ReceiverWalletUpdate \<Rightarrow> int \<Rightarrow> ReceiverWallet \<Rightarrow> ReceiverWallet" where
  "set_receiver_wallet u now rw = rw
     \<lparr>rw_Status := (if wu_Status u = [] then rw_Status rw else wu_Status u),
      rw_StatusHistory := (if wu_Status u = [] then rw_StatusHistory rw else \<lparr>rh_Status = wu_Status u, rh_Timestamp = now\<rparr> # rw_StatusHistory rw),
      rw_SEP24TransactionID := (if wu_SEP24TransactionID u = [] then rw_SEP24TransactionID rw else Some (wu_SEP24TransactionID u)),
      rw_StellarAddress := (if wu_StellarAddress u = [] then rw_StellarAddress rw else wu_StellarAddress u),
      rw_StellarMemo := (case wu_StellarMemo u of None \<Rightarrow> rw_StellarMemo rw | Some m \<Rightarrow> m),
      rw_StellarMemoType := (case wu_StellarMemoType u of None \<Rightarrow> rw_StellarMemoType rw | Some t \<Rightarrow> t),
      rw_OTPConfirmedAt := (case wu_OTPConfirmedAt u of None \<Rightarrow> rw_OTPConfirmedAt rw | Some t \<Rightarrow> Some t),
      rw_OTPConfirmedWith := (if wu_OTPConfirmedWith u = [] then rw_OTPConfirmedWith rw else wu_OTPConfirmedWith u),
      rw_OTPAttempts := (case wu_OTPAttempts u of None \<Rightarrow> rw_OTPAttempts rw | Some n \<Rightarrow> n)\<rparr>"

text \<open>A memo is refused when the address is a contract, the stored address when the update has none.\<close>

definition check_memo :: "stellar_sdk \<Rightarrow> string \<Rightarrow> ReceiverWalletUpdate \<Rightarrow> ('z platform_scheme, go_error, unit) prog" where
  "check_memo sdk rwID update =
     (if wu_StellarMemo update = None \<and> wu_StellarMemoType update = None then ret ()
      else
      bindE (if wu_StellarAddress update \<noteq> [] then ret (wu_StellarAddress update)
             else bindE (wrapE ''checking stored stellar address for memo validation'' (ReceiverWalletModel_GetByID rwID))
               (\<lambda>existing. ret (rw_StellarAddress (fst existing)))) (\<lambda>stellarAddress.
      if \<not> IsValidContractAddress sdk stellarAddress then ret ()
      else if wu_StellarMemo update \<noteq> Some [] then throw ErrMemosNotSupportedForContractAddresses
      else if wu_StellarMemoType update \<noteq> None \<and> wu_StellarMemoType update \<noteq> Some [] then throw ErrMemosNotSupportedForContractAddresses
      else ret ()))"

definition ReceiverWalletModel_Update :: "sdp_env \<Rightarrow> string \<Rightarrow> ReceiverWalletUpdate \<Rightarrow> ('z platform_scheme, go_error, unit) prog" where
  "ReceiverWalletModel_Update env rwID update =
     (case ReceiverWalletUpdate_Validate (env_sdk env) update of
        Inl e \<Rightarrow> throw (Wrapf ''validating receiver wallet update'' e)
      | Inr _ \<Rightarrow>
          bindE (check_memo (env_sdk env) rwID update) (\<lambda>_.
          bindE (handleE (rw_update_where (\<lambda>_ rw. rw_ID rw = rwID) (set_receiver_wallet update))
            (\<lambda>e. if e = ConstraintViolation ''already belongs to another receiver'' then throw ErrDuplicateWalletAddress
                 else throw (Wrapf ''updating receiver wallet'' e)) ret)
          (\<lambda>rws. if rws = [] then throw (Wrapf ''no receiver wallet could be found in UpdateReceiverWallet'' ErrRecordNotFound) else ret ())))"

definition set_unregistered :: "int \<Rightarrow> ReceiverWallet \<Rightarrow> ReceiverWallet" where
  "set_unregistered now rw = rw
     \<lparr>rw_Status := ReadyReceiversWalletStatus,
      rw_StatusHistory := rw_StatusHistory rw @ [\<lparr>rh_Status = ReadyReceiversWalletStatus, rh_Timestamp = now\<rparr>],
      rw_StellarAddress := [], rw_StellarMemo := [], rw_StellarMemoType := [], rw_InvitationSentAt := None, rw_OTP := [],
      rw_OTPConfirmedAt := None, rw_OTPConfirmedWith := [], rw_OTPCreatedAt := None, rw_SEP24TransactionID := None\<rparr>"

definition update_to_ready_body :: "string \<Rightarrow> ('z platform_scheme, go_error, unit) prog" where
  "update_to_ready_body rwID =
     bindE (wrapE ''getting receiver wallet with ID %q'' (ReceiverWalletModel_GetByID rwID)) (\<lambda>(receiverWallet, wallet).
     if rw_Status receiverWallet \<noteq> RegisteredReceiversWalletStatus then throw ErrWalletNotRegistered
     else if wl_UserManaged wallet then throw ErrUnregisterUserManagedWallet
     else
     bindE (wrapE ''checking payments in progress for receiver wallet %s'' (ReceiverWalletModel_HasPaymentsInProgress rwID)) (\<lambda>paymentsInProgress.
     if paymentsInProgress then throw ErrPaymentsInProgressForWallet
     else bindE (wrapE ''unregistering receiver wallet'' (rw_update_where (\<lambda>_ rw. rw_ID rw = rwID) set_unregistered)) (\<lambda>_. ret ())))"

definition ReceiverWalletModel_UpdateStatusToReady :: "string \<Rightarrow> ('z platform_scheme, go_error, unit) prog" where
  "ReceiverWalletModel_UpdateStatusToReady rwID = RunInTransaction sdp_rollback (update_to_ready_body rwID)"

end
