(* ===== verification/Instructions.thy ===== *)
theory Instructions
  imports Receiver_Wallet_Store
begin

text \<open>
  The upload of the instructions of a disbursement (\<open>src/internal/data/disbursement_instructions.go\<close>): receivers,
  their wallets and verifications are looked up or created, the draft payments of the disbursement are replaced, and
  the disbursement becomes ready. Go maps are iterated in the order of the environment.
\<close>

record DisbursementInstruction =
  di_Phone :: string
  di_Email :: string
  di_ID :: string
  di_Amount :: string
  di_VerificationValue :: string
  di_ExternalPaymentID :: string
  di_WalletAddress :: string
  di_WalletAddressMemo :: string
  di_RecipientName :: string
  di_CurrencyType :: string

definition DisbursementInstruction_Contact :: "DisbursementInstruction \<Rightarrow> go_error + string" where
  "DisbursementInstruction_Contact di =
     (if di_Phone di \<noteq> [] \<and> di_Email di \<noteq> [] then Inl (Errorf ''phone and email are both provided'')
      else if di_Phone di \<noteq> [] then Inr (di_Phone di)
      else if di_Email di \<noteq> [] then Inr (di_Email di)
      else Inl (Errorf ''phone and email are empty''))"

definition MaxInstructionsPerDisbursement :: nat where "MaxInstructionsPerDisbursement = 10000"

definition ErrMaxInstructionsExceeded :: go_error where "ErrMaxInstructionsExceeded = Errorf ''maximum number of instructions exceeded''"
definition ErrReceiverVerificationMismatch :: go_error where "ErrReceiverVerificationMismatch = Errorf ''receiver verification mismatch''"
definition ErrReceiverWalletAddressMismatch :: go_error where "ErrReceiverWalletAddressMismatch = Errorf ''receiver wallet address mismatch''"

record DisbursementInstructionsOpts =
  io_UserID :: string
  io_Instructions :: "DisbursementInstruction list"
  io_Disbursement :: Disbursement
  io_DisbursementUpdate :: DisbursementUpdate
  io_MaxNumberOfInstructions :: nat

section \<open>Receivers\<close>

text \<open>A Go map with the keys of a list of rows, iterated: the rows in the order of the environment.\<close>

definition range_by :: "sdp_env \<Rightarrow> ('r \<Rightarrow> string) \<Rightarrow> 'r list \<Rightarrow> ('z platform_scheme, go_error, 'r list) prog" where
  "range_by env key rows = net_call (\<lambda>n. List.map_filter (\<lambda>k. List.find (\<lambda>r. key r = k) rows) (map_range env n (map key rows)))"

text \<open>\<open>m[k] = r\<close> for each row in turn: the last row with a key stays.\<close>

definition map_by :: "('r \<Rightarrow> string) \<Rightarrow> 'r list \<Rightarrow> 'r list" where
  "map_by key rows = map snd (foldl (\<lambda>m r. AList.update (key r) r m) [] rows)"

definition optional :: "string \<Rightarrow> string option" where
  "optional s = (if s = [] then None else Some s)"

definition receiver_insert :: "DisbursementInstruction \<Rightarrow> ReceiverInsert" where
  "receiver_insert di = \<lparr>ri_PhoneNumber = optional (di_Phone di), ri_Email = optional (di_Email di),
     ri_ExternalID = optional (di_ID di), ri_RecipientName = optional (di_RecipientName di), ri_CurrencyType = optional (di_CurrencyType di)\<rparr>"

definition contact_of :: "DisbursementInstruction \<Rightarrow> ('s, go_error, string) prog" where
  "contact_of di = wrapE ''resolving contact information for instruction with ID %s'' (liftE (DisbursementInstruction_Contact di))"

definition createReceiverFromInstructionIfNeeded ::
  "DisbursementInstruction \<Rightarrow> string list \<Rightarrow> ('z platform_scheme, go_error, unit) prog" where
  "createReceiverFromInstructionIfNeeded instruction existingContacts =
     bindE (contact_of instruction) (\<lambda>contact.
     if contact \<in> set existingContacts then ret ()
     else bindE (wrapE ''inserting receiver'' (ReceiverModel_Insert (receiver_insert instruction))) (\<lambda>_. ret ()))"

definition contact_by_type :: "ReceiverContactType \<Rightarrow> Receiver \<Rightarrow> ('s, go_error, string) prog" where
  "contact_by_type contactType r =
     (if Receiver_ContactByType r contactType = [] then throw (Errorf ''receiver with ID %s has no contact information for contact type %s'')
      else ret (Receiver_ContactByType r contactType))"

definition reconcileExistingReceiversWithInstructions ::
  "DisbursementInstruction list \<Rightarrow> ReceiverContactType \<Rightarrow> ('z platform_scheme, go_error, Receiver list) prog" where
  "reconcileExistingReceiversWithInstructions instructions contactType =
     bindE (forE instructions contact_of) (\<lambda>contacts.
     bindE (wrapE ''fetching receivers by contacts'' (ReceiverModel_GetByContacts contacts)) (\<lambda>existingReceivers.
     bindE (forE existingReceivers (contact_by_type contactType)) (\<lambda>existingContacts.
     bindE (forE instructions (\<lambda>di. wrapE ''creating receiver from instruction'' (createReceiverFromInstructionIfNeeded di existingContacts))) (\<lambda>_.
     bindE (wrapE ''fetching receivers by contact information'' (ReceiverModel_GetByContacts contacts)) (\<lambda>rs.
     if length rs \<noteq> length instructions then throw (Errorf ''receiver count mismatch after processing instructions'')
     else ret (map_by rc_ID rs))))))"

definition findReceiverByInstruction ::
  "sdp_env \<Rightarrow> Receiver list \<Rightarrow> DisbursementInstruction \<Rightarrow> ('z platform_scheme, go_error, Receiver option) prog" where
  "findReceiverByInstruction env receiverMap instruction =
     (case DisbursementInstruction_Contact instruction of
        Inl _ \<Rightarrow> ret None
      | Inr contact \<Rightarrow> bindE (range_by env rc_ID receiverMap) (\<lambda>rs.
          ret (List.find (\<lambda>r. contact = rc_PhoneNumber r \<or> contact = rc_Email r) rs)))"

section \<open>Wallets\<close>

definition processReceiverWallet ::
  "Disbursement \<Rightarrow> (string \<times> string) list \<Rightarrow> Receiver \<Rightarrow> ('z platform_scheme, go_error, string \<times> string) prog" where
  "processReceiverWallet d known r =
     (case map_of known (rc_ID r) of
        None \<Rightarrow> bindE (wrapE ''inserting receiver wallet for receiver id %s'' (ReceiverWalletModel_GetOrInsertReceiverWallet
                   \<lparr>wi_ReceiverID = rc_ID r, wi_WalletID = wl_ID (ds_Wallet d)\<rparr>)) (\<lambda>rwID. ret (rc_ID r, rwID))
      | Some rwID \<Rightarrow> handleE (ReceiverWalletModel_RetryInvitationMessage rwID)
          (\<lambda>e. if error_is e ErrRecordNotFound then ret (rc_ID r, rwID) else throw (Wrapf ''retrying invitation'' e))
          (\<lambda>_. ret (rc_ID r, rwID)))"

definition processReceiverWallets ::
  "sdp_env \<Rightarrow> Receiver list \<Rightarrow> Disbursement \<Rightarrow> ('z platform_scheme, go_error, (string \<times> string) list) prog" where
  "processReceiverWallets env rs d =
     bindE (wrapE ''fetching receiver wallets''
       (ReceiverWalletModel_GetByReceiverIDsAndWalletID (map rc_ID rs) (wl_ID (ds_Wallet d)))) (\<lambda>receiverWallets.
     bindE (range_by env rc_ID rs) (\<lambda>ordered.
     let known = rev (map (\<lambda>rw. (rw_receiver_id rw, rw_ID rw)) receiverWallets) in
     forE ordered (processReceiverWallet d known)))"

definition registration_update :: "DisbursementInstruction \<Rightarrow> go_error + ReceiverWalletUpdate" where
  "registration_update di =
     (let u = no_wallet_update\<lparr>wu_Status := RegisteredReceiversWalletStatus, wu_StellarAddress := di_WalletAddress di\<rparr> in
      if di_WalletAddressMemo di = [] then Inr u
      else (case ParseMemo (di_WalletAddressMemo di) of
          Inl e \<Rightarrow> Inl (Wrapf ''parsing memo %s'' e)
        | Inr (m, memoType) \<Rightarrow> Inr (u\<lparr>wu_StellarMemo := Some (di_WalletAddressMemo di), wu_StellarMemoType := Some memoType\<rparr>)))"

definition registerSuppliedWallet ::
  "sdp_env \<Rightarrow> Receiver list \<Rightarrow> (string \<times> string) list \<Rightarrow> (ReceiverWallet \<times> Wallet) list \<Rightarrow> DisbursementInstruction \<Rightarrow>
   ('z platform_scheme, go_error, unit) prog" where
  "registerSuppliedWallet env rs walletIDs rwsByID instruction =
     bindE (findReceiverByInstruction env rs instruction) (\<lambda>found.
     case found of
       None \<Rightarrow> throw (Errorf ''receiver not found for instruction with ID %s'')
     | Some receiver \<Rightarrow> (case map_of walletIDs (rc_ID receiver) of
         None \<Rightarrow> throw (Errorf ''receiver wallet not found for receiver with ID %s'')
       | Some receiverWalletID \<Rightarrow>
           (let (address, status) = (case List.find (\<lambda>(rw, w). rw_ID rw = receiverWalletID) rwsByID of
                None \<Rightarrow> ([], []) | Some (rw, w) \<Rightarrow> (rw_StellarAddress rw, rw_Status rw)) in
            if address \<noteq> [] \<and> address \<noteq> di_WalletAddress instruction
              then throw (Wrapf ''receiver wallet address mismatch for receiver with ID %s'' ErrReceiverWalletAddressMismatch)
            else if status = RegisteredReceiversWalletStatus \<or> status = FlaggedReceiversWalletStatus then ret ()
            else bindE (liftE (registration_update instruction)) (\<lambda>u.
              handleE (ReceiverWalletModel_Update env receiverWalletID u)
                (\<lambda>e. if error_is e ErrDuplicateWalletAddress
                     then throw (Wrapf ''wallet address %s is already registered to another receiver'' ErrDuplicateWalletAddress)
                     else throw (Wrapf ''marking receiver wallet as registered'' e)) ret))))"

definition registerSuppliedWallets ::
  "sdp_env \<Rightarrow> DisbursementInstruction list \<Rightarrow> Receiver list \<Rightarrow> (string \<times> string) list \<Rightarrow> ('z platform_scheme, go_error, unit) prog" where
  "registerSuppliedWallets env instructions rs walletIDs =
     bindE (wrapE ''building receiver wallets lookup map'' (wrapE ''fetching receiver wallets''
       (ReceiverWalletModel_GetByIDs (map snd walletIDs)))) (\<lambda>rwsByID.
     bindE (forE instructions (registerSuppliedWallet env rs walletIDs rwsByID)) (\<lambda>_. ret ()))"

section \<open>Verifications\<close>

definition processReceiverVerification ::
  "sdp_env \<Rightarrow> Disbursement \<Rightarrow> ReceiverContactType \<Rightarrow> ReceiverVerification list \<Rightarrow> (string \<times> DisbursementInstruction) list \<Rightarrow> Receiver \<Rightarrow>
   ('z platform_scheme, go_error, unit) prog" where
  "processReceiverVerification env d contactType verifications byContact receiver =
     bindE (contact_by_type contactType receiver) (\<lambda>contact.
     case map_of byContact contact of
       None \<Rightarrow> throw (Errorf ''instruction not found for receiver with ID %s'')
     | Some instruction \<Rightarrow>
         (case List.find (\<lambda>v. rv_ReceiverID v = rc_ID receiver) (rev verifications) of
            None \<Rightarrow> bindE (wrapE ''error inserting receiver verification'' (ReceiverVerificationModel_Insert env
                \<lparr>vi_ReceiverID = rc_ID receiver, vi_VerificationField = ds_VerificationField (ds_row d),
                 vi_VerificationValue = di_VerificationValue instruction\<rparr>)) (\<lambda>_. ret ())
          | Some verification \<Rightarrow>
              (if CompareVerificationValue env (rv_HashedValue verification) (di_VerificationValue instruction) then ret ()
               else if rv_ConfirmedAt verification \<noteq> None
                 then throw (Wrapf ''receiver verification for %s doesn't match. Check instruction with ID %s'' ErrReceiverVerificationMismatch)
               else wrapE ''error updating receiver verification for disbursement id %s''
                 (ReceiverVerificationModel_UpdateVerificationValue env (rv_ReceiverID verification) (rv_VerificationField verification)
                    (di_VerificationValue instruction)))))"

definition processReceiverVerifications ::
  "sdp_env \<Rightarrow> Receiver list \<Rightarrow> DisbursementInstruction list \<Rightarrow> Disbursement \<Rightarrow> ReceiverContactType \<Rightarrow> ('z platform_scheme, go_error, unit) prog" where
  "processReceiverVerifications env rs instructions d contactType =
     bindE (wrapE ''fetching receiver verifications''
       (ReceiverVerificationModel_GetByReceiverIDsAndVerificationField (map rc_ID rs) (ds_VerificationField (ds_row d)))) (\<lambda>verifications.
     bindE (forE instructions (\<lambda>di. bindE (contact_of di) (\<lambda>contact. ret (contact, di)))) (\<lambda>pairs.
     bindE (range_by env rc_ID rs) (\<lambda>ordered.
     bindE (forE ordered (processReceiverVerification env d contactType verifications (rev pairs))) (\<lambda>_. ret ()))))"

section \<open>Payments\<close>

definition payment_insert :: "Disbursement \<Rightarrow> (string \<times> string) list \<Rightarrow> DisbursementInstruction \<Rightarrow> Receiver \<Rightarrow> PaymentInsert" where
  "payment_insert d walletIDs instruction receiver =
     \<lparr>pi_ReceiverID = rc_ID receiver, pi_DisbursementID = Some (ds_ID (ds_row d)), pi_PaymentType = PaymentTypeDisbursement,
      pi_Amount = di_Amount instruction, pi_AssetID = as_ID (ds_Asset d),
      pi_ReceiverWalletID = (case map_of walletIDs (rc_ID receiver) of None \<Rightarrow> [] | Some w \<Rightarrow> w),
      pi_ExternalPaymentID = optional (di_ExternalPaymentID instruction)\<rparr>"

definition createPayments ::
  "sdp_env \<Rightarrow> Receiver list \<Rightarrow> (string \<times> string) list \<Rightarrow> DisbursementInstruction list \<Rightarrow> Disbursement \<Rightarrow> ('z platform_scheme, go_error, unit) prog" where
  "createPayments env rs walletIDs instructions d =
     bindE (forE instructions (\<lambda>instruction. bindE (findReceiverByInstruction env rs instruction) (\<lambda>found.
       case found of None \<Rightarrow> throw (Errorf ''receiver not found for instruction with ID %s'')
       | Some receiver \<Rightarrow> ret (payment_insert d walletIDs instruction receiver)))) (\<lambda>inserts.
     wrapE ''inserting payments'' (PaymentModel_InsertAll env inserts))"

section \<open>The upload\<close>

definition ProcessAll :: "sdp_env \<Rightarrow> DisbursementInstructionsOpts \<Rightarrow> ('z platform_scheme, go_error, unit) prog" where
  "ProcessAll env opts =
     (let d = io_Disbursement opts; contactType = ds_RegistrationContactType (ds_row d); instructions = io_Instructions opts in
      if length instructions > io_MaxNumberOfInstructions opts then throw ErrMaxInstructionsExceeded
      else
      bindE (wrapE ''processing receivers'' (reconcileExistingReceiversWithInstructions instructions (rt_ReceiverContactType contactType))) (\<lambda>rs.
      bindE (wrapE ''processing receiver wallets'' (processReceiverWallets env rs d)) (\<lambda>walletIDs.
      bindE (if rt_IncludesWalletAddress contactType
             then handleE (registerSuppliedWallets env instructions rs walletIDs)
               (\<lambda>e. if error_is e ErrDuplicateWalletAddress then throw e else throw (Wrapf ''registering supplied wallets'' e)) ret
             else if ds_VerificationField (ds_row d) \<noteq> []
             then wrapE ''processing receiver verifications''
               (processReceiverVerifications env rs instructions d (rt_ReceiverContactType contactType))
             else ret ()) (\<lambda>_.
      bindE (wrapE ''deleting draft payments'' (PaymentModel_DeleteAllDraftForDisbursement (ds_ID (ds_row d)))) (\<lambda>_.
      bindE (wrapE ''creating payments'' (createPayments env rs walletIDs instructions d)) (\<lambda>_.
      bindE (wrapE ''persisting payment file'' (DisbursementModel_Update (io_DisbursementUpdate opts))) (\<lambda>_.
      wrapE ''updating status'' (DisbursementModel_UpdateStatus (io_UserID opts) (ds_ID (ds_row d)) ReadyDisbursementStatus))))))))"

end
