(* ===== verification/Catalog_Store.thy ===== *)
theory Catalog_Store
  imports Disbursement_Store
begin

text \<open>
  The lookups of the wallets and assets that a disbursement may use (\<open>src/internal/data/wallets.go\<close>,
  \<open>assets.go\<close>). The assets that a wallet supports are not part of the state.
\<close>

section \<open>Wallets\<close>

definition get_wallet :: "(Wallet \<Rightarrow> bool) \<Rightarrow> string \<Rightarrow> ('z platform_scheme, go_error, Wallet) prog" where
  "get_wallet P msg = handleE (get_first (db_call (getsE (\<lambda>s. filter P (wallets s)))))
     (\<lambda>e. if error_is e ErrNoRows then throw ErrRecordNotFound else throw (Wrapf msg e)) ret"

definition WalletModel_Get :: "string \<Rightarrow> ('z platform_scheme, go_error, Wallet) prog" where
  "WalletModel_Get walletID = get_wallet (\<lambda>w. wl_ID w = walletID) ''error querying wallet ID %s''"

definition WalletModel_GetByWalletName :: "string \<Rightarrow> ('z platform_scheme, go_error, Wallet) prog" where
  "WalletModel_GetByWalletName name = get_wallet (\<lambda>w. wl_Name w = name) ''error querying wallet with name %s''"

datatype wallet_filter = FilterEnabledWallets bool | FilterUserManaged bool | FilterEmbedded bool | FilterIncludeDeleted bool

fun wallet_condition :: "wallet_filter \<Rightarrow> Wallet \<Rightarrow> bool" where
  "wallet_condition (FilterEnabledWallets b) w = (wl_Enabled w = b)"
| "wallet_condition (FilterUserManaged b) w = (wl_UserManaged w = b)"
| "wallet_condition (FilterEmbedded b) w = (wl_Embedded w = b)"
| "wallet_condition (FilterIncludeDeleted b) w = True"

text \<open>The last \<open>FilterIncludeDeleted\<close> decides whether deleted wallets are returned.\<close>

definition newWalletQuery :: "wallet_filter list \<Rightarrow> Wallet list \<Rightarrow> Wallet list" where
  "newWalletQuery filters ws =
     (let includeDeleted = foldl (\<lambda>b f. case f of FilterIncludeDeleted b' \<Rightarrow> b' | _ \<Rightarrow> b) False filters
      in sql_order_by wl_Name (filter (\<lambda>w. list_all (\<lambda>f. wallet_condition f w) filters \<and> (includeDeleted \<or> wl_DeletedAt w = None)) ws))"

definition WalletModel_FindWallets :: "wallet_filter list \<Rightarrow> ('z platform_scheme, go_error, Wallet list) prog" where
  "WalletModel_FindWallets filters = wrapE ''querying wallets'' (db_call (getsE (\<lambda>s. newWalletQuery filters (wallets s))))"

definition WalletModel_GetAll :: "('z platform_scheme, go_error, Wallet list) prog" where
  "WalletModel_GetAll = WalletModel_FindWallets []"

section \<open>Assets\<close>

definition get_asset :: "(Asset \<Rightarrow> bool) \<Rightarrow> string \<Rightarrow> ('z platform_scheme, go_error, Asset) prog" where
  "get_asset P msg = handleE (get_first (db_call (getsE (\<lambda>s. filter P (assets s)))))
     (\<lambda>e. if error_is e ErrNoRows then throw ErrRecordNotFound else throw (Wrapf msg e)) ret"

definition AssetModel_Get :: "string \<Rightarrow> ('z platform_scheme, go_error, Asset) prog" where
  "AssetModel_Get assetID = get_asset (\<lambda>a. as_ID a = assetID) ''error querying asset ID %s''"

definition AssetModel_GetByCodeAndIssuer :: "string \<Rightarrow> string \<Rightarrow> ('z platform_scheme, go_error, Asset) prog" where
  "AssetModel_GetByCodeAndIssuer code issuer =
     get_asset (\<lambda>a. as_Code a = code \<and> as_Issuer a = issuer) ''error querying asset with code %s and issuer %s''"

end
