(* ===== verification/Instruction_Validation.thy ===== *)
theory Instruction_Validation
  imports Instructions Catalog_Store
begin

text \<open>
  The instructions file of a disbursement before it is processed: the sanitizing and validation of its lines
  (\<open>src/internal/serve/validators/disbursement_instructions_validator.go\<close>, \<open>wallet_validator.go\<close>), and its file name,
  headers and parsing (\<open>src/internal/serve/httphandler/disbursement_handler.go\<close>). The CSV packages are parameters:
  the header row of a file, and its rows as instructions.
\<close>

record http_env =
  he_sdp :: sdp_env
  html_UnescapeString :: "string \<Rightarrow> string"
  csv_ReadHeader :: "string \<Rightarrow> go_error + string list"
  gocsv_Unmarshal :: "string \<Rightarrow> go_error + DisbursementInstruction list"

definition err_of :: "go_error + 'a \<Rightarrow> go_error option" where
  "err_of r = (case r of Inl e \<Rightarrow> Some e | Inr _ \<Rightarrow> None)"

lemma err_of_simps [simp]: "err_of (Inl e) = Some e" "err_of (Inr x) = None"
  by (simp_all add: err_of_def)

text \<open>\<open>%d\<close> of a natural number.\<close>

fun decimal :: "nat \<Rightarrow> string" where
  "decimal n = (if n < 10 then [char_of (48 + n)] else decimal (n div 10) @ [char_of (48 + n mod 10)])"

declare decimal.simps [simp del]

definition on_line :: "nat \<Rightarrow> string \<Rightarrow> string" where
  "on_line lineNumber field = ''line '' @ decimal lineNumber @ '' - '' @ field"

section \<open>Lines\<close>

definition ErrMemoNotSupportedForContract :: go_error where
  "ErrMemoNotSupportedForContract = Errorf ''wallet address memo is not supported for contract addresses''"

definition ValidateWalletAddressMemo :: "stellar_sdk \<Rightarrow> string \<Rightarrow> string \<Rightarrow> go_error + MemoType" where
  "ValidateWalletAddressMemo sdk walletAddress memo =
     (if memo = [] then Inr []
      else if IsValidContractAddress sdk walletAddress then Inl ErrMemoNotSupportedForContract
      else if IsValidEd25519PublicKey sdk walletAddress
        then (case ParseMemo memo of Inl e \<Rightarrow> Inl (Wrapf ''parsing memo %s'' e) | Inr (m, memoType) \<Rightarrow> Inr memoType)
      else Inr [])"

definition maxReceiverExternalIDLength :: nat where "maxReceiverExternalIDLength = 64"
definition maxExternalPaymentIDLength :: nat where "maxExternalPaymentIDLength = 64"

definition validate_required :: "sdp_env \<Rightarrow> DisbursementInstruction \<Rightarrow> nat \<Rightarrow> Validator \<Rightarrow> Validator" where
  "validate_required env di n v =
     (let sdk = env_sdk env;
          v1 = Check (di_ID di \<noteq> []) (on_line n ''id'') ''id cannot be empty'' v;
          v2 = (if di_ID di \<noteq> [] then CheckError sdk (err_of (ValidateStringLength (di_ID di) maxReceiverExternalIDLength)) (on_line n ''id'') [] v1 else v1);
          v3 = CheckError sdk (err_of (ValidateAmount env (di_Amount di))) (on_line n ''amount'') ''invalid amount. Amount must be a positive number'' v2
      in if di_ExternalPaymentID di \<noteq> []
         then CheckError sdk (err_of (ValidateStringLength (di_ExternalPaymentID di) maxExternalPaymentIDLength)) (on_line n ''paymentID'') [] v3
         else v3)"

definition validate_contact :: "sdp_env \<Rightarrow> ReceiverContactType \<Rightarrow> DisbursementInstruction \<Rightarrow> nat \<Rightarrow> Validator \<Rightarrow> Validator" where
  "validate_contact env contactType di n v =
     (if contactType = ReceiverContactTypeEmail then
        (let v1 = Check (di_Email di \<noteq> []) (on_line n ''email'') ''email cannot be empty'' v
         in if di_Email di \<noteq> [] then CheckError (env_sdk env) (err_of (ValidateEmail (di_Email di))) (on_line n ''email'') ''invalid email format'' v1
            else v1)
      else if contactType = ReceiverContactTypeSMS then
        (let v1 = Check (di_Phone di \<noteq> []) (on_line n ''phone'') ''phone cannot be empty'' v
         in if di_Phone di \<noteq> []
            then CheckError (env_sdk env) (err_of (ValidatePhoneNumber env (di_Phone di))) (on_line n ''phone'') ''invalid phone format. Correct format: +380445555555'' v1
            else v1)
      else v)"

definition validate_address :: "sdp_env \<Rightarrow> DisbursementInstruction \<Rightarrow> nat \<Rightarrow> Validator \<Rightarrow> Validator" where
  "validate_address env di n v =
     (let sdk = env_sdk env; address = di_WalletAddress di;
          v1 = Check (address \<noteq> []) (on_line n ''wallet address'') ''wallet address cannot be empty'' v;
          v2 = (if address \<noteq> [] then Check (IsValidEd25519PublicKey sdk address \<or> IsValidContractAddress sdk address) (on_line n ''wallet address'')
                  ''invalid wallet address. Must be a valid Stellar public key or contract address'' v1 else v1)
      in if di_WalletAddressMemo di = [] then v2
         else (case ValidateWalletAddressMemo sdk address (di_WalletAddressMemo di) of
             Inr _ \<Rightarrow> v2
           | Inl e \<Rightarrow> (if error_is e ErrMemoNotSupportedForContract then AddError (on_line n ''wallet address memo'') (error_text sdk e) v2
               else CheckError sdk (Some e) (on_line n ''wallet address memo'')
                 ''invalid wallet address memo. For more information, visit https://docs.stellar.org/learn/encyclopedia/transactions-specialized/memos'' v2)))"

definition validate_verification :: "sdp_env \<Rightarrow> VerificationType \<Rightarrow> int \<Rightarrow> DisbursementInstruction \<Rightarrow> nat \<Rightarrow> Validator \<Rightarrow> Validator" where
  "validate_verification env verificationField now di n v =
     (let sdk = env_sdk env; verification = di_VerificationValue di in
      if verificationField = VerificationTypeDateOfBirth
        then CheckError sdk (snd (ValidateDateOfBirthVerification now verification)) (on_line n ''date of birth'') [] v
      else if verificationField = VerificationTypeYearMonth
        then CheckError sdk (snd (ValidateYearMonthVerification now verification)) (on_line n ''year/month'') [] v
      else if verificationField = VerificationTypePin
        then CheckError sdk (snd (ValidatePinVerification verification)) (on_line n ''pin'') [] v
      else if verificationField = VerificationTypeNationalID
        then CheckError sdk (snd (ValidateNationalIDVerification verification)) (on_line n ''national id'') [] v
      else v)"

definition ValidateInstruction ::
  "sdp_env \<Rightarrow> RegistrationContactType \<Rightarrow> VerificationType \<Rightarrow> int \<Rightarrow> DisbursementInstruction \<Rightarrow> nat \<Rightarrow> Validator \<Rightarrow> Validator" where
  "ValidateInstruction env contactType verificationField now di n v =
     (let v1 = validate_contact env (rt_ReceiverContactType contactType) di n (validate_required env di n v)
      in if rt_IncludesWalletAddress contactType then validate_address env di n v1
         else validate_verification env verificationField now di n v1)"

text \<open>The sanitized instruction is a new one: fields that are not copied are empty.\<close>

definition SanitizeInstruction :: "DisbursementInstruction \<Rightarrow> DisbursementInstruction" where
  "SanitizeInstruction di =
     \<lparr>di_Phone = (if di_Phone di \<noteq> [] then ToLower (TrimSpace (di_Phone di)) else []),
      di_Email = (if di_Email di \<noteq> [] then ToLower (TrimSpace (di_Email di)) else []),
      di_ID = TrimSpace (di_ID di),
      di_Amount = TrimSpace (di_Amount di),
      di_VerificationValue = TrimSpace (di_VerificationValue di),
      di_ExternalPaymentID = (if di_ExternalPaymentID di \<noteq> [] then TrimSpace (di_ExternalPaymentID di) else []),
      di_WalletAddress = (if di_WalletAddress di \<noteq> [] then ToUpper (TrimSpace (di_WalletAddress di)) else []),
      di_WalletAddressMemo = TrimSpace (di_WalletAddressMemo di),
      di_RecipientName = [], di_CurrencyType = []\<rparr>"

fun check_duplicates :: "(string \<times> nat) list \<Rightarrow> nat \<Rightarrow> DisbursementInstruction list \<Rightarrow> Validator \<Rightarrow> Validator" where
  "check_duplicates seen n [] v = v"
| "check_duplicates seen n (di # dis) v =
     (case DisbursementInstruction_Contact di of
        Inl _ \<Rightarrow> check_duplicates seen (Suc n) dis (AddError (on_line n ''contact info'') ''invalid contact information'' v)
      | Inr contact \<Rightarrow>
          (case map_of seen contact of
             Some firstLine \<Rightarrow> check_duplicates seen (Suc n) dis
               (AddError (on_line n ''contact info'') (''duplicate contact information. Also found on line '' @ decimal firstLine) v)
           | None \<Rightarrow> check_duplicates ((contact, n) # seen) (Suc n) dis v))"

definition CheckForDuplicateContacts :: "DisbursementInstruction list \<Rightarrow> Validator \<Rightarrow> Validator" where
  "CheckForDuplicateContacts dis v = check_duplicates [] 2 dis v"

section \<open>The file\<close>

fun validate_lines ::
  "sdp_env \<Rightarrow> RegistrationContactType \<Rightarrow> VerificationType \<Rightarrow> int \<Rightarrow> nat \<Rightarrow> DisbursementInstruction list \<Rightarrow> Validator \<Rightarrow> Validator" where
  "validate_lines env contactType verificationField now n [] v = v"
| "validate_lines env contactType verificationField now n (di # dis) v =
     validate_lines env contactType verificationField now (Suc n) dis
       (ValidateInstruction env contactType verificationField now (SanitizeInstruction di) n v)"

definition parseInstructionsFromCSV ::
  "http_env \<Rightarrow> int \<Rightarrow> string \<Rightarrow> RegistrationContactType \<Rightarrow> VerificationType \<Rightarrow> Validator + DisbursementInstruction list" where
  "parseInstructionsFromCSV he now content contactType verificationField =
     (case gocsv_Unmarshal he content of
        Inl _ \<Rightarrow> Inl (AddError ''file'' ''could not parse file'' NewValidator)
      | Inr instructions \<Rightarrow>
          (let v1 = validate_lines (he_sdp he) contactType verificationField now 2 instructions NewValidator;
               v2 = Check (length instructions > 0) ''instructions'' ''no valid instructions found'' v1;
               v3 = CheckForDuplicateContacts instructions v2
           in if HasErrors v3 then Inl v3 else Inr (map SanitizeInstruction instructions)))"

definition required_headers :: "RegistrationContactType \<Rightarrow> string list" where
  "required_headers rct =
     (if rct = contact_type ReceiverContactTypeSMS False then [''phone'', ''verification'']
      else if rct = contact_type ReceiverContactTypeEmail False then [''email'', ''verification'']
      else if rct = contact_type ReceiverContactTypeEmail True then [''email'', ''walletAddress'']
      else if rct = contact_type ReceiverContactTypeSMS True then [''phone'', ''walletAddress'']
      else [])"

definition disallowed_headers :: "RegistrationContactType \<Rightarrow> string list" where
  "disallowed_headers rct =
     (if rct = contact_type ReceiverContactTypeSMS False then [''email'', ''walletAddress'', ''walletAddressMemo'']
      else if rct = contact_type ReceiverContactTypeEmail False then [''phone'', ''walletAddress'', ''walletAddressMemo'']
      else if rct = contact_type ReceiverContactTypeEmail True then [''phone'', ''verification'']
      else if rct = contact_type ReceiverContactTypeSMS True then [''email'', ''verification'']
      else [])"

definition validateCSVHeaders :: "http_env \<Rightarrow> string \<Rightarrow> RegistrationContactType \<Rightarrow> bool \<Rightarrow> go_error + unit" where
  "validateCSVHeaders he content rct skipVerification =
     (case csv_ReadHeader he content of
        Inl e \<Rightarrow> Inl (Wrapf ''reading csv headers'' e)
      | Inr headers \<Rightarrow>
          (let required = filter (\<lambda>h. \<not> (skipVerification \<and> h = ''verification'')) (required_headers rct);
               disallowed = disallowed_headers rct @ (if skipVerification then [''verification''] else [])
           in if \<exists>h \<in> set required. h \<notin> set headers then Inl (Errorf ''%s column is required'')
              else if \<exists>h \<in> set disallowed. h \<in> set headers
                then Inl (Errorf ''%s column is not allowed for this registration contact type'')
              else Inr ()))"

text \<open>\<open>filepath.Ext\<close>: from the last dot of the last path component.\<close>

fun ext_of_rev :: "string \<Rightarrow> string \<Rightarrow> string" where
  "ext_of_rev acc [] = []"
| "ext_of_rev acc (c # s) = (if c = CHR ''/'' then [] else if c = CHR ''.'' then c # acc else ext_of_rev (c # acc) s)"

definition filepath_Ext :: "string \<Rightarrow> string" where "filepath_Ext path = ext_of_rev [] (rev path)"

text \<open>The form file of the request: its name, and its content unless reading it fails.\<close>

type_synonym form_file = "go_error + (string \<times> (go_error + string))"

definition parseCsvFromMultipartRequest :: "form_file \<Rightarrow> go_error + (string \<times> string)" where
  "parseCsvFromMultipartRequest file =
     (case file of
        Inl e \<Rightarrow> Inl (HTTPError 400 ''could not parse file'' (Some e))
      | Inr (filename, content) \<Rightarrow>
          (if err_of (ValidatePathIsNotTraversal filename) \<noteq> None
             then Inl (HTTPError 400 ''file name contains invalid traversal pattern'' None)
           else if filepath_Ext filename \<noteq> ''.csv'' then Inl (HTTPError 400 ''the file extension should be .csv'' None)
           else (case content of
               Inl e \<Rightarrow> Inl (HTTPError 400 ''could not read file'' (Some e))
             | Inr buf \<Rightarrow> Inr (buf, filename))))"

end
