(* ===== verification/Disbursement_Management.thy ===== *)
theory Disbursement_Management
  imports Disbursement_Store
begin

text \<open>
  The life cycle of a disbursement (\<open>src/internal/services/disbursement_management_service.go\<close>): start, pause,
  approve, reject and submit, each in one database transaction, with the check of the balance of
  the distribution account. The sentinel errors are distinct texts, so that comparing them is \<open>errors.Is\<close>. A nil
  pointer that the code would dereference is an error of its own, as it ends the transaction.
\<close>

section \<open>Errors\<close>

definition ErrDisbursementNotFound :: go_error where "ErrDisbursementNotFound = Errorf ''disbursement not found''"
definition ErrDisbursementNotReadyToStart :: go_error where
  "ErrDisbursementNotReadyToStart = Errorf ''disbursement is not ready to be started''"
definition ErrDisbursementNotReadyToPause :: go_error where
  "ErrDisbursementNotReadyToPause = Errorf ''disbursement is not ready to be paused''"
definition ErrDisbursementNotReadyToApprove :: go_error where
  "ErrDisbursementNotReadyToApprove = Errorf ''disbursement is not ready to be approved''"
definition ErrDisbursementNotReadyToSubmit :: go_error where
  "ErrDisbursementNotReadyToSubmit = Errorf ''disbursement is not ready to be submitted''"
definition ErrDisbursementNotReadyToReject :: go_error where
  "ErrDisbursementNotReadyToReject = Errorf ''disbursement is not in a state that can be rejected''"
definition ErrDisbursementWalletDisabled :: go_error where
  "ErrDisbursementWalletDisabled = Errorf ''disbursement wallet is disabled''"
definition ErrDisbursementRejectionReasonRequired :: go_error where
  "ErrDisbursementRejectionReasonRequired = Errorf ''a reason is required to reject a disbursement''"
definition ErrDisbursementStartedByCreator :: go_error where
  "ErrDisbursementStartedByCreator = Errorf ''disbursement can't be started by its creator''"
definition ErrDisbursementApprovedByCreator :: go_error where
  "ErrDisbursementApprovedByCreator = Errorf ''disbursement can't be approved by its creator''"
definition ErrDisbursementRequiresApprovalStep :: go_error where
  "ErrDisbursementRequiresApprovalStep =
     Errorf ''disbursement must be approved before it can be started; use the approve and submit endpoints''"
definition InsufficientBalanceError :: go_error where
  "InsufficientBalanceError = Errorf ''the disbursement %s failed due to an account balance (%s) that was insufficient''"
definition NilDereference :: go_error where
  "NilDereference = Errorf ''runtime error: invalid memory address or nil pointer dereference''"

section \<open>The balance\<close>

text \<open>What the other payments in progress need in the asset of the disbursement.\<close>

definition skips_payment :: "Disbursement \<Rightarrow> data_Payment \<Rightarrow> bool" where
  "skips_payment d p \<longleftrightarrow>
     (pm_Type (dp_row p) = PaymentTypeDisbursement \<and> (case dp_Disbursement p of None \<Rightarrow> False | Some d' \<Rightarrow> ds_ID d' = ds_ID (ds_row d))) \<or>
     \<not> Asset_Equals (dp_Asset p) (ds_Asset d)"

fun total_pending :: "sdp_env \<Rightarrow> Disbursement \<Rightarrow> rat \<Rightarrow> data_Payment list \<Rightarrow> go_error + rat" where
  "total_pending env d acc [] = Inr acc"
| "total_pending env d acc (p # ps) =
     (if skips_payment d p then total_pending env d acc ps
      else (case decimal_NewFromString env (pm_Amount (dp_row p)) of
          Inl e \<Rightarrow> Inl (Wrapf ''cannot convert amount %s for payment id %s to decimal'' e)
        | Inr paymentAmount \<Rightarrow> total_pending env d (acc + paymentAmount) ps))"

definition disbursement_amount :: "sdp_env \<Rightarrow> DisbursementStats \<Rightarrow> go_error + rat" where
  "disbursement_amount env st =
     (case decimal_NewFromString env (st_TotalAmount st) of
        Inl e \<Rightarrow> Inl (Wrapf ''cannot convert total amount %s for disbursement id %s to decimal'' e)
      | Inr totalAmount \<Rightarrow>
          (if st_AmountDisbursed st \<noteq> []
           then (case decimal_NewFromString env (st_AmountDisbursed st) of
                   Inl e \<Rightarrow> Inl (Wrapf ''cannot convert amount disbursed %s for disbursement id %s to decimal'' e)
                 | Inr amountDisbursed \<Rightarrow> Inr (totalAmount - amountDisbursed))
           else Inr totalAmount))"

definition validateBalanceForDisbursement ::
  "sdp_env \<Rightarrow> TransactionAccount \<Rightarrow> Disbursement \<Rightarrow> ('z platform_scheme, go_error, unit) prog" where
  "validateBalanceForDisbursement env distributionAccount d =
     bindE (net_call (\<lambda>n. GetBalance env n distributionAccount (ds_Asset d))) (\<lambda>balance.
     bindE (wrapE ''getting balance for asset (%s,%s) on distribution account %v'' (liftE balance)) (\<lambda>availableBalance.
     case ds_DisbursementStats d of
       None \<Rightarrow> throw NilDereference
     | Some st \<Rightarrow>
         bindE (liftE (disbursement_amount env st)) (\<lambda>disbursementAmount.
         bindE (wrapE ''cannot retrieve incomplete payments'' (PaymentModel_GetAll never_ilike
                  (no_filters\<lparr>qp_Status := Some (Many PaymentInProgressStatuses)\<rparr>) QueryTypeSelectAll)) (\<lambda>incompletePayments.
         bindE (liftE (total_pending env d 0 incompletePayments)) (\<lambda>totalPendingAmount.
         if availableBalance < disbursementAmount + totalPendingAmount then throw InsufficientBalanceError
         else ret ())))))"

section \<open>The operations\<close>

definition or_disbursement_not_found :: "('s, go_error, 'a) prog \<Rightarrow> ('s, go_error, 'a) prog" where
  "or_disbursement_not_found m = handleE m
     (\<lambda>e. if error_is e ErrRecordNotFound then throw ErrDisbursementNotFound
          else throw (Wrapf ''error getting disbursement with id %s'' e)) ret"

text \<open>The user drafted or uploaded the disbursement, by its status history.\<close>

definition created_by :: "string \<Rightarrow> disbursement_row \<Rightarrow> bool" where
  "created_by userID d \<longleftrightarrow>
     list_ex (\<lambda>sh. dh_UserID sh = userID \<and> (dh_Status sh = DraftDisbursementStatus \<or> dh_Status sh = ReadyDisbursementStatus))
       (ds_StatusHistory d)"

text \<open>The last steps of start and submit: payments and receiver wallets become ready, the disbursement started.\<close>

definition mark_started :: "string \<Rightarrow> string \<Rightarrow> ('z platform_scheme, go_error, unit) prog" where
  "mark_started userID disbursementID =
     bindE (wrapE ''error updating payment status to ready for disbursement with id %s''
              (PaymentModel_UpdateStatusByDisbursementID disbursementID ReadyPaymentStatus)) (\<lambda>_.
     bindE (wrapE ''error updating receiver wallet status to ready for disbursement with id %s''
              (ReceiverWalletModel_UpdateStatusByDisbursementID disbursementID DraftReceiversWalletStatus ReadyReceiversWalletStatus)) (\<lambda>_.
     wrapE ''error updating disbursement status to started for disbursement with id %s''
       (DisbursementModel_UpdateStatus userID disbursementID StartedDisbursementStatus)))"

definition start_body ::
  "sdp_env \<Rightarrow> string \<Rightarrow> string \<Rightarrow> TransactionAccount \<Rightarrow> ('z platform_scheme, go_error, unit) prog" where
  "start_body env disbursementID userID distributionAccount =
     bindE (or_disbursement_not_found (DisbursementModel_GetWithStatistics env disbursementID)) (\<lambda>d.
     if \<not> wl_Enabled (ds_Wallet d) then throw ErrDisbursementWalletDisabled
     else case DisbursementStatus_TransitionTo (ds_Status (ds_row d)) StartedDisbursementStatus of
       Inl _ \<Rightarrow> throw ErrDisbursementNotReadyToStart
     | Inr _ \<Rightarrow>
         bindE (wrapE ''error getting organization'' OrganizationModel_Get) (\<lambda>organization.
         if org_IsApprovalRequired organization \<and> ds_Status (ds_row d) \<noteq> ApprovedDisbursementStatus
           then throw ErrDisbursementRequiresApprovalStep
         else if org_IsApprovalRequired organization \<and> created_by userID (ds_row d)
           then throw ErrDisbursementStartedByCreator
         else
         bindE (wrapE ''validating balance for disbursement'' (validateBalanceForDisbursement env distributionAccount d)) (\<lambda>_.
         mark_started userID disbursementID)))"

definition StartDisbursement ::
  "sdp_env \<Rightarrow> string \<Rightarrow> string \<Rightarrow> TransactionAccount \<Rightarrow> ('z platform_scheme, go_error, unit) prog" where
  "StartDisbursement env disbursementID userID distributionAccount =
     RunInTransaction sdp_rollback (start_body env disbursementID userID distributionAccount)"

definition pause_body :: "string \<Rightarrow> string \<Rightarrow> ('z platform_scheme, go_error, unit) prog" where
  "pause_body disbursementID userID =
     bindE (or_disbursement_not_found (DisbursementModel_Get disbursementID)) (\<lambda>d.
     case DisbursementStatus_TransitionTo (ds_Status (ds_row d)) PausedDisbursementStatus of
       Inl _ \<Rightarrow> throw ErrDisbursementNotReadyToPause
     | Inr _ \<Rightarrow>
         bindE (wrapE ''error updating payment status to paused for disbursement with id %s''
                  (PaymentModel_UpdateStatusByDisbursementID disbursementID PausedPaymentStatus)) (\<lambda>_.
         wrapE ''error updating disbursement status to started for disbursement with id %s''
           (DisbursementModel_UpdateStatus userID disbursementID PausedDisbursementStatus)))"

definition PauseDisbursement :: "string \<Rightarrow> string \<Rightarrow> ('z platform_scheme, go_error, unit) prog" where
  "PauseDisbursement disbursementID userID = RunInTransaction sdp_rollback (pause_body disbursementID userID)"

definition approve_body :: "string \<Rightarrow> string \<Rightarrow> ('z platform_scheme, go_error, unit) prog" where
  "approve_body disbursementID userID =
     bindE (or_disbursement_not_found (DisbursementModel_Get disbursementID)) (\<lambda>d.
     case DisbursementStatus_TransitionTo (ds_Status (ds_row d)) ApprovedDisbursementStatus of
       Inl _ \<Rightarrow> throw ErrDisbursementNotReadyToApprove
     | Inr _ \<Rightarrow>
         bindE (wrapE ''error getting organization'' OrganizationModel_Get) (\<lambda>organization.
         if org_IsApprovalRequired organization \<and> created_by userID (ds_row d) then throw ErrDisbursementApprovedByCreator
         else wrapE ''error updating disbursement status to approved for disbursement with id %s''
           (DisbursementModel_UpdateStatus userID disbursementID ApprovedDisbursementStatus)))"

definition ApproveDisbursement :: "string \<Rightarrow> string \<Rightarrow> ('z platform_scheme, go_error, unit) prog" where
  "ApproveDisbursement disbursementID userID = RunInTransaction sdp_rollback (approve_body disbursementID userID)"

definition rejection_target :: "DisbursementStatus \<Rightarrow> DisbursementStatus option" where
  "rejection_target status =
     (if status = ReadyDisbursementStatus then Some DraftDisbursementStatus
      else if status = ApprovedDisbursementStatus then Some ReadyDisbursementStatus
      else None)"

definition reject_body :: "string \<Rightarrow> string \<Rightarrow> string \<Rightarrow> ('z platform_scheme, go_error, unit) prog" where
  "reject_body disbursementID userID reason =
     bindE (or_disbursement_not_found (DisbursementModel_Get disbursementID)) (\<lambda>d.
     case rejection_target (ds_Status (ds_row d)) of
       None \<Rightarrow> throw ErrDisbursementNotReadyToReject
     | Some targetStatus \<Rightarrow>
         (case DisbursementStatus_TransitionTo (ds_Status (ds_row d)) targetStatus of
            Inl _ \<Rightarrow> throw ErrDisbursementNotReadyToReject
          | Inr _ \<Rightarrow> wrapE ''error updating disbursement status to %s for disbursement with id %s''
              (DisbursementModel_UpdateStatusWithReason userID disbursementID targetStatus reason)))"

definition RejectDisbursement :: "string \<Rightarrow> string \<Rightarrow> string \<Rightarrow> ('z platform_scheme, go_error, unit) prog" where
  "RejectDisbursement disbursementID userID reason =
     (if TrimSpace reason = [] then throw ErrDisbursementRejectionReasonRequired
      else RunInTransaction sdp_rollback (reject_body disbursementID userID reason))"

definition submit_body ::
  "sdp_env \<Rightarrow> string \<Rightarrow> string \<Rightarrow> TransactionAccount \<Rightarrow> ('z platform_scheme, go_error, unit) prog" where
  "submit_body env disbursementID userID distributionAccount =
     bindE (or_disbursement_not_found (DisbursementModel_GetWithStatistics env disbursementID)) (\<lambda>d.
     if \<not> wl_Enabled (ds_Wallet d) then throw ErrDisbursementWalletDisabled
     else if ds_Status (ds_row d) \<noteq> ApprovedDisbursementStatus then throw ErrDisbursementNotReadyToSubmit
     else case DisbursementStatus_TransitionTo (ds_Status (ds_row d)) StartedDisbursementStatus of
       Inl _ \<Rightarrow> throw ErrDisbursementNotReadyToSubmit
     | Inr _ \<Rightarrow>
         bindE (wrapE ''validating balance for disbursement'' (validateBalanceForDisbursement env distributionAccount d)) (\<lambda>_.
         mark_started userID disbursementID))"

definition SubmitDisbursement ::
  "sdp_env \<Rightarrow> string \<Rightarrow> string \<Rightarrow> TransactionAccount \<Rightarrow> ('z platform_scheme, go_error, unit) prog" where
  "SubmitDisbursement env disbursementID userID distributionAccount =
     RunInTransaction sdp_rollback (submit_body env disbursementID userID distributionAccount)"

definition ErrDisbursementStatusCantBeChanged :: go_error where
  "ErrDisbursementStatusCantBeChanged = Errorf ''disbursement status can't be changed to the requested status''"

end
