(* ===== verification/Disbursement_Handler.thy ===== *)
theory Disbursement_Handler
  imports Instruction_Validation Disbursement_Management
begin

text \<open>
  The handlers of the disbursements (\<open>src/internal/serve/httphandler/disbursement_handler.go\<close>): creation, with or
  without an instructions file, upload of a file, deletion, and the responses of the status changes. A handler returns
  its result or the \<open>HTTPError\<close> that is rendered; the user and the distribution account of the request and its
  decoded body are arguments. Metrics, the size limit of the body and the rendering are left out.
\<close>

section \<open>Responses\<close>

definition BadRequest :: "string \<Rightarrow> go_error option \<Rightarrow> go_error" where "BadRequest m e = HTTPError 400 m e"
definition Forbidden :: "string \<Rightarrow> go_error option \<Rightarrow> go_error" where "Forbidden m e = HTTPError 403 m e"
definition NotFound :: "string \<Rightarrow> go_error option \<Rightarrow> go_error" where "NotFound m e = HTTPError 404 m e"
definition Conflict :: "string \<Rightarrow> go_error option \<Rightarrow> go_error" where "Conflict m e = HTTPError 409 m e"
definition InternalError :: "string \<Rightarrow> go_error option \<Rightarrow> go_error" where "InternalError m e = HTTPError 500 m e"

definition http_error :: "go_error \<Rightarrow> go_error option" where
  "http_error err = error_as (\<lambda>e. case e of HTTPError c m x \<Rightarrow> Some e | _ \<Rightarrow> None) err"

definition or_internal :: "string \<Rightarrow> ('s, go_error, 'a) prog \<Rightarrow> ('s, go_error, 'a) prog" where
  "or_internal msg m = handleE m
     (\<lambda>err. case http_error err of Some e \<Rightarrow> throw e | None \<Rightarrow> throw (InternalError msg (Some err))) ret"

section \<open>Creation\<close>

record PostDisbursementRequest =
  pr_Name :: string
  pr_WalletID :: string
  pr_AssetID :: string
  pr_VerificationField :: VerificationType
  pr_RegistrationContactType :: RegistrationContactType
  pr_ReceiverRegistrationMessageTemplate :: string

definition validate_wallet_choice :: "PostDisbursementRequest \<Rightarrow> Validator \<Rightarrow> ('z platform_scheme, go_error, Validator) prog" where
  "validate_wallet_choice req v =
     (let trimmed = TrimSpace (pr_WalletID req); v1 = Check (trimmed \<noteq> []) ''wallet_id'' ''wallet_id is required'' v in
      bindE (if trimmed = [] then ret (None, v1)
             else handleE (WalletModel_Get trimmed)
               (\<lambda>_. ret (None, Check False ''wallet_id'' ''wallet_id could not be retrieved'' v1)) (\<lambda>w. ret (Some w, v1)))
      (\<lambda>(wallet, v2).
       let walletIsEmbedded = (case wallet of None \<Rightarrow> False | Some w \<Rightarrow> wl_Embedded w) in
       ret (if \<not> walletIsEmbedded \<or> pr_VerificationField req \<noteq> []
            then Check (pr_VerificationField req \<in> set GetAllVerificationTypes) ''verification_field'' ''verification_field must be one of %v'' v2
            else v2)))"

definition validateRequest :: "http_env \<Rightarrow> PostDisbursementRequest \<Rightarrow> ('z platform_scheme, go_error, Validator) prog" where
  "validateRequest he req =
     (let v1 = Check (pr_Name req \<noteq> []) ''name'' ''name is required'' NewValidator;
          v2 = Check (pr_AssetID req \<noteq> []) ''asset_id'' ''asset_id is required'' v1;
          v3 = Check (pr_RegistrationContactType req \<in> set AllRegistrationContactTypes) ''registration_contact_type''
                 ''registration_contact_type must be one of %v'' v2;
          v4 = CheckError (env_sdk (he_sdp he)) (err_of (ValidateNoHTML (html_UnescapeString he) (pr_ReceiverRegistrationMessageTemplate req)))
                 ''receiver_registration_message_template'' ''receiver_registration_message_template cannot contain HTML, JS or CSS'' v3
      in if \<not> rt_IncludesWalletAddress (pr_RegistrationContactType req) then validate_wallet_choice req v4
         else ret (Check (pr_WalletID req = []) ''wallet_id'' ''wallet_id is not allowed for this registration contact type''
                (Check (pr_VerificationField req = []) ''verification_field'' ''verification_field is not allowed for this registration contact type'' v4)))"

definition choose_wallet :: "PostDisbursementRequest \<Rightarrow> ('z platform_scheme, go_error, Wallet) prog" where
  "choose_wallet req =
     (if rt_IncludesWalletAddress (pr_RegistrationContactType req)
      then handleE (WalletModel_FindWallets [FilterUserManaged True, FilterEnabledWallets True])
             (\<lambda>e. throw (InternalError ''Cannot get wallets'' (Some e)))
             (\<lambda>ws. case ws of [] \<Rightarrow> throw (BadRequest ''No User Managed Wallets found'' None) | w # _ \<Rightarrow> ret w)
      else handleE (WalletModel_Get (pr_WalletID req)) (\<lambda>e. throw (BadRequest ''Wallet ID could not be retrieved'' (Some e))) ret)"

definition new_disbursement :: "PostDisbursementRequest \<Rightarrow> string \<Rightarrow> int \<Rightarrow> Wallet \<Rightarrow> Asset \<Rightarrow> disbursement_row" where
  "new_disbursement req userID now wallet asset =
     \<lparr>ds_ID = [], ds_Name = pr_Name req, ds_wallet_id = wl_ID wallet, ds_asset_id = as_ID asset, ds_Status = DraftDisbursementStatus,
      ds_StatusHistory = [disbursement_history now DraftDisbursementStatus userID []],
      ds_VerificationField = pr_VerificationField req,
      ds_ReceiverRegistrationMessageTemplate = pr_ReceiverRegistrationMessageTemplate req,
      ds_RegistrationContactType = pr_RegistrationContactType req, ds_FileName = [], ds_FileContent = [],
      ds_CreatedAt = 0, ds_UpdatedAt = 0\<rparr>"

definition createNewDisbursement :: "string \<Rightarrow> PostDisbursementRequest \<Rightarrow> ('z platform_scheme, go_error, Disbursement) prog" where
  "createNewDisbursement userID req =
     bindE (choose_wallet req) (\<lambda>wallet.
     if \<not> wl_Enabled wallet then throw (BadRequest ''Wallet is not enabled'' (Some (Errorf ''wallet is not enabled'')))
     else
     bindE (handleE (AssetModel_Get (pr_AssetID req)) (\<lambda>e. throw (BadRequest ''asset ID could not be retrieved'' (Some e))) ret) (\<lambda>asset.
     bindE (getsE conn_now) (\<lambda>now.
     bindE (handleE (DisbursementModel_Insert (new_disbursement req userID now wallet asset))
       (\<lambda>e. if error_is e ErrRecordAlreadyExists then throw (Conflict ''disbursement already exists'' (Some e))
            else throw (BadRequest ''could not create disbursement'' (Some e))) ret) (\<lambda>newID.
     handleE (DisbursementModel_Get newID) (\<lambda>e. throw (InternalError ''Cannot retrieve disbursement for ID: %s'' (Some e))) ret))))"

section \<open>Instructions\<close>

definition instructions_error :: "stellar_sdk \<Rightarrow> go_error \<Rightarrow> go_error" where
  "instructions_error sdk err =
     (if error_is err ErrMaxInstructionsExceeded then BadRequest ''number of instructions exceeds maximum of %d'' (Some err)
      else if error_is err ErrReceiverVerificationMismatch \<or> error_is err ErrReceiverWalletAddressMismatch
        then BadRequest (case unwrap err of None \<Rightarrow> [] | Some e \<Rightarrow> error_text sdk e) (Some err)
      else if error_is err ErrDuplicateWalletAddress then Conflict (error_text sdk err) (Some err)
      else InternalError ''Cannot process instructions for disbursement with ID %s'' (Some err))"

definition validateAndProcessInstructions ::
  "http_env \<Rightarrow> form_file \<Rightarrow> string \<Rightarrow> Disbursement \<Rightarrow> ('z platform_scheme, go_error, unit) prog" where
  "validateAndProcessInstructions he file userID d =
     bindE (wrapE ''could not parse csv file'' (liftE (parseCsvFromMultipartRequest file))) (\<lambda>(buf, filename).
     let contactType = ds_RegistrationContactType (ds_row d); verificationField = ds_VerificationField (ds_row d);
         skipVerification = (wl_Embedded (ds_Wallet d) \<and> verificationField = []) in
     case validateCSVHeaders he buf contactType skipVerification of
       Inl e \<Rightarrow> throw (BadRequest ''CSV columns are not valid for registration contact type %s: %s'' (Some e))
     | Inr _ \<Rightarrow>
         bindE (getsE conn_now) (\<lambda>now.
         case parseInstructionsFromCSV he now buf contactType verificationField of
           Inl v \<Rightarrow> throw (BadRequest ''could not parse csv file'' None)
         | Inr instructions \<Rightarrow>
             handleE (ProcessAll (he_sdp he)
                \<lparr>io_UserID = userID, io_Instructions = instructions, io_Disbursement = d,
                 io_DisbursementUpdate = \<lparr>du_ID = ds_ID (ds_row d), du_FileName = filename, du_FileContent = buf\<rparr>,
                 io_MaxNumberOfInstructions = MaxInstructionsPerDisbursement\<rparr>)
               (\<lambda>e. throw (instructions_error (env_sdk (he_sdp he)) e)) ret))"

definition upload_body :: "http_env \<Rightarrow> form_file \<Rightarrow> string \<Rightarrow> string \<Rightarrow> ('z platform_scheme, go_error, unit) prog" where
  "upload_body he file userID disbursementID =
     bindE (handleE (DisbursementModel_Get disbursementID) (\<lambda>e. throw (BadRequest ''disbursement ID is invalid'' (Some e))) ret) (\<lambda>d.
     if ds_Status (ds_row d) \<notin> {DraftDisbursementStatus, ReadyDisbursementStatus}
       then throw (BadRequest ''disbursement is not in draft or ready status'' None)
     else validateAndProcessInstructions he file userID d)"

definition PostDisbursementInstructions :: "http_env \<Rightarrow> form_file \<Rightarrow> string \<Rightarrow> string \<Rightarrow> ('z platform_scheme, go_error, unit) prog" where
  "PostDisbursementInstructions he file userID disbursementID =
     or_internal ''Cannot process instructions for disbursement'' (RunInTransaction sdp_rollback (upload_body he file userID disbursementID))"

definition post_with_instructions_body ::
  "http_env \<Rightarrow> form_file \<Rightarrow> string \<Rightarrow> PostDisbursementRequest \<Rightarrow> ('z platform_scheme, go_error, Disbursement) prog" where
  "post_with_instructions_body he file userID req =
     bindE (createNewDisbursement userID req) (\<lambda>d.
     bindE (wrapE ''could not process instructions'' (validateAndProcessInstructions he file userID d)) (\<lambda>_. ret d))"

text \<open>The request is the decoded form value, or the error of decoding it.\<close>

definition postDisbursementWithInstructions ::
  "http_env \<Rightarrow> form_file \<Rightarrow> string \<Rightarrow> go_error + PostDisbursementRequest \<Rightarrow> ('z platform_scheme, go_error, Disbursement) prog" where
  "postDisbursementWithInstructions he file userID decoded =
     (case decoded of
        Inl e \<Rightarrow> throw (BadRequest (error_text (env_sdk (he_sdp he)) e) (Some e))
      | Inr req \<Rightarrow> or_internal ''Cannot create disbursement''
          (RunInTransactionWithResult sdp_rollback (post_with_instructions_body he file userID req)))"

definition postDisbursementOnly :: "http_env \<Rightarrow> string \<Rightarrow> PostDisbursementRequest \<Rightarrow> ('z platform_scheme, go_error, Disbursement) prog" where
  "postDisbursementOnly he userID req =
     bindE (validateRequest he req) (\<lambda>v.
     if HasErrors v then throw (BadRequest ''The request was invalid in some way.'' None) else createNewDisbursement userID req)"

datatype post_disbursement =
    WithInstructions form_file "go_error + PostDisbursementRequest"
  | WithoutInstructions "go_error + PostDisbursementRequest"

definition PostDisbursement :: "http_env \<Rightarrow> string \<Rightarrow> post_disbursement \<Rightarrow> ('z platform_scheme, go_error, Disbursement) prog" where
  "PostDisbursement he userID request =
     (case request of
        WithInstructions file decoded \<Rightarrow> postDisbursementWithInstructions he file userID decoded
      | WithoutInstructions (Inl e) \<Rightarrow> throw (BadRequest (error_text (env_sdk (he_sdp he)) e) (Some e))
      | WithoutInstructions (Inr req) \<Rightarrow> postDisbursementOnly he userID req)"

section \<open>Deletion\<close>

definition ErrDisbursementStarted :: go_error where
  "ErrDisbursementStarted = Errorf ''can't delete disbursement that has started''"

definition delete_disbursement_body :: "string \<Rightarrow> ('z platform_scheme, go_error, Disbursement) prog" where
  "delete_disbursement_body disbursementID =
     bindE (wrapE ''getting disbursement'' (DisbursementModel_Get disbursementID)) (\<lambda>d.
     if ds_Status (ds_row d) \<notin> set NotStartedDisbursementStatuses then throw ErrDisbursementStarted
     else
     bindE (wrapE ''deleting payments'' (PaymentModel_DeleteAllDraftForDisbursement disbursementID)) (\<lambda>_.
     bindE (wrapE ''deleting draft or ready disbursement'' (DisbursementModel_Delete disbursementID)) (\<lambda>_.
     ret d)))"

definition delete_error :: "go_error \<Rightarrow> go_error" where
  "delete_error err =
     (if error_is err ErrRecordNotFound then NotFound ''Disbursement not found'' (Some err)
      else if error_is err ErrDisbursementStarted then BadRequest ''Cannot delete a disbursement that has started'' (Some err)
      else InternalError ''Cannot delete disbursement'' (Some err))"

definition DeleteDisbursement :: "string \<Rightarrow> ('z platform_scheme, go_error, Disbursement) prog" where
  "DeleteDisbursement disbursementID =
     handleE (RunInTransactionWithResult sdp_rollback (delete_disbursement_body disbursementID)) (\<lambda>e. throw (delete_error e)) ret"

section \<open>Status changes\<close>

definition sentinel_text :: "go_error \<Rightarrow> string" where
  "sentinel_text e = (case e of Errorf m \<Rightarrow> m | _ \<Rightarrow> [])"

text \<open>The response to an error of start or pause; an insufficient balance is found by \<open>errors.As\<close>.\<close>

definition patch_error :: "go_error \<Rightarrow> go_error" where
  "patch_error err =
     (if error_is err ErrDisbursementNotFound then NotFound (sentinel_text ErrDisbursementNotFound) (Some err)
      else if error_is err ErrDisbursementNotReadyToStart then BadRequest (sentinel_text ErrDisbursementNotReadyToStart) (Some err)
      else if error_is err ErrDisbursementNotReadyToPause then BadRequest (sentinel_text ErrDisbursementNotReadyToPause) (Some err)
      else if error_is err ErrDisbursementStatusCantBeChanged then BadRequest (sentinel_text ErrDisbursementStatusCantBeChanged) (Some err)
      else if error_is err ErrDisbursementStartedByCreator
        then Forbidden ''Disbursement can't be started by its creator. Approval by another user is required.'' (Some err)
      else if error_is err ErrDisbursementRequiresApprovalStep then BadRequest (sentinel_text ErrDisbursementRequiresApprovalStep) (Some err)
      else if error_is err ErrDisbursementWalletDisabled then BadRequest (sentinel_text ErrDisbursementWalletDisabled) (Some err)
      else if error_is err InsufficientBalanceError then Conflict (sentinel_text InsufficientBalanceError) (Some err)
      else InternalError ''Cannot update disbursementID=%s with status=%s: %v'' (Some err))"

definition approve_error :: "go_error \<Rightarrow> go_error" where
  "approve_error err =
     (if error_is err ErrDisbursementNotFound then NotFound (sentinel_text ErrDisbursementNotFound) (Some err)
      else if error_is err ErrDisbursementNotReadyToApprove then BadRequest (sentinel_text ErrDisbursementNotReadyToApprove) (Some err)
      else if error_is err ErrDisbursementApprovedByCreator
        then Forbidden ''Disbursement can't be approved by its creator. Approval by another user is required.'' (Some err)
      else InternalError ''Cannot approve disbursementID=%s: %v'' (Some err))"

definition reject_error :: "go_error \<Rightarrow> go_error" where
  "reject_error err =
     (if error_is err ErrDisbursementNotFound then NotFound (sentinel_text ErrDisbursementNotFound) (Some err)
      else if error_is err ErrDisbursementNotReadyToReject then BadRequest (sentinel_text ErrDisbursementNotReadyToReject) (Some err)
      else if error_is err ErrDisbursementRejectionReasonRequired then BadRequest (sentinel_text ErrDisbursementRejectionReasonRequired) (Some err)
      else InternalError ''Cannot reject disbursementID=%s: %v'' (Some err))"

text \<open>Submission compares with the empty \<open>InsufficientBalanceError{}\<close>, which no error of the service equals, as
  the balance check always fills in the disbursement.\<close>

definition submit_error :: "go_error \<Rightarrow> go_error" where
  "submit_error err =
     (if error_is err ErrDisbursementNotFound then NotFound (sentinel_text ErrDisbursementNotFound) (Some err)
      else if error_is err ErrDisbursementNotReadyToSubmit then BadRequest (sentinel_text ErrDisbursementNotReadyToSubmit) (Some err)
      else if error_is err ErrDisbursementWalletDisabled then BadRequest (sentinel_text ErrDisbursementWalletDisabled) (Some err)
      else InternalError ''Cannot submit disbursementID=%s: %v'' (Some err))"

definition PatchDisbursementStatus ::
  "sdp_env \<Rightarrow> string \<Rightarrow> string \<Rightarrow> DisbursementStatus \<Rightarrow> ('z platform_scheme, go_error, unit) prog" where
  "PatchDisbursementStatus env disbursementID userID requested =
     (case ToDisbursementStatus requested of
        Inl e \<Rightarrow> throw (BadRequest ''invalid status'' (Some e))
      | Inr toStatus \<Rightarrow>
          (if toStatus = StartedDisbursementStatus then
             bindE (net_call (\<lambda>n. DistributionAccountFromContext env n)) (\<lambda>r.
             case r of
               Inl e \<Rightarrow> throw (InternalError ''Cannot get distribution account'' (Some e))
             | Inr distributionAccount \<Rightarrow>
                 handleE (StartDisbursement env disbursementID userID distributionAccount) (\<lambda>e. throw (patch_error e)) ret)
           else if toStatus = PausedDisbursementStatus then
             handleE (PauseDisbursement disbursementID userID) (\<lambda>e. throw (patch_error e)) ret
           else throw (patch_error ErrDisbursementStatusCantBeChanged)))"

definition ApproveDisbursement_handler :: "string \<Rightarrow> string \<Rightarrow> ('z platform_scheme, go_error, unit) prog" where
  "ApproveDisbursement_handler disbursementID userID =
     handleE (ApproveDisbursement disbursementID userID) (\<lambda>e. throw (approve_error e)) ret"

definition RejectDisbursement_handler :: "string \<Rightarrow> string \<Rightarrow> string \<Rightarrow> ('z platform_scheme, go_error, unit) prog" where
  "RejectDisbursement_handler disbursementID userID reason =
     handleE (RejectDisbursement disbursementID userID reason) (\<lambda>e. throw (reject_error e)) ret"

definition SubmitDisbursement_handler :: "sdp_env \<Rightarrow> string \<Rightarrow> string \<Rightarrow> ('z platform_scheme, go_error, unit) prog" where
  "SubmitDisbursement_handler env disbursementID userID =
     bindE (net_call (\<lambda>n. DistributionAccountFromContext env n)) (\<lambda>r.
     case r of
       Inl e \<Rightarrow> throw (InternalError ''Cannot get distribution account'' (Some e))
     | Inr distributionAccount \<Rightarrow>
         handleE (SubmitDisbursement env disbursementID userID distributionAccount) (\<lambda>e. throw (submit_error e)) ret)"

definition GetDisbursementInstructions :: "string \<Rightarrow> ('z platform_scheme, go_error, string \<times> string) prog" where
  "GetDisbursementInstructions disbursementID =
     handleE (DisbursementModel_Get disbursementID) (\<lambda>e. throw (NotFound ''disbursement not found'' (Some e))) (\<lambda>d.
     if ds_FileContent (ds_row d) = []
       then throw (NotFound ''disbursement %s has no instructions file'' (Some (Errorf ''disbursement %s has no instructions file'')))
     else ret (if filepath_Ext (ds_FileName (ds_row d)) \<noteq> ''.csv'' then ds_FileName (ds_row d) @ ''.csv'' else ds_FileName (ds_row d),
               ds_FileContent (ds_row d)))"

end
