(* ===== verification/Payment_Dispatch.thy ===== *)
theory Payment_Dispatch
  imports Disbursement_Management
begin

text \<open>
  The way of a payment to the submission service and back: the memo of a payment
  (\<open>src/internal/services/paymentdispatchers/memo_resolver.go\<close>), the dispatcher for Stellar
  (\<open>stellar_payment_dispatcher.go\<close>), the service that sends the payments that are ready
  (\<open>src/internal/services/payment_to_submitter_service.go\<close>) and the one that synchronises the completed
  transactions (\<open>payment_from_submitter_service.go\<close>). Each runs a transaction of the tenant's database around one of
  the submission service's database; the inner one commits first.
\<close>

section \<open>The memo\<close>

record Memo =
  mm_Value :: string
  mm_Type :: MemoType

definition no_memo :: Memo where "no_memo = \<lparr>mm_Value = [], mm_Type = []\<rparr>"

definition GenerateMemoForTenant :: "sdp_env \<Rightarrow> go_error + Memo" where
  "GenerateMemoForTenant env =
     (case GetTenantFromContext env of
        Inl e \<Rightarrow> Inl (Wrapf ''getting tenant'' e)
      | Inr (tenantID, baseURL) \<Rightarrow> Inr \<lparr>mm_Value = GenerateHashFromBaseURL env baseURL, mm_Type = MemoTypeText\<rparr>)"

definition MemoResolver_GetMemo :: "sdp_env \<Rightarrow> ReceiverWallet \<Rightarrow> ('z platform_scheme, go_error, Memo) prog" where
  "MemoResolver_GetMemo env receiverWallet =
     (if IsValidContractAddress (env_sdk env) (rw_StellarAddress receiverWallet) then ret no_memo
      else if rw_StellarMemo receiverWallet \<noteq> [] then
        ret \<lparr>mm_Value = rw_StellarMemo receiverWallet,
             mm_Type = (if rw_StellarMemoType receiverWallet = [] then MemoTypeID else rw_StellarMemoType receiverWallet)\<rparr>
      else bindE (wrapE ''getting organization'' OrganizationModel_Get) (\<lambda>org.
        if \<not> org_IsMemoTracingEnabled org then ret no_memo
        else wrapE ''generating tenant memo'' (liftE (GenerateMemoForTenant env))))"

section \<open>Sending\<close>

text \<open>The fields of the transaction that the dispatcher leaves at their zero value.\<close>

definition zero_transaction :: Transaction where
  "zero_transaction =
     \<lparr>tx_id = [], tx_external_id = [], tx_status = [], tx_status_message = None, tx_status_history = [], tx_type = [],
      tx_payment = \<lparr>AssetCode = [], AssetIssuer = [], Amount = 0, Destination = [], PMemo = [], PMemoType = []\<rparr>,
      tx_wallet_creation = \<lparr>PublicKey = [], WasmHash = []\<rparr>, tx_sponsored = \<lparr>SponsoredAccount = [], SponsoredOperationXDR = []\<rparr>,
      tx_tenant_id = [], tx_distribution_account = None, tx_created_at = 0, tx_updated_at = 0, tx_started_at = None,
      tx_sent_at = None, tx_completed_at = None, tx_synced_at = None, tx_attempts_count = 0,
      tx_stellar_transaction_hash = None, tx_xdr_sent = None, tx_xdr_received = None, tx_locked_at = None,
      tx_locked_until_ledger_number = None\<rparr>"

definition stellarMaxDecimalPlaces :: nat where "stellarMaxDecimalPlaces = 7"

definition payment_transaction :: "string \<Rightarrow> data_Payment \<Rightarrow> rat \<Rightarrow> Memo \<Rightarrow> Transaction" where
  "payment_transaction tenantID payment amount memo = zero_transaction
     \<lparr>tx_external_id := pm_ID (dp_row payment), tx_type := TransactionTypePayment,
      tx_payment := \<lparr>AssetCode = as_Code (dp_Asset payment), AssetIssuer = as_Issuer (dp_Asset payment), Amount = amount,
        Destination = rw_StellarAddress (dp_ReceiverWallet payment), PMemo = mm_Value memo, PMemoType = mm_Type memo\<rparr>,
      tx_tenant_id := tenantID\<rparr>"

definition build_transaction :: "sdp_env \<Rightarrow> string \<Rightarrow> data_Payment \<Rightarrow> ('z platform_scheme, go_error, Transaction) prog" where
  "build_transaction env tenantID payment =
     bindE (wrapE ''parsing payment amount %s for payment ID %s'' (liftE (decimal_NewFromString env (pm_Amount (dp_row payment))))) (\<lambda>amount.
     if amount \<noteq> decimal_Truncate env stellarMaxDecimalPlaces amount
     then throw (Errorf ''payment amount %s for payment ID %s exceeds Stellar's %d decimal place precision'')
     else bindE (wrapE ''getting memo'' (MemoResolver_GetMemo env (dp_ReceiverWallet payment))) (\<lambda>memo.
     ret (payment_transaction tenantID payment amount memo)))"

definition sendPaymentsToTSS :: "sdp_env \<Rightarrow> string \<Rightarrow> data_Payment list \<Rightarrow> ('z platform_scheme, go_error, unit) prog" where
  "sendPaymentsToTSS env tenantID pendingPayments =
     bindE (forE pendingPayments (build_transaction env tenantID)) (\<lambda>transactions.
     bindE (wrapE ''inserting transactions'' (TransactionModel_BulkInsert (env_sdk env) transactions)) (\<lambda>_.
     if pendingPayments \<noteq> []
     then bindE (wrapE ''updating payment statuses to %s'' (PaymentModel_UpdateStatuses pendingPayments PendingPaymentStatus)) (\<lambda>_. ret ())
     else ret ()))"

definition StellarPaymentDispatcher_DispatchPayments ::
  "sdp_env \<Rightarrow> string \<Rightarrow> data_Payment list \<Rightarrow> ('z platform_scheme, go_error, unit) prog" where
  "StellarPaymentDispatcher_DispatchPayments env tenantID paymentsToDispatch =
     (if paymentsToDispatch = [] then ret ()
      else
      bindE (net_call (\<lambda>n. DistributionAccountFromContext env n)) (\<lambda>r.
      bindE (wrapE ''getting distribution account'' (liftE r)) (\<lambda>distAccount.
      if \<not> AccountType_IsStellar (ta_Type distAccount)
      then throw (Errorf ''distribution account is not a Stellar account for tenant %s'')
      else RunInTransaction tss_rollback (sendPaymentsToTSS env tenantID paymentsToDispatch))))"

definition validatePaymentReadyForSending :: "sdp_env \<Rightarrow> data_Payment \<Rightarrow> go_error + unit" where
  "validatePaymentReadyForSending env p =
     (let codeTrimmed = TrimSpace (as_Code (dp_Asset p)) in
      if pm_Status (dp_row p) \<noteq> ReadyPaymentStatus then Inl (Errorf ''payment %s is not in %s state'')
      else if rw_Status (dp_ReceiverWallet p) \<noteq> RegisteredReceiversWalletStatus
        then Inl (Errorf ''receiver wallet %s for payment %s is not in %s state'')
      else if pm_Type (dp_row p) = PaymentTypeDisbursement \<and> dp_Disbursement p = None then Inl NilDereference
      else if pm_Type (dp_row p) = PaymentTypeDisbursement \<and> \<not> disbursement_started p
        then Inl (Errorf ''disbursement %s for payment %s is not in %s state'')
      else if TrimSpace (pm_ID (dp_row p)) = [] then Inl (Errorf ''payment ID is empty for Payment'')
      else if codeTrimmed = [] then Inl (Errorf ''payment asset code is empty for payment %s'')
      else if TrimSpace (as_Issuer (dp_Asset p)) = [] \<and> codeTrimmed \<noteq> ''XLM'' \<and> codeTrimmed \<noteq> ''NATIVE''
        then Inl (Errorf ''payment asset issuer is empty for payment %s'')
      else if isl (ValidateAmount env (pm_Amount (dp_row p))) then Inl (Errorf ''payment amount is invalid for payment %s'')
      else if TrimSpace (rw_StellarAddress (dp_ReceiverWallet p)) = []
        then Inl (Errorf ''payment receiver wallet stellar address is empty for payment %s'')
      else Inr ())"

definition markPaymentsAsFailed :: "data_Payment list \<Rightarrow> ('z platform_scheme, go_error, unit) prog" where
  "markPaymentsAsFailed failedPayments =
     (if failedPayments = [] then ret ()
      else bindE (wrapE ''updating payment statuses to Failed'' (PaymentModel_UpdateStatuses failedPayments FailedPaymentStatus)) (\<lambda>_. ret ()))"

definition send_body ::
  "sdp_env \<Rightarrow> string \<Rightarrow> ('z platform_scheme, go_error, data_Payment list) prog \<Rightarrow> ('z platform_scheme, go_error, unit) prog" where
  "send_body env tenantID getPaymentsFn =
     bindE (wrapE ''getting payments ready to be sent'' getPaymentsFn) (\<lambda>ps.
     let failedPayments = filter (\<lambda>p. isl (validatePaymentReadyForSending env p)) ps;
         pendingPayments = filter (\<lambda>p. \<not> isl (validatePaymentReadyForSending env p)) ps in
     bindE (wrapE ''marking payments as failed'' (markPaymentsAsFailed failedPayments)) (\<lambda>_.
     wrapE ''sending payments to target platform'' (StellarPaymentDispatcher_DispatchPayments env tenantID pendingPayments)))"

definition sendPaymentsReadyToPay ::
  "sdp_env \<Rightarrow> string \<Rightarrow> ('z platform_scheme, go_error, data_Payment list) prog \<Rightarrow> ('z platform_scheme, go_error, unit) prog" where
  "sendPaymentsReadyToPay env tenantID getPaymentsFn =
     wrapE ''sending payments ready-to-pay inside syncronized database transactions''
       (RunInTransaction sdp_rollback (send_body env tenantID getPaymentsFn))"

definition SendBatchPayments :: "sdp_env \<Rightarrow> int \<Rightarrow> ('z platform_scheme, go_error, unit) prog" where
  "SendBatchPayments env batchSize =
     (case GetTenantFromContext env of
        Inl e \<Rightarrow> throw (Wrapf ''getting tenant from context'' e)
      | Inr (tenantID, baseURL) \<Rightarrow>
          wrapE ''sending payments'' (sendPaymentsReadyToPay env tenantID (PaymentModel_GetBatchForUpdate batchSize)))"

section \<open>Synchronising\<close>

fun check_completed :: "Transaction list \<Rightarrow> go_error + unit" where
  "check_completed [] = Inr ()"
| "check_completed (tx # txs) =
     (if tx_stellar_transaction_hash tx = None then Inl (Errorf ''expected transaction %s to have a stellar transaction hash'')
      else if tx_status tx \<noteq> TransactionStatusSuccess \<and> tx_status tx \<noteq> TransactionStatusError
        then Inl (Errorf ''transaction id %s is in an unexpected status %s'')
      else check_completed txs)"

definition payment_target :: "Transaction \<Rightarrow> PaymentStatus option" where
  "payment_target tx =
     (if tx_status tx = TransactionStatusSuccess then Some SuccessPaymentStatus
      else if tx_status tx = TransactionStatusError then Some FailedPaymentStatus
      else None)"

definition payment_update :: "Transaction \<Rightarrow> PaymentStatus \<Rightarrow> PaymentUpdate" where
  "payment_update tx toStatus =
     \<lparr>pu_Status = toStatus, pu_StatusMessage = nullable (tx_status_message tx),
      pu_StellarTransactionID = nullable (tx_stellar_transaction_hash tx), pu_SenderAddress = nullable (tx_distribution_account tx)\<rparr>"

definition syncPaymentWithTransaction :: "Transaction \<Rightarrow> ('z platform_scheme, go_error, unit) prog" where
  "syncPaymentWithTransaction tx =
     bindE (wrapE ''getting payments by IDs'' (PaymentModel_GetByIDs [tx_external_id tx])) (\<lambda>ps.
     case ps of
       [payment] \<Rightarrow>
         (case payment_target tx of
            None \<Rightarrow> throw (Errorf ''invalid transaction status %s. Expected only %s or %s'')
          | Some toStatus \<Rightarrow>
              bindE (wrapE ''updating payment ID %s for transaction ID %s''
                       (PaymentModel_Update payment (payment_update tx toStatus))) (\<lambda>_.
              if pm_Type (dp_row payment) = PaymentTypeDisbursement
              then (case dp_Disbursement payment of
                      None \<Rightarrow> throw NilDereference
                    | Some d \<Rightarrow> wrapE ''completing disbursement'' (DisbursementModel_CompleteDisbursements [ds_ID d]))
              else ret ()))
     | _ \<Rightarrow> throw (Errorf ''expected exactly 1 payment for the transaction ID %s but found %d''))"

definition syncTransactions :: "Transaction list \<Rightarrow> ('z platform_scheme, go_error, unit) prog" where
  "syncTransactions transactions =
     (if transactions = [] then ret ()
      else (case check_completed transactions of
          Inl e \<Rightarrow> throw e
        | Inr _ \<Rightarrow>
            bindE (forE transactions (\<lambda>tx. wrapE ''syncing payments for transaction ID %s'' (syncPaymentWithTransaction tx))) (\<lambda>_.
            wrapE ''updating transactions as synced'' (TransactionModel_UpdateSyncedTransactions (map tx_id transactions)))))"

definition sync_body :: "int \<Rightarrow> string \<Rightarrow> ('z platform_scheme, go_error, unit) prog" where
  "sync_body batchSize tenantID =
     bindE (wrapE ''getting payment transactions for update''
              (TransactionModel_GetTransactionBatchForUpdate batchSize tenantID TransactionTypePayment)) syncTransactions"

definition SyncBatchTransactions :: "int \<Rightarrow> string \<Rightarrow> ('z platform_scheme, go_error, unit) prog" where
  "SyncBatchTransactions batchSize tenantID =
     wrapE ''synchronizing payments from submitter''
       (RunInTransaction sdp_rollback (RunInTransaction tss_rollback (sync_body batchSize tenantID)))"

end
