(* ===== verification/Upload_Relation.thy ===== *)
theory Upload_Relation
  imports Disbursement_Handler Payment_Dispatch
begin

text \<open>
  The interface for what an upload of instructions, and the creation and deletion of a disbursement, keep:
  \<open>upload_relation\<close> is a relation between platform states that tolerates faults, rollbacks and each of the statements
  of these handlers, as far as the constraints let it through. What the upload does to existing wallets and
  verifications is left to the two steps that do it.
\<close>

locale upload_relation = db_relation R
  for R :: "'z platform_scheme \<Rightarrow> 'z platform_scheme \<Rightarrow> bool" +
  assumes R_sdp_rollback: "R s s' \<Longrightarrow> R s (sdp_rollback s s')"
    and R_calls: "R s (s\<lparr>tss_calls := n\<rparr>)"
    and R_new_receiver: "receivers_ok (s\<lparr>receivers := receivers s @ [receiver], conn_uuid_next := m\<rparr>) \<Longrightarrow>
      R s (s\<lparr>receivers := receivers s @ [receiver], conn_uuid_next := m\<rparr>)"
    and R_new_wallet: "receiver_wallets_ok (s\<lparr>receiver_wallets := receiver_wallets s @ [inserted_wallet i x now], conn_uuid_next := m\<rparr>) \<Longrightarrow>
      R s (s\<lparr>receiver_wallets := receiver_wallets s @ [inserted_wallet i x now], conn_uuid_next := m\<rparr>)"
    and R_retry: "receiver_wallets_ok (s\<lparr>receiver_wallets := sql_update P (rw_touched (\<lambda>now w. w\<lparr>rw_InvitationSentAt := None\<rparr>) now) (receiver_wallets s)\<rparr>) \<Longrightarrow>
      R s (s\<lparr>receiver_wallets := sql_update P (rw_touched (\<lambda>now w. w\<lparr>rw_InvitationSentAt := None\<rparr>) now) (receiver_wallets s)\<rparr>)"
    and R_new_draft: "payments_ok (s\<lparr>payments := payments s @ [p], conn_uuid_next := m\<rparr>) \<Longrightarrow> inserted_payment env DraftPaymentStatus why j s = Some p \<Longrightarrow>
      R s (s\<lparr>payments := payments s @ [p], conn_uuid_next := m\<rparr>)"
    and R_drop_drafts: "R s (s\<lparr>payments := filter (\<lambda>p. \<not> (D p \<and> pm_Status p = DraftPaymentStatus)) (payments s)\<rparr>)"
    and R_file: "disbursements_ok (s\<lparr>disbursements := sql_update Q (ds_touched (\<lambda>now d. d\<lparr>ds_FileName := f, ds_FileContent := c\<rparr>) now) (disbursements s)\<rparr>) \<Longrightarrow>
      R s (s\<lparr>disbursements := sql_update Q (ds_touched (\<lambda>now d. d\<lparr>ds_FileName := f, ds_FileContent := c\<rparr>) now) (disbursements s)\<rparr>)"
    and R_ready: "disbursements_ok (s\<lparr>disbursements := sql_update Q (ds_touched (set_disbursement_status ReadyDisbursementStatus u why) now) (disbursements s)\<rparr>) \<Longrightarrow>
      (\<And>d. Q d \<Longrightarrow> ds_Status d \<in> set (DisbursementStatus_SourceStatuses ReadyDisbursementStatus)) \<Longrightarrow>
      R s (s\<lparr>disbursements := sql_update Q (ds_touched (set_disbursement_status ReadyDisbursementStatus u why) now) (disbursements s)\<rparr>)"
    and R_new_disbursement: "disbursements_ok (s\<lparr>disbursements := disbursements s @ [d], conn_uuid_next := m\<rparr>) \<Longrightarrow> ds_Status d = DraftDisbursementStatus \<Longrightarrow>
      R s (s\<lparr>disbursements := disbursements s @ [d], conn_uuid_next := m\<rparr>)"
    and R_drop_disbursement: "payments_ok (s\<lparr>disbursements := filter Q (disbursements s)\<rparr>) \<Longrightarrow> R s (s\<lparr>disbursements := filter Q (disbursements s)\<rparr>)"
begin

lemma keeps_net [keeps_intros]: "keeps R (net_call f)"
  by (simp add: keeps_def net_call_def R_calls)

lemma keeps_lift [keeps_intros]: "keeps R (liftE x)"
  by (cases x) (simp_all add: keeps_def liftE_def throw_def ret_def R_refl)

lemma keeps_range_by [keeps_intros]: "keeps R (range_by env key rows)"
  unfolding range_by_def by (rule keeps_net)

lemma keeps_sdp_transaction:
  assumes "keeps R m"
  shows "keeps R (RunInTransactionWithResult sdp_rollback m)"
proof (rule keepsI)
  fix s s' :: "'z platform_scheme" and r
  assume "RunInTransactionWithResult sdp_rollback m s = (r, s')"
  then show "R s s'"
  proof (cases rule: transaction_run_cases)
    case (rolled_back fs gs x t)
    have "R s t" by (rule R_trans [OF R_faults keepsD [OF assms rolled_back(1)]])
    then have "R s (sdp_rollback s (t\<lparr>conn_faults := gs\<rparr>))" by (intro R_sdp_rollback R_trans [OF _ R_faults])
    then show ?thesis by (simp add: rolled_back(2) sdp_rollback_def)
  next
    case (committed fs gs x t)
    with R_trans [OF R_faults keepsD [OF assms committed(1)]] show ?thesis by (auto intro: R_trans [OF _ R_faults])
  qed (simp add: R_faults)
qed

lemma keeps_reads [keeps_intros]:
  "keeps R (ReceiverModel_GetByContacts cs)" "keeps R (ReceiverWalletModel_GetByReceiverIDsAndWalletID is w)"
  "keeps R (ReceiverWalletModel_GetByIDs is)" "keeps R (ReceiverVerificationModel_GetByReceiverIDsAndVerificationField is fld)"
  "keeps R (DisbursementModel_Get i)" "keeps R (ReceiverWalletModel_GetByID i)"
  unfolding ReceiverModel_GetByContacts_def ReceiverWalletModel_GetByReceiverIDsAndWalletID_def ReceiverWalletModel_GetByIDs_def
    ReceiverVerificationModel_GetByReceiverIDsAndVerificationField_def DisbursementModel_Get_def get_disbursement_def get_first_def
    ReceiverWalletModel_GetByID_def query_wallet_def not_found_as_def
  by (intro keeps_intros)+

lemma keeps_inserts [keeps_intros]:
  "keeps R (ReceiverModel_Insert i)" "keeps R (ReceiverWalletModel_GetOrInsertReceiverWallet j)" "keeps R (PaymentModel_InsertAll env ps)"
proof -
  show "keeps R (ReceiverModel_Insert i)"
    unfolding ReceiverModel_Insert_def duplicate_contact_def
    by (intro keeps_intros keeps_db_call) (auto simp: Let_def R_refl split: option.split intro: R_new_receiver)
  show "keeps R (ReceiverWalletModel_GetOrInsertReceiverWallet j)"
    unfolding ReceiverWalletModel_GetOrInsertReceiverWallet_def
    by (intro keeps_intros keeps_db_call) (auto simp: Let_def R_refl intro: R_new_wallet)
  show "keeps R (PaymentModel_InsertAll env ps)"
    unfolding PaymentModel_InsertAll_def pm_insert_exec_def
    by (intro keeps_intros keeps_db_call) (auto simp: Let_def R_refl split: option.splits intro!: R_new_draft)
qed

lemma keeps_payment_deletion [keeps_intros]: "keeps R (PaymentModel_DeleteAllDraftForDisbursement i)"
  unfolding PaymentModel_DeleteAllDraftForDisbursement_def
  by (intro keeps_intros keeps_db_call) (use R_drop_drafts [of _ "\<lambda>p. pm_disbursement_id p = Some i"] in simp)

lemma keeps_disbursement_updates [keeps_intros]:
  "keeps R (DisbursementModel_Update u)" "keeps R (DisbursementModel_UpdateStatus user i ReadyDisbursementStatus)"
  unfolding DisbursementModel_Update_def DisbursementModel_UpdateStatus_def DisbursementModel_updateStatus_def ds_update_exec_def
  by (intro keeps_intros keeps_db_call; auto simp: Let_def R_refl intro: R_file R_ready)+

lemma keeps_disbursement_rows [keeps_intros]:
  "ds_Status d = DraftDisbursementStatus \<Longrightarrow> keeps R (DisbursementModel_Insert d)" "keeps R (DisbursementModel_Delete i)"
  unfolding DisbursementModel_Insert_def DisbursementModel_Delete_def
  by (intro keeps_intros keeps_db_call; auto simp: Let_def R_refl intro: R_new_disbursement R_drop_disbursement)+

lemma keeps_retry [keeps_intros]: "keeps R (ReceiverWalletModel_RetryInvitationMessage i)"
  unfolding ReceiverWalletModel_RetryInvitationMessage_def not_found_as_def get_first_def rw_update_where_def
  by (intro keeps_intros keeps_db_call) (auto simp: Let_def R_refl intro: R_retry)

lemma keeps_contact [keeps_intros]: "keeps R (contact_of di)"
  unfolding contact_of_def by (intro keeps_intros)

lemma keeps_find [keeps_intros]: "keeps R (findReceiverByInstruction env rs di)"
  unfolding findReceiverByInstruction_def by (intro keeps_intros)

lemma keeps_by_type [keeps_intros]: "keeps R (contact_by_type ct r)"
  unfolding contact_by_type_def by (intro keeps_intros)

lemma keeps_upload_steps [keeps_intros]:
  "keeps R (reconcileExistingReceiversWithInstructions dis ct)" "keeps R (processReceiverWallets env rs d)" "keeps R (createPayments env rs wis dis d)"
  unfolding reconcileExistingReceiversWithInstructions_def createReceiverFromInstructionIfNeeded_def processReceiverWallets_def processReceiverWallet_def
    createPayments_def
  by (intro keeps_intros)+

lemma keeps_ProcessAll:
  assumes "\<And>rs wis. keeps R (registerSuppliedWallets env (io_Instructions opts) rs wis)"
    and "\<And>rs. keeps R (processReceiverVerifications env rs (io_Instructions opts) (io_Disbursement opts)
      (rt_ReceiverContactType (ds_RegistrationContactType (ds_row (io_Disbursement opts)))))"
  shows "keeps R (ProcessAll env opts)"
  unfolding ProcessAll_def Let_def by (intro keeps_intros assms)

lemma keeps_creation [keeps_intros]: "keeps R (createNewDisbursement u req)"
proof -
  have "ds_Status (new_disbursement req u now w a) = DraftDisbursementStatus" for now w a by (simp add: new_disbursement_def)
  then show ?thesis
    unfolding createNewDisbursement_def choose_wallet_def WalletModel_FindWallets_def WalletModel_Get_def AssetModel_Get_def get_wallet_def get_asset_def get_first_def not_found_as_def
    by (intro keeps_intros)
qed

lemma keeps_deletion: "keeps R (DeleteDisbursement i)"
  unfolding DeleteDisbursement_def delete_disbursement_body_def by (intro keeps_intros keeps_sdp_transaction)

lemma keeps_upload:
  assumes "\<And>rs wis dis. keeps R (registerSuppliedWallets (he_sdp he) dis rs wis)"
    and "\<And>rs dis d ct. keeps R (processReceiverVerifications (he_sdp he) rs dis d ct)"
  shows "keeps R (PostDisbursementInstructions he file user i)" "keeps R (PostDisbursement he user request)"
proof -
  have instr: "keeps R (validateAndProcessInstructions he attached user d)" for attached d
    unfolding validateAndProcessInstructions_def Let_def by (intro keeps_intros keeps_ProcessAll assms)
  have valid: "keeps R (validateRequest he req)" for req
    unfolding validateRequest_def validate_wallet_choice_def Let_def WalletModel_Get_def get_wallet_def get_first_def not_found_as_def by (intro keeps_intros)
  show "keeps R (PostDisbursementInstructions he file user i)"
    unfolding PostDisbursementInstructions_def or_internal_def RunInTransaction_def upload_body_def
    by (intro keeps_intros keeps_sdp_transaction instr)
  show "keeps R (PostDisbursement he user request)"
    unfolding PostDisbursement_def postDisbursementWithInstructions_def postDisbursementOnly_def or_internal_def post_with_instructions_body_def
    by (cases request) (auto intro!: keeps_intros keeps_sdp_transaction instr valid split: sum.split)
qed

end

end
