(* ===== verification/Sdp_Relation.thy ===== *)
theory Sdp_Relation
  imports Payment_Dispatch
begin

text \<open>
  The interface for properties of the tenant's programs: \<open>sdp_relation\<close> is a relation between platform
  states that tolerates faults and the rollbacks of both databases, built from what may happen to a payment
  and to a transaction of the submission service. Every operation on payments, disbursements and
  receiver wallets respects it, whichever branch it takes.
\<close>

locale sdp_relation = tx_update_relation R row_step
  for R :: "'z platform_scheme \<Rightarrow> 'z platform_scheme \<Rightarrow> bool" and row_step +
  fixes pm_step :: "payment_row \<Rightarrow> payment_row \<Rightarrow> bool" and pm_new :: "payment_row \<Rightarrow> bool"
    and new_tx :: "Transaction \<Rightarrow> bool"
  assumes R_sdp_rollback: "R s s' \<Longrightarrow> R s (sdp_rollback s s')"
    and R_calls: "R s (s\<lparr>tss_calls := n\<rparr>)"
    and R_uuids: "R s (s\<lparr>conn_uuid_next := m\<rparr>)"
    and R_new_txs: "tx_table_ok (submitter_transactions s @ rows) \<Longrightarrow> list_all new_tx rows \<Longrightarrow>
      R s (s\<lparr>submitter_transactions := submitter_transactions s @ rows\<rparr>)"
    and R_payments: "payments_ok (s\<lparr>payments := ps\<rparr>) \<Longrightarrow> list_all2 pm_step (payments s) ps \<Longrightarrow> R s (s\<lparr>payments := ps\<rparr>)"
    and R_new_payment: "payments_ok (s\<lparr>payments := payments s @ [p]\<rparr>) \<Longrightarrow> pm_new p \<Longrightarrow> R s (s\<lparr>payments := payments s @ [p]\<rparr>)"
    and R_drop_drafts: "R s (s\<lparr>payments := filter (\<lambda>p. \<not> (P p \<and> pm_Status p = DraftPaymentStatus)) (payments s)\<rparr>)"
    and R_disbursements: "disbursements_ok s \<longrightarrow> disbursements_ok (s\<lparr>disbursements := ds\<rparr>) \<Longrightarrow> payments_ok s \<longrightarrow> payments_ok (s\<lparr>disbursements := ds\<rparr>) \<Longrightarrow>
      R s (s\<lparr>disbursements := ds\<rparr>)"
    and R_receiver_wallets: "receiver_wallets_ok (s\<lparr>receiver_wallets := rs\<rparr>) \<Longrightarrow>
      payments_ok s \<longrightarrow> payments_ok (s\<lparr>receiver_wallets := rs\<rparr>) \<Longrightarrow> R s (s\<lparr>receiver_wallets := rs\<rparr>)"
    and pm_step_refl: "pm_step p p"
begin

text \<open>A transaction of the tenant's database that was begun in the state \<open>s\<close>.\<close>

lemma sdp_transaction_run:
  fixes s s' :: "'z platform_scheme"
  assumes run: "RunInTransaction sdp_rollback m s = (r, s')"
    and body: "\<And>fs x s2. m (s\<lparr>conn_faults := fs\<rparr>) = (x, s2) \<Longrightarrow> R s s2"
  shows "R s s'"
proof -
  obtain b s1 where b: "db_call (ret ()) s = (b, s1)" by fastforce
  from b obtain fs where s1: "s1 = s\<lparr>conn_faults := fs\<rparr>"
    by (elim db_call_cases) (auto simp: ret_def)
  obtain x s2 where x: "m s1 = (x, s2)" by fastforce
  with body s1 have s2: "R s s2" by blast
  have rb: "sdp_rollback s1 t = sdp_rollback s t" for t by (simp add: s1 sdp_rollback_def)
  have "R s (s2\<lparr>conn_faults := fs\<rparr>)" "R s (sdp_rollback s (s2\<lparr>conn_faults := fs\<rparr>))" for fs
    using R_trans [OF s2 R_faults] by (auto intro: R_sdp_rollback)
  with run b x s2 rb R_faults [of s fs] s1 show ?thesis
    by (auto simp: RunInTransaction_def RunInTransactionWithResult_def R_sdp_rollback
        split: sum.splits list.splits fault.splits)
qed

lemma keeps_sdp_transaction [keeps_intros]:
  assumes "keeps R m"
  shows "keeps R (RunInTransaction sdp_rollback m)"
  by (rule keepsI, erule sdp_transaction_run) (metis R_trans R_faults keepsD [OF assms])

lemma keeps_net [keeps_intros]: "keeps R (net_call f)"
  by (simp add: keeps_def net_call_def R_calls)

lemma keeps_lift [keeps_intros]: "keeps R (liftE x)"
  by (cases x) (simp_all add: keeps_def liftE_def throw_def ret_def R_refl)

lemma keeps_db_prog: "keeps R m \<Longrightarrow> keeps R (db_call m)"
  by (rule keeps_db_call) (simp add: keeps_def)

text \<open>An update in the state \<open>s\<close>: only the rows it matches there count.\<close>

lemma pm_update_at:
  fixes s s' :: "'z platform_scheme"
  assumes "pm_update_exec P f s = (r, s')"
    and "\<And>now p. p \<in> set (payments s) \<Longrightarrow> P p \<Longrightarrow> pm_step p (pm_touched f now p)"
  shows "R s s'"
proof -
  have "list_all2 pm_step (payments s) (sql_update P (pm_touched f now) (payments s))" for now
    using assms(2) by (auto simp: sql_update_def list_all2_conv_all_nth pm_step_refl)
  then have "R s (s\<lparr>conn_faults := fs, payments := sql_update P (pm_touched f now) (payments s)\<rparr>)"
    if "payments_ok (s\<lparr>conn_faults := fs, payments := sql_update P (pm_touched f now) (payments s)\<rparr>)" for fs now
    using R_payments [where s = "s\<lparr>conn_faults := fs\<rparr>"] that by (intro R_trans [OF R_faults [of s fs]]) simp
  with assms(1) show ?thesis
    unfolding pm_update_exec_def by (elim db_call_cases) (auto simp: Let_def R_faults split: if_splits)
qed

lemma keeps_pm_update_exec:
  "(\<And>now p. P p \<Longrightarrow> pm_step p (pm_touched f now p)) \<Longrightarrow> keeps R (pm_update_exec P f)"
  by (rule keepsI, erule pm_update_at)

lemma keeps_pm_set_status_exec:
  "(\<And>now p. P p \<Longrightarrow> pm_step p (pm_touched f now p)) \<Longrightarrow> keeps R (pm_set_status_exec status P f)"
  unfolding pm_set_status_exec_def by (intro keeps_if keeps_pm_update_exec keeps_db_prog keeps_throw)

lemma keeps_ds_update_exec [keeps_intros]:
  assumes "\<And>now d. ds_ID (f now d) = ds_ID d"
  shows "keeps R (ds_update_exec P f)"
proof -
  have ids: "ds_ID ` set (sql_update Q (ds_touched f now) ds) = ds_ID ` set ds" for Q now ds
  proof -
    have "map ds_ID (sql_update Q (ds_touched f now) ds) = map ds_ID ds"
      by (rule map_sql_update_key) (simp add: ds_touched_def assms)
    then show ?thesis by (metis list.set_map)
  qed
  have "payments_ok s \<longrightarrow> payments_ok (s\<lparr>disbursements := sql_update Q (ds_touched f now) (disbursements s)\<rparr>)" for s :: "'z platform_scheme" and Q now
    by (auto simp: payments_ok_def payment_row_ok_def list_all_iff ids split: option.splits)
  then show ?thesis
    unfolding ds_update_exec_def by (intro keeps_db_call) (auto simp: Let_def R_refl intro: R_disbursements)
qed

lemma keeps_rw_update_exec [keeps_intros]:
  assumes "\<And>now r. rw_ID (f now r) = rw_ID r"
  shows "keeps R (rw_update_exec P f)"
proof -
  have ids: "rw_ID ` set (sql_update Q (rw_touched f now) rs) = rw_ID ` set rs" for Q now rs
  proof -
    have "map rw_ID (sql_update Q (rw_touched f now) rs) = map rw_ID rs"
      by (rule map_sql_update_key) (simp add: rw_touched_def assms)
    then show ?thesis by (metis list.set_map)
  qed
  have "payments_ok s \<longrightarrow> payments_ok (s\<lparr>receiver_wallets := sql_update Q (rw_touched f now) (receiver_wallets s)\<rparr>)" for s :: "'z platform_scheme" and Q now
    by (auto simp: payments_ok_def payment_row_ok_def list_all_iff ids split: option.splits)
  then show ?thesis
    unfolding rw_update_exec_def by (intro keeps_db_call) (auto simp: Let_def R_refl intro: R_receiver_wallets)
qed

text \<open>The programs.\<close>

lemma keeps_queries [keeps_intros]:
  "keeps R OrganizationModel_Get" "keeps R (PaymentModel_GetBatchForUpdate n)" "keeps R (PaymentModel_GetAll ilike q ty)"
  "keeps R (PaymentModel_GetByIDs ids)" "keeps R (DisbursementModel_Get i)" "keeps R (DisbursementModel_GetWithStatistics env i)"
proof -
  have "keeps R (db_call (\<lambda>s. (newPaymentQuery ilike q ty (base_payments s), s)))" for ilike q ty
    by (rule keeps_db_call) (simp add: R_refl)
  then show all: "keeps R (PaymentModel_GetAll ilike q ty)" for ilike q ty
    unfolding PaymentModel_GetAll_def by (intro keeps_intros)
  show "keeps R OrganizationModel_Get" "keeps R (PaymentModel_GetBatchForUpdate n)" "keeps R (DisbursementModel_Get i)"
    "keeps R (DisbursementModel_GetWithStatistics env i)" "keeps R (PaymentModel_GetByIDs ids)"
    unfolding OrganizationModel_Get_def PaymentModel_GetBatchForUpdate_def DisbursementModel_Get_def get_disbursement_def
      DisbursementModel_GetWithStatistics_def populateStatistics_def PaymentModel_GetByIDs_def
    by (intro keeps_intros all)+
qed

lemma keeps_UpdateStatusByDisbursementID:
  "(\<And>now p m. PaymentStatus_TransitionTo (pm_Status p) st = Inr () \<Longrightarrow> pm_step p (pm_touched (set_payment_status st m) now p)) \<Longrightarrow>
   keeps R (PaymentModel_UpdateStatusByDisbursementID i st)"
  unfolding PaymentModel_UpdateStatusByDisbursementID_def
  by (intro keeps_intros keeps_pm_set_status_exec) (simp add: source_statuses_iff)

lemma keeps_UpdateStatuses:
  "(\<And>now p m. pm_step p (pm_touched (set_payment_status st m) now p)) \<Longrightarrow> keeps R (PaymentModel_UpdateStatuses ps st)"
  unfolding PaymentModel_UpdateStatuses_def by (intro keeps_intros keeps_pm_set_status_exec)

lemma keeps_Update:
  "(\<And>now p. pm_ID p = pm_ID (dp_row payment) \<Longrightarrow> pm_step p (pm_touched (set_payment_update u) now p)) \<Longrightarrow> keeps R (PaymentModel_Update payment u)"
  unfolding PaymentModel_Update_def by (intro keeps_intros keeps_pm_set_status_exec)

lemma keeps_Retry:
  "(\<And>now p. pm_Status p = FailedPaymentStatus \<Longrightarrow> pm_step p (pm_touched (set_retried email) now p)) \<Longrightarrow> keeps R (PaymentModel_RetryFailedPayments email ids)"
  unfolding PaymentModel_RetryFailedPayments_def by (intro keeps_intros keeps_pm_update_exec) simp

lemma keeps_Cancel:
  "(\<And>now p m. pm_Status p = ReadyPaymentStatus \<Longrightarrow> pm_step p (pm_touched (set_payment_status CanceledPaymentStatus m) now p)) \<Longrightarrow>
   keeps R CancelReadyPayments"
  unfolding CancelReadyPayments_def PaymentModel_CancelPaymentsWithinPeriodDays_def
  by (intro keeps_intros keeps_pm_update_exec) (simp add: cancellable_def)

lemma keeps_disbursement_status [keeps_intros]:
  "keeps R (DisbursementModel_updateStatus u i st r)" "keeps R (DisbursementModel_UpdateStatus u i st)"
  "keeps R (DisbursementModel_UpdateStatusWithReason u i st r)" "keeps R (DisbursementModel_CompleteDisbursements ids)"
  "keeps R (ReceiverWalletModel_UpdateStatusByDisbursementID i wst wst')"
proof -
  show up: "keeps R (DisbursementModel_updateStatus u i st r)" for u i st r
    unfolding DisbursementModel_updateStatus_def by (intro keeps_intros) (simp add: set_disbursement_status_def)
  then show "keeps R (DisbursementModel_UpdateStatus u i st)" "keeps R (DisbursementModel_UpdateStatusWithReason u i st r)"
    by (simp_all add: DisbursementModel_UpdateStatus_def DisbursementModel_UpdateStatusWithReason_def)
  show "keeps R (DisbursementModel_CompleteDisbursements ids)"
    unfolding DisbursementModel_CompleteDisbursements_def by (intro keeps_intros) (simp add: set_disbursement_status_def)
  show "keeps R (ReceiverWalletModel_UpdateStatusByDisbursementID i wst wst')"
    unfolding ReceiverWalletModel_UpdateStatusByDisbursementID_def by (intro keeps_intros) (simp add: set_wallet_status_def)
qed

lemma keeps_management:
  assumes "\<And>st now p m. st \<in> {ReadyPaymentStatus, PausedPaymentStatus} \<Longrightarrow> PaymentStatus_TransitionTo (pm_Status p) st = Inr () \<Longrightarrow> pm_step p (pm_touched (set_payment_status st m) now p)"
  shows "keeps R (StartDisbursement env i u a)" "keeps R (SubmitDisbursement env i u a)" "keeps R (PauseDisbursement i u)"
    "keeps R (ApproveDisbursement i u)" "keeps R (RejectDisbursement i u r)"
proof -
  have bal: "keeps R (validateBalanceForDisbursement env a d)" for d
    unfolding validateBalanceForDisbursement_def by (intro keeps_intros)
  have start: "keeps R (mark_started u i)"
    unfolding mark_started_def by (intro keeps_intros keeps_UpdateStatusByDisbursementID assms) simp_all
  show "keeps R (StartDisbursement env i u a)" "keeps R (SubmitDisbursement env i u a)" "keeps R (PauseDisbursement i u)"
    "keeps R (ApproveDisbursement i u)" "keeps R (RejectDisbursement i u r)"
    unfolding StartDisbursement_def start_body_def SubmitDisbursement_def submit_body_def PauseDisbursement_def pause_body_def
      ApproveDisbursement_def approve_body_def RejectDisbursement_def reject_body_def or_disbursement_not_found_def
    by (intro keeps_intros bal start keeps_UpdateStatusByDisbursementID assms; simp)+
qed

lemma inserted_rows_new:
  assumes "inserted_rows uuid n now txs = Some rows"
    and "\<And>tx i now a. tx \<in> set txs \<Longrightarrow> numeric_19_7 (Amount (tx_payment tx)) = Some a \<Longrightarrow> new_tx (inserted_row i now a tx)"
  shows "list_all new_tx rows"
  using assms
  by (induction txs arbitrary: n rows) (auto split: option.splits)

lemma keeps_BulkInsert_new:
  assumes "\<And>tx i now a. tx \<in> set txs \<Longrightarrow> numeric_19_7 (Amount (tx_payment tx)) = Some a \<Longrightarrow> new_tx (inserted_row i now a tx)"
  shows "keeps R (TransactionModel_BulkInsert sdk txs)"
proof -
  have uuids: "R s (s\<lparr>conn_uuid_next := n, submitter_transactions := submitter_transactions s @ rows\<rparr>)"
    if "tx_table_ok (submitter_transactions s @ rows)" "list_all new_tx rows" for s :: "'z platform_scheme" and n rows
    using R_trans [OF R_uuids R_new_txs [of "s\<lparr>conn_uuid_next := n\<rparr>" rows]] that by simp
  have "keeps R (insert_statement txs)"
    unfolding insert_statement_def
    by (rule keeps_db_call) (auto simp: Let_def R_uuids uuids dest: inserted_rows_new [OF _ assms] split: option.splits)
  then show ?thesis
    unfolding TransactionModel_BulkInsert_def by (intro keeps_intros)
qed

lemma keeps_memo [keeps_intros]: "keeps R (MemoResolver_GetMemo env rw)"
  unfolding MemoResolver_GetMemo_def by (intro keeps_intros)

lemma keeps_build [keeps_intros]: "keeps R (build_transaction env tenant p)"
  unfolding build_transaction_def by (intro keeps_intros)

lemma keeps_pm_insert_exec:
  assumes "\<And>(s :: 'z platform_scheme) p. inserted_payment env status m i s = Some p \<Longrightarrow> pm_new p"
  shows "keeps R (pm_insert_exec env status m i)"
proof -
  have uuids: "R s (s\<lparr>payments := payments s @ [p], conn_uuid_next := n\<rparr>)"
    if "payments_ok (s\<lparr>payments := payments s @ [p]\<rparr>)" "pm_new p" for s :: "'z platform_scheme" and n p
    using R_trans [OF R_new_payment [OF that] R_uuids [of _ n]] .
  have ok: "payments_ok (s\<lparr>payments := ps, conn_uuid_next := n\<rparr>) = payments_ok (s\<lparr>payments := ps\<rparr>)" for s :: "'z platform_scheme" and ps n
    by (auto simp: payments_ok_def payment_row_ok_def list_all_iff split: option.splits)
  show ?thesis
    unfolding pm_insert_exec_def
    by (rule keeps_db_call) (auto simp: Let_def R_refl ok split: option.splits intro!: uuids intro: assms)
qed

lemma keeps_InsertAll:
  "(\<And>i (s :: 'z platform_scheme) p m. inserted_payment env DraftPaymentStatus m i s = Some p \<Longrightarrow> pm_new p) \<Longrightarrow> keeps R (PaymentModel_InsertAll env inserts)"
  unfolding PaymentModel_InsertAll_def by (intro keeps_intros keeps_pm_insert_exec)

lemma keeps_CreateDirect:
  "(\<And>i (s :: 'z platform_scheme) p m. inserted_payment env ReadyPaymentStatus m i s = Some p \<Longrightarrow> pm_new p) \<Longrightarrow> keeps R (PaymentModel_CreateDirectPayment env i u)"
  unfolding PaymentModel_CreateDirectPayment_def by (intro keeps_intros keeps_pm_insert_exec)

lemma keeps_DeleteDrafts: "keeps R (PaymentModel_DeleteAllDraftForDisbursement i)"
  unfolding PaymentModel_DeleteAllDraftForDisbursement_def
  by (intro keeps_intros keeps_db_call) (use R_drop_drafts [of _ "\<lambda>p. pm_disbursement_id p = Some i"] in simp)

lemma keeps_bindE_result:
  assumes "keeps R m" and "\<And>s x s'. m s = (Inr x, s') \<Longrightarrow> keeps R (f x)"
  shows "keeps R (bindE m f)"
proof (rule keepsI)
  fix s r s' assume "bindE m f s = (r, s')"
  then show "R s s'"
  proof (cases rule: bindE_cases)
    case (err e)
    with assms(1) show ?thesis by (blast dest: keepsD)
  next
    case (ok x s1)
    from keepsD [OF assms(1) ok(1)] keepsD [OF assms(2) [OF ok(1)] ok(2)] show ?thesis by (rule R_trans)
  qed
qed

text \<open>Synchronising one transaction, when its payment may take the status and hash of the transaction.\<close>

lemma GetByIDs_id:
  fixes s s' :: "'z platform_scheme"
  assumes "PaymentModel_GetByIDs [i] s = (Inr ps, s')" and "payment \<in> set ps"
  shows "pm_ID (dp_row payment) = i"
proof -
  let ?q = "no_filters\<lparr>qp_ID := Some (Many [i]), qp_SortBy := SortFieldUpdatedAt, qp_SortOrder := SortOrderASC\<rparr>"
  from assms(1) obtain s1 :: "'z platform_scheme" and qs where q: "newPaymentQuery never_ilike ?q QueryTypeSelectAll (base_payments s1) = Inr qs"
    and ps: "ps = removeEmptyDisbursementForDirect qs"
    by (force simp: PaymentModel_GetByIDs_def PaymentModel_GetAll_def prog_ok elim!: db_call_cases)
  from q have "\<forall>p \<in> set qs. pm_ID (dp_row p) = i"
    by (auto simp: newPaymentQuery_def empty_filter_def no_filters_def add_sorting_def Let_def payment_condition_def
        addArrayOrSingleCondition_def)
  with assms(2) ps show ?thesis by (auto simp: removeEmptyDisbursementForDirect_def)
qed

lemma keeps_syncPayment:
  assumes "\<And>st now p. payment_target tx = Some st \<Longrightarrow> pm_ID p = tx_external_id tx \<Longrightarrow>
    pm_step p (pm_touched (set_payment_update (payment_update tx st)) now p)"
  shows "keeps R (syncPaymentWithTransaction tx)"
  unfolding syncPaymentWithTransaction_def
proof (rule keeps_bindE_result)
  show "keeps R (wrapE ''getting payments by IDs'' (PaymentModel_GetByIDs [tx_external_id tx]))"
    by (intro keeps_intros)
  fix s s' :: "'z platform_scheme" and ps
  assume get: "wrapE ''getting payments by IDs'' (PaymentModel_GetByIDs [tx_external_id tx]) s = (Inr ps, s')"
  have one: "keeps R (bindE (wrapE m (PaymentModel_Update payment (payment_update tx st))) f)"
    if "payment \<in> set ps" "payment_target tx = Some st" "\<And>x. keeps R (f x)" for payment st m f
    using GetByIDs_id [of "tx_external_id tx" s ps s' payment] get that assms
    by (intro keeps_bindE keeps_wrapE keeps_Update) (auto simp: prog_ok)
  show "keeps R (case ps of [payment] \<Rightarrow>
         (case payment_target tx of None \<Rightarrow> throw (Errorf ''invalid transaction status %s. Expected only %s or %s'')
          | Some toStatus \<Rightarrow> bindE (wrapE ''updating payment ID %s for transaction ID %s'' (PaymentModel_Update payment (payment_update tx toStatus))) (\<lambda>_.
              if pm_Type (dp_row payment) = PaymentTypeDisbursement
              then (case dp_Disbursement payment of None \<Rightarrow> throw NilDereference
                    | Some d \<Rightarrow> wrapE ''completing disbursement'' (DisbursementModel_CompleteDisbursements [ds_ID d]))
              else ret ())) | _ \<Rightarrow> throw (Errorf ''expected exactly 1 payment for the transaction ID %s but found %d''))"
  proof (cases "\<exists>payment st. ps = [payment] \<and> payment_target tx = Some st")
    case True
    then obtain payment st where "ps = [payment]" "payment_target tx = Some st" by blast
    then show ?thesis by (auto intro!: one intro: keeps_intros)
  next
    case False
    then show ?thesis by (auto split: list.splits option.splits intro: keeps_throw)
  qed
qed

lemma keeps_syncTransactions_via:
  assumes "\<And>tx. tx \<in> set txs \<Longrightarrow> keeps R (syncPaymentWithTransaction tx)"
    and "\<And>now r. tx_status r \<in> {TransactionStatusSuccess, TransactionStatusError} \<Longrightarrow> row_step r (touched (\<lambda>now r. r\<lparr>tx_synced_at := Some now\<rparr>) now r)"
  shows "keeps R (syncTransactions txs)"
proof -
  have "keeps R (forE ts (\<lambda>tx. wrapE m (syncPaymentWithTransaction tx)))" if "set ts \<subseteq> set txs" for ts m
    using that
  proof (induction ts)
    case (Cons tx ts)
    then have "keeps R (syncPaymentWithTransaction tx)" by (intro assms(1)) auto
    with Cons show ?case by (auto intro!: keeps_bindE keeps_wrapE keeps_ret)
  qed (simp add: keeps_ret)
  moreover have "keeps R (TransactionModel_UpdateSyncedTransactions is)" for "is"
    unfolding TransactionModel_UpdateSyncedTransactions_def by (intro keeps_intros keeps_updates) (use assms(2) in auto)
  ultimately show ?thesis
    unfolding syncTransactions_def by (auto intro!: keeps_bindE keeps_wrapE keeps_ret keeps_throw split: sum.splits)
qed

lemma keeps_syncTransactions:
  assumes "\<And>tx st now p. tx \<in> set txs \<Longrightarrow> payment_target tx = Some st \<Longrightarrow> pm_ID p = tx_external_id tx \<Longrightarrow>
      pm_step p (pm_touched (set_payment_update (payment_update tx st)) now p)"
    and "\<And>now r. tx_status r \<in> {TransactionStatusSuccess, TransactionStatusError} \<Longrightarrow> row_step r (touched (\<lambda>now r. r\<lparr>tx_synced_at := Some now\<rparr>) now r)"
  shows "keeps R (syncTransactions txs)"
  by (rule keeps_syncTransactions_via) (use assms in \<open>auto intro: keeps_syncPayment\<close>)

lemma keeps_send:
  assumes "\<And>st now p m. st \<in> {FailedPaymentStatus, PendingPaymentStatus} \<Longrightarrow> pm_step p (pm_touched (set_payment_status st m) now p)"
    and "\<And>(s :: 'z platform_scheme) s' txs tx i now a. forE ps (build_transaction env tenant) s = (Inr txs, s') \<Longrightarrow> tx \<in> set txs \<Longrightarrow>
      numeric_19_7 (Amount (tx_payment tx)) = Some a \<Longrightarrow> new_tx (inserted_row i now a tx)"
  shows "keeps R (StellarPaymentDispatcher_DispatchPayments env tenant ps)"
proof -
  have "keeps R (sendPaymentsToTSS env tenant ps)"
    unfolding sendPaymentsToTSS_def
  proof (rule keeps_bindE_result)
    fix s s' :: "'z platform_scheme" and txs
    assume "forE ps (build_transaction env tenant) s = (Inr txs, s')"
    then have "keeps R (TransactionModel_BulkInsert (env_sdk env) txs)" by (blast intro: keeps_BulkInsert_new assms(2))
    then show "keeps R (bindE (wrapE ''inserting transactions'' (TransactionModel_BulkInsert (env_sdk env) txs)) (\<lambda>_.
      if ps \<noteq> [] then bindE (wrapE ''updating payment statuses to %s'' (PaymentModel_UpdateStatuses ps PendingPaymentStatus)) (\<lambda>_. ret ()) else ret ()))"
      by (intro keeps_bindE keeps_wrapE keeps_if keeps_ret keeps_UpdateStatuses assms(1)) simp_all
  qed (intro keeps_intros)
  then show ?thesis
    unfolding StellarPaymentDispatcher_DispatchPayments_def by (intro keeps_intros)
qed

end

end
