(* ===== verification/Registration.thy ===== *)
theory Registration
  imports Instruction_Validation
begin

text \<open>
  The registration of a receiver's wallet: the claims of the SEP-24 token (\<open>src/internal/sepauth/sep24_jwt_claims.go\<close>),
  the request for a one-time password (\<open>src/internal/serve/httphandler/receiver_send_otp_handler.go\<close>) and the
  verification of the password and of the receiver's verification value (\<open>verify_receiver_registration_handler.go\<close>,
  \<open>src/internal/serve/validators/receiver_registration_validator.go\<close>).

  The counters of failed attempts are written on the connection pool while the transaction of the handler is open,
  and outlive its rollback. The state of the handler therefore extends the platform by the committed receiver wallets and
  verifications, which are the tables after a rollback. The transaction does not read those tables again
  once it has written on the pool.
\<close>

section \<open>The token\<close>

record SEP24JWTClaims =
  sc_ID :: string
  sc_Subject :: string
  sc_ClientDomain :: string
  sc_HomeDomain :: string
  sc_ExpiresAt :: "int option"

fun ParseAccountAndMemo_cut :: "string \<Rightarrow> string \<Rightarrow> (string \<times> string) option" where
  "ParseAccountAndMemo_cut acc [] = None"
| "ParseAccountAndMemo_cut acc (c # s) = (if c = CHR '':'' then Some (acc, s) else ParseAccountAndMemo_cut (acc @ [c]) s)"

definition ParseAccountAndMemo :: "string \<Rightarrow> string \<times> string" where
  "ParseAccountAndMemo subject =
     (case ParseAccountAndMemo_cut [] subject of
        Some (before, after) \<Rightarrow> if before \<noteq> [] then (before, after) else (subject, [])
      | None \<Rightarrow> (subject, []))"

definition FormatSubject :: "string \<Rightarrow> string \<Rightarrow> string" where
  "FormatSubject stellarAccount stellarMemo =
     (if stellarMemo \<noteq> [] then stellarAccount @ '':'' @ stellarMemo else stellarAccount)"

definition SEP24JWTClaims_Account :: "SEP24JWTClaims \<Rightarrow> string" where
  "SEP24JWTClaims_Account c = fst (ParseAccountAndMemo (sc_Subject c))"

definition SEP24JWTClaims_Memo :: "SEP24JWTClaims \<Rightarrow> string" where
  "SEP24JWTClaims_Memo c = snd (ParseAccountAndMemo (sc_Subject c))"

text \<open>The reCAPTCHA service, the message dispatcher with the text of the message, the claims that the JWT
  library validates, and DNS names are parameters.\<close>

record registration_env =
  rg_sdp :: sdp_env
  rg_ReCAPTCHADisabled :: bool
  rg_IsTokenValid :: "nat \<Rightarrow> string \<Rightarrow> go_error + bool"
  rg_RegisteredClaims_Valid :: "SEP24JWTClaims \<Rightarrow> go_error + unit"
  rg_IsDNSName :: "string \<Rightarrow> bool"
  rg_OTPMessage :: "Organization \<Rightarrow> string \<Rightarrow> go_error + string"
  rg_SendMessage :: "nat \<Rightarrow> ReceiverContactType \<Rightarrow> string \<Rightarrow> string \<Rightarrow> go_error + unit"

definition SEP24JWTClaims_Valid :: "registration_env \<Rightarrow> SEP24JWTClaims \<Rightarrow> go_error + unit" where
  "SEP24JWTClaims_Valid rg c =
     (let sdk = env_sdk (rg_sdp rg); account = SEP24JWTClaims_Account c in
      if sc_ExpiresAt c = None then Inl (Errorf ''expires_at is required'')
      else (case rg_RegisteredClaims_Valid rg c of
          Inl e \<Rightarrow> Inl (Wrapf ''validating registered claims'' e)
        | Inr _ \<Rightarrow>
            (if sc_ID c = [] then Inl (Errorf ''transaction_id is required'')
             else if \<not> IsValidEd25519PublicKey sdk account \<and> \<not> IsValidContractAddress sdk account
               then Inl (Errorf ''stellar account is invalid'')
             else if sc_ClientDomain c \<noteq> [] \<and> \<not> rg_IsDNSName rg (sc_ClientDomain c)
               then Inl (Wrapf ''client_domain is invalid'' (Errorf ''%q is not a valid DNS name''))
             else Inr ())))"

section \<open>Requests\<close>

definition TrimAndLower :: "string \<Rightarrow> string" where "TrimAndLower s = TrimSpace (ToLower s)"

definition IsCAPTCHADisabled :: "registration_env \<Rightarrow> ('z platform_scheme, go_error, bool) prog" where
  "IsCAPTCHADisabled rg = handleE OrganizationModel_Get (\<lambda>_. ret (rg_ReCAPTCHADisabled rg))
     (\<lambda>org. ret (case org_CAPTCHADisabled org of Some b \<Rightarrow> b | None \<Rightarrow> rg_ReCAPTCHADisabled rg))"

definition validate_captcha :: "registration_env \<Rightarrow> string \<Rightarrow> ('z platform_scheme, go_error, unit) prog" where
  "validate_captcha rg token =
     bindE (IsCAPTCHADisabled rg) (\<lambda>disabled.
     if disabled then ret ()
     else bindE (net_call (\<lambda>n. rg_IsTokenValid rg n token)) (\<lambda>r.
       case r of
         Inl e \<Rightarrow> throw (HTTPError 500 ''Cannot validate reCAPTCHA token'' (Some e))
       | Inr isValid \<Rightarrow> (if isValid then ret () else throw (HTTPError 400 ''reCAPTCHA token is invalid'' None))))"

definition check_contacts :: "sdp_env \<Rightarrow> string \<Rightarrow> string \<Rightarrow> Validator \<Rightarrow> Validator" where
  "check_contacts env phone email v =
     (if phone = [] \<and> email = [] then
        Check False ''email'' ''phone_number or email is required'' (Check False ''phone_number'' ''phone_number or email is required'' v)
      else if phone \<noteq> [] \<and> email \<noteq> [] then
        Check False ''email'' ''phone_number and email cannot be both provided''
          (Check False ''phone_number'' ''phone_number and email cannot be both provided'' v)
      else if phone \<noteq> [] then CheckError (env_sdk env) (err_of (ValidatePhoneNumber env phone)) ''phone_number'' [] v
      else CheckError (env_sdk env) (err_of (ValidateEmail email)) ''email'' [] v)"

record ReceiverRegistrationRequest =
  rq_Email :: string
  rq_PhoneNumber :: string
  rq_OTP :: string
  rq_VerificationValue :: string
  rq_VerificationField :: VerificationType
  rq_ReCAPTCHAToken :: string

definition validateAndGetVerificationType :: "string \<Rightarrow> Validator \<Rightarrow> VerificationType \<times> Validator" where
  "validateAndGetVerificationType verificationType v =
     (let vt = ToUpper verificationType in
      if vt \<notin> set GetAllVerificationTypes
      then ([], Check False ''verification_field'' ''invalid parameter. valid values are: %v'' v) else (vt, v))"

definition validate_value :: "sdp_env \<Rightarrow> int \<Rightarrow> VerificationType \<Rightarrow> string \<Rightarrow> Validator \<Rightarrow> Validator" where
  "validate_value env now vf verification v =
     (let checked = (\<lambda>(code, err). WithErrorCode code (CheckError (env_sdk env) err ''verification'' [] v)) in
      if vf = VerificationTypeDateOfBirth then checked (ValidateDateOfBirthVerification now verification)
      else if vf = VerificationTypeYearMonth then checked (ValidateYearMonthVerification now verification)
      else if vf = VerificationTypePin then checked (ValidatePinVerification verification)
      else if vf = VerificationTypeNationalID then checked (ValidateNationalIDVerification verification)
      else v)"

text \<open>The request is returned with its fields trimmed.\<close>

definition ValidateReceiver :: "sdp_env \<Rightarrow> int \<Rightarrow> ReceiverRegistrationRequest \<Rightarrow> Validator \<Rightarrow> ReceiverRegistrationRequest \<times> Validator" where
  "ValidateReceiver env now info v =
     (let phone = TrimAndLower (rq_PhoneNumber info); email = TrimAndLower (rq_Email info); otp = TrimSpace (rq_OTP info);
          verification = TrimSpace (rq_VerificationValue info); field = TrimSpace (rq_VerificationField info);
          v1 = check_contacts env phone email v;
          v2 = WithErrorCode ''EXTRA_1'' (CheckError (env_sdk env) (err_of (ValidateOTP otp)) ''otp'' ''invalid otp format. Needs to be a 6 digit value'' v1);
          v3 = Check (field \<noteq> []) ''verification_field'' ''verification type cannot be empty'' v2;
          (vf, v4) = validateAndGetVerificationType field v3
      in (info\<lparr>rq_PhoneNumber := phone, rq_Email := email, rq_OTP := otp, rq_VerificationValue := verification, rq_VerificationField := vf\<rparr>,
          validate_value env now vf verification v4))"

section \<open>One-time passwords\<close>

definition sendOTP :: "registration_env \<Rightarrow> ReceiverContactType \<Rightarrow> string \<Rightarrow> string \<Rightarrow> ('z platform_scheme, go_error, unit) prog" where
  "sendOTP rg contactType contactInfo otp =
     bindE (wrapE ''cannot get organization'' OrganizationModel_Get) (\<lambda>organization.
     bindE (liftE (rg_OTPMessage rg organization otp)) (\<lambda>body.
     bindE (net_call (\<lambda>n. rg_SendMessage rg n contactType contactInfo body)) (\<lambda>r.
     wrapE ''cannot send OTP message through %s to %s'' (liftE r))))"

text \<open>Recording a failed attempt inserts into a table that nothing reads; its error is only logged.\<close>

definition recordRegistrationAttempt :: "('z platform_scheme, go_error, unit) prog" where
  "recordRegistrationAttempt = handleE (db_call (ret ())) (\<lambda>_. ret ()) ret"

definition handleOTPForReceiver ::
  "registration_env \<Rightarrow> ReceiverContactType \<Rightarrow> string \<Rightarrow> string \<Rightarrow> ('z platform_scheme, go_error, VerificationType) prog" where
  "handleOTPForReceiver rg contactType contactInfo sep24ClientDomain =
     handleE (ReceiverVerificationModel_GetLatestByContactInfo contactInfo)
       (\<lambda>_. bindE recordRegistrationAttempt (\<lambda>_. ret VerificationTypeDateOfBirth))
       (\<lambda>receiverVerification.
         bindE (net_call (\<lambda>n. RandomString_6 (rg_sdp rg) n)) (\<lambda>r.
         case r of
           Inl e \<Rightarrow> throw (HTTPError 500 ''Cannot generate OTP for receiver wallet'' (Some e))
         | Inr newOTP \<Rightarrow>
             bindE (handleE (ReceiverWalletModel_UpdateOTPByReceiverContactInfoAndWalletDomain contactInfo sep24ClientDomain newOTP)
               (\<lambda>e. if error_is e ErrRecordNotFound then ret 0
                    else throw (HTTPError 500 ''Cannot update OTP for receiver wallet'' (Some e))) ret) (\<lambda>numberOfUpdatedRows.
             if numberOfUpdatedRows < 1 then bindE recordRegistrationAttempt (\<lambda>_. ret VerificationTypeDateOfBirth)
             else handleE (sendOTP rg contactType contactInfo newOTP)
               (\<lambda>e. throw (HTTPError 500 ''Failed to send OTP message, reason: '' (Some (Wrapf ''sending OTP message'' e))))
               (\<lambda>_. ret (rv_VerificationField receiverVerification)))))"

record ReceiverSendOTPRequest =
  sr_PhoneNumber :: string
  sr_Email :: string
  sr_ReCAPTCHAToken :: string

definition ReceiverSendOTPHandler_ServeHTTP ::
  "registration_env \<Rightarrow> SEP24JWTClaims option \<Rightarrow> go_error + ReceiverSendOTPRequest \<Rightarrow> ('z platform_scheme, go_error, VerificationType) prog" where
  "ReceiverSendOTPHandler_ServeHTTP rg claims decoded =
     (case decoded of
        Inl e \<Rightarrow> throw (HTTPError 400 ''invalid request body'' (Some e))
      | Inr req \<Rightarrow>
          (let phone = TrimAndLower (sr_PhoneNumber req); email = TrimAndLower (sr_Email req) in
           bindE (validate_captcha rg (sr_ReCAPTCHAToken req)) (\<lambda>_.
           case claims of
             None \<Rightarrow> throw (HTTPError 401 ''Not authorized.'' (Some (Errorf ''no SEP-24 claims found in the request context'')))
           | Some sep24Claims \<Rightarrow>
               (case SEP24JWTClaims_Valid rg sep24Claims of
                  Inl e \<Rightarrow> throw (HTTPError 401 ''Not authorized.'' (Some (Wrapf ''SEP-24 claims are invalid'' e)))
                | Inr _ \<Rightarrow>
                    (if HasErrors (check_contacts (rg_sdp rg) (TrimAndLower phone) (TrimAndLower email) NewValidator)
                     then throw (HTTPError 400 ''The request was invalid in some way.'' None)
                     else if phone \<noteq> [] then handleOTPForReceiver rg ReceiverContactTypeSMS phone (sc_ClientDomain sep24Claims)
                     else if email \<noteq> [] then handleOTPForReceiver rg ReceiverContactTypeEmail email (sc_ClientDomain sep24Claims)
                     else throw (HTTPError 500 ''Unexpected contact info'' None))))))"

section \<open>Verification\<close>

definition OTPExpirationTimeMinutes :: int where "OTPExpirationTimeMinutes = 5"
definition OTPMaxAttempts :: int where "OTPMaxAttempts = 5"

definition ErrOTPMaxAttemptsExceeded :: go_error where
  "ErrOTPMaxAttemptsExceeded = Errorf ''the number of attempts to confirm the OTP exceeded the max attempts''"
definition ErrOTPExpired :: go_error where "ErrOTPExpired = Errorf ''the OTP is expired, please request a new one''"
definition ErrOTPDoesNotMatch :: go_error where "ErrOTPDoesNotMatch = Errorf ''the OTP does not match the one saved in the database''"

definition TestnetAlwaysValidOTP :: string where "TestnetAlwaysValidOTP = ''000000''"
definition TestnetAlwaysInvalidOTP :: string where "TestnetAlwaysInvalidOTP = ''999999''"

definition isOTPValid :: "string \<Rightarrow> string \<Rightarrow> bool" where
  "isOTPValid storedOTP providedOTP = (if length storedOTP \<noteq> length providedOTP then False else storedOTP = providedOTP)"

definition verifyReceiverWalletOTP :: "sdp_env \<Rightarrow> int \<Rightarrow> ReceiverWallet \<Rightarrow> string \<Rightarrow> go_error + unit" where
  "verifyReceiverWalletOTP env now receiverWallet providedOTP =
     (if providedOTP = [] then Inl (Errorf ''otp cannot be empty'')
      else if rw_OTPAttempts receiverWallet \<ge> OTPMaxAttempts then Inl ErrOTPMaxAttemptsExceeded
      else if IsTestNetwork env \<and> providedOTP = TestnetAlwaysValidOTP then Inr ()
      else if IsTestNetwork env \<and> providedOTP = TestnetAlwaysInvalidOTP then Inl ErrOTPDoesNotMatch
      else (case rw_OTPCreatedAt receiverWallet of
          None \<Rightarrow> Inl (Errorf ''otp does not have a valid created_at time'')
        | Some createdAt \<Rightarrow>
            (if now > createdAt + time_Minute * OTPExpirationTimeMinutes then Inl ErrOTPExpired
             else if \<not> isOTPValid (rw_OTP receiverWallet) providedOTP then Inl ErrOTPDoesNotMatch
             else Inr ())))"

record registration = platform +
  pool_wallets :: "ReceiverWallet list"
  pool_verifications :: "ReceiverVerification list"

text \<open>A statement on the connection pool sees and changes the committed tables.\<close>

definition on_pool :: "('z registration_scheme, go_error, 'a) prog \<Rightarrow> ('z registration_scheme, go_error, 'a) prog" where
  "on_pool m = (\<lambda>s.
     case m (s\<lparr>receiver_wallets := pool_wallets s, receiver_verifications := pool_verifications s\<rparr>) of
       (r, t) \<Rightarrow> (r, t\<lparr>pool_wallets := receiver_wallets t, pool_verifications := receiver_verifications t,
          receiver_wallets := receiver_wallets s, receiver_verifications := receiver_verifications s\<rparr>))"

definition incrementOTPAttempts :: "sdp_env \<Rightarrow> ReceiverWallet \<Rightarrow> ('z registration_scheme, go_error, 'a) prog" where
  "incrementOTPAttempts env receiverWallet =
     (let attempts = rw_OTPAttempts receiverWallet + 1 in
      bindE (wrapE ''updating receiver wallet OTP attempts''
        (on_pool (ReceiverWalletModel_Update env (rw_ID receiverWallet) (no_wallet_update\<lparr>wu_OTPAttempts := Some attempts\<rparr>)))) (\<lambda>_.
      if attempts \<ge> OTPMaxAttempts then throw ErrOTPMaxAttemptsExceeded else throw ErrOTPDoesNotMatch))"

definition registration_wallet_update :: "SEP24JWTClaims \<Rightarrow> string \<Rightarrow> int \<Rightarrow> ReceiverWalletUpdate" where
  "registration_wallet_update sep24Claims contactInfo now = no_wallet_update
     \<lparr>wu_Status := RegisteredReceiversWalletStatus, wu_StellarAddress := SEP24JWTClaims_Account sep24Claims,
      wu_StellarMemo := Some (SEP24JWTClaims_Memo sep24Claims),
      wu_StellarMemoType := Some (if SEP24JWTClaims_Memo sep24Claims \<noteq> [] then MemoTypeID else []),
      wu_OTPConfirmedAt := Some now, wu_OTPConfirmedWith := contactInfo\<rparr>"

definition processReceiverWalletOTP ::
  "sdp_env \<Rightarrow> SEP24JWTClaims \<Rightarrow> Receiver \<Rightarrow> string \<Rightarrow> string \<Rightarrow> ('z registration_scheme, go_error, string \<times> bool) prog" where
  "processReceiverWalletOTP env sep24Claims receiver otp contactInfo =
     handleE (ReceiverWalletModel_GetByReceiverIDAndWalletDomain (rc_ID receiver) (sc_ClientDomain sep24Claims))
       (\<lambda>e. throw (InformationNotFoundError (Wrapf ''receiver wallet not found for receiverID=%s and clientDomain=%s'' e)))
       (\<lambda>(rw, w).
         if rw_Status rw = RegisteredReceiversWalletStatus then ret (rw_ID rw, True)
         else (case ReceiversWalletStatus_TransitionTo (rw_Status rw) RegisteredReceiversWalletStatus of
             Inl e \<Rightarrow> throw (InformationNotFoundError (Wrapf ''transitioning status for receiverWallet[ID=%s]'' e))
           | Inr _ \<Rightarrow>
               bindE (getsE conn_now) (\<lambda>now.
               case verifyReceiverWalletOTP env now rw otp of
                 Inl e \<Rightarrow> (if error_is e ErrOTPDoesNotMatch then incrementOTPAttempts env rw
                    else throw (Wrapf ''verifying receiver wallet OTP'' (Wrapf ''unable to verify receiver wallet OTP for receiver wallet ID %s'' e)))
               | Inr _ \<Rightarrow>
                   bindE (wrapE ''completing receiver wallet registration''
                     (ReceiverWalletModel_Update env (rw_ID rw) (registration_wallet_update sep24Claims contactInfo now))) (\<lambda>_.
                   ret (rw_ID rw, False)))))"

definition MessageChannelSMS :: string where "MessageChannelSMS = ''SMS''"
definition MessageChannelEmail :: string where "MessageChannelEmail = ''EMAIL''"

text \<open>The steps after the lookup of the verification.\<close>

definition verify_value ::
  "sdp_env \<Rightarrow> int \<Rightarrow> Receiver \<Rightarrow> ReceiverRegistrationRequest \<Rightarrow> ReceiverVerification \<Rightarrow> ('z registration_scheme, go_error, unit) prog" where
  "verify_value env now receiver req v =
     (if ExceededAttempts (rv_Attempts v)
        then throw (VerificationAttemptsExceededError (Errorf ''the number of attempts to confirm the verification value exceeded the max attempts''))
      else if TrimSpace (rq_PhoneNumber req) = [] \<and> TrimSpace (rq_Email req) = []
        then throw (InformationNotFoundError (Errorf ''no valid verification channel found resolved for receiver''))
      else
        (let rvu = \<lparr>vu_ReceiverID = rv_ReceiverID v, vu_VerificationField = rv_VerificationField v,
              vu_VerificationChannel = (if TrimSpace (rq_PhoneNumber req) \<noteq> [] then MessageChannelSMS else MessageChannelEmail),
              vu_Attempts = None, vu_ConfirmedAt = None, vu_ConfirmedByType = [], vu_ConfirmedByID = [], vu_FailedAt = None\<rparr> in
         if \<not> CompareVerificationValue env (rv_HashedValue v) (rq_VerificationValue req)
         then handleE (on_pool (ReceiverVerificationModel_UpdateReceiverVerification (rvu\<lparr>vu_Attempts := Some (rv_Attempts v + 1), vu_FailedAt := Some now\<rparr>)))
                (\<lambda>e. throw (InformationNotFoundError (Wrapf ''%s value does not match for receiver with id %s'' e)))
                (\<lambda>_. throw (InformationNotFoundError (Errorf ''%s value does not match for receiver with id %s'')))
         else wrapE ''updating successfully verified user'' (ReceiverVerificationModel_UpdateReceiverVerification
                (rvu\<lparr>vu_ConfirmedAt := Some now, vu_ConfirmedByID := rc_ID receiver, vu_ConfirmedByType := ConfirmedByTypeReceiver\<rparr>))))"

definition processReceiverVerificationPII ::
  "sdp_env \<Rightarrow> Receiver \<Rightarrow> ReceiverRegistrationRequest \<Rightarrow> ('z registration_scheme, go_error, unit) prog" where
  "processReceiverVerificationPII env receiver req =
     bindE (getsE conn_now) (\<lambda>now.
     bindE (wrapE ''retrieving receiver verification for verification type %s''
       (ReceiverVerificationModel_GetByReceiverIDsAndVerificationField [rc_ID receiver] (rq_VerificationField req))) (\<lambda>vs.
     case vs of
       [] \<Rightarrow> throw (InformationNotFoundError (Errorf ''verification of type %s not found for receiver id %s''))
     | v # _ \<Rightarrow> verify_value env now receiver req v))"

definition processTransactionID :: "sdp_env \<Rightarrow> SEP24JWTClaims \<Rightarrow> string \<Rightarrow> ('z registration_scheme, go_error, unit) prog" where
  "processTransactionID env sep24Claims receiverWalletID =
     wrapE ''updating receiver wallet with transaction ID''
       (ReceiverWalletModel_Update env receiverWalletID (no_wallet_update\<lparr>wu_SEP24TransactionID := sc_ID sep24Claims\<rparr>))"

definition verify_registration_body ::
  "sdp_env \<Rightarrow> SEP24JWTClaims \<Rightarrow> ReceiverRegistrationRequest \<Rightarrow> string \<Rightarrow> ('z registration_scheme, go_error, unit) prog" where
  "verify_registration_body env sep24Claims req contactInfo =
     bindE (wrapE ''retrieving receiver with contact info %s'' (ReceiverModel_GetByContacts [contactInfo])) (\<lambda>rs.
     case rs of
       [] \<Rightarrow> throw (InformationNotFoundError (Errorf ''receiver with contact info %s not found in our server''))
     | receiver # _ \<Rightarrow>
         bindE (wrapE ''processing OTP for receiver with contact info %s''
           (processReceiverWalletOTP env sep24Claims receiver (rq_OTP req) contactInfo)) (\<lambda>(receiverWalletID, wasAlreadyRegistered).
         bindE (wrapE ''processing receiver verification entry for receiver with contact info %s''
           (processReceiverVerificationPII env receiver req)) (\<lambda>_.
         if wasAlreadyRegistered then ret ()
         else wrapE ''processing transaction ID'' (processTransactionID env sep24Claims receiverWalletID))))"

text \<open>The rollback of the handler's transaction: the tables as they were, except for what the pool committed.\<close>

definition registration_rollback :: "'z registration_scheme \<Rightarrow> 'z registration_scheme \<Rightarrow> 'z registration_scheme" where
  "registration_rollback before after =
     (sdp_rollback before after)\<lparr>receiver_wallets := pool_wallets after, receiver_verifications := pool_verifications after\<rparr>"

text \<open>Opening the transaction: the committed tables are those of the state; they are forgotten at its end.\<close>

definition with_pool :: "(registration, 'e, 'a) prog \<Rightarrow> (platform, 'e, 'a) prog" where
  "with_pool m = (\<lambda>s. case m (platform.extend s (registration.fields (receiver_wallets s) (receiver_verifications s))) of
     (r, t) \<Rightarrow> (r, platform.truncate t))"

definition registration_error :: "go_error \<Rightarrow> go_error" where
  "registration_error err =
     (if error_is err ErrOTPMaxAttemptsExceeded then HTTPError 400 ''Maximum OTP verification attempts exceeded. Please request a new OTP.'' (Some err)
      else if error_is err ErrOTPExpired then HTTPError 400 ''OTP has expired. Please request a new one.'' (Some err)
      else if error_is err ErrOTPDoesNotMatch then HTTPError 400 ''Invalid OTP. Please check and try again.'' (Some err)
      else if error_as (\<lambda>e. case e of InformationNotFoundError c \<Rightarrow> Some () | _ \<Rightarrow> None) err \<noteq> None
        then HTTPError 400 ''The information you provided could not be found'' (Some err)
      else (case error_as (\<lambda>e. case e of VerificationAttemptsExceededError c \<Rightarrow> Some c | _ \<Rightarrow> None) err of
          Some c \<Rightarrow> HTTPError 400 (case c of Errorf m \<Rightarrow> m | _ \<Rightarrow> []) (Some err)
        | None \<Rightarrow> HTTPError 500 ''An internal error occurred while processing this request.'' (Some err)))"

definition validate_registration ::
  "registration_env \<Rightarrow> SEP24JWTClaims option \<Rightarrow> go_error + ReceiverRegistrationRequest \<Rightarrow>
   ('z platform_scheme, go_error, ReceiverRegistrationRequest \<times> SEP24JWTClaims) prog" where
  "validate_registration rg claims decoded =
     (case claims of
        None \<Rightarrow> throw (HTTPError 401 ''Not authorized.'' (Some (Errorf ''no SEP-24 claims found in the request context'')))
      | Some sep24Claims \<Rightarrow>
          (case decoded of
             Inl e \<Rightarrow> throw (HTTPError 400 ''The request was invalid in some way.'' (Some (Wrapf ''invalid request body'' e)))
           | Inr request \<Rightarrow>
               bindE (validate_captcha rg (rq_ReCAPTCHAToken request)) (\<lambda>_.
               bindE (getsE conn_now) (\<lambda>now.
               let (req, v) = ValidateReceiver (rg_sdp rg) now request NewValidator in
               if HasErrors v then throw (HTTPError 400 ''The request was invalid in some way.'' (Some (Errorf ''request invalid: %s'')))
               else ret (req, sep24Claims)))))"

definition VerifyReceiverRegistration ::
  "registration_env \<Rightarrow> SEP24JWTClaims option \<Rightarrow> go_error + ReceiverRegistrationRequest \<Rightarrow> (platform, go_error, unit) prog" where
  "VerifyReceiverRegistration rg claims decoded =
     bindE (validate_registration rg claims decoded) (\<lambda>(req, sep24Claims).
     if rq_PhoneNumber req = [] \<and> rq_Email req = [] then throw (HTTPError 500 ''Unexpected contact info'' None)
     else
       (let contactInfo = (if rq_PhoneNumber req \<noteq> [] then rq_PhoneNumber req else rq_Email req) in
        handleE (with_pool (RunInTransaction registration_rollback (verify_registration_body (rg_sdp rg) sep24Claims req contactInfo)))
          (\<lambda>e. throw (registration_error e)) ret))"

end
