(* ===== verification/Direct_Payments.thy ===== *)
theory Direct_Payments
  imports Disbursement_Handler
begin

text \<open>
  Direct payments (\<open>src/internal/services/direct_payment_service.go\<close>, \<open>direct_payment_resolvers.go\<close>, the
  validator of their requests) and the cancellation and the retry of payments (\<open>payment_management_service.go\<close>,
  \<open>src/internal/serve/httphandler/payments_handler.go\<close>).

  The table \<open>wallets_assets\<close> and the trustlines that Horizon reports are parameters, as is the balance of the
  distribution account. The accounts are the Stellar ones and the Circle ones; the recipients of Circle are not modelled.
\<close>

record direct_env =
  de_wallets_assets :: "string \<Rightarrow> string list"
  de_AccountDetail :: "nat \<Rightarrow> string \<Rightarrow> go_error + (string \<times> string \<times> string) list"

section \<open>References\<close>

record AssetReference =
  ar_ID :: "string option"
  ar_Type :: "string option"
  ar_Code :: "string option"
  ar_Issuer :: "string option"
  ar_ContractID :: "string option"

record ReceiverReference =
  fr_ID :: "string option"
  fr_Email :: "string option"
  fr_PhoneNumber :: "string option"
  fr_WalletAddress :: "string option"

record WalletReference =
  wr_ID :: "string option"
  wr_Address :: "string option"

record CreateDirectPaymentRequest =
  dr_Amount :: string
  dr_Asset :: AssetReference
  dr_Receiver :: ReceiverReference
  dr_Wallet :: WalletReference
  dr_ExternalPaymentID :: "string option"

definition given :: "string option \<Rightarrow> bool" where
  "given x = (case x of None \<Rightarrow> False | Some v \<Rightarrow> TrimSpace v \<noteq> [])"

definition count_given :: "string option list \<Rightarrow> nat" where
  "count_given xs = length (filter given xs)"

definition str_of :: "string option \<Rightarrow> string" where
  "str_of x = (case x of None \<Rightarrow> [] | Some v \<Rightarrow> v)"

definition valid_address :: "stellar_sdk \<Rightarrow> string \<Rightarrow> bool" where
  "valid_address sdk a \<longleftrightarrow> IsValidEd25519PublicKey sdk a \<or> IsValidContractAddress sdk a"

definition ValidationError :: "string \<Rightarrow> go_error" where "ValidationError m = ServiceError ''ValidationError'' m"
definition NotFoundError :: "string \<Rightarrow> go_error" where "NotFoundError m = ServiceError ''NotFoundError'' m"
definition UnsupportedError :: "string \<Rightarrow> go_error" where "UnsupportedError m = ServiceError ''UnsupportedError'' m"

definition AssetTypes :: "string list" where "AssetTypes = [''native'', ''classic'', ''contract'', ''fiat'']"

definition asset_type_check :: "stellar_sdk \<Rightarrow> AssetReference \<Rightarrow> string \<Rightarrow> go_error + unit" where
  "asset_type_check sdk ref ty =
     (if ty \<notin> set AssetTypes then Inl (ValidationError ''validation error for asset.type: invalid type'')
      else if ty = ''classic'' then
        (if \<not> given (ar_Code ref) then Inl (ValidationError ''validation error for asset.code: required for classic asset'')
         else if ar_ContractID ref \<noteq> None then Inl (ValidationError ''validation error for asset.contract_id: field not supported for classic asset'')
         else if \<not> given (ar_Issuer ref) then Inl (ValidationError ''validation error for asset.issuer: required for classic asset'') else Inr ())
      else if ty = ''contract'' then
        (if \<not> given (ar_ContractID ref) then Inl (ValidationError ''validation error for asset.contract_id: required for contract asset'')
         else if \<not> IsValidContractAddress sdk (str_of (ar_ContractID ref)) then Inl (ValidationError ''validation error for asset.contract_id: invalid contract format provided'')
         else Inr ())
      else if ty = ''fiat'' then
        (if \<not> given (ar_Code ref) then Inl (ValidationError ''validation error for asset.code: required for fiat asset'') else Inr ())
      else Inr ())"

definition AssetResolver_Validate :: "stellar_sdk \<Rightarrow> AssetReference \<Rightarrow> go_error + unit" where
  "AssetResolver_Validate sdk ref =
     (case (if given (ar_Type ref) then asset_type_check sdk ref (str_of (ar_Type ref)) else Inr ()) of
        Inl e \<Rightarrow> Inl e
      | Inr _ \<Rightarrow>
          (let referenceCount = count_given [ar_ID ref, ar_Type ref] in
           if referenceCount = 0 then Inl (ValidationError ''validation error for asset.reference: must be specified by id or type'')
           else if referenceCount > 1 then Inl (ValidationError ''validation error for asset.reference: must be specified by either id or type, not both'')
           else Inr ()))"

definition or_not_found :: "string \<Rightarrow> string \<Rightarrow> ('s, go_error, 'a) prog \<Rightarrow> ('s, go_error, 'a) prog" where
  "or_not_found what msg m = handleE m (\<lambda>e. if error_is e ErrRecordNotFound then throw (NotFoundError what) else throw (Wrapf msg e)) ret"

definition AssetResolver_Resolve :: "stellar_sdk \<Rightarrow> AssetReference \<Rightarrow> ('z platform_scheme, go_error, Asset) prog" where
  "AssetResolver_Resolve sdk ref =
     (case AssetResolver_Validate sdk ref of
        Inl e \<Rightarrow> throw e
      | Inr _ \<Rightarrow>
          (case ar_ID ref of
             Some i \<Rightarrow> or_not_found ''asset not found with reference: %s'' ''getting asset by ID'' (AssetModel_Get i)
           | None \<Rightarrow>
               (if ar_Type ref = Some ''native'' then
                  or_not_found ''asset not found: native XLM asset not found'' ''getting native asset'' (AssetModel_GetByCodeAndIssuer ''XLM'' [])
                else if ar_Type ref = Some ''classic'' then
                  or_not_found ''asset not found with reference: %s:%s'' ''getting classic asset''
                    (AssetModel_GetByCodeAndIssuer (str_of (ar_Code ref)) (str_of (ar_Issuer ref)))
                else if ar_Type ref = Some ''contract'' then throw (UnsupportedError ''asset: contract assets not yet supported'')
                else if ar_Type ref = Some ''fiat'' then throw (UnsupportedError ''asset: fiat assets not yet supported'')
                else throw (ValidationError ''validation error for asset.reference: must be specified by id or type''))))"

definition ReceiverResolver_Validate :: "sdp_env \<Rightarrow> ReceiverReference \<Rightarrow> go_error + unit" where
  "ReceiverResolver_Validate env ref =
     (let referenceCount = count_given [fr_ID ref, fr_Email ref, fr_PhoneNumber ref, fr_WalletAddress ref] in
      if given (fr_Email ref) \<and> isl (ValidateEmail (str_of (fr_Email ref))) then Inl (ValidationError ''validation error for receiver.email: invalid format: %s'')
      else if given (fr_PhoneNumber ref) \<and> isl (ValidatePhoneNumber env (str_of (fr_PhoneNumber ref)))
        then Inl (ValidationError ''validation error for receiver.phone_number: invalid format: %s'')
      else if given (fr_WalletAddress ref) \<and> \<not> valid_address (env_sdk env) (str_of (fr_WalletAddress ref))
        then Inl (ValidationError ''validation error for receiver.wallet_address: invalid stellar address format: %s'')
      else if referenceCount = 0
        then Inl (ValidationError ''validation error for receiver.reference: must be specified by id, email, phone_number, or wallet_address'')
      else if referenceCount > 1 then Inl (ValidationError ''validation error for receiver.reference: must be specified by only one identifier'')
      else Inr ())"

definition GetContactInfo :: "ReceiverReference \<Rightarrow> string" where
  "GetContactInfo r = (if str_of (fr_Email r) \<noteq> [] then str_of (fr_Email r) else str_of (fr_PhoneNumber r))"

text \<open>The statistics of the receiver that the query adds are not used here.\<close>

definition ReceiverModel_Get :: "string \<Rightarrow> ('z platform_scheme, go_error, Receiver) prog" where
  "ReceiverModel_Get i = bindE (wrapE ''getting receiver by id'' (wrapE ''querying receivers''
     (db_call (getsE (\<lambda>s. map receiver_of (filter (\<lambda>r. rr_id r = i) (receivers s)))))))
     (\<lambda>rs. case rs of [] \<Rightarrow> throw ErrRecordNotFound | r # _ \<Rightarrow> ret r)"

definition ReceiverResolver_Resolve :: "sdp_env \<Rightarrow> ReceiverReference \<Rightarrow> ('z platform_scheme, go_error, Receiver) prog" where
  "ReceiverResolver_Resolve env ref =
     (case ReceiverResolver_Validate env ref of
        Inl e \<Rightarrow> throw e
      | Inr _ \<Rightarrow>
          (case fr_ID ref of
             Some i \<Rightarrow> or_not_found ''receiver not found with reference: %s'' ''getting receiver by ID'' (ReceiverModel_Get i)
           | None \<Rightarrow>
               (if GetContactInfo ref \<noteq> [] then
                  bindE (wrapE ''getting receiver by contact'' (ReceiverModel_GetByContacts [GetContactInfo ref])) (\<lambda>rs.
                  case rs of
                    [] \<Rightarrow> throw (NotFoundError ''receiver not found: no receiver found with contact info: %s'')
                  | [r] \<Rightarrow> ret r
                  | _ \<Rightarrow> throw (ServiceError ''AmbiguousReferenceError'' ''ambiguous receiver reference %s: found %d matches''))
                else (case fr_WalletAddress ref of
                    Some a \<Rightarrow> or_not_found ''receiver not found: no receiver found with wallet address: %s'' ''getting receiver by wallet address''
                      (ReceiverModel_GetByWalletAddress a)
                  | None \<Rightarrow> throw (ValidationError ''validation error for receiver.reference: must be specified by id, email, phone_number, or wallet_address'')))))"

definition WalletResolver_Validate :: "stellar_sdk \<Rightarrow> WalletReference \<Rightarrow> go_error + unit" where
  "WalletResolver_Validate sdk ref =
     (let referenceCount = count_given [wr_ID ref, wr_Address ref] in
      if given (wr_Address ref) \<and> \<not> valid_address sdk (str_of (wr_Address ref))
        then Inl (ValidationError ''validation error for wallet.address: invalid stellar address format: %s'')
      else if referenceCount = 0 then Inl (ValidationError ''validation error for wallet.reference: must be specified by id or address'')
      else if referenceCount > 1 then Inl (ValidationError ''validation error for wallet.reference: must be specified by either id or address, not both'')
      else Inr ())"

text \<open>The wallet of an address is that of the first receiver wallet with it, whoever the receiver is.\<close>

definition WalletResolver_Resolve :: "stellar_sdk \<Rightarrow> WalletReference \<Rightarrow> ('z platform_scheme, go_error, Wallet) prog" where
  "WalletResolver_Resolve sdk ref =
     (case WalletResolver_Validate sdk ref of
        Inl e \<Rightarrow> throw e
      | Inr _ \<Rightarrow>
          (case wr_ID ref of
             Some i \<Rightarrow> or_not_found ''wallet not found with reference: %s'' ''getting wallet by ID'' (WalletModel_Get i)
           | None \<Rightarrow>
               (case wr_Address ref of
                  None \<Rightarrow> throw (ValidationError ''validation error for wallet.reference: must be specified by id or address'')
                | Some a \<Rightarrow>
                    bindE (wrapE ''finding receiver wallet'' (ReceiverWalletModel_GetByStellarAccountAndMemo a [] None)) (\<lambda>(rw, w).
                    if \<not> wl_UserManaged w \<or> \<not> wl_Enabled w then throw (NotFoundError ''wallet not found: no user managed wallet found'')
                    else ret w))))"

section \<open>Creating a direct payment\<close>

definition WalletModel_GetAssets :: "direct_env \<Rightarrow> string \<Rightarrow> ('z platform_scheme, go_error, Asset list) prog" where
  "WalletModel_GetAssets de walletID = wrapE ''querying wallet assets'' (db_call (getsE (\<lambda>s.
     sql_order_by as_Code (filter (\<lambda>a. as_ID a \<in> set (de_wallets_assets de walletID)) (assets s)))))"

definition validateAssetWalletCompatibility :: "direct_env \<Rightarrow> Asset \<Rightarrow> Wallet \<Rightarrow> ('z platform_scheme, go_error, unit) prog" where
  "validateAssetWalletCompatibility de asset wallet =
     (if wl_UserManaged wallet then ret ()
      else
      bindE (wrapE ''getting wallet assets'' (WalletModel_GetAssets de (wl_ID wallet))) (\<lambda>walletAssets.
      if list_ex (\<lambda>walletAsset. Asset_Equals walletAsset asset) walletAssets then ret ()
      else throw (ServiceError ''AssetNotSupportedByWalletError'' ''asset %s is not supported by wallet %s'')))"

text \<open>This error is returned by its address.\<close>

definition ReceiverWalletNotFoundError :: go_error where
  "ReceiverWalletNotFoundError = ServiceError ''*ReceiverWalletNotFoundError'' ''no receiver wallet: receiver=%s wallet=%s''"

definition create_ready_wallet :: "sdp_env \<Rightarrow> string \<Rightarrow> string \<Rightarrow> ('z platform_scheme, go_error, ReceiverWallet) prog" where
  "create_ready_wallet env receiverID walletID =
     bindE (wrapE ''creating receiver wallet'' (ReceiverWalletModel_GetOrInsertReceiverWallet \<lparr>wi_ReceiverID = receiverID, wi_WalletID = walletID\<rparr>))
       (\<lambda>newReceiverWalletID.
     bindE (wrapE ''updating receiver wallet status to READY''
       (ReceiverWalletModel_Update env newReceiverWalletID (no_wallet_update\<lparr>wu_Status := ReadyReceiversWalletStatus\<rparr>))) (\<lambda>_.
     bindE (wrapE ''getting created receiver wallet'' (ReceiverWalletModel_GetByID newReceiverWalletID)) (\<lambda>(rw, w). ret rw)))"

definition getReceiverWallet ::
  "sdp_env \<Rightarrow> string \<Rightarrow> string \<Rightarrow> string option \<Rightarrow> ('z platform_scheme, go_error, ReceiverWallet) prog" where
  "getReceiverWallet env receiverID walletID walletAddress =
     bindE (wrapE ''checking for existing receiver wallet'' (ReceiverWalletModel_GetByReceiverIDsAndWalletID [receiverID] walletID)) (\<lambda>receiverWallets.
     case receiverWallets of
       receiverWallet # _ \<Rightarrow>
         (if str_of walletAddress \<noteq> [] \<and> rw_StellarAddress receiverWallet \<noteq> str_of walletAddress
          then throw (Errorf ''wallet address mismatch - receiver is registered with a different address for this wallet'')
          else ret receiverWallet)
     | [] \<Rightarrow>
         bindE (wrapE ''getting wallet'' (WalletModel_Get walletID)) (\<lambda>wallet.
         if wl_UserManaged wallet then throw ReceiverWalletNotFoundError
         else
         bindE (wrapE ''checking receiver verifications'' (ReceiverVerificationModel_GetAllByReceiverID receiverID)) (\<lambda>receiverVerifications.
         if receiverVerifications = [] then throw ReceiverWalletNotFoundError
         else create_ready_wallet env receiverID walletID)))"

definition checkTrustlineExists :: "direct_env \<Rightarrow> TransactionAccount \<Rightarrow> Asset \<Rightarrow> ('z platform_scheme, go_error, bool) prog" where
  "checkTrustlineExists de account asset =
     (if Asset_IsNative asset then ret True
      else
      bindE (net_call (\<lambda>n. de_AccountDetail de n (ta_Address account))) (\<lambda>r.
      case r of
        Inl err \<Rightarrow>
          (if error_as (\<lambda>e. case e of HorizonClientError p c \<Rightarrow> if prob_status p = 404 then Some () else None | _ \<Rightarrow> None) err \<noteq> None
           then throw (ServiceError ''AccountNotFoundError'' ''distribution account %s not found on the Stellar network'')
           else throw (Wrapf ''getting account details from Horizon'' err))
      | Inr balances \<Rightarrow> ret (list_ex (\<lambda>(ty, code, issuer). ty \<noteq> ''native'' \<and> code = as_Code asset \<and> issuer = as_Issuer asset) balances)))"

definition validateCircleAccount :: "TransactionAccount \<Rightarrow> go_error + unit" where
  "validateCircleAccount account =
     (if TransactionAccount_IsPendingUserActivation account
      then Inl (ServiceError ''CircleAccountNotActivatedError'' ''Circle distribution account is in %s state, please complete the %s activation process'')
      else Inr ())"

text \<open>An amount that cannot be read is left out.\<close>

definition calculatePendingAmountForAsset :: "sdp_env \<Rightarrow> Asset \<Rightarrow> ('z platform_scheme, go_error, rat) prog" where
  "calculatePendingAmountForAsset env targetAsset =
     bindE (wrapE ''getting pending payments'' (PaymentModel_GetAll never_ilike
       (no_filters\<lparr>qp_Status := Some (Many PaymentInProgressStatuses)\<rparr>) QueryTypeSelectAll)) (\<lambda>pendingPayments.
     ret (sum_list (map (\<lambda>p. case decimal_NewFromString env (pm_Amount (dp_row p)) of Inl e \<Rightarrow> 0 | Inr amount \<Rightarrow> amount)
       (filter (\<lambda>p. Asset_Equals (dp_Asset p) targetAsset) pendingPayments))))"

definition InsufficientBalanceForDirectPaymentError :: go_error where
  "InsufficientBalanceForDirectPaymentError = ServiceError ''InsufficientBalanceForDirectPaymentError''
     ''insufficient balance for direct payment: requested %s %s, but only %s available (%s in pending payments). Need %s more %s''"

definition direct_validateBalance ::
  "sdp_env \<Rightarrow> direct_env \<Rightarrow> TransactionAccount \<Rightarrow> Asset \<Rightarrow> string \<Rightarrow> ('z platform_scheme, go_error, unit) prog" where
  "direct_validateBalance env de distributionAccount asset amount =
     bindE (wrapE ''parsing amount'' (liftE (decimal_NewFromString env amount))) (\<lambda>requestedAmount.
     bindE (if TransactionAccount_IsStellar distributionAccount
            then bindE (wrapE ''checking trustline existence'' (checkTrustlineExists de distributionAccount asset)) (\<lambda>exists.
              if \<not> exists then throw (ServiceError ''TrustlineNotFoundError'' ''distribution account %s does not have a trustline for asset %s:%s'') else ret ())
            else ret ()) (\<lambda>_.
     bindE (if TransactionAccount_IsCircle distributionAccount then liftE (validateCircleAccount distributionAccount) else ret ()) (\<lambda>_.
     bindE (net_call (\<lambda>n. GetBalance env n distributionAccount asset)) (\<lambda>balance.
     bindE (wrapE ''getting balance'' (liftE balance)) (\<lambda>availableBalance.
     bindE (wrapE ''calculating pending amounts'' (calculatePendingAmountForAsset env asset)) (\<lambda>totalPending.
     if availableBalance < requestedAmount + totalPending then throw InsufficientBalanceForDirectPaymentError else ret ()))))))"

definition direct_payment_body ::
  "sdp_env \<Rightarrow> direct_env \<Rightarrow> CreateDirectPaymentRequest \<Rightarrow> string \<Rightarrow> TransactionAccount \<Rightarrow> ('z platform_scheme, go_error, data_Payment) prog" where
  "direct_payment_body env de req userID distributionAccount =
     bindE (AssetResolver_Resolve (env_sdk env) (dr_Asset req)) (\<lambda>asset.
     bindE (ReceiverResolver_Resolve env (dr_Receiver req)) (\<lambda>receiver.
     bindE (WalletResolver_Resolve (env_sdk env) (dr_Wallet req)) (\<lambda>wallet.
     if \<not> wl_Enabled wallet then throw (ServiceError ''WalletNotEnabledError'' ''wallet %s is not enabled for payments'')
     else
     bindE (validateAssetWalletCompatibility de asset wallet) (\<lambda>_.
     bindE (wrapE ''getting receiver wallet'' (getReceiverWallet env (rc_ID receiver) (wl_ID wallet) (wr_Address (dr_Wallet req)))) (\<lambda>receiverWallet.
     if rw_Status receiverWallet \<noteq> ReadyReceiversWalletStatus \<and> rw_Status receiverWallet \<noteq> RegisteredReceiversWalletStatus
     then throw (ServiceError ''ReceiverWalletNotReadyForPaymentError'' ''receiver wallet is not ready for payment, current status is %s'')
     else
     bindE (direct_validateBalance env de distributionAccount asset (dr_Amount req)) (\<lambda>_.
     bindE (wrapE ''creating payment'' (PaymentModel_CreateDirectPayment env
       \<lparr>pi_ReceiverID = rc_ID receiver, pi_DisbursementID = None, pi_PaymentType = PaymentTypeDirect, pi_Amount = dr_Amount req,
        pi_AssetID = as_ID asset, pi_ReceiverWalletID = rw_ID receiverWallet, pi_ExternalPaymentID = dr_ExternalPaymentID req\<rparr> userID)) (\<lambda>paymentID.
     wrapE ''getting created payment'' (PaymentModel_Get paymentID))))))))"

definition CreateDirectPayment ::
  "sdp_env \<Rightarrow> direct_env \<Rightarrow> CreateDirectPaymentRequest \<Rightarrow> string \<Rightarrow> TransactionAccount \<Rightarrow> ('z platform_scheme, go_error, data_Payment) prog" where
  "CreateDirectPayment env de req userID distributionAccount =
     wrapE ''creating direct payment'' (RunInTransactionWithResult sdp_rollback (direct_payment_body env de req userID distributionAccount))"

section \<open>Cancelling a payment\<close>

definition ErrPaymentNotFound :: go_error where "ErrPaymentNotFound = Errorf ''payment not found''"
definition ErrPaymentNotReadyToCancel :: go_error where "ErrPaymentNotReadyToCancel = Errorf ''payment is not ready to be canceled''"
definition ErrPaymentStatusCantBeChanged :: go_error where
  "ErrPaymentStatusCantBeChanged = Errorf ''payment status can't be changed to the requested status''"

definition cancel_body :: "string \<Rightarrow> ('z platform_scheme, go_error, unit) prog" where
  "cancel_body paymentID =
     bindE (handleE (PaymentModel_Get paymentID)
       (\<lambda>err. if error_is err ErrRecordNotFound then throw ErrPaymentNotFound else throw (Wrapf ''error getting payment with id %s'' err)) ret) (\<lambda>payment.
     case PaymentStatus_TransitionTo (pm_Status (dp_row payment)) CanceledPaymentStatus of
       Inl _ \<Rightarrow> throw ErrPaymentNotReadyToCancel
     | Inr _ \<Rightarrow>
         bindE (wrapE ''error updating payment status with id %s to canceled'' (PaymentModel_UpdateStatuses [payment] CanceledPaymentStatus))
           (\<lambda>numRowsAffected. if numRowsAffected = 0 then throw ErrPaymentStatusCantBeChanged else ret ()))"

definition CancelPayment :: "string \<Rightarrow> ('z platform_scheme, go_error, unit) prog" where
  "CancelPayment paymentID = RunInTransaction sdp_rollback (cancel_body paymentID)"

section \<open>The request\<close>

definition trimmed :: "string option \<Rightarrow> string option" where
  "trimmed x = map_option TrimSpace x"

text \<open>The validation of a request trims its fields in place; each function returns the reference and the collected errors.\<close>

definition check_asset_type :: "stellar_sdk \<Rightarrow> AssetReference \<Rightarrow> string \<Rightarrow> Validator \<Rightarrow> Validator" where
  "check_asset_type sdk asset assetType v =
     (if assetType = ''classic'' then
        (let v1 = Check (given (ar_Issuer asset)) ''asset.issuer'' ''issuer is required for classic asset''
               (Check (given (ar_Code asset)) ''asset.code'' ''code is required for classic asset'' v) in
         if given (ar_Issuer asset) then Check (IsValidEd25519PublicKey sdk (TrimSpace (str_of (ar_Issuer asset)))) ''asset.issuer''
           ''invalid stellar account ID format for issuer'' v1
         else v1)
      else if assetType = ''contract'' then Check (given (ar_ContractID asset)) ''asset.contract_id'' ''contract_id is required for contract asset'' v
      else if assetType = ''fiat'' then Check (given (ar_Code asset)) ''asset.code'' ''code is required for fiat asset'' v
      else v)"

definition trim_asset :: "AssetReference \<Rightarrow> AssetReference" where
  "trim_asset asset = asset\<lparr>ar_Code := trimmed (ar_Code asset), ar_Issuer := trimmed (ar_Issuer asset), ar_ContractID := trimmed (ar_ContractID asset)\<rparr>"

definition validateAssetReference :: "stellar_sdk \<Rightarrow> AssetReference \<Rightarrow> Validator \<Rightarrow> AssetReference \<times> Validator" where
  "validateAssetReference sdk asset v =
     (let hasID = given (ar_ID asset); hasType = given (ar_Type asset);
          v1 = Check (\<not> hasID \<or> \<not> hasType) ''asset'' ''asset reference must specify either id or type, not both''
            (Check (hasID \<or> hasType) ''asset'' ''asset reference is required - must specify either id or type'' v) in
      if hasType then
        (let assetType = TrimSpace (str_of (ar_Type asset));
             v2 = Check (assetType \<in> set AssetTypes) ''asset.type'' ''invalid asset type, must be one of: native, classic, contract, fiat'' v1 in
         if HasErrors v2 then (asset, v2)
         else (trim_asset (asset\<lparr>ar_Type := Some assetType\<rparr>), check_asset_type sdk asset assetType v2))
      else (trim_asset asset, v1))"

definition trim_given :: "string option \<Rightarrow> string option" where
  "trim_given x = (if given x then trimmed x else x)"

definition error_of :: "go_error + 'a \<Rightarrow> go_error option" where
  "error_of r = (case r of Inl e \<Rightarrow> Some e | Inr _ \<Rightarrow> None)"

definition validateReceiverReference :: "sdp_env \<Rightarrow> ReceiverReference \<Rightarrow> Validator \<Rightarrow> ReceiverReference \<times> Validator" where
  "validateReceiverReference env receiver v =
     (let sdk = env_sdk env;
          identifierCount = count_given [fr_ID receiver, fr_Email receiver, fr_PhoneNumber receiver, fr_WalletAddress receiver];
          v1 = Check (identifierCount = 1) ''receiver'' ''receiver reference must specify exactly one identifier''
            (Check (identifierCount > 0) ''receiver'' ''receiver reference is required - must specify id, email, phone_number, or wallet_address'' v);
          v2 = (if given (fr_Email receiver) then CheckError sdk (error_of (ValidateEmail (TrimSpace (str_of (fr_Email receiver))))) ''receiver.email'' [] v1 else v1);
          v3 = (if given (fr_PhoneNumber receiver)
            then CheckError sdk (error_of (ValidatePhoneNumber env (TrimSpace (str_of (fr_PhoneNumber receiver))))) ''receiver.phone_number'' [] v2 else v2);
          v4 = (if given (fr_WalletAddress receiver)
            then Check (valid_address sdk (TrimSpace (str_of (fr_WalletAddress receiver)))) ''receiver.wallet_address'' ''invalid stellar address format'' v3 else v3) in
      (receiver\<lparr>fr_ID := trim_given (fr_ID receiver), fr_Email := trim_given (fr_Email receiver),
         fr_PhoneNumber := trim_given (fr_PhoneNumber receiver), fr_WalletAddress := trim_given (fr_WalletAddress receiver)\<rparr>, v4))"

definition validateWalletReference :: "stellar_sdk \<Rightarrow> WalletReference \<Rightarrow> Validator \<Rightarrow> WalletReference \<times> Validator" where
  "validateWalletReference sdk wallet v =
     (let hasID = given (wr_ID wallet); hasAddress = given (wr_Address wallet);
          v1 = Check (\<not> hasID \<or> \<not> hasAddress) ''wallet'' ''wallet reference must specify either id or address, not both''
            (Check (hasID \<or> hasAddress) ''wallet'' ''wallet reference is required - must specify either id or address'' v);
          v2 = (if hasAddress then Check (valid_address sdk (TrimSpace (str_of (wr_Address wallet)))) ''wallet.address'' ''invalid stellar address format'' v1 else v1) in
      (wallet\<lparr>wr_ID := trim_given (wr_ID wallet), wr_Address := trim_given (wr_Address wallet)\<rparr>, v2))"

definition ValidateCreateDirectPaymentRequest :: "sdp_env \<Rightarrow> CreateDirectPaymentRequest \<Rightarrow> Validator + CreateDirectPaymentRequest" where
  "ValidateCreateDirectPaymentRequest env req =
     (let amount = TrimSpace (dr_Amount req);
          v1 = Check (amount \<noteq> []) ''amount'' ''amount is required'' NewValidator;
          v2 = (if amount \<noteq> [] then CheckError (env_sdk env) (error_of (ValidateAmount env amount)) ''amount'' [] v1 else v1);
          (asset, v3) = validateAssetReference (env_sdk env) (dr_Asset req) v2;
          (receiver, v4) = validateReceiverReference env (dr_Receiver req) v3;
          (wallet, v5) = validateWalletReference (env_sdk env) (dr_Wallet req) v4 in
      if HasErrors v5 then Inl v5
      else Inr (req\<lparr>dr_Amount := amount, dr_Asset := asset, dr_Receiver := receiver, dr_Wallet := wallet\<rparr>))"

section \<open>The handlers\<close>

definition service_error :: "string \<Rightarrow> go_error \<Rightarrow> string option" where
  "service_error kind err = error_as (\<lambda>e. case e of ServiceError k m \<Rightarrow> if k = kind then Some m else None | _ \<Rightarrow> None) err"

text \<open>The types of errors that the handler looks for, in its order, and what it adds to their text. \<open>errors.As\<close> does not
  find an error that was returned by its address.\<close>

definition direct_error_kinds :: "(string \<times> nat \<times> string) list" where
  "direct_error_kinds = [(''ValidationError'', 400, []), (''NotFoundError'', 404, []), (''UnsupportedError'', 400, []), (''AmbiguousReferenceError'', 400, []),
     (''InsufficientBalanceForDirectPaymentError'', 400, []), (''WalletNotEnabledError'', 400, []), (''AssetNotSupportedByWalletError'', 400, []),
     (''ReceiverWalletNotReadyForPaymentError'', 400, []), (''ReceiverWalletNotFoundError'', 400, []),
     (''TrustlineNotFoundError'', 400, ''. Please add a trustline for this asset to your distribution account, or choose a different asset that already has a trustline.''),
     (''CircleAccountNotActivatedError'', 400, ''. Please complete the Circle account activation process...''),
     (''CircleAssetNotSupportedError'', 400, ''. Please choose a different asset supported by Circle...''),
     (''AccountNotFoundError'', 400, ''. Please ensure your distribution account exists and is funded on the Stellar network.'')]"

definition direct_payment_error :: "go_error \<Rightarrow> go_error" where
  "direct_payment_error err =
     (case List.find (\<lambda>(kind, status, hint). service_error kind err \<noteq> None) direct_error_kinds of
        Some (kind, status, hint) \<Rightarrow> HTTPError status (str_of (service_error kind err) @ hint) (Some err)
      | None \<Rightarrow> InternalError ''creating payment'' (Some err))"

text \<open>The user is the one of the token, if it is known.\<close>

definition PostDirectPayment ::
  "sdp_env \<Rightarrow> direct_env \<Rightarrow> go_error + CreateDirectPaymentRequest \<Rightarrow> go_error + go_error + string \<Rightarrow> ('z platform_scheme, go_error, data_Payment) prog" where
  "PostDirectPayment env de decoded user =
     (case decoded of
        Inl e \<Rightarrow> throw (BadRequest ''invalid request body'' (Some e))
      | Inr req \<Rightarrow>
          (case ValidateCreateDirectPaymentRequest env req of
             Inl v \<Rightarrow> throw (BadRequest ''request invalid'' None)
           | Inr validatedReq \<Rightarrow>
               (case user of
                  Inl e \<Rightarrow> throw (HTTPError 401 [] None)
                | Inr (Inl e) \<Rightarrow> throw (InternalError ''Cannot get user'' (Some e))
                | Inr (Inr userID) \<Rightarrow>
                    bindE (net_call (\<lambda>n. DistributionAccountFromContext env n)) (\<lambda>r.
                    case r of
                      Inl e \<Rightarrow> throw (InternalError ''resolving distribution account'' (Some e))
                    | Inr distAccount \<Rightarrow>
                        handleE (CreateDirectPayment env de validatedReq userID distAccount) (\<lambda>e. throw (direct_payment_error e)) ret))))"

definition PatchPaymentStatus :: "go_error + string \<Rightarrow> string \<Rightarrow> ('z platform_scheme, go_error, string) prog" where
  "PatchPaymentStatus decoded paymentID =
     (case decoded of
        Inl e \<Rightarrow> throw (BadRequest ''invalid request body'' (Some e))
      | Inr status \<Rightarrow>
          (case ToPaymentStatus status of
             Inl e \<Rightarrow> throw (BadRequest ''invalid status'' (Some e))
           | Inr toStatus \<Rightarrow>
               handleE (if toStatus = CanceledPaymentStatus then CancelPayment paymentID else throw ErrPaymentStatusCantBeChanged)
                 (\<lambda>err. if error_is err ErrPaymentNotFound then throw (NotFound (sentinel_text ErrPaymentNotFound) (Some err))
                    else if error_is err ErrPaymentNotReadyToCancel then throw (BadRequest (sentinel_text ErrPaymentNotReadyToCancel) (Some err))
                    else if error_is err ErrPaymentStatusCantBeChanged then throw (BadRequest (sentinel_text ErrPaymentStatusCantBeChanged) (Some err))
                    else throw (InternalError ''Cannot update payment ID %s with status: %s'' (Some err)))
                 (\<lambda>_. ret ''Payment canceled'')))"

text \<open>\<open>circle\<close> is the answer of the statement that resets the recipients when the tenant's account is one of Circle.\<close>

definition retry_body :: "sdp_env \<Rightarrow> string \<Rightarrow> string list \<Rightarrow> (go_error + unit) option \<Rightarrow> ('z platform_scheme, go_error, unit) prog" where
  "retry_body env email ids circle =
     bindE (wrapE ''retrying failed payments'' (PaymentModel_RetryFailedPayments email ids)) (\<lambda>_.
     bindE (wrapE ''getting tenant from context'' (liftE (GetTenantFromContext env))) (\<lambda>_.
     case circle of None \<Rightarrow> ret () | Some r \<Rightarrow> wrapE ''resetting circle recipients for retry if needed'' (liftE r)))"

definition RetryPayments ::
  "sdp_env \<Rightarrow> go_error + go_error + string \<Rightarrow> go_error + string list \<Rightarrow> (go_error + unit) option \<Rightarrow> ('z platform_scheme, go_error, string) prog" where
  "RetryPayments env user decoded circle =
     (case user of
        Inl e \<Rightarrow> throw (HTTPError 401 [] None)
      | Inr (Inl e) \<Rightarrow> throw (InternalError [] (Some e))
      | Inr (Inr email) \<Rightarrow>
          (case decoded of
             Inl e \<Rightarrow> throw (BadRequest [] (Some e))
           | Inr ids \<Rightarrow>
               (if ids = [] then throw (BadRequest [] None)
                else handleE (RunInTransaction sdp_rollback (retry_body env email ids circle))
                  (\<lambda>err. if error_is err ErrMismatchNumRowsAffected
                     then throw (BadRequest ''Invalid payment ID(s) provided. All payment IDs must exist and be in the 'FAILED' state.'' (Some err))
                     else throw (InternalError [] (Some err)))
                  (\<lambda>_. ret ''Payments retried successfully''))))"

end
