(* ===== verification/Tenant_Relation.thy ===== *)
theory Tenant_Relation
  imports Upload_Relation Sdp_Relation Registration Direct_Payments
begin

text \<open>
  The interface for what every handler of a tenant keeps: \<open>tenant_relation\<close> extends \<open>sdp_relation\<close> by the tables of the
  receivers and their verifications, and it is an \<open>upload_relation\<close>. The handlers of disbursements,
  of payments and of the one-time passwords, and the removal of a registration, respect it.
\<close>

locale tenant_relation = sdp_relation R row_step pm_step pm_new new_tx
  for R :: "'z platform_scheme \<Rightarrow> 'z platform_scheme \<Rightarrow> bool" and row_step pm_step pm_new new_tx +
  assumes R_receivers: "receivers_ok (s\<lparr>receivers := rs\<rparr>) \<Longrightarrow> rr_id ` set (receivers s) \<subseteq> rr_id ` set rs \<Longrightarrow> R s (s\<lparr>receivers := rs\<rparr>)"
    and R_verifications: "receiver_verifications_ok (s\<lparr>receiver_verifications := vs\<rparr>) \<Longrightarrow> R s (s\<lparr>receiver_verifications := vs\<rparr>)"
    and draft_new: "inserted_payment env DraftPaymentStatus m i (s :: 'z platform_scheme) = Some p \<Longrightarrow> pm_new p"
begin

lemma wallet_ids_ok:
  assumes "rw_ID ` set (receiver_wallets s) \<subseteq> rw_ID ` set rs"
  shows "payments_ok s \<longrightarrow> payments_ok (s\<lparr>receiver_wallets := rs\<rparr>)"
  using assms by (fastforce simp: payments_ok_def payment_row_ok_def list_all_iff split: option.splits)

lemma updated_wallets_ok:
  assumes "\<And>w. rw_ID (f w) = rw_ID w"
  shows "rw_ID ` set (receiver_wallets s) \<subseteq> rw_ID ` set (sql_update P f (receiver_wallets s))"
proof -
  have "map rw_ID (sql_update P f (receiver_wallets s)) = map rw_ID (receiver_wallets s)" using assms by (rule map_sql_update_key)
  then show ?thesis by (metis list.set_map order_refl)
qed

lemma R_updated_wallets:
  assumes "receiver_wallets_ok (s\<lparr>receiver_wallets := sql_update P f (receiver_wallets s)\<rparr>)" and "\<And>w. rw_ID (f w) = rw_ID w"
  shows "R s (s\<lparr>receiver_wallets := sql_update P f (receiver_wallets s)\<rparr>)"
  using assms by (intro R_receiver_wallets wallet_ids_ok updated_wallets_ok)

end

lemma uuid_ok [simp]:
  "receivers_ok (s\<lparr>receivers := rs, conn_uuid_next := m\<rparr>) = receivers_ok (s\<lparr>receivers := rs\<rparr>)"
  "receiver_wallets_ok (s\<lparr>receiver_wallets := ws, conn_uuid_next := m\<rparr>) = receiver_wallets_ok (s\<lparr>receiver_wallets := ws\<rparr>)"
  "disbursements_ok (s\<lparr>disbursements := ds, conn_uuid_next := m\<rparr>) = disbursements_ok (s\<lparr>disbursements := ds\<rparr>)"
  "payments_ok (s\<lparr>payments := ps, conn_uuid_next := m\<rparr>) = payments_ok (s\<lparr>payments := ps\<rparr>)"
  by (simp_all add: receivers_ok_def receiver_wallets_ok_def disbursements_ok_def payments_ok_def payment_row_ok_def [abs_def] cong: option.case_cong)

lemma disbursements_ok_filter: "disbursements_ok s \<Longrightarrow> disbursements_ok (s\<lparr>disbursements := filter Q (disbursements s)\<rparr>)"
  by (auto simp: disbursements_ok_def list_all_iff distinct_map_filter)

lemma payments_ok_disbursements:
  "ds_ID ` set (disbursements s) \<subseteq> ds_ID ` set ds \<Longrightarrow> payments_ok s \<longrightarrow> payments_ok (s\<lparr>disbursements := ds\<rparr>)"
  by (fastforce simp: payments_ok_def payment_row_ok_def list_all_iff split: option.splits)

lemma updated_disbursement_ids:
  "(\<And>d. ds_ID (f d) = ds_ID d) \<Longrightarrow> ds_ID ` set ds \<subseteq> ds_ID ` set (sql_update Q f ds)"
  by (metis list.set_map map_sql_update_key order_refl)

sublocale tenant_relation \<subseteq> upload: upload_relation R
proof
  fix s :: "'z platform_scheme" and n m :: nat and receiver i x now P D Q f c u why
  show "receivers_ok (s\<lparr>receivers := receivers s @ [receiver], conn_uuid_next := m\<rparr>) \<Longrightarrow> R s (s\<lparr>receivers := receivers s @ [receiver], conn_uuid_next := m\<rparr>)"
    using R_trans [OF R_receivers [where s = s and rs = "receivers s @ [receiver]"] R_uuids [of _ m]] by auto
  show "receiver_wallets_ok (s\<lparr>receiver_wallets := receiver_wallets s @ [inserted_wallet i x now], conn_uuid_next := m\<rparr>) \<Longrightarrow>
      R s (s\<lparr>receiver_wallets := receiver_wallets s @ [inserted_wallet i x now], conn_uuid_next := m\<rparr>)"
    using R_trans [OF R_receiver_wallets [OF _ wallet_ids_ok, where s = s and rs = "receiver_wallets s @ [inserted_wallet i x now]"] R_uuids [of _ m]] by auto
  show "receiver_wallets_ok (s\<lparr>receiver_wallets := sql_update P (rw_touched (\<lambda>now w. w\<lparr>rw_InvitationSentAt := None\<rparr>) now) (receiver_wallets s)\<rparr>) \<Longrightarrow>
      R s (s\<lparr>receiver_wallets := sql_update P (rw_touched (\<lambda>now w. w\<lparr>rw_InvitationSentAt := None\<rparr>) now) (receiver_wallets s)\<rparr>)"
    by (rule R_updated_wallets) (simp_all add: rw_touched_def)
  show "disbursements_ok (s\<lparr>disbursements := sql_update Q (ds_touched (\<lambda>now d. d\<lparr>ds_FileName := f, ds_FileContent := c\<rparr>) now) (disbursements s)\<rparr>) \<Longrightarrow>
      R s (s\<lparr>disbursements := sql_update Q (ds_touched (\<lambda>now d. d\<lparr>ds_FileName := f, ds_FileContent := c\<rparr>) now) (disbursements s)\<rparr>)"
    by (rule R_disbursements) (auto intro!: payments_ok_disbursements [THEN mp] updated_disbursement_ids [THEN subsetD] simp: ds_touched_def)
  show "disbursements_ok (s\<lparr>disbursements := sql_update Q (ds_touched (set_disbursement_status ReadyDisbursementStatus u why) now) (disbursements s)\<rparr>) \<Longrightarrow>
      R s (s\<lparr>disbursements := sql_update Q (ds_touched (set_disbursement_status ReadyDisbursementStatus u why) now) (disbursements s)\<rparr>)"
    by (rule R_disbursements) (auto intro!: payments_ok_disbursements [THEN mp] updated_disbursement_ids [THEN subsetD] simp: ds_touched_def set_disbursement_status_def)
next
  fix s :: "'z platform_scheme" and m :: nat and d Q
  show "disbursements_ok (s\<lparr>disbursements := disbursements s @ [d], conn_uuid_next := m\<rparr>) \<Longrightarrow> R s (s\<lparr>disbursements := disbursements s @ [d], conn_uuid_next := m\<rparr>)"
    using R_trans [OF R_disbursements [OF _ payments_ok_disbursements, where s = s and ds = "disbursements s @ [d]"] R_uuids [of _ m]] by auto
  show "payments_ok (s\<lparr>disbursements := filter Q (disbursements s)\<rparr>) \<Longrightarrow> R s (s\<lparr>disbursements := filter Q (disbursements s)\<rparr>)"
    by (rule R_disbursements) (simp_all add: disbursements_ok_filter)
next
  fix s :: "'z platform_scheme" and m :: nat and p env why j
  show "payments_ok (s\<lparr>payments := payments s @ [p], conn_uuid_next := m\<rparr>) \<Longrightarrow> inserted_payment env DraftPaymentStatus why j s = Some p \<Longrightarrow>
      R s (s\<lparr>payments := payments s @ [p], conn_uuid_next := m\<rparr>)"
    using R_trans [OF R_new_payment [OF _ draft_new, where s = s and p = p] R_uuids [of _ m]] by simp
qed (use R_sdp_rollback R_calls R_drop_drafts in auto)

section \<open>The handlers\<close>

lemma set_receiver_id [simp]: "rr_id (set_receiver u now r) = rr_id r"
  by (simp add: set_receiver_def)

context tenant_relation
begin

lemma keeps_wallet_statement:
  assumes "\<And>now w. rw_ID (f now w) = rw_ID w"
  shows "keeps R (rw_update_where P f)"
  unfolding rw_update_where_def
  by (intro keeps_db_call) (auto simp: Let_def R_refl rw_touched_def assms intro!: R_updated_wallets)

lemma keeps_verification_statement:
  assumes "\<And>s :: 'z platform_scheme. \<exists>vs. f s = s\<lparr>receiver_verifications := vs\<rparr>"
  shows "keeps R (rv_write f)"
proof -
  have "R s (f s)" if "receiver_verifications_ok (f s)" for s
    using assms [of s] that by (auto intro: R_verifications)
  then show ?thesis unfolding rv_write_def by (intro keeps_db_call) (auto simp: R_refl)
qed

lemma keeps_wallet_reads [keeps_intros]:
  "keeps R (query_wallet P)" "keeps R (ReceiverWalletModel_HasPaymentsInProgress i)"
  unfolding query_wallet_def get_first_def ReceiverWalletModel_HasPaymentsInProgress_def
  by (intro keeps_intros)+

lemma keeps_wallet_updates [keeps_intros]:
  "keeps R (ReceiverWalletModel_Update env i u)" "keeps R (ReceiverWalletModel_UpdateInvitationSentAt is)"
  "keeps R (ReceiverWalletModel_UpdateOTPByReceiverContactInfoAndWalletDomain c d otp)" "keeps R (ReceiverWalletModel_UpdateStatusToReady i)"
  unfolding ReceiverWalletModel_Update_def check_memo_def ReceiverWalletModel_UpdateInvitationSentAt_def
    ReceiverWalletModel_UpdateOTPByReceiverContactInfoAndWalletDomain_def ReceiverWalletModel_UpdateStatusToReady_def update_to_ready_body_def
    ReceiverWalletModel_GetByID_def not_found_as_def
  by (intro keeps_intros keeps_wallet_statement; simp add: set_receiver_wallet_def set_otp_def set_unregistered_def)+

lemma keeps_verification_updates [keeps_intros]:
  "keeps R (ReceiverVerificationModel_Insert env vi)" "keeps R (ReceiverVerificationModel_UpdateVerificationValue env i fld v)"
  "keeps R (ReceiverVerificationModel_UpsertVerificationValue env u i fld v)" "keeps R (ReceiverVerificationModel_UpdateReceiverVerification vu)"
  unfolding ReceiverVerificationModel_Insert_def ReceiverVerificationModel_UpdateVerificationValue_def
    ReceiverVerificationModel_UpsertVerificationValue_def ReceiverVerificationModel_UpdateReceiverVerification_def HashVerificationValue_def
  by (intro keeps_intros keeps_verification_statement keeps_db_prog; auto simp: rv_update_def)+

lemma keeps_receiver_update [keeps_intros]: "keeps R (ReceiverModel_Update env i u)"
proof -
  have ids: "rr_id ` set rs \<subseteq> rr_id ` set (sql_update P (set_receiver u now) rs)" for rs P now
    by (metis list.set_map map_sql_update_key order_refl set_receiver_id)
  then show ?thesis
    unfolding ReceiverModel_Update_def duplicate_contact_def
    by (intro keeps_intros keeps_db_call) (auto simp: Let_def R_refl intro: R_receivers [OF _ ids])
qed

lemma keeps_supplied [keeps_intros]: "keeps R (registerSuppliedWallets env dis rs wis)"
  unfolding registerSuppliedWallets_def registerSuppliedWallet_def by (intro keeps_intros)

lemma keeps_verifications [keeps_intros]: "keeps R (processReceiverVerifications env rs dis d ct)"
  unfolding processReceiverVerifications_def processReceiverVerification_def by (intro keeps_intros)

lemma keeps_disbursement_handlers:
  "keeps R (PostDisbursement he u request)" "keeps R (PostDisbursementInstructions he file u i)" "keeps R (DeleteDisbursement i)"
  by (intro upload.keeps_upload keeps_supplied keeps_verifications upload.keeps_deletion)+

lemma keeps_status_handlers:
  assumes "\<And>st now p m. st \<in> {ReadyPaymentStatus, PausedPaymentStatus} \<Longrightarrow> PaymentStatus_TransitionTo (pm_Status p) st = Inr () \<Longrightarrow> pm_step p (pm_touched (set_payment_status st m) now p)"
  shows "keeps R (PatchDisbursementStatus env i u requested)" "keeps R (ApproveDisbursement_handler i u)"
    "keeps R (RejectDisbursement_handler i u why)" "keeps R (SubmitDisbursement_handler env i u)"
  unfolding PatchDisbursementStatus_def ApproveDisbursement_handler_def RejectDisbursement_handler_def SubmitDisbursement_handler_def
  by (intro keeps_intros keeps_management assms; assumption)+

lemma keeps_otp: "keeps R (ReceiverSendOTPHandler_ServeHTTP rg claims decoded)"
  unfolding ReceiverSendOTPHandler_ServeHTTP_def handleOTPForReceiver_def sendOTP_def recordRegistrationAttempt_def validate_captcha_def
    IsCAPTCHADisabled_def ReceiverVerificationModel_GetLatestByContactInfo_def get_first_def Let_def
  by (intro keeps_intros keeps_db_prog)

lemma keeps_catalog [keeps_intros]:
  "keeps R (WalletModel_Get i)" "keeps R (AssetModel_Get i)" "keeps R (AssetModel_GetByCodeAndIssuer c d)" "keeps R (WalletModel_GetAssets de i)"
  unfolding WalletModel_Get_def get_wallet_def AssetModel_Get_def AssetModel_GetByCodeAndIssuer_def get_asset_def get_first_def WalletModel_GetAssets_def
  by (intro keeps_intros)+

lemma keeps_payment_read [keeps_intros]: "keeps R (PaymentModel_Get i)"
  unfolding PaymentModel_Get_def by (intro keeps_intros)

lemma keeps_resolvers [keeps_intros]:
  "keeps R (AssetResolver_Resolve sdk ar)" "keeps R (ReceiverResolver_Resolve env rr)" "keeps R (WalletResolver_Resolve sdk wr)"
  unfolding AssetResolver_Resolve_def ReceiverResolver_Resolve_def WalletResolver_Resolve_def or_not_found_def ReceiverModel_Get_def
    ReceiverModel_GetByWalletAddress_def ReceiverWalletModel_GetByStellarAccountAndMemo_def not_found_as_def
  by (intro keeps_intros)+

lemma keeps_direct_checks [keeps_intros]:
  "keeps R (validateAssetWalletCompatibility de a w)" "keeps R (getReceiverWallet env r wid addr)" "keeps R (direct_validateBalance env de acc a amount)"
  unfolding validateAssetWalletCompatibility_def getReceiverWallet_def create_ready_wallet_def direct_validateBalance_def checkTrustlineExists_def
    calculatePendingAmountForAsset_def ReceiverVerificationModel_GetAllByReceiverID_def
  by (intro keeps_intros)+

lemma keeps_payment_handlers:
  "(\<And>i (s :: 'z platform_scheme) p m. inserted_payment env ReadyPaymentStatus m i s = Some p \<Longrightarrow> pm_new p) \<Longrightarrow>
     keeps R (PostDirectPayment env de decoded user)"
  "(\<And>now p email. pm_Status p = FailedPaymentStatus \<Longrightarrow> pm_step p (pm_touched (set_retried email) now p)) \<Longrightarrow> keeps R (RetryPayments env u ids circle)"
  "(\<And>i. keeps R (CancelPayment i)) \<Longrightarrow> keeps R (PatchPaymentStatus status j)"
proof -
  show "keeps R (PostDirectPayment env de decoded user)"
    if "\<And>i (s :: 'z platform_scheme) p m. inserted_payment env ReadyPaymentStatus m i s = Some p \<Longrightarrow> pm_new p"
    unfolding PostDirectPayment_def CreateDirectPayment_def direct_payment_body_def
    by (intro keeps_intros upload.keeps_sdp_transaction keeps_CreateDirect that)
  show "keeps R (RetryPayments env u ids circle)"
    if "\<And>now p email. pm_Status p = FailedPaymentStatus \<Longrightarrow> pm_step p (pm_touched (set_retried email) now p)"
    unfolding RetryPayments_def retry_body_def by (intro keeps_intros keeps_Retry that)
  show "keeps R (PatchPaymentStatus status j)" if "\<And>i. keeps R (CancelPayment i)"
    unfolding PatchPaymentStatus_def by (intro keeps_intros that)
qed

lemma keeps_CancelPayment:
  "(\<And>now p m. pm_step p (pm_touched (set_payment_status CanceledPaymentStatus m) now p)) \<Longrightarrow> keeps R (CancelPayment i)"
  unfolding CancelPayment_def cancel_body_def by (intro keeps_intros keeps_UpdateStatuses)

end

end
