(* ===== verification/Platform_Rel.thy ===== *)
theory Platform_Rel
  imports Sdp_Relation
begin

text \<open>
  What the programs of a tenant may change in the two databases, as a relation between platform states, and that
  every operation respects it: the submission service's rows change only by being marked synchronised,
  new rows are pending transactions that pay a payment that was ready its exact amount, payments
  keep their amount, and a payment becomes successful only with the hash of a successful transaction.
\<close>

section \<open>What a program of the tenant may change\<close>

text \<open>\<open>W\<close> are the payments, with the hash, whose transaction succeeded when the program began; \<open>A\<close> are the payments,
  with the amount in the submission service, that were ready then.\<close>

definition calm_tx :: "Transaction \<Rightarrow> Transaction \<Rightarrow> bool" where
  "calm_tx r r' \<longleftrightarrow> calm_step syncable r r' \<and> tx_status r' = tx_status r"

definition new_payment_tx :: "(string \<times> rat) set \<Rightarrow> Transaction \<Rightarrow> bool" where
  "new_payment_tx A r \<longleftrightarrow> tx_status r = TransactionStatusPending \<and> tx_stellar_transaction_hash r = None \<and>
     tx_type r = TransactionTypePayment \<and> (tx_external_id r, Amount (tx_payment r)) \<in> A"

definition kept_payment :: "payment_row \<Rightarrow> payment_row \<Rightarrow> bool" where
  "kept_payment p p' \<longleftrightarrow> pm_ID p' = pm_ID p \<and> pm_Amount p' = pm_Amount p \<and>
     (pm_Status p \<noteq> DraftPaymentStatus \<longrightarrow> pm_Status p' \<noteq> DraftPaymentStatus)"

definition paid_by :: "(string \<times> string) set \<Rightarrow> payment_row \<Rightarrow> payment_row \<Rightarrow> bool" where
  "paid_by W p p' \<longleftrightarrow> (pm_Status p' = SuccessPaymentStatus \<longrightarrow>
     (pm_ID p', pm_StellarTransactionID p') \<in> W \<or>
     pm_Status p = SuccessPaymentStatus \<and> pm_ID p' = pm_ID p \<and> pm_StellarTransactionID p' = pm_StellarTransactionID p)"

definition pm_evolves :: "(string \<times> string) set \<Rightarrow> payment_row \<Rightarrow> payment_row \<Rightarrow> bool" where
  "pm_evolves W p p' \<longleftrightarrow> kept_payment p p' \<and> paid_by W p p'"

definition payments_persist :: "payment_row list \<Rightarrow> payment_row list \<Rightarrow> bool" where
  "payments_persist ps ps' \<longleftrightarrow> (\<forall>p \<in> set ps. pm_Status p \<noteq> DraftPaymentStatus \<longrightarrow> (\<exists>p' \<in> set ps'. kept_payment p p'))"

definition payments_paid :: "(string \<times> string) set \<Rightarrow> payment_row list \<Rightarrow> payment_row list \<Rightarrow> bool" where
  "payments_paid W ps ps' \<longleftrightarrow> (\<forall>p' \<in> set ps'. pm_Status p' = SuccessPaymentStatus \<longrightarrow>
     (pm_ID p', pm_StellarTransactionID p') \<in> W \<or> (\<exists>p \<in> set ps. paid_by {} p p'))"

definition txs_evolve :: "(string \<times> rat) set \<Rightarrow> Transaction list \<Rightarrow> Transaction list \<Rightarrow> bool" where
  "txs_evolve A t t' \<longleftrightarrow> (\<exists>u rows. t' = u @ rows \<and> list_all2 calm_tx t u \<and> list_all (new_payment_tx A) rows)"

definition plat_rel ::
  "(string \<times> string) set \<Rightarrow> (string \<times> rat) set \<Rightarrow> 'z platform_scheme \<Rightarrow> 'z platform_scheme \<Rightarrow> bool" where
  "plat_rel W A s s' \<longleftrightarrow> tss_log s' = tss_log s \<and> (tss_db_ok s \<longrightarrow> tss_db_ok s') \<and> (payments_ok s \<longrightarrow> payments_ok s') \<and>
     txs_evolve A (submitter_transactions s) (submitter_transactions s') \<and>
     payments_persist (payments s) (payments s') \<and> payments_paid W (payments s) (payments s')"

lemma calm_tx_refl [simp]: "calm_tx r r"
  by (simp add: calm_tx_def calm_step_refl)

lemma calm_txs_refl [simp]: "list_all2 calm_tx t t"
  by (simp add: list_all2_refl)

lemma calm_new: "calm_tx r r' \<Longrightarrow> new_payment_tx A r \<Longrightarrow> r' = r"
  by (auto simp: calm_tx_def calm_step_def syncable_def new_payment_tx_def transaction_status_defs)

lemma calm_news: "list_all2 calm_tx t t' \<Longrightarrow> list_all (new_payment_tx A) t \<Longrightarrow> t' = t"
  by (induction rule: list_all2_induct) (auto dest: calm_new)

lemma txs_evolve_refl: "txs_evolve A t t"
  unfolding txs_evolve_def by (intro exI [of _ t] exI [of _ "[]"]) simp

lemma txs_evolve_rows: "list_all2 calm_tx t t' \<Longrightarrow> txs_evolve A t t'"
  unfolding txs_evolve_def by (intro exI [of _ t'] exI [of _ "[]"]) simp

lemma txs_evolve_new: "list_all (new_payment_tx A) rows \<Longrightarrow> txs_evolve A t (t @ rows)"
  unfolding txs_evolve_def by (intro exI [of _ t] exI [of _ rows]) simp

lemma txs_evolve_trans:
  assumes "txs_evolve A a b" and "txs_evolve A b c"
  shows "txs_evolve A a c"
proof -
  from assms(1) obtain u rows where b: "b = u @ rows" "list_all2 calm_tx a u" "list_all (new_payment_tx A) rows"
    by (auto simp: txs_evolve_def)
  from assms(2) obtain v rows' where c: "c = v @ rows'" "list_all2 calm_tx b v" "list_all (new_payment_tx A) rows'"
    by (auto simp: txs_evolve_def)
  from c(2) b(1) obtain v1 v2 where v: "v = v1 @ v2" "list_all2 calm_tx u v1" "list_all2 calm_tx rows v2"
    by (auto simp: list_all2_append1)
  have "v2 = rows" using v(3) b(3) by (rule calm_news)
  moreover have "list_all2 calm_tx a v1"
    by (rule list_all2_trans [OF _ b(2) v(2)]) (auto simp: calm_tx_def intro: calm_step_trans)
  ultimately show ?thesis
    unfolding txs_evolve_def using b(3) c(1,3) v(1) by (intro exI [of _ v1] exI [of _ "rows @ rows'"]) simp
qed

lemma kept_payment_refl [simp]: "kept_payment p p"
  by (simp add: kept_payment_def)

lemma kept_payment_trans: "kept_payment a b \<Longrightarrow> kept_payment b c \<Longrightarrow> kept_payment a c"
  by (simp add: kept_payment_def)

lemma payments_persist_refl: "payments_persist ps ps"
  unfolding payments_persist_def by (blast intro: kept_payment_refl)

lemma payments_persist_trans: "payments_persist a b \<Longrightarrow> payments_persist b c \<Longrightarrow> payments_persist a c"
  unfolding payments_persist_def by (metis kept_payment_trans kept_payment_def)

lemma paid_by_refl [simp]: "paid_by W p p"
  by (simp add: paid_by_def)

lemma payments_paid_refl: "payments_paid W ps ps"
  unfolding payments_paid_def by (blast intro: paid_by_refl)

lemma payments_paid_trans:
  assumes "payments_paid W a b" and "payments_paid W b c"
  shows "payments_paid W a c"
  unfolding payments_paid_def
proof (intro ballI impI)
  fix p'' assume p'': "p'' \<in> set c" "pm_Status p'' = SuccessPaymentStatus"
  show "(pm_ID p'', pm_StellarTransactionID p'') \<in> W \<or> (\<exists>p \<in> set a. paid_by {} p p'')"
  proof (cases "(pm_ID p'', pm_StellarTransactionID p'') \<in> W")
    case False
    with assms(2) p'' obtain p' where p': "p' \<in> set b" "paid_by {} p' p''"
      unfolding payments_paid_def by blast
    with p''(2) have eq: "pm_Status p' = SuccessPaymentStatus" "pm_ID p'' = pm_ID p'" "pm_StellarTransactionID p'' = pm_StellarTransactionID p'"
      by (simp_all add: paid_by_def)
    with assms(1) p'(1) False obtain p where "p \<in> set a" "paid_by {} p p'"
      unfolding payments_paid_def by metis
    with eq show ?thesis by (auto simp: paid_by_def)
  qed simp
qed

lemma plat_rel_refl: "plat_rel W A s s"
  by (simp add: plat_rel_def txs_evolve_refl payments_persist_refl payments_paid_refl)

lemma plat_rel_trans: "plat_rel W A s t \<Longrightarrow> plat_rel W A t u \<Longrightarrow> plat_rel W A s u"
  unfolding plat_rel_def by (metis txs_evolve_trans payments_persist_trans payments_paid_trans)

lemma evolving_payments:
  assumes "list_all2 (pm_evolves W) ps ps'"
  shows "payments_persist ps ps'" "payments_paid W ps ps'"
proof -
  show "payments_persist ps ps'"
    unfolding payments_persist_def using list_all2_le_exists [OF assms] by (auto simp: pm_evolves_def)
  show "payments_paid W ps ps'"
    unfolding payments_paid_def using list_all2_back [OF assms] by (fastforce simp: pm_evolves_def paid_by_def)
qed

lemma payments_ok_cong:
  assumes "payments s' = payments s" "disbursements s' = disbursements s" "assets s' = assets s" "receiver_wallets s' = receiver_wallets s"
  shows "payments_ok s' = payments_ok s"
proof -
  have "payment_row_ok s' p = payment_row_ok s p" for p
    using assms by (auto simp: payment_row_ok_def split: option.splits)
  then have "payment_row_ok s' = payment_row_ok s" by blast
  with assms(1) show ?thesis by (simp add: payments_ok_def)
qed

lemma payments_ok_other [simp]:
  "payments_ok (s\<lparr>conn_faults := fs\<rparr>) = payments_ok s" "payments_ok (s\<lparr>submitter_transactions := t\<rparr>) = payments_ok s"
  "payments_ok (s\<lparr>conn_uuid_next := n\<rparr>) = payments_ok s" "payments_ok (s\<lparr>tss_calls := n\<rparr>) = payments_ok s"
  "payments_ok (s\<lparr>channel_accounts := c\<rparr>) = payments_ok s" "payments_ok (tss_rollback s s') = payments_ok s'"
  "payments_ok (sdp_rollback s s') = payments_ok s"
  by (rule payments_ok_cong; simp add: tss_rollback_def sdp_rollback_def)+

lemma tss_db_ok_sdp [simp]:
  "tss_db_ok (s\<lparr>payments := ps\<rparr>) = tss_db_ok s" "tss_db_ok (s\<lparr>disbursements := ds\<rparr>) = tss_db_ok s"
  "tss_db_ok (s\<lparr>receiver_wallets := rs\<rparr>) = tss_db_ok s" "tss_db_ok (sdp_rollback s s') = tss_db_ok s'"
  "tss_db_ok (s\<lparr>conn_uuid_next := n\<rparr>) = tss_db_ok s"
  by (simp_all add: tss_db_ok_def sdp_rollback_def)

lemma payments_ok_filter: "payments_ok s \<Longrightarrow> payments_ok (s\<lparr>payments := filter P (payments s)\<rparr>)"
  by (auto simp: payments_ok_def payment_row_ok_def list_all_iff distinct_map_filter)

interpretation plat: sdp_relation "plat_rel W A" calm_tx "pm_evolves W" "\<lambda>p. pm_Status p \<noteq> SuccessPaymentStatus" "new_payment_tx A" for W A
proof
  fix s t u :: "'a platform_scheme"
  show "plat_rel W A s s" by (rule plat_rel_refl)
  show "plat_rel W A s t \<Longrightarrow> plat_rel W A t u \<Longrightarrow> plat_rel W A s u" by (rule plat_rel_trans)
next
  fix s s' :: "'a platform_scheme" and fs
  show "plat_rel W A s (s\<lparr>conn_faults := fs\<rparr>)" using plat_rel_refl [of W A s] by (simp add: plat_rel_def)
  show "plat_rel W A s s' \<Longrightarrow> plat_rel W A s (tss_rollback s s')"
    by (auto simp: plat_rel_def txs_evolve_refl) (auto simp: tss_rollback_def txs_evolve_refl)
next
  fix s :: "'a platform_scheme" and t' :: "Transaction list"
  show "tx_table_ok t' \<Longrightarrow> list_all2 calm_tx (submitter_transactions s) t' \<Longrightarrow> plat_rel W A s (s\<lparr>submitter_transactions := t'\<rparr>)"
    by (simp add: plat_rel_def tss_db_ok_def txs_evolve_rows payments_persist_refl payments_paid_refl)
next
  fix r show "calm_tx r r" by simp
next
  fix s s' :: "'a platform_scheme"
  show "plat_rel W A s s' \<Longrightarrow> plat_rel W A s (sdp_rollback s s')"
    by (auto simp: plat_rel_def) (auto simp: sdp_rollback_def payments_persist_refl payments_paid_refl)
next
  fix s :: "'a platform_scheme" and n m :: nat
  show "plat_rel W A s (s\<lparr>tss_calls := n\<rparr>)" "plat_rel W A s (s\<lparr>conn_uuid_next := m\<rparr>)"
    using plat_rel_refl [of W A s] by (simp_all add: plat_rel_def)
next
  fix s :: "'a platform_scheme" and rows
  show "tx_table_ok (submitter_transactions s @ rows) \<Longrightarrow> list_all (new_payment_tx A) rows \<Longrightarrow>
      plat_rel W A s (s\<lparr>submitter_transactions := submitter_transactions s @ rows\<rparr>)"
    by (simp add: plat_rel_def tss_db_ok_def txs_evolve_new payments_persist_refl payments_paid_refl)
next
  fix s :: "'a platform_scheme" and ps
  show "payments_ok (s\<lparr>payments := ps\<rparr>) \<Longrightarrow> list_all2 (pm_evolves W) (payments s) ps \<Longrightarrow> plat_rel W A s (s\<lparr>payments := ps\<rparr>)"
    by (simp add: plat_rel_def txs_evolve_refl evolving_payments)
next
  fix s :: "'a platform_scheme" and p
  show "payments_ok (s\<lparr>payments := payments s @ [p]\<rparr>) \<Longrightarrow> pm_Status p \<noteq> SuccessPaymentStatus \<Longrightarrow>
      plat_rel W A s (s\<lparr>payments := payments s @ [p]\<rparr>)"
    by (auto simp: plat_rel_def txs_evolve_refl payments_persist_def payments_paid_def intro: kept_payment_refl paid_by_refl)
next
  fix s :: "'a platform_scheme" and P
  show "plat_rel W A s (s\<lparr>payments := filter (\<lambda>p. \<not> (P p \<and> pm_Status p = DraftPaymentStatus)) (payments s)\<rparr>)"
    by (auto simp: plat_rel_def txs_evolve_refl payments_persist_def payments_paid_def payments_ok_filter intro: kept_payment_refl paid_by_refl)
next
  fix s :: "'a platform_scheme" and ds rs
  show "payments_ok s \<longrightarrow> payments_ok (s\<lparr>disbursements := ds\<rparr>) \<Longrightarrow> plat_rel W A s (s\<lparr>disbursements := ds\<rparr>)"
    "payments_ok s \<longrightarrow> payments_ok (s\<lparr>receiver_wallets := rs\<rparr>) \<Longrightarrow> plat_rel W A s (s\<lparr>receiver_wallets := rs\<rparr>)"
    using plat_rel_refl [of W A s] by (auto simp: plat_rel_def)
next
  fix p show "pm_evolves W p p" by (simp add: pm_evolves_def)
qed


section \<open>The operations\<close>

lemmas payment_update_defs = pm_touched_def set_payment_status_def set_payment_update_def set_retried_def

lemma evolves_status [simp]:
  "st \<noteq> DraftPaymentStatus \<Longrightarrow> st \<noteq> SuccessPaymentStatus \<Longrightarrow> pm_evolves W p (pm_touched (set_payment_status st m) now p)"
  by (simp add: pm_evolves_def kept_payment_def paid_by_def payment_update_defs)

lemma plat_management:
  "keeps (plat_rel W A) (StartDisbursement env i u a)" "keeps (plat_rel W A) (SubmitDisbursement env i u a)"
  "keeps (plat_rel W A) (PauseDisbursement i u)" "keeps (plat_rel W A) (ApproveDisbursement i u)"
  "keeps (plat_rel W A) (RejectDisbursement i u r)"
  by (intro plat.keeps_management; auto simp: payment_status_defs intro!: evolves_status)+

lemma plat_payments:
  "keeps (plat_rel W A) (PaymentModel_InsertAll env inserts)" "keeps (plat_rel W A) (PaymentModel_CreateDirectPayment env i u)"
  "keeps (plat_rel W A) (PaymentModel_DeleteAllDraftForDisbursement d)" "keeps (plat_rel W A) CancelReadyPayments"
  "keeps (plat_rel W A) (PaymentModel_RetryFailedPayments email ids)"
proof -
  show "keeps (plat_rel W A) (PaymentModel_InsertAll env inserts)" "keeps (plat_rel W A) (PaymentModel_CreateDirectPayment env i u)"
    by (intro plat.keeps_InsertAll plat.keeps_CreateDirect; auto simp: inserted_payment_def payment_status_defs)+
  show "keeps (plat_rel W A) (PaymentModel_DeleteAllDraftForDisbursement d)" by (rule plat.keeps_DeleteDrafts)
  show "keeps (plat_rel W A) CancelReadyPayments"
    by (rule plat.keeps_Cancel) (simp add: payment_status_defs)
  show "keeps (plat_rel W A) (PaymentModel_RetryFailedPayments email ids)"
    by (rule plat.keeps_Retry) (simp add: pm_evolves_def kept_payment_def paid_by_def payment_update_defs payment_status_defs)
qed

section \<open>Sending\<close>

text \<open>The amount a payment has in the submission service.\<close>

definition amount_of :: "sdp_env \<Rightarrow> payment_row \<Rightarrow> rat option" where
  "amount_of env p = (case decimal_NewFromString env (pm_Amount p) of Inl _ \<Rightarrow> None | Inr a \<Rightarrow> numeric_19_7 a)"

definition ready_amounts :: "sdp_env \<Rightarrow> payment_row list \<Rightarrow> (string \<times> rat) set" where
  "ready_amounts env ps = {(pm_ID p, a) | p a. p \<in> set ps \<and> pm_Status p = ReadyPaymentStatus \<and> amount_of env p = Some a}"

lemma in_map_filter: "y \<in> set (List.map_filter f xs) \<longleftrightarrow> (\<exists>x \<in> set xs. f x = Some y)"
  by (induction xs) (auto simp: List.map_filter_simps split: option.splits)

lemma joined_payment_row: "joined_payment s p = Some q \<Longrightarrow> dp_row q = p"
  by (auto simp: joined_payment_def split: option.split_asm if_split_asm)

lemma base_payments_row: "p \<in> set (base_payments s) \<Longrightarrow> dp_row p \<in> set (payments s)"
  by (auto simp: base_payments_def in_map_filter dest: joined_payment_row)

lemma db_read_ok:
  assumes "db_call (getsE f) s = (Inr x, s')"
  obtains fs where "s' = s\<lparr>conn_faults := fs\<rparr>" and "x = f s'"
  using assms by (elim db_call_cases) (auto simp: getsE_def intro: that)

lemma removeEmpty_row: "p \<in> set (removeEmptyDisbursementForDirect ps) \<Longrightarrow> \<exists>q \<in> set ps. dp_row p = dp_row q"
  by (auto simp: removeEmptyDisbursementForDirect_def)

lemma forE_ok:
  "forE xs f s = (Inr ys, s') \<Longrightarrow> y \<in> set ys \<Longrightarrow> \<exists>x \<in> set xs. \<exists>t t'. f x t = (Inr y, t')"
  by (induction xs arbitrary: s s' ys) (auto simp: prog_ok, blast+)

lemma build_transaction_ok:
  assumes "build_transaction env tenant p s = (Inr tx, s')"
  obtains amount memo where "decimal_NewFromString env (pm_Amount (dp_row p)) = Inr amount"
    and "amount = decimal_Truncate env stellarMaxDecimalPlaces amount" and "tx = payment_transaction tenant p amount memo"
  using assms unfolding build_transaction_def
  by (auto simp: prog_ok liftE_def split: sum.splits if_splits intro: that)

lemma GetBatch_ready:
  fixes s s' :: "'z platform_scheme"
  assumes "PaymentModel_GetBatchForUpdate n s = (Inr ps, s')" and "p \<in> set ps"
  shows "dp_row p \<in> set (payments s) \<and> pm_Status (dp_row p) = ReadyPaymentStatus"
proof -
  have rows: "dp_row p \<in> set (payments s) \<and> pm_Status (dp_row p) = ReadyPaymentStatus"
    if "p \<in> set (disbursement_payments_query s) \<union> set (direct_payments_query s)" for s :: "'z platform_scheme" and p
    using that by (auto simp: disbursement_payments_query_def direct_payments_query_def sort_direct_def ready_to_pay_def base_payments_row)
  have q: "payments s2 = payments s1 \<and> (\<forall>p \<in> set qs. dp_row p \<in> set (payments s1) \<and> pm_Status (dp_row p) = ReadyPaymentStatus)"
    if "db_call (getsE q) s1 = (Inr qs, s2)" "q = disbursement_payments_query \<or> q = direct_payments_query"
    for q :: "'z platform_scheme \<Rightarrow> data_Payment list" and s1 s2 qs
  proof (rule db_read_ok [OF that(1)])
    fix fs assume "s2 = s1\<lparr>conn_faults := fs\<rparr>" "qs = q s2"
    with that(2) rows [of _ s2] show ?thesis by auto
  qed
  from assms(1) obtain d1 d2 s1 where "db_call (getsE disbursement_payments_query) s = (Inr d1, s1)"
    "db_call (getsE direct_payments_query) s1 = (Inr d2, s')"
    and ps: "ps = removeEmptyDisbursementForDirect (if int (length (d1 @ d2)) > n then take (nat n) (d1 @ d2) else d1 @ d2)"
    by (cases "n \<le> 0") (simp_all add: PaymentModel_GetBatchForUpdate_def prog_ok Let_def split del: if_split, blast)
  with q [OF this(1)] q [OF this(2)] have "\<forall>p \<in> set (d1 @ d2). dp_row p \<in> set (payments s) \<and> pm_Status (dp_row p) = ReadyPaymentStatus"
    by auto
  with removeEmpty_row [OF assms(2) [unfolded ps]] show ?thesis
    by (auto split: if_splits dest: in_set_takeD)
qed

lemma built_new:
  fixes s s' :: "'z platform_scheme"
  assumes "forE ps (build_transaction env tenant) s = (Inr txs, s')" and "tx \<in> set txs"
    and "numeric_19_7 (Amount (tx_payment tx)) = Some a"
    and "\<And>p. p \<in> set ps \<Longrightarrow> dp_row p \<in> set rows \<and> pm_Status (dp_row p) = ReadyPaymentStatus"
  shows "new_payment_tx (ready_amounts env rows) (inserted_row i now a tx)"
proof -
  from forE_ok [OF assms(1,2)] obtain p and t t' :: "'z platform_scheme" where p: "p \<in> set ps"
    and "build_transaction env tenant p t = (Inr tx, t')" by blast
  from build_transaction_ok [OF this(2)] obtain amount memo
    where "decimal_NewFromString env (pm_Amount (dp_row p)) = Inr amount"
    and tx: "tx = payment_transaction tenant p amount memo" by metis
  with assms(3) have "amount_of env (dp_row p) = Some a"
    by (simp add: amount_of_def payment_transaction_def)
  with assms(4) [OF p] show ?thesis
    by (auto simp: new_payment_tx_def inserted_row_def tx payment_transaction_def ready_amounts_def)
qed

lemma keeps_dispatch:
  assumes "\<And>p. p \<in> set ps \<Longrightarrow> dp_row p \<in> set rows \<and> pm_Status (dp_row p) = ReadyPaymentStatus"
  shows "keeps (plat_rel W (ready_amounts env rows)) (StellarPaymentDispatcher_DispatchPayments env tenant ps)"
proof (rule plat.keeps_send)
  show "new_payment_tx (ready_amounts env rows) (inserted_row i now a tx)"
    if "forE ps (build_transaction env tenant) s = (Inr txs, s')" "tx \<in> set txs" "numeric_19_7 (Amount (tx_payment tx)) = Some a"
    for s s' :: "'z platform_scheme" and txs tx i now a
    using that assms by (rule built_new)
qed (auto simp: payment_status_defs intro!: evolves_status)

lemma send_body_plat:
  fixes s s' :: "'z platform_scheme"
  assumes run: "send_body env tenant (PaymentModel_GetBatchForUpdate n) s = (r, s')"
  shows "plat_rel W (ready_amounts env (payments s)) s s'"
proof -
  let ?A = "ready_amounts env (payments s)"
  have get: "keeps (plat_rel W ?A) (wrapE ''getting payments ready to be sent'' (PaymentModel_GetBatchForUpdate n) :: ('z platform_scheme, _, _) prog)"
    by (intro plat.keeps_wrapE plat.keeps_queries)
  show ?thesis
    using run unfolding send_body_def
  proof (cases rule: bindE_cases)
    case (err e)
    then show ?thesis by (blast intro: keepsD [OF get])
  next
    case (ok ps s1)
    have step: "plat_rel W ?A s s1" using get ok(1) by (rule keepsD)
    have ready: "dp_row p \<in> set (payments s) \<and> pm_Status (dp_row p) = ReadyPaymentStatus" if "p \<in> set ps" for p
      using GetBatch_ready [of n s ps s1 p] ok(1) that by (simp add: prog_ok)
    have "keeps (plat_rel W ?A) (markPaymentsAsFailed qs :: ('z platform_scheme, _, _) prog)" for qs
      unfolding markPaymentsAsFailed_def
      by (intro plat.keeps_bindE plat.keeps_wrapE keeps_if plat.keeps_ret plat.keeps_UpdateStatuses) (simp add: payment_status_defs)
    then have "keeps (plat_rel W ?A) (let failedPayments = filter (\<lambda>p. isl (validatePaymentReadyForSending env p)) ps;
           pendingPayments = filter (\<lambda>p. \<not> isl (validatePaymentReadyForSending env p)) ps in
       bindE (wrapE ''marking payments as failed'' (markPaymentsAsFailed failedPayments)) (\<lambda>_.
       wrapE ''sending payments to target platform'' (StellarPaymentDispatcher_DispatchPayments env tenant pendingPayments)) :: ('z platform_scheme, _, _) prog)"
      unfolding Let_def by (intro plat.keeps_bindE plat.keeps_wrapE keeps_dispatch) (auto simp: ready)
    from plat_rel_trans [OF step keepsD [OF this ok(2)]] show ?thesis .
  qed
qed

lemma SendBatch_plat:
  fixes s s' :: "'z platform_scheme"
  assumes "SendBatchPayments env n s = (r, s')"
  shows "plat_rel W (ready_amounts env (payments s)) s s'"
proof (cases "GetTenantFromContext env")
  case (Inl e)
  with assms show ?thesis by (simp add: SendBatchPayments_def throw_def plat_rel_refl)
next
  case (Inr tu)
  with assms obtain tenant x where "RunInTransaction sdp_rollback (send_body env tenant (PaymentModel_GetBatchForUpdate n)) s = (x, s')"
    by (cases tu) (auto simp: SendBatchPayments_def sendPaymentsReadyToPay_def elim!: wrapE_cases)
  then show ?thesis
  proof (rule plat.sdp_transaction_run)
    fix fs x and s2 :: "'z platform_scheme"
    assume "send_body env tenant (PaymentModel_GetBatchForUpdate n) (s\<lparr>conn_faults := fs\<rparr>) = (x, s2)"
    from send_body_plat [OF this, of W]
    have "plat_rel W (ready_amounts env (payments s)) (s\<lparr>conn_faults := fs\<rparr>) s2" by simp
    then show "plat_rel W (ready_amounts env (payments s)) s s2"
      using plat_rel_trans [OF plat.R_faults] by blast
  qed
qed

section \<open>Synchronising\<close>

definition paid_hashes :: "string \<Rightarrow> Transaction list \<Rightarrow> (string \<times> string) set" where
  "paid_hashes tenant t = {(tx_external_id r, nullable (tx_stellar_transaction_hash r)) | r.
     r \<in> set t \<and> tx_type r = TransactionTypePayment \<and> tx_tenant_id r = tenant \<and> tx_status r = TransactionStatusSuccess}"

lemma GetBatch_syncable:
  assumes "TransactionModel_GetTransactionBatchForUpdate n tenant ty s = (Inr txs, s')" and "r \<in> set txs"
  shows "r \<in> set (submitter_transactions s) \<and> tx_type r = ty \<and> tx_tenant_id r = tenant \<and> syncable r \<and> tx_synced_at r = None"
  using assms
  by (auto simp: TransactionModel_GetTransactionBatchForUpdate_def throw_def bindE_def ret_def order_nulls_last_def
      tx_syncable_def syncable_def split: if_splits prod.splits sum.splits elim!: wrapE_cases tx_select_for_update_cases
      dest!: subsetD [OF sql_limit_subset])

lemma synced_payment_evolves:
  assumes "tx \<in> set t" and "tx_type tx = TransactionTypePayment" and "tx_tenant_id tx = tenant" and "payment_target tx = Some st" and "pm_ID p = tx_external_id tx"
  shows "pm_evolves (paid_hashes tenant t) p (pm_touched (set_payment_update (payment_update tx st)) now p)"
  using assms
  by (auto simp: pm_evolves_def kept_payment_def paid_by_def payment_update_defs payment_update_def payment_target_def
      payment_status_defs paid_hashes_def split: if_splits)

lemma sync_body_plat:
  fixes s s' :: "'z platform_scheme"
  assumes run: "sync_body n tenant s = (r, s')"
  shows "plat_rel (paid_hashes tenant (submitter_transactions s)) A s s'"
proof -
  let ?W = "paid_hashes tenant (submitter_transactions s)"
  have get: "keeps (plat_rel ?W A) (wrapE ''getting payment transactions for update'' (TransactionModel_GetTransactionBatchForUpdate n tenant TransactionTypePayment) :: ('z platform_scheme, _, _) prog)"
    unfolding TransactionModel_GetTransactionBatchForUpdate_def by (intro keeps_intros)
  show ?thesis
    using run unfolding sync_body_def
  proof (cases rule: bindE_cases)
    case (err e)
    then show ?thesis by (blast intro: keepsD [OF get])
  next
    case (ok txs s1)
    have step: "plat_rel ?W A s s1" using get ok(1) by (rule keepsD)
    have "tx \<in> set (submitter_transactions s) \<and> tx_type tx = TransactionTypePayment \<and> tx_tenant_id tx = tenant" if "tx \<in> set txs" for tx
      using GetBatch_syncable [of n tenant TransactionTypePayment s txs s1 tx] ok(1) that by (simp add: prog_ok)
    then have "keeps (plat_rel (paid_hashes tenant (submitter_transactions s)) A) (syncTransactions txs :: ('z platform_scheme, _, _) prog)"
      by (intro plat.keeps_syncTransactions synced_payment_evolves)
        (auto simp: calm_tx_def calm_step_def row_le_def syncable_def set_defs)
    from plat_rel_trans [OF step keepsD [OF this ok(2)]] show ?thesis .
  qed
qed

lemma SyncBatch_plat:
  fixes s s' :: "'z platform_scheme"
  assumes "SyncBatchTransactions n tenant s = (r, s')"
  shows "plat_rel (paid_hashes tenant (submitter_transactions s)) A s s'"
proof -
  let ?R = "plat_rel (paid_hashes tenant (submitter_transactions s)) A"
  from assms obtain x where "RunInTransaction sdp_rollback (RunInTransaction tss_rollback (sync_body n tenant)) s = (x, s')"
    by (auto simp: SyncBatchTransactions_def elim!: wrapE_cases)
  then show ?thesis
  proof (rule plat.sdp_transaction_run)
    fix fs x and s2 :: "'z platform_scheme"
    assume "RunInTransaction tss_rollback (sync_body n tenant) (s\<lparr>conn_faults := fs\<rparr>) = (x, s2)"
    then have "?R (s\<lparr>conn_faults := fs\<rparr>) s2"
      unfolding RunInTransaction_def
    proof (rule plat.transaction_run)
      fix gs y and s3 :: "'z platform_scheme"
      assume "sync_body n tenant (s\<lparr>conn_faults := fs, conn_faults := gs\<rparr>) = (y, s3)"
      from sync_body_plat [OF this, of A] have "?R (s\<lparr>conn_faults := gs\<rparr>) s3" by simp
      moreover have "?R (s\<lparr>conn_faults := fs\<rparr>) (s\<lparr>conn_faults := gs\<rparr>)"
        using plat.R_faults [of "paid_hashes tenant (submitter_transactions s)" A "s\<lparr>conn_faults := fs\<rparr>" gs] by simp
      ultimately show "?R (s\<lparr>conn_faults := fs\<rparr>) s3" by (blast intro: plat_rel_trans)
    qed
    then show "?R s s2" using plat_rel_trans [OF plat.R_faults] by blast
  qed
qed

end
