(* ===== verification/Platform_Inv.thy ===== *)
theory Platform_Inv
  imports Platform_Rel
begin

text \<open>
  The invariant that ties the tenant's payments to the submission service's rows, and that every operation of
  the tenant keeps it; a tick of the submission service does not touch the tenant's tables.
\<close>

section \<open>A tick does not touch the tenant's tables\<close>

definition same_more :: "'z tss_state_scheme \<Rightarrow> 'z tss_state_scheme \<Rightarrow> bool" where
  "same_more s s' \<longleftrightarrow> tss_state.more s' = tss_state.more s"

interpretation same_more: store_relation same_more "\<lambda>_ _. True"
  by unfold_locales (simp_all add: same_more_def tss_rollback_def)

lemma keeps_run_bundle_more: "keeps same_more (run_bundle eng job)"
proof -
  have log: "keeps same_more (LogAndReportErrors e m)" for e m
    by (simp add: keeps_def LogAndReportErrors_def log_event_def modifyE_def same_more_def)
  have "keeps same_more (Run eng h job)" for h
  proof (rule keepsI)
    fix s s' :: "'z tss_state_scheme" and r assume run: "Run eng h job s = (r, s')"
    obtain y s1 where run1: "runJob eng h (s\<lparr>w_job := job\<rparr>) = (y, s1)" by fastforce
    have "keeps (job_rel (tx_id (cb_transaction job)) (\<lambda>_ _. True) (\<lambda>_. True)) (runJob eng h)"
      by (rule anything.keeps_runJob) (simp_all add: row_allows_def)
    from keepsD [OF this run1] have "same_more s s1" by (simp add: job_rel_def same_more_def)
    with run run1 show "same_more s s'"
      by (cases y) (auto simp: Run_def bindE_def modifyE_def handleE_def LogAndReportErrors_def log_event_def ret_def same_more_def)
  qed
  with log show ?thesis unfolding run_bundle_def by (intro keeps_case_sum)
qed

lemma tick_more:
  assumes "process_tick eng s = (r, s')"
  shows "tss_state.more s' = tss_state.more s"
proof -
  have "keeps same_more (GetLedgerNumber sdk Root)" for sdk Root
    by (rule keepsI, erule GetLedgerNumber_cases) (simp_all add: same_more_def)
  moreover have "keeps same_more LimitValue"
    by (simp add: keeps_def LimitValue_def same_more_def split: prod.splits)
  moreover have "keeps same_more (LogAndReportErrors e m)" for e m
    by (simp add: keeps_def LogAndReportErrors_def log_event_def modifyE_def same_more_def)
  ultimately have "keeps same_more (process_tick eng)"
    unfolding process_tick_def loadReadyForProcessingBundles_def
    by (intro same_more.keeps_handleE same_more.keeps_bindE same_more.keeps_wrapE same_more.keeps_LoadAndLockTuples
        keeps_if same_more.keeps_ret same_more.keeps_forE keeps_run_bundle_more)
  from keepsD [OF this assms] show ?thesis by (simp add: same_more_def)
qed

section \<open>The invariant\<close>

text \<open>A payment transaction of the tenant belongs to a payment that left the draft status, and pays its exact amount.\<close>

definition linked_tx :: "sdp_env \<Rightarrow> string \<Rightarrow> payment_row list \<Rightarrow> Transaction \<Rightarrow> bool" where
  "linked_tx env tenant ps r \<longleftrightarrow> (tx_type r = TransactionTypePayment \<and> tx_tenant_id r = tenant \<longrightarrow>
     list_ex (\<lambda>p. pm_ID p = tx_external_id r \<and> pm_Status p \<noteq> DraftPaymentStatus \<and> amount_of env p = Some (Amount (tx_payment r))) ps)"

text \<open>A successful payment has a successful transaction with its hash.\<close>

definition pays :: "string \<Rightarrow> payment_row \<Rightarrow> Transaction \<Rightarrow> bool" where
  "pays tenant p r \<longleftrightarrow> tx_type r = TransactionTypePayment \<and> tx_tenant_id r = tenant \<and> tx_external_id r = pm_ID p \<and>
     tx_status r = TransactionStatusSuccess \<and> tx_stellar_transaction_hash r = Some (pm_StellarTransactionID p)"

definition settled_payment :: "string \<Rightarrow> Transaction list \<Rightarrow> payment_row \<Rightarrow> bool" where
  "settled_payment tenant t p \<longleftrightarrow> (pm_Status p = SuccessPaymentStatus \<longrightarrow> list_ex (pays tenant p) t)"

definition platform_ok :: "submitter_engine \<Rightarrow> sdp_env \<Rightarrow> string \<Rightarrow> 'z platform_scheme \<Rightarrow> bool" where
  "platform_ok eng env tenant s \<longleftrightarrow> service_ok (eng_sdk eng) s \<and> payments_ok s \<and>
     list_all (linked_tx env tenant (payments s)) (submitter_transactions s) \<and>
     list_all (settled_payment tenant (submitter_transactions s)) (payments s)"

lemma linked_persist:
  assumes "linked_tx env tenant ps r" and "payments_persist ps ps'" and "row_le r r'"
  shows "linked_tx env tenant ps' r'"
  using assms
  by (fastforce simp: linked_tx_def payments_persist_def list_ex_iff kept_payment_def amount_of_def row_le_def)

lemma pays_calm: "pays tenant p r \<Longrightarrow> calm_tx r r' \<Longrightarrow> pays tenant p r'"
  by (simp add: pays_def calm_tx_def calm_step_def row_le_def)

lemma new_linked:
  assumes "new_payment_tx (ready_amounts env ps) r" and "payments_persist ps ps'"
  shows "linked_tx env tenant ps' r"
proof -
  from assms(1) obtain p where "p \<in> set ps" "pm_Status p = ReadyPaymentStatus" "pm_ID p = tx_external_id r"
    "amount_of env p = Some (Amount (tx_payment r))"
    by (auto simp: new_payment_tx_def ready_amounts_def)
  with assms(2) show ?thesis
    by (fastforce simp: linked_tx_def payments_persist_def list_ex_iff kept_payment_def amount_of_def payment_status_defs)
qed

lemma txs_evolve_linked:
  assumes "txs_evolve (ready_amounts env ps) t t'" and "payments_persist ps ps'" and "list_all (linked_tx env tenant ps) t"
  shows "list_all (linked_tx env tenant ps') t'"
proof -
  from assms(1) obtain u rows where t': "t' = u @ rows" "list_all2 calm_tx t u" "list_all (new_payment_tx (ready_amounts env ps)) rows"
    by (auto simp: txs_evolve_def)
  have "linked_tx env tenant ps' r'" if "r' \<in> set u" for r'
  proof -
    from list_all2_back [OF t'(2) that] obtain r where "r \<in> set t" "row_le r r'"
      by (auto simp: calm_tx_def calm_step_def)
    with assms(3) linked_persist [OF _ assms(2)] show ?thesis by (auto simp: list_all_iff)
  qed
  with t' new_linked [OF _ assms(2)] show ?thesis by (auto simp: list_all_iff)
qed

lemma txs_evolve_pays:
  assumes "txs_evolve A t t'" and "r \<in> set t" and "pays tenant p r"
  shows "list_ex (pays tenant p) t'"
proof -
  from assms(1) obtain u rows where "t' = u @ rows" "list_all2 calm_tx t u" by (auto simp: txs_evolve_def)
  with list_all2_le_exists [OF this(2) assms(2)] pays_calm [OF assms(3)] show ?thesis by (auto simp: list_ex_iff)
qed

text \<open>A program that respects the relation keeps the invariant.\<close>

lemma service_ok_evolve:
  assumes "txs_evolve A (submitter_transactions s) (submitter_transactions s')" and "tss_log s' = tss_log s"
    and "tss_db_ok s'" and "service_ok sdk s"
  shows "service_ok sdk s'"
proof -
  from assms(1) obtain u rows where t': "submitter_transactions s' = u @ rows" "list_all2 calm_tx (submitter_transactions s) u"
    and rows: "list_all (new_payment_tx A) rows" by (auto simp: txs_evolve_def)
  have "list_all2 (calm_step syncable) (submitter_transactions s) u"
    using t'(2) by (rule list_all2_mono) (simp add: calm_tx_def)
  from service_inv_calm [OF this, of "[]"] assms(4) have "service_inv sdk u (tss_log s)" by (simp add: service_ok_def)
  moreover have "distinct (map tx_id (u @ rows))"
    using assms(3) t'(1) by (intro tx_table_ok_ids) (simp add: tss_db_ok_def)
  moreover have "list_all (\<lambda>r. tx_status r = TransactionStatusPending \<and> tx_stellar_transaction_hash r = None) rows"
    using rows by (auto simp: list_all_iff new_payment_tx_def)
  ultimately have "service_inv sdk (u @ rows) (tss_log s)" by (rule service_inv_append)
  with assms(2,3) t'(1) show ?thesis by (simp add: service_ok_def)
qed

lemma paid_hashes_pays:
  assumes "service_ok sdk s" and "(pm_ID p, pm_StellarTransactionID p) \<in> paid_hashes tenant (submitter_transactions s)"
  shows "\<exists>r \<in> set (submitter_transactions s). pays tenant p r"
proof -
  from assms(2) obtain r where r: "r \<in> set (submitter_transactions s)" "tx_type r = TransactionTypePayment" "tx_tenant_id r = tenant"
    "tx_status r = TransactionStatusSuccess" "tx_external_id r = pm_ID p" "nullable (tx_stellar_transaction_hash r) = pm_StellarTransactionID p"
    by (auto simp: paid_hashes_def)
  with assms(1) have "tx_stellar_transaction_hash r \<noteq> None"
    by (auto simp: service_ok_def service_inv_def list_all_iff row_settled_def)
  with r show ?thesis by (auto simp: pays_def nullable_def)
qed

lemma plat_rel_ok:
  assumes rel: "plat_rel W (ready_amounts env (payments s)) s s'" and ok: "platform_ok eng env tenant s"
    and W: "W \<subseteq> paid_hashes tenant (submitter_transactions s)"
  shows "platform_ok eng env tenant s'"
proof -
  have tx: "txs_evolve (ready_amounts env (payments s)) (submitter_transactions s) (submitter_transactions s')"
    and persist: "payments_persist (payments s) (payments s')" and paid: "payments_paid W (payments s) (payments s')"
    and sok: "service_ok (eng_sdk eng) s"
    using rel ok by (simp_all add: plat_rel_def platform_ok_def)
  have "service_ok (eng_sdk eng) s'"
    using rel sok by (intro service_ok_evolve [OF tx]) (simp_all add: plat_rel_def service_ok_def)
  moreover have "settled_payment tenant (submitter_transactions s') p'" if "p' \<in> set (payments s')" for p'
    unfolding settled_payment_def
  proof
    assume s: "pm_Status p' = SuccessPaymentStatus"
    have "\<exists>r \<in> set (submitter_transactions s). pays tenant p' r"
    proof (cases "(pm_ID p', pm_StellarTransactionID p') \<in> W")
      case True
      with W sok show ?thesis by (auto intro: paid_hashes_pays)
    next
      case False
      with paid that s obtain p where "p \<in> set (payments s)" "paid_by {} p p'" by (auto simp: payments_paid_def)
      with ok s show ?thesis
        by (auto simp: platform_ok_def list_all_iff settled_payment_def paid_by_def list_ex_iff pays_def)
    qed
    then show "list_ex (pays tenant p') (submitter_transactions s')" by (blast intro: txs_evolve_pays [OF tx])
  qed
  ultimately show ?thesis
    using rel ok txs_evolve_linked [OF tx persist] by (simp add: platform_ok_def plat_rel_def list_all_iff)
qed

end
