(* ===== verification/Platform.thy ===== *)
theory Platform
  imports Platform_Inv
begin

text \<open>
  The platform of one tenant as a state machine over both databases, with the invariant for every reachable
  state.
\<close>

section \<open>The other steps\<close>

lemma more_fields:
  assumes "tss_state.more s' = tss_state.more s"
  shows "payments s' = payments s" "disbursements s' = disbursements s" "assets s' = assets s" "receiver_wallets s' = receiver_wallets s"
    "wallets s' = wallets s" "organizations s' = organizations s" "receivers s' = receivers s"
    "receiver_verifications s' = receiver_verifications s"
  using assms by (cases s; cases s'; simp)+

lemma tick_ok:
  fixes s s' :: "'z platform_scheme"
  assumes run: "process_tick eng s = (r, s')" and ok: "platform_ok eng env tenant s"
  shows "platform_ok eng env tenant s'"
proof -
  have db: "tss_db_ok s" using ok by (simp add: platform_ok_def service_ok_def)
  note good = process_tick_good [OF run db]
  note fields = more_fields [OF tick_more [OF run]]
  have rows: "list_all2 (\<lambda>r r'. row_le r r' \<and> (r' = r \<or> tx_status r \<noteq> TransactionStatusSuccess)) (submitter_transactions s) (submitter_transactions s')"
  proof (cases "fst (GetLedgerNumber (eng_sdk eng) (Horizon_Root eng) s)")
    case (Inl e)
    with good show ?thesis by (simp add: tick_good_def tick_frame_def list_all2_refl)
  next
    case (Inr c)
    with good have "list_all2 (only_free c) (submitter_transactions s) (submitter_transactions s')"
      by (simp add: tick_good_def tick_frame_def)
    then show ?thesis
      by (rule list_all2_mono) (auto simp: only_free_def tx_lockable_def transaction_status_defs)
  qed
  have "linked_tx env tenant (payments s) r'" if r': "r' \<in> set (submitter_transactions s')" for r'
  proof -
    from list_all2_back [OF rows r'] obtain r where "r \<in> set (submitter_transactions s)" "row_le r r'" by blast
    with ok show ?thesis
      using linked_persist [OF _ payments_persist_refl] by (auto simp: platform_ok_def list_all_iff)
  qed
  moreover have "settled_payment tenant (submitter_transactions s') p" if p: "p \<in> set (payments s)" for p
    unfolding settled_payment_def
  proof
    assume "pm_Status p = SuccessPaymentStatus"
    with ok p obtain r where r: "r \<in> set (submitter_transactions s)" "pays tenant p r"
      by (auto simp: platform_ok_def list_all_iff settled_payment_def list_ex_iff)
    from list_all2_le_exists [OF rows r(1)] r show "list_ex (pays tenant p) (submitter_transactions s')"
      by (auto simp: pays_def list_ex_iff)
  qed
  moreover have "payments_ok s'" using ok payments_ok_cong [OF fields(1-4)] by (simp add: platform_ok_def)
  ultimately show ?thesis
    using good ok by (simp add: platform_ok_def tick_good_def service_ok_def fields(1) list_all_iff)
qed

text \<open>The other users of the submission service insert transactions of other tenants or other types.\<close>

definition foreign_tx :: "string \<Rightarrow> Transaction \<Rightarrow> bool" where
  "foreign_tx tenant tx \<longleftrightarrow> tx_type tx \<noteq> TransactionTypePayment \<or> tx_tenant_id tx \<noteq> tenant"

lemma foreign_insert_ok:
  fixes s s' :: "'z platform_scheme"
  assumes run: "TransactionModel_BulkInsert (eng_sdk eng) txs s = (rs, s')" and foreign: "list_all (foreign_tx tenant) txs"
    and ok: "platform_ok eng env tenant s"
  shows "platform_ok eng env tenant s'"
proof -
  obtain rows where t: "submitter_transactions s' = submitter_transactions s @ rows" and rows: "list_all (foreign_tx tenant) rows"
  proof -
    consider "s' = s" | y where "insert_statement txs s = (y, s')"
      using run by (auto simp: TransactionModel_BulkInsert_def ret_def throw_def split: if_splits sum.splits elim: wrapE_cases)
    then show ?thesis
    proof cases
      case 1
      then show ?thesis by (intro that [of "[]"]) simp_all
    next
      case 2
      then show ?thesis
      proof (cases rule: insert_statement_cases)
        case (failed e)
        then show ?thesis by (intro that [of "[]"]) simp_all
      next
        case (inserted rows)
        from inserted_rows_facts [OF inserted(4)]
        have "map tx_type rows = map tx_type txs" "map tx_tenant_id rows = map tx_tenant_id txs" by simp_all
        with foreign have "list_all (foreign_tx tenant) rows"
          by (auto simp: list_all_length foreign_tx_def dest: map_eq_imp_length_eq) (metis length_map nth_map)+
        with inserted(1) show ?thesis by (rule that)
      qed
    qed
  qed
  have more: "tss_state.more s' = tss_state.more s"
    using keepsD [OF same_more.keeps_BulkInsert run] by (simp add: same_more_def)
  note fields = more_fields [OF more]
  have "service_ok (eng_sdk eng) s'" using ok by (intro insert_ok [OF run]) (simp add: platform_ok_def)
  moreover have "list_all (linked_tx env tenant (payments s)) rows"
    using rows by (auto simp: list_all_iff linked_tx_def foreign_tx_def)
  moreover have "list_all (settled_payment tenant (submitter_transactions s')) (payments s)"
    using ok by (auto simp: platform_ok_def list_all_iff settled_payment_def t)
  moreover have "payments_ok s'" using ok payments_ok_cong [OF fields(1-4)] by (simp add: platform_ok_def)
  ultimately show ?thesis using ok by (simp add: platform_ok_def fields(1) t)
qed

text \<open>A program that leaves the rows of both sides alone.\<close>

lemma other_tables_ok:
  fixes s s' :: "'z platform_scheme"
  assumes "keeps (calm_rel (\<lambda>_. False)) m" and "keeps same_more m" and run: "m s = (r, s')"
    and ok: "platform_ok eng env tenant s"
  shows "platform_ok eng env tenant s'"
proof -
  from keepsD [OF assms(1) run] have calm: "calm_rel (\<lambda>_. False) s s'" .
  then have "list_all2 (=) (submitter_transactions s) (submitter_transactions s')"
    unfolding calm_rel_def by (auto elim!: list_all2_mono simp: calm_step_def)
  then have t: "submitter_transactions s' = submitter_transactions s" by (simp add: list.rel_eq)
  have more: "tss_state.more s' = tss_state.more s"
    using keepsD [OF assms(2) run] by (simp add: same_more_def)
  note fields = more_fields [OF more]
  have "service_ok (eng_sdk eng) s'" using calm_rel_ok [OF calm] ok by (simp add: platform_ok_def)
  moreover have "payments_ok s'" using ok payments_ok_cong [OF fields(1-4)] by (simp add: platform_ok_def)
  ultimately show ?thesis using ok by (simp add: platform_ok_def fields(1) t)
qed

section \<open>The platform as a state machine\<close>

text \<open>
  A tenant's platform with its submission service: the manager ticks, payments are created, cancelled and retried,
  disbursements are started, submitted, paused, approved and rejected, ready payments are sent and
  completed transactions synchronised, in any order and with any fault; the other users of the submission service
  insert and synchronise transactions that are no payments of the tenant; the remaining parts of the platform
  may change any table of the tenant but the payments, as far as the constraints of the database allow; and the environment moves the clock, sets the faults
  of the coming statements and holds rows in other database transactions.
\<close>

definition platform_initial :: "platform \<Rightarrow> bool" where
  "platform_initial s \<longleftrightarrow> submitter_transactions s = [] \<and> channel_accounts s = [] \<and> tss_log s = [] \<and> payments s = [] \<and> sdp_db_ok s"

inductive platform_step :: "submitter_engine \<Rightarrow> sdp_env \<Rightarrow> string \<Rightarrow> platform \<Rightarrow> platform \<Rightarrow> bool" for eng env tenant where
  tick: "process_tick eng s = (r, s') \<Longrightarrow> platform_step eng env tenant s s'"
| send: "SendBatchPayments env n s = (r, s') \<Longrightarrow> platform_step eng env tenant s s'"
| sync: "SyncBatchTransactions n tenant s = (r, s') \<Longrightarrow> platform_step eng env tenant s s'"
| start_disbursement: "StartDisbursement env d u a s = (r, s') \<Longrightarrow> platform_step eng env tenant s s'"
| submit: "SubmitDisbursement env d u a s = (r, s') \<Longrightarrow> platform_step eng env tenant s s'"
| pause: "PauseDisbursement d u s = (r, s') \<Longrightarrow> platform_step eng env tenant s s'"
| approve: "ApproveDisbursement d u s = (r, s') \<Longrightarrow> platform_step eng env tenant s s'"
| reject: "RejectDisbursement d u why s = (r, s') \<Longrightarrow> platform_step eng env tenant s s'"
| insert_all: "PaymentModel_InsertAll env inserts s = (r, s') \<Longrightarrow> platform_step eng env tenant s s'"
| create_direct: "PaymentModel_CreateDirectPayment env i u s = (x, s') \<Longrightarrow> platform_step eng env tenant s s'"
| delete_drafts: "PaymentModel_DeleteAllDraftForDisbursement d s = (r, s') \<Longrightarrow> platform_step eng env tenant s s'"
| retry: "PaymentModel_RetryFailedPayments email ids s = (r, s') \<Longrightarrow> platform_step eng env tenant s s'"
| cancel: "CancelReadyPayments s = (r, s') \<Longrightarrow> platform_step eng env tenant s s'"
| foreign: "TransactionModel_BulkInsert (eng_sdk eng) txs s = (rs, s') \<Longrightarrow> list_all (foreign_tx tenant) txs \<Longrightarrow>
    platform_step eng env tenant s s'"
| synced: "TransactionModel_UpdateSyncedTransactions is s = (r, s') \<Longrightarrow> platform_step eng env tenant s s'"
| add_accounts: "ChannelAccountModel_BatchInsert keys s = (r, s') \<Longrightarrow> platform_step eng env tenant s s'"
| delete_account: "ChannelAccountModel_DeleteIfLockedUntil k n s = (r, s') \<Longrightarrow> platform_step eng env tenant s s'"
| others: "s' = s\<lparr>organizations := os, assets := as, wallets := ws, receivers := rs, receiver_verifications := rvs, receiver_wallets := rws, disbursements := ds\<rparr> \<Longrightarrow>
    sdp_db_ok s' \<Longrightarrow> platform_step eng env tenant s s'"
| environment: "platform_step eng env tenant s (s\<lparr>conn_now := now, conn_faults := fs, conn_held := ks\<rparr>)"

inductive platform_reachable :: "submitter_engine \<Rightarrow> sdp_env \<Rightarrow> string \<Rightarrow> platform \<Rightarrow> bool" for eng env tenant where
  start: "platform_initial s \<Longrightarrow> platform_reachable eng env tenant s"
| step: "platform_reachable eng env tenant s \<Longrightarrow> platform_step eng env tenant s s' \<Longrightarrow> platform_reachable eng env tenant s'"

lemma keeps_plat_ok:
  assumes "keeps (plat_rel {} (ready_amounts env (payments s))) m" and "m s = (r, s')" and "platform_ok eng env tenant s"
  shows "platform_ok eng env tenant s'"
  using plat_rel_ok [OF keepsD [OF assms(1,2)] assms(3)] by simp

lemma keeps_UpdateSynced_plat: "keeps (plat_rel W A) (TransactionModel_UpdateSyncedTransactions is)"
  unfolding TransactionModel_UpdateSyncedTransactions_def
  by (intro keeps_if plat.keeps_throw plat.keeps_ret plat.keeps_bindE plat.keeps_wrapE plat.keeps_tx_update_exec)
    (auto simp: calm_tx_def calm_step_def row_le_def set_defs syncable_def)

lemma platform_step_ok:
  assumes "platform_step eng env tenant s s'" and ok: "platform_ok eng env tenant s"
  shows "platform_ok eng env tenant s'"
  using assms(1)
proof cases
  case (tick r)
  then show ?thesis using ok by (rule tick_ok)
next
  case (send n r)
  from plat_rel_ok [OF SendBatch_plat [OF send] ok] show ?thesis by blast
next
  case (sync n r)
  from plat_rel_ok [OF SyncBatch_plat [OF sync] ok] show ?thesis by blast
next
  case (start_disbursement d u a r)
  from keeps_plat_ok [OF plat_management(1) this ok] show ?thesis .
next
  case (submit d u a r)
  from keeps_plat_ok [OF plat_management(2) this ok] show ?thesis .
next
  case (pause d u r)
  from keeps_plat_ok [OF plat_management(3) this ok] show ?thesis .
next
  case (approve d u r)
  from keeps_plat_ok [OF plat_management(4) this ok] show ?thesis .
next
  case (reject d u why r)
  from keeps_plat_ok [OF plat_management(5) this ok] show ?thesis .
next
  case (insert_all inserts r)
  from keeps_plat_ok [OF plat_payments(1) this ok] show ?thesis .
next
  case (create_direct i u x)
  from keeps_plat_ok [OF plat_payments(2) this ok] show ?thesis .
next
  case (delete_drafts d r)
  from keeps_plat_ok [OF plat_payments(3) this ok] show ?thesis .
next
  case (retry email ids r)
  from keeps_plat_ok [OF plat_payments(5) this ok] show ?thesis .
next
  case (cancel r)
  from keeps_plat_ok [OF plat_payments(4) this ok] show ?thesis .
next
  case (foreign txs rs)
  from foreign_insert_ok [OF this ok] show ?thesis .
next
  case (synced "is" r)
  from keeps_plat_ok [OF keeps_UpdateSynced_plat this ok] show ?thesis .
next
  case (add_accounts keys r)
  from other_tables_ok [OF calm_ca.keeps_ca_BatchInsert same_more.keeps_ca_BatchInsert this ok] show ?thesis .
next
  case (delete_account k n r)
  from other_tables_ok [OF calm_ca.keeps_ca_DeleteIfLockedUntil same_more.keeps_ca_DeleteIfLockedUntil this ok] show ?thesis .
next
  case (others os as ws rs rvs rws ds)
  with ok show ?thesis by (simp add: platform_ok_def service_ok_def tss_db_ok_def sdp_db_ok_def)
next
  case (environment now fs ks)
  have "payments_ok s' = payments_ok s" by (rule payments_ok_cong) (simp_all add: environment)
  with ok show ?thesis by (simp add: environment platform_ok_def service_ok_def tss_db_ok_def)
qed

lemma platform_reachable_ok: "platform_reachable eng env tenant s \<Longrightarrow> platform_ok eng env tenant s"
proof (induction rule: platform_reachable.induct)
  case (start s)
  then show ?case
    by (simp add: platform_initial_def platform_ok_def service_ok_def service_inv_def submissions_recorded_def tss_db_ok_def
        tx_table_ok_def tx_unique_ok_def ca_table_ok_def payments_ok_def)
next
  case (step s s')
  then show ?case by (blast intro: platform_step_ok)
qed

end
