(* ===== verification/Payment_Evolution.thy ===== *)
theory Payment_Evolution
  imports Platform Direct_Payments
begin

text \<open>
  How the payments of a tenant evolve: every operation moves them along the state machine of payments (with the
  retry) and appends to their history the statuses they passed.
\<close>

section \<open>Synchronising under the constraints\<close>

lemma Get_row:
  fixes s s' :: "'z platform_scheme"
  assumes "PaymentModel_Get i s = (Inr payment, s')"
  shows "dp_row payment \<in> set (payments s')" and "\<exists>fs. s' = s\<lparr>conn_faults := fs\<rparr>"
proof -
  let ?q = "no_filters\<lparr>qp_ID := Some (One i)\<rparr>"
  from assms obtain ps where all: "PaymentModel_GetAll never_ilike ?q QueryTypeSingle s = (Inr ps, s')" and "payment \<in> set ps"
    unfolding PaymentModel_Get_def by (elim bindE_cases) (auto simp: prog_ok throw_def ret_def split: list.splits)
  from all obtain qs where run: "db_call (\<lambda>s. (newPaymentQuery never_ilike ?q QueryTypeSingle (base_payments s), s)) s = (Inr qs, s')"
    and ps: "ps = removeEmptyDisbursementForDirect qs"
    by (auto simp: PaymentModel_GetAll_def prog_ok)
  from run have q: "newPaymentQuery never_ilike ?q QueryTypeSingle (base_payments s') = Inr qs" and state: "\<exists>fs. s' = s\<lparr>conn_faults := fs\<rparr>"
    by (auto elim!: db_call_cases)
  from q have "set qs \<subseteq> set (base_payments s')"
    by (auto simp: newPaymentQuery_def empty_filter_def no_filters_def Let_def)
  with removeEmpty_row [OF \<open>payment \<in> set ps\<close> [unfolded ps]] show "dp_row payment \<in> set (payments s')"
    using base_payments_row [of _ s'] by fastforce
  show "\<exists>fs. s' = s\<lparr>conn_faults := fs\<rparr>" by (fact state)
qed

text \<open>A relation that has to hold only for states whose payments satisfy their constraints: there the row a
  program read is the only one with its id, so an update by id changes the row that was read.\<close>

locale sdp_guarded = sdp_relation R row_step pm_step pm_new new_tx
  for R :: "'z platform_scheme \<Rightarrow> 'z platform_scheme \<Rightarrow> bool" and row_step pm_step pm_new new_tx +
  assumes R_guard: "(payments_ok s \<Longrightarrow> R s s') \<Longrightarrow> R s s'"
begin

lemma unique_payment: "payments_ok s \<Longrightarrow> p \<in> set (payments s) \<Longrightarrow> q \<in> set (payments s) \<Longrightarrow> pm_ID p = pm_ID q \<Longrightarrow> p = q"
  by (intro unique_by_key [of pm_ID]) (simp_all add: payments_ok_def)

lemma Update_at:
  fixes s s' :: "'z platform_scheme"
  assumes run: "PaymentModel_Update payment u s = (r, s')" and row: "dp_row payment \<in> set (payments s)"
    and step: "\<And>now. PaymentStatus_TransitionTo (pm_Status (dp_row payment)) (pu_Status u) = Inr () \<Longrightarrow>
      pm_step (dp_row payment) (pm_touched (set_payment_update u) now (dp_row payment))"
  shows "R s s'"
proof (rule R_guard)
  assume ok: "payments_ok s"
  show "R s s'"
  proof (cases "isl (PaymentUpdate_Validate u) \<or> isl (PaymentStatus_TransitionTo (pm_Status (dp_row payment)) (pu_Status u))")
    case True
    with run have "s' = s" by (auto simp: PaymentModel_Update_def throw_def split: sum.splits)
    then show ?thesis by (simp add: R_refl)
  next
    case False
    then have trans: "PaymentStatus_TransitionTo (pm_Status (dp_row payment)) (pu_Status u) = Inr ()"
      and valid: "PaymentUpdate_Validate u = Inr ()"
      by (cases "PaymentStatus_TransitionTo (pm_Status (dp_row payment)) (pu_Status u)"; cases "PaymentUpdate_Validate u"; simp)+
    obtain x s1 where x: "pm_set_status_exec (pu_Status u) (\<lambda>p. pm_ID p = pm_ID (dp_row payment)) (set_payment_update u) s = (x, s1)"
      by fastforce
    with run have "s' = s1"
      unfolding PaymentModel_Update_def trans valid
      by (cases x) (auto simp: bindE_def wrapE_def handleE_def throw_def ret_def split: if_splits)
    moreover have "R s s1"
    proof (cases "pu_Status u \<in> set PaymentStatuses")
      case True
      with x have "pm_update_exec (\<lambda>p. pm_ID p = pm_ID (dp_row payment)) (set_payment_update u) s = (x, s1)"
        by (simp add: pm_set_status_exec_def)
      then show ?thesis
        by (rule pm_update_at) (use step [OF trans] unique_payment [OF ok _ row] in blast)
    next
      case False
      have "keeps R (db_call (throw (ConstraintViolation ''payment_status'')) :: ('z platform_scheme, go_error, nat) prog)"
        by (intro keeps_db_prog keeps_throw)
      with x False show ?thesis by (auto simp: pm_set_status_exec_def dest: keepsD)
    qed
    ultimately show ?thesis by simp
  qed
qed

lemma GetByIDs_rows:
  fixes s s' :: "'z platform_scheme"
  assumes "PaymentModel_GetByIDs [i] s = (Inr ps, s')" and "payment \<in> set ps"
  shows "dp_row payment \<in> set (payments s')" and "pm_ID (dp_row payment) = i"
proof -
  show "pm_ID (dp_row payment) = i" using assms by (rule GetByIDs_id)
  let ?q = "no_filters\<lparr>qp_ID := Some (Many [i]), qp_SortBy := SortFieldUpdatedAt, qp_SortOrder := SortOrderASC\<rparr>"
  from assms(1) obtain qs where "newPaymentQuery never_ilike ?q QueryTypeSelectAll (base_payments s') = Inr qs"
    and ps: "ps = removeEmptyDisbursementForDirect qs"
    by (force simp: PaymentModel_GetByIDs_def PaymentModel_GetAll_def prog_ok elim!: db_call_cases)
  then have "set qs \<subseteq> set (base_payments s')"
    by (auto simp: newPaymentQuery_def empty_filter_def no_filters_def add_sorting_def Let_def)
  with removeEmpty_row [OF assms(2) [unfolded ps]] show "dp_row payment \<in> set (payments s')"
    using base_payments_row [of _ s'] by fastforce
qed

lemma keeps_syncPayment_guarded:
  assumes "\<And>st now p. payment_target tx = Some st \<Longrightarrow> pm_ID p = tx_external_id tx \<Longrightarrow>
    PaymentStatus_TransitionTo (pm_Status p) st = Inr () \<Longrightarrow> pm_step p (pm_touched (set_payment_update (payment_update tx st)) now p)"
  shows "keeps R (syncPaymentWithTransaction tx)"
proof (rule keepsI)
  fix s s' :: "'z platform_scheme" and r
  assume run: "syncPaymentWithTransaction tx s = (r, s')"
  have get: "keeps R (wrapE ''getting payments by IDs'' (PaymentModel_GetByIDs [tx_external_id tx]))"
    by (intro keeps_intros)
  from run show "R s s'" unfolding syncPaymentWithTransaction_def
  proof (cases rule: bindE_cases)
    case (err e)
    then show ?thesis by (blast intro: keepsD [OF get])
  next
    case (ok ps s1)
    have step: "R s s1" using get ok(1) by (rule keepsD)
    from ok(1) have read: "PaymentModel_GetByIDs [tx_external_id tx] s = (Inr ps, s1)" by (simp add: prog_ok)
    have "R s1 s'"
    proof (cases "\<exists>payment st. ps = [payment] \<and> payment_target tx = Some st")
      case True
      then obtain payment st where ps: "ps = [payment]" and st: "payment_target tx = Some st" by blast
      note row = GetByIDs_rows [OF read, of payment]
      obtain x s2 where x: "PaymentModel_Update payment (payment_update tx st) s1 = (x, s2)" by fastforce
      then have "R s1 s2"
        by (rule Update_at) (use row ps assms [OF st] in \<open>simp_all add: payment_update_def\<close>)
      moreover have "R s2 s'"
      proof (cases x)
        case (Inl e)
        with ok(2) ps st x show ?thesis by (simp add: bindE_def wrapE_def handleE_def throw_def R_refl)
      next
        case (Inr u)
        have "keeps R (if pm_Type (dp_row payment) = PaymentTypeDisbursement
           then (case dp_Disbursement payment of None \<Rightarrow> throw NilDereference
               | Some d \<Rightarrow> wrapE ''completing disbursement'' (DisbursementModel_CompleteDisbursements [ds_ID d]))
           else ret ())" by (intro keeps_intros)
        moreover from ok(2) ps st x Inr have "(if pm_Type (dp_row payment) = PaymentTypeDisbursement
           then (case dp_Disbursement payment of None \<Rightarrow> throw NilDereference
               | Some d \<Rightarrow> wrapE ''completing disbursement'' (DisbursementModel_CompleteDisbursements [ds_ID d]))
           else ret ()) s2 = (r, s')"
          by (simp add: bindE_def wrapE_def [of "''updating payment ID %s for transaction ID %s''"] handleE_def ret_def)
        ultimately show ?thesis by (rule keepsD)
      qed
      ultimately show ?thesis by (rule R_trans)
    next
      case False
      with ok(2) have "s' = s1" by (auto simp: throw_def split: list.splits option.splits)
      then show ?thesis by (simp add: R_refl)
    qed
    with step show ?thesis by (rule R_trans)
  qed
qed

lemma keeps_syncTransactions_guarded:
  assumes "\<And>tx st now p. tx \<in> set txs \<Longrightarrow> payment_target tx = Some st \<Longrightarrow> PaymentStatus_TransitionTo (pm_Status p) st = Inr () \<Longrightarrow>
      pm_step p (pm_touched (set_payment_update (payment_update tx st)) now p)"
    and "\<And>now r. tx_status r \<in> {TransactionStatusSuccess, TransactionStatusError} \<Longrightarrow> row_step r (touched (\<lambda>now r. r\<lparr>tx_synced_at := Some now\<rparr>) now r)"
  shows "keeps R (syncTransactions txs)"
  by (rule keeps_syncTransactions_via) (use assms in \<open>auto intro: keeps_syncPayment_guarded\<close>)

lemma CancelPayment_guarded:
  assumes "\<And>now p m. PaymentStatus_TransitionTo (pm_Status p) CanceledPaymentStatus = Inr () \<Longrightarrow>
    pm_step p (pm_touched (set_payment_status CanceledPaymentStatus m) now p)"
  shows "keeps R (CancelPayment i)"
proof -
  have body: "R s s'" if run: "cancel_body i s = (r, s')" for s s' :: "'z platform_scheme" and r
  proof (rule R_guard)
    assume good: "payments_ok s"
    have get: "keeps R (handleE (PaymentModel_Get i)
       (\<lambda>err. if error_is err ErrRecordNotFound then throw ErrPaymentNotFound else throw (Wrapf ''error getting payment with id %s'' err)) ret)"
      unfolding PaymentModel_Get_def by (intro keeps_intros)
    from run show "R s s'" unfolding cancel_body_def
    proof (cases rule: bindE_cases)
      case (err e)
      then show ?thesis by (blast intro: keepsD [OF get])
    next
      case (ok payment s1)
      have step: "R s s1" using get ok(1) by (rule keepsD)
      from ok(1) have read: "PaymentModel_Get i s = (Inr payment, s1)"
        by (auto elim!: handleE_cases simp: prog_ok split: if_splits)
      note row = Get_row [OF read]
      from row(2) obtain fs where s1: "s1 = s\<lparr>conn_faults := fs\<rparr>" by blast
      then have ok1: "payments_ok s1" using good by simp
      have "R s1 s'"
      proof (cases "PaymentStatus_TransitionTo (pm_Status (dp_row payment)) CanceledPaymentStatus")
        case (Inl e)
        with ok(2) show ?thesis by (simp add: throw_def R_refl)
      next
        case (Inr u)
        have "R s1 s2" if "PaymentModel_UpdateStatuses [payment] CanceledPaymentStatus s1 = (x, s2)" for x s2
        proof -
          from that Inr obtain y where "pm_update_exec (\<lambda>p. pm_ID p \<in> set (map (\<lambda>p. pm_ID (dp_row p)) [payment])) (set_payment_status CanceledPaymentStatus []) s1 = (y, s2)"
            by (auto simp: PaymentModel_UpdateStatuses_def pm_set_status_exec_def PaymentStatuses_def bindE_def wrapE_def handleE_def throw_def ret_def
                split: prod.splits sum.splits)
          then show ?thesis
            by (rule pm_update_at) (use assms Inr unique_payment [OF ok1 _ row(1)] in auto)
        qed
        with ok(2) Inr show ?thesis
          by (auto simp: bindE_def wrapE_def handleE_def throw_def ret_def split: prod.splits sum.splits if_splits)
      qed
      with step show ?thesis by (rule R_trans)
    qed
  qed
  show ?thesis
    unfolding CancelPayment_def
    by (rule keepsI, erule sdp_transaction_run) (metis R_trans R_faults body)
qed

end

section \<open>Payments follow their machine\<close>

text \<open>The machine of the payments with the retry, which makes a failed payment ready again.\<close>

definition payment_move :: "PaymentStatus \<Rightarrow> PaymentStatus \<Rightarrow> go_error + unit" where
  "payment_move a b = (if a = FailedPaymentStatus \<and> b = ReadyPaymentStatus then Inr () else PaymentStatus_TransitionTo a b)"

text \<open>The entries added to the history spell a run of the machine from the old to the new status; a row without
  new entries is unchanged.\<close>

definition follows :: "payment_row \<Rightarrow> payment_row \<Rightarrow> bool" where
  "follows p p' \<longleftrightarrow> pm_ID p' = pm_ID p \<and> pm_Amount p' = pm_Amount p \<and> pm_Type p' = pm_Type p \<and> pm_disbursement_id p' = pm_disbursement_id p \<and>
     pm_asset_id p' = pm_asset_id p \<and> pm_receiver_id p' = pm_receiver_id p \<and> pm_receiver_wallet_id p' = pm_receiver_wallet_id p \<and>
     (p' = p \<or> (\<exists>hs. hs \<noteq> [] \<and> pm_StatusHistory p' = pm_StatusHistory p @ hs \<and> runs payment_move (pm_Status p) (map ph_Status hs) (pm_Status p')))"

definition newborn :: "payment_row \<Rightarrow> bool" where
  "newborn p \<longleftrightarrow> (\<exists>h. pm_StatusHistory p = [h] \<and> ph_Status h = pm_Status p \<and> pm_Status p \<in> {DraftPaymentStatus, ReadyPaymentStatus})"

definition payments_follow :: "payment_row list \<Rightarrow> payment_row list \<Rightarrow> bool" where
  "payments_follow ps ps' \<longleftrightarrow> (\<forall>p \<in> set ps. pm_Status p \<noteq> DraftPaymentStatus \<longrightarrow> (\<exists>p' \<in> set ps'. follows p p')) \<and>
     (\<forall>p' \<in> set ps'. \<exists>p. (p \<in> set ps \<or> newborn p) \<and> follows p p')"

definition follow_rel :: "'z platform_scheme \<Rightarrow> 'z platform_scheme \<Rightarrow> bool" where
  "follow_rel s s' \<longleftrightarrow> (payments_ok s \<longrightarrow> payments_ok s' \<and> payments_follow (payments s) (payments s'))"

lemma runs_append: "runs step a xs b \<Longrightarrow> runs step b ys c \<Longrightarrow> runs step a (xs @ ys) c"
  by (induction rule: runs.induct) (auto intro: runs.intros)

lemma payment_move_not_draft: "payment_move a b = Inr () \<Longrightarrow> b \<noteq> DraftPaymentStatus"
  by (auto simp: payment_move_def payment.transition_iff payment_listed payment_status_defs split: if_splits)

lemma runs_not_draft: "runs payment_move a path b \<Longrightarrow> a \<noteq> DraftPaymentStatus \<Longrightarrow> b \<noteq> DraftPaymentStatus"
  by (induction rule: runs.induct) (auto dest: payment_move_not_draft)

lemma follows_refl [simp]: "follows p p"
  by (simp add: follows_def)

lemma follows_trans:
  assumes "follows a b" and "follows b c"
  shows "follows a c"
proof (cases "b = a \<or> c = b")
  case True
  with assms show ?thesis by auto
next
  case False
  with assms obtain hs gs where "hs \<noteq> []" "pm_StatusHistory b = pm_StatusHistory a @ hs" "runs payment_move (pm_Status a) (map ph_Status hs) (pm_Status b)"
    "pm_StatusHistory c = pm_StatusHistory b @ gs" "runs payment_move (pm_Status b) (map ph_Status gs) (pm_Status c)"
    by (auto simp: follows_def)
  then have "hs @ gs \<noteq> []" "pm_StatusHistory c = pm_StatusHistory a @ (hs @ gs)" "runs payment_move (pm_Status a) (map ph_Status (hs @ gs)) (pm_Status c)"
    by (auto intro: runs_append)
  with assms show ?thesis unfolding follows_def by auto
qed

lemma follows_not_draft: "follows p p' \<Longrightarrow> pm_Status p \<noteq> DraftPaymentStatus \<Longrightarrow> pm_Status p' \<noteq> DraftPaymentStatus"
  by (auto simp: follows_def dest: runs_not_draft)

lemma payments_follow_refl: "payments_follow ps ps"
  unfolding payments_follow_def by (blast intro: follows_refl)

lemma payments_follow_trans:
  assumes "payments_follow a b" and "payments_follow b c"
  shows "payments_follow a c"
  unfolding payments_follow_def
proof (intro conjI ballI impI)
  fix p assume "p \<in> set a" "pm_Status p \<noteq> DraftPaymentStatus"
  with assms(1) obtain p' where "p' \<in> set b" "follows p p'" by (auto simp: payments_follow_def)
  moreover from follows_not_draft [OF this(2) \<open>pm_Status p \<noteq> DraftPaymentStatus\<close>] have "pm_Status p' \<noteq> DraftPaymentStatus" .
  ultimately show "\<exists>p'' \<in> set c. follows p p''" using assms(2) unfolding payments_follow_def by (metis follows_trans)
next
  fix p'' assume "p'' \<in> set c"
  with assms(2) obtain p' where p': "p' \<in> set b \<or> newborn p'" "follows p' p''" by (auto simp: payments_follow_def)
  show "\<exists>p. (p \<in> set a \<or> newborn p) \<and> follows p p''"
  proof (cases "p' \<in> set b")
    case True
    with assms(1) obtain p where "p \<in> set a \<or> newborn p" "follows p p'" by (auto simp: payments_follow_def)
    with p'(2) show ?thesis by (blast intro: follows_trans)
  qed (use p' in blast)
qed

lemma follow_pointwise: "list_all2 follows ps ps' \<Longrightarrow> payments_follow ps ps'"
  unfolding payments_follow_def by (blast dest: list_all2_le_exists list_all2_back)

interpretation follow: sdp_guarded follow_rel "\<lambda>_ _. True" follows newborn "\<lambda>_. True"
proof
  fix s t u :: "'a platform_scheme"
  show "follow_rel s s" by (simp add: follow_rel_def payments_follow_refl)
  show "follow_rel s t \<Longrightarrow> follow_rel t u \<Longrightarrow> follow_rel s u"
    unfolding follow_rel_def by (metis payments_follow_trans)
next
  fix s s' :: "'a platform_scheme"
  show "follow_rel s s' \<Longrightarrow> follow_rel s (tss_rollback s s')" by (simp add: follow_rel_def) (simp add: tss_rollback_def)
  show "follow_rel s s' \<Longrightarrow> follow_rel s (sdp_rollback s s')" by (simp add: follow_rel_def) (simp add: sdp_rollback_def payments_follow_refl)
  show "(payments_ok s \<Longrightarrow> follow_rel s s') \<Longrightarrow> follow_rel s s'" by (simp add: follow_rel_def)
next
  fix s :: "'a platform_scheme" and p
  assume "payments_ok (s\<lparr>payments := payments s @ [p]\<rparr>)" "newborn p"
  then show "follow_rel s (s\<lparr>payments := payments s @ [p]\<rparr>)"
    unfolding follow_rel_def payments_follow_def by (auto intro: follows_refl)
next
  fix s :: "'a platform_scheme" and P
  show "follow_rel s (s\<lparr>payments := filter (\<lambda>p. \<not> (P p \<and> pm_Status p = DraftPaymentStatus)) (payments s)\<rparr>)"
    unfolding follow_rel_def payments_follow_def by (auto simp: payments_ok_filter intro: follows_refl)
qed (auto simp: follow_rel_def payments_follow_refl follow_pointwise)

end
