(* ===== verification/Payment_Runs.thy ===== *)
theory Payment_Runs
  imports Payment_Evolution
begin

text \<open>
  The operations of a tenant move its payments along their state machine: each operation on its own, the exact
  outcome of sending a batch, every step of the platform, and the history of every reachable payment.
\<close>

section \<open>The operations\<close>

lemma follows_status:
  "payment_move (pm_Status p) st = Inr () \<Longrightarrow> follows p (pm_touched (set_payment_status st m) now p)"
  "payment_move (pm_Status p) (pu_Status u) = Inr () \<Longrightarrow> follows p (pm_touched (set_payment_update u) now p)"
  "pm_Status p = FailedPaymentStatus \<Longrightarrow> follows p (pm_touched (set_retried email) now p)"
  by (auto simp: follows_def payment_update_defs payment_history_def payment_move_def intro!: runs.intros)

lemma move_machine: "PaymentStatus_TransitionTo a b = Inr () \<Longrightarrow> payment_move a b = Inr ()"
  by (simp add: payment_move_def)

lemma follow_management:
  "keeps follow_rel (StartDisbursement env i u a)" "keeps follow_rel (SubmitDisbursement env i u a)"
  "keeps follow_rel (PauseDisbursement i u)" "keeps follow_rel (ApproveDisbursement i u)" "keeps follow_rel (RejectDisbursement i u r)"
  by (intro follow.keeps_management follows_status move_machine; assumption)+

lemma follow_payments:
  "keeps follow_rel (PaymentModel_InsertAll env inserts)" "keeps follow_rel (PaymentModel_CreateDirectPayment env i u)"
  "keeps follow_rel (PaymentModel_DeleteAllDraftForDisbursement d)" "keeps follow_rel CancelReadyPayments"
  "keeps follow_rel (PaymentModel_RetryFailedPayments email ids)"
proof -
  show "keeps follow_rel (PaymentModel_InsertAll env inserts)" "keeps follow_rel (PaymentModel_CreateDirectPayment env i u)"
    by (intro follow.keeps_InsertAll follow.keeps_CreateDirect; auto simp: inserted_payment_def newborn_def payment_history_def)+
  show "keeps follow_rel (PaymentModel_DeleteAllDraftForDisbursement d)" by (rule follow.keeps_DeleteDrafts)
  show "keeps follow_rel CancelReadyPayments"
    by (rule follow.keeps_Cancel) (auto intro!: follows_status move_machine simp: payment.transition_iff payment_listed)
  show "keeps follow_rel (PaymentModel_RetryFailedPayments email ids)"
    by (rule follow.keeps_Retry) (rule follows_status)
qed

lemma follow_sync: "keeps follow_rel (SyncBatchTransactions n tenant)"
proof -
  have "keeps follow_rel (syncTransactions txs)" for txs
    by (rule follow.keeps_syncTransactions_guarded) (auto intro!: follows_status move_machine simp: payment_update_def)
  then show ?thesis
    unfolding SyncBatchTransactions_def sync_body_def TransactionModel_GetTransactionBatchForUpdate_def
    by (intro keeps_intros)
qed

section \<open>Sending a batch, exactly\<close>

text \<open>Programs that do not touch the payments.\<close>

definition same_payments :: "'z platform_scheme \<Rightarrow> 'z platform_scheme \<Rightarrow> bool" where
  "same_payments s s' \<longleftrightarrow> payments s' = payments s \<and> conn_now s' = conn_now s"

interpretation same_payments: tx_relation same_payments "\<lambda>_ _. True"
  by unfold_locales (simp_all add: same_payments_def tss_rollback_def)

lemma same_payments_lift [keeps_intros]: "keeps same_payments (liftE x)"
  by (cases x) (simp_all add: keeps_def liftE_def throw_def ret_def same_payments_def)

lemma same_payments_build: "keeps same_payments (build_transaction env tenant p)"
  unfolding build_transaction_def MemoResolver_GetMemo_def OrganizationModel_Get_def by (intro keeps_intros)

definition same_txs :: "'z platform_scheme \<Rightarrow> 'z platform_scheme \<Rightarrow> bool" where
  "same_txs s s' \<longleftrightarrow> submitter_transactions s' = submitter_transactions s"

interpretation same_txs: db_relation same_txs
  by unfold_locales (simp_all add: same_txs_def tss_rollback_def)

lemma same_txs_lift [keeps_intros]: "keeps same_txs (liftE x)"
  by (cases x) (simp_all add: keeps_def liftE_def throw_def ret_def same_txs_def)

lemma same_txs_build: "keeps same_txs (forE ps (build_transaction env tenant))"
  unfolding build_transaction_def MemoResolver_GetMemo_def OrganizationModel_Get_def get_first_def by (intro keeps_intros)

lemma same_payments_batch: "keeps same_payments (PaymentModel_GetBatchForUpdate n)"
  unfolding PaymentModel_GetBatchForUpdate_def by (intro keeps_intros)

definition payments_set :: "data_Payment list \<Rightarrow> PaymentStatus \<Rightarrow> int \<Rightarrow> payment_row list \<Rightarrow> payment_row list" where
  "payments_set ps st now rows =
     sql_update (\<lambda>p. pm_ID p \<in> set (map (\<lambda>p. pm_ID (dp_row p)) ps)) (pm_touched (set_payment_status st []) now) rows"

lemma payments_set_none [simp]: "payments_set [] st now rows = rows"
  by (simp add: payments_set_def sql_update_def)

lemma pm_update_exec_ok:
  assumes "pm_update_exec P f s = (Inr m, s')"
  obtains fs where "s' = s\<lparr>conn_faults := fs, payments := sql_update P (pm_touched f (conn_now s)) (payments s)\<rparr>" and "payments_ok s'"
  using assms unfolding pm_update_exec_def by (elim db_call_cases) (auto simp: Let_def split: if_splits intro: that)

lemma check_transitions_ok:
  "check_transitions st ps = Inr () \<Longrightarrow> \<forall>p \<in> set ps. PaymentStatus_TransitionTo (pm_Status (dp_row p)) st = Inr ()"
  by (induction ps) (auto split: sum.splits)

lemma UpdateStatuses_ok:
  assumes "PaymentModel_UpdateStatuses ps st s = (Inr k, s')"
  shows "payments s' = payments_set ps st (conn_now s) (payments s)" and "conn_now s' = conn_now s"
    and "submitter_transactions s' = submitter_transactions s"
    and "\<forall>p \<in> set ps. PaymentStatus_TransitionTo (pm_Status (dp_row p)) st = Inr ()"
proof -
  consider "ps = []" "s' = s" | m where "check_transitions st ps = Inr ()"
      "pm_update_exec (\<lambda>p. pm_ID p \<in> set (map (\<lambda>p. pm_ID (dp_row p)) ps)) (set_payment_status st []) s = (Inr m, s')"
    using assms unfolding PaymentModel_UpdateStatuses_def pm_set_status_exec_def
    by (auto simp: prog_ok db_call_def throw_def ret_def split: if_splits sum.splits list.splits fault.splits)
  note cases = this
  show "payments s' = payments_set ps st (conn_now s) (payments s)"
    by (rule cases) (simp, erule pm_update_exec_ok, simp add: payments_set_def)
  show "conn_now s' = conn_now s" "submitter_transactions s' = submitter_transactions s"
    by (rule cases; auto elim: pm_update_exec_ok)+
  show "\<forall>p \<in> set ps. PaymentStatus_TransitionTo (pm_Status (dp_row p)) st = Inr ()"
    by (rule cases) (auto dest: check_transitions_ok)
qed

text \<open>A program that ran in a transaction of the tenant's database: it was rolled back, or it succeeded.\<close>

lemma sdp_transaction_cases:
  assumes "RunInTransaction sdp_rollback m s = (r, s')"
  obtains (rolled_back) "payments s' = payments s" and "disbursements s' = disbursements s" and "receiver_wallets s' = receiver_wallets s"
      and "\<exists>e. r = Inl e"
  | (committed) fs gs s2 where "m (s\<lparr>conn_faults := fs\<rparr>) = (Inr (), s2)" and "s' = s2\<lparr>conn_faults := gs\<rparr>"
proof -
  obtain b s1 where b: "db_call (ret ()) s = (b, s1)" by fastforce
  then obtain fs where s1: "s1 = s\<lparr>conn_faults := fs\<rparr>"
    by (elim db_call_cases) (auto simp: ret_def)
  obtain x s2 where x: "m s1 = (x, s2)" by fastforce
  note run = assms [unfolded RunInTransaction_def RunInTransactionWithResult_def]
  show ?thesis
  proof (cases b)
    case (Inl e)
    with run b s1 show ?thesis by (intro rolled_back) auto
  next
    case (Inr u)
    show ?thesis
    proof (cases x)
      case (Inl e)
      with run b Inr x s1 show ?thesis by (intro rolled_back) (auto simp: sdp_rollback_def)
    next
      case x_ok: (Inr v)
      have rb: "payments (sdp_rollback s1 t) = payments s" "disbursements (sdp_rollback s1 t) = disbursements s"
          "receiver_wallets (sdp_rollback s1 t) = receiver_wallets s" for t
        by (simp_all add: sdp_rollback_def s1)
      have committed': ?thesis if "s' = s2\<lparr>conn_faults := gs\<rparr>" for gs
        using x x_ok s1 that by (intro committed [of fs s2 gs]) auto
      show ?thesis
      proof (cases "conn_faults s2")
        case Nil
        then have "s2 = s2\<lparr>conn_faults := []\<rparr>" by simp
        with run b Inr x x_ok Nil show ?thesis by (intro committed' [of "[]"]) simp
      next
        case (Cons f gs)
        with run b Inr x x_ok rb show ?thesis by (cases f) (auto intro: committed' rolled_back)
      qed
    qed
  qed
qed

lemma tss_transaction_ok:
  assumes "RunInTransaction tss_rollback m s = (Inr (), s')"
  obtains fs gs s2 where "m (s\<lparr>conn_faults := fs\<rparr>) = (Inr (), s2)" and "s' = s2\<lparr>conn_faults := gs\<rparr>"
proof -
  obtain b s1 where b: "db_call (ret ()) s = (b, s1)" by fastforce
  then obtain fs where s1: "s1 = s\<lparr>conn_faults := fs\<rparr>"
    by (elim db_call_cases) (auto simp: ret_def)
  obtain x s2 where x: "m s1 = (x, s2)" by fastforce
  note run = assms [unfolded RunInTransaction_def RunInTransactionWithResult_def]
  from run b x have "x = Inr () \<and> (s' = s2 \<or> (\<exists>gs. s' = s2\<lparr>conn_faults := gs\<rparr>))"
    by (auto split: sum.splits list.splits fault.splits)
  moreover have "s2 = s2\<lparr>conn_faults := conn_faults s2\<rparr>" by simp
  ultimately obtain gs where "x = Inr ()" "s' = s2\<lparr>conn_faults := gs\<rparr>" by metis
  with x s1 show ?thesis by (intro that [of fs s2 gs]) auto
qed

text \<open>The batch that is read, and the transaction that is inserted for one of its payments.\<close>

definition ready_batch :: "int \<Rightarrow> 'z platform_scheme \<Rightarrow> data_Payment list" where
  "ready_batch n s = removeEmptyDisbursementForDirect (take (nat n) (disbursement_payments_query s @ direct_payments_query s))"

definition transaction_for :: "sdp_env \<Rightarrow> string \<Rightarrow> data_Payment \<Rightarrow> Transaction \<Rightarrow> bool" where
  "transaction_for env tenant p r \<longleftrightarrow> tx_external_id r = pm_ID (dp_row p) \<and> tx_type r = TransactionTypePayment \<and>
     tx_tenant_id r = tenant \<and> tx_status r = TransactionStatusPending \<and> tx_stellar_transaction_hash r = None \<and>
     AssetCode (tx_payment r) = as_Code (dp_Asset p) \<and> AssetIssuer (tx_payment r) = as_Issuer (dp_Asset p) \<and>
     Destination (tx_payment r) = rw_StellarAddress (dp_ReceiverWallet p) \<and> amount_of env (dp_row p) = Some (Amount (tx_payment r))"

definition sendable :: "sdp_env \<Rightarrow> data_Payment list \<Rightarrow> data_Payment list" where
  "sendable env ps = filter (\<lambda>p. \<not> isl (validatePaymentReadyForSending env p)) ps"

definition unsendable :: "sdp_env \<Rightarrow> data_Payment list \<Rightarrow> data_Payment list" where
  "unsendable env ps = filter (\<lambda>p. isl (validatePaymentReadyForSending env p)) ps"

definition batch_sent :: "sdp_env \<Rightarrow> string \<Rightarrow> data_Payment list \<Rightarrow> 'z platform_scheme \<Rightarrow> 'z platform_scheme \<Rightarrow> bool" where
  "batch_sent env tenant ps s s' \<longleftrightarrow>
     payments s' = payments_set (sendable env ps) PendingPaymentStatus (conn_now s)
       (payments_set (unsendable env ps) FailedPaymentStatus (conn_now s) (payments s)) \<and>
     (\<exists>rows. submitter_transactions s' = submitter_transactions s @ rows \<and> list_all2 (transaction_for env tenant) (sendable env ps) rows)"

lemma joined_faults [simp]: "joined_payment (s\<lparr>conn_faults := fs\<rparr>) = joined_payment s"
  by (rule ext) (simp add: joined_payment_def split: option.splits)

lemma queries_faults [simp]:
  "disbursement_payments_query (s\<lparr>conn_faults := fs\<rparr>) = disbursement_payments_query s"
  "direct_payments_query (s\<lparr>conn_faults := fs\<rparr>) = direct_payments_query s"
  by (simp_all add: disbursement_payments_query_def direct_payments_query_def base_payments_def not_held_def)

lemma GetBatch_exact:
  fixes s s' :: "'z platform_scheme"
  assumes "PaymentModel_GetBatchForUpdate n s = (Inr ps, s')"
  shows "ps = ready_batch n s" and "\<exists>fs. s' = s\<lparr>conn_faults := fs\<rparr>" and "0 < n"
proof -
  from assms obtain d1 d2 s1 where pos: "0 < n" and q: "db_call (getsE disbursement_payments_query) s = (Inr d1, s1)"
    "db_call (getsE direct_payments_query) s1 = (Inr d2, s')"
    and ps: "ps = removeEmptyDisbursementForDirect (if int (length (d1 @ d2)) > n then take (nat n) (d1 @ d2) else d1 @ d2)"
    by (cases "n \<le> 0") (simp_all add: PaymentModel_GetBatchForUpdate_def prog_ok Let_def split del: if_split, blast)
  from q(1) obtain fs where s1: "s1 = s\<lparr>conn_faults := fs\<rparr>" "d1 = disbursement_payments_query s1" by (rule db_read_ok)
  from q(2) obtain gs where s': "s' = s1\<lparr>conn_faults := gs\<rparr>" "d2 = direct_payments_query s'" by (rule db_read_ok)
  show "ps = ready_batch n s" using pos by (auto simp: ps ready_batch_def s1 s')
  show "\<exists>fs. s' = s\<lparr>conn_faults := fs\<rparr>" "0 < n" using s1 s' pos by auto
qed

lemma built_rows:
  assumes "list_all2 (\<lambda>p tx. \<exists>amount memo. decimal_NewFromString env (pm_Amount (dp_row p)) = Inr amount \<and> tx = payment_transaction tenant p amount memo) ps txs"
    and "inserted_rows uuid m now txs = Some rows"
  shows "list_all2 (transaction_for env tenant) ps rows"
  using assms
  by (induction arbitrary: m rows rule: list_all2_induct)
    (auto simp: transaction_for_def inserted_row_def payment_transaction_def amount_of_def split: option.splits)

lemma forE_all2:
  "forE xs f s = (Inr ys, s') \<Longrightarrow> list_all2 (\<lambda>x y. \<exists>t t'. f x t = (Inr y, t')) xs ys"
  by (induction xs arbitrary: s s' ys) (auto simp: prog_ok)

lemma tss_send_exact:
  fixes s s' :: "'z platform_scheme"
  assumes "sendPaymentsToTSS env tenant ps s = (Inr (), s')"
  shows "payments s' = payments_set ps PendingPaymentStatus (conn_now s) (payments s)"
    and "\<exists>rows. submitter_transactions s' = submitter_transactions s @ rows \<and> list_all2 (transaction_for env tenant) ps rows"
proof -
  from assms obtain txs s1 rs s2 where build: "forE ps (build_transaction env tenant) s = (Inr txs, s1)"
    and ins: "TransactionModel_BulkInsert (env_sdk env) txs s1 = (Inr rs, s2)"
    and upd: "ps = [] \<and> s' = s2 \<or> (\<exists>k. PaymentModel_UpdateStatuses ps PendingPaymentStatus s2 = (Inr k, s'))"
    by (auto simp: sendPaymentsToTSS_def prog_ok split: if_splits)
  have "keeps same_payments (forE ps (build_transaction env tenant))" by (intro same_payments.keeps_forE same_payments_build)
  from keepsD [OF this build] keepsD [OF same_payments.keeps_BulkInsert ins]
  have same: "payments s2 = payments s" "conn_now s2 = conn_now s" by (simp_all add: same_payments_def)
  show "payments s' = payments_set ps PendingPaymentStatus (conn_now s) (payments s)"
    using upd same by (auto dest: UpdateStatuses_ok(1))
  have "submitter_transactions s1 = submitter_transactions s"
    using keepsD [OF same_txs_build build] by (simp add: same_txs_def)
  moreover have "list_all2 (\<lambda>p tx. \<exists>amount memo. decimal_NewFromString env (pm_Amount (dp_row p)) = Inr amount \<and> tx = payment_transaction tenant p amount memo) ps txs"
    using forE_all2 [OF build] by (rule list_all2_mono) (metis build_transaction_ok)
  moreover obtain rows uuid m now where "submitter_transactions s2 = submitter_transactions s1 @ rows" "inserted_rows uuid m now txs = Some rows"
  proof (cases "txs = []")
    case True
    with ins that [of "[]"] show ?thesis by (simp add: TransactionModel_BulkInsert_def ret_def)
  next
    case False
    with ins have "insert_statement txs s1 = (Inr rs, s2)"
      by (auto simp: TransactionModel_BulkInsert_def throw_def prog_ok split: sum.splits)
    then show ?thesis by (cases rule: insert_statement_cases) (auto intro: that)
  qed
  ultimately show "\<exists>rows. submitter_transactions s' = submitter_transactions s @ rows \<and> list_all2 (transaction_for env tenant) ps rows"
    using upd built_rows by (auto dest: UpdateStatuses_ok(3))
qed

lemma dispatch_exact:
  fixes s s' :: "'z platform_scheme"
  assumes "StellarPaymentDispatcher_DispatchPayments env tenant ps s = (Inr (), s')"
  shows "payments s' = payments_set ps PendingPaymentStatus (conn_now s) (payments s)"
    and "\<exists>rows. submitter_transactions s' = submitter_transactions s @ rows \<and> list_all2 (transaction_for env tenant) ps rows"
proof -
  have "ps = [] \<and> s' = s \<or> (\<exists>n fs gs s2. sendPaymentsToTSS env tenant ps (s\<lparr>tss_calls := n, conn_faults := fs\<rparr>) = (Inr (), s2) \<and> s' = s2\<lparr>conn_faults := gs\<rparr>)"
  proof (cases "ps = []")
    case True
    with assms show ?thesis by (simp add: StellarPaymentDispatcher_DispatchPayments_def ret_def)
  next
    case False
    with assms have "RunInTransaction tss_rollback (sendPaymentsToTSS env tenant ps) (s\<lparr>tss_calls := Suc (tss_calls s)\<rparr>) = (Inr (), s')"
      by (auto simp: StellarPaymentDispatcher_DispatchPayments_def prog_ok net_call_def liftE_def split: sum.splits if_splits)
    then show ?thesis by (rule tss_transaction_ok) blast
  qed
  then consider "ps = []" "s' = s" | n fs gs s2
    where "sendPaymentsToTSS env tenant ps (s\<lparr>tss_calls := n, conn_faults := fs\<rparr>) = (Inr (), s2)" and "s' = s2\<lparr>conn_faults := gs\<rparr>"
    by blast
  note cases = this
  show "payments s' = payments_set ps PendingPaymentStatus (conn_now s) (payments s)"
    by (rule cases) (simp, drule tss_send_exact(1), simp)
  show "\<exists>rows. submitter_transactions s' = submitter_transactions s @ rows \<and> list_all2 (transaction_for env tenant) ps rows"
    by (rule cases) (simp, drule tss_send_exact(2), simp)
qed

lemma send_body_exact:
  fixes s s' :: "'z platform_scheme"
  assumes "send_body env tenant (PaymentModel_GetBatchForUpdate n) s = (Inr (), s')"
  shows "batch_sent env tenant (ready_batch n s) s s'" and "0 < n"
proof -
  from assms obtain s1 s2 ps where get: "PaymentModel_GetBatchForUpdate n s = (Inr ps, s1)"
    and failed: "markPaymentsAsFailed (unsendable env ps) s1 = (Inr (), s2)"
    and sent: "StellarPaymentDispatcher_DispatchPayments env tenant (sendable env ps) s2 = (Inr (), s')"
    by (auto simp: send_body_def prog_ok Let_def sendable_def unsendable_def)
  note batch = GetBatch_exact [OF get]
  then have s1: "payments s1 = payments s" "conn_now s1 = conn_now s" "submitter_transactions s1 = submitter_transactions s" by auto
  have "payments s2 = payments_set (unsendable env ps) FailedPaymentStatus (conn_now s) (payments s) \<and> conn_now s2 = conn_now s \<and>
      submitter_transactions s2 = submitter_transactions s"
    using failed UpdateStatuses_ok(1-3) [of "unsendable env ps" FailedPaymentStatus s1 _ s2] s1
    by (cases "unsendable env ps = []") (auto simp: markPaymentsAsFailed_def prog_ok)
  with dispatch_exact [OF sent] batch(1,3) show "batch_sent env tenant (ready_batch n s) s s'" "0 < n"
    by (simp_all add: batch_sent_def)
qed

lemma ready_batch_faults [simp]: "ready_batch n (s\<lparr>conn_faults := fs\<rparr>) = ready_batch n s"
  by (simp add: ready_batch_def)

lemma SendBatch_outcome:
  fixes s s' :: "'z platform_scheme"
  assumes "SendBatchPayments env n s = (r, s')"
  shows "payments s' = payments s \<and> isl r \<or>
    (\<exists>tenant url. GetTenantFromContext env = Inr (tenant, url) \<and> batch_sent env tenant (ready_batch n s) s s' \<and> 0 < n)"
proof (cases "GetTenantFromContext env")
  case (Inl e)
  with assms show ?thesis by (auto simp: SendBatchPayments_def throw_def)
next
  case (Inr tu)
  with assms obtain tenant url x where tu: "GetTenantFromContext env = Inr (tenant, url)"
    and run: "RunInTransaction sdp_rollback (send_body env tenant (PaymentModel_GetBatchForUpdate n)) s = (x, s')" and xr: "isl x = isl r"
    by (cases tu) (auto simp: SendBatchPayments_def sendPaymentsReadyToPay_def elim!: wrapE_cases)
  from run show ?thesis
  proof (cases rule: sdp_transaction_cases)
    case rolled_back
    then show ?thesis using xr by (auto simp: isl_def)
  next
    case (committed fs gs s2)
    from send_body_exact [OF committed(1)] have "batch_sent env tenant (ready_batch n s) (s\<lparr>conn_faults := fs\<rparr>) s2" "0 < n"
      by simp_all
    with tu show ?thesis by (auto simp: batch_sent_def committed(2))
  qed
qed

lemma ready_batch_rows:
  assumes "p \<in> set (ready_batch n s)"
  shows "dp_row p \<in> set (payments s) \<and> pm_Status (dp_row p) = ReadyPaymentStatus"
proof -
  from removeEmpty_row [OF assms [unfolded ready_batch_def]] obtain q where "dp_row p = dp_row q"
    "q \<in> set (disbursement_payments_query s) \<union> set (direct_payments_query s)"
    by (auto dest: in_set_takeD)
  then show ?thesis
    by (auto simp: disbursement_payments_query_def direct_payments_query_def sort_direct_def ready_to_pay_def base_payments_row)
qed

lemma list_all2_map_pointwise: "(\<And>x. x \<in> set xs \<Longrightarrow> P x (h x)) \<Longrightarrow> list_all2 P xs (map h xs)"
  by (simp add: list_all2_map2 list_all2_same)

lemma follow_send: "keeps follow_rel (SendBatchPayments env n)"
proof (rule keepsI)
  fix s s' :: "'z platform_scheme" and r
  assume run: "SendBatchPayments env n s = (r, s')"
  show "follow_rel s s'"
    unfolding follow_rel_def
  proof (intro impI conjI)
    assume ok: "payments_ok s"
    with SendBatch_plat [OF run] show "payments_ok s'" by (simp add: plat_rel_def)
    from SendBatch_outcome [OF run] consider "payments s' = payments s"
      | tenant where "batch_sent env tenant (ready_batch n s) s s'" by blast
    then show "payments_follow (payments s) (payments s')"
    proof cases
      case 1
      then show ?thesis by (simp add: payments_follow_refl)
    next
      case 2
      let ?f = "\<lambda>st ps p. if pm_ID p \<in> set (map (\<lambda>p. pm_ID (dp_row p)) ps) then pm_touched (set_payment_status st []) (conn_now s) p else p"
      have ready: "pm_Status p = ReadyPaymentStatus" if "p \<in> set (payments s)" "pm_ID p \<in> set (map (\<lambda>p. pm_ID (dp_row p)) (ready_batch n s))" for p
        using that ready_batch_rows [of _ n s] follow.unique_payment [OF ok that(1)] by auto
      have sub: "set (sendable env ps) \<subseteq> set ps" "set (unsendable env ps) \<subseteq> set ps" for ps
        by (auto simp: sendable_def unsendable_def)
      have step: "follows p (?f PendingPaymentStatus (sendable env (ready_batch n s)) (?f FailedPaymentStatus (unsendable env (ready_batch n s)) p))"
        if p: "p \<in> set (payments s)" for p
      proof -
        have a: "follows p (?f FailedPaymentStatus (unsendable env (ready_batch n s)) p)"
          using ready [OF p] sub(2) [of "ready_batch n s"]
          by (auto intro!: follows_status move_machine simp: payment.transition_iff payment_listed)
        have id: "pm_ID (pm_touched (set_payment_status FailedPaymentStatus []) (conn_now s) p) = pm_ID p"
          and st: "pm_Status (pm_touched (set_payment_status FailedPaymentStatus []) (conn_now s) p) = FailedPaymentStatus"
          by (simp_all add: payment_update_defs)
        have b: "follows q (?f PendingPaymentStatus (sendable env (ready_batch n s)) q)"
          if q: "q = ?f FailedPaymentStatus (unsendable env (ready_batch n s)) p" for q
          using ready [OF p] sub(1) [of "ready_batch n s"] id st
          by (auto simp: q payment.transition_iff payment_listed intro!: follows_status move_machine)
        from follows_trans [OF a b [OF refl]] show ?thesis .
      qed
      from 2 have eq: "payments s' = map (\<lambda>p. ?f PendingPaymentStatus (sendable env (ready_batch n s))
          (?f FailedPaymentStatus (unsendable env (ready_batch n s)) p)) (payments s)"
        unfolding batch_sent_def payments_set_def sql_update_def map_map comp_def by blast
      have "list_all2 follows (payments s) (payments s')"
        unfolding eq by (rule list_all2_map_pointwise) (rule step)
      then show ?thesis by (rule follow_pointwise)
    qed
  qed
qed

section \<open>Every step of the platform\<close>

lemma follow_same: "payments s' = payments s \<Longrightarrow> (payments_ok s \<Longrightarrow> payments_ok s') \<Longrightarrow> follow_rel s s'"
  by (simp add: follow_rel_def payments_follow_refl)

lemma follow_more: "tss_state.more s' = tss_state.more s \<Longrightarrow> follow_rel s s'"
  using payments_ok_cong [of s' s] by (intro follow_same) (auto dest: more_fields)

lemma platform_step_follows: "platform_step eng env tenant s s' \<Longrightarrow> follow_rel s s'"
proof (induction rule: platform_step.induct)
  case (tick s r s')
  then show ?case by (intro follow_more tick_more)
next
  case (send n s r s')
  from keepsD [OF follow_send send] show ?case .
next
  case (sync n s r s')
  from keepsD [OF follow_sync sync] show ?case .
next
  case (foreign txs s rs s')
  from keepsD [OF same_more.keeps_BulkInsert foreign(1)] show ?case by (intro follow_more) (simp add: same_more_def)
next
  case (synced "is" s r s')
  from keepsD [OF same_more.keeps_UpdateSynced synced] show ?case by (intro follow_more) (simp add: same_more_def)
next
  case (add_accounts keys s r s')
  from keepsD [OF same_more.keeps_ca_BatchInsert add_accounts] show ?case by (intro follow_more) (simp add: same_more_def)
next
  case (delete_account k n s r s')
  from keepsD [OF same_more.keeps_ca_DeleteIfLockedUntil delete_account] show ?case by (intro follow_more) (simp add: same_more_def)
next
  case environment
  have "payments_ok (t\<lparr>conn_now := a, conn_faults := b, conn_held := c\<rparr>) = payments_ok t" for t :: platform and a b c
    by (rule payments_ok_cong) simp_all
  then show ?case by (intro follow_same) simp_all
next
  case (start_disbursement d u a s r s')
  from keepsD [OF follow_management(1) start_disbursement] show ?case .
next
  case (submit d u a s r s')
  from keepsD [OF follow_management(2) submit] show ?case .
next
  case (pause d u s r s')
  from keepsD [OF follow_management(3) pause] show ?case .
next
  case (approve d u s r s')
  from keepsD [OF follow_management(4) approve] show ?case .
next
  case (reject d u why s r s')
  from keepsD [OF follow_management(5) reject] show ?case .
next
  case (insert_all inserts s r s')
  from keepsD [OF follow_payments(1) insert_all] show ?case .
next
  case (create_direct i u s x s')
  from keepsD [OF follow_payments(2) create_direct] show ?case .
next
  case (delete_drafts d s r s')
  from keepsD [OF follow_payments(3) delete_drafts] show ?case .
next
  case (retry email ids s r s')
  from keepsD [OF follow_payments(5) retry] show ?case .
next
  case (cancel s r s')
  from keepsD [OF follow_payments(4) cancel] show ?case .
next
  case (others s' s os as ws rs rvs rws ds)
  then show ?case by (intro follow_same) (simp_all add: sdp_db_ok_def)
qed

text \<open>The history of a payment spells a run of the machine from the draft or ready status to its status.\<close>

definition history_spells :: "payment_row \<Rightarrow> bool" where
  "history_spells p \<longleftrightarrow> (case pm_StatusHistory p of [] \<Rightarrow> False
     | h # hs \<Rightarrow> ph_Status h \<in> {DraftPaymentStatus, ReadyPaymentStatus} \<and> runs payment_move (ph_Status h) (map ph_Status hs) (pm_Status p))"

lemma newborn_spells: "newborn p \<Longrightarrow> history_spells p"
  by (auto simp: newborn_def history_spells_def intro: runs.intros)

lemma follows_spells: "follows p p' \<Longrightarrow> history_spells p \<Longrightarrow> history_spells p'"
  by (auto simp: follows_def history_spells_def intro: runs_append split: list.splits)

text \<open>A completed payment has no further move.\<close>

lemma completed_final: "a \<in> set PaymentCompletedStatuses \<Longrightarrow> runs payment_move a path b \<Longrightarrow> path = []"
  by (cases path)
    (auto elim!: runs_consE simp: payment_move_def payment.transition_iff payment_listed PaymentCompletedStatuses_def payment_status_defs split: if_splits)

lemma follows_completed: "follows p p' \<Longrightarrow> pm_Status p \<in> set PaymentCompletedStatuses \<Longrightarrow> p' = p"
  by (auto simp: follows_def dest: completed_final)

end
