(* ===== verification/Disbursement_Moves.thy ===== *)
theory Disbursement_Moves
  imports Payment_Runs
begin

text \<open>
  What the operations on disbursements do when they succeed, and under which conditions: start, submit, pause,
  approve and reject, taken apart into the row that was read, the checks and the updates.
\<close>

section \<open>Programs that do not touch the disbursements\<close>

definition same_disbursements :: "'z platform_scheme \<Rightarrow> 'z platform_scheme \<Rightarrow> bool" where
  "same_disbursements s s' \<longleftrightarrow> disbursements s' = disbursements s \<and> organizations s' = organizations s \<and> conn_now s' = conn_now s"

interpretation same_disbursements: db_relation same_disbursements
  by unfold_locales (simp_all add: same_disbursements_def tss_rollback_def)

lemma same_disbursements_lift [keeps_intros]: "keeps same_disbursements (liftE x)"
  by (cases x) (simp_all add: keeps_def liftE_def throw_def ret_def same_disbursements_def)

lemma same_disbursements_net [keeps_intros]: "keeps same_disbursements (net_call f)"
  by (simp add: keeps_def net_call_def same_disbursements_def)

lemma same_disbursements_payments [keeps_intros]: "keeps same_disbursements (pm_set_status_exec st P f)"
  unfolding pm_set_status_exec_def pm_update_exec_def
  by (intro keeps_if same_disbursements.keeps_db_call) (simp_all add: Let_def same_disbursements_def throw_def)

lemma same_disbursements_wallets [keeps_intros]: "keeps same_disbursements (rw_update_exec P f)"
  unfolding rw_update_exec_def
  by (intro same_disbursements.keeps_db_call) (simp add: Let_def same_disbursements_def)

lemma same_disbursements_getall [keeps_intros]: "keeps same_disbursements (PaymentModel_GetAll ilike q ty)"
  unfolding PaymentModel_GetAll_def
  by (intro keeps_intros same_disbursements.keeps_db_call) (simp add: same_disbursements_def)

lemma same_disbursements_balance: "keeps same_disbursements (validateBalanceForDisbursement env a d)"
  unfolding validateBalanceForDisbursement_def by (intro keeps_intros)

lemma same_disbursements_statuses:
  "keeps same_disbursements (PaymentModel_UpdateStatusByDisbursementID i st)"
  "keeps same_disbursements (ReceiverWalletModel_UpdateStatusByDisbursementID i wst wst')"
  unfolding PaymentModel_UpdateStatusByDisbursementID_def ReceiverWalletModel_UpdateStatusByDisbursementID_def
  by (intro keeps_intros)+

section \<open>Reading\<close>

text \<open>Early returns with an error, taken apart.\<close>

lemma guard_ok:
  "(case x of Inl e \<Rightarrow> throw (h e) | Inr y \<Rightarrow> f y) s = (Inr r, s') \<longleftrightarrow> (\<exists>y. x = Inr y \<and> f y s = (Inr r, s'))"
  "(case z of None \<Rightarrow> throw e | Some y \<Rightarrow> f y) s = (Inr r, s') \<longleftrightarrow> (\<exists>y. z = Some y \<and> f y s = (Inr r, s'))"
  "(if b then throw e else m) s = (Inr r, s') \<longleftrightarrow> \<not> b \<and> m s = (Inr r, s')"
  by (auto simp: throw_def split: sum.splits option.splits)

definition approval_required :: "'z platform_scheme \<Rightarrow> bool" where
  "approval_required s \<longleftrightarrow> (case organizations s of [] \<Rightarrow> False | org # _ \<Rightarrow> org_IsApprovalRequired org)"

lemma Organization_ok:
  assumes "OrganizationModel_Get s = (Inr org, s')"
  shows "org_IsApprovalRequired org = approval_required s" and "\<exists>fs. s' = s\<lparr>conn_faults := fs\<rparr>"
proof -
  have "get_first (db_call (getsE organizations)) s = (Inr org, s')"
    using assms by (auto simp: OrganizationModel_Get_def handleE_def throw_def ret_def split: prod.splits sum.splits if_splits)
  then obtain orgs where q: "db_call (getsE organizations) s = (Inr orgs, s')" and "\<exists>rest. orgs = org # rest"
    by (auto simp: get_first_ok)
  from q obtain fs where "s' = s\<lparr>conn_faults := fs\<rparr>" "orgs = organizations s'" by (rule db_read_ok)
  then show "org_IsApprovalRequired org = approval_required s" "\<exists>fs. s' = s\<lparr>conn_faults := fs\<rparr>"
    using \<open>\<exists>rest. orgs = org # rest\<close> by (auto simp: approval_required_def)
qed

text \<open>The disbursement that was read: its row, with its wallet and asset.\<close>

definition read_disbursement :: "string \<Rightarrow> 'z platform_scheme \<Rightarrow> Disbursement \<Rightarrow> bool" where
  "read_disbursement i s d \<longleftrightarrow> ds_row d \<in> set (disbursements s) \<and> ds_ID (ds_row d) = i \<and>
     ds_Wallet d \<in> set (wallets s) \<and> wl_ID (ds_Wallet d) = ds_wallet_id (ds_row d) \<and>
     ds_Asset d \<in> set (assets s) \<and> as_ID (ds_Asset d) = ds_asset_id (ds_row d)"

lemma joined_disbursement_ok:
  assumes "joined_disbursement s row = Some d"
  shows "ds_row d = row \<and> ds_Wallet d \<in> set (wallets s) \<and> wl_ID (ds_Wallet d) = ds_wallet_id row \<and>
     ds_Asset d \<in> set (assets s) \<and> as_ID (ds_Asset d) = ds_asset_id row"
  using assms by (auto simp: joined_disbursement_def find_Some_iff split: option.split_asm)

lemma Get_ok:
  assumes "DisbursementModel_Get i s = (Inr d, s')"
  shows "read_disbursement i s d" and "\<exists>fs. s' = s\<lparr>conn_faults := fs\<rparr>"
proof -
  let ?q = "\<lambda>s. filter (\<lambda>d. ds_ID (ds_row d) = i) (select_disbursements s)"
  have "get_first (db_call (getsE ?q)) s = (Inr d, s')"
    using assms by (auto simp: DisbursementModel_Get_def get_disbursement_def handleE_def throw_def ret_def split: prod.splits sum.splits if_splits)
  then obtain ds where q: "db_call (getsE ?q) s = (Inr ds, s')" and "\<exists>rest. ds = d # rest"
    by (auto simp: get_first_ok)
  from q obtain fs where s': "s' = s\<lparr>conn_faults := fs\<rparr>" "ds = ?q s'" by (rule db_read_ok)
  with \<open>\<exists>rest. ds = d # rest\<close> have "d \<in> set (?q s')" by (metis list.set_intros(1))
  then have "read_disbursement i s' d"
    by (auto simp: select_disbursements_def in_map_filter read_disbursement_def dest: joined_disbursement_ok)
  with s' show "read_disbursement i s d" "\<exists>fs. s' = s\<lparr>conn_faults := fs\<rparr>" by (auto simp: read_disbursement_def)
qed

lemma GetWithStatistics_ok:
  assumes "DisbursementModel_GetWithStatistics env i s = (Inr d, s')"
  shows "read_disbursement i s d" and "\<exists>fs. s' = s\<lparr>conn_faults := fs\<rparr>"
    and "ds_DisbursementStats d = disbursement_stats env (payments_of i (payments s))"
proof -
  from assms obtain d0 s1 ds where get: "DisbursementModel_Get i s = (Inr d0, s1)"
    and pop: "populateStatistics env [d0] s1 = (Inr ds, s')" and d: "d = hd ds"
    by (auto simp: DisbursementModel_GetWithStatistics_def prog_ok)
  from pop have q: "db_call (getsE (\<lambda>s. map (\<lambda>d. d\<lparr>ds_DisbursementStats := disbursement_stats env (payments_of (ds_ID (ds_row d)) (payments s))\<rparr>) [d0])) s1 = (Inr ds, s')"
    by (simp add: populateStatistics_def prog_ok)
  note first = Get_ok [OF get]
  from q first(2) d show "read_disbursement i s d" "\<exists>fs. s' = s\<lparr>conn_faults := fs\<rparr>"
    "ds_DisbursementStats d = disbursement_stats env (payments_of i (payments s))"
    using first(1) by (auto elim!: db_read_ok simp: read_disbursement_def)
qed

lemma or_not_found_ok: "or_disbursement_not_found m s = (Inr d, s') \<longleftrightarrow> m s = (Inr d, s')"
  by (auto simp: or_disbursement_not_found_def handleE_def throw_def ret_def split: prod.splits sum.splits if_splits)

section \<open>Moving a disbursement\<close>

definition disbursement_moved ::
  "string \<Rightarrow> DisbursementStatus \<Rightarrow> string \<Rightarrow> string \<Rightarrow> disbursement_row \<Rightarrow> 'z platform_scheme \<Rightarrow> 'z platform_scheme \<Rightarrow> bool" where
  "disbursement_moved i target u reason d s s' \<longleftrightarrow> d \<in> set (disbursements s) \<and> ds_ID d = i \<and>
     DisbursementStatus_TransitionTo (ds_Status d) target = Inr () \<and>
     disbursements s' = sql_update (\<lambda>d. ds_ID d = i) (ds_touched (set_disbursement_status target u reason) (conn_now s)) (disbursements s)"

lemma ds_update_exec_ok:
  assumes "ds_update_exec P f s = (Inr rows, s')"
  obtains fs where "s' = s\<lparr>conn_faults := fs, disbursements := sql_update (P (payments s)) (ds_touched f (conn_now s)) (disbursements s)\<rparr>"
    and "disbursements_ok s'" and "rows = map (ds_touched f (conn_now s)) (filter (P (payments s)) (disbursements s))"
  using assms unfolding ds_update_exec_def by (elim db_call_cases) (auto simp: Let_def split: if_splits intro: that)

lemma filter_single:
  assumes "length (filter P xs) = 1"
  obtains x where "x \<in> set xs" and "P x" and "\<And>y. y \<in> set xs \<Longrightarrow> P y \<Longrightarrow> y = x"
proof -
  from assms obtain x where "filter P xs = [x]" by (metis One_nat_def length_0_conv length_Suc_conv)
  then have "set (filter P xs) = {x}" by simp
  then show ?thesis by (intro that [of x]) auto
qed

lemma updateStatus_ok:
  assumes run: "DisbursementModel_updateStatus u i target reason s = (Inr (), s')" and ids: "distinct (map ds_ID (disbursements s))"
  obtains d where "disbursement_moved i target u reason d s s'"
proof -
  let ?P = "\<lambda>d. ds_ID d = i \<and> ds_Status d \<in> set (DisbursementStatus_SourceStatuses target)"
  from run obtain rows where up: "ds_update_exec (\<lambda>_. ?P) (set_disbursement_status target u reason) s = (Inr rows, s')" and len: "length rows = 1"
    by (auto simp: DisbursementModel_updateStatus_def prog_ok split: if_splits)
  from up obtain fs where s': "s' = s\<lparr>conn_faults := fs, disbursements := sql_update ?P (ds_touched (set_disbursement_status target u reason) (conn_now s)) (disbursements s)\<rparr>"
    and "rows = map (ds_touched (set_disbursement_status target u reason) (conn_now s)) (filter ?P (disbursements s))"
    by (rule ds_update_exec_ok)
  with len have "length (filter ?P (disbursements s)) = 1" by simp
  then obtain d where d: "d \<in> set (disbursements s)" "?P d" by (rule filter_single)
  have "?P e = (ds_ID e = i)" if "e \<in> set (disbursements s)" for e
    using unique_by_key [OF ids that d(1)] d(2) by auto
  then have "sql_update ?P f (disbursements s) = sql_update (\<lambda>d. ds_ID d = i) f (disbursements s)" for f
    by (simp add: sql_update_def)
  with d s' show ?thesis by (intro that [of d]) (simp add: disbursement_moved_def source_statuses_iff)
qed

section \<open>The operations\<close>

text \<open>The balance that was checked.\<close>

definition balance_covers :: "sdp_env \<Rightarrow> TransactionAccount \<Rightarrow> Disbursement \<Rightarrow> 'z platform_scheme \<Rightarrow> bool" where
  "balance_covers env a d s \<longleftrightarrow> (\<exists>n balance st amount pending ps. GetBalance env n a (ds_Asset d) = Inr balance \<and>
     disbursement_stats env (payments_of (ds_ID (ds_row d)) (payments s)) = Some st \<and> disbursement_amount env st = Inr amount \<and>
     newPaymentQuery never_ilike (no_filters\<lparr>qp_Status := Some (Many PaymentInProgressStatuses)\<rparr>) QueryTypeSelectAll (base_payments s) = Inr ps \<and>
     total_pending env d 0 (removeEmptyDisbursementForDirect ps) = Inr pending \<and> amount + pending \<le> balance)"

lemma base_payments_other [simp]:
  "base_payments (s\<lparr>conn_faults := fs\<rparr>) = base_payments s" "base_payments (s\<lparr>tss_calls := n\<rparr>) = base_payments s"
proof -
  have "joined_payment (s\<lparr>tss_calls := n\<rparr>) = joined_payment s"
    by (rule ext) (simp add: joined_payment_def split: option.splits)
  then show "base_payments (s\<lparr>conn_faults := fs\<rparr>) = base_payments s" "base_payments (s\<lparr>tss_calls := n\<rparr>) = base_payments s"
    by (simp_all add: base_payments_def)
qed

lemma validateBalance_ok:
  assumes run: "validateBalanceForDisbursement env a d s = (Inr (), s')"
    and stats: "ds_DisbursementStats d = disbursement_stats env (payments_of (ds_ID (ds_row d)) (payments s))"
  shows "balance_covers env a d s"
proof -
  from run obtain balance where balance: "GetBalance env (tss_calls s) a (ds_Asset d) = Inr balance"
    and rest: "(case ds_DisbursementStats d of None \<Rightarrow> throw NilDereference
     | Some st \<Rightarrow>
         bindE (liftE (disbursement_amount env st)) (\<lambda>disbursementAmount.
         bindE (wrapE ''cannot retrieve incomplete payments'' (PaymentModel_GetAll never_ilike
                  (no_filters\<lparr>qp_Status := Some (Many PaymentInProgressStatuses)\<rparr>) QueryTypeSelectAll)) (\<lambda>incompletePayments.
         bindE (liftE (total_pending env d 0 incompletePayments)) (\<lambda>totalPendingAmount.
         if balance < disbursementAmount + totalPendingAmount then throw InsufficientBalanceError
         else ret ())))) (s\<lparr>tss_calls := Suc (tss_calls s)\<rparr>) = (Inr (), s')"
    by (cases "GetBalance env (tss_calls s) a (ds_Asset d)")
      (simp_all add: validateBalanceForDisbursement_def net_call_def liftE_def bindE_def wrapE_def handleE_def throw_def ret_def)
  from rest obtain st where st: "ds_DisbursementStats d = Some st" by (cases "ds_DisbursementStats d") (simp_all add: throw_def)
  with rest obtain amount ps s2 pending where amount: "disbursement_amount env st = Inr amount"
    and query: "PaymentModel_GetAll never_ilike (no_filters\<lparr>qp_Status := Some (Many PaymentInProgressStatuses)\<rparr>) QueryTypeSelectAll
      (s\<lparr>tss_calls := Suc (tss_calls s)\<rparr>) = (Inr ps, s2)"
    and pending: "total_pending env d 0 ps = Inr pending" and le: "amount + pending \<le> balance"
    by (auto simp: prog_ok liftE_ok not_less split: if_split_asm)
  from query obtain qs where q: "db_call (\<lambda>s. (newPaymentQuery never_ilike (no_filters\<lparr>qp_Status := Some (Many PaymentInProgressStatuses)\<rparr>)
      QueryTypeSelectAll (base_payments s), s)) (s\<lparr>tss_calls := Suc (tss_calls s)\<rparr>) = (Inr qs, s2)" and ps: "ps = removeEmptyDisbursementForDirect qs"
    by (auto simp: PaymentModel_GetAll_def prog_ok)
  from q have "newPaymentQuery never_ilike (no_filters\<lparr>qp_Status := Some (Many PaymentInProgressStatuses)\<rparr>) QueryTypeSelectAll (base_payments s) = Inr qs"
    by (elim db_call_cases) auto
  with balance st stats amount pending le ps show ?thesis unfolding balance_covers_def by auto
qed

definition same_wallets :: "'z platform_scheme \<Rightarrow> 'z platform_scheme \<Rightarrow> bool" where
  "same_wallets s s' \<longleftrightarrow> payments s' = payments s \<and> receiver_wallets s' = receiver_wallets s"

interpretation same_wallets: db_relation same_wallets
  by unfold_locales (simp_all add: same_wallets_def tss_rollback_def)

lemma same_wallets_lift [keeps_intros]: "keeps same_wallets (liftE x)"
  by (cases x) (simp_all add: keeps_def liftE_def throw_def ret_def same_wallets_def)

lemma same_wallets_balance: "keeps same_wallets (validateBalanceForDisbursement env a d)"
proof -
  have "keeps same_wallets (net_call f)" for f by (simp add: keeps_def net_call_def same_wallets_def)
  moreover have "keeps same_wallets (PaymentModel_GetAll ilike q ty)" for ilike q ty
    unfolding PaymentModel_GetAll_def by (intro keeps_intros same_wallets.keeps_db_call) (simp add: same_wallets_def)
  ultimately show ?thesis
    unfolding validateBalanceForDisbursement_def by (intro keeps_intros)
qed

lemma same_wallets_status: "keeps same_wallets (DisbursementModel_updateStatus u i st r)"
  unfolding DisbursementModel_updateStatus_def ds_update_exec_def
  by (intro keeps_intros same_wallets.keeps_db_call) (simp add: Let_def same_wallets_def)

text \<open>What starting a disbursement does: its drafted and paused payments become ready, the draft receiver wallets of its
  payments become ready, and the disbursement becomes started by the user.\<close>

definition ready_payments :: "string \<Rightarrow> int \<Rightarrow> payment_row list \<Rightarrow> payment_row list" where
  "ready_payments i now = sql_update (\<lambda>p. pm_disbursement_id p = Some i \<and> PaymentStatus_TransitionTo (pm_Status p) ReadyPaymentStatus = Inr ())
     (pm_touched (set_payment_status ReadyPaymentStatus []) now)"

definition paused_payments :: "string \<Rightarrow> int \<Rightarrow> payment_row list \<Rightarrow> payment_row list" where
  "paused_payments i now = sql_update (\<lambda>p. pm_disbursement_id p = Some i \<and> PaymentStatus_TransitionTo (pm_Status p) PausedPaymentStatus = Inr ())
     (pm_touched (set_payment_status PausedPaymentStatus []) now)"

definition ready_wallets :: "string \<Rightarrow> int \<Rightarrow> payment_row list \<Rightarrow> ReceiverWallet list \<Rightarrow> ReceiverWallet list" where
  "ready_wallets i now ps = sql_update (\<lambda>r. rw_Status r = DraftReceiversWalletStatus \<and> rw_ID r \<in> set (map pm_receiver_wallet_id (payments_of i ps)))
     (rw_touched (set_wallet_status ReadyReceiversWalletStatus) now)"

definition disbursement_started_by :: "string \<Rightarrow> string \<Rightarrow> disbursement_row \<Rightarrow> 'z platform_scheme \<Rightarrow> 'z platform_scheme \<Rightarrow> bool" where
  "disbursement_started_by i u d s s' \<longleftrightarrow> disbursement_moved i StartedDisbursementStatus u [] d s s' \<and>
     payments s' = ready_payments i (conn_now s) (payments s) \<and> receiver_wallets s' = ready_wallets i (conn_now s) (payments s) (receiver_wallets s)"

lemma UpdateStatusByDisbursementID_ok:
  assumes "PaymentModel_UpdateStatusByDisbursementID i st s = (Inr (), s')"
  obtains fs where "s' = s\<lparr>conn_faults := fs, payments := sql_update (\<lambda>p. pm_disbursement_id p = Some i \<and> PaymentStatus_TransitionTo (pm_Status p) st = Inr ())
     (pm_touched (set_payment_status st []) (conn_now s)) (payments s)\<rparr>"
proof -
  let ?P = "\<lambda>p. pm_disbursement_id p = Some i \<and> pm_Status p \<in> set (PaymentStatus_SourceStatuses st)"
  have P: "?P = (\<lambda>p. pm_disbursement_id p = Some i \<and> PaymentStatus_TransitionTo (pm_Status p) st = Inr ())"
    by (simp add: source_statuses_iff fun_eq_iff)
  from assms obtain m where run: "pm_set_status_exec st ?P (set_payment_status st []) s = (Inr m, s')"
    by (auto simp: PaymentModel_UpdateStatusByDisbursementID_def prog_ok)
  then have "pm_update_exec ?P (set_payment_status st []) s = (Inr m, s')"
    by (auto simp: pm_set_status_exec_def db_call_def throw_def split: if_splits list.splits fault.splits)
  then show ?thesis unfolding P by (rule pm_update_exec_ok) (rule that)
qed

lemma wallets_ready_ok:
  assumes "ReceiverWalletModel_UpdateStatusByDisbursementID i DraftReceiversWalletStatus ReadyReceiversWalletStatus s = (Inr (), s')"
  obtains fs where "s' = s\<lparr>conn_faults := fs, receiver_wallets := ready_wallets i (conn_now s) (payments s) (receiver_wallets s)\<rparr>"
proof -
  from assms obtain m where "rw_update_exec (\<lambda>ps r. rw_Status r = DraftReceiversWalletStatus \<and> rw_ID r \<in> set (map pm_receiver_wallet_id (payments_of i ps)))
      (set_wallet_status ReadyReceiversWalletStatus) s = (Inr m, s')"
    by (auto simp: ReceiverWalletModel_UpdateStatusByDisbursementID_def prog_ok split: sum.splits)
  then show ?thesis
    unfolding rw_update_exec_def by (elim db_call_cases) (auto simp: Let_def ready_wallets_def split: if_splits intro: that)
qed

lemma ready_payments_wallets: "map pm_receiver_wallet_id (payments_of i (ready_payments j now ps)) = map pm_receiver_wallet_id (payments_of i ps)"
  by (induction ps) (auto simp: payments_of_def ready_payments_def sql_update_def payment_update_defs)

lemma mark_started_ok:
  fixes s s' :: "'z platform_scheme"
  assumes run: "mark_started u i s = (Inr (), s')" and ids: "distinct (map ds_ID (disbursements s))"
  obtains d where "disbursement_started_by i u d s s'"
proof -
  from run obtain s1 s2 where pay: "PaymentModel_UpdateStatusByDisbursementID i ReadyPaymentStatus s = (Inr (), s1)"
    and wal: "ReceiverWalletModel_UpdateStatusByDisbursementID i DraftReceiversWalletStatus ReadyReceiversWalletStatus s1 = (Inr (), s2)"
    and dis: "DisbursementModel_updateStatus u i StartedDisbursementStatus [] s2 = (Inr (), s')"
    by (auto simp: mark_started_def prog_ok DisbursementModel_UpdateStatus_def)
  from pay obtain fs where s1: "s1 = s\<lparr>conn_faults := fs, payments := ready_payments i (conn_now s) (payments s)\<rparr>"
    by (rule UpdateStatusByDisbursementID_ok) (simp add: ready_payments_def)
  from wal obtain gs where s2: "s2 = s1\<lparr>conn_faults := gs, receiver_wallets := ready_wallets i (conn_now s1) (payments s1) (receiver_wallets s1)\<rparr>"
    by (rule wallets_ready_ok)
  have same: "disbursements s2 = disbursements s" "conn_now s2 = conn_now s" by (simp_all add: s1 s2)
  from updateStatus_ok [OF dis] ids same obtain d where d: "disbursement_moved i StartedDisbursementStatus u [] d s2 s'" by metis
  have "payments s' = payments s2 \<and> receiver_wallets s' = receiver_wallets s2"
    using keepsD [OF same_wallets_status dis] by (simp add: same_wallets_def)
  with d s1 s2 same show ?thesis
    by (intro that [of d]) (simp add: disbursement_started_by_def disbursement_moved_def ready_wallets_def ready_payments_wallets)
qed

text \<open>The conditions under which each operation succeeds, and what it does then.\<close>

definition start_allowed :: "sdp_env \<Rightarrow> string \<Rightarrow> string \<Rightarrow> TransactionAccount \<Rightarrow> Disbursement \<Rightarrow> 'z platform_scheme \<Rightarrow> bool" where
  "start_allowed env i u a d s \<longleftrightarrow> read_disbursement i s d \<and> wl_Enabled (ds_Wallet d) \<and>
     (approval_required s \<longrightarrow> ds_Status (ds_row d) = ApprovedDisbursementStatus \<and> \<not> created_by u (ds_row d)) \<and> balance_covers env a d s"

definition submit_allowed :: "sdp_env \<Rightarrow> string \<Rightarrow> TransactionAccount \<Rightarrow> Disbursement \<Rightarrow> 'z platform_scheme \<Rightarrow> bool" where
  "submit_allowed env i a d s \<longleftrightarrow> read_disbursement i s d \<and> wl_Enabled (ds_Wallet d) \<and>
     ds_Status (ds_row d) = ApprovedDisbursementStatus \<and> balance_covers env a d s"

lemma moved_row:
  assumes "disbursement_moved i st u r d s s'" and "read_disbursement i s0 e" and "disbursements s0 = disbursements s" and "distinct (map ds_ID (disbursements s))"
  shows "d = ds_row e"
  using assms unique_by_key [OF assms(4), of d "ds_row e"] by (auto simp: disbursement_moved_def read_disbursement_def)

lemma moved_same: "disbursement_moved i st u r d s s' \<Longrightarrow> disbursements s0 = disbursements s \<Longrightarrow> conn_now s0 = conn_now s \<Longrightarrow> disbursement_moved i st u r d s0 s'"
  by (simp add: disbursement_moved_def)

lemma start_end_ok:
  fixes s s' :: "'z platform_scheme"
  assumes check: "validateBalanceForDisbursement env a d s1 = (Inr (), s2)" and start: "mark_started u i s2 = (Inr (), s')"
    and read: "read_disbursement i s d" and stats: "ds_DisbursementStats d = disbursement_stats env (payments_of i (payments s))"
    and s1: "\<exists>fs. s1 = s\<lparr>conn_faults := fs\<rparr>" and ids: "distinct (map ds_ID (disbursements s))"
  shows "balance_covers env a d s" and "disbursement_started_by i u (ds_row d) s s'"
proof -
  from s1 obtain fs where s1: "s1 = s\<lparr>conn_faults := fs\<rparr>" by blast
  have "ds_ID (ds_row d) = i" using read by (simp add: read_disbursement_def)
  with validateBalance_ok [OF check] stats show "balance_covers env a d s"
    by (simp add: s1 balance_covers_def)
  have same: "disbursements s2 = disbursements s" "conn_now s2 = conn_now s" "payments s2 = payments s" "receiver_wallets s2 = receiver_wallets s"
    using keepsD [OF same_disbursements_balance check] keepsD [OF same_wallets_balance check]
    by (simp_all add: s1 same_disbursements_def same_wallets_def)
  from mark_started_ok [OF start] ids same obtain e where e: "disbursement_started_by i u e s2 s'" by metis
  then have "e = ds_row d"
    using read ids same moved_row [of i StartedDisbursementStatus u "[]" e s2 s' s d] by (simp add: disbursement_started_by_def)
  with e same show "disbursement_started_by i u (ds_row d) s s'"
    by (simp add: disbursement_started_by_def disbursement_moved_def)
qed

lemma start_body_ok:
  fixes s s' :: "'z platform_scheme"
  assumes run: "start_body env i u a s = (Inr (), s')" and ids: "distinct (map ds_ID (disbursements s))"
  obtains d where "start_allowed env i u a d s" and "disbursement_started_by i u (ds_row d) s s'"
proof -
  from run obtain d s1 org s2 s3 where get: "DisbursementModel_GetWithStatistics env i s = (Inr d, s1)" and enabled: "wl_Enabled (ds_Wallet d)"
    and org: "OrganizationModel_Get s1 = (Inr org, s2)"
    and approval: "org_IsApprovalRequired org \<longrightarrow> ds_Status (ds_row d) = ApprovedDisbursementStatus \<and> \<not> created_by u (ds_row d)"
    and check: "validateBalanceForDisbursement env a d s2 = (Inr (), s3)" and start: "mark_started u i s3 = (Inr (), s')"
    by (auto simp: start_body_def prog_ok or_not_found_ok guard_ok)
  note read = GetWithStatistics_ok [OF get]
  note org = Organization_ok [OF org]
  from read(2) org(2) have s2: "\<exists>fs. s2 = s\<lparr>conn_faults := fs\<rparr>" by auto
  from read(2) org(1) have "org_IsApprovalRequired org = approval_required s" by (auto simp: approval_required_def)
  with start_end_ok [OF check start read(1,3) s2 ids] read(1) enabled approval show ?thesis
    by (intro that [of d]) (simp_all add: start_allowed_def)
qed

lemma submit_body_ok:
  fixes s s' :: "'z platform_scheme"
  assumes run: "submit_body env i u a s = (Inr (), s')" and ids: "distinct (map ds_ID (disbursements s))"
  obtains d where "submit_allowed env i a d s" and "disbursement_started_by i u (ds_row d) s s'"
proof -
  from run obtain d s1 s3 where get: "DisbursementModel_GetWithStatistics env i s = (Inr d, s1)" and enabled: "wl_Enabled (ds_Wallet d)"
    and st: "ds_Status (ds_row d) = ApprovedDisbursementStatus"
    and check: "validateBalanceForDisbursement env a d s1 = (Inr (), s3)" and start: "mark_started u i s3 = (Inr (), s')"
    by (auto simp: submit_body_def prog_ok or_not_found_ok guard_ok)
  note read = GetWithStatistics_ok [OF get]
  with start_end_ok [OF check start read(1,3,2) ids] enabled st show ?thesis
    by (intro that [of d]) (simp_all add: submit_allowed_def)
qed

lemma pause_body_ok:
  fixes s s' :: "'z platform_scheme"
  assumes run: "pause_body i u s = (Inr (), s')" and ids: "distinct (map ds_ID (disbursements s))"
  obtains d where "disbursement_moved i PausedDisbursementStatus u [] d s s'" and "payments s' = paused_payments i (conn_now s) (payments s)"
proof -
  from run obtain d s1 s2 where get: "DisbursementModel_Get i s = (Inr d, s1)"
    and pay: "PaymentModel_UpdateStatusByDisbursementID i PausedPaymentStatus s1 = (Inr (), s2)"
    and dis: "DisbursementModel_updateStatus u i PausedDisbursementStatus [] s2 = (Inr (), s')"
    by (auto simp: pause_body_def prog_ok or_not_found_ok DisbursementModel_UpdateStatus_def guard_ok)
  from Get_ok(2) [OF get] obtain gs where s1: "s1 = s\<lparr>conn_faults := gs\<rparr>" by blast
  from pay obtain fs where s2: "s2 = s1\<lparr>conn_faults := fs, payments := paused_payments i (conn_now s1) (payments s1)\<rparr>"
    by (rule UpdateStatusByDisbursementID_ok) (simp add: paused_payments_def)
  have same: "disbursements s2 = disbursements s" "conn_now s2 = conn_now s" by (simp_all add: s1 s2)
  from updateStatus_ok [OF dis] ids same obtain e where e: "disbursement_moved i PausedDisbursementStatus u [] e s2 s'" by metis
  have "payments s' = payments s2" using keepsD [OF same_wallets_status dis] by (simp add: same_wallets_def)
  with e same s1 s2 show ?thesis by (intro that [of e]) (simp_all add: disbursement_moved_def)
qed

lemma approve_body_ok:
  fixes s s' :: "'z platform_scheme"
  assumes run: "approve_body i u s = (Inr (), s')" and ids: "distinct (map ds_ID (disbursements s))"
  obtains d where "disbursement_moved i ApprovedDisbursementStatus u [] d s s'" and "approval_required s \<longrightarrow> \<not> created_by u d"
proof -
  from run obtain d s1 org s2 where get: "DisbursementModel_Get i s = (Inr d, s1)" and org: "OrganizationModel_Get s1 = (Inr org, s2)"
    and approval: "org_IsApprovalRequired org \<longrightarrow> \<not> created_by u (ds_row d)"
    and dis: "DisbursementModel_updateStatus u i ApprovedDisbursementStatus [] s2 = (Inr (), s')"
    by (auto simp: approve_body_def prog_ok or_not_found_ok DisbursementModel_UpdateStatus_def guard_ok)
  from Get_ok(2) [OF get] Organization_ok(2) [OF org] obtain fs where s2: "s2 = s\<lparr>conn_faults := fs\<rparr>" by auto
  from Get_ok(2) [OF get] Organization_ok(1) [OF org] have req: "org_IsApprovalRequired org = approval_required s" by (auto simp: approval_required_def)
  from updateStatus_ok [OF dis] ids s2 obtain e where e: "disbursement_moved i ApprovedDisbursementStatus u [] e s2 s'" by auto
  from moved_row [OF e Get_ok(1) [OF get]] ids s2 have "e = ds_row d" by simp
  with e s2 approval req show ?thesis by (intro that [of e]) (simp_all add: disbursement_moved_def)
qed

lemma reject_body_ok:
  fixes s s' :: "'z platform_scheme"
  assumes run: "reject_body i u reason s = (Inr (), s')" and ids: "distinct (map ds_ID (disbursements s))"
  obtains d target where "disbursement_moved i target u reason d s s'" and "rejection_target (ds_Status d) = Some target"
proof -
  from run obtain d s1 target where get: "DisbursementModel_Get i s = (Inr d, s1)" and target: "rejection_target (ds_Status (ds_row d)) = Some target"
    and dis: "DisbursementModel_updateStatus u i target reason s1 = (Inr (), s')"
    by (auto simp: reject_body_def prog_ok or_not_found_ok DisbursementModel_UpdateStatusWithReason_def guard_ok)
  from Get_ok(2) [OF get] obtain fs where s1: "s1 = s\<lparr>conn_faults := fs\<rparr>" by auto
  from updateStatus_ok [OF dis] ids s1 obtain e where e: "disbursement_moved i target u reason e s1 s'" by auto
  from moved_row [OF e Get_ok(1) [OF get]] ids s1 have "e = ds_row d" by simp
  with e s1 target show ?thesis by (intro that [of target e]) (simp_all add: disbursement_moved_def)
qed

end
