(* ===== verification/Disbursement_Rules.thy ===== *)
theory Disbursement_Rules
  imports Disbursement_Moves
begin

text \<open>
  What the management operations of a disbursement do, as transactions: each either fails and leaves the payments, the
  disbursements and the receiver wallets as they were, or has its whole effect, under its conditions. And the rule of
  four eyes over the status history, with the fact that every status change of the code respects it.
\<close>

section \<open>All or nothing\<close>

definition unchanged :: "'z platform_scheme \<Rightarrow> 'z platform_scheme \<Rightarrow> bool" where
  "unchanged s s' \<longleftrightarrow> payments s' = payments s \<and> disbursements s' = disbursements s \<and> receiver_wallets s' = receiver_wallets s"

lemma in_transaction:
  assumes "RunInTransaction sdp_rollback m s = (r, s')"
    and "\<And>fs s2. m (s\<lparr>conn_faults := fs\<rparr>) = (Inr (), s2) \<Longrightarrow> Q s2" and "\<And>s2 gs. Q s2 \<Longrightarrow> Q (s2\<lparr>conn_faults := gs\<rparr>)"
  shows "isl r \<and> unchanged s s' \<or> Q s'"
  using assms(1)
proof (cases rule: sdp_transaction_cases)
  case rolled_back
  then show ?thesis by (auto simp: unchanged_def isl_def)
next
  case (committed fs gs s2)
  with assms(2,3) show ?thesis by simp
qed

lemma allowed_faults [simp]:
  "start_allowed env i u a d (s\<lparr>conn_faults := fs\<rparr>) = start_allowed env i u a d s"
  "submit_allowed env i a d (s\<lparr>conn_faults := fs\<rparr>) = submit_allowed env i a d s"
  "disbursement_started_by i u e (s\<lparr>conn_faults := fs\<rparr>) t = disbursement_started_by i u e s t"
  "disbursement_started_by i u e s (t\<lparr>conn_faults := fs\<rparr>) = disbursement_started_by i u e s t"
  "disbursement_moved i st u why e (s\<lparr>conn_faults := fs\<rparr>) t = disbursement_moved i st u why e s t"
  "disbursement_moved i st u why e s (t\<lparr>conn_faults := fs\<rparr>) = disbursement_moved i st u why e s t"
  "approval_required (s\<lparr>conn_faults := fs\<rparr>) = approval_required s"
  by (simp_all add: start_allowed_def submit_allowed_def read_disbursement_def balance_covers_def approval_required_def
      disbursement_started_by_def disbursement_moved_def)

lemma start_outcome:
  fixes s s' :: "'z platform_scheme"
  assumes "StartDisbursement env i u a s = (r, s')" and "distinct (map ds_ID (disbursements s))"
  shows "isl r \<and> unchanged s s' \<or> (\<exists>d. start_allowed env i u a d s \<and> disbursement_started_by i u (ds_row d) s s')"
  using assms(1) unfolding StartDisbursement_def
proof (rule in_transaction)
  fix fs and s2 :: "'z platform_scheme" assume "start_body env i u a (s\<lparr>conn_faults := fs\<rparr>) = (Inr (), s2)"
  then show "\<exists>d. start_allowed env i u a d s \<and> disbursement_started_by i u (ds_row d) s s2"
    by (rule start_body_ok) (use assms(2) in auto)
qed simp

lemma submit_outcome:
  fixes s s' :: "'z platform_scheme"
  assumes "SubmitDisbursement env i u a s = (r, s')" and "distinct (map ds_ID (disbursements s))"
  shows "isl r \<and> unchanged s s' \<or> (\<exists>d. submit_allowed env i a d s \<and> disbursement_started_by i u (ds_row d) s s')"
  using assms(1) unfolding SubmitDisbursement_def
proof (rule in_transaction)
  fix fs and s2 :: "'z platform_scheme" assume "submit_body env i u a (s\<lparr>conn_faults := fs\<rparr>) = (Inr (), s2)"
  then show "\<exists>d. submit_allowed env i a d s \<and> disbursement_started_by i u (ds_row d) s s2"
    by (rule submit_body_ok) (use assms(2) in auto)
qed simp

lemma pause_outcome:
  fixes s s' :: "'z platform_scheme"
  assumes "PauseDisbursement i u s = (r, s')" and "distinct (map ds_ID (disbursements s))"
  shows "isl r \<and> unchanged s s' \<or> (\<exists>d. disbursement_moved i PausedDisbursementStatus u [] d s s' \<and> payments s' = paused_payments i (conn_now s) (payments s))"
  using assms(1) unfolding PauseDisbursement_def
proof (rule in_transaction)
  fix fs and s2 :: "'z platform_scheme" assume "pause_body i u (s\<lparr>conn_faults := fs\<rparr>) = (Inr (), s2)"
  then show "\<exists>d. disbursement_moved i PausedDisbursementStatus u [] d s s2 \<and> payments s2 = paused_payments i (conn_now s) (payments s)"
    by (rule pause_body_ok) (use assms(2) in auto)
qed simp

lemma approve_outcome:
  fixes s s' :: "'z platform_scheme"
  assumes "ApproveDisbursement i u s = (r, s')" and "distinct (map ds_ID (disbursements s))"
  shows "isl r \<and> unchanged s s' \<or> (\<exists>d. disbursement_moved i ApprovedDisbursementStatus u [] d s s' \<and> (approval_required s \<longrightarrow> \<not> created_by u d))"
  using assms(1) unfolding ApproveDisbursement_def
proof (rule in_transaction)
  fix fs and s2 :: "'z platform_scheme" assume "approve_body i u (s\<lparr>conn_faults := fs\<rparr>) = (Inr (), s2)"
  then show "\<exists>d. disbursement_moved i ApprovedDisbursementStatus u [] d s s2 \<and> (approval_required s \<longrightarrow> \<not> created_by u d)"
    by (rule approve_body_ok) (use assms(2) in auto)
qed simp

lemma reject_outcome:
  fixes s s' :: "'z platform_scheme"
  assumes "RejectDisbursement i u why s = (r, s')" and "distinct (map ds_ID (disbursements s))"
  shows "isl r \<and> unchanged s s' \<or> (\<exists>d target. disbursement_moved i target u why d s s' \<and> rejection_target (ds_Status d) = Some target)"
proof (cases "TrimSpace why = []")
  case True
  with assms(1) show ?thesis by (auto simp: RejectDisbursement_def throw_def unchanged_def)
next
  case False
  with assms(1) have "RunInTransaction sdp_rollback (reject_body i u why) s = (r, s')" by (simp add: RejectDisbursement_def)
  then show ?thesis
  proof (rule in_transaction)
    fix fs and s2 :: "'z platform_scheme" assume "reject_body i u why (s\<lparr>conn_faults := fs\<rparr>) = (Inr (), s2)"
    then show "\<exists>d target. disbursement_moved i target u why d s s2 \<and> rejection_target (ds_Status d) = Some target"
      by (rule reject_body_ok) (use assms(2) in auto)
  qed simp
qed

section \<open>Approval by somebody else\<close>

text \<open>The history holds an approval by a user who drafted or uploaded nothing before it, and nothing was
  drafted or uploaded after it.\<close>

definition drafted_by :: "string \<Rightarrow> DisbursementStatusHistoryEntry \<Rightarrow> bool" where
  "drafted_by u h \<longleftrightarrow> dh_UserID h = u \<and> dh_Status h \<in> {DraftDisbursementStatus, ReadyDisbursementStatus}"

definition approved_by_another :: "DisbursementStatusHistoryEntry list \<Rightarrow> bool" where
  "approved_by_another hs \<longleftrightarrow> (\<exists>pre h post. hs = pre @ h # post \<and> dh_Status h = ApprovedDisbursementStatus \<and>
     list_all (\<lambda>g. \<not> drafted_by (dh_UserID h) g) pre \<and> list_all (\<lambda>g. dh_Status g \<notin> {DraftDisbursementStatus, ReadyDisbursementStatus}) post)"

definition four_eyes :: "disbursement_row \<Rightarrow> bool" where
  "four_eyes d \<longleftrightarrow> (ds_Status d \<in> {ApprovedDisbursementStatus, StartedDisbursementStatus, PausedDisbursementStatus, CompletedDisbursementStatus} \<longrightarrow>
     approved_by_another (ds_StatusHistory d))"

lemma approved_by_another_append:
  "approved_by_another hs \<Longrightarrow> dh_Status g \<notin> {DraftDisbursementStatus, ReadyDisbursementStatus} \<Longrightarrow> approved_by_another (hs @ [g])"
  unfolding approved_by_another_def by (elim exE conjE) (rule exI, rule exI, rule_tac x = "post @ [g]" in exI, simp)

lemma four_eyes_step:
  assumes "four_eyes d"
    and "target \<in> {DraftDisbursementStatus, ReadyDisbursementStatus} \<or>
      target \<in> {StartedDisbursementStatus, PausedDisbursementStatus, CompletedDisbursementStatus} \<and>
        ds_Status d \<in> {ApprovedDisbursementStatus, StartedDisbursementStatus, PausedDisbursementStatus} \<or>
      target = ApprovedDisbursementStatus \<and> \<not> created_by u d"
  shows "four_eyes (ds_touched (set_disbursement_status target u why) now d)"
proof (cases "target = ApprovedDisbursementStatus")
  case True
  then have "\<not> created_by u d" using assms(2) by (auto simp: disbursement_status_defs)
  then have "approved_by_another (ds_StatusHistory d @ [disbursement_history now ApprovedDisbursementStatus u why])"
    unfolding approved_by_another_def
    by (intro exI [of _ "ds_StatusHistory d"] exI [of _ "disbursement_history now ApprovedDisbursementStatus u why"] exI [of _ "[]"])
      (auto simp: disbursement_history_def drafted_by_def created_by_def list_all_iff list_ex_iff)
  with True show ?thesis by (simp add: four_eyes_def ds_touched_def set_disbursement_status_def)
next
  case False
  let ?d = "ds_touched (set_disbursement_status target u why) now d"
  have st: "ds_Status ?d = target" and hs: "ds_StatusHistory ?d = ds_StatusHistory d @ [disbursement_history now target u why]"
    by (simp_all add: ds_touched_def set_disbursement_status_def)
  from False assms(2) consider (early) "target \<in> {DraftDisbursementStatus, ReadyDisbursementStatus}"
    | (late) "target \<in> {StartedDisbursementStatus, PausedDisbursementStatus, CompletedDisbursementStatus}"
        "ds_Status d \<in> {ApprovedDisbursementStatus, StartedDisbursementStatus, PausedDisbursementStatus}" by blast
  then show ?thesis
  proof cases
    case early
    then show ?thesis unfolding four_eyes_def st by (auto simp: disbursement_status_defs)
  next
    case late
    from late(2) have "approved_by_another (ds_StatusHistory d)" using assms(1) unfolding four_eyes_def by blast
    moreover from late(1) have "target \<notin> {DraftDisbursementStatus, ReadyDisbursementStatus}" by (auto simp: disbursement_status_defs)
    ultimately show ?thesis unfolding four_eyes_def hs by (simp add: approved_by_another_append disbursement_history_def)
  qed
qed

end
