(* ===== verification/Registration_Rules.thy ===== *)
theory Registration_Rules
  imports Registration Disbursement_Rules
begin

text \<open>
  What the verification of a registration may change: a wallet becomes registered only with its one-time password
  and with the verification value of its receiver, and a failed attempt is counted, up to the limits.
\<close>

section \<open>What a failed attempt changes\<close>

definition guessed_wallet :: "ReceiverWallet \<Rightarrow> ReceiverWallet \<Rightarrow> bool" where
  "guessed_wallet w w' \<longleftrightarrow> (\<exists>n u. w' = w\<lparr>rw_OTPAttempts := n, rw_UpdatedAt := u\<rparr> \<and> (n = rw_OTPAttempts w \<or> n \<le> OTPMaxAttempts))"

definition guessed_verification :: "ReceiverVerification \<Rightarrow> ReceiverVerification \<Rightarrow> bool" where
  "guessed_verification v v' \<longleftrightarrow> (\<exists>n f c u. v' = v\<lparr>rv_Attempts := n, rv_FailedAt := f, rv_VerificationChannel := c, rv_UpdatedAt := u\<rparr> \<and>
     (n = rv_Attempts v \<or> n \<le> MaxAttemptsAllowed))"

lemma guessed_refl [simp]: "guessed_wallet w w" "guessed_verification v v"
  unfolding guessed_wallet_def guessed_verification_def
  by (intro exI [of _ "rw_OTPAttempts w"] exI [of _ "rw_UpdatedAt w"]; simp)
    (intro exI [of _ "rv_Attempts v"] exI [of _ "rv_FailedAt v"] exI [of _ "rv_VerificationChannel v"] exI [of _ "rv_UpdatedAt v"]; simp)

lemma guessed_trans:
  "guessed_wallet a b \<Longrightarrow> guessed_wallet b c \<Longrightarrow> guessed_wallet a c"
  "guessed_verification p q \<Longrightarrow> guessed_verification q r \<Longrightarrow> guessed_verification p r"
  unfolding guessed_wallet_def guessed_verification_def by force+

definition same_rest :: "'z platform_scheme \<Rightarrow> 'z platform_scheme \<Rightarrow> bool" where
  "same_rest s t \<longleftrightarrow> organizations t = organizations s \<and> assets t = assets s \<and> wallets t = wallets s \<and> receivers t = receivers s \<and>
     disbursements t = disbursements s \<and> payments t = payments s \<and> conn_now t = conn_now s \<and>
     submitter_transactions t = submitter_transactions s \<and> channel_accounts t = channel_accounts s \<and> tss_log t = tss_log s"

definition pool_statement :: "'z registration_scheme \<Rightarrow> 'z registration_scheme \<Rightarrow> bool" where
  "pool_statement s t \<longleftrightarrow> same_rest s t \<and> pool_wallets t = pool_wallets s \<and> pool_verifications t = pool_verifications s \<and>
     list_all2 guessed_wallet (receiver_wallets s) (receiver_wallets t) \<and>
     list_all2 guessed_verification (receiver_verifications s) (receiver_verifications t)"

definition pool_kept :: "'z registration_scheme \<Rightarrow> 'z registration_scheme \<Rightarrow> bool" where
  "pool_kept s t \<longleftrightarrow> same_rest s t \<and> list_all2 guessed_wallet (pool_wallets s) (pool_wallets t) \<and>
     list_all2 guessed_verification (pool_verifications s) (pool_verifications t)"

lemma all2_guessed_refl [simp]: "list_all2 guessed_wallet ws ws" "list_all2 guessed_verification vs vs"
  by (simp_all add: list_all2_same)

lemma all2_guessed_trans:
  "list_all2 guessed_wallet a b \<Longrightarrow> list_all2 guessed_wallet b c \<Longrightarrow> list_all2 guessed_wallet a c"
  "list_all2 guessed_verification p q \<Longrightarrow> list_all2 guessed_verification q r \<Longrightarrow> list_all2 guessed_verification p r"
  by (rule list_all2_trans [OF guessed_trans(1)]; assumption) (rule list_all2_trans [OF guessed_trans(2)]; assumption)

interpretation pool_statement: db_relation pool_statement
  by unfold_locales (auto simp: pool_statement_def same_rest_def tss_rollback_def intro: all2_guessed_trans)

interpretation pool_kept: db_relation pool_kept
  by unfold_locales (auto simp: pool_kept_def same_rest_def tss_rollback_def intro: all2_guessed_trans)

lemma keeps_on_pool:
  assumes "keeps pool_statement m"
  shows "keeps pool_kept (on_pool m)"
proof (rule keepsI)
  fix s s' :: "'a registration_scheme" and r
  let ?s = "s\<lparr>receiver_wallets := pool_wallets s, receiver_verifications := pool_verifications s\<rparr>"
  assume "on_pool m s = (r, s')"
  then obtain t where t: "m ?s = (r, t)" and s': "s' = t\<lparr>pool_wallets := receiver_wallets t, pool_verifications := receiver_verifications t,
      receiver_wallets := receiver_wallets s, receiver_verifications := receiver_verifications s\<rparr>"
    by (auto simp: on_pool_def split: prod.splits)
  from assms t have "pool_statement ?s t" by (rule keepsD)
  then show "pool_kept s s'" by (simp add: s' pool_statement_def pool_kept_def same_rest_def)
qed

lemma all2_sql_update:
  "(\<And>r. P r \<Longrightarrow> Q r (f r)) \<Longrightarrow> (\<And>r. Q r r) \<Longrightarrow> list_all2 Q rs (sql_update P f rs)"
  by (induction rs) (auto simp: sql_update_def)

lemma pool_kept_statements [keeps_intros]:
  "keeps pool_kept (rw_update_where P f)" "keeps pool_kept (rv_write (rv_update Q g))"
  unfolding rw_update_where_def rv_write_def
  by (intro pool_kept.keeps_db_call; simp add: pool_kept_def same_rest_def Let_def rv_update_def)+

lemma pool_kept_reads [keeps_intros]:
  "keeps pool_kept (ReceiverWalletModel_GetByID i)" "keeps pool_kept (ReceiverWalletModel_GetByReceiverIDAndWalletDomain ri d)"
  "keeps pool_kept (ReceiverModel_GetByContacts cs)" "keeps pool_kept (ReceiverVerificationModel_GetByReceiverIDsAndVerificationField is fld)"
  unfolding ReceiverWalletModel_GetByID_def ReceiverWalletModel_GetByReceiverIDAndWalletDomain_def query_wallet_def not_found_as_def get_first_def
    ReceiverModel_GetByContacts_def ReceiverVerificationModel_GetByReceiverIDsAndVerificationField_def
  by (intro keeps_intros)+

lemma pool_kept_updates [keeps_intros]:
  "keeps pool_kept (ReceiverWalletModel_Update env i u)" "keeps pool_kept (ReceiverVerificationModel_UpdateReceiverVerification vu)"
  unfolding ReceiverWalletModel_Update_def check_memo_def ReceiverVerificationModel_UpdateReceiverVerification_def
  by (intro keeps_intros pool_kept.keeps_db_call; simp add: throw_def pool_kept.R_refl)+

lemma pool_statement_attempts:
  assumes "n \<le> OTPMaxAttempts"
  shows "keeps pool_statement (ReceiverWalletModel_Update env i (no_wallet_update\<lparr>wu_OTPAttempts := Some n\<rparr>))"
proof -
  have "guessed_wallet w (rw_touched (set_receiver_wallet (no_wallet_update\<lparr>wu_OTPAttempts := Some n\<rparr>)) now w)" for w now
    unfolding guessed_wallet_def
    by (rule exI [of _ n], rule exI [of _ now]) (simp add: rw_touched_def set_receiver_wallet_def no_wallet_update_def assms)
  then have "list_all2 guessed_wallet rs (sql_update P (rw_touched (set_receiver_wallet (no_wallet_update\<lparr>wu_OTPAttempts := Some n\<rparr>)) now) rs)" for P rs now
    by (intro all2_sql_update) simp_all
  then have "keeps pool_statement (rw_update_where P (set_receiver_wallet (no_wallet_update\<lparr>wu_OTPAttempts := Some n\<rparr>)))" for P
    unfolding rw_update_where_def
    by (intro pool_statement.keeps_db_call) (simp add: pool_statement_def same_rest_def Let_def)
  moreover have memo: "check_memo sdk i (no_wallet_update\<lparr>wu_OTPAttempts := Some n\<rparr>) = ret ()" for sdk
    by (simp add: check_memo_def no_wallet_update_def)
  ultimately show ?thesis
    unfolding ReceiverWalletModel_Update_def memo by (intro keeps_intros)
qed

lemma pool_statement_failed:
  assumes "vu_Attempts u = Some n" and "n \<le> MaxAttemptsAllowed" and "vu_ConfirmedAt u = None" and "vu_ConfirmedByID u = []" and "vu_ConfirmedByType u = []"
  shows "keeps pool_statement (ReceiverVerificationModel_UpdateReceiverVerification u)"
proof -
  have "guessed_verification v (rv_touched (set_verification u) now v)" for v now
    unfolding guessed_verification_def
    by (rule exI [of _ n], rule exI [of _ "case vu_FailedAt u of None \<Rightarrow> rv_FailedAt v | Some t \<Rightarrow> Some t"],
        rule exI [of _ "Some (vu_VerificationChannel u)"], rule exI [of _ now]) (simp add: rv_touched_def set_verification_def assms)
  then have "list_all2 guessed_verification vs (sql_update P (rv_touched (set_verification u) now) vs)" for P vs now
    by (intro all2_sql_update) simp_all
  then have "keeps pool_statement (rv_write (rv_update P (set_verification u)))" for P
    unfolding rv_write_def
    by (intro pool_statement.keeps_db_call) (simp add: pool_statement_def same_rest_def rv_update_def)
  then show ?thesis
    unfolding ReceiverVerificationModel_UpdateReceiverVerification_def
    by (intro keeps_intros pool_statement.keeps_db_call) (simp_all add: throw_def pool_statement.R_refl)
qed

lemma otp_mismatch_attempts:
  "verifyReceiverWalletOTP env now w otp = Inl e \<Longrightarrow> error_is e ErrOTPDoesNotMatch \<Longrightarrow> rw_OTPAttempts w < OTPMaxAttempts"
  by (auto simp: verifyReceiverWalletOTP_def error_is_def ErrOTPDoesNotMatch_def ErrOTPMaxAttemptsExceeded_def split: if_splits)

lemma pool_kept_OTP: "keeps pool_kept (processReceiverWalletOTP env c receiver otp contact)"
proof -
  have guess: "keeps pool_kept (case verifyReceiverWalletOTP env now rw otp of
       Inl e \<Rightarrow> if error_is e ErrOTPDoesNotMatch then incrementOTPAttempts env rw else throw (h e) | Inr u \<Rightarrow> m)"
    if "keeps pool_kept m" for now rw h and m :: "('z registration_scheme, go_error, string \<times> bool) prog"
  proof (cases "verifyReceiverWalletOTP env now rw otp")
    case (Inl e)
    have "keeps pool_kept (incrementOTPAttempts env rw :: ('z registration_scheme, go_error, string \<times> bool) prog)"
      if "error_is e ErrOTPDoesNotMatch"
      using otp_mismatch_attempts [OF Inl that] unfolding incrementOTPAttempts_def Let_def
      by (intro keeps_intros keeps_on_pool pool_statement_attempts) simp
    with Inl show ?thesis by (simp add: keeps_intros)
  qed (simp add: that)
  show ?thesis
    unfolding processReceiverWalletOTP_def by (intro keeps_intros guess)
qed

lemma pool_kept_PII: "keeps pool_kept (processReceiverVerificationPII env receiver req)"
proof -
  have guess: "keeps pool_kept (if ExceededAttempts (rv_Attempts v) then throw e
       else if b then throw e'
       else let rvu = f in if c then handleE (on_pool (ReceiverVerificationModel_UpdateReceiverVerification (rvu\<lparr>vu_Attempts := Some (rv_Attempts v + 1), vu_FailedAt := t\<rparr>))) h k
         else m rvu)"
    if "vu_ConfirmedAt f = None" "vu_ConfirmedByID f = []" "vu_ConfirmedByType f = []" "\<And>e. keeps pool_kept (h e)" "\<And>x. keeps pool_kept (k x)" "\<And>u. keeps pool_kept (m u)"
    for v b c e e' f t h k and m :: "_ \<Rightarrow> ('z registration_scheme, go_error, unit) prog"
  proof (cases "ExceededAttempts (rv_Attempts v)")
    case False
    then have "rv_Attempts v + 1 \<le> MaxAttemptsAllowed" by (simp add: ExceededAttempts_def)
    with that have "keeps pool_kept (on_pool (ReceiverVerificationModel_UpdateReceiverVerification (f\<lparr>vu_Attempts := Some (rv_Attempts v + 1), vu_FailedAt := t\<rparr>)) :: ('z registration_scheme, go_error, unit) prog)"
      by (intro keeps_on_pool pool_statement_failed [where n = "rv_Attempts v + 1"]) simp_all
    with False that show ?thesis by (simp add: keeps_intros)
  qed (simp add: keeps_intros)
  show ?thesis
    unfolding processReceiverVerificationPII_def verify_value_def by (intro keeps_intros guess) simp_all
qed

lemma pool_kept_body: "keeps pool_kept (verify_registration_body env c req contact)"
  unfolding verify_registration_body_def processTransactionID_def by (intro keeps_intros pool_kept_OTP pool_kept_PII)

section \<open>What a successful registration changes\<close>

lemma handle_ok:
  "handleE m (\<lambda>e. throw (f e)) k s = (Inr y, s') \<longleftrightarrow> (\<exists>x s1. m s = (Inr x, s1) \<and> k x s1 = (Inr y, s'))"
  "handleE m (\<lambda>e. if c e then throw (f e) else throw (g e)) k s = (Inr y, s') \<longleftrightarrow> (\<exists>x s1. m s = (Inr x, s1) \<and> k x s1 = (Inr y, s'))"
  by (auto simp: handleE_def throw_def split: prod.splits sum.splits if_splits)

lemma sql_update_twice:
  "(\<And>r. P r \<Longrightarrow> P (f r)) \<Longrightarrow> sql_update P g (sql_update P f rs) = sql_update P (\<lambda>r. g (f r)) rs"
  by (auto simp: sql_update_def)

lemma query_wallet_ok:
  assumes "query_wallet P s = (Inr (w, k), s')"
  shows "w \<in> set (receiver_wallets s)" and "k \<in> set (wallets s)" and "wl_ID k = rw_wallet_id w" and "P (w, k)" and "\<exists>fs. s' = s\<lparr>conn_faults := fs\<rparr>"
proof -
  from assms obtain rest where q: "db_call (getsE (\<lambda>s. filter P (joined_wallets s))) s = (Inr ((w, k) # rest), s')"
    by (auto simp: query_wallet_def get_first_ok)
  from q obtain fs where s': "s' = s\<lparr>conn_faults := fs\<rparr>" "(w, k) # rest = filter P (joined_wallets s')" by (rule db_read_ok)
  then have "(w, k) \<in> set (filter P (joined_wallets s'))" by (metis list.set_intros(1))
  then have mem: "(w, k) \<in> set (joined_wallets s')" and "P (w, k)" by auto
  from mem obtain w0 where "w0 \<in> set (receiver_wallets s')" "with_wallet s' w0 = Some (w, k)"
    by (auto simp: joined_wallets_def in_map_filter)
  with s' \<open>P (w, k)\<close> show "w \<in> set (receiver_wallets s)" "k \<in> set (wallets s)" "wl_ID k = rw_wallet_id w" "P (w, k)" "\<exists>fs. s' = s\<lparr>conn_faults := fs\<rparr>"
    by (auto simp: with_wallet_def find_Some_iff)
qed

lemma not_found_as_ok: "not_found_as nf msg m s = (Inr x, s') \<longleftrightarrow> m s = (Inr x, s')"
  by (auto simp: not_found_as_def handleE_def throw_def ret_def split: prod.splits sum.splits if_splits)

lemma check_memo_ok: "check_memo sdk i u s = (Inr x, s') \<Longrightarrow> \<exists>fs. s' = s\<lparr>conn_faults := fs\<rparr>"
proof -
  have same: "\<exists>fs. s = s\<lparr>conn_faults := fs\<rparr>" by (rule exI [of _ "conn_faults s"]) simp
  assume "check_memo sdk i u s = (Inr x, s')"
  then show "\<exists>fs. s' = s\<lparr>conn_faults := fs\<rparr>"
    by (auto simp: check_memo_def prog_ok guard_ok ReceiverWalletModel_GetByID_def not_found_as_ok same dest: query_wallet_ok(5) split: if_splits)
qed

lemma rw_update_where_ok:
  assumes "rw_update_where P f s = (Inr rows, s')"
  shows "\<exists>fs. s' = s\<lparr>conn_faults := fs, receiver_wallets := sql_update (P (s\<lparr>conn_faults := fs\<rparr>)) (rw_touched f (conn_now s)) (receiver_wallets s)\<rparr>"
    and "receiver_wallets_ok s'"
  using assms unfolding rw_update_where_def by (elim db_call_cases; auto simp: Let_def split: if_splits)+

definition update_wallet :: "string \<Rightarrow> ReceiverWalletUpdate \<Rightarrow> int \<Rightarrow> ReceiverWallet list \<Rightarrow> ReceiverWallet list" where
  "update_wallet i u now rs = sql_update (\<lambda>w. rw_ID w = i) (rw_touched (set_receiver_wallet u) now) rs"

lemma ReceiverWalletModel_Update_ok:
  assumes "ReceiverWalletModel_Update env i u s = (Inr x, s')"
  shows "\<exists>fs. s' = s\<lparr>conn_faults := fs, receiver_wallets := update_wallet i u (conn_now s) (receiver_wallets s)\<rparr>"
proof -
  from assms obtain s1 rows where m: "check_memo (env_sdk env) i u s = (Inr (), s1)"
    and up: "rw_update_where (\<lambda>_ w. rw_ID w = i) (set_receiver_wallet u) s1 = (Inr rows, s')"
    by (auto simp: ReceiverWalletModel_Update_def prog_ok guard_ok handle_ok)
  from check_memo_ok [OF m] rw_update_where_ok(1) [OF up] show ?thesis by (auto simp: update_wallet_def)
qed

lemma UpdateReceiverVerification_ok:
  assumes "ReceiverVerificationModel_UpdateReceiverVerification u s = (Inr x, s')"
  shows "\<exists>fs. s' = s\<lparr>conn_faults := fs, receiver_verifications := sql_update (of_verification (vu_ReceiverID u) (vu_VerificationField u))
     (rv_touched (set_verification u) (conn_now s)) (receiver_verifications s)\<rparr>"
proof -
  from assms have "rv_write (rv_update (of_verification (vu_ReceiverID u) (vu_VerificationField u)) (set_verification u)) s = (Inr x, s')"
    by (auto simp: ReceiverVerificationModel_UpdateReceiverVerification_def prog_ok guard_ok throw_def split: if_splits elim: db_call_cases)
  then show ?thesis
    unfolding rv_write_def rv_update_def by (elim db_call_cases) (auto split: if_splits)
qed

lemma increment_fails: "incrementOTPAttempts env w s = (Inr x, s') \<Longrightarrow> False"
  by (auto simp: incrementOTPAttempts_def Let_def prog_ok split: if_splits)

definition registered_wallets :: "SEP24JWTClaims \<Rightarrow> string \<Rightarrow> int \<Rightarrow> string \<Rightarrow> ReceiverWallet list \<Rightarrow> ReceiverWallet list" where
  "registered_wallets c contact now i rs =
     update_wallet i (no_wallet_update\<lparr>wu_SEP24TransactionID := sc_ID c\<rparr>) now (update_wallet i (registration_wallet_update c contact now) now rs)"

text \<open>What was checked of the wallet, and of the verification value.\<close>

definition password_accepted :: "sdp_env \<Rightarrow> SEP24JWTClaims \<Rightarrow> string \<Rightarrow> receiver_row \<Rightarrow> 'z platform_scheme \<Rightarrow> ReceiverWallet \<Rightarrow> bool" where
  "password_accepted env c otp receiver s w \<longleftrightarrow> w \<in> set (receiver_wallets s) \<and> rw_receiver_id w = rr_id receiver \<and>
     (\<exists>k \<in> set (wallets s). wl_ID k = rw_wallet_id w \<and> wl_SEP10ClientDomain k = sc_ClientDomain c) \<and>
     (rw_Status w = RegisteredReceiversWalletStatus \<or>
      ReceiversWalletStatus_TransitionTo (rw_Status w) RegisteredReceiversWalletStatus = Inr () \<and>
      verifyReceiverWalletOTP env (conn_now s) w otp = Inr ())"

definition value_accepted :: "sdp_env \<Rightarrow> ReceiverRegistrationRequest \<Rightarrow> receiver_row \<Rightarrow> 'z platform_scheme \<Rightarrow> ReceiverVerification \<Rightarrow> bool" where
  "value_accepted env req receiver s v \<longleftrightarrow> v \<in> set (receiver_verifications s) \<and> rv_ReceiverID v = rr_id receiver \<and>
     rv_VerificationField v = rq_VerificationField req \<and> rv_Attempts v < MaxAttemptsAllowed \<and>
     CompareVerificationValue env (rv_HashedValue v) (rq_VerificationValue req)"

lemma accepted_faults [simp]:
  "password_accepted env c otp receiver (s\<lparr>conn_faults := fs\<rparr>) w = password_accepted env c otp receiver s w"
  "value_accepted env req receiver (s\<lparr>conn_faults := fs\<rparr>) v = value_accepted env req receiver s v"
  "value_accepted env req receiver (s\<lparr>receiver_wallets := ws\<rparr>) v = value_accepted env req receiver s v"
  by (simp_all add: password_accepted_def value_accepted_def)

lemma OTP_ok:
  assumes "processReceiverWalletOTP env c (receiver_of receiver) otp contact s = (Inr (i, was), s')"
  shows "\<exists>w fs ws. password_accepted env c otp receiver s w \<and> i = rw_ID w \<and> was = (rw_Status w = RegisteredReceiversWalletStatus) \<and>
     s' = s\<lparr>conn_faults := fs, receiver_wallets := ws\<rparr> \<and>
     ws = (if was then receiver_wallets s else update_wallet i (registration_wallet_update c contact (conn_now s)) (conn_now s) (receiver_wallets s))"
proof -
  note def = assms [unfolded processReceiverWalletOTP_def]
  from def obtain w k s1 where q: "ReceiverWalletModel_GetByReceiverIDAndWalletDomain (rr_id receiver) (sc_ClientDomain c) s = (Inr (w, k), s1)"
    by (auto simp: handle_ok receiver_of_def)
  then have "query_wallet (\<lambda>(rw, w). rw_receiver_id rw = rr_id receiver \<and> wl_SEP10ClientDomain w = sc_ClientDomain c) s = (Inr (w, k), s1)"
    by (simp add: ReceiverWalletModel_GetByReceiverIDAndWalletDomain_def prog_ok)
  note w = query_wallet_ok [OF this]
  then obtain fs where s1: "s1 = s\<lparr>conn_faults := fs\<rparr>" by blast
  let ?found = "w \<in> set (receiver_wallets s) \<and> rw_receiver_id w = rr_id receiver \<and>
     (\<exists>k \<in> set (wallets s). wl_ID k = rw_wallet_id w \<and> wl_SEP10ClientDomain k = sc_ClientDomain c)"
  have found: ?found using w by auto
  show ?thesis
  proof (cases "rw_Status w = RegisteredReceiversWalletStatus")
    case True
    with def q s1 found show ?thesis
      by (intro exI [of _ w] exI [of _ fs] exI [of _ "receiver_wallets s"])
        (auto simp: password_accepted_def handle_ok prog_ok receiver_of_def)
  next
    case False
    with def q s1 obtain s2 where st: "ReceiversWalletStatus_TransitionTo (rw_Status w) RegisteredReceiversWalletStatus = Inr ()"
      and otp: "verifyReceiverWalletOTP env (conn_now s) w otp = Inr ()"
      and up: "ReceiverWalletModel_Update env (rw_ID w) (registration_wallet_update c contact (conn_now s)) s1 = (Inr (), s2)"
      and res: "s' = s2" "i = rw_ID w" "was = False"
      by (auto simp: handle_ok receiver_of_def prog_ok guard_ok split: sum.splits if_splits dest: increment_fails)
    from ReceiverWalletModel_Update_ok [OF up] False st otp res s1 found show ?thesis
      by (intro exI [of _ w]) (auto simp: password_accepted_def)
  qed
qed

text \<open>A verification that was confirmed keeps its attempts.\<close>

definition same_attempts :: "ReceiverVerification \<Rightarrow> ReceiverVerification \<Rightarrow> bool" where
  "same_attempts v v' \<longleftrightarrow> rv_ReceiverID v' = rv_ReceiverID v \<and> rv_VerificationField v' = rv_VerificationField v \<and>
     rv_HashedValue v' = rv_HashedValue v \<and> rv_Attempts v' = rv_Attempts v"

lemma confirmed_attempts:
  assumes "vu_Attempts u = None"
  shows "list_all2 same_attempts vs (sql_update P (rv_touched (set_verification u) now) vs)"
  by (rule all2_sql_update) (simp_all add: same_attempts_def rv_touched_def set_verification_def assms)

lemma PII_ok:
  assumes "processReceiverVerificationPII env (receiver_of receiver) req s = (Inr x, s')"
  shows "\<exists>v fs vs. value_accepted env req receiver s v \<and> s' = s\<lparr>conn_faults := fs, receiver_verifications := vs\<rparr> \<and>
    list_all2 same_attempts (receiver_verifications s) vs"
proof -
  from assms obtain vs s1 where q0: "ReceiverVerificationModel_GetByReceiverIDsAndVerificationField [rr_id receiver] (rq_VerificationField req) s = (Inr vs, s1)"
    and k: "(case vs of [] \<Rightarrow> throw (InformationNotFoundError (Errorf ''verification of type %s not found for receiver id %s''))
       | v # _ \<Rightarrow> verify_value env (conn_now s) (receiver_of receiver) req v) s1 = (Inr x, s')"
    unfolding processReceiverVerificationPII_def verify_value_def by (auto simp: prog_ok receiver_of_def)
  then obtain v rest where vs: "vs = v # rest" by (cases vs) (auto simp: prog_ok)
  from q0 k vs have q: "ReceiverVerificationModel_GetByReceiverIDsAndVerificationField [rr_id receiver] (rq_VerificationField req) s = (Inr (v # rest), s1)"
    and at: "\<not> ExceededAttempts (rv_Attempts v)" and cmp: "CompareVerificationValue env (rv_HashedValue v) (rq_VerificationValue req)"
    and up: "\<exists>u. vu_Attempts u = None \<and> ReceiverVerificationModel_UpdateReceiverVerification u s1 = (Inr (), s')"
    by (auto simp: verify_value_def prog_ok guard_ok handle_ok Let_def split: if_splits intro!: exI conjI [rotated])
  from q have "db_call (getsE (\<lambda>s. filter (\<lambda>v. rv_ReceiverID v \<in> set [rr_id receiver] \<and> rv_VerificationField v = rq_VerificationField req) (receiver_verifications s))) s = (Inr (v # rest), s1)"
    by (simp add: ReceiverVerificationModel_GetByReceiverIDsAndVerificationField_def prog_ok)
  then obtain fs where s1: "s1 = s\<lparr>conn_faults := fs\<rparr>"
    and rows: "v # rest = filter (\<lambda>v. rv_ReceiverID v \<in> set [rr_id receiver] \<and> rv_VerificationField v = rq_VerificationField req) (receiver_verifications s1)"
    by (rule db_read_ok)
  have "v \<in> set (filter (\<lambda>v. rv_ReceiverID v \<in> set [rr_id receiver] \<and> rv_VerificationField v = rq_VerificationField req) (receiver_verifications s1))"
    unfolding rows [symmetric] by simp
  with s1 have "v \<in> set (filter (\<lambda>v. rv_ReceiverID v \<in> set [rr_id receiver] \<and> rv_VerificationField v = rq_VerificationField req) (receiver_verifications s))"
    by simp
  with at cmp have "value_accepted env req receiver s v" by (auto simp: value_accepted_def ExceededAttempts_def)
  moreover from up obtain u where u: "vu_Attempts u = None" "ReceiverVerificationModel_UpdateReceiverVerification u s1 = (Inr (), s')" by blast
  from UpdateReceiverVerification_ok [OF u(2)] obtain gs where
    "s' = s\<lparr>conn_faults := gs, receiver_verifications := sql_update (of_verification (vu_ReceiverID u) (vu_VerificationField u))
     (rv_touched (set_verification u) (conn_now s)) (receiver_verifications s)\<rparr>" by (auto simp: s1)
  ultimately show ?thesis using confirmed_attempts [OF u(1)] by blast
qed

text \<open>A registration that went through.\<close>

definition registration_accepted ::
  "sdp_env \<Rightarrow> SEP24JWTClaims \<Rightarrow> ReceiverRegistrationRequest \<Rightarrow> string \<Rightarrow> 'z platform_scheme \<Rightarrow> 'z platform_scheme \<Rightarrow> bool" where
  "registration_accepted env c req contact s s' \<longleftrightarrow> same_rest s s' \<and>
     list_all2 same_attempts (receiver_verifications s) (receiver_verifications s') \<and>
     (\<exists>receiver w v. receiver \<in> set (receivers s) \<and> has_contact [contact] receiver \<and>
       password_accepted env c (rq_OTP req) receiver s w \<and> value_accepted env req receiver s v \<and>
       receiver_wallets s' = (if rw_Status w = RegisteredReceiversWalletStatus then receiver_wallets s
         else registered_wallets c contact (conn_now s) (rw_ID w) (receiver_wallets s)))"

lemma body_ok:
  assumes "verify_registration_body env c req contact s = (Inr (), s')"
  shows "registration_accepted env c req contact s s'"
proof -
  from assms have rest: "same_rest s s'" by (auto dest: keepsD [OF pool_kept_body] simp: pool_kept_def)
  from assms obtain rs s1 where q: "ReceiverModel_GetByContacts [contact] s = (Inr rs, s1)"
    and k: "(case rs of [] \<Rightarrow> throw (InformationNotFoundError (Errorf ''receiver with contact info %s not found in our server''))
     | receiver # _ \<Rightarrow>
         bindE (wrapE ''processing OTP for receiver with contact info %s''
           (processReceiverWalletOTP env c receiver (rq_OTP req) contact)) (\<lambda>(receiverWalletID, wasAlreadyRegistered).
         bindE (wrapE ''processing receiver verification entry for receiver with contact info %s''
           (processReceiverVerificationPII env receiver req)) (\<lambda>_.
         if wasAlreadyRegistered then ret ()
         else wrapE ''processing transaction ID'' (processTransactionID env c receiverWalletID)))) s1 = (Inr (), s')"
    by (auto simp: verify_registration_body_def prog_ok)
  from q have "db_call (getsE (\<lambda>s. map receiver_of (filter (has_contact [contact]) (receivers s)))) s = (Inr rs, s1)"
    by (simp add: ReceiverModel_GetByContacts_def prog_ok)
  then obtain fs where s1: "s1 = s\<lparr>conn_faults := fs\<rparr>" and rs: "rs = map receiver_of (filter (has_contact [contact]) (receivers s1))"
    by (rule db_read_ok)
  from k obtain rc rest where "rs = rc # rest" by (cases rs) (auto simp: prog_ok)
  with rs s1 obtain receiver where rc: "rc = receiver_of receiver" "receiver \<in> set (receivers s)" "has_contact [contact] receiver"
    by (auto simp: filter_eq_Cons_iff map_eq_Cons_conv)
  with k \<open>rs = rc # rest\<close> obtain i was s2 s3 where otp: "processReceiverWalletOTP env c (receiver_of receiver) (rq_OTP req) contact s1 = (Inr (i, was), s2)"
    and pii: "processReceiverVerificationPII env (receiver_of receiver) req s2 = (Inr (), s3)"
    and tx: "(if was then ret () else wrapE ''processing transaction ID'' (processTransactionID env c i)) s3 = (Inr (), s')"
    by (auto simp: prog_ok split: prod.splits)
  from OTP_ok [OF otp] obtain w gs ws where "password_accepted env c (rq_OTP req) receiver s1 w" and i: "i = rw_ID w" "was = (rw_Status w = RegisteredReceiversWalletStatus)"
    and s2: "s2 = s1\<lparr>conn_faults := gs, receiver_wallets := ws\<rparr>"
    and ws: "ws = (if was then receiver_wallets s1 else update_wallet i (registration_wallet_update c contact (conn_now s1)) (conn_now s1) (receiver_wallets s1))"
    by blast
  with s1 have w: "password_accepted env c (rq_OTP req) receiver s w" by simp
  from PII_ok [OF pii] obtain v hs vs where "value_accepted env req receiver s2 v"
    and s3: "s3 = s2\<lparr>conn_faults := hs, receiver_verifications := vs\<rparr>" and vs: "list_all2 same_attempts (receiver_verifications s2) vs" by blast
  with s1 s2 have v: "value_accepted env req receiver s v" by simp
  have wallets: "receiver_wallets s' = (if was then receiver_wallets s else registered_wallets c contact (conn_now s) (rw_ID w) (receiver_wallets s)) \<and>
    receiver_verifications s' = receiver_verifications s3"
  proof (cases was)
    case True
    with tx s3 s2 s1 ws show ?thesis by (simp add: prog_ok)
  next
    case False
    with tx have "ReceiverWalletModel_Update env i (no_wallet_update\<lparr>wu_SEP24TransactionID := sc_ID c\<rparr>) s3 = (Inr (), s')"
      by (simp add: processTransactionID_def prog_ok)
    from ReceiverWalletModel_Update_ok [OF this] False s3 s2 s1 ws i show ?thesis by (auto simp: registered_wallets_def)
  qed
  with vs s1 s2 s3 have "list_all2 same_attempts (receiver_verifications s) (receiver_verifications s')" by simp
  with rest rc w v i wallets show ?thesis unfolding registration_accepted_def by blast
qed

section \<open>The handlers\<close>

text \<open>A failed attempt, seen from outside: the counters may have moved.\<close>

definition only_guessed :: "'z platform_scheme \<Rightarrow> 'z platform_scheme \<Rightarrow> bool" where
  "only_guessed s t \<longleftrightarrow> same_rest s t \<and> list_all2 guessed_wallet (receiver_wallets s) (receiver_wallets t) \<and>
     list_all2 guessed_verification (receiver_verifications s) (receiver_verifications t)"

interpretation only_guessed: db_relation only_guessed
  by unfold_locales (auto simp: only_guessed_def same_rest_def tss_rollback_def intro: all2_guessed_trans)

lemma body_outcome:
  assumes "with_pool (RunInTransaction registration_rollback (verify_registration_body env c req contact)) s = (r, s')"
  shows "isl r \<and> only_guessed s s' \<or> registration_accepted env c req contact s s'"
proof -
  define S where "S = platform.extend s (registration.fields (receiver_wallets s) (receiver_verifications s))"
  obtain t where run: "RunInTransactionWithResult registration_rollback (verify_registration_body env c req contact) S = (r, t)"
    and s': "s' = platform.truncate t"
    using assms by (auto simp: with_pool_def S_def RunInTransaction_def split: prod.splits)
  have s_fields: "receiver_wallets S = receiver_wallets s" "receiver_verifications S = receiver_verifications s" "receivers S = receivers s"
    "wallets S = wallets s" "organizations S = organizations s" "assets S = assets s" "disbursements S = disbursements s" "payments S = payments s"
    "conn_now S = conn_now s" "submitter_transactions S = submitter_transactions s" "channel_accounts S = channel_accounts s" "tss_log S = tss_log s"
    "pool_wallets S = receiver_wallets s" "pool_verifications S = receiver_verifications s"
    by (simp_all add: S_def platform.defs registration.defs)
  have t_fields: "receiver_wallets s' = receiver_wallets t" "receiver_verifications s' = receiver_verifications t" "receivers s' = receivers t"
    "wallets s' = wallets t" "organizations s' = organizations t" "assets s' = assets t" "disbursements s' = disbursements t" "payments s' = payments t"
    "conn_now s' = conn_now t" "submitter_transactions s' = submitter_transactions t" "channel_accounts s' = channel_accounts t" "tss_log s' = tss_log t"
    by (simp_all add: s' platform.defs)
  from run show ?thesis
  proof (cases rule: transaction_run_cases)
    case (not_begun fs)
    then show ?thesis by (auto simp: only_guessed_def same_rest_def t_fields s_fields)
  next
    case (rolled_back fs gs x u)
    from keepsD [OF pool_kept_body rolled_back(1)] rolled_back(2,3) show ?thesis
      by (auto simp: only_guessed_def same_rest_def t_fields pool_kept_def registration_rollback_def sdp_rollback_def s_fields)
  next
    case (committed fs gs x u)
    then have "registration_accepted env c req contact (S\<lparr>conn_faults := fs\<rparr>) u" by (simp add: body_ok)
    moreover have "password_accepted env c otp receiver S w = password_accepted env c otp receiver s w"
      "value_accepted env req receiver S v = value_accepted env req receiver s v" for otp receiver w v
      by (simp_all add: password_accepted_def value_accepted_def s_fields)
    ultimately have "registration_accepted env c req contact s s'"
      by (simp add: registration_accepted_def same_rest_def committed(2) t_fields s_fields cong: if_cong)
    then show ?thesis ..
  qed
qed

text \<open>The validation of the request reads only.\<close>

definition same_tables :: "'z platform_scheme \<Rightarrow> 'z platform_scheme \<Rightarrow> bool" where
  "same_tables s t \<longleftrightarrow> same_rest s t \<and> receiver_wallets t = receiver_wallets s \<and> receiver_verifications t = receiver_verifications s"

interpretation same_tables: db_relation same_tables
  by unfold_locales (auto simp: same_tables_def same_rest_def tss_rollback_def)

lemma same_tables_net [keeps_intros]: "keeps same_tables (net_call f)"
  by (simp add: keeps_def net_call_def same_tables_def same_rest_def)

lemma same_tables_organization [keeps_intros]: "keeps same_tables OrganizationModel_Get"
  unfolding OrganizationModel_Get_def get_first_def by (intro keeps_intros)

lemma same_tables_captcha [keeps_intros]: "keeps same_tables (validate_captcha rg token)"
  unfolding validate_captcha_def IsCAPTCHADisabled_def by (intro keeps_intros)

lemma same_tables_validate: "keeps same_tables (validate_registration rg claims decoded)"
  unfolding validate_registration_def by (intro keeps_intros)

text \<open>The request that passed the validation.\<close>

definition validated_request :: "registration_env \<Rightarrow> int \<Rightarrow> ReceiverRegistrationRequest \<Rightarrow> ReceiverRegistrationRequest" where
  "validated_request rg now request = fst (ValidateReceiver (rg_sdp rg) now request NewValidator)"

lemma validate_ok:
  assumes "validate_registration rg claims decoded s = (Inr (req, c), s')"
  shows "claims = Some c \<and> (\<exists>request. decoded = Inr request \<and> req = validated_request rg (conn_now s) request)"
proof -
  have now: "conn_now t = conn_now s" if "validate_captcha rg token s = (x, t)" for token x t
    using keepsD [OF same_tables_captcha that] by (simp add: same_tables_def same_rest_def)
  from assms show ?thesis
    by (auto simp: validate_registration_def prog_ok guard_ok validated_request_def Let_def case_prod_beta split: sum.splits option.splits if_splits dest!: now)
qed

definition contact_of_request :: "ReceiverRegistrationRequest \<Rightarrow> string" where
  "contact_of_request req = (if rq_PhoneNumber req \<noteq> [] then rq_PhoneNumber req else rq_Email req)"

lemma same_tables_accepted:
  "same_tables s s1 \<Longrightarrow> registration_accepted env c req contact s1 s' \<Longrightarrow> registration_accepted env c req contact s s'"
  "same_tables s s1 \<Longrightarrow> only_guessed s1 s' \<Longrightarrow> only_guessed s s'"
  by (simp_all add: same_tables_def same_rest_def registration_accepted_def password_accepted_def value_accepted_def only_guessed_def cong: if_cong)

lemma verify_outcome:
  assumes "VerifyReceiverRegistration rg claims decoded s = (r, s')"
  shows "isl r \<and> only_guessed s s' \<or>
    (\<exists>c request. claims = Some c \<and> decoded = Inr request \<and>
       registration_accepted (rg_sdp rg) c (validated_request rg (conn_now s) request)
         (contact_of_request (validated_request rg (conn_now s) request)) s s')"
proof -
  have refl: "only_guessed s s" by (rule only_guessed.R_refl)
  note def = assms [unfolded VerifyReceiverRegistration_def]
  from def show ?thesis
  proof (cases rule: bindE_cases)
    case (err e)
    with keepsD [OF same_tables_validate err(1)] refl show ?thesis by (simp add: same_tables_def only_guessed_def)
  next
    case (ok x s1)
    obtain req c where x: "x = (req, c)" by fastforce
    note s1 = keepsD [OF same_tables_validate ok(1)]
    from validate_ok ok(1) x obtain request where req: "claims = Some c" "decoded = Inr request" "req = validated_request rg (conn_now s) request" by blast
    show ?thesis
    proof (cases "rq_PhoneNumber req = [] \<and> rq_Email req = []")
      case True
      with ok(2) x s1 refl show ?thesis by (auto simp: throw_def same_tables_def only_guessed_def)
    next
      case False
      obtain q t where run: "with_pool (RunInTransaction registration_rollback (verify_registration_body (rg_sdp rg) c req (contact_of_request req))) s1 = (q, t)"
        by fastforce
      from False ok(2) x run have "s' = t" "isl r = isl q"
        by (auto simp: contact_of_request_def Let_def handleE_def throw_def ret_def split: sum.splits if_splits)
      with body_outcome [OF run] s1 req show ?thesis by (auto dest: same_tables_accepted)
    qed
  qed
qed

section \<open>Who gets registered\<close>

text \<open>A password that may register a wallet: not tried too often, and either the stored one within its five minutes or,
  on a test network, the one that is always valid.\<close>

definition password_valid :: "sdp_env \<Rightarrow> int \<Rightarrow> ReceiverWallet \<Rightarrow> string \<Rightarrow> bool" where
  "password_valid env now w otp \<longleftrightarrow> otp \<noteq> [] \<and> rw_OTPAttempts w < OTPMaxAttempts \<and>
     (IsTestNetwork env \<and> otp = TestnetAlwaysValidOTP \<or>
      rw_OTP w = otp \<and> (\<exists>t. rw_OTPCreatedAt w = Some t \<and> now \<le> t + time_Minute * OTPExpirationTimeMinutes))"

lemma verifyOTP_valid: "verifyReceiverWalletOTP env now w otp = Inr () \<Longrightarrow> password_valid env now w otp"
  by (auto simp: verifyReceiverWalletOTP_def password_valid_def isOTPValid_def split: if_splits option.splits)

lemma registered_row:
  assumes "w' \<in> set (registered_wallets c contact now i rs)" and "w \<in> set rs" and "rw_ID w' = rw_ID w" and "distinct (map rw_ID rs)"
    and "rw_Status w \<noteq> rw_Status w'"
  shows "rw_ID w = i \<and> rw_StellarAddress w' = (if SEP24JWTClaims_Account c = [] then rw_StellarAddress w else SEP24JWTClaims_Account c) \<and>
     rw_StellarMemo w' = SEP24JWTClaims_Memo c \<and> rw_OTPConfirmedWith w' = (if contact = [] then rw_OTPConfirmedWith w else contact)"
proof -
  let ?f = "\<lambda>w. rw_touched (set_receiver_wallet (no_wallet_update\<lparr>wu_SEP24TransactionID := sc_ID c\<rparr>)) now
     (rw_touched (set_receiver_wallet (registration_wallet_update c contact now)) now w)"
  have id: "rw_ID (rw_touched (set_receiver_wallet u) now w) = rw_ID w" for u w
    by (simp add: rw_touched_def set_receiver_wallet_def)
  have "registered_wallets c contact now i rs = sql_update (\<lambda>w. rw_ID w = i) ?f rs"
    unfolding registered_wallets_def update_wallet_def by (rule sql_update_twice) (simp add: id)
  with assms(1) obtain w0 where w0: "w0 \<in> set rs" "w' = (if rw_ID w0 = i then ?f w0 else w0)"
    by (auto dest: in_set_sql_update)
  with assms(3) have "rw_ID w0 = rw_ID w" by (auto simp: id split: if_splits)
  with w0(1) assms(2,4) have "w0 = w" by (auto simp: distinct_map dest: inj_onD)
  with w0(2) assms(5) have "rw_ID w = i" "w' = ?f w" by (auto split: if_splits)
  then show ?thesis
    by (simp add: rw_touched_def set_receiver_wallet_def registration_wallet_update_def no_wallet_update_def)
qed

end
