(* ===== verification/Constraints.thy ===== *)
theory Constraints
  imports Tenant_Relation Payment_Runs Registration_Rules
begin

text \<open>
  The integrity constraints of the tenant's database hold after every operation, whatever it did before it failed:
  ids and contacts are unique, no row refers to a missing one, statuses are those of their machines.
\<close>

section \<open>The tables of the tenant\<close>

definition keeps_constraints :: "'z platform_scheme \<Rightarrow> 'z platform_scheme \<Rightarrow> bool" where
  "keeps_constraints s s' \<longleftrightarrow> (sdp_db_ok s \<longrightarrow> sdp_db_ok s')"

lemmas table_constraints = sdp_db_ok_def receivers_ok_def receiver_verifications_ok_def receiver_wallets_ok_def disbursements_ok_def

lemma sdp_db_ok_cong:
  assumes "organizations s = organizations t" "assets s = assets t" "wallets s = wallets t" "receivers s = receivers t"
    "receiver_verifications s = receiver_verifications t" "receiver_wallets s = receiver_wallets t" "disbursements s = disbursements t" "payments s = payments t"
  shows "sdp_db_ok s \<longleftrightarrow> sdp_db_ok t"
  using assms by (simp add: table_constraints payments_ok_def payment_row_ok_def [abs_def] cong: option.case_cong)

lemma sdp_db_ok_other [simp]:
  "sdp_db_ok (s\<lparr>conn_faults := fs\<rparr>) = sdp_db_ok s" "sdp_db_ok (s\<lparr>conn_uuid_next := n\<rparr>) = sdp_db_ok s"
  "sdp_db_ok (s\<lparr>tss_calls := n\<rparr>) = sdp_db_ok s" "sdp_db_ok (s\<lparr>submitter_transactions := t\<rparr>) = sdp_db_ok s"
  "sdp_db_ok (tss_rollback s s') = sdp_db_ok s'" "sdp_db_ok (sdp_rollback s s') = sdp_db_ok s"
  by (rule sdp_db_ok_cong; simp add: tss_rollback_def sdp_rollback_def)+

lemma ok_row_refs [simp]:
  "receiver_wallets_ok (s\<lparr>payments := ps\<rparr>) = receiver_wallets_ok s" "receiver_wallets_ok (s\<lparr>disbursements := ds\<rparr>) = receiver_wallets_ok s"
  "receiver_wallets_ok (s\<lparr>receiver_verifications := vs\<rparr>) = receiver_wallets_ok s"
  "receiver_verifications_ok (s\<lparr>payments := ps\<rparr>) = receiver_verifications_ok s" "receiver_verifications_ok (s\<lparr>disbursements := ds\<rparr>) = receiver_verifications_ok s"
  "receiver_verifications_ok (s\<lparr>receiver_wallets := rs\<rparr>) = receiver_verifications_ok s"
  "receivers_ok (s\<lparr>payments := ps\<rparr>) = receivers_ok s" "receivers_ok (s\<lparr>disbursements := ds\<rparr>) = receivers_ok s"
  "receivers_ok (s\<lparr>receiver_wallets := rs\<rparr>) = receivers_ok s" "receivers_ok (s\<lparr>receiver_verifications := vs\<rparr>) = receivers_ok s"
  "disbursements_ok (s\<lparr>payments := ps\<rparr>) = disbursements_ok s" "disbursements_ok (s\<lparr>receiver_wallets := rs\<rparr>) = disbursements_ok s"
  "disbursements_ok (s\<lparr>receiver_verifications := vs\<rparr>) = disbursements_ok s" "disbursements_ok (s\<lparr>receivers := cs\<rparr>) = disbursements_ok s"
  by (simp_all add: table_constraints)

lemma payments_ok_persons [simp]:
  "payments_ok (s\<lparr>receivers := cs\<rparr>) = payments_ok s" "payments_ok (s\<lparr>receiver_verifications := vs\<rparr>) = payments_ok s"
  by (rule payments_ok_cong; simp)+

interpretation constraints: tenant_relation keeps_constraints "\<lambda>_ _. True" "\<lambda>_ _. True" "\<lambda>_. True" "\<lambda>_. True"
proof
  fix s t u :: "'a platform_scheme"
  show "keeps_constraints s s" by (simp add: keeps_constraints_def)
  show "keeps_constraints s t \<Longrightarrow> keeps_constraints t u \<Longrightarrow> keeps_constraints s u" by (simp add: keeps_constraints_def)
next
  fix s :: "'a platform_scheme" and P
  show "keeps_constraints s (s\<lparr>payments := filter (\<lambda>p. \<not> (P p \<and> pm_Status p = DraftPaymentStatus)) (payments s)\<rparr>)"
    by (simp add: keeps_constraints_def sdp_db_ok_def payments_ok_filter)
next
  fix s :: "'a platform_scheme" and rs
  show "receivers_ok (s\<lparr>receivers := rs\<rparr>) \<Longrightarrow> rr_id ` set (receivers s) \<subseteq> rr_id ` set rs \<Longrightarrow> keeps_constraints s (s\<lparr>receivers := rs\<rparr>)"
    by (auto simp: keeps_constraints_def sdp_db_ok_def receiver_verifications_ok_def receiver_wallets_ok_def list_all_iff subset_iff)
qed (simp_all add: keeps_constraints_def, simp_all add: sdp_db_ok_def)

section \<open>The steps of the platform\<close>

lemma constraints_send: "keeps keeps_constraints (SendBatchPayments env n)"
  unfolding SendBatchPayments_def sendPaymentsReadyToPay_def send_body_def markPaymentsAsFailed_def Let_def
  by (intro keeps_intros constraints.keeps_UpdateStatuses constraints.keeps_send) simp_all

lemma constraints_sync: "keeps keeps_constraints (SyncBatchTransactions n tenant)"
  unfolding SyncBatchTransactions_def sync_body_def TransactionModel_GetTransactionBatchForUpdate_def
  by (intro keeps_intros constraints.keeps_syncTransactions) simp_all

lemma constraints_more: "tss_state.more s' = tss_state.more s \<Longrightarrow> keeps_constraints s s'"
  using sdp_db_ok_cong [of s s'] more_fields [of s' s] by (simp add: keeps_constraints_def)

lemma platform_step_constraints: "platform_step eng env tenant s s' \<Longrightarrow> keeps_constraints s s'"
proof (induction rule: platform_step.induct)
  case (tick s r s')
  then show ?case by (intro constraints_more tick_more)
next
  case (send n s r s')
  from keepsD [OF constraints_send send] show ?case .
next
  case (sync n s r s')
  from keepsD [OF constraints_sync sync] show ?case .
next
  case (foreign txs s rs s')
  from keepsD [OF same_more.keeps_BulkInsert foreign(1)] show ?case by (intro constraints_more) (simp add: same_more_def)
next
  case (synced "is" s r s')
  from keepsD [OF same_more.keeps_UpdateSynced synced] show ?case by (intro constraints_more) (simp add: same_more_def)
next
  case (add_accounts keys s r s')
  from keepsD [OF same_more.keeps_ca_BatchInsert add_accounts] show ?case by (intro constraints_more) (simp add: same_more_def)
next
  case (delete_account k n s r s')
  from keepsD [OF same_more.keeps_ca_DeleteIfLockedUntil delete_account] show ?case by (intro constraints_more) (simp add: same_more_def)
next
  case (environment s now fs ks)
  show ?case unfolding keeps_constraints_def by (rule impI, erule sdp_db_ok_cong [THEN iffD1, rotated -1]) simp_all
next
  case (start_disbursement d u a s r s')
  then show ?case by (rule keepsD [OF constraints.keeps_management(1), rotated]) simp
next
  case (submit d u a s r s')
  then show ?case by (rule keepsD [OF constraints.keeps_management(2), rotated]) simp
next
  case (pause d u s r s')
  then show ?case by (rule keepsD [OF constraints.keeps_management(3), rotated]) simp
next
  case (approve d u s r s')
  then show ?case by (rule keepsD [OF constraints.keeps_management(4), rotated]) simp
next
  case (reject d u why s r s')
  then show ?case by (rule keepsD [OF constraints.keeps_management(5), rotated]) simp
next
  case (insert_all inserts s r s')
  then show ?case by (rule keepsD [OF constraints.keeps_InsertAll, rotated]) simp
next
  case (create_direct i u s x s')
  then show ?case by (rule keepsD [OF constraints.keeps_CreateDirect, rotated]) simp
next
  case (delete_drafts d s r s')
  from keepsD [OF constraints.keeps_DeleteDrafts delete_drafts] show ?case .
next
  case (retry email ids s r s')
  then show ?case by (rule keepsD [OF constraints.keeps_Retry, rotated]) simp
next
  case (cancel s r s')
  then show ?case by (rule keepsD [OF constraints.keeps_Cancel, rotated]) simp
next
  case (others s' s os as ws rs rvs rws ds)
  then show ?case by (simp add: keeps_constraints_def)
qed

section \<open>The registration\<close>

text \<open>The tables of the transaction and the committed tables both satisfy the constraints.\<close>

definition on_committed :: "'z registration_scheme \<Rightarrow> 'z registration_scheme" where
  "on_committed s = s\<lparr>receiver_wallets := pool_wallets s, receiver_verifications := pool_verifications s\<rparr>"

definition both_ok :: "'z registration_scheme \<Rightarrow> 'z registration_scheme \<Rightarrow> bool" where
  "both_ok s t \<longleftrightarrow> same_rest s t \<and> (sdp_db_ok s \<and> sdp_db_ok (on_committed s) \<longrightarrow> sdp_db_ok t \<and> sdp_db_ok (on_committed t))"

definition one_ok :: "'z registration_scheme \<Rightarrow> 'z registration_scheme \<Rightarrow> bool" where
  "one_ok s t \<longleftrightarrow> same_rest s t \<and> pool_wallets t = pool_wallets s \<and> pool_verifications t = pool_verifications s \<and> keeps_constraints s t"

interpretation one_ok: db_relation one_ok
  by unfold_locales (auto simp: one_ok_def same_rest_def keeps_constraints_def tss_rollback_def intro: sdp_db_ok_cong [THEN iffD1, rotated -1])

lemma same_rest_trans: "same_rest s t \<Longrightarrow> same_rest t u \<Longrightarrow> same_rest s u"
  by (simp add: same_rest_def)

interpretation both_ok: db_relation both_ok
proof
  fix s t u :: "'a registration_scheme" and fs
  show "both_ok s s" by (simp add: both_ok_def same_rest_def)
  show "both_ok s t \<Longrightarrow> both_ok t u \<Longrightarrow> both_ok s u" by (auto simp: both_ok_def intro: same_rest_trans)
  have "sdp_db_ok (on_committed (s\<lparr>conn_faults := fs\<rparr>)) = sdp_db_ok (on_committed s)"
    by (rule sdp_db_ok_cong) (simp_all add: on_committed_def)
  then show "both_ok s (s\<lparr>conn_faults := fs\<rparr>)" by (simp add: both_ok_def same_rest_def)
  have "sdp_db_ok (on_committed (tss_rollback s t)) = sdp_db_ok (on_committed t)"
    by (rule sdp_db_ok_cong) (simp_all add: on_committed_def tss_rollback_def)
  moreover have "same_rest s (tss_rollback s t) = same_rest s t" if "same_rest s t"
    using that by (simp add: same_rest_def tss_rollback_def)
  ultimately show "both_ok s t \<Longrightarrow> both_ok s (tss_rollback s t)" by (simp add: both_ok_def)
qed

lemma both_of_one:
  assumes "keeps one_ok m"
  shows "keeps both_ok m"
proof (rule keepsI)
  fix s t r assume "m s = (r, t)"
  with assms have "one_ok s t" by (rule keepsD)
  then have "sdp_db_ok (on_committed t) = sdp_db_ok (on_committed s)"
    by (intro sdp_db_ok_cong) (simp_all add: one_ok_def same_rest_def on_committed_def)
  with \<open>one_ok s t\<close> show "both_ok s t" by (simp add: one_ok_def both_ok_def keeps_constraints_def)
qed

lemma both_on_pool:
  assumes "keeps one_ok m"
  shows "keeps both_ok (on_pool m)"
proof (rule keepsI)
  fix s s' :: "'a registration_scheme" and r assume "on_pool m s = (r, s')"
  then obtain t where "m (on_committed s) = (r, t)" and s': "s' = t\<lparr>pool_wallets := receiver_wallets t, pool_verifications := receiver_verifications t,
      receiver_wallets := receiver_wallets s, receiver_verifications := receiver_verifications s\<rparr>"
    by (auto simp: on_pool_def on_committed_def split: prod.splits)
  with assms have one: "one_ok (on_committed s) t" by (blast dest: keepsD)
  then have "sdp_db_ok s' = sdp_db_ok s" "sdp_db_ok (on_committed s') = sdp_db_ok t"
    by (intro sdp_db_ok_cong; simp add: s' one_ok_def same_rest_def on_committed_def)+
  with one show "both_ok s s'"
    by (simp add: both_ok_def one_ok_def keeps_constraints_def) (simp add: s' same_rest_def on_committed_def)
qed

lemma one_ok_wallets:
  fixes P :: "'z registration_scheme \<Rightarrow> ReceiverWallet \<Rightarrow> bool"
  assumes "\<And>now w. rw_ID (f now w) = rw_ID w"
  shows "keeps one_ok (rw_update_where P f)"
proof -
  have "keeps keeps_constraints (rw_update_where P f)"
    by (rule constraints.keeps_wallet_statement) (rule assms)
  moreover have "keeps (\<lambda>s t. same_rest s t \<and> pool_wallets t = pool_wallets s \<and> pool_verifications t = pool_verifications s)
      (rw_update_where P f)"
    unfolding rw_update_where_def keeps_def
    by (auto simp: db_call_def Let_def same_rest_def split: list.splits fault.splits)
  ultimately show ?thesis by (simp add: keeps_def one_ok_def)
qed

lemma one_ok_verifications: "keeps one_ok (rv_write (rv_update P f) :: ('z registration_scheme, go_error, unit) prog)"
proof -
  have "keeps keeps_constraints (rv_write (rv_update P f) :: ('z registration_scheme, go_error, unit) prog)"
    by (rule constraints.keeps_verification_statement) (auto simp: rv_update_def)
  moreover have "keeps (\<lambda>s t. same_rest s t \<and> pool_wallets t = pool_wallets s \<and> pool_verifications t = pool_verifications s)
      (rv_write (rv_update P f) :: ('z registration_scheme, go_error, unit) prog)"
    unfolding rv_write_def rv_update_def keeps_def
    by (auto simp: db_call_def same_rest_def split: list.splits fault.splits)
  ultimately show ?thesis by (simp add: keeps_def one_ok_def)
qed

lemma one_ok_programs:
  "keeps one_ok (ReceiverWalletModel_Update env i u)" "keeps one_ok (ReceiverVerificationModel_UpdateReceiverVerification vu)"
  "keeps one_ok (query_wallet P)" "keeps one_ok (ReceiverModel_GetByContacts cs)"
  "keeps one_ok (ReceiverVerificationModel_GetByReceiverIDsAndVerificationField is fld)"
  unfolding ReceiverWalletModel_Update_def check_memo_def ReceiverWalletModel_GetByID_def not_found_as_def query_wallet_def get_first_def
    ReceiverVerificationModel_UpdateReceiverVerification_def ReceiverModel_GetByContacts_def ReceiverVerificationModel_GetByReceiverIDsAndVerificationField_def
  by (intro keeps_intros one_ok_wallets one_ok_verifications one_ok.keeps_db_call; simp add: set_receiver_wallet_def throw_def one_ok.R_refl)+

lemma both_ok_body: "keeps both_ok (verify_registration_body env c req contact)"
  unfolding verify_registration_body_def processReceiverWalletOTP_def incrementOTPAttempts_def Let_def processReceiverVerificationPII_def
    verify_value_def processTransactionID_def ReceiverWalletModel_GetByReceiverIDAndWalletDomain_def
  by (intro keeps_intros both_on_pool both_of_one one_ok_programs)

lemma constraints_verify:
  assumes "with_pool (RunInTransaction registration_rollback (verify_registration_body env c req contact)) s = (r, s')"
  shows "keeps_constraints s s'"
proof -
  define S where "S = platform.extend s (registration.fields (receiver_wallets s) (receiver_verifications s))"
  obtain t where run: "RunInTransactionWithResult registration_rollback (verify_registration_body env c req contact) S = (r, t)"
    and s': "s' = platform.truncate t"
    using assms by (auto simp: with_pool_def S_def RunInTransaction_def split: prod.splits)
  have ok: "sdp_db_ok S = sdp_db_ok s" "sdp_db_ok (on_committed S) = sdp_db_ok s" "sdp_db_ok s' = sdp_db_ok t"
    by (rule sdp_db_ok_cong; simp add: S_def s' on_committed_def platform.defs registration.defs)+
  have faults: "sdp_db_ok (on_committed (S\<lparr>conn_faults := fs\<rparr>)) = sdp_db_ok (on_committed S)" for fs
    by (rule sdp_db_ok_cong) (simp_all add: on_committed_def)
  from run have "sdp_db_ok s \<longrightarrow> sdp_db_ok t"
  proof (cases rule: transaction_run_cases)
    case (not_begun fs)
    with ok show ?thesis by simp
  next
    case (rolled_back fs gs x u)
    from keepsD [OF both_ok_body rolled_back(1)] have both: "both_ok (S\<lparr>conn_faults := fs\<rparr>) u" .
    then have "sdp_db_ok t = sdp_db_ok (on_committed u)"
      by (intro sdp_db_ok_cong) (simp_all add: rolled_back(2) registration_rollback_def sdp_rollback_def on_committed_def both_ok_def same_rest_def)
    with both ok faults show ?thesis by (simp add: both_ok_def)
  next
    case (committed fs gs x u)
    from keepsD [OF both_ok_body committed(1)] committed(2) ok faults show ?thesis by (simp add: both_ok_def)
  qed
  with ok show ?thesis by (simp add: keeps_constraints_def)
qed

end
