(* ===== verification/Tenant.thy ===== *)
theory Tenant
  imports Constraints
begin

text \<open>
  The platform of a tenant with its handlers as a state machine: the steps of \<open>Platform\<close> and the HTTP handlers of
  the disbursements, of the one-time passwords and of the registration, in any order and with any fault. Every
  reachable state satisfies the invariant of the platform and the constraints of both databases.
\<close>

section \<open>The handlers keep the invariants\<close>

interpretation plat_tenant: tenant_relation "plat_rel W A" calm_tx "pm_evolves W" "\<lambda>p. pm_Status p \<noteq> SuccessPaymentStatus" "new_payment_tx A" for W A
proof
  fix s :: "'a platform_scheme" and rs vs
  have "payments_ok (s\<lparr>receivers := rs\<rparr>) = payments_ok s" "payments_ok (s\<lparr>receiver_verifications := vs\<rparr>) = payments_ok s"
    "tss_db_ok (s\<lparr>receivers := rs\<rparr>) = tss_db_ok s" "tss_db_ok (s\<lparr>receiver_verifications := vs\<rparr>) = tss_db_ok s"
    by (simp_all add: tss_db_ok_def)
  with plat_rel_refl [of W A s]
  show "plat_rel W A s (s\<lparr>receivers := rs\<rparr>)" "plat_rel W A s (s\<lparr>receiver_verifications := vs\<rparr>)"
    by (simp_all add: plat_rel_def)
qed (auto simp: inserted_payment_def payment_status_defs)

interpretation follow_tenant: tenant_relation follow_rel "\<lambda>_ _. True" follows newborn "\<lambda>_. True"
  by unfold_locales (auto simp: follow_rel_def payments_follow_refl inserted_payment_def newborn_def payment_history_def)

text \<open>The verification of a registration changes receiver wallets and verifications only, and no id.\<close>

lemma registered_ids: "map rw_ID (registered_wallets c contact now i ws) = map rw_ID ws"
proof -
  have "map rw_ID (update_wallet i u now ws) = map rw_ID ws" for u now ws
    unfolding update_wallet_def by (rule map_sql_update_key) (simp add: rw_touched_def set_receiver_wallet_def)
  then show ?thesis by (simp add: registered_wallets_def)
qed

lemma guessed_ids: "list_all2 guessed_wallet ws ws' \<Longrightarrow> map rw_ID ws' = map rw_ID ws"
  by (induction rule: list_all2_induct) (auto simp: guessed_wallet_def)

lemma registration_frame:
  assumes "VerifyReceiverRegistration rg claims decoded s = (r, s')"
  shows "same_rest s s'" and "payments_ok s' = payments_ok s"
proof -
  from verify_outcome [OF assms] have "same_rest s s' \<and> map rw_ID (receiver_wallets s') = map rw_ID (receiver_wallets s)"
    by (auto simp: only_guessed_def registration_accepted_def guessed_ids registered_ids)
  then show rest: "same_rest s s'" and "payments_ok s' = payments_ok s"
    by (auto simp: payments_ok_def payment_row_ok_def [abs_def] same_rest_def cong: option.case_cong) (metis list.set_map)+
qed

lemma register_plat: "VerifyReceiverRegistration rg claims decoded s = (r, s') \<Longrightarrow> plat_rel W A s s'"
  using registration_frame [of rg claims decoded s r s']
  by (simp add: plat_rel_def same_rest_def tss_db_ok_def txs_evolve_refl payments_persist_refl payments_paid_refl)

lemma register_follow: "VerifyReceiverRegistration rg claims decoded s = (r, s') \<Longrightarrow> follow_rel s s'"
  using registration_frame [of rg claims decoded s r s'] by (intro follow_same) (simp_all add: same_rest_def)

lemma register_constraints:
  assumes "VerifyReceiverRegistration rg claims decoded s = (r, s')"
  shows "keeps_constraints s s'"
proof -
  have valid: "keeps keeps_constraints (validate_registration rg claims decoded)"
    unfolding validate_registration_def validate_captcha_def IsCAPTCHADisabled_def Let_def by (intro keeps_intros)
  have "keeps keeps_constraints (with_pool (RunInTransaction registration_rollback (verify_registration_body env c req contact)))" for env c req contact
    by (rule keepsI) (rule constraints_verify)
  then have "keeps keeps_constraints (VerifyReceiverRegistration rg claims decoded)"
    unfolding VerifyReceiverRegistration_def Let_def by (intro keeps_intros valid)
  with assms show ?thesis by (blast dest: keepsD)
qed

section \<open>The tenant as a state machine\<close>

text \<open>Every operation of the platform, and the handlers: creation of a disbursement with or without instructions, upload
  of instructions, deletion, the changes of its status, the request for a one-time password, the verification of a
  registration and its removal, a direct payment, the cancellation and the retry of payments.\<close>

inductive tenant_step :: "submitter_engine \<Rightarrow> http_env \<Rightarrow> registration_env \<Rightarrow> string \<Rightarrow> platform \<Rightarrow> platform \<Rightarrow> bool"
  for eng he rg tenant where
  platform: "platform_step eng (he_sdp he) tenant s s' \<Longrightarrow> tenant_step eng he rg tenant s s'"
| post_disbursement: "PostDisbursement he u request s = (d, s') \<Longrightarrow> tenant_step eng he rg tenant s s'"
| upload: "PostDisbursementInstructions he file u i s = (r, s') \<Longrightarrow> tenant_step eng he rg tenant s s'"
| delete_disbursement: "DeleteDisbursement i s = (d, s') \<Longrightarrow> tenant_step eng he rg tenant s s'"
| patch_disbursement: "PatchDisbursementStatus (he_sdp he) i u requested s = (r, s') \<Longrightarrow> tenant_step eng he rg tenant s s'"
| approve_disbursement: "ApproveDisbursement_handler i u s = (r, s') \<Longrightarrow> tenant_step eng he rg tenant s s'"
| reject_disbursement: "RejectDisbursement_handler i u why s = (r, s') \<Longrightarrow> tenant_step eng he rg tenant s s'"
| submit_disbursement: "SubmitDisbursement_handler (he_sdp he) i u s = (r, s') \<Longrightarrow> tenant_step eng he rg tenant s s'"
| send_otp: "ReceiverSendOTPHandler_ServeHTTP rg claims otp_request s = (x, s') \<Longrightarrow> tenant_step eng he rg tenant s s'"
| register: "VerifyReceiverRegistration rg claims decoded s = (r, s') \<Longrightarrow> tenant_step eng he rg tenant s s'"
| unregister: "ReceiverWalletModel_UpdateStatusToReady i s = (r, s') \<Longrightarrow> tenant_step eng he rg tenant s s'"
| post_payment: "PostDirectPayment (he_sdp he) de payment_request user s = (p, s') \<Longrightarrow> tenant_step eng he rg tenant s s'"
| patch_payment: "PatchPaymentStatus status i s = (x, s') \<Longrightarrow> tenant_step eng he rg tenant s s'"
| retry_payments: "RetryPayments (he_sdp he) email retried circle s = (x, s') \<Longrightarrow> tenant_step eng he rg tenant s s'"

inductive tenant_reachable :: "submitter_engine \<Rightarrow> http_env \<Rightarrow> registration_env \<Rightarrow> string \<Rightarrow> platform \<Rightarrow> bool"
  for eng he rg tenant where
  start: "platform_initial s \<Longrightarrow> tenant_reachable eng he rg tenant s"
| step: "tenant_reachable eng he rg tenant s \<Longrightarrow> tenant_step eng he rg tenant s s' \<Longrightarrow> tenant_reachable eng he rg tenant s'"

lemma platform_tenant: "platform_reachable eng (he_sdp he) tenant s \<Longrightarrow> tenant_reachable eng he rg tenant s"
  by (induction rule: platform_reachable.induct) (auto intro: tenant_reachable.intros tenant_step.platform)

text \<open>A handler that respects the three relations, at every state it is called in.\<close>

definition handler_ok :: "sdp_env \<Rightarrow> platform \<Rightarrow> platform \<Rightarrow> bool" where
  "handler_ok env s s' \<longleftrightarrow> plat_rel {} (ready_amounts env (payments s)) s s' \<and> follow_rel s s' \<and> keeps_constraints s s'"

lemma handler_okI:
  assumes "\<And>A. keeps (plat_rel {} A) m" and "keeps follow_rel m" and "keeps keeps_constraints m" and "m s = (r, s')"
  shows "handler_ok env s s'"
  using assms by (auto simp: handler_ok_def dest: keepsD)

lemma status_handlers_ok:
  "PatchDisbursementStatus env i u requested s = (r, s') \<Longrightarrow> handler_ok env s s'"
  "ApproveDisbursement_handler i u s = (r, s') \<Longrightarrow> handler_ok env s s'"
  "RejectDisbursement_handler i u why s = (r, s') \<Longrightarrow> handler_ok env s s'"
  "SubmitDisbursement_handler env i u s = (r, s') \<Longrightarrow> handler_ok env s s'"
  by (erule handler_okI [rotated 3];
      intro plat_tenant.keeps_status_handlers follow_tenant.keeps_status_handlers constraints.keeps_status_handlers;
      auto simp: payment_status_defs intro: follows_status move_machine)+

lemma payment_handlers_ok:
  "PostDirectPayment env de decoded user s = (p, s') \<Longrightarrow> handler_ok env s s'"
  "RetryPayments env email retried circle s = (x, s') \<Longrightarrow> handler_ok env s s'"
  "PatchPaymentStatus status i s = (x, s') \<Longrightarrow> handler_ok env s s'"
proof -
  show "handler_ok env s s'" if "PostDirectPayment env de decoded user s = (p, s')"
    using that
    by (rule handler_okI [OF plat_tenant.keeps_payment_handlers(1) follow_tenant.keeps_payment_handlers(1) constraints.keeps_payment_handlers(1), rotated -1])
      (auto simp: inserted_payment_def payment_status_defs newborn_def payment_history_def)
  show "handler_ok env s s'" if "RetryPayments env email retried circle s = (x, s')"
    using that
    by (rule handler_okI [OF plat_tenant.keeps_payment_handlers(2) follow_tenant.keeps_payment_handlers(2) constraints.keeps_payment_handlers(2), rotated -1])
      (simp add: pm_evolves_def kept_payment_def paid_by_def payment_update_defs payment_status_defs, erule follows_status(3), simp)
  have "keeps (plat_rel {} A) (CancelPayment j)" "keeps follow_rel (CancelPayment j)" "keeps keeps_constraints (CancelPayment j)" for A j
    by (rule plat_tenant.keeps_CancelPayment, simp add: pm_evolves_def kept_payment_def paid_by_def payment_update_defs payment_status_defs)
      (rule follow.CancelPayment_guarded, blast intro: follows_status(1) move_machine, rule constraints.keeps_CancelPayment, simp)
  then show "handler_ok env s s'" if "PatchPaymentStatus status i s = (x, s')"
    using that
    by (blast intro: handler_okI [OF plat_tenant.keeps_payment_handlers(3) follow_tenant.keeps_payment_handlers(3) constraints.keeps_payment_handlers(3)])
qed

lemma tenant_step_cases:
  assumes "tenant_step eng he rg tenant s s'"
  shows "platform_step eng (he_sdp he) tenant s s' \<or> handler_ok (he_sdp he) s s'"
  using assms
proof cases
  case platform
  then show ?thesis ..
next
  case (post_disbursement u request d)
  from handler_okI [OF plat_tenant.keeps_disbursement_handlers(1) follow_tenant.keeps_disbursement_handlers(1) constraints.keeps_disbursement_handlers(1) this]
  show ?thesis ..
next
  case (upload attached u i r)
  from handler_okI [OF plat_tenant.keeps_disbursement_handlers(2) follow_tenant.keeps_disbursement_handlers(2) constraints.keeps_disbursement_handlers(2) this]
  show ?thesis ..
next
  case (delete_disbursement i d)
  from handler_okI [OF plat_tenant.keeps_disbursement_handlers(3) follow_tenant.keeps_disbursement_handlers(3) constraints.keeps_disbursement_handlers(3) this]
  show ?thesis ..
next
  case (send_otp claims request x)
  from handler_okI [OF plat_tenant.keeps_otp follow_tenant.keeps_otp constraints.keeps_otp this] show ?thesis ..
next
  case (register claims decoded r)
  then show ?thesis by (auto simp: handler_ok_def intro: register_plat register_follow register_constraints)
next
  case (unregister i r)
  from handler_okI [OF plat_tenant.keeps_wallet_updates(4) follow_tenant.keeps_wallet_updates(4) constraints.keeps_wallet_updates(4) this]
  show ?thesis ..
qed (auto dest: status_handlers_ok [where env = "he_sdp he"] payment_handlers_ok [where env = "he_sdp he"])

lemma tenant_step_ok:
  assumes "tenant_step eng he rg tenant s s'"
  shows "platform_ok eng (he_sdp he) tenant s \<Longrightarrow> platform_ok eng (he_sdp he) tenant s'" and "follow_rel s s'" and "keeps_constraints s s'"
proof -
  from tenant_step_cases [OF assms] have cases: "platform_step eng (he_sdp he) tenant s s' \<or> handler_ok (he_sdp he) s s'" .
  then show "platform_ok eng (he_sdp he) tenant s \<Longrightarrow> platform_ok eng (he_sdp he) tenant s'"
    by (auto simp: handler_ok_def intro: platform_step_ok plat_rel_ok)
  from cases show "follow_rel s s'" "keeps_constraints s s'"
    by (auto simp: handler_ok_def intro: platform_step_follows platform_step_constraints)
qed

lemma tenant_reachable_ok:
  "tenant_reachable eng he rg tenant s \<Longrightarrow> platform_ok eng (he_sdp he) tenant s \<and> sdp_db_ok s"
proof (induction rule: tenant_reachable.induct)
  case (start s)
  then have "platform_reachable eng (he_sdp he) tenant s" by (rule platform_reachable.start)
  with start platform_reachable_ok show ?case by (auto simp: platform_initial_def)
next
  case (step s s')
  with tenant_step_ok show ?case unfolding keeps_constraints_def by blast
qed

text \<open>The history of a payment spells a run of its machine.\<close>

lemma tenant_reachable_histories: "tenant_reachable eng he rg tenant s \<Longrightarrow> list_all history_spells (payments s)"
proof (induction rule: tenant_reachable.induct)
  case (start s)
  then show ?case by (simp add: platform_initial_def)
next
  case (step s s')
  from tenant_reachable_ok [OF step.hyps(1)] have "payments_ok s" by (simp add: platform_ok_def)
  with tenant_step_ok(2) [OF step.hyps(2)] have "payments_follow (payments s) (payments s')" by (simp add: follow_rel_def)
  with step.IH show ?case
    unfolding payments_follow_def list_all_iff by (metis follows_spells newborn_spells)
qed

end
