(* ===== verification/Platform_Example.thy ===== *)
theory Platform_Example
  imports Platform Service_Example
begin

text \<open>
  A run of the whole platform: a direct payment is created, sent to the submission service, delivered by a
  tick and synchronised; every step is evaluated. The states on the way apply the theorems to concrete inputs.
\<close>

section \<open>Creating a payment\<close>

definition platform_env :: sdp_env where
  "platform_env = \<lparr>env_sdk = example_sdk,
     amount_ParseInt64 = (\<lambda>a. if a = ''5'' \<or> a = ''5.0000000'' then Inr 50000000 else Inl (Errorf ''invalid amount'')),
     decimal_NewFromString = (\<lambda>a. if a = ''5.0000000'' \<or> a = ''5.00'' then Inr 5 else Inl (Errorf ''can't convert to decimal'')),
     decimal_Truncate = (\<lambda>n x. x), numeric_column = (\<lambda>a. if a = ''5'' then Some ''5.0000000'' else None),
     numeric_value = (\<lambda>a. 5), numeric_round_2 = (\<lambda>x. ''5.00''),
     bcrypt_GenerateFromPassword = (\<lambda>n v. Inr v), bcrypt_CompareHashAndPassword = (\<lambda>h v. h = v),
     phonenumbers_IsValidNumber = (\<lambda>n. True), RandomString_6 = (\<lambda>n. Inr ''123456''), IsTestNetwork = False, map_range = (\<lambda>n xs. xs),
     GetTenantFromContext = Inr (''tenant'', ''https://tenant''), GenerateHashFromBaseURL = (\<lambda>u. u),
     DistributionAccountFromContext = (\<lambda>n. Inr \<lparr>ta_Address = replicate 56 CHR ''D'', ta_CircleWalletID = [],
        ta_Type = DistributionAccountStellarEnv, ta_Status = ''ACTIVE''\<rparr>),
     GetBalance = (\<lambda>n a as. Inr 100)\<rparr>"

definition platform_start :: platform where
  "platform_start = tss_state.extend (service_start\<lparr>conn_uuid := (\<lambda>n. if n = 0 then ''p2'' else ''u'')\<rparr>)
     \<lparr>organizations = [], assets = [], wallets = [], receivers = [], receiver_verifications = [], receiver_wallets = [], disbursements = [], payments = []\<rparr>"

definition platform_receiver_wallet :: ReceiverWallet where
  "platform_receiver_wallet = \<lparr>rw_ID = ''rw'', rw_receiver_id = ''r'', rw_wallet_id = ''w'', rw_StellarAddress = Destination example_payment, rw_StellarMemo = [],
     rw_StellarMemoType = [], rw_Status = RegisteredReceiversWalletStatus, rw_StatusHistory = [], rw_SEP24TransactionID = None,
     rw_OTP = [], rw_OTPAttempts = 0, rw_OTPCreatedAt = None, rw_OTPConfirmedAt = None, rw_OTPConfirmedWith = [], rw_InvitationSentAt = None, rw_UpdatedAt = 0\<rparr>"

definition platform_settled :: platform where
  "platform_settled = platform_start\<lparr>
     organizations := [\<lparr>org_Name = ''org'', org_IsApprovalRequired = True, org_IsMemoTracingEnabled = False, org_PaymentCancellationPeriodDays = None, org_CAPTCHADisabled = None\<rparr>],
     assets := [\<lparr>as_ID = ''xlm'', as_Code = ''XLM'', as_Issuer = []\<rparr>],
     wallets := [\<lparr>wl_ID = ''w'', wl_Name = ''wallet'', wl_SEP10ClientDomain = ''wallet.org'', wl_Enabled = True, wl_UserManaged = False, wl_Embedded = False, wl_DeletedAt = None\<rparr>],
     receivers := [\<lparr>rr_id = ''r'', rr_email = Some ''r@x.org'', rr_phone_number = None, rr_external_id = ''ext'', rr_recipient_name = None,
       rr_currency_type = None, rr_created_at = 0, rr_updated_at = 0\<rparr>], receiver_verifications := [],
     receiver_wallets := [platform_receiver_wallet], disbursements := []\<rparr>"

definition platform_funded :: platform where
  "platform_funded = platform_settled\<lparr>channel_accounts := [service_account]\<rparr>"

definition direct_payment :: PaymentInsert where
  "direct_payment = \<lparr>pi_ReceiverID = ''r'', pi_DisbursementID = None, pi_PaymentType = PaymentTypeDirect, pi_Amount = ''5'',
     pi_AssetID = ''xlm'', pi_ReceiverWalletID = ''rw'', pi_ExternalPaymentID = None\<rparr>"

definition platform_payment :: payment_row where
  "platform_payment = \<lparr>pm_ID = ''p2'', pm_Amount = ''5.0000000'', pm_StellarTransactionID = [], pm_Status = ReadyPaymentStatus,
     pm_StatusHistory = [payment_history 7 ReadyPaymentStatus ''Payment submitted by user_id me''], pm_Type = PaymentTypeDirect,
     pm_disbursement_id = None, pm_asset_id = ''xlm'', pm_receiver_id = ''r'', pm_receiver_wallet_id = ''rw'',
     pm_CreatedAt = 7, pm_UpdatedAt = 7, pm_ExternalPaymentID = [], pm_SenderAddress = []\<rparr>"

definition platform_created :: platform where
  "platform_created = platform_funded\<lparr>payments := [platform_payment], conn_uuid_next := 1\<rparr>"

definition platform_pending :: payment_row where
  "platform_pending = pm_touched (set_payment_status PendingPaymentStatus []) 7 platform_payment"

definition platform_sent :: platform where
  "platform_sent = platform_created\<lparr>payments := [platform_pending], conn_uuid_next := 2, submitter_transactions := [service_row],
     tss_calls := 1\<rparr>"

lemmas platform_state_defs = platform_sent_def platform_created_def platform_funded_def platform_settled_def platform_start_def
  service_start_def tss_state.extend_def

lemma platform_accounts_added: "ChannelAccountModel_BatchInsert [(''C'', ''S'')] platform_settled = (Inr (), platform_funded)"
  by (simp add: ChannelAccountModel_BatchInsert_def ca_insert_exec_def platform_state_defs service_account_def
    new_channel_account_def wrapE_def handleE_def bindE_def ret_def RunInTransaction_def RunInTransactionWithResult_def ca_table_ok_def)

lemma platform_row_ok:
  "pm_Status p \<in> set PaymentStatuses \<Longrightarrow> pm_Type p = PaymentTypeDirect \<Longrightarrow> pm_disbursement_id p = None \<Longrightarrow>
   length (pm_StellarTransactionID p) \<le> 64 \<Longrightarrow> pm_ExternalPaymentID p = [] \<Longrightarrow> pm_asset_id p = ''xlm'' \<Longrightarrow> pm_receiver_wallet_id p = ''rw'' \<Longrightarrow>
   assets s = assets platform_settled \<Longrightarrow> receiver_wallets s = receiver_wallets platform_settled \<Longrightarrow> payments s = [p] \<Longrightarrow> payments_ok s"
  by (simp add: payments_ok_def payment_row_ok_def platform_state_defs platform_receiver_wallet_def PaymentTypeDirect_def PaymentTypeDisbursement_def)

lemma platform_creates: "PaymentModel_CreateDirectPayment platform_env direct_payment ''me'' platform_funded = (Inr ''p2'', platform_created)"
proof -
  have "payments_ok platform_created"
    by (rule platform_row_ok [of platform_payment])
      (simp_all add: platform_payment_def platform_state_defs PaymentStatuses_def payment_status_defs)
  moreover have "inserted_payment platform_env ReadyPaymentStatus ''Payment submitted by user_id me'' direct_payment platform_funded = Some platform_payment"
    by (simp add: inserted_payment_def direct_payment_def platform_env_def platform_state_defs platform_payment_def nullable_def)
  moreover have "PaymentInsert_Validate platform_env direct_payment = Inr ()"
    by (simp add: PaymentInsert_Validate_def direct_payment_def PaymentType_Validate_def PaymentTypeDirect_def PaymentTypeDisbursement_def
        ValidateAmount_def platform_env_def TrimSpace_def is_space_def)
  moreover have "direct_payment\<lparr>pi_DisbursementID := None\<rparr> = direct_payment" by (simp add: direct_payment_def)
  moreover have "conn_faults platform_funded = []" "payments platform_funded = []" "conn_uuid_next platform_funded = 0" "pm_ID platform_payment = ''p2''"
    by (simp_all add: platform_state_defs platform_payment_def)
  ultimately show ?thesis
    by (simp add: PaymentModel_CreateDirectPayment_def pm_insert_exec_def wrapE_def handleE_def ret_def Let_def platform_created_def)
qed

section \<open>Sending it\<close>

definition platform_joined :: "payment_row \<Rightarrow> data_Payment" where
  "platform_joined p = \<lparr>dp_row = p, dp_Disbursement = None, dp_Asset = \<lparr>as_ID = ''xlm'', as_Code = ''XLM'', as_Issuer = []\<rparr>,
     dp_ReceiverWallet = platform_receiver_wallet\<rparr>"

lemma platform_base:
  assumes "assets s = assets platform_settled" and "wallets s = wallets platform_settled" and "receiver_wallets s = receiver_wallets platform_settled"
    and "disbursements s = []" and "payments s = [p]" and "pm_asset_id p = ''xlm''" and "pm_receiver_wallet_id p = ''rw''"
  shows "base_payments s = [platform_joined p]"
  using assms by (simp add: base_payments_def joined_payment_def List.map_filter_simps platform_joined_def platform_state_defs platform_receiver_wallet_def)

lemma platform_batch:
  "PaymentModel_GetBatchForUpdate 5 platform_created = (Inr [platform_joined platform_payment], platform_created)"
proof -
  have b: "base_payments platform_created = [platform_joined platform_payment]"
    by (rule platform_base) (simp_all add: platform_state_defs platform_payment_def)
  have "disbursement_payments_query platform_created = []" "direct_payments_query platform_created = [platform_joined platform_payment]"
    "conn_faults platform_created = []"
    by (simp_all add: disbursement_payments_query_def direct_payments_query_def b sort_direct_def sql_order_by_def ready_to_pay_def
        platform_joined_def platform_payment_def platform_receiver_wallet_def PaymentTypeDirect_def PaymentTypeDisbursement_def not_held_def)
      (simp_all add: platform_state_defs)
  then show ?thesis
    by (simp add: PaymentModel_GetBatchForUpdate_def wrapE_def handleE_def bindE_def ret_def getsE_def removeEmptyDisbursementForDirect_def Let_def)
      (simp add: platform_joined_def)
qed

lemma platform_valid: "validatePaymentReadyForSending platform_env (platform_joined platform_payment) = Inr ()"
  by (simp add: validatePaymentReadyForSending_def platform_joined_def platform_payment_def platform_receiver_wallet_def Let_def
      PaymentTypeDirect_def PaymentTypeDisbursement_def ValidateAmount_def platform_env_def TrimSpace_def is_space_def example_payment_def)

lemma platform_built:
  assumes "conn_faults s = []" and "organizations s = organizations platform_settled"
  shows "build_transaction platform_env ''tenant'' (platform_joined platform_payment) s = (Inr (example_request ''p2''), s)"
  using assms
  by (simp add: build_transaction_def MemoResolver_GetMemo_def OrganizationModel_Get_def get_first_def bindE_def wrapE_def handleE_def ret_def liftE_def
      getsE_def platform_joined_def platform_payment_def platform_receiver_wallet_def platform_env_def platform_state_defs
      example_sdk_def no_memo_def payment_transaction_def zero_transaction_def example_request_def example_payment_def)

lemma platform_transitions:
  "PaymentStatus_TransitionTo ReadyPaymentStatus PendingPaymentStatus = Inr ()"
  "PaymentStatus_TransitionTo PendingPaymentStatus SuccessPaymentStatus = Inr ()"
  by (simp_all add: payment.transition_iff payment_listed payment_status_defs)

lemma platform_updates:
  assumes "conn_faults s = []" and "payments s = [platform_payment]" and "conn_now s = 7"
    and "assets s = assets platform_settled" and "receiver_wallets s = receiver_wallets platform_settled"
  shows "PaymentModel_UpdateStatuses [platform_joined platform_payment] PendingPaymentStatus s = (Inr 1, s\<lparr>payments := [platform_pending]\<rparr>)"
proof -
  have "payments_ok (s\<lparr>payments := [platform_pending]\<rparr>)"
    by (rule platform_row_ok [of platform_pending])
      (simp_all add: assms platform_pending_def payment_update_defs platform_payment_def PaymentStatuses_def payment_status_defs)
  moreover have "PendingPaymentStatus \<in> set PaymentStatuses" by (simp add: PaymentStatuses_def)
  moreover have "pm_Status platform_payment = ReadyPaymentStatus" by (simp add: platform_payment_def)
  ultimately show ?thesis
    using assms
    by (simp add: PaymentModel_UpdateStatuses_def platform_joined_def platform_transitions pm_set_status_exec_def pm_update_exec_def Let_def
        sql_update_def platform_pending_def wrapE_def handleE_def bindE_def ret_def)
qed

lemma platform_inserts:
  fixes s :: "'z platform_scheme"
  assumes "conn_faults s = []" and "conn_now s = 7" and "conn_uuid_next s = 1" and "conn_uuid s = conn_uuid platform_start"
    and "submitter_transactions s = []"
  shows "TransactionModel_BulkInsert example_sdk [example_request ''p2''] s =
    (Inr [service_row], s\<lparr>conn_uuid_next := 2, submitter_transactions := [service_row]\<rparr>)"
proof -
  have "conn_uuid s 1 = ''u''" by (simp add: assms platform_state_defs)
  then have "inserted_rows (conn_uuid s) 1 7 [example_request ''p2''] = Some [service_row]"
    by (simp add: service_row_def example_insert_rows del: inserted_rows.simps)
  with service_row_ok assms show ?thesis
    by (simp add: TransactionModel_BulkInsert_def example_insert_validates wrapE_def handleE_def ret_def insert_statement_def Let_def
      del: inserted_rows.simps)
qed

lemma platform_sends: "SendBatchPayments platform_env 5 platform_created = (Inr (), platform_sent)"
proof -
  let ?s = "platform_created\<lparr>tss_calls := 1\<rparr>"
  have facts: "conn_faults ?s = []" "conn_now ?s = 7" "conn_uuid_next ?s = 1" "conn_uuid ?s = conn_uuid platform_start"
    "submitter_transactions ?s = []" "organizations ?s = organizations platform_settled" "payments ?s = [platform_payment]"
    "assets ?s = assets platform_settled" "receiver_wallets ?s = receiver_wallets platform_settled" "tss_calls platform_created = 0" "conn_faults platform_sent = []"
    by (simp_all add: platform_state_defs)
  have sdk: "env_sdk platform_env = example_sdk" and tenant: "GetTenantFromContext platform_env = Inr (''tenant'', ''https://tenant'')"
    by (simp_all add: platform_env_def)
  have tss: "sendPaymentsToTSS platform_env ''tenant'' [platform_joined platform_payment] ?s = (Inr (), platform_sent)"
    using platform_built [OF facts(1,6)] platform_inserts [OF facts(1-5)]
      platform_updates [of "?s\<lparr>conn_uuid_next := 2, submitter_transactions := [service_row]\<rparr>"] facts
    by (simp add: sendPaymentsToTSS_def bindE_def wrapE_def handleE_def ret_def sdk platform_sent_def)
  have "StellarPaymentDispatcher_DispatchPayments platform_env ''tenant'' [platform_joined platform_payment] platform_created = (Inr (), platform_sent)"
    using tss facts
    by (simp add: StellarPaymentDispatcher_DispatchPayments_def net_call_def bindE_def wrapE_def handleE_def ret_def liftE_def
        RunInTransaction_def RunInTransactionWithResult_def platform_env_def AccountType_IsStellar_def AccountType_Platform_def accPlatformMap_def
        go_map_get_def account_type_defs)
  then show ?thesis
    using platform_batch platform_valid facts
    by (simp add: SendBatchPayments_def sendPaymentsReadyToPay_def send_body_def RunInTransaction_def RunInTransactionWithResult_def
        tenant bindE_def wrapE_def handleE_def ret_def Let_def markPaymentsAsFailed_def)
qed

section \<open>Delivering and synchronising it\<close>

lemma platform_sent_ready: "service_ready platform_sent"
  by (simp add: service_ready_def platform_state_defs)

definition platform_delivered :: platform where
  "platform_delivered = snd (process_tick service_engine platform_sent)"

lemma platform_tick:
  "process_tick service_engine platform_sent = (Inr (), platform_delivered)"
  "service_delivered platform_sent platform_delivered"
  by (rule service_ticks [OF platform_sent_ready]; simp add: platform_delivered_def)+

text \<open>The synchronisation runs a second later, without faults.\<close>

definition platform_later :: platform where
  "platform_later = platform_delivered\<lparr>conn_now := 8, conn_faults := [], conn_held := []\<rparr>"

definition platform_done :: platform where
  "platform_done = snd (SyncBatchTransactions 5 ''tenant'' platform_later)"

lemma platform_constraints: "sdp_db_ok platform_start" "sdp_db_ok platform_settled"
  by code_simp+

lemma platform_later_reachable: "platform_reachable service_engine platform_env ''tenant'' platform_later"
proof -
  have "platform_reachable service_engine platform_env ''tenant'' platform_start"
    using platform_constraints(1)
    by (intro platform_reachable.start) (simp add: platform_initial_def, simp add: platform_start_def service_start_def tss_state.extend_def)
  moreover have "platform_step service_engine platform_env ''tenant'' platform_start platform_settled"
    using platform_constraints(2) unfolding platform_settled_def by (rule platform_step.others [OF refl])
  ultimately have "platform_reachable service_engine platform_env ''tenant'' platform_settled" by (rule platform_reachable.step)
  then have "platform_reachable service_engine platform_env ''tenant'' platform_funded"
    by (rule platform_reachable.step) (rule platform_step.add_accounts [OF platform_accounts_added])
  then have "platform_reachable service_engine platform_env ''tenant'' platform_created"
    by (rule platform_reachable.step) (rule platform_step.create_direct [OF platform_creates])
  then have "platform_reachable service_engine platform_env ''tenant'' platform_sent"
    by (rule platform_reachable.step) (rule platform_step.send [OF platform_sends])
  then have "platform_reachable service_engine platform_env ''tenant'' platform_delivered"
    by (rule platform_reachable.step) (rule platform_step.tick [OF platform_tick(1)])
  then show ?thesis
    unfolding platform_later_def by (rule platform_reachable.step) (rule platform_step.environment)
qed

lemma platform_done_reachable: "platform_reachable service_engine platform_env ''tenant'' platform_done"
  by (rule platform_reachable.step [OF platform_later_reachable])
    (rule platform_step.sync [of 5 _ _ "fst (SyncBatchTransactions 5 ''tenant'' platform_later)"], simp add: platform_done_def)

definition platform_paid :: payment_row where
  "platform_paid = pm_touched (set_payment_update \<lparr>pu_Status = SuccessPaymentStatus, pu_StatusMessage = [],
     pu_StellarTransactionID = service_envelope, pu_SenderAddress = replicate 56 CHR ''D''\<rparr>) 8 platform_pending"

lemma platform_later_facts:
  obtains r where "submitter_transactions platform_later = [r]" and "row_le service_row r" and "tx_status r = TransactionStatusSuccess"
    and "tx_stellar_transaction_hash r = Some service_envelope" and "tx_synced_at r = None" and "tx_distribution_account r = Some (replicate 56 CHR ''D'')"
    and "tx_status_message r = None" and "tx_row_ok r"
proof -
  from service_delivered_facts(2) [OF platform_tick(2) platform_sent_ready] obtain r
    where r: "submitter_transactions platform_delivered = [r]" "row_le service_row r" "tx_status r = TransactionStatusSuccess"
    "tx_stellar_transaction_hash r = Some service_envelope" "tx_synced_at r = None" "tx_distribution_account r = Some (replicate 56 CHR ''D'')"
    "tx_status_message r = None"
    by metis
  moreover have "tx_row_ok r"
    using platform_reachable_ok [OF platform_later_reachable] r(1)
    by (simp add: platform_ok_def service_ok_def tss_db_ok_def tx_table_ok_def platform_later_def)
  ultimately show ?thesis using that by (simp add: platform_later_def)
qed

lemma platform_later_tables:
  "conn_faults platform_later = []" "conn_now platform_later = 8" "conn_held platform_later = []"
  "assets platform_later = assets platform_settled" "wallets platform_later = wallets platform_settled"
  "receiver_wallets platform_later = receiver_wallets platform_settled" "disbursements platform_later = []" "payments platform_later = [platform_pending]"
  by (simp_all add: platform_later_def more_fields [OF tick_more [OF platform_tick(1)]]) (simp_all add: platform_state_defs)

lemma platform_syncs:
  "fst (SyncBatchTransactions 5 ''tenant'' platform_later) = Inr ()" "payments platform_done = [platform_paid]"
proof -
  obtain r where rows: "submitter_transactions platform_later = [r]" and le: "row_le service_row r"
    and r: "tx_status r = TransactionStatusSuccess" "tx_stellar_transaction_hash r = Some service_envelope" "tx_synced_at r = None"
      "tx_distribution_account r = Some (replicate 56 CHR ''D'')" "tx_status_message r = None"
    and ok: "tx_row_ok r"
    by (rule platform_later_facts)
  have ids: "tx_external_id r = ''p2''" "tx_type r = TransactionTypePayment" "tx_tenant_id r = ''tenant''" "tx_id r = ''u''"
    using le by (simp_all add: row_le_def service_row_def inserted_row_def example_request_def)
  let ?s = platform_later
  note tables = platform_later_tables
  have batch: "TransactionModel_GetTransactionBatchForUpdate 5 ''tenant'' TransactionTypePayment ?s = (Inr [r], ?s)"
    using r ids tables rows
    by (simp add: TransactionModel_GetTransactionBatchForUpdate_def tx_select_for_update_def getsE_def wrapE_def handleE_def bindE_def ret_def
        tx_syncable_def order_nulls_last_def sql_limit_def sql_order_by_def)
  have get: "PaymentModel_GetByIDs [''p2''] ?s = (Inr [platform_joined platform_pending], ?s)"
  proof -
    have "base_payments ?s = [platform_joined platform_pending]"
      by (rule platform_base) (simp_all add: tables platform_pending_def payment_update_defs platform_payment_def)
    then show ?thesis
      by (simp add: PaymentModel_GetByIDs_def PaymentModel_GetAll_def tables wrapE_def handleE_def bindE_def ret_def newPaymentQuery_def
          empty_filter_def no_filters_def payment_condition_def addArrayOrSingleCondition_def add_sorting_def sql_order_by_def
          removeEmptyDisbursementForDirect_def)
        (simp add: platform_joined_def platform_pending_def payment_update_defs platform_payment_def)
  qed
  have target: "payment_target r = Some SuccessPaymentStatus" "payment_update r SuccessPaymentStatus =
      \<lparr>pu_Status = SuccessPaymentStatus, pu_StatusMessage = [], pu_StellarTransactionID = service_envelope, pu_SenderAddress = replicate 56 CHR ''D''\<rparr>"
    using r by (simp_all add: payment_target_def payment_update_def nullable_def)
  have pending: "pm_ID platform_pending = ''p2''" "pm_Status platform_pending = PendingPaymentStatus" "pm_Type platform_pending = PaymentTypeDirect"
    by (simp_all add: platform_pending_def payment_update_defs platform_payment_def)
  have "payments_ok (?s\<lparr>payments := [platform_paid]\<rparr>)"
    by (rule platform_row_ok [of platform_paid])
      (simp_all add: tables platform_paid_def platform_pending_def payment_update_defs platform_payment_def PaymentStatuses_def payment_status_defs
        service_envelope_def)
  moreover have "PaymentUpdate_Validate (payment_update r SuccessPaymentStatus) = Inr ()"
    unfolding target(2)
    by (simp add: PaymentUpdate_Validate_def PaymentStatus_Validate_def Let_def PaymentStatuses_def payment_status_defs service_envelope_def
        TrimSpace_def is_space_def ToUpper_def to_upper_char_def dropWhile_replicate)
  moreover have "SuccessPaymentStatus \<in> set PaymentStatuses" by (simp add: PaymentStatuses_def)
  ultimately have upd: "PaymentModel_Update (platform_joined platform_pending) (payment_update r SuccessPaymentStatus) ?s =
      (Inr (), ?s\<lparr>payments := [platform_paid]\<rparr>)"
    using pending tables
    by (simp add: PaymentModel_Update_def target platform_joined_def platform_transitions pm_set_status_exec_def pm_update_exec_def Let_def
        sql_update_def platform_paid_def wrapE_def handleE_def bindE_def ret_def)
  have synced: "TransactionModel_UpdateSyncedTransactions [''u''] (?s\<lparr>payments := [platform_paid]\<rparr>) =
      (Inr (), ?s\<lparr>payments := [platform_paid], submitter_transactions := [r\<lparr>tx_synced_at := Some 8, tx_updated_at := 8\<rparr>]\<rparr>)"
  proof -
    have "tx_table_ok [r\<lparr>tx_synced_at := Some 8, tx_updated_at := 8\<rparr>]"
      using ok by (simp add: tx_table_ok_def tx_unique_ok_def map_filter_Cons tx_row_ok_def Let_def split: option.splits)
    then show ?thesis
      using r ids tables rows
      by (simp add: TransactionModel_UpdateSyncedTransactions_def tx_update_exec_def Let_def sql_update_def wrapE_def handleE_def bindE_def ret_def)
  qed
  have "syncTransactions [r] ?s = (Inr (), ?s\<lparr>payments := [platform_paid], submitter_transactions := [r\<lparr>tx_synced_at := Some 8, tx_updated_at := 8\<rparr>]\<rparr>)"
    using get upd synced r ids target pending
    by (simp add: syncTransactions_def syncPaymentWithTransaction_def wrapE_def handleE_def bindE_def ret_def PaymentTypeDirect_def PaymentTypeDisbursement_def)
      (simp add: platform_joined_def)
  with batch have "SyncBatchTransactions 5 ''tenant'' ?s = (Inr (), ?s\<lparr>payments := [platform_paid], submitter_transactions := [r\<lparr>tx_synced_at := Some 8, tx_updated_at := 8\<rparr>]\<rparr>)"
    by (simp add: SyncBatchTransactions_def sync_body_def RunInTransaction_def RunInTransactionWithResult_def wrapE_def handleE_def bindE_def ret_def tables)
  then show "fst (SyncBatchTransactions 5 ''tenant'' platform_later) = Inr ()" "payments platform_done = [platform_paid]"
    by (simp_all add: platform_done_def)
qed

end
