(* ===== verification/Tenant_Example.thy ===== *)
theory Tenant_Example
  imports Tenant Platform_Example
begin

text \<open>
  A run of a tenant's handlers: a disbursement is created, its instructions are uploaded, another user approves it and
  its creator submits it. Every step is evaluated.
\<close>

definition example_instruction :: DisbursementInstruction where
  "example_instruction = \<lparr>di_Phone = ''+12345678901'', di_Email = [], di_ID = ''ext'', di_Amount = ''5'', di_VerificationValue = ''1234'',
     di_ExternalPaymentID = [], di_WalletAddress = [], di_WalletAddressMemo = [], di_RecipientName = [], di_CurrencyType = []\<rparr>"

definition example_http_env :: http_env where
  "example_http_env = \<lparr>he_sdp = platform_env, html_UnescapeString = (\<lambda>s. s), csv_ReadHeader = (\<lambda>c. Inr [''phone'', ''id'', ''amount'', ''verification'']),
     gocsv_Unmarshal = (\<lambda>c. Inr [example_instruction])\<rparr>"

definition example_registration_env :: registration_env where
  "example_registration_env = \<lparr>rg_sdp = platform_env, rg_ReCAPTCHADisabled = True, rg_IsTokenValid = (\<lambda>n t. Inr True),
     rg_RegisteredClaims_Valid = (\<lambda>c. Inr ()), rg_IsDNSName = (\<lambda>d. True), rg_OTPMessage = (\<lambda>org otp. Inr otp),
     rg_SendMessage = (\<lambda>n t c b. Inr ())\<rparr>"

definition example_post :: PostDisbursementRequest where
  "example_post = \<lparr>pr_Name = ''aid'', pr_WalletID = ''w'', pr_AssetID = ''xlm'', pr_VerificationField = VerificationTypePin,
     pr_RegistrationContactType = \<lparr>rt_ReceiverContactType = ReceiverContactTypeSMS, rt_IncludesWalletAddress = False\<rparr>,
     pr_ReceiverRegistrationMessageTemplate = []\<rparr>"

definition example_file :: form_file where "example_file = Inr (''aid.csv'', Inr ''content'')"

definition tenant_start :: platform where
  "tenant_start = platform_start\<lparr>conn_uuid := (\<lambda>n. replicate (Suc n) CHR ''u'')\<rparr>"

definition tenant_settled :: platform where
  "tenant_settled = tenant_start\<lparr>organizations := organizations platform_settled, assets := assets platform_settled, wallets := wallets platform_settled,
     receivers := [], receiver_verifications := [], receiver_wallets := [], disbursements := []\<rparr>"

definition tenant_posted :: platform where
  "tenant_posted = snd (PostDisbursement example_http_env ''creator'' (WithoutInstructions (Inr example_post)) tenant_settled)"

definition tenant_uploaded :: platform where
  "tenant_uploaded = snd (PostDisbursementInstructions example_http_env example_file ''creator'' ''u'' tenant_posted)"

definition tenant_approved :: platform where
  "tenant_approved = snd (ApproveDisbursement_handler ''u'' ''approver'' tenant_uploaded)"

definition tenant_submitted :: platform where
  "tenant_submitted = snd (SubmitDisbursement_handler platform_env ''u'' ''creator'' tenant_approved)"

lemma tenant_run:
  "(case PostDisbursement example_http_env ''creator'' (WithoutInstructions (Inr example_post)) tenant_settled of (r1, s1) \<Rightarrow>
    case PostDisbursementInstructions example_http_env example_file ''creator'' ''u'' s1 of (r2, s2) \<Rightarrow>
    case ApproveDisbursement_handler ''u'' ''approver'' s2 of (r3, s3) \<Rightarrow>
    case SubmitDisbursement_handler platform_env ''u'' ''creator'' s3 of (r4, s4) \<Rightarrow>
      map (\<lambda>s. map ds_Status (disbursements s)) [s1, s2, s3, s4] =
        [[DraftDisbursementStatus], [ReadyDisbursementStatus], [ApprovedDisbursementStatus], [StartedDisbursementStatus]] \<and>
      r2 = Inr () \<and> map pm_Status (payments s4) = [ReadyPaymentStatus])"
  by code_simp

lemma tenant_statuses:
  "map ds_Status (disbursements tenant_posted) = [DraftDisbursementStatus]"
  "map ds_Status (disbursements tenant_uploaded) = [ReadyDisbursementStatus]"
  "map ds_Status (disbursements tenant_approved) = [ApprovedDisbursementStatus]"
  "map ds_Status (disbursements tenant_submitted) = [StartedDisbursementStatus]"
  "map pm_Status (payments tenant_submitted) = [ReadyPaymentStatus]"
  "PostDisbursementInstructions example_http_env example_file ''creator'' ''u'' tenant_posted = (Inr (), tenant_uploaded)"
  using tenant_run unfolding tenant_submitted_def tenant_approved_def tenant_uploaded_def tenant_posted_def
  by (auto simp only: case_prod_beta prod_eq_iff fst_conv snd_conv list.map list.inject)

section \<open>These states are reachable\<close>

abbreviation "example_tenant \<equiv> tenant_reachable service_engine example_http_env example_registration_env ''tenant''"

abbreviation "example_tenant_step \<equiv> tenant_step service_engine example_http_env example_registration_env ''tenant''"

lemma example_sdp [simp]: "he_sdp example_http_env = platform_env" "rg_sdp example_registration_env = platform_env"
  by (simp_all add: example_http_env_def example_registration_env_def)

lemma tenant_constraints: "sdp_db_ok tenant_start" "sdp_db_ok tenant_settled"
  by code_simp+

lemma tenant_settled_reachable: "example_tenant tenant_settled"
proof (rule tenant_reachable.step)
  show "example_tenant tenant_start"
    using tenant_constraints(1)
    by (intro tenant_reachable.start)
      (simp add: platform_initial_def, simp add: tenant_start_def platform_start_def service_start_def tss_state.extend_def)
  show "example_tenant_step tenant_start tenant_settled"
    using tenant_constraints(2) unfolding tenant_settled_def by (intro tenant_step.platform platform_step.others [OF refl])
qed

lemma tenant_steps:
  "example_tenant_step tenant_settled tenant_posted" "example_tenant_step tenant_posted tenant_uploaded"
  "example_tenant_step tenant_uploaded tenant_approved" "example_tenant_step tenant_approved tenant_submitted"
proof -
  show "example_tenant_step tenant_settled tenant_posted"
    unfolding tenant_posted_def by (rule tenant_step.post_disbursement) (rule prod.collapse [symmetric])
  show "example_tenant_step tenant_posted tenant_uploaded"
    unfolding tenant_uploaded_def by (rule tenant_step.upload) (rule prod.collapse [symmetric])
  show "example_tenant_step tenant_uploaded tenant_approved"
    unfolding tenant_approved_def by (rule tenant_step.approve_disbursement) (rule prod.collapse [symmetric])
  show "example_tenant_step tenant_approved tenant_submitted"
    unfolding tenant_submitted_def
    by (rule tenant_step.submit_disbursement, subst example_sdp(1)) (rule prod.collapse [symmetric])
qed

lemma tenant_run_reachable:
  "example_tenant tenant_posted" "example_tenant tenant_uploaded" "example_tenant tenant_approved" "example_tenant tenant_submitted"
proof -
  show posted: "example_tenant tenant_posted"
    using tenant_settled_reachable tenant_steps(1) by (rule tenant_reachable.step)
  show uploaded: "example_tenant tenant_uploaded" using posted tenant_steps(2) by (rule tenant_reachable.step)
  show approved: "example_tenant tenant_approved" using uploaded tenant_steps(3) by (rule tenant_reachable.step)
  show "example_tenant tenant_submitted" using approved tenant_steps(4) by (rule tenant_reachable.step)
qed

lemma platform_done_tenant:
  "platform_reachable service_engine platform_env ''tenant'' s \<Longrightarrow> example_tenant s"
  by (rule platform_tenant) simp

end
