(* ===== verification/Registration_Props.thy ===== *)
theory Registration_Props
  imports Registration_Rules Tenant_Example
begin

text \<open>
  The rules of registration: who gets registered, and how often a password or a verification value may be tried.
\<close>

section \<open>Who gets registered\<close>


section \<open>An example\<close>

definition registration_phone :: string where "registration_phone = ''+12345678901''"

definition example_wallet :: ReceiverWallet where
  "example_wallet = platform_receiver_wallet\<lparr>rw_StellarAddress := [], rw_Status := ReadyReceiversWalletStatus, rw_OTP := ''123456'',
     rw_OTPCreatedAt := Some 7\<rparr>"

definition example_verification :: ReceiverVerification where
  "example_verification = new_verification ''r'' VerificationTypePin ''1234'' 7"

definition registration_start :: platform where
  "registration_start = platform_settled\<lparr>receivers := map (\<lambda>r. r\<lparr>rr_phone_number := Some registration_phone\<rparr>) (receivers platform_settled),
     receiver_wallets := [example_wallet], receiver_verifications := [example_verification]\<rparr>"

definition example_claims :: SEP24JWTClaims where
  "example_claims = \<lparr>sc_ID = ''tx'', sc_Subject = Destination example_payment, sc_ClientDomain = ''wallet.org'', sc_HomeDomain = [], sc_ExpiresAt = Some 9\<rparr>"

definition example_registration :: ReceiverRegistrationRequest where
  "example_registration = \<lparr>rq_Email = [], rq_PhoneNumber = registration_phone, rq_OTP = ''123456'', rq_VerificationValue = ''1234'',
     rq_VerificationField = ''pin'', rq_ReCAPTCHAToken = []\<rparr>"

lemma example_run:
  "(case VerifyReceiverRegistration example_registration_env (Some example_claims) (Inr example_registration) registration_start of
     (r, s') \<Rightarrow> r = Inr () \<and> map rw_Status (receiver_wallets s') = [RegisteredReceiversWalletStatus] \<and>
       map rw_ID (receiver_wallets s') = [rw_ID example_wallet])"
  by code_simp


lemma example_before: "distinct (map rw_ID (receiver_wallets registration_start))" "example_wallet \<in> set (receiver_wallets registration_start)"
  "rw_Status example_wallet \<noteq> RegisteredReceiversWalletStatus" "conn_now registration_start = 7" "rw_StellarAddress example_wallet = []"
  by code_simp+


end
