(* ===== verification/Four_Eyes.thy ===== *)
theory Four_Eyes
  imports Tenant_Example Disbursement_Rules
begin

text \<open>
  Approval by somebody else: while the organization requires approval, every operation keeps the rule that a
  disbursement which is approved, started, paused or completed was approved by a user who had drafted, uploaded
  or rejected nothing of it.
\<close>

section \<open>Every operation keeps the rule\<close>

definition eyes :: "'z platform_scheme \<Rightarrow> bool" where
  "eyes s \<longleftrightarrow> approval_required s \<and> distinct (map ds_ID (disbursements s)) \<and> list_all four_eyes (disbursements s)"

definition keeps_eyes :: "'z platform_scheme \<Rightarrow> 'z platform_scheme \<Rightarrow> bool" where
  "keeps_eyes s s' \<longleftrightarrow> (eyes s \<longrightarrow> eyes s')"

lemma eyes_same: "disbursements s' = disbursements s \<Longrightarrow> organizations s' = organizations s \<Longrightarrow> keeps_eyes s s'"
  by (simp add: keeps_eyes_def eyes_def approval_required_def)

lemma eyes_update:
  assumes "\<And>d. ds_ID (f d) = ds_ID d" and "\<And>d. d \<in> set (disbursements s) \<Longrightarrow> Q d \<Longrightarrow> four_eyes d \<Longrightarrow> four_eyes (f d)"
  shows "eyes s \<Longrightarrow> eyes (s\<lparr>disbursements := sql_update Q f (disbursements s)\<rparr>)"
  using map_sql_update_key [of ds_ID f Q "disbursements s"] assms
  by (auto simp: eyes_def approval_required_def list_all_iff dest!: in_set_sql_update split: if_splits)

lemma four_eyes_touched:
  "four_eyes (ds_touched (\<lambda>now d. d\<lparr>ds_FileName := f, ds_FileContent := c\<rparr>) now d) = four_eyes d"
  by (simp add: four_eyes_def ds_touched_def)

lemma moved_id [simp]: "ds_ID (ds_touched (set_disbursement_status st u why) now d) = ds_ID d"
  by (simp add: ds_touched_def set_disbursement_status_def)

interpretation eyes: upload_relation keeps_eyes
proof
  fix s :: "'a platform_scheme" and Q f c now u why
  show "keeps_eyes s (s\<lparr>disbursements := sql_update Q (ds_touched (\<lambda>now d. d\<lparr>ds_FileName := f, ds_FileContent := c\<rparr>) now) (disbursements s)\<rparr>)"
    unfolding keeps_eyes_def by (intro impI eyes_update) (simp_all add: four_eyes_touched, simp add: ds_touched_def)
  show "keeps_eyes s (s\<lparr>disbursements := sql_update Q (ds_touched (set_disbursement_status ReadyDisbursementStatus u why) now) (disbursements s)\<rparr>)"
    unfolding keeps_eyes_def by (intro impI eyes_update four_eyes_step) simp_all
next
  fix s :: "'a platform_scheme" and d and m :: nat
  assume "disbursements_ok (s\<lparr>disbursements := disbursements s @ [d], conn_uuid_next := m\<rparr>)" and "ds_Status d = DraftDisbursementStatus"
  moreover from this(2) have "four_eyes d" by (simp add: four_eyes_def disbursement_status_defs)
  ultimately show "keeps_eyes s (s\<lparr>disbursements := disbursements s @ [d], conn_uuid_next := m\<rparr>)"
    by (simp add: keeps_eyes_def eyes_def approval_required_def disbursements_ok_def)
next
  fix s :: "'a platform_scheme" and Q
  show "keeps_eyes s (s\<lparr>disbursements := filter Q (disbursements s)\<rparr>)"
    by (simp add: keeps_eyes_def eyes_def approval_required_def list_all_iff distinct_map_filter)
next
  fix s t u :: "'a platform_scheme"
  show "keeps_eyes s t \<Longrightarrow> keeps_eyes t u \<Longrightarrow> keeps_eyes s u" by (simp add: keeps_eyes_def)
  show "keeps_eyes s t \<Longrightarrow> keeps_eyes s (tss_rollback s t)"
    by (simp add: keeps_eyes_def eyes_def approval_required_def tss_rollback_def)
qed (simp_all add: eyes_same sdp_rollback_def)

lemma eyes_of_same:
  "keeps same_disbursements m \<Longrightarrow> keeps keeps_eyes m" "keeps same_more m' \<Longrightarrow> keeps keeps_eyes m'"
  by (auto simp: keeps_def same_disbursements_def same_more_def dest: more_fields intro!: eyes_same)

text \<open>A change of the status of one disbursement.\<close>

lemma moved_eyes:
  assumes "disbursement_moved i target u why d s s'" and "organizations s' = organizations s"
    and "target \<in> {DraftDisbursementStatus, ReadyDisbursementStatus} \<or>
      target \<in> {StartedDisbursementStatus, PausedDisbursementStatus, CompletedDisbursementStatus} \<and>
        ds_Status d \<in> {ApprovedDisbursementStatus, StartedDisbursementStatus, PausedDisbursementStatus} \<or>
      target = ApprovedDisbursementStatus \<and> \<not> created_by u d"
  shows "eyes s \<Longrightarrow> eyes s'"
proof -
  assume ok: "eyes s"
  then have one: "e = d" if "e \<in> set (disbursements s)" "ds_ID e = i" for e
    using assms(1) that by (auto simp: eyes_def disbursement_moved_def intro: unique_by_key)
  have "eyes (s\<lparr>disbursements := sql_update (\<lambda>d. ds_ID d = i) (ds_touched (set_disbursement_status target u why) (conn_now s)) (disbursements s)\<rparr>)"
    using ok one assms(3) by (intro eyes_update) (auto intro!: four_eyes_step)
  with assms(1,2) show "eyes s'" by (simp add: eyes_def approval_required_def disbursement_moved_def)
qed

section \<open>The operations\<close>

text \<open>No handler changes the organization.\<close>

definition same_organizations :: "'z platform_scheme \<Rightarrow> 'z platform_scheme \<Rightarrow> bool" where
  "same_organizations s s' \<longleftrightarrow> organizations s' = organizations s"

interpretation same_organizations: tenant_relation same_organizations "\<lambda>_ _. True" "\<lambda>_ _. True" "\<lambda>_. True" "\<lambda>_. True"
  by unfold_locales (simp_all add: same_organizations_def tss_rollback_def sdp_rollback_def)

text \<open>The moves that keep the rule.\<close>

definition fair_move :: "DisbursementStatus \<Rightarrow> string \<Rightarrow> disbursement_row \<Rightarrow> bool" where
  "fair_move target u d \<longleftrightarrow> target \<in> {DraftDisbursementStatus, ReadyDisbursementStatus} \<or>
     target \<in> {StartedDisbursementStatus, PausedDisbursementStatus, CompletedDisbursementStatus} \<and>
       ds_Status d \<in> {ApprovedDisbursementStatus, StartedDisbursementStatus, PausedDisbursementStatus} \<or>
     target = ApprovedDisbursementStatus \<and> \<not> created_by u d"

definition fair_outcome :: "string \<Rightarrow> string \<Rightarrow> 'z platform_scheme \<Rightarrow> 'z platform_scheme \<Rightarrow> bool" where
  "fair_outcome i u s s' \<longleftrightarrow> unchanged s s' \<or> (\<exists>d target why. disbursement_moved i target u why d s s' \<and> fair_move target u d)"

lemma eyes_of_outcome:
  assumes "keeps same_organizations m" and "\<And>s r s'. m s = (r, s') \<Longrightarrow> eyes s \<Longrightarrow> fair_outcome i u s s'"
  shows "keeps keeps_eyes m"
proof (rule keepsI)
  fix s r s' assume run: "m s = (r, s')"
  have orgs: "organizations s' = organizations s" using keepsD [OF assms(1) run] by (simp add: same_organizations_def)
  show "keeps_eyes s s'"
    unfolding keeps_eyes_def
  proof
    assume ok: "eyes s"
    from assms(2) [OF run ok] consider "unchanged s s'" | d target why where "disbursement_moved i target u why d s s'" "fair_move target u d"
      unfolding fair_outcome_def by blast
    then show "eyes s'"
    proof cases
      case 1
      with orgs ok eyes_same [of s' s] show ?thesis by (simp add: unchanged_def keeps_eyes_def)
    next
      case 2
      from moved_eyes [OF 2(1) orgs _ ok] 2(2) show ?thesis by (simp add: fair_move_def)
    qed
  qed
qed

lemma pause_from: "DisbursementStatus_TransitionTo st PausedDisbursementStatus = Inr () \<Longrightarrow> st = StartedDisbursementStatus"
  by (auto simp: disbursement.transition_iff disbursement_listed disbursement_status_defs)

lemma fair_services:
  fixes s s' :: "'z platform_scheme"
  assumes "eyes s"
  shows "StartDisbursement env i u a s = (r, s') \<Longrightarrow> fair_outcome i u s s'" "SubmitDisbursement env i u a s = (r, s') \<Longrightarrow> fair_outcome i u s s'"
    "PauseDisbursement i u s = (r, s') \<Longrightarrow> fair_outcome i u s s'" "ApproveDisbursement i u s = (r, s') \<Longrightarrow> fair_outcome i u s s'"
    "RejectDisbursement i u why s = (r, s') \<Longrightarrow> fair_outcome i u s s'"
proof -
  have ids: "distinct (map ds_ID (disbursements s))" and req: "approval_required s" using assms by (simp_all add: eyes_def)
  show "fair_outcome i u s s'" if "StartDisbursement env i u a s = (r, s')"
    using start_outcome [OF that ids] req unfolding fair_outcome_def fair_move_def disbursement_started_by_def start_allowed_def by blast
  show "fair_outcome i u s s'" if "SubmitDisbursement env i u a s = (r, s')"
    using submit_outcome [OF that ids] unfolding fair_outcome_def fair_move_def disbursement_started_by_def submit_allowed_def by blast
  show "fair_outcome i u s s'" if "PauseDisbursement i u s = (r, s')"
    using pause_outcome [OF that ids] pause_from unfolding fair_outcome_def fair_move_def disbursement_moved_def by blast
  show "fair_outcome i u s s'" if "ApproveDisbursement i u s = (r, s')"
    using approve_outcome [OF that ids] req unfolding fair_outcome_def fair_move_def by blast
  have "target \<in> {DraftDisbursementStatus, ReadyDisbursementStatus}" if "rejection_target st = Some target" for st target
    using that by (auto simp: rejection_target_def split: if_splits)
  then show "fair_outcome i u s s'" if "RejectDisbursement i u why s = (r, s')"
    using reject_outcome [OF that ids] unfolding fair_outcome_def fair_move_def by blast
qed

lemma eyes_services [keeps_intros]:
  "keeps keeps_eyes (StartDisbursement env i u a)" "keeps keeps_eyes (SubmitDisbursement env i u a)" "keeps keeps_eyes (PauseDisbursement i u)"
  "keeps keeps_eyes (ApproveDisbursement i u)" "keeps keeps_eyes (RejectDisbursement i u why)"
  by (rule eyes_of_outcome [OF same_organizations.keeps_management(1)], simp, erule fair_services, assumption)
    (rule eyes_of_outcome [OF same_organizations.keeps_management(2)], simp, erule fair_services, assumption,
     rule eyes_of_outcome [OF same_organizations.keeps_management(3)], simp, erule fair_services, assumption,
     rule eyes_of_outcome [OF same_organizations.keeps_management(4)], simp, erule fair_services, assumption,
     rule eyes_of_outcome [OF same_organizations.keeps_management(5)], simp, erule fair_services, assumption)

lemma eyes_status_handlers:
  "keeps keeps_eyes (PatchDisbursementStatus env i u requested)" "keeps keeps_eyes (ApproveDisbursement_handler i u)"
  "keeps keeps_eyes (RejectDisbursement_handler i u why)" "keeps keeps_eyes (SubmitDisbursement_handler env i u)"
  unfolding PatchDisbursementStatus_def ApproveDisbursement_handler_def RejectDisbursement_handler_def SubmitDisbursement_handler_def
  by (intro keeps_intros)+

lemma eyes_upload:
  "keeps keeps_eyes (PostDisbursement he u request)" "keeps keeps_eyes (PostDisbursementInstructions he attached u i)" "keeps keeps_eyes (DeleteDisbursement i)"
proof -
  have wallets: "keeps same_disbursements (ReceiverWalletModel_Update env i u)" for env i u
    unfolding ReceiverWalletModel_Update_def check_memo_def ReceiverWalletModel_GetByID_def query_wallet_def not_found_as_def get_first_def rw_update_where_def
    by (intro keeps_intros same_disbursements.keeps_db_call) (simp add: Let_def same_disbursements_def)
  have verifications: "keeps same_disbursements (ReceiverVerificationModel_Insert env vi)" "keeps same_disbursements (ReceiverVerificationModel_UpdateVerificationValue env i fld v)" for env vi i fld v
    unfolding ReceiverVerificationModel_Insert_def ReceiverVerificationModel_UpdateVerificationValue_def HashVerificationValue_def rv_write_def rv_update_def
    by (intro keeps_intros same_disbursements.keeps_db_call; simp add: same_disbursements_def)+
  have supplied: "keeps keeps_eyes (registerSuppliedWallets env dis rs wis)" for env dis rs wis
    unfolding registerSuppliedWallets_def registerSuppliedWallet_def by (intro keeps_intros eyes_of_same(1) [OF wallets])
  have verified: "keeps keeps_eyes (processReceiverVerifications env rs dis d ct)" for env rs dis d ct
    unfolding processReceiverVerifications_def processReceiverVerification_def by (intro keeps_intros eyes_of_same(1) [OF verifications(1)] eyes_of_same(1) [OF verifications(2)])
  show "keeps keeps_eyes (PostDisbursement he u request)" "keeps keeps_eyes (PostDisbursementInstructions he attached u i)" "keeps keeps_eyes (DeleteDisbursement i)"
    by (intro eyes.keeps_upload eyes.keeps_deletion supplied verified)+
qed

lemma eyes_sync: "keeps keeps_eyes (SyncBatchTransactions n tenant)"
proof -
  have complete: "keeps keeps_eyes (DisbursementModel_CompleteDisbursements ids)" for ids
  proof -
    have "keeps keeps_eyes (ds_update_exec (completes ids) (set_disbursement_status CompletedDisbursementStatus [] []))"
      unfolding ds_update_exec_def
      by (intro eyes.keeps_db_call)
        (auto simp: Let_def eyes.R_refl keeps_eyes_def completes_def intro!: eyes_update four_eyes_step)
    then show ?thesis unfolding DisbursementModel_CompleteDisbursements_def by (intro keeps_intros)
  qed
  have reads: "keeps same_disbursements (PaymentModel_GetByIDs ids)" "keeps same_disbursements (PaymentModel_Update payment pu)" for ids payment pu
    unfolding PaymentModel_GetByIDs_def PaymentModel_Update_def by (intro keeps_intros)+
  have "keeps keeps_eyes (syncPaymentWithTransaction tx)" for tx
    unfolding syncPaymentWithTransaction_def by (intro keeps_intros complete eyes_of_same(1) [OF reads(1)] eyes_of_same(1) [OF reads(2)])
  moreover have "keeps keeps_eyes (TransactionModel_UpdateSyncedTransactions is)" "keeps keeps_eyes (TransactionModel_GetTransactionBatchForUpdate n tenant ty)" for "is" ty
    by (rule eyes_of_same(2), rule same_more.keeps_UpdateSynced)
      (rule eyes_of_same(2), unfold TransactionModel_GetTransactionBatchForUpdate_def, intro keeps_intros)
  ultimately show ?thesis
    unfolding SyncBatchTransactions_def sync_body_def syncTransactions_def RunInTransaction_def [of sdp_rollback]
    by (intro keeps_intros eyes.keeps_sdp_transaction)
qed

section \<open>Runs under approval\<close>

text \<open>While approval is required, the handlers of the disbursements and the synchronisation run in any order; what the rest of
  the platform does leaves the disbursements alone.\<close>

inductive approval_step :: "http_env \<Rightarrow> platform \<Rightarrow> platform \<Rightarrow> bool" for he where
  post: "PostDisbursement he u request s = (d, s') \<Longrightarrow> approval_step he s s'"
| upload: "PostDisbursementInstructions he attached u i s = (r, s') \<Longrightarrow> approval_step he s s'"
| delete: "DeleteDisbursement i s = (d, s') \<Longrightarrow> approval_step he s s'"
| patch: "PatchDisbursementStatus (he_sdp he) i u requested s = (r, s') \<Longrightarrow> approval_step he s s'"
| approve: "ApproveDisbursement_handler i u s = (r, s') \<Longrightarrow> approval_step he s s'"
| reject: "RejectDisbursement_handler i u why s = (r, s') \<Longrightarrow> approval_step he s s'"
| submit: "SubmitDisbursement_handler (he_sdp he) i u s = (r, s') \<Longrightarrow> approval_step he s s'"
| sync: "SyncBatchTransactions n tenant s = (r, s') \<Longrightarrow> approval_step he s s'"
| elsewhere: "disbursements s' = disbursements s \<Longrightarrow> approval_required s' \<Longrightarrow> approval_step he s s'"

inductive approval_reachable :: "http_env \<Rightarrow> platform \<Rightarrow> bool" for he where
  start: "approval_required s \<Longrightarrow> disbursements s = [] \<Longrightarrow> approval_reachable he s"
| step: "approval_reachable he s \<Longrightarrow> approval_step he s s' \<Longrightarrow> approval_reachable he s'"

lemma approval_step_keeps: "approval_step he s s' \<Longrightarrow> keeps_eyes s s'"
proof (induction rule: approval_step.induct)
  case (elsewhere s' s)
  then show ?case by (simp add: keeps_eyes_def eyes_def)
qed (auto dest: keepsD [OF eyes_upload(1)] keepsD [OF eyes_upload(2)] keepsD [OF eyes_upload(3)] keepsD [OF eyes_sync]
    keepsD [OF eyes_status_handlers(1)] keepsD [OF eyes_status_handlers(2)] keepsD [OF eyes_status_handlers(3)] keepsD [OF eyes_status_handlers(4)])

lemma approval_reachable_eyes: "approval_reachable he s \<Longrightarrow> eyes s"
  by (induction rule: approval_reachable.induct)
    (auto simp: eyes_def keeps_eyes_def dest: approval_step_keeps)

end
