(* ===== verification/Tenant_Props.thy ===== *)
theory Tenant_Props
  imports Four_Eyes
begin

text \<open>
  What holds of a tenant's platform at any time: the constraints of its databases, the approval of disbursements by
  somebody else, and the all-or-nothing start of a disbursement.
\<close>

section \<open>The constraints\<close>



section \<open>Approval by somebody else\<close>

text \<open>C13: while the organization requires approval, a disbursement that is approved, started, paused or completed has in
  its history an approval by a user who had drafted, uploaded or rejected nothing of it before, and nothing was
  drafted, uploaded or rejected after that approval.\<close>

theorem approval_by_another:
  assumes "approval_reachable he s"
  shows "list_all four_eyes (disbursements s)"
  using approval_reachable_eyes [OF assms] by (simp add: eyes_def)

lemma tenant_submitted_approved: "approval_reachable example_http_env tenant_submitted"
proof -
  note step = approval_reachable.step
  have "approval_required tenant_settled" "disbursements tenant_settled = []"
    by (simp_all add: tenant_settled_def platform_settled_def approval_required_def)
  then have "approval_reachable example_http_env tenant_settled" by (rule approval_reachable.start)
  then have "approval_reachable example_http_env tenant_posted"
    by (rule step) (unfold tenant_posted_def, rule approval_step.post, rule prod.collapse [symmetric])
  then have "approval_reachable example_http_env tenant_uploaded"
    by (rule step) (rule approval_step.upload [OF tenant_statuses(6)])
  then have "approval_reachable example_http_env tenant_approved"
    by (rule step) (unfold tenant_approved_def, rule approval_step.approve, rule prod.collapse [symmetric])
  then show ?thesis
    by (rule step) (unfold tenant_submitted_def, rule approval_step.submit, subst example_sdp(1), rule prod.collapse [symmetric])
qed

theorem approval_by_another_witness:
  "list_all (\<lambda>d. approved_by_another (ds_StatusHistory d)) (disbursements tenant_submitted) \<and> length (disbursements tenant_submitted) = 1"
proof -
  from tenant_statuses(4) obtain d where "disbursements tenant_submitted = [d]" "ds_Status d = StartedDisbursementStatus" by auto
  with approval_by_another [OF tenant_submitted_approved] show ?thesis by (simp add: four_eyes_def)
qed

section \<open>Starting a disbursement\<close>

text \<open>C14: starting a disbursement either fails and leaves the payments, the disbursements and the receiver wallets as they
  were, or the disbursement's wallet was enabled, the available balance covered its amount and the
  payments in progress, and where approval is required it was approved and not created by the user; then its drafted
  and paused payments and the draft wallets of its receivers became ready, and it was started by the user.\<close>

theorem StartDisbursement_all_or_nothing:
  assumes "StartDisbursement env i u a s = (r, s')" and "distinct (map ds_ID (disbursements s))"
  shows "isl r \<and> unchanged s s' \<or> (\<exists>d. start_allowed env i u a d s \<and> disbursement_started_by i u (ds_row d) s s')"
  using start_outcome [OF assms] .

definition example_distribution_account :: TransactionAccount where
  "example_distribution_account = \<lparr>ta_Address = replicate 56 CHR ''D'', ta_CircleWalletID = [], ta_Type = DistributionAccountStellarEnv, ta_Status = ''ACTIVE''\<rparr>"

lemma example_start:
  "fst (StartDisbursement platform_env ''u'' ''third'' example_distribution_account tenant_approved) = Inr ()"
  "distinct (map ds_ID (disbursements tenant_approved))"
  "approval_required tenant_approved"
  by code_simp+

theorem StartDisbursement_all_or_nothing_witness:
  "\<exists>(d :: Disbursement) s'. StartDisbursement platform_env ''u'' ''third'' example_distribution_account tenant_approved = (Inr (), s') \<and>
     ds_Status (ds_row d) = ApprovedDisbursementStatus \<and> \<not> created_by ''third'' (ds_row d) \<and>
     disbursement_started_by ''u'' ''third'' (ds_row d) tenant_approved s'"
proof -
  obtain s' where run: "StartDisbursement platform_env ''u'' ''third'' example_distribution_account tenant_approved = (Inr (), s')"
    using example_start(1) by (metis prod.collapse)
  from StartDisbursement_all_or_nothing [OF run example_start(2)]
  obtain d where "start_allowed platform_env ''u'' ''third'' example_distribution_account d tenant_approved"
    "disbursement_started_by ''u'' ''third'' (ds_row d) tenant_approved s'" by auto
  with run example_start(3) show ?thesis unfolding start_allowed_def by blast
qed

text \<open>C18: while approval is required, a paused disbursement cannot be resumed: starting and submitting it fail and change
  nothing, whoever tries.\<close>

theorem paused_stays_paused:
  assumes "approval_required s" and "distinct (map ds_ID (disbursements s))"
    and "d \<in> set (disbursements s)" and "ds_Status d = PausedDisbursementStatus"
    and "StartDisbursement env (ds_ID d) u a s = (r, s') \<or> SubmitDisbursement env (ds_ID d) u a s = (r, s')"
  shows "isl r \<and> unchanged s s'"
proof -
  have no: "ds_Status (ds_row e) \<noteq> ApprovedDisbursementStatus" if "read_disbursement (ds_ID d) s e" for e
  proof -
    from that have "ds_row e = d" using unique_by_key [OF assms(2) _ assms(3)] by (auto simp: read_disbursement_def)
    with assms(4) show ?thesis by (simp add: disbursement_status_defs)
  qed
  from assms(5) show ?thesis
  proof
    assume "StartDisbursement env (ds_ID d) u a s = (r, s')"
    from start_outcome [OF this assms(2)] no assms(1) show ?thesis by (auto simp: start_allowed_def)
  next
    assume "SubmitDisbursement env (ds_ID d) u a s = (r, s')"
    from submit_outcome [OF this assms(2)] no show ?thesis by (auto simp: submit_allowed_def)
  qed
qed

definition tenant_paused :: platform where
  "tenant_paused = snd (PatchDisbursementStatus platform_env ''u'' ''creator'' ''PAUSED'' tenant_submitted)"

lemma example_paused:
  "map ds_Status (disbursements tenant_paused) = [PausedDisbursementStatus]" "map ds_ID (disbursements tenant_paused) = [''u'']"
  "approval_required tenant_paused"
  by code_simp+

theorem paused_stays_paused_witness:
  "\<exists>r s'. StartDisbursement platform_env ''u'' ''third'' example_distribution_account tenant_paused = (r, s') \<and> isl r \<and> unchanged tenant_paused s'"
proof -
  obtain d where d: "disbursements tenant_paused = [d]" "ds_Status d = PausedDisbursementStatus" "ds_ID d = ''u''"
    using example_paused(1,2) by auto
  obtain r s' where run: "StartDisbursement platform_env ''u'' ''third'' example_distribution_account tenant_paused = (r, s')" by fastforce
  have "isl r \<and> unchanged tenant_paused s'"
    using run d by (intro paused_stays_paused [OF example_paused(3), of d]) auto
  with run show ?thesis by blast
qed

end
