(* ===== verification/Upload_Exact.thy ===== *)
theory Upload_Exact
  imports Tenant_Example Disbursement_Rules
begin

text \<open>
  What an upload of instructions does when it goes through: one draft payment for each instruction, to a receiver with
  its contact, in place of the earlier drafts; and the disbursement becomes ready with the file and the user.
\<close>

section \<open>Receivers and wallets are only added\<close>

definition wallet_key :: "ReceiverWallet \<Rightarrow> string \<times> string \<times> string" where
  "wallet_key w = (rw_ID w, rw_receiver_id w, rw_wallet_id w)"

definition people_grow :: "'z platform_scheme \<Rightarrow> 'z platform_scheme \<Rightarrow> bool" where
  "people_grow s s' \<longleftrightarrow> payments s' = payments s \<and> disbursements s' = disbursements s \<and> wallets s' = wallets s \<and> assets s' = assets s \<and>
     organizations s' = organizations s \<and> conn_now s' = conn_now s \<and> (\<exists>rs. receivers s' = receivers s @ rs) \<and>
     (\<exists>ks. map wallet_key (receiver_wallets s') = map wallet_key (receiver_wallets s) @ ks)"

lemma people_growI:
  assumes "payments s' = payments s" "disbursements s' = disbursements s" "wallets s' = wallets s" "assets s' = assets s"
    "organizations s' = organizations s" "conn_now s' = conn_now s" "receivers s' = receivers s @ rs"
    "map wallet_key (receiver_wallets s') = map wallet_key (receiver_wallets s) @ ks"
  shows "people_grow s s'"
  using assms by (auto simp: people_grow_def)

interpretation people: db_relation people_grow
proof
  fix s t u :: "'a platform_scheme" and fs
  show "people_grow s s" by (auto simp: people_grow_def)
  show "people_grow s t \<Longrightarrow> people_grow t u \<Longrightarrow> people_grow s u" by (auto simp: people_grow_def)
  show "people_grow s (s\<lparr>conn_faults := fs\<rparr>)" by (auto simp: people_grow_def)
  show "people_grow s t \<Longrightarrow> people_grow s (tss_rollback s t)" by (auto simp: people_grow_def tss_rollback_def)
qed

lemma same_keys: "(\<And>w. wallet_key (f w) = wallet_key w) \<Longrightarrow> map wallet_key (sql_update P f ws) = map wallet_key ws"
  by (rule map_sql_update_key)

lemma grow_net [keeps_intros]: "keeps people_grow (net_call f)"
  by (auto simp: keeps_def net_call_def people_grow_def)

lemma grow_lift [keeps_intros]: "keeps people_grow (liftE x)"
  by (cases x) (simp_all add: keeps_def liftE_def throw_def ret_def people.R_refl)

lemma grow_wallets:
  assumes "\<And>now w. wallet_key (f now w) = wallet_key w"
  shows "keeps people_grow (rw_update_where P f)"
proof -
  have "wallet_key (rw_touched f now w) = wallet_key w" for now w using assms by (simp add: rw_touched_def wallet_key_def)
  then have "map wallet_key (sql_update Q (rw_touched f now) ws) = map wallet_key ws" for Q now ws by (rule same_keys)
  then show ?thesis
    unfolding rw_update_where_def by (intro people.keeps_db_call) (auto simp: Let_def people_grow_def)
qed

lemma grow_verifications: "keeps people_grow (rv_write (rv_update P g))" "keeps people_grow (rv_write (\<lambda>s. s\<lparr>receiver_verifications := vs s\<rparr>))"
  unfolding rv_write_def rv_update_def by (intro people.keeps_db_call; auto simp: people_grow_def)+

lemma grow_reads [keeps_intros]:
  "keeps people_grow (ReceiverModel_GetByContacts cs)" "keeps people_grow (ReceiverWalletModel_GetByReceiverIDsAndWalletID is w)"
  "keeps people_grow (ReceiverWalletModel_GetByIDs is)" "keeps people_grow (ReceiverVerificationModel_GetByReceiverIDsAndVerificationField is fld)"
  "keeps people_grow (range_by env key rows)" "keeps people_grow (contact_of di)" "keeps people_grow (contact_by_type ct r)"
  "keeps people_grow (findReceiverByInstruction env rs di)"
  unfolding ReceiverModel_GetByContacts_def ReceiverWalletModel_GetByReceiverIDsAndWalletID_def ReceiverWalletModel_GetByIDs_def
    ReceiverVerificationModel_GetByReceiverIDsAndVerificationField_def range_by_def contact_of_def contact_by_type_def findReceiverByInstruction_def
  by (intro keeps_intros)+

lemma grow_writes [keeps_intros]:
  "keeps people_grow (ReceiverModel_Insert i)" "keeps people_grow (ReceiverWalletModel_GetOrInsertReceiverWallet j)"
  "keeps people_grow (ReceiverWalletModel_RetryInvitationMessage x)" "keeps people_grow (ReceiverWalletModel_Update env x u)"
  "keeps people_grow (ReceiverVerificationModel_Insert env vi)" "keeps people_grow (ReceiverVerificationModel_UpdateVerificationValue env x fld v)"
  unfolding ReceiverModel_Insert_def duplicate_contact_def ReceiverWalletModel_GetOrInsertReceiverWallet_def ReceiverWalletModel_RetryInvitationMessage_def
    ReceiverWalletModel_Update_def check_memo_def ReceiverWalletModel_GetByID_def query_wallet_def not_found_as_def get_first_def
    ReceiverVerificationModel_Insert_def ReceiverVerificationModel_UpdateVerificationValue_def HashVerificationValue_def
  by (intro keeps_intros people.keeps_db_call grow_wallets grow_verifications;
      auto simp: Let_def people.R_refl set_receiver_wallet_def wallet_key_def split: option.split intro: people_growI)+

lemma grow_steps [keeps_intros]:
  "keeps people_grow (reconcileExistingReceiversWithInstructions dis ct)" "keeps people_grow (processReceiverWallet d known r)"
  "keeps people_grow (registerSuppliedWallets env dis rs wis)" "keeps people_grow (processReceiverVerifications env rs dis d ct)"
  unfolding reconcileExistingReceiversWithInstructions_def createReceiverFromInstructionIfNeeded_def processReceiverWallet_def
    registerSuppliedWallets_def registerSuppliedWallet_def processReceiverVerifications_def processReceiverVerification_def
  by (intro keeps_intros)+

section \<open>What the steps return\<close>

definition has_key :: "'z platform_scheme \<Rightarrow> string \<Rightarrow> string \<Rightarrow> string \<Rightarrow> bool" where
  "has_key s i r w \<longleftrightarrow> (i, r, w) \<in> set (map wallet_key (receiver_wallets s))"

lemma grown_key: "people_grow s s' \<Longrightarrow> has_key s i r w \<Longrightarrow> has_key s' i r w"
  unfolding people_grow_def has_key_def by (elim conjE exE) (simp only: set_append Un_iff simp_thms)

lemma grown_receiver: "people_grow s s' \<Longrightarrow> row \<in> set (receivers s) \<Longrightarrow> row \<in> set (receivers s')"
  by (auto simp: people_grow_def)

lemma forE_steps:
  assumes "forE xs f s = (Inr ys, s')" and "\<And>x. keeps people_grow (f x)"
  shows "list_all2 (\<lambda>x y. \<exists>t t'. f x t = (Inr y, t') \<and> people_grow s t \<and> people_grow t' s') xs ys"
  using assms(1)
proof (induction xs arbitrary: s ys)
  case (Cons x xs)
  then obtain y s1 zs where first: "f x s = (Inr y, s1)" and rest: "forE xs f s1 = (Inr zs, s')" and ys: "ys = y # zs"
    by (auto simp: prog_ok)
  have s1: "people_grow s s1" using assms(2) first by (rule keepsD)
  have "people_grow s1 s'" using people.keeps_forE [OF assms(2)] rest by (rule keepsD)
  moreover from Cons.IH [OF rest] have "list_all2 (\<lambda>x y. \<exists>t t'. f x t = (Inr y, t') \<and> people_grow s t \<and> people_grow t' s') xs zs"
    by (rule list_all2_mono) (blast intro: people.R_trans [OF s1])
  ultimately show ?case using first people.R_refl by (auto simp: ys)
qed (simp add: prog_ok)

lemma map_by_subset: "set (map_by key rows) \<subseteq> set rows"
proof -
  have "snd ` set (foldl (\<lambda>m r. AList.update (key r) r m) m rows) \<subseteq> snd ` set m \<union> set rows" for m
  proof (induction rows arbitrary: m)
    case (Cons r rows)
    have "snd ` set (AList.update (key r) r m) \<subseteq> insert r (snd ` set m)" by (induction m) auto
    with Cons [of "AList.update (key r) r m"] show ?case by auto
  qed simp
  from this [of "[]"] show ?thesis by (simp add: map_by_def)
qed

lemma range_by_subset: "range_by env key rows s = (Inr rs, s') \<Longrightarrow> set rs \<subseteq> set rows"
  by (auto simp: range_by_def prog_ok in_map_filter find_Some_iff)

lemma reconcile_ok:
  assumes "reconcileExistingReceiversWithInstructions dis ct s = (Inr rs, s')"
  shows "set rs \<subseteq> receiver_of ` set (receivers s')"
proof -
  from assms obtain cs s1 qs where get: "ReceiverModel_GetByContacts cs s1 = (Inr qs, s')" and rs: "rs = map_by rc_ID qs"
    unfolding reconcileExistingReceiversWithInstructions_def prog_ok by (elim exE conjE) (simp add: prog_ok split: if_split_asm)
  from get have "cs = [] \<and> qs = [] \<or> db_call (getsE (\<lambda>s. map receiver_of (filter (has_contact cs) (receivers s)))) s1 = (Inr qs, s')"
    by (auto simp: ReceiverModel_GetByContacts_def prog_ok split: if_split_asm)
  then have "set qs \<subseteq> receiver_of ` set (receivers s')"
  proof
    assume "db_call (getsE (\<lambda>s. map receiver_of (filter (has_contact cs) (receivers s)))) s1 = (Inr qs, s')"
    then obtain fs where "qs = map receiver_of (filter (has_contact cs) (receivers s'))" by (rule db_read_ok)
    then show ?thesis by auto
  qed simp
  with map_by_subset [of rc_ID qs] show ?thesis unfolding rs by (rule subset_trans)
qed

lemma processReceiverWallet_ok:
  assumes "processReceiverWallet d known r s = (Inr y, s')" and "\<And>ri wi. (ri, wi) \<in> set known \<Longrightarrow> has_key s wi ri (wl_ID (ds_Wallet d))"
  shows "fst y = rc_ID r \<and> has_key s' (snd y) (rc_ID r) (wl_ID (ds_Wallet d))"
proof (cases "map_of known (rc_ID r)")
  case None
  with assms(1) obtain rwID where y: "y = (rc_ID r, rwID)"
    and ins: "ReceiverWalletModel_GetOrInsertReceiverWallet \<lparr>wi_ReceiverID = rc_ID r, wi_WalletID = wl_ID (ds_Wallet d)\<rparr> s = (Inr rwID, s')"
    by (auto simp: processReceiverWallet_def prog_ok)
  from ins have "has_key s' rwID (rc_ID r) (wl_ID (ds_Wallet d))"
    unfolding ReceiverWalletModel_GetOrInsertReceiverWallet_def
    by (auto simp: prog_ok Let_def has_key_def wallet_key_def inserted_wallet_def split: if_splits elim!: db_call_cases)
  with y show ?thesis by simp
next
  case (Some rwID)
  with assms(1) have y: "y = (rc_ID r, rwID)"
    by (auto simp: processReceiverWallet_def handleE_def ret_def throw_def split: prod.splits sum.splits if_splits)
  from Some assms(2) have "has_key s rwID (rc_ID r) (wl_ID (ds_Wallet d))" by (auto dest: map_of_SomeD)
  with keepsD [OF grow_steps(2) assms(1)] y show ?thesis by (auto dest: grown_key)
qed

lemma processReceiverWallets_ok:
  assumes "processReceiverWallets env rs d s = (Inr wis, s')"
  shows "people_grow s s'" and "(ri, wi) \<in> set wis \<Longrightarrow> has_key s' wi ri (wl_ID (ds_Wallet d))"
proof -
  show "people_grow s s'"
    using assms unfolding processReceiverWallets_def by (rule keepsD [rotated]) (intro keeps_intros)
  from assms obtain rws s1 ordered s2 where read: "ReceiverWalletModel_GetByReceiverIDsAndWalletID (map rc_ID rs) (wl_ID (ds_Wallet d)) s = (Inr rws, s1)"
    and ord: "range_by env rc_ID rs s1 = (Inr ordered, s2)"
    and each: "forE ordered (processReceiverWallet d (rev (map (\<lambda>rw. (rw_receiver_id rw, rw_ID rw)) rws))) s2 = (Inr wis, s')"
    by (auto simp: processReceiverWallets_def prog_ok Let_def)
  let ?known = "rev (map (\<lambda>rw. (rw_receiver_id rw, rw_ID rw)) rws)"
  from read have "\<forall>rw \<in> set rws. rw \<in> set (receiver_wallets s1) \<and> rw_wallet_id rw = wl_ID (ds_Wallet d)"
    by (auto simp: ReceiverWalletModel_GetByReceiverIDsAndWalletID_def prog_ok elim!: db_read_ok)
  then have known: "has_key s1 wi ri (wl_ID (ds_Wallet d))" if "(ri, wi) \<in> set ?known" for ri wi
    using that by (fastforce simp: has_key_def wallet_key_def)
  have "people_grow s1 s2" using grow_reads(5) ord by (rule keepsD)
  assume "(ri, wi) \<in> set wis"
  with forE_steps [OF each grow_steps(2)] obtain r t t' where step: "processReceiverWallet d ?known r t = (Inr (ri, wi), t')"
    and t: "people_grow s2 t" "people_grow t' s'"
    by (force simp: list_all2_iff in_set_zip in_set_conv_nth)
  have "has_key t wi ri (wl_ID (ds_Wallet d))" if "(ri, wi) \<in> set ?known" for ri wi
    using known [OF that] \<open>people_grow s1 s2\<close> t(1) by (blast intro: grown_key)
  from processReceiverWallet_ok [OF step this] t(2) show "has_key s' wi ri (wl_ID (ds_Wallet d))"
    by (auto dest: grown_key)
qed

section \<open>The payments\<close>

definition people_same :: "'z platform_scheme \<Rightarrow> 'z platform_scheme \<Rightarrow> bool" where
  "people_same s s' \<longleftrightarrow> receivers s' = receivers s \<and> receiver_wallets s' = receiver_wallets s \<and> disbursements s' = disbursements s \<and>
     conn_now s' = conn_now s"

interpretation people_same: db_relation people_same
  by unfold_locales (simp_all add: people_same_def tss_rollback_def)

text \<open>The payment of an instruction: to a receiver with its contact, on the receiver's wallet of the kind the
  disbursement has, with its amount as the column stores it.\<close>

definition instruction_paid :: "sdp_env \<Rightarrow> Disbursement \<Rightarrow> 'z platform_scheme \<Rightarrow> DisbursementInstruction \<Rightarrow> payment_row \<Rightarrow> bool" where
  "instruction_paid env d s di p \<longleftrightarrow>
     (\<exists>row \<in> set (receivers s). DisbursementInstruction_Contact di \<in> {Inr (rc_PhoneNumber (receiver_of row)), Inr (rc_Email (receiver_of row))} \<and>
       pm_receiver_id p = rr_id row \<and> has_key s (pm_receiver_wallet_id p) (rr_id row) (wl_ID (ds_Wallet d))) \<and>
     numeric_column env (di_Amount di) = Some (pm_Amount p) \<and> pm_Status p = DraftPaymentStatus \<and> pm_Type p = PaymentTypeDisbursement \<and>
     pm_disbursement_id p = Some (ds_ID (ds_row d)) \<and> pm_asset_id p = as_ID (ds_Asset d) \<and> pm_StellarTransactionID p = [] \<and>
     pm_ExternalPaymentID p = di_ExternalPaymentID di \<and> pm_StatusHistory p = [payment_history (conn_now s) DraftPaymentStatus []]"

lemma same_net [keeps_intros]: "keeps people_same (net_call f)"
  by (simp add: keeps_def net_call_def people_same_def)

lemma people_same_insert: "keeps people_same (pm_insert_exec env st m i)"
  unfolding pm_insert_exec_def
  by (intro people_same.keeps_db_call) (auto simp: Let_def people_same_def split: option.splits)

lemma people_same_steps:
  "keeps people_same (PaymentModel_InsertAll env is)" "keeps people_same (PaymentModel_DeleteAllDraftForDisbursement i)"
  "keeps people_same (findReceiverByInstruction env rs di)"
  unfolding PaymentModel_InsertAll_def PaymentModel_DeleteAllDraftForDisbursement_def findReceiverByInstruction_def range_by_def
  by (intro keeps_intros people_same.keeps_db_call people_same_insert; simp add: people_same_def)+

definition draft_for :: "sdp_env \<Rightarrow> int \<Rightarrow> PaymentInsert \<Rightarrow> payment_row \<Rightarrow> bool" where
  "draft_for env now i p \<longleftrightarrow> numeric_column env (pi_Amount i) = Some (pm_Amount p) \<and> pm_Status p = DraftPaymentStatus \<and> pm_Type p = pi_PaymentType i \<and>
     pm_disbursement_id p = pi_DisbursementID i \<and> pm_asset_id p = pi_AssetID i \<and> pm_receiver_id p = pi_ReceiverID i \<and>
     pm_receiver_wallet_id p = pi_ReceiverWalletID i \<and> pm_StellarTransactionID p = [] \<and> pm_ExternalPaymentID p = nullable (pi_ExternalPaymentID i) \<and>
     pm_StatusHistory p = [payment_history now DraftPaymentStatus []]"

lemma pm_insert_ok:
  assumes "pm_insert_exec env DraftPaymentStatus [] i s = (Inr x, s')"
  shows "\<exists>p. payments s' = payments s @ [p] \<and> draft_for env (conn_now s) i p"
  using assms unfolding pm_insert_exec_def
  by (elim db_call_cases) (auto simp: Let_def inserted_payment_def draft_for_def split: option.splits if_splits)

lemma InsertAll_ok:
  assumes "PaymentModel_InsertAll env is s = (Inr x, s')"
  shows "validate_inserts env is = Inr ()" and "\<exists>ps. payments s' = payments s @ ps \<and> list_all2 (draft_for env (conn_now s)) is ps"
proof -
  show "validate_inserts env is = Inr ()" using assms by (auto simp: PaymentModel_InsertAll_def throw_def split: sum.splits)
  from assms obtain ys where "forE is (\<lambda>i. wrapE ''error inserting payment'' (pm_insert_exec env DraftPaymentStatus [] i)) s = (Inr ys, s')"
    by (auto simp: PaymentModel_InsertAll_def prog_ok guard_ok)
  then show "\<exists>ps. payments s' = payments s @ ps \<and> list_all2 (draft_for env (conn_now s)) is ps"
  proof (induction "is" arbitrary: s ys)
    case (Cons i "is")
    then obtain y s1 zs where first: "pm_insert_exec env DraftPaymentStatus [] i s = (Inr y, s1)"
      and rest: "forE is (\<lambda>i. wrapE ''error inserting payment'' (pm_insert_exec env DraftPaymentStatus [] i)) s1 = (Inr zs, s')"
      by (auto simp: prog_ok)
    from pm_insert_ok [OF first] obtain p where p: "payments s1 = payments s @ [p]" "draft_for env (conn_now s) i p" by blast
    have "conn_now s1 = conn_now s" using keepsD [OF people_same_insert first] by (simp add: people_same_def)
    with Cons.IH [OF rest] obtain ps where "payments s' = payments s1 @ ps" "list_all2 (draft_for env (conn_now s)) is ps" by auto
    with p show ?case by (intro exI [of _ "p # ps"]) auto
  qed (simp add: prog_ok)
qed

lemma validated_inserts: "validate_inserts env is = Inr () \<Longrightarrow> i \<in> set is \<Longrightarrow> PaymentInsert_Validate env i = Inr ()"
  by (induction "is") (auto split: sum.splits)

lemma findReceiver_ok:
  assumes "findReceiverByInstruction env rs di s = (Inr (Some r), s')"
  shows "r \<in> set rs" and "DisbursementInstruction_Contact di \<in> {Inr (rc_PhoneNumber r), Inr (rc_Email r)}"
proof -
  from assms obtain contact qs where "DisbursementInstruction_Contact di = Inr contact" and range: "range_by env rc_ID rs s = (Inr qs, s')"
    and "List.find (\<lambda>r. contact = rc_PhoneNumber r \<or> contact = rc_Email r) qs = Some r"
    by (auto simp: findReceiverByInstruction_def prog_ok split: sum.splits)
  then show "r \<in> set rs" "DisbursementInstruction_Contact di \<in> {Inr (rc_PhoneNumber r), Inr (rc_Email r)}"
    using range_by_subset [OF range] by (auto simp: find_Some_iff)
qed

lemma createPayments_ok:
  fixes s s' :: "'z platform_scheme"
  assumes run: "createPayments env rs wis dis d s = (Inr (), s')" and rs: "set rs \<subseteq> receiver_of ` set (receivers s)"
    and wis: "\<And>ri wi. (ri, wi) \<in> set wis \<Longrightarrow> has_key s wi ri (wl_ID (ds_Wallet d))"
  obtains ps where "payments s' = payments s @ ps" and "list_all2 (instruction_paid env d s) dis ps" and "people_same s s'"
proof -
  let ?find = "\<lambda>instruction. bindE (findReceiverByInstruction env rs instruction) (\<lambda>found.
       case found of None \<Rightarrow> throw (Errorf ''receiver not found for instruction with ID %s'')
       | Some receiver \<Rightarrow> ret (payment_insert d wis instruction receiver))"
  from run obtain inserts s1 where find: "forE dis ?find s = (Inr inserts, s1)" and ins: "PaymentModel_InsertAll env inserts s1 = (Inr (), s')"
    by (auto simp: createPayments_def prog_ok)
  have "keeps people_same (forE dis ?find :: ('z platform_scheme, _, _) prog)"
    by (intro keeps_intros people_same_steps)
  from keepsD [OF this find] have s1: "people_same s s1" .
  have "keeps people_grow (forE dis ?find :: ('z platform_scheme, _, _) prog)"
    by (intro keeps_intros)
  from keepsD [OF this find] have "payments s1 = payments s" by (simp add: people_grow_def)
  with InsertAll_ok [OF ins] s1 obtain ps where valid: "validate_inserts env inserts = Inr ()"
    and ps: "payments s' = payments s @ ps" "list_all2 (draft_for env (conn_now s)) inserts ps"
    by (auto simp: people_same_def)
  have "keeps people_same (PaymentModel_InsertAll env inserts :: ('z platform_scheme, _, _) prog)" by (rule people_same_steps)
  from people_same.R_trans [OF s1 keepsD [OF this ins]] have same: "people_same s s'" .
  have "instruction_paid env d s di p" if di: "\<exists>(t :: 'z platform_scheme) t'. ?find di t = (Inr i, t')" and i: "i \<in> set inserts" and p: "draft_for env (conn_now s) i p" for di i p
  proof -
    from di obtain t t' :: "'z platform_scheme" and r where r: "findReceiverByInstruction env rs di t = (Inr (Some r), t')" and i_def: "i = payment_insert d wis di r"
      by (auto simp: prog_ok guard_ok)
    note found = findReceiver_ok [OF r]
    from found(1) rs obtain row where row: "row \<in> set (receivers s)" "r = receiver_of row" by auto
    from validated_inserts [OF valid i] have "TrimSpace (pi_ReceiverWalletID i) \<noteq> []"
      by (auto simp: PaymentInsert_Validate_def split: sum.splits if_splits)
    then have "map_of wis (rc_ID r) \<noteq> None"
      by (auto simp: i_def payment_insert_def TrimSpace_def split: option.splits)
    then obtain wi where wi: "map_of wis (rc_ID r) = Some wi" by blast
    with wis have "has_key s wi (rr_id row) (wl_ID (ds_Wallet d))" by (auto dest: map_of_SomeD simp: row(2) receiver_of_def)
    moreover have "nullable (optional x) = x" for x by (simp add: optional_def nullable_def)
    ultimately show ?thesis
      using p found(2) row wi by (auto simp: instruction_paid_def draft_for_def i_def payment_insert_def receiver_of_def)
  qed
  note paid = this
  have "list_all2 (instruction_paid env d s) dis ps"
    unfolding list_all2_conv_all_nth
  proof (intro conjI allI impI)
    note found = forE_all2 [OF find, unfolded list_all2_conv_all_nth]
    show "length dis = length ps" using found ps(2) by (simp add: list_all2_lengthD)
    fix n assume n: "n < length dis"
    show "instruction_paid env d s (dis ! n) (ps ! n)"
      by (rule paid [of _ "inserts ! n"]) (use found ps(2) n in \<open>auto simp: list_all2_conv_all_nth\<close>)
  qed
  from that [OF ps(1) this same] show thesis .
qed

section \<open>The upload\<close>

definition uploaded_rows :: "string \<Rightarrow> string \<Rightarrow> string \<Rightarrow> string \<Rightarrow> int \<Rightarrow> disbursement_row list \<Rightarrow> disbursement_row list" where
  "uploaded_rows i u f c now ds = sql_update (\<lambda>d. ds_ID d = i) (\<lambda>d. ds_touched (set_disbursement_status ReadyDisbursementStatus u []) now
     (ds_touched (\<lambda>now d. d\<lparr>ds_FileName := f, ds_FileContent := c\<rparr>) now d)) ds"

text \<open>The effect of an upload on the tables.\<close>

definition instructions_processed ::
  "sdp_env \<Rightarrow> string \<Rightarrow> Disbursement \<Rightarrow> string \<Rightarrow> string \<Rightarrow> DisbursementInstruction list \<Rightarrow> 'z platform_scheme \<Rightarrow> 'z platform_scheme \<Rightarrow> bool" where
  "instructions_processed env u d f c dis s s' \<longleftrightarrow>
     (\<exists>news. receivers s' = receivers s @ news) \<and>
     (\<exists>keys. map wallet_key (receiver_wallets s') = map wallet_key (receiver_wallets s) @ keys) \<and>
     (\<exists>ps. payments s' = filter (\<lambda>p. \<not> (pm_disbursement_id p = Some (ds_ID (ds_row d)) \<and> pm_Status p = DraftPaymentStatus)) (payments s) @ ps \<and>
       list_all2 (instruction_paid env d s') dis ps) \<and>
     disbursements s' = uploaded_rows (ds_ID (ds_row d)) u f c (conn_now s) (disbursements s)"

definition same_but_disbursements :: "'z platform_scheme \<Rightarrow> 'z platform_scheme \<Rightarrow> bool" where
  "same_but_disbursements s s' \<longleftrightarrow> receivers s' = receivers s \<and> receiver_wallets s' = receiver_wallets s \<and> payments s' = payments s \<and>
     conn_now s' = conn_now s"

interpretation same_but: db_relation same_but_disbursements
  by unfold_locales (simp_all add: same_but_disbursements_def tss_rollback_def)

lemma same_but_updates:
  "keeps same_but_disbursements (DisbursementModel_Update u)" "keeps same_but_disbursements (DisbursementModel_updateStatus v i st why)"
  unfolding DisbursementModel_Update_def DisbursementModel_updateStatus_def ds_update_exec_def
  by (intro keeps_intros same_but.keeps_db_call; simp add: Let_def same_but_disbursements_def)+

lemma DisbursementModel_Update_ok:
  assumes "DisbursementModel_Update u s = (Inr (), s')"
  shows "disbursements s' = sql_update (\<lambda>d. ds_ID d = du_ID u) (ds_touched (\<lambda>now d. d\<lparr>ds_FileName := du_FileName u, ds_FileContent := du_FileContent u\<rparr>) (conn_now s)) (disbursements s)"
proof -
  from assms obtain rows where "ds_update_exec (\<lambda>_ d. ds_ID d = du_ID u) (\<lambda>now d. d\<lparr>ds_FileName := du_FileName u, ds_FileContent := du_FileContent u\<rparr>) s = (Inr rows, s')"
    by (auto simp: DisbursementModel_Update_def prog_ok guard_ok)
  then show ?thesis by (rule ds_update_exec_ok) simp
qed

lemma instruction_paid_same:
  "people_same s s' \<Longrightarrow> instruction_paid env d s = instruction_paid env d s'" "same_but_disbursements s s' \<Longrightarrow> instruction_paid env d s = instruction_paid env d s'"
  by (simp_all add: fun_eq_iff instruction_paid_def people_same_def same_but_disbursements_def has_key_def)

lemma ProcessAll_ok:
  fixes s s' :: "'z platform_scheme"
  assumes run: "ProcessAll env opts s = (Inr (), s')" and ids: "distinct (map ds_ID (disbursements s))"
    and id: "du_ID (io_DisbursementUpdate opts) = ds_ID (ds_row (io_Disbursement opts))"
  shows "length (io_Instructions opts) \<le> io_MaxNumberOfInstructions opts"
    and "instructions_processed env (io_UserID opts) (io_Disbursement opts) (du_FileName (io_DisbursementUpdate opts))
      (du_FileContent (io_DisbursementUpdate opts)) (io_Instructions opts) s s'"
proof -
  let ?d = "io_Disbursement opts" let ?dis = "io_Instructions opts" let ?i = "ds_ID (ds_row ?d)" let ?u = "io_DisbursementUpdate opts"
  note def = run [unfolded ProcessAll_def Let_def guard_ok]
  from def show len: "length ?dis \<le> io_MaxNumberOfInstructions opts" by simp
  let ?mid = "\<lambda>rs wis. if rt_IncludesWalletAddress (ds_RegistrationContactType (ds_row ?d))
       then handleE (registerSuppliedWallets env ?dis rs wis)
         (\<lambda>e. if error_is e ErrDuplicateWalletAddress then throw e else throw (Wrapf ''registering supplied wallets'' e)) ret
       else if ds_VerificationField (ds_row ?d) \<noteq> []
       then wrapE ''processing receiver verifications''
         (processReceiverVerifications env rs ?dis ?d (rt_ReceiverContactType (ds_RegistrationContactType (ds_row ?d))))
       else ret ()"
  from def obtain rs s1 wis s2 s3 s4 s5 s6
    where rec: "reconcileExistingReceiversWithInstructions ?dis (rt_ReceiverContactType (ds_RegistrationContactType (ds_row ?d))) s = (Inr rs, s1)"
    and wal: "processReceiverWallets env rs ?d s1 = (Inr wis, s2)"
    and mid: "?mid rs wis s2 = (Inr (), s3)"
    and del: "PaymentModel_DeleteAllDraftForDisbursement ?i s3 = (Inr (), s4)"
    and pay: "createPayments env rs wis ?dis ?d s4 = (Inr (), s5)"
    and upd: "DisbursementModel_Update ?u s5 = (Inr (), s6)"
    and sta: "DisbursementModel_updateStatus (io_UserID opts) ?i ReadyDisbursementStatus [] s6 = (Inr (), s')"
    by (auto simp: prog_ok DisbursementModel_UpdateStatus_def)
  have "keeps people_grow (?mid rs wis :: ('z platform_scheme, _, _) prog)" by (intro keeps_intros)
  from keepsD [OF grow_steps(1) rec] processReceiverWallets_ok(1) [OF wal] keepsD [OF this mid]
  have s1: "people_grow s s1" and s12: "people_grow s1 s2" and s23: "people_grow s2 s3" .
  have s13: "people_grow s1 s3" by (rule people.R_trans [OF s12 s23])
  have s3: "people_grow s s3" by (rule people.R_trans [OF s1 s13])
  from del obtain fs where s4: "s4 = s3\<lparr>conn_faults := fs,
      payments := filter (\<lambda>p. \<not> (pm_disbursement_id p = Some ?i \<and> pm_Status p = DraftPaymentStatus)) (payments s3)\<rparr>"
    by (auto simp: PaymentModel_DeleteAllDraftForDisbursement_def prog_ok elim!: db_call_cases)
  have "set rs \<subseteq> receiver_of ` set (receivers s4)"
    using reconcile_ok [OF rec] grown_receiver [OF s13] by (auto simp: s4)
  moreover have "has_key s4 wi ri (wl_ID (ds_Wallet ?d))" if "(ri, wi) \<in> set wis" for ri wi
    using grown_key [OF s23 processReceiverWallets_ok(2) [OF wal that]] by (simp add: s4 has_key_def)
  ultimately obtain ps where ps: "payments s5 = payments s4 @ ps" "list_all2 (instruction_paid env ?d s4) ?dis ps" and s45: "people_same s4 s5"
    by (rule createPayments_ok [OF pay])
  have s56: "same_but_disbursements s5 s6" and s6: "same_but_disbursements s6 s'"
    using keepsD [OF same_but_updates(1) upd] keepsD [OF same_but_updates(2) sta] .
  have ds5: "disbursements s5 = disbursements s" "conn_now s5 = conn_now s" "conn_now s6 = conn_now s"
    using s3 s45 s56 by (simp_all add: s4 people_grow_def people_same_def same_but_disbursements_def)
  from DisbursementModel_Update_ok [OF upd] id ds5
  have ds6: "disbursements s6 = sql_update (\<lambda>d. ds_ID d = ?i) (ds_touched (\<lambda>now d. d\<lparr>ds_FileName := du_FileName ?u, ds_FileContent := du_FileContent ?u\<rparr>) (conn_now s)) (disbursements s)"
    by simp
  have "map ds_ID (disbursements s6) = map ds_ID (disbursements s)"
    unfolding ds6 by (rule map_sql_update_key) (simp add: ds_touched_def)
  with ids have "distinct (map ds_ID (disbursements s6))" by simp
  then obtain e where "disbursement_moved ?i ReadyDisbursementStatus (io_UserID opts) [] e s6 s'" by (rule updateStatus_ok [OF sta])
  then have "disbursements s' = uploaded_rows ?i (io_UserID opts) (du_FileName ?u) (du_FileContent ?u) (conn_now s) (disbursements s)"
    unfolding disbursement_moved_def ds5 ds6 uploaded_rows_def by (simp add: sql_update_twice ds_touched_def)
  moreover have "instruction_paid env ?d s4 = instruction_paid env ?d s'"
    using instruction_paid_same(1) [OF s45] instruction_paid_same(2) [OF s56] instruction_paid_same(2) [OF s6] by metis
  ultimately show "instructions_processed env (io_UserID opts) ?d (du_FileName ?u) (du_FileContent ?u) ?dis s s'"
    using s3 s45 s56 s6 ps by (auto simp: instructions_processed_def s4 people_grow_def people_same_def same_but_disbursements_def)
qed

definition upload_accepted ::
  "http_env \<Rightarrow> form_file \<Rightarrow> string \<Rightarrow> 'z platform_scheme \<Rightarrow> Disbursement \<Rightarrow> string \<Rightarrow> string \<Rightarrow> DisbursementInstruction list \<Rightarrow> bool" where
  "upload_accepted he attached i s d f c dis \<longleftrightarrow>
     read_disbursement i s d \<and> ds_Status (ds_row d) \<in> {DraftDisbursementStatus, ReadyDisbursementStatus} \<and>
     parseCsvFromMultipartRequest attached = Inr (c, f) \<and>
     validateCSVHeaders he c (ds_RegistrationContactType (ds_row d)) (wl_Embedded (ds_Wallet d) \<and> ds_VerificationField (ds_row d) = []) = Inr () \<and>
     parseInstructionsFromCSV he (conn_now s) c (ds_RegistrationContactType (ds_row d)) (ds_VerificationField (ds_row d)) = Inr dis \<and>
     length dis \<le> MaxInstructionsPerDisbursement"

definition untouched :: "'z platform_scheme \<Rightarrow> 'z platform_scheme \<Rightarrow> bool" where
  "untouched s s' \<longleftrightarrow> organizations s' = organizations s \<and> assets s' = assets s \<and> wallets s' = wallets s \<and> receivers s' = receivers s \<and>
     receiver_verifications s' = receiver_verifications s \<and> receiver_wallets s' = receiver_wallets s \<and> disbursements s' = disbursements s \<and>
     payments s' = payments s"

lemma processed_faults [simp]:
  "instructions_processed env u d f c dis (s\<lparr>conn_faults := fs\<rparr>) s' = instructions_processed env u d f c dis s s'"
  "instructions_processed env u d f c dis s (s'\<lparr>conn_faults := fs\<rparr>) = instructions_processed env u d f c dis s s'"
  "upload_accepted he attached i (s\<lparr>conn_faults := fs\<rparr>) d f c dis = upload_accepted he attached i s d f c dis"
proof -
  have "instruction_paid env d (s'\<lparr>conn_faults := fs\<rparr>) = instruction_paid env d s'"
    by (simp add: fun_eq_iff instruction_paid_def has_key_def)
  then show "instructions_processed env u d f c dis s (s'\<lparr>conn_faults := fs\<rparr>) = instructions_processed env u d f c dis s s'"
    by (simp add: instructions_processed_def)
qed (simp_all add: instructions_processed_def upload_accepted_def read_disbursement_def)

lemma upload_body_ok:
  fixes s s' :: "'z platform_scheme"
  assumes run: "upload_body he attached u i s = (Inr (), s')" and ids: "distinct (map ds_ID (disbursements s))"
  shows "\<exists>d f c dis. upload_accepted he attached i s d f c dis \<and> instructions_processed (he_sdp he) u d f c dis s s'"
proof -
  from run obtain d s1 where get: "DisbursementModel_Get i s = (Inr d, s1)"
    and status: "ds_Status (ds_row d) \<in> {DraftDisbursementStatus, ReadyDisbursementStatus}"
    and rest: "validateAndProcessInstructions he attached u d s1 = (Inr (), s')"
    unfolding upload_body_def by (auto simp: prog_ok handle_ok guard_ok)
  note read = Get_ok [OF get]
  then obtain fs where s1: "s1 = s\<lparr>conn_faults := fs\<rparr>" by blast
  from rest obtain c f dis where "parseCsvFromMultipartRequest attached = Inr (c, f)"
    "validateCSVHeaders he c (ds_RegistrationContactType (ds_row d)) (wl_Embedded (ds_Wallet d) \<and> ds_VerificationField (ds_row d) = []) = Inr ()"
    "parseInstructionsFromCSV he (conn_now s) c (ds_RegistrationContactType (ds_row d)) (ds_VerificationField (ds_row d)) = Inr dis"
    and all: "ProcessAll (he_sdp he) \<lparr>io_UserID = u, io_Instructions = dis, io_Disbursement = d,
        io_DisbursementUpdate = \<lparr>du_ID = ds_ID (ds_row d), du_FileName = f, du_FileContent = c\<rparr>,
        io_MaxNumberOfInstructions = MaxInstructionsPerDisbursement\<rparr> s1 = (Inr (), s')"
    unfolding validateAndProcessInstructions_def Let_def s1 by (auto simp: prog_ok handle_ok guard_ok split: prod.splits)
  moreover from ProcessAll_ok [OF all] ids have "length dis \<le> MaxInstructionsPerDisbursement" "instructions_processed (he_sdp he) u d f c dis s s'"
    by (simp_all add: s1)
  ultimately show ?thesis using read(1) status unfolding upload_accepted_def by blast
qed

lemma upload_outcome:
  fixes s s' :: "'z platform_scheme"
  assumes run: "PostDisbursementInstructions he attached u i s = (r, s')" and ids: "distinct (map ds_ID (disbursements s))"
  shows "isl r \<and> untouched s s' \<or>
    (\<exists>d f c dis. upload_accepted he attached i s d f c dis \<and> instructions_processed (he_sdp he) u d f c dis s s')"
proof -
  from run obtain x where x: "RunInTransactionWithResult sdp_rollback (upload_body he attached u i) s = (x, s')" and r: "isl r = isl x"
    by (auto simp: PostDisbursementInstructions_def or_internal_def RunInTransaction_def handleE_def throw_def ret_def
        split: prod.splits sum.splits option.splits)
  from x show ?thesis
  proof (cases rule: transaction_run_cases)
    case (not_begun fs)
    with r show ?thesis by (auto simp: untouched_def)
  next
    case (rolled_back fs gs y t)
    with r show ?thesis by (auto simp: untouched_def sdp_rollback_def)
  next
    case (committed fs gs y t)
    from upload_body_ok [of he attached u i "s\<lparr>conn_faults := fs\<rparr>" t] committed(1) ids show ?thesis
      unfolding committed(2) by simp
  qed
qed

end
