(* ===== verification/Upload_Props.thy ===== *)
theory Upload_Props
  imports Upload_Exact
begin

text \<open>An upload is exact: one payment for each instruction of the file, or nothing.\<close>

text \<open>C15: uploading a file of instructions either fails and leaves every table as it was, or the disbursement was a draft
  or ready, the file was read without an error and is within the limit, and then: receivers and their wallets were only added,
  the earlier draft payments of the disbursement were replaced by one draft payment for each instruction in the file's
  order, to a receiver with the instruction's contact and with its exact amount, and the disbursement became ready with the file.\<close>

theorem upload_is_exact:
  assumes "PostDisbursementInstructions he attached u i s = (r, s')" and "distinct (map ds_ID (disbursements s))"
  shows "isl r \<and> untouched s s' \<or>
    (\<exists>d f c dis. upload_accepted he attached i s d f c dis \<and> instructions_processed (he_sdp he) u d f c dis s s')"
  using upload_outcome [OF assms] .

lemma tenant_posted_ids: "distinct (map ds_ID (disbursements tenant_posted))"
  by code_simp

theorem upload_is_exact_witness:
  "\<exists>(d :: Disbursement) dis ps. payments tenant_uploaded = filter (\<lambda>p. \<not> (pm_disbursement_id p = Some (ds_ID (ds_row d)) \<and> pm_Status p = DraftPaymentStatus)) (payments tenant_posted) @ ps \<and>
     list_all2 (instruction_paid platform_env d tenant_uploaded) dis ps"
proof -
  from upload_is_exact [OF tenant_statuses(6) tenant_posted_ids] obtain d :: Disbursement and f c dis where
    "instructions_processed platform_env ''creator'' d f c dis tenant_posted tenant_uploaded" by auto
  then show ?thesis unfolding instructions_processed_def by blast
qed

end
