(* ===== verification/Attempts.thy ===== *)
theory Attempts
  imports Registration_Props Four_Eyes
begin

text \<open>
  How often a one-time password and a verification value may be guessed: the counters of the wallets and of the
  verifications never exceed their limits, whatever requests come in and whatever fails.
\<close>

section \<open>Every statement keeps the counters within their limits\<close>

definition attempts_within :: "'z platform_scheme \<Rightarrow> bool" where
  "attempts_within s \<longleftrightarrow> list_all (\<lambda>w. rw_OTPAttempts w \<le> OTPMaxAttempts) (receiver_wallets s) \<and>
     list_all (\<lambda>v. rv_Attempts v \<le> MaxAttemptsAllowed) (receiver_verifications s)"

definition keeps_attempts :: "'z platform_scheme \<Rightarrow> 'z platform_scheme \<Rightarrow> bool" where
  "keeps_attempts s s' \<longleftrightarrow> (attempts_within s \<longrightarrow> attempts_within s')"

lemma attempts_same:
  "receiver_wallets s' = receiver_wallets s \<Longrightarrow> receiver_verifications s' = receiver_verifications s \<Longrightarrow> keeps_attempts s s'"
  by (simp add: keeps_attempts_def attempts_within_def)

lemma attempts_wallets:
  assumes "\<And>w. rw_OTPAttempts w \<le> OTPMaxAttempts \<Longrightarrow> rw_OTPAttempts (f w) \<le> OTPMaxAttempts"
  shows "keeps_attempts s (s\<lparr>receiver_wallets := sql_update P f (receiver_wallets s)\<rparr>)"
  using assms by (auto simp: keeps_attempts_def attempts_within_def list_all_iff dest!: in_set_sql_update split: if_splits)

lemma attempts_verifications:
  assumes "\<And>v. rv_Attempts v \<le> MaxAttemptsAllowed \<Longrightarrow> rv_Attempts (f v) \<le> MaxAttemptsAllowed"
  shows "keeps_attempts s (s\<lparr>receiver_verifications := sql_update P f (receiver_verifications s)\<rparr>)"
  using assms by (auto simp: keeps_attempts_def attempts_within_def list_all_iff dest!: in_set_sql_update split: if_splits)

interpretation attempts: upload_relation keeps_attempts
proof
  fix s :: "'a platform_scheme" and i x now P and m :: nat
  show "keeps_attempts s (s\<lparr>receiver_wallets := receiver_wallets s @ [inserted_wallet i x now], conn_uuid_next := m\<rparr>)"
    by (simp add: keeps_attempts_def attempts_within_def inserted_wallet_def OTPMaxAttempts_def)
  show "keeps_attempts s (s\<lparr>receiver_wallets := sql_update P (rw_touched (\<lambda>now w. w\<lparr>rw_InvitationSentAt := None\<rparr>) now) (receiver_wallets s)\<rparr>)"
    by (rule attempts_wallets) (simp add: rw_touched_def)
next
  fix s t u :: "'a platform_scheme"
  show "keeps_attempts s t \<Longrightarrow> keeps_attempts t u \<Longrightarrow> keeps_attempts s u" by (simp add: keeps_attempts_def)
  show "keeps_attempts s t \<Longrightarrow> keeps_attempts s (tss_rollback s t)"
    by (simp add: keeps_attempts_def attempts_within_def tss_rollback_def)
qed (simp_all add: attempts_same sdp_rollback_def)

lemma attempts_wallet_update:
  assumes "\<And>now w. rw_OTPAttempts w \<le> OTPMaxAttempts \<Longrightarrow> rw_OTPAttempts (f now w) \<le> OTPMaxAttempts"
  shows "keeps keeps_attempts (rw_update_where P f)"
  unfolding rw_update_where_def
  by (intro attempts.keeps_db_call) (auto simp: Let_def attempts.R_refl rw_touched_def assms intro!: attempts_wallets)

lemma attempts_verification_write:
  "(\<And>now v. rv_Attempts v \<le> MaxAttemptsAllowed \<Longrightarrow> rv_Attempts (f now v) \<le> MaxAttemptsAllowed) \<Longrightarrow> keeps keeps_attempts (rv_write (rv_update P f))"
  "keeps keeps_attempts (rv_write (\<lambda>s. s\<lparr>receiver_verifications := receiver_verifications s @ [new_verification r fld h (conn_now s)]\<rparr>))"
  unfolding rv_write_def
  by (intro attempts.keeps_db_call; auto simp: attempts.R_refl rv_update_def rv_touched_def intro!: attempts_verifications)
    (intro attempts.keeps_db_call; auto simp: attempts.R_refl keeps_attempts_def attempts_within_def new_verification_def MaxAttemptsAllowed_def)

section \<open>The handlers\<close>

lemma attempts_wallet_writes:
  "wu_OTPAttempts u = None \<Longrightarrow> keeps keeps_attempts (ReceiverWalletModel_Update env i u)"
  "keeps keeps_attempts (ReceiverWalletModel_UpdateOTPByReceiverContactInfoAndWalletDomain c d otp)"
  "keeps keeps_attempts (ReceiverWalletModel_UpdateStatusToReady i)"
  unfolding ReceiverWalletModel_Update_def check_memo_def ReceiverWalletModel_UpdateOTPByReceiverContactInfoAndWalletDomain_def
    ReceiverWalletModel_UpdateStatusToReady_def update_to_ready_body_def ReceiverWalletModel_GetByID_def query_wallet_def not_found_as_def get_first_def
    RunInTransaction_def ReceiverWalletModel_HasPaymentsInProgress_def
  by (intro keeps_intros attempts_wallet_update attempts.keeps_sdp_transaction;
      simp add: set_receiver_wallet_def set_otp_def set_unregistered_def OTPMaxAttempts_def)+

lemma attempts_verification_writes:
  "keeps keeps_attempts (ReceiverVerificationModel_Insert env vi)"
  "keeps keeps_attempts (ReceiverVerificationModel_UpdateVerificationValue env i fld v)"
  unfolding ReceiverVerificationModel_Insert_def ReceiverVerificationModel_UpdateVerificationValue_def HashVerificationValue_def
  by (intro keeps_intros attempts_verification_write; simp)+

lemma attempts_lift:
  "(\<And>u. x = Inr u \<Longrightarrow> keeps keeps_attempts (f u)) \<Longrightarrow> keeps keeps_attempts (bindE (liftE x) f)"
  by (cases x) (auto simp: keeps_def bindE_def liftE_def throw_def ret_def attempts.R_refl)

lemma attempts_upload:
  "keeps keeps_attempts (PostDisbursement he u request)" "keeps keeps_attempts (PostDisbursementInstructions he attached u i)" "keeps keeps_attempts (DeleteDisbursement i)"
proof -
  have supplied: "keeps keeps_attempts (registerSuppliedWallets env dis rs wis)" for env dis rs wis
    unfolding registerSuppliedWallets_def registerSuppliedWallet_def
    by (intro attempts_lift keeps_intros attempts_wallet_writes) (auto simp: registration_update_def no_wallet_update_def Let_def split: if_splits sum.splits)
  have verified: "keeps keeps_attempts (processReceiverVerifications env rs dis d ct)" for env rs dis d ct
    unfolding processReceiverVerifications_def processReceiverVerification_def by (intro keeps_intros attempts_verification_writes)
  show "keeps keeps_attempts (PostDisbursement he u request)" "keeps keeps_attempts (PostDisbursementInstructions he attached u i)" "keeps keeps_attempts (DeleteDisbursement i)"
    by (intro attempts.keeps_upload attempts.keeps_deletion supplied verified)+
qed

lemma attempts_otp: "keeps keeps_attempts (ReceiverSendOTPHandler_ServeHTTP rg claims decoded)"
proof -
  have recorded: "keeps keeps_attempts recordRegistrationAttempt"
    unfolding recordRegistrationAttempt_def
    by (intro keeps_intros attempts.keeps_db_call) (simp add: ret_def attempts.R_refl)
  show ?thesis
    unfolding ReceiverSendOTPHandler_ServeHTTP_def handleOTPForReceiver_def sendOTP_def validate_captcha_def
      IsCAPTCHADisabled_def ReceiverVerificationModel_GetLatestByContactInfo_def OrganizationModel_Get_def get_first_def Let_def
    by (intro keeps_intros recorded attempts_wallet_writes)
qed

lemma guessed_within:
  "list_all2 guessed_wallet ws ws' \<Longrightarrow> list_all (\<lambda>w. rw_OTPAttempts w \<le> OTPMaxAttempts) ws \<Longrightarrow> list_all (\<lambda>w. rw_OTPAttempts w \<le> OTPMaxAttempts) ws'"
  by (induction rule: list_all2_induct) (auto simp: guessed_wallet_def)

lemma verifications_within:
  assumes "list_all2 guessed_verification vs vs' \<or> list_all2 same_attempts vs vs'" and "list_all (\<lambda>v. rv_Attempts v \<le> MaxAttemptsAllowed) vs"
  shows "list_all (\<lambda>v. rv_Attempts v \<le> MaxAttemptsAllowed) vs'"
proof -
  have "list_all2 (\<lambda>v v'. rv_Attempts v \<le> MaxAttemptsAllowed \<longrightarrow> rv_Attempts v' \<le> MaxAttemptsAllowed) vs vs'"
    using assms(1) by (auto elim!: list_all2_mono simp: guessed_verification_def same_attempts_def)
  then show ?thesis using assms(2) by (induction rule: list_all2_induct) auto
qed

lemma attempts_verify: "keeps keeps_attempts (VerifyReceiverRegistration rg claims decoded)"
proof (rule keepsI)
  fix s s' :: platform and r
  assume "VerifyReceiverRegistration rg claims decoded s = (r, s')"
  from verify_outcome [OF this] show "keeps_attempts s s'"
  proof (elim disjE conjE exE)
    assume "only_guessed s s'"
    then show ?thesis
      unfolding keeps_attempts_def attempts_within_def only_guessed_def by (blast intro: guessed_within verifications_within)
  next
    fix c and req :: ReceiverRegistrationRequest and request and contact
    assume acc: "registration_accepted (rg_sdp rg) c (validated_request rg (conn_now s) request) (contact_of_request (validated_request rg (conn_now s) request)) s s'"
    define now where "now = conn_now s"
    have kept: "rw_OTPAttempts (rw_touched (set_receiver_wallet (registration_wallet_update c contact now)) now w) = rw_OTPAttempts w"
      "rw_OTPAttempts (rw_touched (set_receiver_wallet (no_wallet_update\<lparr>wu_SEP24TransactionID := sc_ID c\<rparr>)) now w) = rw_OTPAttempts w" for contact w
      by (simp_all add: rw_touched_def set_receiver_wallet_def registration_wallet_update_def no_wallet_update_def)
    have "list_all (\<lambda>w. rw_OTPAttempts w \<le> OTPMaxAttempts) (registered_wallets c contact now i ws)"
      if "list_all (\<lambda>w. rw_OTPAttempts w \<le> OTPMaxAttempts) ws" for contact i ws
      using that kept by (auto simp: registered_wallets_def update_wallet_def list_all_iff dest!: in_set_sql_update split: if_splits)
    with acc show ?thesis
      unfolding keeps_attempts_def attempts_within_def registration_accepted_def now_def by (auto intro: verifications_within)
  qed
qed

section \<open>Runs of requests\<close>

text \<open>The requests of receivers and the uploads of staff come in any order; what the rest of the platform does leaves the
  counters alone.\<close>

inductive guessing_step :: "http_env \<Rightarrow> registration_env \<Rightarrow> platform \<Rightarrow> platform \<Rightarrow> bool" for he rg where
  send_otp: "ReceiverSendOTPHandler_ServeHTTP rg claims request s = (x, s') \<Longrightarrow> guessing_step he rg s s'"
| register: "VerifyReceiverRegistration rg claims decoded s = (r, s') \<Longrightarrow> guessing_step he rg s s'"
| unregister: "ReceiverWalletModel_UpdateStatusToReady i s = (r, s') \<Longrightarrow> guessing_step he rg s s'"
| post: "PostDisbursement he u posted s = (d, s') \<Longrightarrow> guessing_step he rg s s'"
| upload: "PostDisbursementInstructions he attached u i s = (r, s') \<Longrightarrow> guessing_step he rg s s'"
| delete: "DeleteDisbursement i s = (d, s') \<Longrightarrow> guessing_step he rg s s'"
| elsewhere: "receiver_wallets s' = receiver_wallets s \<Longrightarrow> receiver_verifications s' = receiver_verifications s \<Longrightarrow> guessing_step he rg s s'"

inductive guessing_reachable :: "http_env \<Rightarrow> registration_env \<Rightarrow> platform \<Rightarrow> bool" for he rg where
  start: "receiver_wallets s = [] \<Longrightarrow> receiver_verifications s = [] \<Longrightarrow> guessing_reachable he rg s"
| step: "guessing_reachable he rg s \<Longrightarrow> guessing_step he rg s s' \<Longrightarrow> guessing_reachable he rg s'"

lemma guessing_step_keeps: "guessing_step he rg s s' \<Longrightarrow> keeps_attempts s s'"
proof (induction rule: guessing_step.induct)
  case (elsewhere s' s)
  then show ?case by (rule attempts_same)
qed (auto dest: keepsD [OF attempts_otp] keepsD [OF attempts_verify] keepsD [OF attempts_wallet_writes(3)]
    keepsD [OF attempts_upload(1)] keepsD [OF attempts_upload(2)] keepsD [OF attempts_upload(3)])

lemma guessing_reachable_within: "guessing_reachable he rg s \<Longrightarrow> attempts_within s"
  by (induction rule: guessing_reachable.induct) (simp add: attempts_within_def, blast dest: guessing_step_keeps keeps_attempts_def [THEN iffD1])

section \<open>The limits\<close>


lemma tenant_uploaded_guessing: "guessing_reachable example_http_env example_registration_env tenant_uploaded"
proof -
  have "guessing_reachable example_http_env example_registration_env tenant_settled"
    by (rule guessing_reachable.start) (simp_all add: tenant_settled_def)
  then have "guessing_reachable example_http_env example_registration_env tenant_posted"
    by (rule guessing_reachable.step) (unfold tenant_posted_def, rule guessing_step.post, rule prod.collapse [symmetric])
  then show ?thesis by (rule guessing_reachable.step) (rule guessing_step.upload [OF tenant_statuses(6)])
qed

lemma tenant_uploaded_rows: "length (receiver_wallets tenant_uploaded) = 1" "length (receiver_verifications tenant_uploaded) = 1"
  by code_simp+


end
