(* ===== verification/Base64.thy ===== *)
theory Base64
  imports Prelude
begin

text \<open>
  Go's \<open>base64.StdEncoding\<close> on byte strings, and the size-checked decoding of \<open>src/internal/utils/xdr.go\<close>:
  \<open>DecodeString\<close> leaves out line breaks, needs the padding and ignores the unused bits of the last group.
\<close>

definition base64_char :: "nat \<Rightarrow> char" where
  "base64_char n = (if n < 26 then char_of (65 + n) else if n < 52 then char_of (71 + n) else if n < 62 then char_of (n - 4)
     else if n = 62 then CHR ''+'' else CHR ''/'')"

definition base64_value :: "char \<Rightarrow> nat option" where
  "base64_value c = (let n = (of_char c :: nat) in
     if 65 \<le> n \<and> n \<le> 90 then Some (n - 65) else if 97 \<le> n \<and> n \<le> 122 then Some (n - 71)
     else if 48 \<le> n \<and> n \<le> 57 then Some (n + 4) else if c = CHR ''+'' then Some 62 else if c = CHR ''/'' then Some 63 else None)"

fun base64_EncodeToString :: "string \<Rightarrow> string" where
  "base64_EncodeToString [] = []"
| "base64_EncodeToString [a] = (let x = (of_char a :: nat) in
     [base64_char (x div 4), base64_char (x mod 4 * 16), CHR ''='', CHR ''=''])"
| "base64_EncodeToString [a, b] = (let x = (of_char a :: nat); y = (of_char b :: nat) in
     [base64_char (x div 4), base64_char (x mod 4 * 16 + y div 16), base64_char (y mod 16 * 4), CHR ''=''])"
| "base64_EncodeToString (a # b # c # r) = (let x = (of_char a :: nat); y = (of_char b :: nat); z = (of_char c :: nat) in
     [base64_char (x div 4), base64_char (x mod 4 * 16 + y div 16), base64_char (y mod 16 * 4 + z div 64), base64_char (z mod 64)]
     @ base64_EncodeToString r)"

definition corrupt_input :: go_error where "corrupt_input = Errorf ''illegal base64 data at input byte''"

fun base64_decode :: "string \<Rightarrow> go_error + string" where
  "base64_decode [] = Inr []"
| "base64_decode (a # b # c # d # r) =
     (case (base64_value a, base64_value b) of
        (Some x, Some y) \<Rightarrow>
          (if c = CHR ''='' then (if d = CHR ''='' \<and> r = [] then Inr [char_of (x * 4 + y div 16)] else Inl corrupt_input)
           else (case base64_value c of
               None \<Rightarrow> Inl corrupt_input
             | Some z \<Rightarrow>
                 (if d = CHR ''='' then (if r = [] then Inr [char_of (x * 4 + y div 16), char_of (y mod 16 * 16 + z div 4)] else Inl corrupt_input)
                  else (case base64_value d of
                      None \<Rightarrow> Inl corrupt_input
                    | Some w \<Rightarrow> (case base64_decode r of
                        Inl e \<Rightarrow> Inl e
                      | Inr bs \<Rightarrow> Inr (char_of (x * 4 + y div 16) # char_of (y mod 16 * 16 + z div 4) # char_of (z mod 4 * 64 + w) # bs))))))
      | _ \<Rightarrow> Inl corrupt_input)"
| "base64_decode _ = Inl corrupt_input"

definition base64_DecodeString :: "string \<Rightarrow> go_error + string" where
  "base64_DecodeString s = base64_decode (filter (\<lambda>c. c \<noteq> char_of (10 :: nat) \<and> c \<noteq> char_of (13 :: nat)) s)"

section \<open>Decoding an encoding\<close>

lemma of_base64_char:
  "n < 64 \<Longrightarrow> (of_char (base64_char n) :: nat) = (if n < 26 then 65 + n else if n < 52 then 71 + n else if n < 62 then n - 4 else if n = 62 then 43 else 47)"
  by (auto simp: base64_char_def of_char_of take_bit_eq_mod)

lemma base64_value_char [simp]: "n < 64 \<Longrightarrow> base64_value (base64_char n) = Some n"
proof -
  assume n: "n < 64"
  have plus: "c = CHR ''+'' \<longleftrightarrow> (of_char c :: nat) = 43" "c = CHR ''/'' \<longleftrightarrow> (of_char c :: nat) = 47" for c :: char
    using of_char_eq_iff [of c "CHR ''+''", where 'a = nat] of_char_eq_iff [of c "CHR ''/''", where 'a = nat] by simp_all
  from n show ?thesis
    unfolding base64_value_def Let_def plus of_base64_char [OF n] by auto
qed

lemma base64_char_kept [simp]:
  assumes "n < 64"
  shows "base64_char n \<noteq> CHR ''=''" "base64_char n \<noteq> char_of (10 :: nat)" "base64_char n \<noteq> char_of (13 :: nat)"
proof -
  have "(of_char (base64_char n) :: nat) \<notin> {61, 10, 13}"
    using of_base64_char [OF assms] by (auto split: if_splits)
  then show "base64_char n \<noteq> CHR ''=''" "base64_char n \<noteq> char_of (10 :: nat)" "base64_char n \<noteq> char_of (13 :: nat)"
    by auto
qed

lemma sextets [simp]:
  "(of_char a :: nat) div 4 < 64" "(of_char a :: nat) mod 4 * 16 < 64" "(of_char a :: nat) mod 16 * 4 < 64" "(of_char a :: nat) mod 64 < 64"
  "(of_char a :: nat) mod 4 * 16 + of_char b div 16 < 64" "(of_char a :: nat) mod 16 * 4 + of_char b div 64 < 64"
proof -
  have bytes: "(of_char a :: nat) < 256" "(of_char b :: nat) < 256" by simp_all
  then have "(of_char b :: nat) div 16 < 16" "(of_char b :: nat) div 64 < 4" "(of_char a :: nat) mod 4 < 4" "(of_char a :: nat) mod 16 < 16"
    by (simp_all add: less_mult_imp_div_less)
  then show "(of_char a :: nat) mod 4 * 16 + of_char b div 16 < 64" "(of_char a :: nat) mod 16 * 4 + of_char b div 64 < 64"
    "(of_char a :: nat) mod 4 * 16 < 64" "(of_char a :: nat) mod 16 * 4 < 64" by linarith+
  show "(of_char a :: nat) div 4 < 64" "(of_char a :: nat) mod 64 < 64" using bytes by (simp_all add: less_mult_imp_div_less)
qed

lemma octets [simp]:
  "(x mod 4 * 16 + (of_char b :: nat) div 16) div 16 = x mod 4" "(x mod 4 * 16 + (of_char b :: nat) div 16) mod 16 = of_char b div 16"
  "(x mod 16 * 4 + (of_char b :: nat) div 64) div 4 = x mod 16" "(x mod 16 * 4 + (of_char b :: nat) div 64) mod 4 = of_char b div 64"
proof -
  have "(of_char b :: nat) < 256" by simp
  then have "(of_char b :: nat) div 16 < 16" "(of_char b :: nat) div 64 < 4" by (simp_all add: less_mult_imp_div_less)
  then show "(x mod 4 * 16 + (of_char b :: nat) div 16) div 16 = x mod 4" "(x mod 4 * 16 + (of_char b :: nat) div 16) mod 16 = of_char b div 16"
    "(x mod 16 * 4 + (of_char b :: nat) div 64) div 4 = x mod 16" "(x mod 16 * 4 + (of_char b :: nat) div 64) mod 4 = of_char b div 64" by simp_all
qed

lemma padding_kept [simp]: "CHR ''='' \<noteq> char_of (10 :: nat)" "CHR ''='' \<noteq> char_of (13 :: nat)"
  by code_simp+

lemma bytes_joined [simp]:
  "char_of ((of_char b :: nat) div 16 mod 16 * 16 + of_char b mod 16) = b" "char_of ((of_char b :: nat) div 64 mod 4 * 64 + of_char b mod 64) = b"
proof -
  have "(of_char b :: nat) < 256" by simp
  then have "(of_char b :: nat) div 16 mod 16 = of_char b div 16" "(of_char b :: nat) div 64 mod 4 = of_char b div 64"
    by (simp_all add: less_mult_imp_div_less)
  then show "char_of ((of_char b :: nat) div 16 mod 16 * 16 + of_char b mod 16) = b" "char_of ((of_char b :: nat) div 64 mod 4 * 64 + of_char b mod 64) = b"
    by (simp_all only: div_mult_mod_eq char_of_char)
qed

lemma encoding_kept: "filter (\<lambda>c. c \<noteq> char_of (10 :: nat) \<and> c \<noteq> char_of (13 :: nat)) (base64_EncodeToString bs) = base64_EncodeToString bs"
  by (induction bs rule: base64_EncodeToString.induct) (simp_all add: Let_def)

lemma decode_encode: "base64_decode (base64_EncodeToString bs) = Inr bs"
  by (induction bs rule: base64_EncodeToString.induct) (simp_all add: Let_def)

lemma base64_round_trip [simp]: "base64_DecodeString (base64_EncodeToString bs) = Inr bs"
  by (simp only: base64_DecodeString_def encoding_kept decode_encode)

lemma base64_length: "length (base64_EncodeToString bs) = (length bs + 2) div 3 * 4"
  by (induction bs rule: base64_EncodeToString.induct) (simp_all add: Let_def, presburger)

section \<open>Size-checked decoding\<close>

definition DefaultMaxXDRDecodedSize :: int where "DefaultMaxXDRDecodedSize = 50 * 1024"

definition ValidateAndDecodeBase64XDR :: "string \<Rightarrow> int \<Rightarrow> go_error + string" where
  "ValidateAndDecodeBase64XDR encoded maxDecodedSize =
     (if int (length encoded) > (maxDecodedSize + 2) div 3 * 4 then Inl (Errorf ''encoded payload too large (%d bytes, max %d)'')
      else (case base64_DecodeString encoded of
          Inl e \<Rightarrow> Inl (Wrapf ''decoding base64 payload'' e)
        | Inr decoded \<Rightarrow>
            (if int (length decoded) > maxDecodedSize then Inl (Errorf ''decoded payload too large (%d bytes, max %d)'') else Inr decoded)))"

lemma ValidateAndDecode_encoded:
  assumes "int (length bs) \<le> n"
  shows "ValidateAndDecodeBase64XDR (base64_EncodeToString bs) n = Inr bs"
proof -
  have "int (length (base64_EncodeToString bs)) = (int (length bs) + 2) div 3 * 4" by (simp add: base64_length zdiv_int)
  moreover have "(int (length bs) + 2) div 3 \<le> (n + 2) div 3" using assms by (intro zdiv_mono1) simp_all
  ultimately show ?thesis using assms by (simp add: ValidateAndDecodeBase64XDR_def)
qed

end
