(* ===== verification/Sep10.thy ===== *)
theory Sep10
  imports Memo Tx_Limiter Base64 "HOL-Library.AList"
begin

text \<open>
  Web authentication (\<open>src/internal/services/sep10_service.go\<close>, \<open>nonce_store.go\<close>, \<open>seputil/domains.go\<close>,
  \<open>src/internal/data/sep_nonces.go\<close>, \<open>src/internal/serve/httphandler/sep10_handler.go\<close>): a client asks for a
  challenge, a transaction that holds a random nonce, signs it and gets a token for its account.

  The Stellar SDK (keys, transactions, their encoding and hash), \<open>url.Parse\<close>, the random source, the
  fetching of \<open>stellar.toml\<close>, Horizon and the JWT library are parameters of the model, collected in \<open>sep_env\<close>;
  \<open>se_Error\<close> is the text of an error.
\<close>

section \<open>The parameters\<close>

datatype sep_operation = ManageData (op_SourceAccount: string) (op_Name: string) (op_Value: string) | OtherOperation

text \<open>\<open>txnbuild.Transaction\<close> and \<open>txnbuild.TransactionParams\<close>, as far as the service uses them; the time bounds in seconds.\<close>

record challenge_tx =
  ct_SourceAccount :: string
  ct_Sequence :: int
  ct_MinTime :: int
  ct_MaxTime :: int
  ct_Operations :: "sep_operation list"
  ct_Memo :: "txnbuild_memo option"
  ct_Signatures :: "string list"

record challenge_params =
  cp_SourceAccount :: string
  cp_Sequence :: int
  cp_IncrementSequenceNum :: bool
  cp_Operations :: "sep_operation list"
  cp_MinTime :: int
  cp_MaxTime :: int
  cp_Memo :: "txnbuild_memo option"

record horizon_account =
  ha_MedThreshold :: int
  ha_Signers :: "(string \<times> int) list"

text \<open>The claims of a token as the JWT library encodes them: the registered claims, in seconds, and the service's own.\<close>

record jwt_claims =
  jc_Issuer :: string
  jc_Subject :: string
  jc_ID :: string
  jc_IssuedAt :: "int option"
  jc_ExpiresAt :: "int option"
  jc_ClientDomain :: string
  jc_HomeDomain :: string

record sep_env =
  se_Error :: "go_error \<Rightarrow> string"
  se_IsValidEd25519PublicKey :: "string \<Rightarrow> bool"
  se_AddressToAccountId :: "string \<Rightarrow> bool"
  se_ParseAddress :: "string \<Rightarrow> bool"
  se_Verify :: "string \<Rightarrow> string \<Rightarrow> string \<Rightarrow> bool"
  se_ParseFull :: "string \<Rightarrow> go_error + string"
  se_TransactionFromXDR :: "string \<Rightarrow> go_error + challenge_tx option"
  se_NewTransaction :: "challenge_params \<Rightarrow> go_error + challenge_tx"
  se_Sign :: "challenge_tx \<Rightarrow> string \<Rightarrow> string \<Rightarrow> go_error + challenge_tx"
  se_Base64 :: "challenge_tx \<Rightarrow> go_error + string"
  se_Hash :: "challenge_tx \<Rightarrow> string \<Rightarrow> go_error + string"
  se_HashHex :: "challenge_tx \<Rightarrow> string \<Rightarrow> go_error + string"
  se_url_Parse :: "string \<Rightarrow> (string \<times> string) option"
  se_rand_Read :: "nat \<Rightarrow> nat \<Rightarrow> go_error + string"
  se_GetStellarToml :: "nat \<Rightarrow> bool \<Rightarrow> string \<Rightarrow> go_error + string"
  se_AccountDetail :: "nat \<Rightarrow> string \<Rightarrow> go_error + horizon_account"
  se_range :: "nat \<Rightarrow> string \<Rightarrow> nat"
  se_SignedString :: "string \<Rightarrow> jwt_claims \<Rightarrow> go_error + string"
  se_RegisteredClaims_Valid :: "int \<Rightarrow> jwt_claims \<Rightarrow> go_error + unit"

section \<open>Nonces\<close>

text \<open>The table \<open>sep_nonces\<close>, whose key is the nonce, and the number of calls to the outside.\<close>

record sep_state = dbconn +
  sep_nonces :: "(string \<times> int) list"
  sep_calls :: nat

definition sep_call :: "(nat \<Rightarrow> 'a) \<Rightarrow> ('z sep_state_scheme, go_error, 'a) prog" where
  "sep_call f = (\<lambda>s. (Inr (f (sep_calls s)), s\<lparr>sep_calls := Suc (sep_calls s)\<rparr>))"

definition SEPNonceModel_Store :: "string \<Rightarrow> int \<Rightarrow> ('z sep_state_scheme, go_error, unit) prog" where
  "SEPNonceModel_Store nonce expiresAt = wrapE ''storing sep nonce'' (db_call (\<lambda>s.
     if nonce \<in> fst ` set (sep_nonces s) then (Inl (ConstraintViolation ''sep_nonces''), s)
     else (Inr (), s\<lparr>sep_nonces := sep_nonces s @ [(nonce, expiresAt)]\<rparr>)))"

definition SEPNonceModel_Consume :: "string \<Rightarrow> ('z sep_state_scheme, go_error, int option) prog" where
  "SEPNonceModel_Consume nonce = handleE (db_call (\<lambda>s.
     case filter (\<lambda>(n, t). n = nonce) (sep_nonces s) of
       [] \<Rightarrow> (Inl ErrNoRows, s)
     | (n, t) # _ \<Rightarrow> (Inr t, s\<lparr>sep_nonces := filter (\<lambda>(n, t). n \<noteq> nonce) (sep_nonces s)\<rparr>)))
     (\<lambda>e. if error_is e ErrNoRows then ret None else throw (Wrapf ''consuming sep nonce'' e))
     (\<lambda>expiresAt. ret (Some expiresAt))"

definition SEPNonceModel_DeleteExpired :: "('z sep_state_scheme, go_error, unit) prog" where
  "SEPNonceModel_DeleteExpired = wrapE ''deleting expired sep nonces'' (db_call (\<lambda>s.
     (Inr (), s\<lparr>sep_nonces := filter (\<lambda>(n, t). \<not> t \<le> conn_now s) (sep_nonces s)\<rparr>)))"

text \<open>The store keeps its time to live; durations are in nanoseconds.\<close>

definition NewNonceStore :: "int \<Rightarrow> go_error + int" where
  "NewNonceStore ttl = (if ttl \<le> 0 then Inl (Errorf ''ttl must be greater than zero'') else Inr ttl)"

definition nonceStore_Store :: "int \<Rightarrow> string \<Rightarrow> ('z sep_state_scheme, go_error, unit) prog" where
  "nonceStore_Store ttl nonce =
     (if nonce = [] then throw (Errorf ''nonce cannot be empty'')
      else bindE (getsE conn_now) (\<lambda>now. wrapE ''storing nonce'' (SEPNonceModel_Store nonce (now + ttl))))"

definition nonceStore_Consume :: "string \<Rightarrow> ('z sep_state_scheme, go_error, bool) prog" where
  "nonceStore_Consume nonce =
     (if nonce = [] then throw (Errorf ''nonce cannot be empty'')
      else bindE (wrapE ''consuming nonce'' (SEPNonceModel_Consume nonce)) (\<lambda>r.
        case r of None \<Rightarrow> ret False
        | Some expiresAt \<Rightarrow> bindE (getsE conn_now) (\<lambda>now. ret (\<not> now > expiresAt))))"

section \<open>Domains\<close>

definition has_suffix :: "string \<Rightarrow> string \<Rightarrow> bool" where
  "has_suffix suffix s = has_prefix (rev suffix) (rev s)"

definition GetBaseDomain :: "sep_env \<Rightarrow> string \<Rightarrow> string" where
  "GetBaseDomain env baseURL = (case se_url_Parse env baseURL of None \<Rightarrow> [] | Some (scheme, host) \<Rightarrow> host)"

text \<open>The tenant's base URL, when the request has a tenant with one.\<close>

definition GetWebAuthDomain :: "sep_env \<Rightarrow> string option \<Rightarrow> string \<Rightarrow> string" where
  "GetWebAuthDomain env tenantURL baseURL =
     (case tenantURL of
        Some u \<Rightarrow> (case se_url_Parse env u of Some (scheme, host) \<Rightarrow> host | None \<Rightarrow> GetBaseDomain env baseURL)
      | None \<Rightarrow> GetBaseDomain env baseURL)"

definition IsValidHomeDomain :: "sep_env \<Rightarrow> string \<Rightarrow> string \<Rightarrow> bool" where
  "IsValidHomeDomain env baseURL homeDomain =
     (let baseDomain = GetBaseDomain env baseURL in
      if baseDomain = [] \<or> homeDomain = [] then False
      else if ToLower homeDomain = ToLower baseDomain then True
      else has_suffix (''.'' @ ToLower baseDomain) (ToLower homeDomain))"

section \<open>Tokens\<close>

definition Sep10JWTClaims_Valid :: "sep_env \<Rightarrow> int \<Rightarrow> jwt_claims \<Rightarrow> go_error + unit" where
  "Sep10JWTClaims_Valid env now c =
     (if jc_Issuer c = [] then Inl (Errorf ''issuer is required'')
      else if jc_Subject c = [] then Inl (Errorf ''subject is required'')
      else if jc_ID c = [] then Inl (Errorf ''jti (JWT ID) is required'')
      else if jc_IssuedAt c = None then Inl (Errorf ''iat (issued at) is required'')
      else if jc_ExpiresAt c = None then Inl (Errorf ''exp (expires at) is required'')
      else (case se_RegisteredClaims_Valid env now c of
          Inl e \<Rightarrow> Inl (Wrapf ''validating registered claims'' e)
        | Inr _ \<Rightarrow>
            (if jc_ClientDomain c \<noteq> [] \<and> length (TrimSpace (jc_ClientDomain c)) = 0 then Inl (Errorf ''client_domain cannot be empty if provided'')
             else if jc_HomeDomain c \<noteq> [] \<and> length (TrimSpace (jc_HomeDomain c)) = 0 then Inl (Errorf ''home_domain cannot be empty if provided'')
             else Inr ())))"

definition signToken :: "sep_env \<Rightarrow> string \<Rightarrow> (jwt_claims \<Rightarrow> go_error + unit) \<Rightarrow> jwt_claims \<Rightarrow> go_error + string" where
  "signToken env secret Valid claims =
     (case Valid claims of
        Inl e \<Rightarrow> Inl (Wrapf ''validating token claims'' e)
      | Inr _ \<Rightarrow> (case se_SignedString env secret claims of Inl e \<Rightarrow> Inl (Wrapf ''signing token'' e) | Inr t \<Rightarrow> Inr t))"

definition GenerateSEP10Token ::
  "sep_env \<Rightarrow> string \<Rightarrow> int \<Rightarrow> string \<Rightarrow> string \<Rightarrow> string \<Rightarrow> string \<Rightarrow> string \<Rightarrow> int \<Rightarrow> int \<Rightarrow> go_error + string" where
  "GenerateSEP10Token env secret now issuer subject jti clientDomain homeDomain iat expires =
     (case signToken env secret (Sep10JWTClaims_Valid env now)
        \<lparr>jc_Issuer = issuer, jc_Subject = subject, jc_ID = jti, jc_IssuedAt = Some iat, jc_ExpiresAt = Some expires,
         jc_ClientDomain = clientDomain, jc_HomeDomain = homeDomain\<rparr> of
        Inl e \<Rightarrow> Inl (Wrapf ''generating SEP10 token'' e)
      | Inr t \<Rightarrow> Inr t)"

section \<open>Requests and answers\<close>

record ChallengeRequest =
  cr_Account :: string
  cr_Memo :: string
  cr_HomeDomain :: string
  cr_ClientDomain :: string

definition ChallengeRequest_Validate :: "sep_env \<Rightarrow> ChallengeRequest \<Rightarrow> go_error + unit" where
  "ChallengeRequest_Validate env req =
     (if cr_Account req = [] then Inl (Errorf ''account is required'')
      else if \<not> se_IsValidEd25519PublicKey env (cr_Account req) then Inl (Errorf ''invalid account not a valid ed25519 public key'')
      else if cr_Memo req \<noteq> [] then
        (case ParseMemo (cr_Memo req) of
           Inl e \<Rightarrow> Inl (Wrapf ''invalid memo'' e)
         | Inr (_, memoType) \<Rightarrow>
             if memoType \<noteq> MemoTypeID then Inl (Errorf ''invalid memo type - expected ID memo, got %s'') else Inr ())
      else Inr ())"

record ChallengeResponse =
  cs_Transaction :: string
  cs_NetworkPassphrase :: string

definition ValidationRequest_Validate :: "string \<Rightarrow> go_error + unit" where
  "ValidationRequest_Validate transaction = (if transaction = [] then Inl (Errorf ''transaction is required'') else Inr ())"

record ChallengeValidationResult =
  cv_Transaction :: challenge_tx
  cv_ClientAccountID :: string
  cv_HomeDomain :: string
  cv_Memo :: "64 word option"
  cv_ClientDomain :: string
  cv_Nonce :: string

definition DefaultSEP10AuthTimeout :: int where "DefaultSEP10AuthTimeout = 15 * time_Minute"
definition DefaultSEP10NonceExpiration :: int where "DefaultSEP10NonceExpiration = DefaultSEP10AuthTimeout"
definition TimeoutInfinite :: int where "TimeoutInfinite = 0"

text \<open>The service: the address of its signing key, the secret of the JWT manager, whether it has a Horizon client, and
  the time to live of its nonces.\<close>

record sep10Service =
  sp_SigningAddress :: string
  sp_JWTSecret :: string
  sp_HasHorizonClient :: bool
  sp_NetworkPassphrase :: string
  sp_BaseURL :: string
  sp_JWTExpiration :: int
  sp_AuthTimeout :: int
  sp_AllowHTTPRetry :: bool
  sp_ClientAttributionRequired :: bool
  sp_NonceTTL :: int

definition NewSEP10Service ::
  "sep_env \<Rightarrow> string \<Rightarrow> string \<Rightarrow> string \<Rightarrow> string \<Rightarrow> bool \<Rightarrow> bool \<Rightarrow> bool \<Rightarrow> int \<Rightarrow> go_error + sep10Service" where
  "NewSEP10Service env jwtSecret networkPassphrase sep10SigningPrivateKey baseURL allowHTTPRetry hasHorizonClient clientAttributionRequired nonceTTL =
     (case se_ParseFull env sep10SigningPrivateKey of
        Inl e \<Rightarrow> Inl (Wrapf ''parsing sep10 signing key'' e)
      | Inr kp \<Rightarrow> Inr \<lparr>sp_SigningAddress = kp, sp_JWTSecret = jwtSecret, sp_HasHorizonClient = hasHorizonClient,
          sp_NetworkPassphrase = networkPassphrase, sp_BaseURL = baseURL, sp_JWTExpiration = 120 * time_Minute,
          sp_AuthTimeout = DefaultSEP10AuthTimeout, sp_AllowHTTPRetry = allowHTTPRetry,
          sp_ClientAttributionRequired = clientAttributionRequired, sp_NonceTTL = nonceTTL\<rparr>)"

section \<open>Creating a challenge\<close>

definition fetchSigningKeyFromClientDomain :: "sep_env \<Rightarrow> sep10Service \<Rightarrow> string \<Rightarrow> ('z sep_state_scheme, go_error, string) prog" where
  "fetchSigningKeyFromClientDomain env sv clientDomain =
     bindE (sep_call (\<lambda>n. se_GetStellarToml env n False clientDomain)) (\<lambda>first.
     bindE (if isl first \<and> sp_AllowHTTPRetry sv then sep_call (\<lambda>n. se_GetStellarToml env n True clientDomain) else ret first) (\<lambda>r.
     case r of
       Inl e \<Rightarrow> throw (Wrapf ''unable to fetch stellar.toml from %s'' e)
     | Inr signingKey \<Rightarrow>
         if signingKey = [] then throw (Errorf ''SIGNING_KEY not present in client_domain stellar.toml'')
         else if \<not> se_ParseAddress env signingKey then throw (Errorf ''SIGNING_KEY %s is not a valid Stellar account ID'')
         else ret signingKey))"

definition generateRandomNonce :: "sep_env \<Rightarrow> nat \<Rightarrow> ('z sep_state_scheme, go_error, string) prog" where
  "generateRandomNonce env n = bindE (sep_call (\<lambda>k. se_rand_Read env k n)) (\<lambda>r. wrapE ''reading random bytes'' (liftE r))"

text \<open>The steps after the drawing of the nonce.\<close>

definition build_with_nonce ::
  "sep_env \<Rightarrow> sep10Service \<Rightarrow> string \<Rightarrow> string \<Rightarrow> string \<Rightarrow> string \<Rightarrow> string \<Rightarrow> 64 word option \<Rightarrow> string \<Rightarrow> ('z sep_state_scheme, go_error, challenge_tx) prog" where
  "build_with_nonce env sv clientAccountID webAuthDomain homeDomain clientDomain clientDomainAccountID memo randomNonceToString =
     (if length randomNonceToString \<noteq> 64 then throw (Errorf ''64 byte long random nonce required'')
      else if \<not> se_AddressToAccountId env clientAccountID then throw (Errorf ''%s is not a valid account id'')
      else if clientDomainAccountID \<noteq> [] \<and> \<not> se_ParseAddress env clientDomainAccountID
        then throw (Errorf ''invalid client domain account ID: %s is not a valid Stellar account ID'')
      else
      bindE (wrapE ''storing nonce'' (nonceStore_Store (sp_NonceTTL sv) randomNonceToString)) (\<lambda>_.
      bindE (getsE conn_now) (\<lambda>currentTime.
      bindE (wrapE ''creating new transaction'' (liftE (se_NewTransaction env
        \<lparr>cp_SourceAccount = sp_SigningAddress sv, cp_Sequence = -1, cp_IncrementSequenceNum = True,
         cp_Operations = [ManageData clientAccountID (homeDomain @ '' auth'') randomNonceToString,
             ManageData (sp_SigningAddress sv) ''web_auth_domain'' webAuthDomain] @
           (if clientDomainAccountID \<noteq> [] then [ManageData clientDomainAccountID ''client_domain'' clientDomain] else []),
         cp_MinTime = currentTime div time_Second, cp_MaxTime = (currentTime + sp_AuthTimeout sv) div time_Second,
         cp_Memo = map_option MemoID memo\<rparr>))) (\<lambda>tx.
      wrapE ''signing transaction'' (liftE (se_Sign env tx (sp_NetworkPassphrase sv) (sp_SigningAddress sv)))))))"

definition buildChallengeTx ::
  "sep_env \<Rightarrow> sep10Service \<Rightarrow> string \<Rightarrow> string \<Rightarrow> string \<Rightarrow> string \<Rightarrow> string \<Rightarrow> 64 word option \<Rightarrow> ('z sep_state_scheme, go_error, challenge_tx) prog" where
  "buildChallengeTx env sv clientAccountID webAuthDomain homeDomain clientDomain clientDomainAccountID memo =
     (if sp_AuthTimeout sv < time_Second then throw (Errorf ''provided timebound must be at least 1s (300s is recommended)'')
      else
      bindE (generateRandomNonce env 48) (\<lambda>randomNonce.
      build_with_nonce env sv clientAccountID webAuthDomain homeDomain clientDomain clientDomainAccountID memo (base64_EncodeToString randomNonce)))"

definition CreateChallenge ::
  "sep_env \<Rightarrow> sep10Service \<Rightarrow> string option \<Rightarrow> ChallengeRequest \<Rightarrow> ('z sep_state_scheme, go_error, ChallengeResponse) prog" where
  "CreateChallenge env sv tenantURL req =
     (let webAuthDomain = GetWebAuthDomain env tenantURL (sp_BaseURL sv);
          clientDomain = TrimSpace (cr_ClientDomain req);
          homeDomain = (if TrimSpace (cr_HomeDomain req) = [] then GetBaseDomain env (sp_BaseURL sv) else TrimSpace (cr_HomeDomain req)) in
      if sp_ClientAttributionRequired sv \<and> TrimSpace clientDomain = [] then throw (ChallengeValidationError ''client_domain is required'')
      else if homeDomain = [] then throw (ChallengeValidationError ''home_domain is required'')
      else if \<not> IsValidHomeDomain env (sp_BaseURL sv) homeDomain then throw (ChallengeValidationError ''invalid home_domain must match %s'')
      else if \<not> se_AddressToAccountId env (cr_Account req) then throw (ChallengeValidationError ''%s is not a valid account id'')
      else
      bindE (if clientDomain \<noteq> [] then wrapE ''fetching client domain signing key'' (fetchSigningKeyFromClientDomain env sv clientDomain) else ret [])
        (\<lambda>clientSigningKey.
      bindE (if cr_Memo req = [] then ret None
             else (case ParseMemo (cr_Memo req) of
                 Inl e \<Rightarrow> throw (ChallengeValidationError ''invalid memo: %s'')
               | Inr (memo, memoType) \<Rightarrow>
                   if memoType \<noteq> MemoTypeID then throw (ChallengeValidationError ''invalid memo type - expected ID memo, got %s'')
                   else ret (case memo of Some (MemoID i) \<Rightarrow> Some i | _ \<Rightarrow> None))) (\<lambda>memoParam.
      bindE (wrapE ''building challenge transaction''
        (buildChallengeTx env sv (cr_Account req) webAuthDomain homeDomain clientDomain clientSigningKey memoParam)) (\<lambda>tx.
      bindE (wrapE ''encoding transaction'' (liftE (se_Base64 env tx))) (\<lambda>txBase64.
      ret \<lparr>cs_Transaction = txBase64, cs_NetworkPassphrase = sp_NetworkPassphrase sv\<rparr>)))))"

section \<open>Validating a challenge\<close>

definition verifySignature :: "sep_env \<Rightarrow> challenge_tx \<Rightarrow> string \<Rightarrow> string \<Rightarrow> go_error + unit" where
  "verifySignature env tx network accountID =
     (case se_Hash env tx network of
        Inl e \<Rightarrow> Inl (Wrapf ''computing transaction hash'' e)
      | Inr hash \<Rightarrow>
          (if ct_Signatures tx = [] then Inl (Errorf ''transaction has no signatures'')
           else if \<not> se_ParseAddress env accountID then Inl (Wrapf ''parsing %s account'' (Errorf ''invalid address''))
           else if list_ex (se_Verify env accountID hash) (ct_Signatures tx) then Inr ()
           else Inl (Errorf ''transaction is not signed by %s account %s'')))"

definition verifyClientSignature :: "sep_env \<Rightarrow> challenge_tx \<Rightarrow> string \<Rightarrow> string \<Rightarrow> go_error + unit" where
  "verifyClientSignature env tx network clientAccountID = verifySignature env tx network clientAccountID"

text \<open>The operations after the first: the client domain found so far, and whether there was one.\<close>

fun check_operations :: "sep_env \<Rightarrow> string \<Rightarrow> string \<Rightarrow> sep_operation list \<Rightarrow> string \<times> bool \<Rightarrow> go_error + string \<times> bool" where
  "check_operations env serverAccountID webAuthDomain [] acc = Inr acc"
| "check_operations env serverAccountID webAuthDomain (OtherOperation # ops) acc = Inl (Errorf ''subsequent operation %d type should be manage_data'')"
| "check_operations env serverAccountID webAuthDomain (ManageData source name value # ops) acc =
     (if source = [] then Inl (Errorf ''subsequent operation %d should have a source account'')
      else if name = ''web_auth_domain'' then
        (if source \<noteq> serverAccountID then Inl (Errorf ''web auth domain operation must have server source account'')
         else if value \<noteq> webAuthDomain then Inl (Errorf ''web auth domain operation value is %q but expect %q'')
         else check_operations env serverAccountID webAuthDomain ops acc)
      else if name = ''client_domain'' then
        (if \<not> se_AddressToAccountId env source then Inl (Wrapf ''client_domain operation has invalid source account'' (Errorf ''invalid address''))
         else check_operations env serverAccountID webAuthDomain ops (value, True))
      else if source \<noteq> serverAccountID then Inl (Errorf ''unknown subsequent operation %q must have server account as source'')
      else check_operations env serverAccountID webAuthDomain ops acc)"

definition decode_nonce :: "string \<Rightarrow> go_error + unit" where
  "decode_nonce nonceB64 =
     (if length nonceB64 \<noteq> 64 then Inl (Errorf ''random nonce encoded as base64 should be 64 bytes long'')
      else (case base64_DecodeString nonceB64 of
          Inl e \<Rightarrow> Inl (Wrapf ''failed to decode random nonce provided in manage_data operation'' e)
        | Inr nonceBytes \<Rightarrow>
            if length nonceBytes \<noteq> 48 then Inl (Errorf ''random nonce before encoding as base64 should be 48 bytes long'') else Inr ()))"

definition check_challenge_tx ::
  "sep_env \<Rightarrow> sep10Service \<Rightarrow> int \<Rightarrow> challenge_tx \<Rightarrow> string \<Rightarrow> string \<Rightarrow> string \<Rightarrow> string list \<Rightarrow> go_error + ChallengeValidationResult" where
  "check_challenge_tx env sv currentTime tx serverAccountID network webAuthDomain homeDomains =
     (if ct_SourceAccount tx \<noteq> serverAccountID then Inl (Errorf ''transaction source account is not equal to server's account'')
      else if ct_Sequence tx \<noteq> 0 then Inl (Errorf ''transaction sequence number must be 0'')
      else if ct_MaxTime tx = TimeoutInfinite then Inl (Errorf ''transaction requires non-infinite timebounds'')
      else if currentTime + 5 * 60 < ct_MinTime tx \<or> currentTime > ct_MaxTime tx
        then Inl (Errorf ''transaction is not within range of the specified timebounds (currentTime=%d, MinTime=%d, MaxTime=%d)'')
      else (case ct_Operations tx of
          [] \<Rightarrow> Inl (Errorf ''transaction requires at least one manage_data operation'')
        | OtherOperation # _ \<Rightarrow> Inl (Errorf ''operation type should be manage_data'')
        | ManageData source name nonceB64 # ops \<Rightarrow>
            (if source = [] then Inl (Errorf ''operation should have a source account'')
             else (case List.find (\<lambda>homeDomain. name = homeDomain @ '' auth'') homeDomains of
                 None \<Rightarrow> Inl (Errorf ''operation key does not match any homeDomains passed (key=%q, homeDomains=%v)'')
               | Some matchedHomeDomain \<Rightarrow>
                   (if matchedHomeDomain = [] then Inl (Errorf ''operation key does not match any homeDomains passed (key=%q, homeDomains=%v)'')
                    else (case ct_Memo tx of
                        Some (MemoText m) \<Rightarrow> Inl (Errorf ''invalid memo, only ID memos are permitted'')
                      | Some (MemoHash h) \<Rightarrow> Inl (Errorf ''invalid memo, only ID memos are permitted'')
                      | Some (MemoReturn h) \<Rightarrow> Inl (Errorf ''invalid memo, only ID memos are permitted'')
                      | memo \<Rightarrow>
                          (case decode_nonce nonceB64 of
                             Inl e \<Rightarrow> Inl e
                           | Inr _ \<Rightarrow>
                               (case check_operations env serverAccountID webAuthDomain ops ([], False) of
                                  Inl e \<Rightarrow> Inl e
                                | Inr (clientDomain, foundClientDomain) \<Rightarrow>
                                    (if sp_ClientAttributionRequired sv \<and> \<not> foundClientDomain
                                       then Inl (Errorf ''client_domain manage_data operation is required'')
                                     else (case verifySignature env tx network serverAccountID of
                                         Inl e \<Rightarrow> Inl (Wrapf ''verifying server signature'' e)
                                       | Inr _ \<Rightarrow> Inr \<lparr>cv_Transaction = tx, cv_ClientAccountID = source, cv_HomeDomain = matchedHomeDomain,
                                           cv_Memo = (case memo of Some (MemoID i) \<Rightarrow> Some i | _ \<Rightarrow> None),
                                           cv_ClientDomain = clientDomain, cv_Nonce = nonceB64\<rparr>))))))))))"

definition validateChallengeCustom ::
  "sep_env \<Rightarrow> sep10Service \<Rightarrow> int \<Rightarrow> string \<Rightarrow> string \<Rightarrow> string \<Rightarrow> string \<Rightarrow> string list \<Rightarrow> go_error + ChallengeValidationResult" where
  "validateChallengeCustom env sv currentTime challengeTx serverAccountID network webAuthDomain homeDomains =
     (case ValidateAndDecodeBase64XDR challengeTx DefaultMaxXDRDecodedSize of
        Inl e \<Rightarrow> Inl (Wrapf ''invalid challenge transaction'' e)
      | Inr _ \<Rightarrow> (case se_TransactionFromXDR env challengeTx of
            Inl e \<Rightarrow> Inl (Wrapf ''could not parse challenge'' e)
          | Inr None \<Rightarrow> Inl (Errorf ''challenge cannot be a fee bump transaction'')
          | Inr (Some tx) \<Rightarrow> check_challenge_tx env sv currentTime tx serverAccountID network webAuthDomain homeDomains))"

section \<open>The signers of the client's account\<close>

text \<open>A map from the key to the weight, in which the last entry of a key counts. Go ranges over it in any order,
  each time another one: the order is that of a rank.\<close>

definition signer_weights :: "horizon_account \<Rightarrow> (string \<times> int) list" where
  "signer_weights account = foldl (\<lambda>m (k, w). AList.update k w m) [] (ha_Signers account)"

fun verify_threshold_loop ::
  "sep_env \<Rightarrow> (string \<times> int) list \<Rightarrow> string \<Rightarrow> nat \<Rightarrow> string list \<Rightarrow> string list \<times> int \<Rightarrow> string list \<times> int" where
  "verify_threshold_loop env signerWeights hash n [] acc = acc"
| "verify_threshold_loop env signerWeights hash n (sig # sigs) (usedSigners, totalWeight) =
     verify_threshold_loop env signerWeights hash (Suc n) sigs
       (case List.find (\<lambda>(signer, weight). signer \<notin> set usedSigners \<and> se_ParseAddress env signer \<and> se_Verify env signer hash sig)
          (sort_key (\<lambda>(signer, weight). se_range env n signer) signerWeights) of
          None \<Rightarrow> (usedSigners, totalWeight)
        | Some (signer, weight) \<Rightarrow> (signer # usedSigners, totalWeight + weight))"

definition verifyThreshold :: "sep_env \<Rightarrow> sep10Service \<Rightarrow> nat \<Rightarrow> challenge_tx \<Rightarrow> horizon_account \<Rightarrow> int \<Rightarrow> go_error + unit" where
  "verifyThreshold env sv n tx account threshold =
     (case se_Hash env tx (sp_NetworkPassphrase sv) of
        Inl e \<Rightarrow> Inl (Wrapf ''computing transaction hash'' e)
      | Inr hash \<Rightarrow>
          (case verify_threshold_loop env (signer_weights account) hash n (ct_Signatures tx) ([], 0) of
             (usedSigners, totalWeight) \<Rightarrow>
               if totalWeight < threshold then Inl (Errorf ''signatures do not meet threshold: got %d, need %d'') else Inr ()))"

definition verify_client_domain :: "sep_env \<Rightarrow> sep10Service \<Rightarrow> challenge_tx \<Rightarrow> string \<Rightarrow> string \<Rightarrow> ('z sep_state_scheme, go_error, unit) prog" where
  "verify_client_domain env sv tx clientDomain msg =
     (if clientDomain = [] then ret ()
      else
      bindE (wrapE ''fetching client domain signing key'' (fetchSigningKeyFromClientDomain env sv clientDomain)) (\<lambda>clientDomainAccountID.
      wrapE msg (liftE (verifyClientSignature env tx (sp_NetworkPassphrase sv) clientDomainAccountID))))"

definition verifySignaturesWithThreshold ::
  "sep_env \<Rightarrow> sep10Service \<Rightarrow> challenge_tx \<Rightarrow> string \<Rightarrow> horizon_account \<Rightarrow> ('z sep_state_scheme, go_error, unit) prog" where
  "verifySignaturesWithThreshold env sv tx clientDomain account =
     bindE (verify_client_domain env sv tx clientDomain ''verifying client domain signature'') (\<lambda>_.
     bindE (sep_call (\<lambda>n. verifyThreshold env sv n tx account (ha_MedThreshold account))) (\<lambda>r.
     wrapE ''verifying signature threshold'' (liftE r)))"

definition verifySignaturesForNonExistentAccount ::
  "sep_env \<Rightarrow> sep10Service \<Rightarrow> challenge_tx \<Rightarrow> string \<Rightarrow> string \<Rightarrow> ('z sep_state_scheme, go_error, unit) prog" where
  "verifySignaturesForNonExistentAccount env sv tx clientAccountID clientDomain =
     (if length (ct_Signatures tx) \<noteq> (if clientDomain \<noteq> [] then 3 else 2)
      then throw (Errorf ''there is more than one client signer on challenge transaction for an account that doesn't exist: expected %d signatures, got %d'')
      else
      bindE (wrapE ''verifying client signature for non-existent account''
        (liftE (verifyClientSignature env tx (sp_NetworkPassphrase sv) clientAccountID))) (\<lambda>_.
      verify_client_domain env sv tx clientDomain ''verifying client domain signature for non-existent account''))"

section \<open>The token\<close>

definition generateToken ::
  "sep_env \<Rightarrow> sep10Service \<Rightarrow> challenge_tx \<Rightarrow> string \<Rightarrow> string \<Rightarrow> 64 word option \<Rightarrow> string \<Rightarrow> ('z sep_state_scheme, go_error, string) prog" where
  "generateToken env sv tx clientAccountID matchedHomeDomain memo clientDomain =
     (let subject = (case memo of None \<Rightarrow> clientAccountID | Some i \<Rightarrow> clientAccountID @ '':'' @ nat_text (unat i)) in
      bindE (wrapE ''getting transaction hash'' (liftE (se_HashHex env tx (sp_NetworkPassphrase sv)))) (\<lambda>jti.
      let iat = ct_MinTime tx;
          protocol = (case se_url_Parse env (sp_BaseURL sv) of
              Some (scheme, host) \<Rightarrow> if scheme \<noteq> [] then scheme else ''http'' | None \<Rightarrow> ''http'') in
      bindE (getsE conn_now) (\<lambda>now.
      wrapE ''generating SEP10 JWT'' (liftE (GenerateSEP10Token env (sp_JWTSecret sv) now
        (protocol @ ''://'' @ matchedHomeDomain @ ''/auth'') subject jti clientDomain matchedHomeDomain
        iat (iat + sp_JWTExpiration sv div time_Second))))))"

definition fetchAccountFromHorizon :: "sep_env \<Rightarrow> sep10Service \<Rightarrow> string \<Rightarrow> ('z sep_state_scheme, go_error, horizon_account) prog" where
  "fetchAccountFromHorizon env sv accountID =
     (if \<not> sp_HasHorizonClient sv then throw (Errorf ''horizon client is not configured'')
      else bindE (sep_call (\<lambda>n. se_AccountDetail env n accountID)) (\<lambda>r. wrapE ''loading account %s from horizon'' (liftE r)))"

definition getAllowedHomeDomains :: "sep_env \<Rightarrow> sep10Service \<Rightarrow> string option \<Rightarrow> string list" where
  "getAllowedHomeDomains env sv tenantURL =
     (let baseDomain = GetBaseDomain env (sp_BaseURL sv) in
      if baseDomain = [] then []
      else baseDomain # (case tenantURL of
          None \<Rightarrow> []
        | Some u \<Rightarrow> (case se_url_Parse env u of Some (scheme, host) \<Rightarrow> if host \<noteq> [] then [host] else [] | None \<Rightarrow> [])))"

definition account_missing :: "go_error \<Rightarrow> bool" where
  "account_missing err = (error_as (\<lambda>e. case e of HorizonClientError p r \<Rightarrow> if prob_status p = 404 then Some () else None | _ \<Rightarrow> None) err \<noteq> None)"

definition consume_and_generate ::
  "sep_env \<Rightarrow> sep10Service \<Rightarrow> ChallengeValidationResult \<Rightarrow> ('z sep_state_scheme, go_error, string) prog" where
  "consume_and_generate env sv result =
     bindE (wrapE ''consuming nonce'' (nonceStore_Consume (cv_Nonce result))) (\<lambda>validNonce.
     if \<not> validNonce then throw (Errorf ''nonce is invalid or expired'')
     else generateToken env sv (cv_Transaction result) (cv_ClientAccountID result) (cv_HomeDomain result) (cv_Memo result) (cv_ClientDomain result))"

definition ValidateChallenge :: "sep_env \<Rightarrow> sep10Service \<Rightarrow> string option \<Rightarrow> string \<Rightarrow> ('z sep_state_scheme, go_error, string) prog" where
  "ValidateChallenge env sv tenantURL transaction =
     bindE (getsE conn_now) (\<lambda>now.
     bindE (wrapE ''reading challenge transaction'' (liftE (validateChallengeCustom env sv (now div time_Second) transaction
       (sp_SigningAddress sv) (sp_NetworkPassphrase sv) (GetWebAuthDomain env tenantURL (sp_BaseURL sv)) (getAllowedHomeDomains env sv tenantURL))))
       (\<lambda>result.
     handleE (fetchAccountFromHorizon env sv (cv_ClientAccountID result))
       (\<lambda>err. if account_missing err
          then bindE (verifySignaturesForNonExistentAccount env sv (cv_Transaction result) (cv_ClientAccountID result) (cv_ClientDomain result)) (\<lambda>_.
               consume_and_generate env sv result)
          else throw (Wrapf ''fetching account from horizon'' err))
       (\<lambda>account.
          bindE (verifySignaturesWithThreshold env sv (cv_Transaction result) (cv_ClientDomain result) account) (\<lambda>_.
          consume_and_generate env sv result))))"

section \<open>The handler\<close>

definition GetChallenge :: "sep_env \<Rightarrow> sep10Service \<Rightarrow> string option \<Rightarrow> ChallengeRequest \<Rightarrow> ('z sep_state_scheme, go_error, ChallengeResponse) prog" where
  "GetChallenge env sv tenantURL req =
     (case ChallengeRequest_Validate env req of
        Inl e \<Rightarrow> throw (HTTPError 400 (se_Error env e) None)
      | Inr _ \<Rightarrow> handleE (CreateChallenge env sv tenantURL req)
          (\<lambda>err. if error_as (\<lambda>e. case e of ChallengeValidationError m \<Rightarrow> Some () | _ \<Rightarrow> None) err \<noteq> None
             then throw (HTTPError 400 (se_Error env err) (Some err))
             else throw (HTTPError 500 ''Failed to create challenge'' (Some err))) ret)"

datatype auth_body = FormBody "go_error + string" | JSONBody "go_error + string" | UnsupportedBody

definition PostChallenge :: "sep_env \<Rightarrow> sep10Service \<Rightarrow> string option \<Rightarrow> auth_body \<Rightarrow> ('z sep_state_scheme, go_error, string) prog" where
  "PostChallenge env sv tenantURL body =
     bindE (case body of
         FormBody (Inl e) \<Rightarrow> throw (HTTPError 400 ''invalid form data'' (Some e))
       | FormBody (Inr transaction) \<Rightarrow> ret transaction
       | JSONBody (Inl e) \<Rightarrow> throw (HTTPError 400 ''invalid request body'' (Some e))
       | JSONBody (Inr transaction) \<Rightarrow> ret transaction
       | UnsupportedBody \<Rightarrow> throw (HTTPError 400 ''unsupported content type. Expected application/x-www-form-urlencoded or application/json'' None))
     (\<lambda>transaction.
     case ValidationRequest_Validate transaction of
       Inl e \<Rightarrow> throw (HTTPError 400 (se_Error env e) None)
     | Inr _ \<Rightarrow> handleE (ValidateChallenge env sv tenantURL transaction)
         (\<lambda>err. throw (HTTPError 400 ''challenge validation failed'' (Some err))) ret)"

end
