(* ===== verification/Sep10_Props.thy ===== *)
theory Sep10_Props
  imports Sep10
begin

text \<open>
  What a token proves: the challenge was the server's, its nonce was fresh, and enough signers of the account signed it.
\<close>

section \<open>What was signed\<close>

definition signed_by :: "sep_env \<Rightarrow> challenge_tx \<Rightarrow> string \<Rightarrow> string \<Rightarrow> bool" where
  "signed_by env tx network key \<longleftrightarrow> se_ParseAddress env key \<and>
     (\<exists>hash. se_Hash env tx network = Inr hash \<and> list_ex (se_Verify env key hash) (ct_Signatures tx))"

definition signer_weight :: "horizon_account \<Rightarrow> string \<Rightarrow> int" where
  "signer_weight account key = (case map_of (signer_weights account) key of Some w \<Rightarrow> w | None \<Rightarrow> 0)"

definition threshold_met :: "sep_env \<Rightarrow> string \<Rightarrow> challenge_tx \<Rightarrow> horizon_account \<Rightarrow> bool" where
  "threshold_met env network tx account \<longleftrightarrow>
     (\<exists>keys. distinct keys \<and> list_all (\<lambda>k. k \<in> fst ` set (signer_weights account) \<and> signed_by env tx network k) keys \<and>
        ha_MedThreshold account \<le> sum_list (map (signer_weight account) keys))"

lemma verifySignature_signed: "verifySignature env tx network key = Inr () \<Longrightarrow> signed_by env tx network key"
  by (auto simp: verifySignature_def signed_by_def split: sum.splits if_splits)

lemma signer_weights_distinct: "distinct (map fst (signer_weights account))"
proof -
  have "distinct (map fst (foldl (\<lambda>m (k, w). AList.update k w m) acc ss))" if "distinct (map fst acc)" for acc and ss :: "(string \<times> int) list"
    using that by (induction ss arbitrary: acc) (auto simp: distinct_update)
  then show ?thesis by (simp add: signer_weights_def)
qed

lemma found_in: "List.find P xs = Some x \<Longrightarrow> x \<in> set xs \<and> P x"
  by (induction xs) (auto split: if_splits)

lemma threshold_loop:
  assumes "verify_threshold_loop env ws hash n sigs (used, amount) = (used', amount')" and "distinct (map fst ws)"
    and "distinct used" "list_all (\<lambda>k. k \<in> fst ` set ws \<and> se_ParseAddress env k \<and> list_ex (se_Verify env k hash) all) used"
    and "amount = sum_list (map (\<lambda>k. case map_of ws k of Some w \<Rightarrow> w | None \<Rightarrow> 0) used)" and "set sigs \<subseteq> set all"
  shows "distinct used' \<and> list_all (\<lambda>k. k \<in> fst ` set ws \<and> se_ParseAddress env k \<and> list_ex (se_Verify env k hash) all) used' \<and>
    amount' = sum_list (map (\<lambda>k. case map_of ws k of Some w \<Rightarrow> w | None \<Rightarrow> 0) used')"
  using assms
proof (induction sigs arbitrary: n used amount)
  case (Cons sig sigs)
  let ?found = "List.find (\<lambda>(signer, weight). signer \<notin> set used \<and> se_ParseAddress env signer \<and> se_Verify env signer hash sig)
     (sort_key (\<lambda>(signer, weight). se_range env n signer) ws)"
  show ?case
  proof (cases ?found)
    case None
    with Cons.prems Cons.IH [of "Suc n" used amount] show ?thesis by simp
  next
    case (Some kw)
    then obtain k w where kw: "kw = (k, w)" by fastforce
    with found_in [OF Some] have k: "(k, w) \<in> set ws" "k \<notin> set used" "se_ParseAddress env k" "se_Verify env k hash sig"
      by simp_all
    then have "map_of ws k = Some w" using Cons.prems(2) by simp
    moreover have "k \<in> fst ` set ws" using k(1) by force
    moreover have "list_ex (se_Verify env k hash) all" using k(4) Cons.prems(6) by (auto simp: list_ex_iff)
    moreover from Cons.prems(1) Some kw have "verify_threshold_loop env ws hash (Suc n) sigs (k # used, amount + w) = (used', amount')" by simp
    ultimately show ?thesis
      using Cons.prems(2-6) k(2,3) by (intro Cons.IH [of "Suc n" "k # used" "amount + w"]) simp_all
  qed
qed simp

lemma verifyThreshold_met:
  assumes "verifyThreshold env sv n tx account threshold = Inr ()"
  shows "threshold = ha_MedThreshold account \<Longrightarrow> threshold_met env (sp_NetworkPassphrase sv) tx account"
proof -
  assume th: "threshold = ha_MedThreshold account"
  from assms obtain hash used amount where hash: "se_Hash env tx (sp_NetworkPassphrase sv) = Inr hash"
    and loop: "verify_threshold_loop env (signer_weights account) hash n (ct_Signatures tx) ([], 0) = (used, amount)" and "threshold \<le> amount"
    by (auto simp: verifyThreshold_def split: sum.splits prod.splits if_splits)
  from threshold_loop [OF loop signer_weights_distinct, of "ct_Signatures tx"] hash \<open>threshold \<le> amount\<close> th
  show ?thesis
    unfolding threshold_met_def signed_by_def signer_weight_def by (intro exI [of _ used]) (auto simp: list_all_iff)
qed


section \<open>What a token proves\<close>

definition fresh_nonce :: "string \<Rightarrow> 'z sep_state_scheme \<Rightarrow> 'z sep_state_scheme \<Rightarrow> bool" where
  "fresh_nonce nonce s s' \<longleftrightarrow> (\<exists>t. (nonce, t) \<in> set (sep_nonces s) \<and> conn_now s \<le> t) \<and>
     sep_nonces s' = filter (\<lambda>(n, t). n \<noteq> nonce) (sep_nonces s)"

definition same_nonces :: "'z sep_state_scheme \<Rightarrow> 'z sep_state_scheme \<Rightarrow> bool" where
  "same_nonces s s' \<longleftrightarrow> sep_nonces s' = sep_nonces s \<and> conn_now s' = conn_now s \<and> sep_calls s \<le> sep_calls s'"

interpretation same_nonces: state_preorder same_nonces
  by unfold_locales (auto simp: same_nonces_def)

lemma same_nonces_calls [keeps_intros]: "keeps same_nonces (sep_call f)" "keeps same_nonces (liftE x)"
  by (simp_all add: keeps_def sep_call_def liftE_def throw_def ret_def same_nonces_def split: sum.split)

lemma same_nonces_steps [keeps_intros]:
  "keeps same_nonces (fetchSigningKeyFromClientDomain env sv d)" "keeps same_nonces (fetchAccountFromHorizon env sv a)"
  "keeps same_nonces (verify_client_domain env sv tx d msg)" "keeps same_nonces (generateToken env sv tx a h memo d)"
  "keeps same_nonces (generateRandomNonce env k)"
  unfolding fetchSigningKeyFromClientDomain_def fetchAccountFromHorizon_def verify_client_domain_def generateToken_def generateRandomNonce_def
  by (intro keeps_intros)+

lemma same_nonces_verify [keeps_intros]:
  "keeps same_nonces (verifySignaturesWithThreshold env sv tx d account)" "keeps same_nonces (verifySignaturesForNonExistentAccount env sv tx a d)"
  unfolding verifySignaturesWithThreshold_def verifySignaturesForNonExistentAccount_def by (intro keeps_intros)+

lemma sep_call_ok [prog_ok]: "sep_call f s = (Inr x, s') \<longleftrightarrow> x = f (sep_calls s) \<and> s' = s\<lparr>sep_calls := Suc (sep_calls s)\<rparr>"
  by (auto simp: sep_call_def)

lemma Consume_ok:
  assumes "nonceStore_Consume nonce s = (Inr True, s')"
  shows "fresh_nonce nonce s s'" and "conn_now s' = conn_now s" and "sep_calls s' = sep_calls s"
proof -
  from assms obtain t s1 where consume: "SEPNonceModel_Consume nonce s = (Inr (Some t), s1)" and s': "s' = s1" "\<not> conn_now s1 > t"
    by (auto simp: nonceStore_Consume_def prog_ok split: if_splits option.splits)
  from consume obtain r s2 where run: "db_call (\<lambda>s. case filter (\<lambda>(n, t). n = nonce) (sep_nonces s) of
       [] \<Rightarrow> (Inl ErrNoRows, s)
     | (n, t) # _ \<Rightarrow> (Inr t, s\<lparr>sep_nonces := filter (\<lambda>(n, t). n \<noteq> nonce) (sep_nonces s)\<rparr>)) s = (Inr t, s1)"
    unfolding SEPNonceModel_Consume_def by (elim handleE_cases) (auto simp: throw_def ret_def split: if_splits)
  then obtain fs n rest where "filter (\<lambda>(n, t). n = nonce) (sep_nonces s) = (n, t) # rest"
    and s1: "s1 = s\<lparr>conn_faults := fs, sep_nonces := filter (\<lambda>(n, t). n \<noteq> nonce) (sep_nonces s)\<rparr>"
    by (elim db_call_cases) (auto split: list.splits prod.splits)
  then have "(nonce, t) \<in> set (sep_nonces s)" by (auto simp: filter_eq_Cons_iff)
  with s1 s' show "fresh_nonce nonce s s'" "conn_now s' = conn_now s" "sep_calls s' = sep_calls s" by (auto simp: fresh_nonce_def)
qed

definition challenge_accepted :: "sep_env \<Rightarrow> sep10Service \<Rightarrow> string option \<Rightarrow> int \<Rightarrow> challenge_tx \<Rightarrow> ChallengeValidationResult \<Rightarrow> bool" where
  "challenge_accepted env sv tenantURL now tx result \<longleftrightarrow>
     ct_SourceAccount tx = sp_SigningAddress sv \<and> signed_by env tx (sp_NetworkPassphrase sv) (sp_SigningAddress sv) \<and>
     ct_MinTime tx \<le> now + 300 \<and> now \<le> ct_MaxTime tx \<and> ct_MaxTime tx \<noteq> 0 \<and>
     cv_HomeDomain result \<in> set (getAllowedHomeDomains env sv tenantURL) \<and>
     (\<exists>ops. ct_Operations tx = ManageData (cv_ClientAccountID result) (cv_HomeDomain result @ '' auth'') (cv_Nonce result) # ops) \<and>
     cv_Transaction result = tx \<and> (sp_ClientAttributionRequired sv \<longrightarrow> list_ex (\<lambda>op. op \<noteq> OtherOperation \<and> op_Name op = ''client_domain'') (tl (ct_Operations tx)))"

lemma check_operations_found:
  "check_operations env server web ops (d, f) = Inr (d', True) \<Longrightarrow> f \<or> list_ex (\<lambda>op. op \<noteq> OtherOperation \<and> op_Name op = ''client_domain'') ops"
  by (induction env server web ops "(d, f)" arbitrary: d f rule: check_operations.induct) (auto split: if_splits)

lemma check_challenge_accepted:
  assumes "check_challenge_tx env sv now tx (sp_SigningAddress sv) (sp_NetworkPassphrase sv) web (getAllowedHomeDomains env sv tenantURL) = Inr result"
  shows "challenge_accepted env sv tenantURL now tx result"
  using assms
  by (auto simp: check_challenge_tx_def challenge_accepted_def TimeoutInfinite_def find_Some_iff
      split: if_splits list.splits sep_operation.splits option.splits txnbuild_memo.splits sum.splits prod.splits
      intro: verifySignature_signed dest: check_operations_found)


definition domain_proved :: "sep_env \<Rightarrow> sep10Service \<Rightarrow> challenge_tx \<Rightarrow> string \<Rightarrow> bool" where
  "domain_proved env sv tx domain \<longleftrightarrow> domain = [] \<or>
     (\<exists>n b key. se_GetStellarToml env n b domain = Inr key \<and> signed_by env tx (sp_NetworkPassphrase sv) key)"

definition client_proved :: "sep_env \<Rightarrow> sep10Service \<Rightarrow> challenge_tx \<Rightarrow> string \<Rightarrow> string \<Rightarrow> bool" where
  "client_proved env sv tx client domain \<longleftrightarrow>
     (\<exists>n e. se_AccountDetail env n client = Inl e \<and> account_missing e \<and> signed_by env tx (sp_NetworkPassphrase sv) client \<and>
        length (ct_Signatures tx) = (if domain \<noteq> [] then 3 else 2)) \<or>
     (\<exists>n account. se_AccountDetail env n client = Inr account \<and> threshold_met env (sp_NetworkPassphrase sv) tx account)"

definition token_for :: "sep_env \<Rightarrow> sep10Service \<Rightarrow> ChallengeValidationResult \<Rightarrow> string \<Rightarrow> bool" where
  "token_for env sv result token \<longleftrightarrow> (\<exists>c. se_SignedString env (sp_JWTSecret sv) c = Inr token \<and>
     jc_Subject c = (case cv_Memo result of None \<Rightarrow> cv_ClientAccountID result | Some i \<Rightarrow> cv_ClientAccountID result @ '':'' @ nat_text (unat i)) \<and>
     se_HashHex env (cv_Transaction result) (sp_NetworkPassphrase sv) = Inr (jc_ID c) \<and> jc_HomeDomain c = cv_HomeDomain result \<and>
     jc_ClientDomain c = cv_ClientDomain result \<and> jc_ExpiresAt c = Some (ct_MinTime (cv_Transaction result) + sp_JWTExpiration sv div time_Second))"

lemma fetch_key_ok:
  assumes "fetchSigningKeyFromClientDomain env sv d s = (Inr key, s')"
  shows "\<exists>n b. se_GetStellarToml env n b d = Inr key"
  using assms by (auto simp: fetchSigningKeyFromClientDomain_def prog_ok split: if_splits sum.splits)

lemma verify_client_domain_ok:
  assumes "verify_client_domain env sv tx d msg s = (Inr (), s')"
  shows "domain_proved env sv tx d"
  using assms
  by (auto simp: verify_client_domain_def domain_proved_def prog_ok verifyClientSignature_def split: if_splits
      dest!: fetch_key_ok intro: verifySignature_signed)

lemma generateToken_ok:
  assumes "generateToken env sv (cv_Transaction result) (cv_ClientAccountID result) (cv_HomeDomain result) (cv_Memo result) (cv_ClientDomain result) s = (Inr token, s')"
  shows "token_for env sv result token"
  using assms
  by (auto simp: generateToken_def token_for_def prog_ok Let_def GenerateSEP10Token_def signToken_def split: sum.splits option.splits)

lemma account_missing_wrapped: "account_missing (Wrapf m e) = account_missing e"
  by (simp add: account_missing_def)

lemma consume_ok:
  assumes "consume_and_generate env sv result s = (Inr token, s')"
  shows "fresh_nonce (cv_Nonce result) s s'" and "token_for env sv result token" and "conn_now s' = conn_now s"
proof -
  from assms obtain s1 where c: "nonceStore_Consume (cv_Nonce result) s = (Inr True, s1)"
    and g: "generateToken env sv (cv_Transaction result) (cv_ClientAccountID result) (cv_HomeDomain result) (cv_Memo result) (cv_ClientDomain result) s1 = (Inr token, s')"
    by (auto simp: consume_and_generate_def prog_ok split: if_splits)
  from keepsD [OF same_nonces_steps(4) g] Consume_ok [OF c] show "fresh_nonce (cv_Nonce result) s s'" "conn_now s' = conn_now s"
    by (auto simp: fresh_nonce_def same_nonces_def)
  from g show "token_for env sv result token" by (rule generateToken_ok)
qed

lemma token_outcome:
  assumes "ValidateChallenge env sv tenantURL transaction s = (Inr token, s')"
  shows "\<exists>tx result. se_TransactionFromXDR env transaction = Inr (Some tx) \<and>
    challenge_accepted env sv tenantURL (conn_now s div time_Second) tx result \<and> fresh_nonce (cv_Nonce result) s s' \<and>
    client_proved env sv tx (cv_ClientAccountID result) (cv_ClientDomain result) \<and> domain_proved env sv tx (cv_ClientDomain result) \<and>
    token_for env sv result token"
proof -
  from assms obtain result where valid: "validateChallengeCustom env sv (conn_now s div time_Second) transaction
      (sp_SigningAddress sv) (sp_NetworkPassphrase sv) (GetWebAuthDomain env tenantURL (sp_BaseURL sv)) (getAllowedHomeDomains env sv tenantURL) = Inr result"
    and rest: "handleE (fetchAccountFromHorizon env sv (cv_ClientAccountID result))
       (\<lambda>err. if account_missing err
          then bindE (verifySignaturesForNonExistentAccount env sv (cv_Transaction result) (cv_ClientAccountID result) (cv_ClientDomain result)) (\<lambda>_.
               consume_and_generate env sv result)
          else throw (Wrapf ''fetching account from horizon'' err))
       (\<lambda>account.
          bindE (verifySignaturesWithThreshold env sv (cv_Transaction result) (cv_ClientDomain result) account) (\<lambda>_.
          consume_and_generate env sv result)) s = (Inr token, s')"
    by (auto simp: ValidateChallenge_def prog_ok)
  from valid obtain tx where tx: "se_TransactionFromXDR env transaction = Inr (Some tx)"
    and acc: "challenge_accepted env sv tenantURL (conn_now s div time_Second) tx result"
    unfolding validateChallengeCustom_def by (auto split: sum.splits option.splits dest: check_challenge_accepted)
  then have same: "cv_Transaction result = tx" by (simp add: challenge_accepted_def)
  from rest have "fresh_nonce (cv_Nonce result) s s' \<and> token_for env sv result token \<and>
    client_proved env sv tx (cv_ClientAccountID result) (cv_ClientDomain result) \<and> domain_proved env sv tx (cv_ClientDomain result)"
  proof (cases rule: handleE_cases)
    case (err e s1)
    from err(2) obtain s2 where missing: "account_missing e"
      and ver: "verifySignaturesForNonExistentAccount env sv tx (cv_ClientAccountID result) (cv_ClientDomain result) s1 = (Inr (), s2)"
      and fin: "consume_and_generate env sv result s2 = (Inr token, s')"
      by (auto simp: prog_ok same split: if_splits)
    from err(1) missing obtain n e' where "se_AccountDetail env n (cv_ClientAccountID result) = Inl e'" "account_missing e'"
      by (auto simp: fetchAccountFromHorizon_def bindE_def sep_call_def wrapE_def handleE_def liftE_def throw_def ret_def account_missing_def
          split: if_splits sum.splits)
    with ver have "client_proved env sv tx (cv_ClientAccountID result) (cv_ClientDomain result)" "domain_proved env sv tx (cv_ClientDomain result)"
      by (auto simp: verifySignaturesForNonExistentAccount_def prog_ok client_proved_def verifyClientSignature_def split: if_splits
          intro: verifySignature_signed verify_client_domain_ok)
    with consume_ok [OF fin] keepsD [OF same_nonces_steps(2) err(1)] keepsD [OF same_nonces_verify(2) ver] show ?thesis
      by (simp add: fresh_nonce_def same_nonces_def)
  next
    case (ok account s1)
    from ok(2) obtain s2 where ver: "verifySignaturesWithThreshold env sv tx (cv_ClientDomain result) account s1 = (Inr (), s2)"
      and fin: "consume_and_generate env sv result s2 = (Inr token, s')"
      by (auto simp: prog_ok same)
    from ok(1) obtain n where n: "se_AccountDetail env n (cv_ClientAccountID result) = Inr account"
      by (auto simp: fetchAccountFromHorizon_def prog_ok split: if_splits)
    from ver have "threshold_met env (sp_NetworkPassphrase sv) tx account" and domain: "domain_proved env sv tx (cv_ClientDomain result)"
      by (auto simp: verifySignaturesWithThreshold_def prog_ok intro: verifyThreshold_met [OF _ refl] verify_client_domain_ok)
    with n have "client_proved env sv tx (cv_ClientAccountID result) (cv_ClientDomain result)" unfolding client_proved_def by blast
    with domain consume_ok [OF fin] keepsD [OF same_nonces_steps(2) ok(1)] keepsD [OF same_nonces_verify(1) ver] show ?thesis
      by (simp add: fresh_nonce_def same_nonces_def)
  qed
  with tx acc show ?thesis by blast
qed

section \<open>Each challenge authenticates once\<close>

definition challenge_nonce :: "sep_env \<Rightarrow> string \<Rightarrow> string option" where
  "challenge_nonce env transaction =
     (case se_TransactionFromXDR env transaction of
        Inr (Some tx) \<Rightarrow> (case ct_Operations tx of ManageData source name value # _ \<Rightarrow> Some value | _ \<Rightarrow> None)
      | _ \<Rightarrow> None)"

text \<open>A run of the service, with the challenges that were answered by a token, the last one first. Clients may
  send anything; the clock and the database faults are free.\<close>

inductive sep10_run :: "sep_env \<Rightarrow> sep10Service \<Rightarrow> string option list \<Rightarrow> sep_state \<Rightarrow> bool" for env sv where
  start: "sep_nonces s = [] \<Longrightarrow> sep10_run env sv [] s"
| challenge: "sep10_run env sv h s \<Longrightarrow> CreateChallenge env sv tenantURL req s = (r, s') \<Longrightarrow> sep10_run env sv h s'"
| token: "sep10_run env sv h s \<Longrightarrow> ValidateChallenge env sv tenantURL transaction s = (Inr tok, s') \<Longrightarrow>
    sep10_run env sv (challenge_nonce env transaction # h) s'"
| refused: "sep10_run env sv h s \<Longrightarrow> ValidateChallenge env sv tenantURL transaction s = (Inl e, s') \<Longrightarrow> sep10_run env sv h s'"
| expire: "sep10_run env sv h s \<Longrightarrow> SEPNonceModel_DeleteExpired s = (r, s') \<Longrightarrow> sep10_run env sv h s'"
| environment: "sep10_run env sv h s \<Longrightarrow> sep10_run env sv h (s\<lparr>conn_now := now, conn_faults := fs\<rparr>)"

text \<open>The random source does not repeat itself.\<close>

definition never_repeats :: "sep_env \<Rightarrow> bool" where
  "never_repeats env \<longleftrightarrow> (\<forall>j k b. se_rand_Read env j 48 = Inr b \<longrightarrow> se_rand_Read env k 48 = Inr b \<longrightarrow> j = k)"

definition drawn :: "sep_env \<Rightarrow> nat \<Rightarrow> string \<Rightarrow> bool" where
  "drawn env m nonce \<longleftrightarrow> (\<exists>k b. k < m \<and> se_rand_Read env k 48 = Inr b \<and> nonce = base64_EncodeToString b)"

definition nonces_inv :: "sep_env \<Rightarrow> string option list \<Rightarrow> sep_state \<Rightarrow> bool" where
  "nonces_inv env h s \<longleftrightarrow> distinct h \<and> (\<forall>x \<in> set h. \<exists>n. x = Some n \<and> drawn env (sep_calls s) n \<and> n \<notin> fst ` set (sep_nonces s)) \<and>
     (\<forall>n \<in> fst ` set (sep_nonces s). drawn env (sep_calls s) n)"

text \<open>What an operation may do to the table: drop nonces, and add one that was drawn just now.\<close>

definition nonces_grow :: "sep_env \<Rightarrow> sep_state \<Rightarrow> sep_state \<Rightarrow> bool" where
  "nonces_grow env s s' \<longleftrightarrow> sep_calls s \<le> sep_calls s' \<and>
     (\<forall>n \<in> fst ` set (sep_nonces s'). n \<in> fst ` set (sep_nonces s) \<or>
        (\<exists>k b. sep_calls s \<le> k \<and> k < sep_calls s' \<and> se_rand_Read env k 48 = Inr b \<and> n = base64_EncodeToString b))"

interpretation nonces_grow: state_preorder "nonces_grow env" for env
proof
  show "nonces_grow env s s" for s by (auto simp: nonces_grow_def)
  show "nonces_grow env s u" if "nonces_grow env s t" "nonces_grow env t u" for s t u
    using that unfolding nonces_grow_def by (meson le_trans less_le_trans)
qed

definition grow_by :: "string set \<Rightarrow> sep_state \<Rightarrow> sep_state \<Rightarrow> bool" where
  "grow_by N s s' \<longleftrightarrow> sep_calls s \<le> sep_calls s' \<and> fst ` set (sep_nonces s') \<subseteq> fst ` set (sep_nonces s) \<union> N"

interpretation grow_by: state_preorder "grow_by N" for N
proof
  show "grow_by N s u" if "grow_by N s t" "grow_by N t u" for s t u
    using that unfolding grow_by_def by (intro conjI) (linarith, blast)
qed (simp add: grow_by_def)

lemma grow_by_calls [keeps_intros]: "keeps (grow_by N) (sep_call f)" "keeps (grow_by N) (liftE x)"
  by (simp_all add: keeps_def sep_call_def liftE_def throw_def ret_def grow_by_def split: sum.split)

lemma grow_by_db:
  assumes "\<And>s r s'. f s = (r, s') \<Longrightarrow> grow_by N s s'"
  shows "keeps (grow_by N) (db_call f)"
proof (rule keepsI)
  fix s r s' assume "db_call f s = (r, s')"
  then show "grow_by N s s'"
  proof (cases rule: db_call_cases)
    case (run fs)
    from assms [OF this] show ?thesis by (simp add: grow_by_def)
  next
    case (lost fs)
    then show ?thesis by (simp add: grow_by_def)
  next
    case (applied fs)
    with assms [of "s\<lparr>conn_faults := fs\<rparr>" _ s'] show ?thesis by (cases "f (s\<lparr>conn_faults := fs\<rparr>)") (auto simp: grow_by_def)
  qed
qed

lemma grow_by_store: "keeps (grow_by {nonce}) (nonceStore_Store ttl nonce)"
  unfolding nonceStore_Store_def SEPNonceModel_Store_def
  by (intro keeps_intros grow_by_db) (auto simp: grow_by_def split: if_splits)

lemma grow_by_consume: "keeps (grow_by {}) (nonceStore_Consume nonce)"
  unfolding nonceStore_Consume_def SEPNonceModel_Consume_def
  by (intro keeps_intros grow_by_db) (auto simp: grow_by_def split: list.splits prod.splits)

lemma grow_by_expire: "keeps (grow_by {}) SEPNonceModel_DeleteExpired"
  unfolding SEPNonceModel_DeleteExpired_def
  by (intro keeps_intros grow_by_db) (auto simp: grow_by_def)

lemma grow_by_grow: "keeps (grow_by {}) m \<Longrightarrow> keeps (nonces_grow env) m"
  by (auto simp: keeps_def grow_by_def nonces_grow_def)

lemma grow_by_same: "keeps same_nonces m \<Longrightarrow> keeps (grow_by {}) m"
  by (simp add: keeps_def grow_by_def same_nonces_def)

lemma grow_validate: "keeps (grow_by {}) (ValidateChallenge env sv tenantURL transaction)"
  unfolding ValidateChallenge_def consume_and_generate_def
  by (intro keeps_intros grow_by_consume grow_by_same [OF same_nonces_steps(1)] grow_by_same [OF same_nonces_steps(2)]
    grow_by_same [OF same_nonces_steps(4)] grow_by_same [OF same_nonces_verify(1)] grow_by_same [OF same_nonces_verify(2)])

lemma grow_by_build: "keeps (grow_by {nonce}) (build_with_nonce env sv a w h d k memo nonce)"
  unfolding build_with_nonce_def by (intro keeps_intros grow_by_store)

lemma grow_build: "keeps (nonces_grow env) (buildChallengeTx env sv a w h d k memo)"
proof (rule keepsI)
  fix s s' :: sep_state and r
  assume run: "buildChallengeTx env sv a w h d k memo s = (r, s')"
  show "nonces_grow env s s'"
  proof (cases "sp_AuthTimeout sv < time_Second")
    case True
    with run show ?thesis by (simp add: buildChallengeTx_def throw_def nonces_grow_def)
  next
    case False
    note run = run [unfolded buildChallengeTx_def, simplified False if_False]
    from run show ?thesis
    proof (cases rule: bindE_cases)
      case (err e)
      from keepsD [OF same_nonces_steps(5) err(1)] show ?thesis by (auto simp: same_nonces_def nonces_grow_def)
    next
      case (ok b s1)
      from ok(1) have b: "se_rand_Read env (sep_calls s) 48 = Inr b" and s1: "s1 = s\<lparr>sep_calls := Suc (sep_calls s)\<rparr>"
        by (auto simp: generateRandomNonce_def prog_ok)
      from keepsD [OF grow_by_build ok(2)] b s1 show ?thesis by (auto simp: grow_by_def nonces_grow_def dest!: subsetD)
    qed
  qed
qed

lemma grow_create: "keeps (nonces_grow env) (CreateChallenge env sv tenantURL req)"
  unfolding CreateChallenge_def Let_def
  by (intro keeps_intros grow_build grow_by_grow [OF grow_by_same [OF same_nonces_steps(1)]] grow_by_grow [OF grow_by_calls(2)])

lemma drawn_later: "drawn env m n \<Longrightarrow> m \<le> m' \<Longrightarrow> drawn env m' n"
proof -
  assume "drawn env m n" and le: "m \<le> m'"
  then obtain k b where "k < m" "se_rand_Read env k 48 = Inr b" "n = base64_EncodeToString b" by (auto simp: drawn_def)
  with le show ?thesis unfolding drawn_def by (intro exI [of _ k] exI [of _ b]) simp
qed

lemma grow_inv:
  assumes "never_repeats env" and "nonces_inv env h s" and "nonces_grow env s s'"
  shows "nonces_inv env h s'"
proof -
  have older: "drawn env (sep_calls s') n" if "drawn env (sep_calls s) n" for n
    using that assms(3) by (auto simp: nonces_grow_def intro: drawn_later)
  have "n \<notin> fst ` set (sep_nonces s')" if n: "drawn env (sep_calls s) n" "n \<notin> fst ` set (sep_nonces s)" for n
  proof
    assume "n \<in> fst ` set (sep_nonces s')"
    with n(2) assms(3) obtain k b where k: "sep_calls s \<le> k" "se_rand_Read env k 48 = Inr b" "n = base64_EncodeToString b"
      unfolding nonces_grow_def by blast
    from n(1) obtain j c where j: "j < sep_calls s" "se_rand_Read env j 48 = Inr c" "n = base64_EncodeToString c"
      by (auto simp: drawn_def)
    from k(3) j(3) have "b = c" by (metis base64_round_trip sum.inject(2))
    with k j assms(1) have "j = k" by (auto simp: never_repeats_def)
    with j(1) k(1) show False by simp
  qed
  moreover have "drawn env (sep_calls s') n" if "n \<in> fst ` set (sep_nonces s')" for n
  proof -
    from that assms(3) consider (old) "n \<in> fst ` set (sep_nonces s)" | (new) "drawn env (sep_calls s') n"
      unfolding nonces_grow_def drawn_def by blast
    then show ?thesis using assms(2) older by cases (auto simp: nonces_inv_def)
  qed
  ultimately show ?thesis
    using assms(2) older unfolding nonces_inv_def by (metis (no_types, lifting))
qed

lemma inv_Cons:
  assumes "drawn env (sep_calls s) n" and "Some n \<notin> set h" and "nonces_inv env h s" and "n \<notin> fst ` set (sep_nonces s)"
  shows "nonces_inv env (Some n # h) s"
  unfolding nonces_inv_def
proof (intro conjI ballI)
  show "distinct (Some n # h)" using assms(2,3) by (simp add: nonces_inv_def)
  show "\<exists>n. x = Some n \<and> drawn env (sep_calls s) n \<and> n \<notin> fst ` set (sep_nonces s)" if "x \<in> set (Some n # h)" for x
    using that assms by (cases "x = Some n") (simp_all add: nonces_inv_def)
  show "drawn env (sep_calls s) m" if "m \<in> fst ` set (sep_nonces s)" for m
    using that assms(3) unfolding nonces_inv_def by blast
qed

lemma run_inv:
  assumes "never_repeats env" and "sep10_run env sv h s"
  shows "nonces_inv env h s"
  using assms(2)
proof (induction rule: sep10_run.induct)
  case (token h s tenantURL transaction tok s')
  from token_outcome [OF token(2)] obtain tx result where tx: "se_TransactionFromXDR env transaction = Inr (Some tx)"
    and acc: "challenge_accepted env sv tenantURL (conn_now s div time_Second) tx result" and fresh: "fresh_nonce (cv_Nonce result) s s'" by blast
  then have nonce: "challenge_nonce env transaction = Some (cv_Nonce result)"
    by (auto simp: challenge_nonce_def challenge_accepted_def)
  from fresh have stored: "cv_Nonce result \<in> fst ` set (sep_nonces s)" "cv_Nonce result \<notin> fst ` set (sep_nonces s')"
    by (force simp: fresh_nonce_def)+
  have grown: "nonces_grow env s s'" by (rule keepsD [OF grow_by_grow [OF grow_validate] token(2)])
  have later: "sep_calls s \<le> sep_calls s'" using grown by (simp add: nonces_grow_def)
  from token.IH stored(1) have old: "drawn env (sep_calls s) (cv_Nonce result)" "Some (cv_Nonce result) \<notin> set h"
    unfolding nonces_inv_def by blast+
  show ?case
    unfolding nonce by (rule inv_Cons [OF drawn_later [OF old(1) later] old(2) grow_inv [OF assms(1) token.IH grown] stored(2)])
next
  case (challenge h s tenantURL req r s')
  then show ?case by (blast intro: grow_inv [OF assms(1)] keepsD [OF grow_create])
next
  case (refused h s tenantURL transaction e s')
  then show ?case by (blast intro: grow_inv [OF assms(1)] keepsD [OF grow_by_grow [OF grow_validate]])
next
  case (expire h s r s')
  then show ?case by (blast intro: grow_inv [OF assms(1)] keepsD [OF grow_by_grow [OF grow_by_expire]])
qed (simp_all add: nonces_inv_def)

section \<open>An example\<close>

text \<open>Keys are strings; a signature by a key is the key with a mark and the hash, which is the account that is to be authenticated.\<close>

definition example_challenge :: challenge_tx where
  "example_challenge = \<lparr>ct_SourceAccount = ''SERVER'', ct_Sequence = 0, ct_MinTime = 7, ct_MaxTime = 907,
     ct_Operations = [ManageData ''VICTIM'' ''sdp.org auth'' (replicate 64 CHR ''A''), ManageData ''SERVER'' ''web_auth_domain'' ''sdp.org''],
     ct_Memo = None, ct_Signatures = [''SERVER'']\<rparr>"

definition example_sep_env :: "int \<Rightarrow> sep_env" where
  "example_sep_env threshold = \<lparr>se_Error = (\<lambda>e. ''error''), se_IsValidEd25519PublicKey = (\<lambda>a. True), se_AddressToAccountId = (\<lambda>a. True), se_ParseAddress = (\<lambda>a. True),
     se_Verify = (\<lambda>key hash sig. sig = key), se_ParseFull = Inr,
     se_TransactionFromXDR = (\<lambda>x. if x = ''TRAN'' then Inr (Some example_challenge)
        else if x = ''SIGN'' then Inr (Some (example_challenge\<lparr>ct_Signatures := [''SERVER'', ''VICTIM'']\<rparr>)) else Inl (Errorf ''xdr'')),
     se_NewTransaction = (\<lambda>p. Inr \<lparr>ct_SourceAccount = cp_SourceAccount p, ct_Sequence = cp_Sequence p + 1, ct_MinTime = cp_MinTime p,
        ct_MaxTime = cp_MaxTime p, ct_Operations = cp_Operations p, ct_Memo = cp_Memo p, ct_Signatures = []\<rparr>),
     se_Sign = (\<lambda>tx n k. Inr (tx\<lparr>ct_Signatures := ct_Signatures tx @ [k]\<rparr>)),
     se_Base64 = (\<lambda>tx. if tx = example_challenge then Inr ''TRAN'' else Inr ''OTHER''), se_Hash = (\<lambda>tx n. Inr ''hash''), se_HashHex = (\<lambda>tx n. Inr ''hash''),
     se_url_Parse = (\<lambda>u. Some (''https'', ''sdp.org'')), se_rand_Read = (\<lambda>k n. if k = 0 then Inr (replicate 48 (char_of (0 :: nat))) else Inl (Errorf ''exhausted'')),
     se_GetStellarToml = (\<lambda>n b d. Inr ''DOMAIN''), se_AccountDetail = (\<lambda>n a. Inr \<lparr>ha_MedThreshold = threshold, ha_Signers = [(''VICTIM'', 1)]\<rparr>),
     se_range = (\<lambda>n k. 0), se_SignedString = (\<lambda>secret c. Inr (jc_Subject c)), se_RegisteredClaims_Valid = (\<lambda>now c. Inr ())\<rparr>"

definition example_sep10 :: sep10Service where
  "example_sep10 = \<lparr>sp_SigningAddress = ''SERVER'', sp_JWTSecret = ''secret'', sp_HasHorizonClient = True, sp_NetworkPassphrase = ''net'',
     sp_BaseURL = ''https://sdp.org'', sp_JWTExpiration = 120 * time_Minute, sp_AuthTimeout = DefaultSEP10AuthTimeout, sp_AllowHTTPRetry = False,
     sp_ClientAttributionRequired = False, sp_NonceTTL = DefaultSEP10NonceExpiration\<rparr>"

definition sep_start :: sep_state where
  "sep_start = \<lparr>conn_now = 7 * time_Second, conn_faults = [], conn_held = [], conn_uuid = (\<lambda>n. []), conn_uuid_next = 0, sep_nonces = [], sep_calls = 0\<rparr>"

definition sep_request :: ChallengeRequest where
  "sep_request = \<lparr>cr_Account = ''VICTIM'', cr_Memo = [], cr_HomeDomain = [], cr_ClientDomain = []\<rparr>"

definition sep_challenged :: "int \<Rightarrow> sep_state" where
  "sep_challenged threshold = snd (CreateChallenge (example_sep_env threshold) example_sep10 None sep_request sep_start)"

lemma challenge_created:
  "fst (CreateChallenge (example_sep_env 0) example_sep10 None sep_request sep_start) = Inr \<lparr>cs_Transaction = ''TRAN'', cs_NetworkPassphrase = ''net''\<rparr>"
  by code_simp

lemma signed_challenge_answered:
  "fst (ValidateChallenge (example_sep_env 1) example_sep10 None ''SIGN'' (sep_challenged 1)) = Inr ''VICTIM''"
  by code_simp

lemma unsigned_challenge_refused:
  "isl (fst (ValidateChallenge (example_sep_env 1) example_sep10 None ''TRAN'' (sep_challenged 1)))"
  by code_simp

section \<open>The properties\<close>

text \<open>C20: a token is answered only for a transaction of the server's account that the server signed, within its time bounds,
  whose first operation names an allowed home domain and a nonce that was stored and has not expired, and that is
  deleted with the answer; the client's account either does not exist and its own key signed, or distinct signers of it
  that signed reach its medium threshold; the key of a client domain signed as well. The token is for
  that account, with its memo.\<close>

theorem token_is_earned:
  assumes "ValidateChallenge env sv tenantURL transaction s = (Inr token, s')"
  shows "\<exists>tx result. se_TransactionFromXDR env transaction = Inr (Some tx) \<and>
    challenge_accepted env sv tenantURL (conn_now s div time_Second) tx result \<and> fresh_nonce (cv_Nonce result) s s' \<and>
    client_proved env sv tx (cv_ClientAccountID result) (cv_ClientDomain result) \<and> domain_proved env sv tx (cv_ClientDomain result) \<and>
    token_for env sv result token"
  using token_outcome [OF assms] .

theorem token_is_earned_witness:
  "\<exists>client domain. client_proved (example_sep_env 1) example_sep10 (example_challenge\<lparr>ct_Signatures := [''SERVER'', ''VICTIM'']\<rparr>) client domain"
proof -
  obtain s' where "ValidateChallenge (example_sep_env 1) example_sep10 None ''SIGN'' (sep_challenged 1) = (Inr ''VICTIM'', s')"
    using signed_challenge_answered by (metis prod.collapse)
  from token_is_earned [OF this] show ?thesis by (auto simp: example_sep_env_def)
qed

text \<open>C21: in any run of the service, whatever clients send and however the clock moves or the database fails, no
  challenge is answered by a token twice, provided the random source does not repeat a nonce.\<close>

theorem challenge_authenticates_once:
  assumes "never_repeats env" and "sep10_run env sv h s"
  shows "distinct h"
  using run_inv [OF assms] by (simp add: nonces_inv_def)

theorem challenge_authenticates_once_witness:
  "\<exists>s. sep10_run (example_sep_env 1) example_sep10 [Some (replicate 64 CHR ''A'')] s \<and> distinct [Some (replicate 64 CHR ''A'')]"
proof -
  have "sep10_run (example_sep_env 1) example_sep10 [] (sep_challenged 1)"
    unfolding sep_challenged_def
    by (rule sep10_run.challenge [OF sep10_run.start prod.collapse [symmetric]]) (simp add: sep_start_def)
  moreover obtain s' where "ValidateChallenge (example_sep_env 1) example_sep10 None ''SIGN'' (sep_challenged 1) = (Inr ''VICTIM'', s')"
    using signed_challenge_answered by (metis prod.collapse)
  ultimately have run: "sep10_run (example_sep_env 1) example_sep10 [challenge_nonce (example_sep_env 1) ''SIGN''] s'"
    by (rule sep10_run.token)
  have nonce: "challenge_nonce (example_sep_env 1) ''SIGN'' = Some (replicate 64 CHR ''A'')"
    by (simp add: challenge_nonce_def example_sep_env_def example_challenge_def)
  have "never_repeats (example_sep_env 1)" by (simp add: never_repeats_def example_sep_env_def)
  from challenge_authenticates_once [OF this run] run show ?thesis unfolding nonce by blast
qed

lemma signer_weights_nonneg:
  assumes "list_all (\<lambda>(k, w). 0 \<le> w) (ha_Signers account)"
  shows "0 \<le> (case map_of (signer_weights account) k of Some w \<Rightarrow> w | None \<Rightarrow> 0)"
proof -
  have "list_all (\<lambda>(k, w). 0 \<le> w) (foldl (\<lambda>m (k, w). AList.update k w m) acc ss)"
    if "list_all (\<lambda>(k, w). 0 \<le> w) acc" "list_all (\<lambda>(k, w). 0 \<le> w) ss" for acc and ss :: "(string \<times> int) list"
    using that
  proof (induction ss arbitrary: acc)
    case (Cons kw ss)
    obtain k w where kw: "kw = (k, w)" by fastforce
    have "list_all (\<lambda>(k, w). 0 \<le> w) (AList.update k w m)" if "list_all (\<lambda>(k, w). 0 \<le> w) m" "0 \<le> w" for m
      using that by (induction m) auto
    with Cons.prems Cons.IH [of "AList.update k w acc"] kw show ?case by simp
  qed simp
  from this [of "[]" "ha_Signers account"] assms have "list_all (\<lambda>(k, w). 0 \<le> w) (signer_weights account)"
    by (simp add: signer_weights_def)
  then show ?thesis by (auto simp: list_all_iff dest: map_of_SomeD split: option.split)
qed

lemma no_threshold:
  assumes "ha_MedThreshold account \<le> 0" and "list_all (\<lambda>(k, w). 0 \<le> w) (ha_Signers account)"
    and "se_Hash env tx (sp_NetworkPassphrase sv) = Inr hash"
  shows "verifyThreshold env sv n tx account (ha_MedThreshold account) = Inr ()"
proof -
  obtain used amount where loop: "verify_threshold_loop env (signer_weights account) hash n (ct_Signatures tx) ([], 0) = (used, amount)"
    by fastforce
  from threshold_loop [OF loop signer_weights_distinct, of "ct_Signatures tx"]
  have "amount = sum_list (map (\<lambda>k. case map_of (signer_weights account) k of Some w \<Rightarrow> w | None \<Rightarrow> 0) used)" by simp
  moreover have "0 \<le> sum_list (map (\<lambda>k. case map_of (signer_weights account) k of Some w \<Rightarrow> w | None \<Rightarrow> 0) used)"
    by (rule sum_list_nonneg) (use signer_weights_nonneg [OF assms(2)] in auto)
  ultimately show ?thesis using loop assms(1,3) by (simp add: verifyThreshold_def)
qed

text \<open>C24: when the medium threshold of an account is zero, which is what a new account has, a challenge that the server made
  for it is answered by a token whoever sends it back: no signature of the account is needed.\<close>

theorem zero_threshold_needs_no_signature:
  assumes "validateChallengeCustom env sv (conn_now s div time_Second) transaction (sp_SigningAddress sv) (sp_NetworkPassphrase sv)
      (GetWebAuthDomain env tenantURL (sp_BaseURL sv)) (getAllowedHomeDomains env sv tenantURL) = Inr result" and "cv_ClientDomain result = []"
    and "sp_HasHorizonClient sv" and "se_AccountDetail env (sep_calls s) (cv_ClientAccountID result) = Inr account"
    and "ha_MedThreshold account \<le> 0" and "list_all (\<lambda>(k, w). 0 \<le> w) (ha_Signers account)"
    and "se_Hash env (cv_Transaction result) (sp_NetworkPassphrase sv) = Inr hash" and "conn_faults s = []"
    and "filter (\<lambda>(n, t). n = cv_Nonce result) (sep_nonces s) = [(cv_Nonce result, t)]" and "cv_Nonce result \<noteq> []" and "conn_now s \<le> t"
  shows "\<exists>s1. ValidateChallenge env sv tenantURL transaction s =
    generateToken env sv (cv_Transaction result) (cv_ClientAccountID result) (cv_HomeDomain result) (cv_Memo result) [] s1"
  using assms no_threshold [OF assms(5,6,7)]
  by (auto simp: ValidateChallenge_def fetchAccountFromHorizon_def verifySignaturesWithThreshold_def verify_client_domain_def consume_and_generate_def
      nonceStore_Consume_def SEPNonceModel_Consume_def prog_defs liftE_def sep_call_def)

lemma example_unsigned:
  "(case validateChallengeCustom (example_sep_env 0) example_sep10 (conn_now (sep_challenged 0) div time_Second) ''TRAN'' (sp_SigningAddress example_sep10)
      (sp_NetworkPassphrase example_sep10) (GetWebAuthDomain (example_sep_env 0) None (sp_BaseURL example_sep10)) (getAllowedHomeDomains (example_sep_env 0) example_sep10 None) of
     Inr result \<Rightarrow> cv_ClientDomain result = [] \<and> cv_Nonce result = replicate 64 CHR ''A'' \<and> cv_Transaction result = example_challenge \<and>
       cv_ClientAccountID result = ''VICTIM''
   | Inl e \<Rightarrow> False)"
  by code_simp

lemma example_challenged:
  "conn_faults (sep_challenged 0) = []" "conn_now (sep_challenged 0) = 7 * time_Second" "sp_HasHorizonClient example_sep10"
  "sep_nonces (sep_challenged 0) = [(replicate 64 CHR ''A'', 7 * time_Second + DefaultSEP10NonceExpiration)]" "0 \<le> DefaultSEP10NonceExpiration"
  by code_simp+

theorem zero_threshold_needs_no_signature_witness:
  "ct_Signatures example_challenge = [''SERVER''] \<and>
   (\<exists>home memo s1. ValidateChallenge (example_sep_env 0) example_sep10 None ''TRAN'' (sep_challenged 0) =
      generateToken (example_sep_env 0) example_sep10 example_challenge ''VICTIM'' home memo [] s1)"
proof -
  obtain result where valid: "validateChallengeCustom (example_sep_env 0) example_sep10 (conn_now (sep_challenged 0) div time_Second) ''TRAN''
      (sp_SigningAddress example_sep10) (sp_NetworkPassphrase example_sep10) (GetWebAuthDomain (example_sep_env 0) None (sp_BaseURL example_sep10))
      (getAllowedHomeDomains (example_sep_env 0) example_sep10 None) = Inr result"
    and result: "cv_ClientDomain result = []" "cv_Nonce result = replicate 64 CHR ''A''" "cv_Transaction result = example_challenge" "cv_ClientAccountID result = ''VICTIM''"
    using example_unsigned by (auto split: sum.splits)
  have "\<exists>s1. ValidateChallenge (example_sep_env 0) example_sep10 None ''TRAN'' (sep_challenged 0) =
      generateToken (example_sep_env 0) example_sep10 (cv_Transaction result) (cv_ClientAccountID result) (cv_HomeDomain result) (cv_Memo result) [] s1"
    by (rule zero_threshold_needs_no_signature [OF valid result(1) example_challenged(3) _ _ _ _ example_challenged(1), where
          account = "\<lparr>ha_MedThreshold = 0, ha_Signers = [(''VICTIM'', 1)]\<rparr>" and hash = "''hash''" and t = "7 * time_Second + DefaultSEP10NonceExpiration"])
      (use example_challenged(4,5) in \<open>simp_all add: example_sep_env_def result example_challenged(2) del: replicate.simps\<close>)
  then show ?thesis unfolding result by (auto simp: example_challenge_def)
qed

end
