(* ===== verification/Sep45.thy ===== *)
theory Sep45
  imports Sep10
begin

text \<open>
  Web authentication of contract accounts (\<open>src/internal/services/sep45_service.go\<close>,
  \<open>src/internal/serve/httphandler/sep45_handler.go\<close>, the authorization entries of \<open>src/internal/utils/xdr.go\<close>): the
  challenge are the authorization entries of a call of the contract \<open>web_auth_verify\<close>, of which the server signs its
  own. The client signs its entries, and the network simulates the call with them.

  XDR decoding and encoding, keys and hashes, the RPC server and the fetching of \<open>stellar.toml\<close> are parameters.
  An error that wraps two others keeps the sentinel, which is what the handler looks for.
\<close>

section \<open>Authorization entries\<close>

datatype sc_val = ScvMap "(sc_val \<times> sc_val) list option" | ScvVec "sc_val list option" | ScvSymbol string | ScvString string | ScvBytes string | ScvOther

datatype entry_sc_address = AccountAddress "string option" | ContractAddress "string option" | OtherAddress

record address_credentials =
  ac_Address :: entry_sc_address
  ac_Nonce :: int
  ac_SignatureExpirationLedger :: int
  ac_Signature :: sc_val

datatype credentials = AddressCredentials "address_credentials option" | OtherCredentials

record contract_fn =
  cf_ContractAddress :: entry_sc_address
  cf_FunctionName :: string
  cf_Args :: "sc_val list"

record root_invocation =
  ri_ContractFn :: "contract_fn option"
  ri_SubInvocations :: "string list"

record auth_entry =
  en_Credentials :: credentials
  en_RootInvocation :: root_invocation

text \<open>The transaction that is simulated: the source of its operation, the call and the entries.\<close>

record sim_tx =
  st_OperationSource :: string
  st_Call :: contract_fn
  st_Auth :: "auth_entry list"

record sep45_env =
  f5_base :: sep_env
  f5_IsValidContractAddress :: "string \<Rightarrow> bool"
  f5_DecodeContract :: "string \<Rightarrow> go_error + string"
  f5_DecodeAccount :: "string \<Rightarrow> go_error + string"
  f5_UnmarshalEntries :: "string \<Rightarrow> go_error + auth_entry list"
  f5_MarshalEntries :: "auth_entry list \<Rightarrow> go_error + string"
  f5_UnmarshalEntry :: "string \<Rightarrow> go_error + auth_entry"
  f5_MarshalInvocation :: "root_invocation \<Rightarrow> go_error + string"
  f5_MarshalPreimage :: "string \<Rightarrow> int \<Rightarrow> int \<Rightarrow> root_invocation \<Rightarrow> go_error + string"
  f5_NetworkID :: "string \<Rightarrow> string"
  f5_Sha256 :: "string \<Rightarrow> string"
  f5_HexEncode :: "string \<Rightarrow> string"
  f5_KeySign :: "string \<Rightarrow> string \<Rightarrow> go_error + string"
  f5_NewTransaction :: "sim_tx \<Rightarrow> go_error + string"
  f5_Base64 :: "string \<Rightarrow> go_error + string"
  f5_Simulate :: "nat \<Rightarrow> string \<Rightarrow> sim_error_type + string list option list"
  f5_LatestLedger :: "nat \<Rightarrow> go_error + int"
  f5_RandomUint32 :: "nat \<Rightarrow> go_error + 32 word"

definition ErrSEP45Validation :: go_error where "ErrSEP45Validation = Errorf ''sep45 validation error''"
definition ErrSEP45Internal :: go_error where "ErrSEP45Internal = Errorf ''sep45 internal error''"

text \<open>The arguments of a call: a map from symbols to strings; the last entry of a key counts.\<close>

fun extract_args :: "(sc_val \<times> sc_val) list \<Rightarrow> (string \<times> string) list \<Rightarrow> go_error + (string \<times> string) list" where
  "extract_args [] result = Inr result"
| "extract_args ((k, v) # entries) result =
     (case k of
        ScvSymbol symbol \<Rightarrow> (case v of
            ScvString s \<Rightarrow> extract_args entries (AList.update symbol (TrimSpace s) result)
          | _ \<Rightarrow> Inl (Errorf ''authorization argument %s must be a string''))
      | _ \<Rightarrow> Inl (Errorf ''authorization argument key must be a symbol''))"

definition ExtractArgsMap :: "sc_val list \<Rightarrow> go_error + (string \<times> string) list" where
  "ExtractArgsMap args =
     (case args of
        [ScvMap (Some entries)] \<Rightarrow> extract_args entries []
      | [_] \<Rightarrow> Inl (Errorf ''authorization entry arguments must be a map'')
      | _ \<Rightarrow> Inl (Errorf ''authorization entry must contain a single argument map''))"

definition arg_of :: "(string \<times> string) list \<Rightarrow> string \<Rightarrow> string" where
  "arg_of args k = (case map_of args k of Some v \<Rightarrow> v | None \<Rightarrow> [])"

definition compareArgs :: "(string \<times> string) list \<Rightarrow> (string \<times> string) list \<Rightarrow> go_error + unit" where
  "compareArgs current expected =
     (if length current \<noteq> length expected then Inl (Errorf ''authorization entry arguments mismatch'')
      else if list_all (\<lambda>(k, v). arg_of current k = v) expected then Inr ()
      else Inl (Errorf ''authorization entry arguments mismatch''))"

definition NewSymbolStringEntry :: "string \<Rightarrow> string \<Rightarrow> sc_val \<times> sc_val" where
  "NewSymbolStringEntry key val = (ScvSymbol key, ScvString val)"

definition BuildAuthorizationPayload :: "sep45_env \<Rightarrow> auth_entry \<Rightarrow> string \<Rightarrow> go_error + string" where
  "BuildAuthorizationPayload env entry networkPassphrase =
     (case en_Credentials entry of
        AddressCredentials (Some address) \<Rightarrow>
          (case f5_MarshalPreimage env (f5_NetworkID env networkPassphrase) (ac_Nonce address) (ac_SignatureExpirationLedger address) (en_RootInvocation entry) of
             Inl e \<Rightarrow> Inl (Wrapf ''marshalling authorization preimage'' e)
           | Inr preimageBytes \<Rightarrow> Inr (f5_Sha256 env preimageBytes))
      | _ \<Rightarrow> Inl (Errorf ''authorization entry missing address credentials''))"

text \<open>Only entries of the signing account are signed, with the new expiration.\<close>

definition SignAuthEntry :: "sep45_env \<Rightarrow> auth_entry \<Rightarrow> int \<Rightarrow> string \<Rightarrow> string \<Rightarrow> go_error + auth_entry" where
  "SignAuthEntry env entry validUntil signingKP networkPassphrase =
     (case en_Credentials entry of
        OtherCredentials \<Rightarrow> Inr entry
      | AddressCredentials None \<Rightarrow> Inl (Errorf ''address credentials missing'')
      | AddressCredentials (Some address) \<Rightarrow>
          (if ac_Address address \<noteq> AccountAddress (Some signingKP) then Inr entry
           else
           (let entry' = entry\<lparr>en_Credentials := AddressCredentials (Some (address\<lparr>ac_SignatureExpirationLedger := validUntil\<rparr>))\<rparr> in
            case BuildAuthorizationPayload env entry' networkPassphrase of
              Inl e \<Rightarrow> Inl (Wrapf ''encoding authorization preimage'' e)
            | Inr payload \<Rightarrow>
                (case f5_KeySign env signingKP payload of
                   Inl e \<Rightarrow> Inl (Wrapf ''signing authorization entry'' e)
                 | Inr signature \<Rightarrow>
                     (if \<not> se_Verify (f5_base env) signingKP payload signature then Inl (Wrapf ''signature verification failed'' (Errorf ''invalid signature''))
                      else (case f5_DecodeAccount env signingKP of
                          Inl e \<Rightarrow> Inl (Wrapf ''decoding signing public key'' e)
                        | Inr publicKeyRaw \<Rightarrow> Inr (entry'\<lparr>en_Credentials := AddressCredentials (Some (address
                            \<lparr>ac_SignatureExpirationLedger := validUntil,
                             ac_Signature := ScvVec (Some [ScvMap (Some [(ScvSymbol ''public_key'', ScvBytes publicKeyRaw), (ScvSymbol ''signature'', ScvBytes signature)])])\<rparr>))\<rparr>)))))))"

fun scan_signature :: "(sc_val \<times> sc_val) list \<Rightarrow> string \<times> string \<Rightarrow> go_error + string \<times> string" where
  "scan_signature [] acc = Inr acc"
| "scan_signature ((k, v) # entries) (publicKey, signature) =
     (if k = ScvSymbol ''public_key'' then
        (case v of ScvBytes b \<Rightarrow> scan_signature entries (b, signature) | _ \<Rightarrow> Inl (Errorf ''signature public key must be bytes''))
      else if k = ScvSymbol ''signature'' then
        (case v of ScvBytes b \<Rightarrow> scan_signature entries (publicKey, b) | _ \<Rightarrow> Inl (Errorf ''signature bytes missing''))
      else scan_signature entries (publicKey, signature))"

definition extractSignature :: "sc_val \<Rightarrow> go_error + string \<times> string" where
  "extractSignature sigVal =
     (case sigVal of
        ScvVec (Some (v # _)) \<Rightarrow>
          (case v of
             ScvMap (Some entries) \<Rightarrow>
               (case scan_signature entries ([], []) of
                  Inl e \<Rightarrow> Inl e
                | Inr (publicKey, signature) \<Rightarrow>
                    if publicKey = [] then Inl (Errorf ''signature missing public key'')
                    else if signature = [] then Inl (Errorf ''signature missing value'') else Inr (publicKey, signature))
           | _ \<Rightarrow> Inl (Errorf ''signature must be a map''))
      | _ \<Rightarrow> Inl (Errorf ''signature must be a vector''))"

section \<open>The service\<close>

definition signatureExpirationLedgers :: int where "signatureExpirationLedgers = 10"
definition defaultLedgerCloseTime :: int where "defaultLedgerCloseTime = 5 * time_Second"
definition defaultSEP45JWTExpiration :: int where "defaultSEP45JWTExpiration = 120 * time_Minute"
definition DefaultSEP45NonceExpiration :: int where "DefaultSEP45NonceExpiration = signatureExpirationLedgers * defaultLedgerCloseTime"

record sep45Service =
  s5_JWTSecret :: string
  s5_NetworkPassphrase :: string
  s5_ContractID :: string
  s5_SigningKP :: string
  s5_SigningPKBytes :: string
  s5_AllowHTTPRetry :: bool
  s5_BaseURL :: string
  s5_JWTExpiration :: int
  s5_NonceTTL :: int

record SEP45ServiceOptions =
  so_HasRPCClient :: bool
  so_JWTManager :: "string option"
  so_NetworkPassphrase :: string
  so_WebAuthVerifyContractID :: string
  so_ServerSigningKeypair :: "string option"
  so_BaseURL :: string
  so_AllowHTTPRetry :: bool
  so_NonceStore :: "int option"

definition NewSEP45Service :: "sep45_env \<Rightarrow> SEP45ServiceOptions \<Rightarrow> go_error + sep45Service" where
  "NewSEP45Service env opts =
     (if \<not> so_HasRPCClient opts then Inl (Errorf ''rpc client cannot be nil'')
      else (case so_JWTManager opts of
          None \<Rightarrow> Inl (Errorf ''jwt manager cannot be nil'')
        | Some secret \<Rightarrow>
            (if TrimSpace (so_NetworkPassphrase opts) = [] then Inl (Errorf ''network passphrase cannot be empty'')
             else if TrimSpace (so_WebAuthVerifyContractID opts) = [] then Inl (Errorf ''web_auth_verify contract ID cannot be empty'')
             else (case so_ServerSigningKeypair opts of
                 None \<Rightarrow> Inl (Errorf ''server signing keypair cannot be nil'')
               | Some signingKP \<Rightarrow>
                   (if TrimSpace (so_BaseURL opts) = [] then Inl (Errorf ''base URL cannot be empty'')
                    else (case so_NonceStore opts of
                        None \<Rightarrow> Inl (Errorf ''nonce store cannot be nil'')
                      | Some ttl \<Rightarrow>
                          (case f5_DecodeAccount env signingKP of
                             Inl e \<Rightarrow> Inl (Wrapf ''decoding signing public key'' e)
                           | Inr signingPKBytes \<Rightarrow>
                               (case f5_DecodeContract env (so_WebAuthVerifyContractID opts) of
                                  Inl e \<Rightarrow> Inl (Wrapf ''decoding contract ID'' e)
                                | Inr contractID \<Rightarrow> Inr \<lparr>s5_JWTSecret = secret, s5_NetworkPassphrase = so_NetworkPassphrase opts, s5_ContractID = contractID,
                                    s5_SigningKP = signingKP, s5_SigningPKBytes = signingPKBytes, s5_AllowHTTPRetry = so_AllowHTTPRetry opts,
                                    s5_BaseURL = so_BaseURL opts, s5_JWTExpiration = defaultSEP45JWTExpiration, s5_NonceTTL = ttl\<rparr>))))))))"

record SEP45ChallengeRequest =
  c5_Account :: string
  c5_HomeDomain :: string
  c5_ClientDomain :: "string option"

definition SEP45ChallengeRequest_Validate :: "sep45_env \<Rightarrow> SEP45ChallengeRequest \<Rightarrow> go_error + unit" where
  "SEP45ChallengeRequest_Validate env r =
     (if TrimSpace (c5_Account r) = [] then Inl (Errorf ''account is required'')
      else if \<not> f5_IsValidContractAddress env (c5_Account r) then Inl (Errorf ''account must be a valid contract address'')
      else if TrimSpace (c5_HomeDomain r) = [] then Inl (Errorf ''home_domain is required'')
      else Inr ())"

definition SEP45ValidationRequest_Validate :: "string \<Rightarrow> go_error + unit" where
  "SEP45ValidationRequest_Validate authorizationEntries =
     (if TrimSpace authorizationEntries = [] then Inl (Errorf ''authorization_entries is required'') else Inr ())"

definition sep45_fetchSigningKeyFromClientDomain :: "sep45_env \<Rightarrow> sep45Service \<Rightarrow> string \<Rightarrow> ('z sep_state_scheme, go_error, string) prog" where
  "sep45_fetchSigningKeyFromClientDomain env sv clientDomain =
     bindE (sep_call (\<lambda>n. se_GetStellarToml (f5_base env) n False clientDomain)) (\<lambda>first.
     bindE (if isl first \<and> s5_AllowHTTPRetry sv then sep_call (\<lambda>n. se_GetStellarToml (f5_base env) n True clientDomain) else ret first) (\<lambda>r.
     case r of
       Inl e \<Rightarrow> throw (Wrapf ''fetching stellar.toml for %s'' e)
     | Inr signingKey \<Rightarrow>
         if TrimSpace signingKey = [] then throw (Errorf ''stellar.toml at %s missing SIGNING_KEY'')
         else if \<not> se_IsValidEd25519PublicKey (f5_base env) signingKey then throw (Errorf ''stellar.toml SIGNING_KEY at %s is invalid'')
         else ret signingKey))"

definition generateNonce :: "sep45_env \<Rightarrow> ('z sep_state_scheme, go_error, string) prog" where
  "generateNonce env = bindE (sep_call (f5_RandomUint32 env)) (\<lambda>r.
     bindE (wrapE ''generating nonce'' (liftE r)) (\<lambda>w. ret (nat_text (unat w))))"

definition wrapSimErr :: "sim_error_type \<Rightarrow> go_error" where
  "wrapSimErr t = (if t \<in> {SimAuth, SimContractExecution, SimTransactionInvalid}
     then Wrapf ''%w: simulating transaction: %w'' ErrSEP45Validation else Wrapf ''%w: simulating transaction: %w'' ErrSEP45Internal)"

fun sign_entries :: "sep45_env \<Rightarrow> sep45Service \<Rightarrow> int \<Rightarrow> string list \<Rightarrow> go_error + auth_entry list" where
  "sign_entries env sv validUntil [] = Inr []"
| "sign_entries env sv validUntil (entryB64 # es) =
     (case f5_UnmarshalEntry env entryB64 of
        Inl e \<Rightarrow> Inl (Wrapf ''unmarshalling authorization entry'' e)
      | Inr entry \<Rightarrow>
          (case SignAuthEntry env entry validUntil (s5_SigningKP sv) (s5_NetworkPassphrase sv) of
             Inl e \<Rightarrow> Inl (Wrapf ''signing authorization entry'' e)
           | Inr signedEntry \<Rightarrow> (case sign_entries env sv validUntil es of Inl e \<Rightarrow> Inl e | Inr rest \<Rightarrow> Inr (signedEntry # rest))))"

definition signServerAuthEntry :: "sep45_env \<Rightarrow> sep45Service \<Rightarrow> string list option list \<Rightarrow> ('z sep_state_scheme, go_error, auth_entry list) prog" where
  "signServerAuthEntry env sv results =
     (case results of
        [] \<Rightarrow> throw (Errorf ''missing simulation results'')
      | None # _ \<Rightarrow> throw (Errorf ''missing authorization entries'')
      | Some authXDR # _ \<Rightarrow>
          bindE (sep_call (f5_LatestLedger env)) (\<lambda>r.
          bindE (wrapE ''fetching latest ledger'' (liftE r)) (\<lambda>ledgerNumber.
          liftE (sign_entries env sv (uint32 (ledgerNumber + signatureExpirationLedgers)) authXDR))))"

definition web_auth_call :: "sep45Service \<Rightarrow> sc_val list \<Rightarrow> contract_fn" where
  "web_auth_call sv args = \<lparr>cf_ContractAddress = ContractAddress (Some (s5_ContractID sv)), cf_FunctionName = ''web_auth_verify'', cf_Args = args\<rparr>"

definition challenge_fields :: "sep45Service \<Rightarrow> string \<Rightarrow> string \<Rightarrow> string \<Rightarrow> string \<Rightarrow> string \<Rightarrow> string \<Rightarrow> (sc_val \<times> sc_val) list" where
  "challenge_fields sv account clientDomain clientDomainAccount homeDomain nonce webAuthDomain =
     [NewSymbolStringEntry ''account'' account] @
     (if clientDomain \<noteq> [] then [NewSymbolStringEntry ''client_domain'' clientDomain, NewSymbolStringEntry ''client_domain_account'' clientDomainAccount] else []) @
     [NewSymbolStringEntry ''home_domain'' homeDomain, NewSymbolStringEntry ''nonce'' nonce,
      NewSymbolStringEntry ''web_auth_domain'' webAuthDomain, NewSymbolStringEntry ''web_auth_domain_account'' (s5_SigningKP sv)]"

definition simulate_challenge :: "sep45_env \<Rightarrow> sep45Service \<Rightarrow> sc_val list \<Rightarrow> ('z sep_state_scheme, go_error, auth_entry list) prog" where
  "simulate_challenge env sv args =
     bindE (wrapE ''building transaction'' (liftE (f5_NewTransaction env \<lparr>st_OperationSource = [], st_Call = web_auth_call sv args, st_Auth = []\<rparr>))) (\<lambda>tx.
     bindE (wrapE ''encoding transaction'' (liftE (f5_Base64 env tx))) (\<lambda>base64EncodedTx.
     bindE (sep_call (\<lambda>n. f5_Simulate env n base64EncodedTx)) (\<lambda>simResult.
     case simResult of Inl t \<Rightarrow> throw (wrapSimErr t) | Inr results \<Rightarrow> signServerAuthEntry env sv results)))"

definition sep45_CreateChallenge ::
  "sep45_env \<Rightarrow> sep45Service \<Rightarrow> string option \<Rightarrow> SEP45ChallengeRequest \<Rightarrow> ('z sep_state_scheme, go_error, string \<times> string) prog" where
  "sep45_CreateChallenge env sv tenantURL req =
     (case SEP45ChallengeRequest_Validate env req of
        Inl e \<Rightarrow> throw (Wrapf ''%w: %w'' ErrSEP45Validation)
      | Inr _ \<Rightarrow>
          (let webAuthDomain = GetWebAuthDomain (f5_base env) tenantURL (s5_BaseURL sv);
               account = TrimSpace (c5_Account req); homeDomain = TrimSpace (c5_HomeDomain req);
               clientDomain = (case c5_ClientDomain req of None \<Rightarrow> [] | Some d \<Rightarrow> TrimSpace d) in
           if TrimSpace webAuthDomain = [] then throw (Wrapf ''%w: unable to determine web_auth_domain'' ErrSEP45Internal)
           else if homeDomain = [] then throw (Wrapf ''%w: home_domain is required'' ErrSEP45Validation)
           else if \<not> IsValidHomeDomain (f5_base env) (s5_BaseURL sv) homeDomain then throw (Wrapf ''%w: home_domain must match %s'' ErrSEP45Validation)
           else
           bindE (if clientDomain = [] then ret []
                  else handleE (sep45_fetchSigningKeyFromClientDomain env sv clientDomain)
                    (\<lambda>e. throw (Wrapf ''%w: fetching signing key for client_domain %s: %w'' ErrSEP45Internal)) ret) (\<lambda>clientDomainAccount.
           bindE (handleE (generateNonce env) (\<lambda>e. throw (Wrapf ''%w: generating nonce: %w'' ErrSEP45Internal)) ret) (\<lambda>nonce.
           bindE (handleE (nonceStore_Store (s5_NonceTTL sv) nonce) (\<lambda>e. throw (Wrapf ''%w: storing nonce: %w'' ErrSEP45Internal)) ret) (\<lambda>_.
           bindE (simulate_challenge env sv [ScvMap (Some (challenge_fields sv account clientDomain clientDomainAccount homeDomain nonce webAuthDomain))]) (\<lambda>authEntries.
           bindE (wrapE ''encoding authorization entries'' (liftE (f5_MarshalEntries env authEntries))) (\<lambda>rawEntries.
           ret (base64_EncodeToString rawEntries, s5_NetworkPassphrase sv))))))))"

section \<open>Validating a challenge\<close>

record webAuthVerifyArgs =
  wa_raw :: "(string \<times> string) list"
  wa_xdr :: "sc_val list"
  wa_clientAccount :: string
  wa_clientContractID :: string
  wa_homeDomain :: string
  wa_clientDomain :: string
  wa_clientDomainAccount :: string

record authEntryTracker =
  tr_serverVerified :: bool
  tr_clientFound :: bool
  tr_clientDomainFound :: bool

definition tracker_validate :: "authEntryTracker \<Rightarrow> bool \<Rightarrow> go_error + unit" where
  "tracker_validate t requireClientDomain =
     (if \<not> tr_serverVerified t then Inl (Errorf ''missing signed server authorization entry'')
      else if \<not> tr_clientFound t then Inl (Errorf ''missing client account authorization entry'')
      else if requireClientDomain \<and> \<not> tr_clientDomainFound t then Inl (Errorf ''missing client domain authorization entry'')
      else Inr ())"

definition ensureWebAuthInvocation :: "sep45Service \<Rightarrow> auth_entry \<Rightarrow> go_error + contract_fn" where
  "ensureWebAuthInvocation sv entry =
     (if en_Credentials entry \<in> {OtherCredentials, AddressCredentials None} then Inl (Errorf ''authorization entry missing address credentials'')
      else if ri_SubInvocations (en_RootInvocation entry) \<noteq> [] then Inl (Errorf ''authorization entries cannot contain sub-invocations'')
      else (case ri_ContractFn (en_RootInvocation entry) of
          None \<Rightarrow> Inl (Errorf ''authorization entry must invoke contract function'')
        | Some contractFn \<Rightarrow>
            (case cf_ContractAddress contractFn of
               ContractAddress (Some contractID) \<Rightarrow>
                 (if contractID \<noteq> s5_ContractID sv then Inl (Errorf ''authorization entry targets unexpected contract'')
                  else if cf_FunctionName contractFn \<noteq> ''web_auth_verify'' then Inl (Errorf ''authorization entry must call web_auth_verify'')
                  else Inr contractFn)
             | _ \<Rightarrow> Inl (Errorf ''authorization entry missing contract address''))))"

definition buildChallengeArgs :: "sep45_env \<Rightarrow> sep45Service \<Rightarrow> (string \<times> string) list \<Rightarrow> sc_val list \<Rightarrow> string \<Rightarrow> go_error + webAuthVerifyArgs" where
  "buildChallengeArgs env sv args argsXDR webAuthDomain =
     (let clientAccount = TrimSpace (arg_of args ''account''); homeDomain = TrimSpace (arg_of args ''home_domain'');
          challengeWebAuthDomain = TrimSpace (arg_of args ''web_auth_domain'');
          webAuthDomainAccount = TrimSpace (arg_of args ''web_auth_domain_account'');
          clientDomain = TrimSpace (arg_of args ''client_domain''); clientDomainAccount = TrimSpace (arg_of args ''client_domain_account'') in
      if clientAccount = [] then Inl (Errorf ''account argument is required'')
      else (case f5_DecodeContract env clientAccount of
          Inl e \<Rightarrow> Inl (Wrapf ''account must be a valid contract address'' e)
        | Inr contractID \<Rightarrow>
            (if homeDomain = [] then Inl (Errorf ''home_domain is required'')
             else if \<not> IsValidHomeDomain (f5_base env) (s5_BaseURL sv) homeDomain then Inl (Errorf ''home_domain must match %s'')
             else if challengeWebAuthDomain = [] then Inl (Errorf ''web_auth_domain is required'')
             else if ToLower challengeWebAuthDomain \<noteq> ToLower webAuthDomain then Inl (Errorf ''web_auth_domain must equal %s'')
             else if webAuthDomainAccount = [] then Inl (Errorf ''web_auth_domain_account is required'')
             else if \<not> se_IsValidEd25519PublicKey (f5_base env) webAuthDomainAccount then Inl (Errorf ''web_auth_domain_account must be a valid Stellar account'')
             else if webAuthDomainAccount \<noteq> s5_SigningKP sv then Inl (Errorf ''web_auth_domain_account must match server signing key'')
             else if clientDomainAccount \<noteq> [] \<and> clientDomain = [] then Inl (Errorf ''client_domain is required when client_domain_account is provided'')
             else if clientDomain \<noteq> [] \<and> clientDomainAccount = [] then Inl (Errorf ''client_domain_account is required when client_domain is provided'')
             else if clientDomain \<noteq> [] \<and> \<not> se_IsValidEd25519PublicKey (f5_base env) clientDomainAccount
               then Inl (Errorf ''client_domain_account must be a valid Stellar account'')
             else if TrimSpace (arg_of args ''nonce'') = [] then Inl (Errorf ''nonce is required'')
             else Inr \<lparr>wa_raw = args, wa_xdr = argsXDR, wa_clientAccount = clientAccount, wa_clientContractID = contractID,
                wa_homeDomain = homeDomain, wa_clientDomain = clientDomain, wa_clientDomainAccount = clientDomainAccount\<rparr>)))"

definition validateArguments ::
  "sep45_env \<Rightarrow> sep45Service \<Rightarrow> sc_val list \<Rightarrow> webAuthVerifyArgs option \<Rightarrow> string \<Rightarrow> go_error + webAuthVerifyArgs" where
  "validateArguments env sv args parsedArgs webAuthDomain =
     (case ExtractArgsMap args of
        Inl e \<Rightarrow> Inl (Wrapf ''extracting authorization arguments'' e)
      | Inr argsMap \<Rightarrow>
          (case parsedArgs of
             None \<Rightarrow> buildChallengeArgs env sv argsMap args webAuthDomain
           | Some p \<Rightarrow> (case compareArgs argsMap (wa_raw p) of Inl e \<Rightarrow> Inl e | Inr _ \<Rightarrow> Inr p)))"

definition verifyServerAuthEntry :: "sep45_env \<Rightarrow> sep45Service \<Rightarrow> auth_entry \<Rightarrow> go_error + unit" where
  "verifyServerAuthEntry env sv entry =
     (case en_Credentials entry of
        AddressCredentials (Some address) \<Rightarrow>
          (case ac_Signature address of
             ScvVec _ \<Rightarrow>
               (if ac_SignatureExpirationLedger address = 0 then Inl (Errorf ''server authorization entry missing expiration ledger'')
                else (case extractSignature (ac_Signature address) of
                    Inl e \<Rightarrow> Inl e
                  | Inr (publicKey, signature) \<Rightarrow>
                      (if publicKey \<noteq> s5_SigningPKBytes sv then Inl (Errorf ''server authorization entry signed by unexpected key'')
                       else (case BuildAuthorizationPayload env entry (s5_NetworkPassphrase sv) of
                           Inl e \<Rightarrow> Inl (Wrapf ''building authorization payload'' e)
                         | Inr payload \<Rightarrow>
                             (if se_Verify (f5_base env) (s5_SigningKP sv) payload signature then Inr ()
                              else Inl (Wrapf ''server authorization entry signature invalid'' (Errorf ''invalid signature'')))))))
           | _ \<Rightarrow> Inl (Errorf ''server authorization entry missing signature''))
      | _ \<Rightarrow> Inl (Errorf ''server authorization entry missing address credentials''))"

text \<open>\<open>ensureWebAuthInvocation\<close> comes first, so that there is an address.\<close>

definition processEntry ::
  "sep45_env \<Rightarrow> sep45Service \<Rightarrow> authEntryTracker \<Rightarrow> auth_entry \<Rightarrow> webAuthVerifyArgs \<Rightarrow> go_error + authEntryTracker" where
  "processEntry env sv t entry parsedArgs =
     (case en_Credentials entry of
        AddressCredentials (Some address) \<Rightarrow>
          (case ac_Address address of
             AccountAddress None \<Rightarrow> Inl (Errorf ''authorization entry missing account id'')
           | AccountAddress (Some accountAddress) \<Rightarrow>
               (if accountAddress = s5_SigningKP sv then
                  (case verifyServerAuthEntry env sv entry of Inl e \<Rightarrow> Inl e | Inr _ \<Rightarrow> Inr (t\<lparr>tr_serverVerified := True\<rparr>))
                else if wa_clientDomainAccount parsedArgs \<noteq> [] \<and> accountAddress = wa_clientDomainAccount parsedArgs
                  then Inr (t\<lparr>tr_clientDomainFound := True\<rparr>)
                else Inl (Errorf ''unexpected account authorization entry: %s''))
           | ContractAddress None \<Rightarrow> Inl (Errorf ''authorization entry missing contract id'')
           | ContractAddress (Some contractID) \<Rightarrow>
               (if contractID = wa_clientContractID parsedArgs then Inr (t\<lparr>tr_clientFound := True\<rparr>)
                else Inl (Errorf ''unexpected contract authorization entry''))
           | OtherAddress \<Rightarrow> Inl (Errorf ''unsupported authorization address type: %d''))
      | _ \<Rightarrow> Inl (Errorf ''invalid memory address or nil pointer dereference''))"

fun process_entries ::
  "sep45_env \<Rightarrow> sep45Service \<Rightarrow> string \<Rightarrow> auth_entry list \<Rightarrow> webAuthVerifyArgs option \<times> authEntryTracker
   \<Rightarrow> go_error + webAuthVerifyArgs option \<times> authEntryTracker" where
  "process_entries env sv webAuthDomain [] acc = Inr acc"
| "process_entries env sv webAuthDomain (entry # entries) (parsedArgs, tracker) =
     (case ensureWebAuthInvocation sv entry of
        Inl e \<Rightarrow> Inl (Wrapf ''%w: %w'' ErrSEP45Validation)
      | Inr contractFn \<Rightarrow>
          (case validateArguments env sv (cf_Args contractFn) parsedArgs webAuthDomain of
             Inl e \<Rightarrow> Inl (Wrapf ''%w: validating invocation arguments: %w'' ErrSEP45Validation)
           | Inr p \<Rightarrow>
               (case processEntry env sv tracker entry p of
                  Inl e \<Rightarrow> Inl (Wrapf ''%w: %w'' ErrSEP45Validation)
                | Inr tracker' \<Rightarrow> process_entries env sv webAuthDomain entries (Some p, tracker'))))"

definition deriveJTI :: "sep45_env \<Rightarrow> sep45Service \<Rightarrow> auth_entry list \<Rightarrow> go_error + string" where
  "deriveJTI env sv entries =
     (case entries of
        [] \<Rightarrow> Inl (Errorf ''authorization entries cannot be empty'')
      | entry # _ \<Rightarrow>
          (case f5_MarshalInvocation env (en_RootInvocation entry) of
             Inl e \<Rightarrow> Inl (Wrapf ''marshalling root invocation'' e)
           | Inr invocationBytes \<Rightarrow> Inr (f5_HexEncode env (f5_Sha256 env (f5_NetworkID env (s5_NetworkPassphrase sv) @ invocationBytes)))))"

definition Sep45JWTClaims_Valid :: "sep_env \<Rightarrow> int \<Rightarrow> jwt_claims \<Rightarrow> go_error + unit" where
  "Sep45JWTClaims_Valid env now c =
     (if jc_Issuer c = [] then Inl (Errorf ''issuer is required'')
      else if jc_Subject c = [] then Inl (Errorf ''subject is required'')
      else if jc_ID c = [] then Inl (Errorf ''jti (JWT ID) is required'')
      else if jc_IssuedAt c = None then Inl (Errorf ''iat (issued at) is required'')
      else if jc_ExpiresAt c = None then Inl (Errorf ''exp (expires at) is required'')
      else (case se_RegisteredClaims_Valid env now c of
          Inl e \<Rightarrow> Inl (Wrapf ''validating registered claims'' e)
        | Inr _ \<Rightarrow>
            (if jc_ClientDomain c \<noteq> [] \<and> length (TrimSpace (jc_ClientDomain c)) = 0 then Inl (Errorf ''client_domain cannot be empty if provided'')
             else if jc_HomeDomain c \<noteq> [] \<and> length (TrimSpace (jc_HomeDomain c)) = 0 then Inl (Errorf ''home_domain cannot be empty if provided'')
             else Inr ())))"

definition GenerateSEP45Token ::
  "sep_env \<Rightarrow> string \<Rightarrow> int \<Rightarrow> string \<Rightarrow> string \<Rightarrow> string \<Rightarrow> string \<Rightarrow> string \<Rightarrow> int \<Rightarrow> int \<Rightarrow> go_error + string" where
  "GenerateSEP45Token env secret now issuer subject jti clientDomain homeDomain iat expires =
     (case signToken env secret (Sep45JWTClaims_Valid env now)
        \<lparr>jc_Issuer = issuer, jc_Subject = subject, jc_ID = jti, jc_IssuedAt = Some iat, jc_ExpiresAt = Some expires,
         jc_ClientDomain = clientDomain, jc_HomeDomain = homeDomain\<rparr> of
        Inl e \<Rightarrow> Inl (Wrapf ''generating SEP45 token'' e)
      | Inr t \<Rightarrow> Inr t)"

text \<open>The entries that the client sent, decoded and checked.\<close>

definition read_entries ::
  "sep45_env \<Rightarrow> sep45Service \<Rightarrow> string \<Rightarrow> string \<Rightarrow> go_error + auth_entry list \<times> webAuthVerifyArgs" where
  "read_entries env sv webAuthDomain encodedEntries =
     (if encodedEntries = [] then Inl (Wrapf ''%w: authorization_entries is required'' ErrSEP45Validation)
      else (case ValidateAndDecodeBase64XDR encodedEntries DefaultMaxXDRDecodedSize of
          Inl e \<Rightarrow> Inl (Wrapf ''%w: authorization entries: %w'' ErrSEP45Validation)
        | Inr rawEntries \<Rightarrow>
            (case f5_UnmarshalEntries env rawEntries of
               Inl e \<Rightarrow> Inl (Wrapf ''%w: unmarshalling authorization entries: %w'' ErrSEP45Validation)
             | Inr entries \<Rightarrow>
                 (if entries = [] then Inl (Wrapf ''%w: authorization entries cannot be empty'' ErrSEP45Validation)
                  else (case process_entries env sv webAuthDomain entries
                      (None, \<lparr>tr_serverVerified = False, tr_clientFound = False, tr_clientDomainFound = False\<rparr>) of
                      Inl e \<Rightarrow> Inl e
                    | Inr (None, tracker) \<Rightarrow> Inl (Wrapf ''%w: missing authorization arguments'' ErrSEP45Validation)
                    | Inr (Some parsedArgs, tracker) \<Rightarrow>
                        (case tracker_validate tracker (wa_clientDomainAccount parsedArgs \<noteq> []) of
                           Inl e \<Rightarrow> Inl (Wrapf ''%w: %w'' ErrSEP45Validation)
                         | Inr _ \<Rightarrow> Inr (entries, parsedArgs)))))))"

definition sep45_token :: "sep45_env \<Rightarrow> sep45Service \<Rightarrow> auth_entry list \<Rightarrow> webAuthVerifyArgs \<Rightarrow> ('z sep_state_scheme, go_error, string) prog" where
  "sep45_token env sv entries parsedArgs =
     handleE (liftE (deriveJTI env sv entries)) (\<lambda>e. throw (Wrapf ''%w: deriving JTI: %w'' ErrSEP45Internal)) (\<lambda>jti.
     let protocolScheme = (case se_url_Parse (f5_base env) (s5_BaseURL sv) of
         Some (scheme, host) \<Rightarrow> if scheme \<noteq> [] then scheme else ''http'' | None \<Rightarrow> ''http'') in
     bindE (getsE conn_now) (\<lambda>iat.
     handleE (liftE (GenerateSEP45Token (f5_base env) (s5_JWTSecret sv) iat
         (protocolScheme @ ''://'' @ wa_homeDomain parsedArgs @ ''/sep45/auth'') (wa_clientAccount parsedArgs) jti
         (wa_clientDomain parsedArgs) (wa_homeDomain parsedArgs) (iat div time_Second) ((iat + s5_JWTExpiration sv) div time_Second)))
       (\<lambda>e. throw (Wrapf ''%w: generating SEP45 JWT: %w'' ErrSEP45Internal)) ret))"

definition sep45_ValidateChallenge :: "sep45_env \<Rightarrow> sep45Service \<Rightarrow> string option \<Rightarrow> string \<Rightarrow> ('z sep_state_scheme, go_error, string) prog" where
  "sep45_ValidateChallenge env sv tenantURL authorizationEntries =
     (let webAuthDomain = TrimSpace (GetWebAuthDomain (f5_base env) tenantURL (s5_BaseURL sv)) in
      if webAuthDomain = [] then throw (Wrapf ''%w: unable to determine web_auth_domain'' ErrSEP45Internal)
      else (case read_entries env sv webAuthDomain (TrimSpace authorizationEntries) of
          Inl e \<Rightarrow> throw e
        | Inr (entries, parsedArgs) \<Rightarrow>
            bindE (handleE (nonceStore_Consume (arg_of (wa_raw parsedArgs) ''nonce'')) (\<lambda>e. throw (Wrapf ''%w: consuming nonce: %w'' ErrSEP45Internal)) ret)
              (\<lambda>validNonce.
            if \<not> validNonce then throw (Wrapf ''%w: nonce is invalid or expired'' ErrSEP45Validation)
            else if wa_xdr parsedArgs = [] then throw (Wrapf ''%w: unable to rebuild invocation arguments'' ErrSEP45Internal)
            else
            bindE (handleE (liftE (f5_NewTransaction env
                \<lparr>st_OperationSource = s5_SigningKP sv, st_Call = web_auth_call sv (wa_xdr parsedArgs), st_Auth = entries\<rparr>))
              (\<lambda>e. throw (Wrapf ''%w: building transaction: %w'' ErrSEP45Internal)) ret) (\<lambda>tx.
            bindE (handleE (liftE (f5_Base64 env tx)) (\<lambda>e. throw (Wrapf ''%w: encoding transaction: %w'' ErrSEP45Internal)) ret) (\<lambda>txB64.
            bindE (sep_call (\<lambda>n. f5_Simulate env n txB64)) (\<lambda>sim.
            case sim of
              Inl simErr \<Rightarrow> throw (wrapSimErr simErr)
            | Inr _ \<Rightarrow> sep45_token env sv entries parsedArgs))))))"

section \<open>The handlers\<close>

definition sep45_GetChallenge ::
  "sep45_env \<Rightarrow> sep45Service \<Rightarrow> string option \<Rightarrow> string \<Rightarrow> string \<Rightarrow> string \<Rightarrow> ('z sep_state_scheme, go_error, string \<times> string) prog" where
  "sep45_GetChallenge env sv tenantURL account homeDomain clientDomain =
     (let req = \<lparr>c5_Account = account, c5_HomeDomain = homeDomain,
          c5_ClientDomain = (if TrimSpace clientDomain \<noteq> [] then Some clientDomain else None)\<rparr> in
      case SEP45ChallengeRequest_Validate env req of
        Inl e \<Rightarrow> throw (HTTPError 400 (se_Error (f5_base env) e) None)
      | Inr _ \<Rightarrow> handleE (sep45_CreateChallenge env sv tenantURL req)
          (\<lambda>err. if error_is err ErrSEP45Validation then throw (HTTPError 400 (se_Error (f5_base env) err) (Some err))
             else throw (HTTPError 500 ''Failed to create challenge'' (Some err))) ret)"

definition sep45_PostChallenge :: "sep45_env \<Rightarrow> sep45Service \<Rightarrow> string option \<Rightarrow> auth_body \<Rightarrow> ('z sep_state_scheme, go_error, string) prog" where
  "sep45_PostChallenge env sv tenantURL body =
     bindE (case body of
         FormBody (Inl e) \<Rightarrow> throw (HTTPError 400 ''invalid form data'' (Some e))
       | FormBody (Inr entries) \<Rightarrow> ret entries
       | JSONBody (Inl e) \<Rightarrow> throw (HTTPError 400 ''invalid request body'' (Some e))
       | JSONBody (Inr entries) \<Rightarrow> ret entries
       | UnsupportedBody \<Rightarrow> throw (HTTPError 400 ''unsupported content type. Expected application/x-www-form-urlencoded or application/json'' None))
     (\<lambda>authorizationEntries.
     case SEP45ValidationRequest_Validate authorizationEntries of
       Inl e \<Rightarrow> throw (HTTPError 400 (se_Error (f5_base env) e) None)
     | Inr _ \<Rightarrow> handleE (sep45_ValidateChallenge env sv tenantURL authorizationEntries)
         (\<lambda>err. if error_is err ErrSEP45Validation then throw (HTTPError 400 ''challenge validation failed'' (Some err))
            else throw (HTTPError 500 ''challenge validation failed'' (Some err))) ret)"

end
