(* ===== verification/Sep45_Props.thy ===== *)
theory Sep45_Props
  imports Sep10_Props Sep45
begin

text \<open>
  What a token for a contract account proves: every entry authorizes the same call of \<open>web_auth_verify\<close>, the server
  signed its own, the nonce was fresh, and the network accepted the call with these entries.
\<close>

section \<open>The entries\<close>

definition authorizes :: "sep45_env \<Rightarrow> sep45Service \<Rightarrow> webAuthVerifyArgs \<Rightarrow> auth_entry \<Rightarrow> bool" where
  "authorizes env sv p entry \<longleftrightarrow> ri_SubInvocations (en_RootInvocation entry) = [] \<and>
     (\<exists>args raw. ri_ContractFn (en_RootInvocation entry) = Some (web_auth_call sv args) \<and> ExtractArgsMap args = Inr raw \<and>
        compareArgs raw (wa_raw p) = Inr ())"

definition server_signed :: "sep45_env \<Rightarrow> sep45Service \<Rightarrow> auth_entry \<Rightarrow> bool" where
  "server_signed env sv entry \<longleftrightarrow>
     (\<exists>address payload signature. en_Credentials entry = AddressCredentials (Some address) \<and>
        ac_Address address = AccountAddress (Some (s5_SigningKP sv)) \<and> ac_SignatureExpirationLedger address \<noteq> 0 \<and>
        extractSignature (ac_Signature address) = Inr (s5_SigningPKBytes sv, signature) \<and>
        BuildAuthorizationPayload env entry (s5_NetworkPassphrase sv) = Inr payload \<and> se_Verify (f5_base env) (s5_SigningKP sv) payload signature)"

definition entry_address :: "auth_entry \<Rightarrow> entry_sc_address" where
  "entry_address entry = (case en_Credentials entry of AddressCredentials (Some a) \<Rightarrow> ac_Address a | _ \<Rightarrow> OtherAddress)"

definition expected_entry :: "sep45_env \<Rightarrow> sep45Service \<Rightarrow> webAuthVerifyArgs \<Rightarrow> auth_entry \<Rightarrow> bool" where
  "expected_entry env sv p entry \<longleftrightarrow> server_signed env sv entry \<or>
     entry_address entry = ContractAddress (Some (wa_clientContractID p)) \<or>
     wa_clientDomainAccount p \<noteq> [] \<and> entry_address entry = AccountAddress (Some (wa_clientDomainAccount p))"

definition tracked :: "sep45_env \<Rightarrow> sep45Service \<Rightarrow> webAuthVerifyArgs \<Rightarrow> auth_entry list \<Rightarrow> authEntryTracker \<Rightarrow> bool" where
  "tracked env sv p entries t \<longleftrightarrow>
     (tr_serverVerified t \<longrightarrow> list_ex (server_signed env sv) entries) \<and>
     (tr_clientFound t \<longrightarrow> list_ex (\<lambda>e. entry_address e = ContractAddress (Some (wa_clientContractID p))) entries) \<and>
     (tr_clientDomainFound t \<longrightarrow> list_ex (\<lambda>e. entry_address e = AccountAddress (Some (wa_clientDomainAccount p))) entries)"

definition args_valid :: "sep45_env \<Rightarrow> sep45Service \<Rightarrow> string \<Rightarrow> webAuthVerifyArgs \<Rightarrow> bool" where
  "args_valid env sv webAuthDomain p \<longleftrightarrow> ExtractArgsMap (wa_xdr p) = Inr (wa_raw p) \<and>
     wa_clientAccount p = TrimSpace (arg_of (wa_raw p) ''account'') \<and> f5_DecodeContract env (wa_clientAccount p) = Inr (wa_clientContractID p) \<and>
     IsValidHomeDomain (f5_base env) (s5_BaseURL sv) (wa_homeDomain p) \<and>
     ToLower (TrimSpace (arg_of (wa_raw p) ''web_auth_domain'')) = ToLower webAuthDomain \<and>
     TrimSpace (arg_of (wa_raw p) ''web_auth_domain_account'') = s5_SigningKP sv \<and>
     (wa_clientDomain p = []) = (wa_clientDomainAccount p = [])"

lemma compareArgs_refl: "distinct (map fst m) \<Longrightarrow> compareArgs m m = Inr ()"
  by (auto simp: compareArgs_def arg_of_def list_all_iff)

lemma extract_args_distinct: "extract_args es acc = Inr m \<Longrightarrow> distinct (map fst acc) \<Longrightarrow> distinct (map fst m)"
proof (induction es acc rule: extract_args.induct)
  case (2 k v entries result)
  from 2(2) obtain symbol s where "k = ScvSymbol symbol" "v = ScvString s" "extract_args entries (AList.update symbol (TrimSpace s) result) = Inr m"
    by (auto split: sc_val.splits)
  with 2(1) [of symbol s] 2(3) show ?case by (simp add: distinct_update)
qed simp

lemma ExtractArgsMap_distinct: "ExtractArgsMap args = Inr m \<Longrightarrow> distinct (map fst m)"
  by (auto simp: ExtractArgsMap_def split: list.splits sc_val.splits option.splits dest: extract_args_distinct)

lemma buildChallengeArgs_valid:
  assumes "buildChallengeArgs env sv raw args web = Inr p" and "ExtractArgsMap args = Inr raw"
  shows "args_valid env sv web p" and "wa_raw p = raw"
  using assms by (auto simp: buildChallengeArgs_def args_valid_def Let_def split: if_splits sum.splits)

lemma validateArguments_ok:
  assumes "validateArguments env sv args q web = Inr p"
  shows "\<exists>raw. ExtractArgsMap args = Inr raw \<and> compareArgs raw (wa_raw p) = Inr ()"
    and "case q of None \<Rightarrow> args_valid env sv web p | Some p' \<Rightarrow> p = p'"
proof -
  from assms obtain raw where raw: "ExtractArgsMap args = Inr raw"
    and cases: "case q of None \<Rightarrow> buildChallengeArgs env sv raw args web = Inr p | Some p' \<Rightarrow> compareArgs raw (wa_raw p') = Inr () \<and> p = p'"
    by (auto simp: validateArguments_def split: sum.splits option.splits)
  with compareArgs_refl [OF ExtractArgsMap_distinct [OF raw]] show
    "\<exists>raw. ExtractArgsMap args = Inr raw \<and> compareArgs raw (wa_raw p) = Inr ()"
    "case q of None \<Rightarrow> args_valid env sv web p | Some p' \<Rightarrow> p = p'"
    by (auto split: option.splits dest: buildChallengeArgs_valid)
qed

lemma ensureWebAuthInvocation_ok:
  assumes "ensureWebAuthInvocation sv entry = Inr fn"
  shows "ri_SubInvocations (en_RootInvocation entry) = []" and "ri_ContractFn (en_RootInvocation entry) = Some fn"
    and "fn = web_auth_call sv (cf_Args fn)"
  using assms by (auto simp: ensureWebAuthInvocation_def web_auth_call_def split: if_splits option.splits entry_sc_address.splits)

lemma verifyServerAuthEntry_signed:
  assumes "verifyServerAuthEntry env sv entry = Inr ()" and "entry_address entry = AccountAddress (Some (s5_SigningKP sv))"
  shows "server_signed env sv entry"
  using assms
  by (auto simp: verifyServerAuthEntry_def server_signed_def entry_address_def
      split: credentials.splits option.splits sc_val.splits if_splits sum.splits)

lemma processEntry_tracked:
  assumes "processEntry env sv t entry p = Inr t'" and "tracked env sv p entries t"
  shows "tracked env sv p (entries @ [entry]) t'" and "expected_entry env sv p entry"
  using assms
  by (auto simp: processEntry_def tracked_def expected_entry_def entry_address_def list_ex_iff
      split: credentials.splits option.splits entry_sc_address.splits if_splits sum.splits
      dest!: verifyServerAuthEntry_signed)

definition entries_ok :: "sep45_env \<Rightarrow> sep45Service \<Rightarrow> string \<Rightarrow> auth_entry list \<Rightarrow> webAuthVerifyArgs \<Rightarrow> authEntryTracker \<Rightarrow> bool" where
  "entries_ok env sv web entries p t \<longleftrightarrow> args_valid env sv web p \<and>
     list_all (\<lambda>e. authorizes env sv p e \<and> expected_entry env sv p e) entries \<and> tracked env sv p entries t"

lemma process_entries_ok:
  assumes "process_entries env sv web entries (q, t) = Inr (Some p, t')"
    and "case q of None \<Rightarrow> pre = [] \<and> \<not> tr_serverVerified t \<and> \<not> tr_clientFound t \<and> \<not> tr_clientDomainFound t | Some p' \<Rightarrow> entries_ok env sv web pre p' t"
  shows "entries_ok env sv web (pre @ entries) p t'"
  using assms
proof (induction entries arbitrary: q t pre)
  case Nil
  then show ?case by simp
next
  case (Cons entry entries)
  from Cons.prems(1) obtain fn p1 t1 where fn: "ensureWebAuthInvocation sv entry = Inr fn"
    and p1: "validateArguments env sv (cf_Args fn) q web = Inr p1" and t1: "processEntry env sv t entry p1 = Inr t1"
    and rest: "process_entries env sv web entries (Some p1, t1) = Inr (Some p, t')"
    by (auto split: sum.splits)
  have start: "tracked env sv p1 pre t" "args_valid env sv web p1" "list_all (\<lambda>e. authorizes env sv p1 e \<and> expected_entry env sv p1 e) pre"
    using Cons.prems(2) validateArguments_ok(2) [OF p1] by (auto simp: entries_ok_def tracked_def split: option.splits)
  have "authorizes env sv p1 entry"
    using ensureWebAuthInvocation_ok [OF fn] validateArguments_ok(1) [OF p1] unfolding authorizes_def by metis
  with start processEntry_tracked [OF t1 start(1)] have "entries_ok env sv web (pre @ [entry]) p1 t1"
    by (simp add: entries_ok_def)
  with Cons.IH [OF rest, of "pre @ [entry]"] show ?case by simp
qed

lemma process_entries_some:
  "process_entries env sv web entries (q, t) = Inr (None, t') \<Longrightarrow> q = None \<and> entries = []"
  by (induction entries arbitrary: q t) (auto split: sum.splits)

text \<open>All that is checked before the nonce is consumed.\<close>

definition entries_accepted :: "sep45_env \<Rightarrow> sep45Service \<Rightarrow> string \<Rightarrow> auth_entry list \<Rightarrow> webAuthVerifyArgs \<Rightarrow> bool" where
  "entries_accepted env sv web entries p \<longleftrightarrow> args_valid env sv web p \<and>
     list_all (\<lambda>e. authorizes env sv p e \<and> expected_entry env sv p e) entries \<and>
     list_ex (server_signed env sv) entries \<and> list_ex (\<lambda>e. entry_address e = ContractAddress (Some (wa_clientContractID p))) entries \<and>
     (wa_clientDomain p \<noteq> [] \<longrightarrow> list_ex (\<lambda>e. entry_address e = AccountAddress (Some (wa_clientDomainAccount p))) entries)"

lemma read_entries_ok:
  assumes "read_entries env sv web encoded = Inr (entries, p)"
  shows "\<exists>raw. base64_DecodeString encoded = Inr raw \<and> f5_UnmarshalEntries env raw = Inr entries" and "entries_accepted env sv web entries p"
proof -
  from assms obtain raw t where "ValidateAndDecodeBase64XDR encoded DefaultMaxXDRDecodedSize = Inr raw" "f5_UnmarshalEntries env raw = Inr entries"
    and run: "process_entries env sv web entries (None, \<lparr>tr_serverVerified = False, tr_clientFound = False, tr_clientDomainFound = False\<rparr>) = Inr (Some p, t)"
    and t: "tracker_validate t (wa_clientDomainAccount p \<noteq> []) = Inr ()"
    by (auto simp: read_entries_def split: if_splits sum.splits option.splits prod.splits)
  then show "\<exists>raw. base64_DecodeString encoded = Inr raw \<and> f5_UnmarshalEntries env raw = Inr entries"
    by (auto simp: ValidateAndDecodeBase64XDR_def split: if_splits sum.splits)
  from process_entries_ok [OF run, of "[]"] have "entries_ok env sv web entries p t" by simp
  with t show "entries_accepted env sv web entries p"
    by (auto simp: entries_ok_def entries_accepted_def tracked_def tracker_validate_def args_valid_def split: if_splits)
qed

section \<open>The token\<close>

definition simulated :: "sep45_env \<Rightarrow> sep45Service \<Rightarrow> auth_entry list \<Rightarrow> webAuthVerifyArgs \<Rightarrow> bool" where
  "simulated env sv entries p \<longleftrightarrow> (\<exists>tx txB64 n results.
     f5_NewTransaction env \<lparr>st_OperationSource = s5_SigningKP sv, st_Call = web_auth_call sv (wa_xdr p), st_Auth = entries\<rparr> = Inr tx \<and>
     f5_Base64 env tx = Inr txB64 \<and> f5_Simulate env n txB64 = Inr results)"

definition contract_token :: "sep45_env \<Rightarrow> sep45Service \<Rightarrow> int \<Rightarrow> webAuthVerifyArgs \<Rightarrow> string \<Rightarrow> bool" where
  "contract_token env sv now p token \<longleftrightarrow> (\<exists>c. se_SignedString (f5_base env) (s5_JWTSecret sv) c = Inr token \<and>
     jc_Subject c = wa_clientAccount p \<and> jc_HomeDomain c = wa_homeDomain p \<and> jc_ClientDomain c = wa_clientDomain p \<and>
     jc_IssuedAt c = Some (now div time_Second) \<and> jc_ExpiresAt c = Some ((now + s5_JWTExpiration sv) div time_Second))"

lemma handled_ok: "handleE m (\<lambda>e. throw (f e)) ret s = (Inr x, s') \<longleftrightarrow> m s = (Inr x, s')"
  by (auto simp: handleE_def throw_def ret_def split: prod.splits sum.splits)

lemma sep45_token_ok:
  assumes "sep45_token env sv entries p s = (Inr token, s')"
  shows "contract_token env sv (conn_now s) p token" and "s' = s"
proof -
  from assms obtain jti scheme where "GenerateSEP45Token (f5_base env) (s5_JWTSecret sv) (conn_now s) scheme (wa_clientAccount p) jti
      (wa_clientDomain p) (wa_homeDomain p) (conn_now s div time_Second) ((conn_now s + s5_JWTExpiration sv) div time_Second) = Inr token" and s': "s' = s"
    unfolding sep45_token_def by (elim handleE_cases) (auto simp: prog_ok handled_ok Let_def)
  then show "contract_token env sv (conn_now s) p token"
    by (auto simp: GenerateSEP45Token_def signToken_def contract_token_def split: sum.splits)
  show "s' = s" by (fact s')
qed

lemma sep45_outcome:
  assumes "sep45_ValidateChallenge env sv tenantURL encoded s = (Inr token, s')"
  shows "\<exists>raw entries p. base64_DecodeString (TrimSpace encoded) = Inr raw \<and> f5_UnmarshalEntries env raw = Inr entries \<and>
    entries_accepted env sv (TrimSpace (GetWebAuthDomain (f5_base env) tenantURL (s5_BaseURL sv))) entries p \<and>
    fresh_nonce (arg_of (wa_raw p) ''nonce'') s s' \<and> simulated env sv entries p \<and> contract_token env sv (conn_now s) p token"
proof -
  let ?web = "TrimSpace (GetWebAuthDomain (f5_base env) tenantURL (s5_BaseURL sv))"
  from assms obtain entries p where read: "read_entries env sv ?web (TrimSpace encoded) = Inr (entries, p)"
    by (auto simp: sep45_ValidateChallenge_def Let_def throw_def split: if_splits sum.splits)
  with assms obtain s1 where consume: "nonceStore_Consume (arg_of (wa_raw p) ''nonce'') s = (Inr True, s1)"
    and rest: "bindE (handleE (liftE (f5_NewTransaction env
                \<lparr>st_OperationSource = s5_SigningKP sv, st_Call = web_auth_call sv (wa_xdr p), st_Auth = entries\<rparr>))
              (\<lambda>e. throw (Wrapf ''%w: building transaction: %w'' ErrSEP45Internal)) ret) (\<lambda>tx.
            bindE (handleE (liftE (f5_Base64 env tx)) (\<lambda>e. throw (Wrapf ''%w: encoding transaction: %w'' ErrSEP45Internal)) ret) (\<lambda>txB64.
            bindE (sep_call (\<lambda>n. f5_Simulate env n txB64)) (\<lambda>sim.
            case sim of Inl simErr \<Rightarrow> throw (wrapSimErr simErr) | Inr _ \<Rightarrow> sep45_token env sv entries p))) s1 = (Inr token, s')"
    by (auto simp: sep45_ValidateChallenge_def Let_def prog_ok handled_ok split: if_splits)
  then obtain tx txB64 where tx: "f5_NewTransaction env \<lparr>st_OperationSource = s5_SigningKP sv, st_Call = web_auth_call sv (wa_xdr p), st_Auth = entries\<rparr> = Inr tx"
    "f5_Base64 env tx = Inr txB64"
    and sim: "(case f5_Simulate env (sep_calls s1) txB64 of Inl simErr \<Rightarrow> throw (wrapSimErr simErr) | Inr _ \<Rightarrow> sep45_token env sv entries p)
      (s1\<lparr>sep_calls := Suc (sep_calls s1)\<rparr>) = (Inr token, s')"
    by (auto simp: prog_ok handled_ok)
  from sim obtain results where res: "f5_Simulate env (sep_calls s1) txB64 = Inr results"
    and tok: "sep45_token env sv entries p (s1\<lparr>sep_calls := Suc (sep_calls s1)\<rparr>) = (Inr token, s')"
    by (cases "f5_Simulate env (sep_calls s1) txB64") (simp_all add: throw_def)
  from tx res have "simulated env sv entries p" unfolding simulated_def by blast
  with read_entries_ok [OF read] Consume_ok [OF consume] sep45_token_ok [OF tok] show ?thesis
    unfolding fresh_nonce_def by fastforce
qed

section \<open>An example\<close>

definition example_args :: "sc_val list" where
  "example_args = [ScvMap (Some [NewSymbolStringEntry ''account'' ''CONTRACT'', NewSymbolStringEntry ''home_domain'' ''sdp.org'',
     NewSymbolStringEntry ''nonce'' ''42'', NewSymbolStringEntry ''web_auth_domain'' ''sdp.org'', NewSymbolStringEntry ''web_auth_domain_account'' ''SERVER''])]"

definition example_entry :: "entry_sc_address \<Rightarrow> auth_entry" where
  "example_entry a = \<lparr>en_Credentials = AddressCredentials (Some \<lparr>ac_Address = a, ac_Nonce = 7, ac_SignatureExpirationLedger = 0, ac_Signature = ScvOther\<rparr>),
     en_RootInvocation = \<lparr>ri_ContractFn = Some \<lparr>cf_ContractAddress = ContractAddress (Some ''WEBAUTH''), cf_FunctionName = ''web_auth_verify'',
        cf_Args = example_args\<rparr>, ri_SubInvocations = []\<rparr>\<rparr>"

definition example_signing_env :: sep45_env where
  "example_signing_env = \<lparr>f5_base = (example_sep_env 1)\<lparr>se_Verify := \<lambda>key payload signature. signature = key @ payload\<rparr>, f5_IsValidContractAddress = (\<lambda>a. True),
     f5_DecodeContract = (\<lambda>a. Inr a), f5_DecodeAccount = (\<lambda>a. Inr a), f5_UnmarshalEntries = (\<lambda>raw. Inl (Errorf ''xdr'')),
     f5_MarshalEntries = (\<lambda>es. Inr []), f5_UnmarshalEntry = (\<lambda>b. Inl (Errorf ''xdr'')), f5_MarshalInvocation = (\<lambda>r. Inr ''invocation''),
     f5_MarshalPreimage = (\<lambda>network n l r. Inr (network @ ''preimage'')), f5_NetworkID = id, f5_Sha256 = id, f5_HexEncode = id, f5_KeySign = (\<lambda>key payload. Inr (key @ payload)),
     f5_NewTransaction = (\<lambda>tx. Inr ''tx''), f5_Base64 = (\<lambda>tx. Inr tx), f5_Simulate = (\<lambda>n tx. Inr []), f5_LatestLedger = (\<lambda>n. Inr 90),
     f5_RandomUint32 = (\<lambda>n. Inr 42)\<rparr>"

definition example_signed_entry :: auth_entry where
  "example_signed_entry = (case SignAuthEntry example_signing_env (example_entry (AccountAddress (Some ''SERVER''))) 100 ''SERVER'' ''net'' of
     Inr e \<Rightarrow> e | Inl e \<Rightarrow> example_entry OtherAddress)"

definition example_sep45_env :: sep45_env where
  "example_sep45_env = example_signing_env\<lparr>f5_UnmarshalEntries := \<lambda>raw. Inr [example_signed_entry, example_entry (ContractAddress (Some ''CONTRACT''))]\<rparr>"

definition example_options :: SEP45ServiceOptions where
  "example_options = \<lparr>so_HasRPCClient = True, so_JWTManager = Some ''secret'', so_NetworkPassphrase = ''net'', so_WebAuthVerifyContractID = ''WEBAUTH'',
     so_ServerSigningKeypair = Some ''SERVER'', so_BaseURL = ''https://sdp.org'', so_AllowHTTPRetry = False, so_NonceStore = Some DefaultSEP45NonceExpiration\<rparr>"

definition example_sep45 :: sep45Service where
  "example_sep45 = \<lparr>s5_JWTSecret = ''secret'', s5_NetworkPassphrase = ''net'', s5_ContractID = ''WEBAUTH'', s5_SigningKP = ''SERVER'', s5_SigningPKBytes = ''SERVER'',
     s5_AllowHTTPRetry = False, s5_BaseURL = ''https://sdp.org'', s5_JWTExpiration = defaultSEP45JWTExpiration, s5_NonceTTL = DefaultSEP45NonceExpiration\<rparr>"

lemma example_sep45_built: "NewSEP45Service example_signing_env example_options = Inr example_sep45"
  by code_simp

lemma example_sep45_validated:
  "fst (sep45_ValidateChallenge example_sep45_env example_sep45 None ''AAAA'' (sep_start\<lparr>sep_nonces := [(''42'', 9 * time_Second)]\<rparr>)) = Inr ''CONTRACT''"
  by code_simp

lemma example_entry_signed:
  "SignAuthEntry example_signing_env (example_entry (AccountAddress (Some ''SERVER''))) 100 ''SERVER'' ''net'' = Inr example_signed_entry"
  "entry_address (example_entry (AccountAddress (Some ''SERVER''))) = AccountAddress (Some ''SERVER'')"
  by code_simp+

section \<open>The properties\<close>

text \<open>C22: a token for a contract account is answered only for entries that all authorize the same call of the server's
  contract, without calls below it, of which one is signed by the server's key and one is the account's own (and one the
  client domain's, when there is one) and none is anyone else's; the nonce was stored, has not expired and is deleted;
  the network accepted the call with exactly these entries. The token is for that account.\<close>

theorem contract_token_is_earned:
  assumes "sep45_ValidateChallenge env sv tenantURL encoded s = (Inr token, s')"
  shows "\<exists>raw entries p. base64_DecodeString (TrimSpace encoded) = Inr raw \<and> f5_UnmarshalEntries env raw = Inr entries \<and>
    entries_accepted env sv (TrimSpace (GetWebAuthDomain (f5_base env) tenantURL (s5_BaseURL sv))) entries p \<and>
    fresh_nonce (arg_of (wa_raw p) ''nonce'') s s' \<and> simulated env sv entries p \<and> contract_token env sv (conn_now s) p token"
  using sep45_outcome [OF assms] .

theorem contract_token_is_earned_witness:
  "\<exists>entries p. entries_accepted example_sep45_env example_sep45 ''sdp.org'' entries p \<and> simulated example_sep45_env example_sep45 entries p"
proof -
  obtain s' where "sep45_ValidateChallenge example_sep45_env example_sep45 None ''AAAA'' (sep_start\<lparr>sep_nonces := [(''42'', 9 * time_Second)]\<rparr>) = (Inr ''CONTRACT'', s')"
    using example_sep45_validated by (metis prod.collapse)
  from contract_token_is_earned [OF this] obtain entries p
    where "entries_accepted example_sep45_env example_sep45 (TrimSpace (GetWebAuthDomain (f5_base example_sep45_env) None (s5_BaseURL example_sep45))) entries p"
      and "simulated example_sep45_env example_sep45 entries p" by blast
  moreover have "TrimSpace (GetWebAuthDomain (f5_base example_sep45_env) None (s5_BaseURL example_sep45)) = ''sdp.org''" by code_simp
  ultimately show ?thesis by auto
qed

text \<open>C23: the server accepts the entry that it signed: what \<open>SignAuthEntry\<close> answers for an entry of the server's account
  passes \<open>verifyServerAuthEntry\<close>, when the service was built from the same key and signatures are not empty.\<close>

theorem server_accepts_its_signature:
  assumes "NewSEP45Service env opts = Inr sv" and "SignAuthEntry env entry validUntil (s5_SigningKP sv) (s5_NetworkPassphrase sv) = Inr e'"
    and "entry_address entry = AccountAddress (Some (s5_SigningKP sv))" and "validUntil \<noteq> 0" and "s5_SigningPKBytes sv \<noteq> []"
    and "\<And>payload. f5_KeySign env (s5_SigningKP sv) payload \<noteq> Inr []"
  shows "verifyServerAuthEntry env sv e' = Inr ()"
proof -
  from assms(1) have key: "f5_DecodeAccount env (s5_SigningKP sv) = Inr (s5_SigningPKBytes sv)"
    by (auto simp: NewSEP45Service_def split: if_splits option.splits sum.splits)
  from assms(3) obtain address where entry: "en_Credentials entry = AddressCredentials (Some address)" "ac_Address address = AccountAddress (Some (s5_SigningKP sv))"
    by (auto simp: entry_address_def split: credentials.splits option.splits)
  with assms(2) key assms(4-6) show ?thesis
    by (auto simp: SignAuthEntry_def verifyServerAuthEntry_def extractSignature_def BuildAuthorizationPayload_def Let_def split: if_splits sum.splits)
qed

theorem server_accepts_its_signature_witness:
  "verifyServerAuthEntry example_signing_env example_sep45 example_signed_entry = Inr ()"
  by (rule server_accepts_its_signature [OF example_sep45_built _ _, of "example_entry (AccountAddress (Some ''SERVER''))" 100])
    (simp_all add: example_sep45_def example_entry_signed, simp_all add: example_signing_env_def)

end
