(* ===== verification/Direct_Props.thy ===== *)
theory Direct_Props
  imports Payment_Evolution Tenant_Example
begin

text \<open>
  What a direct payment is: it is created whole or not at all, for a wallet that may receive it, and within the balance that
  the payments in progress leave.
\<close>

section \<open>What the checks keep\<close>

definition same_catalog :: "'z platform_scheme \<Rightarrow> 'z platform_scheme \<Rightarrow> bool" where
  "same_catalog s s' \<longleftrightarrow> payments s' = payments s \<and> assets s' = assets s \<and> wallets s' = wallets s"

interpretation same_catalog: db_relation same_catalog
  by unfold_locales (simp_all add: same_catalog_def tss_rollback_def)

lemma same_catalog_basics [keeps_intros]:
  "keeps same_catalog (liftE x)" "keeps same_catalog (net_call f)" "keeps same_catalog (PaymentModel_GetAll ilike q ty)"
  "keeps same_catalog (rw_update_where P g)" "keeps same_catalog (ReceiverWalletModel_GetOrInsertReceiverWallet i)"
proof -
  show "keeps same_catalog (liftE x)" "keeps same_catalog (net_call f)"
    by (cases x) (simp_all add: keeps_def liftE_def net_call_def throw_def ret_def same_catalog_def)
  show "keeps same_catalog (PaymentModel_GetAll ilike q ty)"
    unfolding PaymentModel_GetAll_def by (intro keeps_intros same_catalog.keeps_db_call) (simp add: same_catalog_def)
  show "keeps same_catalog (rw_update_where P g)" "keeps same_catalog (ReceiverWalletModel_GetOrInsertReceiverWallet i)"
    unfolding rw_update_where_def ReceiverWalletModel_GetOrInsertReceiverWallet_def
    by (intro keeps_intros same_catalog.keeps_db_call; simp add: Let_def same_catalog_def)+
qed

lemma same_catalog_checks:
  "keeps same_catalog (AssetResolver_Resolve sdk ar)" "keeps same_catalog (ReceiverResolver_Resolve env rr)"
  "keeps same_catalog (WalletResolver_Resolve sdk wr)" "keeps same_catalog (validateAssetWalletCompatibility de a w)"
  "keeps same_catalog (getReceiverWallet env r wid addr)" "keeps same_catalog (direct_validateBalance env de acc a amount)"
  unfolding AssetResolver_Resolve_def ReceiverResolver_Resolve_def WalletResolver_Resolve_def or_not_found_def ReceiverModel_Get_def
    ReceiverModel_GetByWalletAddress_def ReceiverModel_GetByContacts_def ReceiverWalletModel_GetByStellarAccountAndMemo_def
    not_found_as_def query_wallet_def AssetModel_Get_def AssetModel_GetByCodeAndIssuer_def get_asset_def WalletModel_Get_def get_wallet_def
    get_first_def validateAssetWalletCompatibility_def WalletModel_GetAssets_def getReceiverWallet_def create_ready_wallet_def
    ReceiverWalletModel_GetByReceiverIDsAndWalletID_def ReceiverWalletModel_Update_def check_memo_def ReceiverWalletModel_GetByID_def
    direct_validateBalance_def checkTrustlineExists_def calculatePendingAmountForAsset_def ReceiverVerificationModel_GetAllByReceiverID_def
  by (intro keeps_intros)+

section \<open>What the checks establish\<close>

lemma read_ok: "db_call (getsE f) s = (Inr x, s') \<Longrightarrow> x = f s'"
  by (elim db_call_cases) (auto simp: getsE_def)

lemma first_ok: "get_first m s = (Inr x, s') \<Longrightarrow> \<exists>xs. m s = (Inr (x # xs), s')"
  unfolding get_first_def by (erule bindE_cases) (auto simp: throw_def ret_def split: list.splits)

lemma not_found_ok: "handleE m (\<lambda>e. if P e then throw (g e) else throw (h e)) ret s = (Inr x, s') \<longleftrightarrow> m s = (Inr x, s')"
  by (auto simp: handleE_def throw_def ret_def split: prod.splits sum.splits)

lemma asset_resolved: "AssetResolver_Resolve sdk ref s = (Inr asset, s') \<Longrightarrow> asset \<in> set (assets s')"
  by (auto simp: AssetResolver_Resolve_def or_not_found_def AssetModel_Get_def AssetModel_GetByCodeAndIssuer_def get_asset_def not_found_ok throw_ok
      split: sum.splits option.splits if_splits dest!: first_ok read_ok filter_eq_ConsD [OF sym])


lemma joined_wallet:
  assumes "(rw, w) \<in> set (joined_wallets s)"
  shows "rw \<in> set (receiver_wallets s)" and "w \<in> set (wallets s)"
proof -
  obtain q where q: "q \<in> set (receiver_wallets s)" "with_wallet s q = Some (rw, w)"
    using assms unfolding joined_wallets_def in_map_filter by blast
  then show "rw \<in> set (receiver_wallets s)" by (auto simp: with_wallet_def)
  from q(2) have "List.find (\<lambda>w. wl_ID w = rw_wallet_id q) (wallets s) = Some w" by (auto simp: with_wallet_def)
  then show "w \<in> set (wallets s)" unfolding find_Some_iff by (metis nth_mem)
qed

lemma wallet_resolved: "WalletResolver_Resolve sdk ref s = (Inr wallet, s') \<Longrightarrow> wallet \<in> set (wallets s')"
  by (auto simp: WalletResolver_Resolve_def or_not_found_def WalletModel_Get_def get_wallet_def not_found_ok throw_ok bindE_ok wrapE_ok ret_ok
      ReceiverWalletModel_GetByStellarAccountAndMemo_def not_found_as_def query_wallet_def
      split: sum.splits option.splits if_splits dest!: first_ok read_ok filter_eq_ConsD [OF sym] intro: joined_wallet)

definition wallet_supports :: "direct_env \<Rightarrow> Wallet \<Rightarrow> Asset \<Rightarrow> 'z platform_scheme \<Rightarrow> bool" where
  "wallet_supports de wallet asset s \<longleftrightarrow> wl_UserManaged wallet \<or>
     list_ex (\<lambda>a. as_ID a \<in> set (de_wallets_assets de (wl_ID wallet)) \<and> Asset_Equals a asset) (assets s)"

lemma compatible_ok: "validateAssetWalletCompatibility de asset wallet s = (Inr (), s') \<Longrightarrow> wallet_supports de wallet asset s'"
  by (auto simp: validateAssetWalletCompatibility_def WalletModel_GetAssets_def wallet_supports_def sql_order_by_def list_ex_iff prog_ok
      split: if_splits dest!: read_ok)

text \<open>The wallets with an id belong to a receiver and a kind.\<close>

definition owned :: "string \<Rightarrow> string \<Rightarrow> string \<Rightarrow> 'z platform_scheme \<Rightarrow> bool" where
  "owned i r w s \<longleftrightarrow> list_all (\<lambda>q. rw_ID q \<noteq> i \<or> rw_receiver_id q = r \<and> rw_wallet_id q = w) (receiver_wallets s)"

definition keeps_owner :: "string \<Rightarrow> string \<Rightarrow> string \<Rightarrow> 'z platform_scheme \<Rightarrow> 'z platform_scheme \<Rightarrow> bool" where
  "keeps_owner i r w s s' \<longleftrightarrow> (owned i r w s \<longrightarrow> owned i r w s')"

interpretation keeps_owner: db_relation "keeps_owner i r w" for i r w
  by unfold_locales (simp_all add: keeps_owner_def owned_def tss_rollback_def)

lemma update_owned: "keeps (keeps_owner i r w) (ReceiverWalletModel_Update env j u)"
proof -
  have "keeps (keeps_owner i r w) (rw_update_where P (set_receiver_wallet u))" for P
    unfolding rw_update_where_def
    by (rule keeps_owner.keeps_db_call)
      (auto simp: Let_def keeps_owner_def owned_def list_all_iff sql_update_def rw_touched_def set_receiver_wallet_def)
  then show ?thesis
    unfolding ReceiverWalletModel_Update_def check_memo_def ReceiverWalletModel_GetByID_def not_found_as_def query_wallet_def get_first_def
    by (intro keeps_intros)
qed

lemma created_wallet:
  assumes "create_ready_wallet env r w s = (Inr rw, s')"
  shows "rw \<in> set (receiver_wallets s')" and "rw_receiver_id rw = r" and "rw_wallet_id rw = w"
proof -
  from assms obtain i s1 s2 w' where ins: "ReceiverWalletModel_GetOrInsertReceiverWallet \<lparr>wi_ReceiverID = r, wi_WalletID = w\<rparr> s = (Inr i, s1)"
    and upd: "ReceiverWalletModel_Update env i (no_wallet_update\<lparr>wu_Status := ReadyReceiversWalletStatus\<rparr>) s1 = (Inr (), s2)"
    and get: "ReceiverWalletModel_GetByID i s2 = (Inr (rw, w'), s')"
    by (auto simp: create_ready_wallet_def prog_ok split: prod.splits)
  from ins obtain fs where "(let rw = inserted_wallet \<lparr>wi_ReceiverID = r, wi_WalletID = w\<rparr> (conn_uuid s (conn_uuid_next s)) (conn_now s);
      s' = s\<lparr>conn_faults := fs, receiver_wallets := receiver_wallets s @ [rw], conn_uuid_next := Suc (conn_uuid_next s)\<rparr>
    in receiver_wallets_ok s' \<and> i = rw_ID rw \<and> s1 = s')"
    unfolding ReceiverWalletModel_GetOrInsertReceiverWallet_def
    by (auto simp: prog_ok Let_def elim!: db_call_cases split: if_splits)
  then have "\<exists>new. receiver_wallets s1 = receiver_wallets s @ [new] \<and> rw_receiver_id new = r \<and> rw_wallet_id new = w \<and> new = inserted_wallet \<lparr>wi_ReceiverID = r, wi_WalletID = w\<rparr> i (conn_now s) \<and>
      distinct (map rw_ID (receiver_wallets s @ [new])) \<and> i = rw_ID new"
    by (intro exI conjI) (auto simp: Let_def receiver_wallets_ok_def inserted_wallet_def)
  then obtain new where new: "receiver_wallets s1 = receiver_wallets s @ [new]" "rw_receiver_id new = r" "rw_wallet_id new = w"
      "distinct (map rw_ID (receiver_wallets s @ [new]))" "i = rw_ID new" by blast
  then have "owned i r w s1" by (auto simp: owned_def list_all_iff) (metis imageI)+
  with keepsD [OF update_owned upd, of i r w] have owned: "owned i r w s2" by (simp add: keeps_owner_def)
  from get obtain xs where "filter (\<lambda>(rw, w). rw_ID rw = i) (joined_wallets s') = (rw, w') # xs"
    and state: "receiver_wallets s' = receiver_wallets s2"
    unfolding ReceiverWalletModel_GetByID_def not_found_as_def query_wallet_def
    by (auto simp: not_found_ok getsE_def dest!: first_ok elim!: db_call_cases)
  then have "(rw, w') \<in> set (filter (\<lambda>(rw, w). rw_ID rw = i) (joined_wallets s'))" by (metis list.set_intros(1))
  then have row: "rw \<in> set (receiver_wallets s')" and "rw_ID rw = i" by (auto dest: joined_wallet)
  then show "rw \<in> set (receiver_wallets s')" "rw_receiver_id rw = r" "rw_wallet_id rw = w"
    using owned state by (auto simp: owned_def list_all_iff)
qed

lemma receiver_wallet_ok:
  assumes "getReceiverWallet env r w addr s = (Inr rw, s')"
  shows "rw \<in> set (receiver_wallets s')" and "rw_receiver_id rw = r" and "rw_wallet_id rw = w"
proof -
  from assms obtain rws s1 where query: "db_call (getsE (\<lambda>s. filter (\<lambda>rw. rw_receiver_id rw \<in> set [r] \<and> rw_wallet_id rw = w) (receiver_wallets s))) s = (Inr rws, s1)"
    and rest: "(\<exists>ws. rws = rw # ws \<and> s' = s1) \<or> (\<exists>s2. create_ready_wallet env r w s2 = (Inr rw, s'))"
    unfolding getReceiverWallet_def ReceiverWalletModel_GetByReceiverIDsAndWalletID_def
    by (elim bindE_cases) (auto simp: prog_ok throw_ok ret_ok split: list.splits if_splits)
  from rest have "rw \<in> set (receiver_wallets s') \<and> rw_receiver_id rw = r \<and> rw_wallet_id rw = w"
  proof (elim disjE exE conjE)
    fix ws assume "rws = rw # ws" and "s' = s1"
    with read_ok [OF query] have "rw \<in> set (filter (\<lambda>rw. rw_receiver_id rw \<in> set [r] \<and> rw_wallet_id rw = w) (receiver_wallets s'))"
      by (metis list.set_intros(1))
    then show ?thesis by simp
  qed (use created_wallet in blast)
  then show "rw \<in> set (receiver_wallets s')" "rw_receiver_id rw = r" "rw_wallet_id rw = w" by blast+
qed


text \<open>The payments in progress of an asset.\<close>

definition in_progress_total :: "sdp_env \<Rightarrow> Asset \<Rightarrow> 'z platform_scheme \<Rightarrow> rat" where
  "in_progress_total env asset s =
     sum_list (map (\<lambda>p. case decimal_NewFromString env (pm_Amount (dp_row p)) of Inl e \<Rightarrow> 0 | Inr amount \<Rightarrow> amount)
       (filter (\<lambda>p. pm_Status (dp_row p) \<in> set PaymentInProgressStatuses \<and> Asset_Equals (dp_Asset p) asset) (base_payments s)))"

lemma base_payments_cong:
  assumes "payments s' = payments s" and "assets s' = assets s" and "wallets s' = wallets s"
    and "receiver_wallets s' = receiver_wallets s" and "disbursements s' = disbursements s"
  shows "base_payments s' = base_payments s"
proof -
  have "joined_payment s' = joined_payment s"
    by (rule ext) (simp add: joined_payment_def assms split: option.splits)
  with assms(1) show ?thesis by (simp add: base_payments_def)
qed

lemma removeEmpty_sum:
  "sum_list (map (\<lambda>p. h (pm_Amount (dp_row p))) (filter (\<lambda>p. Asset_Equals (dp_Asset p) asset) (removeEmptyDisbursementForDirect ps))) =
   sum_list (map (\<lambda>p. h (pm_Amount (dp_row p))) (filter (\<lambda>p. Asset_Equals (dp_Asset p) asset) ps))"
  by (induction ps) (simp_all add: removeEmptyDisbursementForDirect_def)

lemma pending_ok:
  assumes "calculatePendingAmountForAsset env asset s = (Inr owed, s')"
  shows "owed = in_progress_total env asset s'"
proof -
  let ?q = "no_filters\<lparr>qp_Status := Some (Many PaymentInProgressStatuses)\<rparr>"
  from assms obtain ps where run: "db_call (\<lambda>s. (newPaymentQuery never_ilike ?q QueryTypeSelectAll (base_payments s), s)) s = (Inr ps, s')"
    and sum: "owed = sum_list (map (\<lambda>p. case decimal_NewFromString env (pm_Amount (dp_row p)) of Inl e \<Rightarrow> 0 | Inr amount \<Rightarrow> amount)
       (filter (\<lambda>p. Asset_Equals (dp_Asset p) asset) (removeEmptyDisbursementForDirect ps)))"
    by (auto simp: calculatePendingAmountForAsset_def PaymentModel_GetAll_def prog_ok)
  from run have "newPaymentQuery never_ilike ?q QueryTypeSelectAll (base_payments s') = Inr ps"
    by (auto elim!: db_call_cases)
  then have ps: "ps = filter (\<lambda>p. pm_Status (dp_row p) \<in> set PaymentInProgressStatuses) (base_payments s')"
    by (simp add: newPaymentQuery_def empty_filter_def no_filters_def add_sorting_def payment_condition_def [abs_def] sql_order_by_def sort_key_const addArrayOrSingleCondition_def
        split: if_splits)
  show ?thesis
    unfolding sum removeEmpty_sum [where h = "\<lambda>a. case decimal_NewFromString env a of Inl e \<Rightarrow> 0 | Inr amount \<Rightarrow> amount"] ps in_progress_total_def
    by (simp add: conj_commute)
qed

lemma balance_ok:
  assumes "direct_validateBalance env de account asset amount s = (Inr (), s')"
  shows "\<exists>requested n balance. decimal_NewFromString env amount = Inr requested \<and> GetBalance env n account asset = Inr balance \<and>
    requested + in_progress_total env asset s' \<le> balance"
  using assms unfolding direct_validateBalance_def
  by (auto simp: prog_ok liftE_ok net_call_def not_less throw_ok dest!: pending_ok split: if_splits)


section \<open>Creating the payment\<close>

text \<open>What \<open>CreateDirectPayment\<close> adds: a ready payment of the amount of the request, of an asset of the platform that the wallet
  supports, to a receiver wallet of an enabled wallet that is ready or registered; and the amount and the payments of the
  asset that were in progress are covered by the balance that was asked for.\<close>

definition may_receive :: "direct_env \<Rightarrow> payment_row \<Rightarrow> Asset \<Rightarrow> 'z platform_scheme \<Rightarrow> bool" where
  "may_receive de p asset s \<longleftrightarrow> (\<exists>rw wallet. rw \<in> set (receiver_wallets s) \<and> wallet \<in> set (wallets s) \<and>
     pm_receiver_wallet_id p = rw_ID rw \<and> pm_receiver_id p = rw_receiver_id rw \<and> rw_wallet_id rw = wl_ID wallet \<and>
     rw_Status rw \<in> {ReadyReceiversWalletStatus, RegisteredReceiversWalletStatus} \<and> wl_Enabled wallet \<and> wallet_supports de wallet asset s)"

definition covered :: "sdp_env \<Rightarrow> TransactionAccount \<Rightarrow> string \<Rightarrow> Asset \<Rightarrow> 'z platform_scheme \<Rightarrow> bool" where
  "covered env account amount asset s \<longleftrightarrow> (\<exists>requested n balance. decimal_NewFromString env amount = Inr requested \<and>
     GetBalance env n account asset = Inr balance \<and> requested + in_progress_total env asset s \<le> balance)"

definition direct_payment_made ::
  "sdp_env \<Rightarrow> direct_env \<Rightarrow> CreateDirectPaymentRequest \<Rightarrow> TransactionAccount \<Rightarrow> 'z platform_scheme \<Rightarrow> 'z platform_scheme \<Rightarrow> bool" where
  "direct_payment_made env de req account s s' \<longleftrightarrow> (\<exists>p asset. payments s' = payments s @ [p] \<and>
     pm_Status p = ReadyPaymentStatus \<and> pm_Type p = PaymentTypeDirect \<and> numeric_column env (dr_Amount req) = Some (pm_Amount p) \<and>
     asset \<in> set (assets s') \<and> pm_asset_id p = as_ID asset \<and> may_receive de p asset s' \<and>
     covered env account (dr_Amount req) asset (s'\<lparr>payments := payments s\<rparr>))"

lemma direct_insert_ok:
  assumes "PaymentModel_CreateDirectPayment env i u s = (Inr x, s')"
  shows "\<exists>fs p n. s' = s\<lparr>conn_faults := fs, payments := payments s @ [p], conn_uuid_next := n\<rparr> \<and> pm_Status p = ReadyPaymentStatus \<and>
    pm_Type p = pi_PaymentType i \<and> numeric_column env (pi_Amount i) = Some (pm_Amount p) \<and> pm_asset_id p = pi_AssetID i \<and>
    pm_receiver_wallet_id p = pi_ReceiverWalletID i \<and> pm_receiver_id p = pi_ReceiverID i"
proof -
  let ?i = "i\<lparr>pi_DisbursementID := None\<rparr>"
  from assms obtain m where "pm_insert_exec env ReadyPaymentStatus m ?i s = (Inr x, s')"
    by (auto simp: PaymentModel_CreateDirectPayment_def wrapE_ok throw_ok split: sum.splits)
  then show ?thesis unfolding pm_insert_exec_def
  proof (cases rule: db_call_cases)
    case (run fs)
    then obtain p where p: "inserted_payment env ReadyPaymentStatus m ?i (s\<lparr>conn_faults := fs\<rparr>) = Some p"
      and s': "s' = s\<lparr>conn_faults := fs, payments := payments s @ [p], conn_uuid_next := Suc (conn_uuid_next s)\<rparr>"
      by (auto simp: Let_def split: option.splits if_splits)
    from p show ?thesis by (intro exI [of _ fs] exI [of _ p] exI [of _ "Suc (conn_uuid_next s)"] conjI s') (auto simp: inserted_payment_def)
  qed simp_all
qed

text \<open>The balance check reads.\<close>

lemma same_wallets_direct_balance: "keeps same_wallets (direct_validateBalance env de acc a amount)"
proof -
  have "keeps same_wallets (net_call f)" for f :: "nat \<Rightarrow> 'c" by (simp add: keeps_def net_call_def same_wallets_def)
  moreover have "keeps same_wallets (net_call f)" for f :: "nat \<Rightarrow> 'd" by (simp add: keeps_def net_call_def same_wallets_def)
  moreover have "keeps same_wallets (PaymentModel_GetAll ilike q ty)" for ilike q ty
    unfolding PaymentModel_GetAll_def by (intro keeps_intros same_wallets.keeps_db_call) (simp add: same_wallets_def)
  ultimately show ?thesis
    unfolding direct_validateBalance_def checkTrustlineExists_def calculatePendingAmountForAsset_def
    by (intro keeps_intros) 
qed

lemma direct_payment_body_ok:
  assumes "direct_payment_body env de req userID account s = (Inr x, s')"
  shows "direct_payment_made env de req account s s'"
proof -
  from assms obtain asset receiver wallet rw i s1 s2 s3 s4 s5 s6 s7 where asset: "AssetResolver_Resolve (env_sdk env) (dr_Asset req) s = (Inr asset, s1)"
    and receiver: "ReceiverResolver_Resolve env (dr_Receiver req) s1 = (Inr receiver, s2)"
    and wallet: "WalletResolver_Resolve (env_sdk env) (dr_Wallet req) s2 = (Inr wallet, s3)" and enabled: "wl_Enabled wallet"
    and supports: "validateAssetWalletCompatibility de asset wallet s3 = (Inr (), s4)"
    and rw: "getReceiverWallet env (rc_ID receiver) (wl_ID wallet) (wr_Address (dr_Wallet req)) s4 = (Inr rw, s5)"
    and status: "rw_Status rw \<in> {ReadyReceiversWalletStatus, RegisteredReceiversWalletStatus}"
    and balance: "direct_validateBalance env de account asset (dr_Amount req) s5 = (Inr (), s6)"
    and ins: "PaymentModel_CreateDirectPayment env
       \<lparr>pi_ReceiverID = rc_ID receiver, pi_DisbursementID = None, pi_PaymentType = PaymentTypeDirect, pi_Amount = dr_Amount req,
        pi_AssetID = as_ID asset, pi_ReceiverWalletID = rw_ID rw, pi_ExternalPaymentID = dr_ExternalPaymentID req\<rparr> userID s6 = (Inr i, s7)"
    and get: "PaymentModel_Get i s7 = (Inr x, s')"
    unfolding direct_payment_body_def by (auto simp: bindE_ok wrapE_ok throw_ok split: if_splits)
  note frame = same_catalog_checks(1) [THEN keepsD, OF asset] same_catalog_checks(2) [THEN keepsD, OF receiver]
    same_catalog_checks(3) [THEN keepsD, OF wallet] same_catalog_checks(4) [THEN keepsD, OF supports]
    same_catalog_checks(5) [THEN keepsD, OF rw] same_catalog_checks(6) [THEN keepsD, OF balance]
  from Get_row(2) [OF get] direct_insert_ok [OF ins] obtain p where s': "payments s' = payments s6 @ [p]" "assets s' = assets s6" "wallets s' = wallets s6"
      "receiver_wallets s' = receiver_wallets s6" "disbursements s' = disbursements s6"
    and p: "pm_Status p = ReadyPaymentStatus" "pm_Type p = PaymentTypeDirect" "numeric_column env (dr_Amount req) = Some (pm_Amount p)"
      "pm_asset_id p = as_ID asset" "pm_receiver_wallet_id p = rw_ID rw" "pm_receiver_id p = rc_ID receiver"
    by auto
  have same: "payments s6 = payments s" "assets s6 = assets s1" "wallets s6 = wallets s3" "assets s6 = assets s4" "receiver_wallets s6 = receiver_wallets s5"
    using frame same_wallets_direct_balance [THEN keepsD, OF balance] by (simp_all add: same_catalog_def same_wallets_def)
  have "in_progress_total env asset (s'\<lparr>payments := payments s\<rparr>) = in_progress_total env asset s6"
    using base_payments_cong [of "s'\<lparr>payments := payments s\<rparr>" s6] by (simp add: in_progress_total_def s' same(1))
  with balance_ok [OF balance] have "covered env account (dr_Amount req) asset (s'\<lparr>payments := payments s\<rparr>)"
    by (simp add: covered_def)
  moreover have "may_receive de p asset s'"
    using receiver_wallet_ok [OF rw] wallet_resolved [OF wallet] compatible_ok [OF supports] status enabled p(5,6)
    unfolding may_receive_def
    by (intro exI [of _ rw] exI [of _ wallet]) (simp add: wallet_supports_def s' same(1,3-5))
  moreover have "asset \<in> set (assets s')" using asset_resolved [OF asset] by (simp add: s' same(2))
  ultimately show ?thesis
    unfolding direct_payment_made_def using p by (intro exI [of _ p] exI [of _ asset]) (simp add: s' same(1))
qed


lemma made_faults:
  assumes "direct_payment_made env de req account (s\<lparr>conn_faults := fs\<rparr>) t"
  shows "direct_payment_made env de req account s (t\<lparr>conn_faults := gs\<rparr>)"
proof -
  have "base_payments (t\<lparr>conn_faults := gs, payments := ps\<rparr>) = base_payments (t\<lparr>payments := ps\<rparr>)" for ps
    by (rule base_payments_cong) simp_all
  with assms show ?thesis
    by (simp add: direct_payment_made_def covered_def in_progress_total_def may_receive_def wallet_supports_def)
qed

section \<open>An example\<close>

definition example_direct_env :: direct_env where
  "example_direct_env = \<lparr>de_wallets_assets = (\<lambda>w. if w = ''w'' then [''xlm''] else []), de_AccountDetail = (\<lambda>n a. Inl (Errorf ''not asked''))\<rparr>"

definition paying_env :: sdp_env where
  "paying_env = platform_env\<lparr>decimal_NewFromString := (\<lambda>a. if a = ''5'' \<or> a = ''5.0000000'' then Inr 5 else Inl (Errorf ''can't convert to decimal''))\<rparr>"

definition direct_request :: CreateDirectPaymentRequest where
  "direct_request = \<lparr>dr_Amount = ''5'', dr_Asset = \<lparr>ar_ID = Some ''xlm'', ar_Type = None, ar_Code = None, ar_Issuer = None, ar_ContractID = None\<rparr>,
     dr_Receiver = \<lparr>fr_ID = Some ''r'', fr_Email = None, fr_PhoneNumber = None, fr_WalletAddress = None\<rparr>,
     dr_Wallet = \<lparr>wr_ID = Some ''w'', wr_Address = None\<rparr>, dr_ExternalPaymentID = None\<rparr>"

definition direct_account :: TransactionAccount where
  "direct_account = \<lparr>ta_Address = replicate 56 CHR ''D'', ta_CircleWalletID = [], ta_Type = DistributionAccountStellarEnv, ta_Status = ''ACTIVE''\<rparr>"

lemma example_direct:
  "(case CreateDirectPayment paying_env example_direct_env direct_request ''me'' direct_account platform_funded of
      (r, s) \<Rightarrow> \<not> isl r \<and> map pm_Amount (payments s) = [''5.0000000''])"
  by code_simp

section \<open>The property\<close>

text \<open>C19: whatever fails on the way, a request for a direct payment either changes no payment and is answered by an error, or it
  adds exactly one ready payment of the requested amount, to a receiver wallet that may receive it, and the amount with what is in
  progress for its asset is covered by the balance of the distribution account.\<close>

theorem direct_payment_is_covered:
  assumes "CreateDirectPayment env de req userID account s = (r, s')"
  shows "payments s' = payments s \<and> isl r \<or> direct_payment_made env de req account s s'"
proof -
  from assms obtain x where run: "RunInTransactionWithResult sdp_rollback (direct_payment_body env de req userID account) s = (x, s')"
    and r: "isl r = isl x"
    unfolding CreateDirectPayment_def by (elim wrapE_cases) auto
  from run show ?thesis
  proof (cases rule: transaction_run_cases)
    case (committed fs gs y t)
    then show ?thesis using made_faults [OF direct_payment_body_ok] by blast
  qed (use r in \<open>auto simp: sdp_rollback_def\<close>)
qed

theorem direct_payment_is_covered_witness:
  "\<exists>s'. direct_payment_made paying_env example_direct_env direct_request direct_account platform_funded s' \<and> map pm_Amount (payments s') = [''5.0000000'']"
proof -
  obtain r s' where run: "CreateDirectPayment paying_env example_direct_env direct_request ''me'' direct_account platform_funded = (r, s')"
    by fastforce
  with example_direct direct_payment_is_covered [OF run] show ?thesis by auto
qed

end
