(* ===== verification/Staff_Auth.thy ===== *)
theory Staff_Auth
  imports Registration Disbursement_Handler
begin

text \<open>
  The authentication of the staff (\<open>src/stellar-auth/pkg/auth\<close>): users and their passwords, the tokens that reset a
  password, the codes of the second factor and the devices it remembers, roles, and the JWTs.

  bcrypt, the random source and the JWT library are parameters; the library's verdict on a token depends on the time.
  A user of a token may be missing, and its use is then a nil dereference.
\<close>

section \<open>State\<close>

record auth_user =
  au_id :: string
  au_first_name :: string
  au_last_name :: string
  au_email :: string
  au_encrypted_password :: string
  au_is_owner :: bool
  au_is_active :: bool
  au_roles :: "string list"

record password_reset =
  pr_token :: string
  pr_auth_user_id :: string
  pr_is_valid :: bool
  pr_created_at :: int

record mfaCode =
  mc_DeviceID :: string
  mc_UserID :: string
  mc_Code :: "string option"
  mc_DeviceExpiresAt :: "int option"
  mc_CodeExpiresAt :: "int option"

text \<open>What the login reads of the organization: its name and whether it switches the two checks off. \<open>staff_calls\<close> counts
  the calls to the outside.\<close>

record staff_organization =
  so_Name :: string
  so_CAPTCHADisabled :: "bool option"
  so_MFADisabled :: "bool option"

record staff_state = dbconn +
  auth_users :: "auth_user list"
  auth_user_password_reset :: "password_reset list"
  auth_user_mfa_codes :: "mfaCode list"
  staff_org :: staff_organization
  staff_calls :: nat

record User =
  us_ID :: string
  us_FirstName :: string
  us_LastName :: string
  us_Email :: string
  us_IsOwner :: bool
  us_IsActive :: bool
  us_Roles :: "string list"

text \<open>The claims of a token; the expiry is in seconds.\<close>

record staff_claims =
  cl_User :: "User option"
  cl_TenantID :: string
  cl_ExpiresAt :: "int option"

datatype parse_error = NotValidation go_error | Unverifiable go_error | Invalid

record staff_env =
  sa_ParseWithClaims :: "int \<Rightarrow> string \<Rightarrow> parse_error + staff_claims"
  sa_SignedString :: "staff_claims \<Rightarrow> go_error + string"
  sa_bcrypt_Generate :: "nat \<Rightarrow> string \<Rightarrow> go_error + string"
  sa_bcrypt_Compare :: "string \<Rightarrow> string \<Rightarrow> go_error + bool"
  sa_rand_Int :: "nat \<Rightarrow> nat \<Rightarrow> go_error + nat"
  sa_GetTenantFromContext :: "go_error + (string \<times> string)"
  sa_GetTenantByID :: "nat \<Rightarrow> string \<Rightarrow> go_error + unit"
  sa_IsTokenValid :: "nat \<Rightarrow> string \<Rightarrow> go_error + bool"
  sa_MFAEmail :: "string \<Rightarrow> string \<Rightarrow> go_error + string"
  sa_ForgotPasswordEmail :: "string \<Rightarrow> string \<Rightarrow> string \<Rightarrow> go_error + string"
  sa_SendInvitationMessage :: "nat \<Rightarrow> User \<Rightarrow> go_error + unit"
  sa_SendMessage :: "nat \<Rightarrow> string \<Rightarrow> string \<Rightarrow> go_error + unit"
  sa_ReCAPTCHADisabled :: bool
  sa_MFADisabled :: bool
  sa_expirationTimeInMinutes :: int
  sa_ownerRoleName :: string
  sa_commonPasswords :: "string \<Rightarrow> bool"
  sa_unicode_IsDigit :: "nat \<Rightarrow> bool"
  sa_unicode_IsSpecial :: "nat \<Rightarrow> bool"

definition staff_call :: "(nat \<Rightarrow> 'a) \<Rightarrow> ('z staff_state_scheme, go_error, 'a) prog" where
  "staff_call f = (\<lambda>s. (Inr (f (staff_calls s)), s\<lparr>staff_calls := Suc (staff_calls s)\<rparr>))"

definition staff_rollback :: "'z staff_state_scheme \<Rightarrow> 'z staff_state_scheme \<Rightarrow> 'z staff_state_scheme" where
  "staff_rollback before after = after\<lparr>auth_users := auth_users before,
     auth_user_password_reset := auth_user_password_reset before, auth_user_mfa_codes := auth_user_mfa_codes before\<rparr>"

definition ErrInvalidCredentials :: go_error where "ErrInvalidCredentials = Errorf ''invalid credentials''"
definition ErrNoRowsAffected :: go_error where "ErrNoRowsAffected = Errorf ''no rows affected''"
definition ErrInvalidResetPasswordToken :: go_error where "ErrInvalidResetPasswordToken = Errorf ''invalid reset password token''"
definition ErrExpiredResetPasswordToken :: go_error where "ErrExpiredResetPasswordToken = Errorf ''expired reset password token''"
definition ErrUserNotFound :: go_error where "ErrUserNotFound = Errorf ''user not found''"
definition ErrUserEmailAlreadyExists :: go_error where "ErrUserEmailAlreadyExists = Errorf ''a user with this email already exists''"
definition ErrUserHasValidToken :: go_error where "ErrUserHasValidToken = Errorf ''user has a valid token''"
definition ErrInvalidToken :: go_error where "ErrInvalidToken = Errorf ''invalid token''"
definition ErrMFACodeInvalid :: go_error where "ErrMFACodeInvalid = Errorf ''MFA code is invalid''"
definition ErrMFANoCodeForUserDevice :: go_error where "ErrMFANoCodeForUserDevice = Errorf ''no MFA code for user and device''"
definition ErrPasswordTooShort :: go_error where "ErrPasswordTooShort = Errorf ''password should have at least %d characters''"
definition ErrPasswordTooLong :: go_error where "ErrPasswordTooLong = Errorf ''password should have at most %d characters''"

section \<open>Random strings and passwords\<close>

definition DefaultCharset :: string where
  "DefaultCharset = ''abcdefghijklmnopqrstuvwxyzABCDEFGHIJKLMNOPQRSTUVWXYZ0123456789''"

definition SpecialCharset :: string where "SpecialCharset = ''!@#$%&*+-_''"

definition PasswordCharset :: string where "PasswordCharset = DefaultCharset @ SpecialCharset"

definition rand_Int :: "staff_env \<Rightarrow> nat \<Rightarrow> ('z staff_state_scheme, go_error, nat) prog" where
  "rand_Int env bound = bindE (staff_call (\<lambda>n. sa_rand_Int env n bound)) liftE"

fun StringWithCharset :: "staff_env \<Rightarrow> nat \<Rightarrow> string \<Rightarrow> ('z staff_state_scheme, go_error, string) prog" where
  "StringWithCharset env 0 charset = ret []"
| "StringWithCharset env (Suc n) charset =
     bindE (wrapE ''error generating random number in StringWithCharset'' (rand_Int env (length charset))) (\<lambda>i.
     if i \<ge> length charset then throw (Errorf ''index out of range'')
     else bindE (StringWithCharset env n charset) (\<lambda>cs. ret (charset ! i # cs)))"

definition MinPasswordLength :: nat where "MinPasswordLength = 12"
definition MaxPasswordLength :: nat where "MaxPasswordLength = 36"

definition Encrypt :: "staff_env \<Rightarrow> string \<Rightarrow> ('z staff_state_scheme, go_error, string) prog" where
  "Encrypt env password =
     (if length password < MinPasswordLength then throw ErrPasswordTooShort
      else if length password > MaxPasswordLength then throw ErrPasswordTooLong
      else wrapE ''encrypting password'' (bindE (staff_call (\<lambda>n. sa_bcrypt_Generate env n password)) liftE))"

definition ComparePassword :: "staff_env \<Rightarrow> string \<Rightarrow> string \<Rightarrow> ('z staff_state_scheme, go_error, bool) prog" where
  "ComparePassword env encryptedPassword password =
     wrapE ''comparing encrypted password and password'' (liftE (sa_bcrypt_Compare env encryptedPassword password))"

section \<open>The authenticator\<close>

text \<open>The constraints of the table of users: its keys, and the length of the names.\<close>

definition auth_users_ok :: "auth_user list \<Rightarrow> bool" where
  "auth_users_ok us \<longleftrightarrow> distinct (map au_id us) \<and> list_all (\<lambda>u. rune_count (au_first_name u) \<le> 128 \<and> rune_count (au_last_name u) \<le> 128) us"

definition users_write :: "(auth_user list \<Rightarrow> auth_user list) \<Rightarrow> (auth_user list \<Rightarrow> 'a) \<Rightarrow> ('z staff_state_scheme, go_error, 'a) prog" where
  "users_write f result = db_call (\<lambda>s.
     let us = f (auth_users s) in
     if \<not> auth_users_ok us then (Inl (ConstraintViolation ''auth_users''), s)
     else if \<not> distinct (map au_email us) then (Inl (ConstraintViolation ''auth_users_email_key''), s)
     else (Inr (result (auth_users s)), s\<lparr>auth_users := us\<rparr>))"

definition users_update :: "(auth_user \<Rightarrow> bool) \<Rightarrow> (auth_user \<Rightarrow> auth_user) \<Rightarrow> ('z staff_state_scheme, go_error, nat) prog" where
  "users_update P f = users_write (sql_update P f) (\<lambda>us. length (filter P us))"

definition affected :: "nat \<Rightarrow> ('s, go_error, unit) prog" where
  "affected numRowsAffected = (if numRowsAffected = 0 then throw ErrNoRowsAffected else ret ())"

definition find_user :: "(auth_user \<Rightarrow> bool) \<Rightarrow> ('z staff_state_scheme, go_error, auth_user) prog" where
  "find_user P = get_first (db_call (getsE (\<lambda>s. filter P (auth_users s))))"

definition no_user :: User where
  "no_user = \<lparr>us_ID = [], us_FirstName = [], us_LastName = [], us_Email = [], us_IsOwner = False, us_IsActive = False, us_Roles = []\<rparr>"

definition ValidateCredentials :: "staff_env \<Rightarrow> string \<Rightarrow> string \<Rightarrow> ('z staff_state_scheme, go_error, User) prog" where
  "ValidateCredentials env email password =
     bindE (handleE (find_user (\<lambda>u. au_email u = TrimSpace (ToLower email) \<and> au_is_active u))
        (\<lambda>err. if error_is err ErrNoRows then throw ErrInvalidCredentials else throw (Wrapf ''querying user'' err)) ret) (\<lambda>au.
     bindE (wrapE ''comparing password'' (ComparePassword env (au_encrypted_password au) password)) (\<lambda>isEqual.
     if \<not> isEqual then throw ErrInvalidCredentials
     else ret (no_user\<lparr>us_ID := au_id au, us_Email := au_email au, us_FirstName := au_first_name au, us_LastName := au_last_name au\<rparr>)))"

definition auth_ValidateEmail :: "string \<Rightarrow> go_error + unit" where
  "auth_ValidateEmail email =
     (if email = [] then Inl (Errorf ''email field is required'')
      else if \<not> rx_match rxEmail email then Inl (Errorf ''the provided email %q is not valid'') else Inr ())"

definition SanitizeAndValidate :: "User \<Rightarrow> go_error + User" where
  "SanitizeAndValidate u =
     (let v = u\<lparr>us_Email := TrimSpace (ToLower (us_Email u)), us_FirstName := TrimSpace (us_FirstName u), us_LastName := TrimSpace (us_LastName u)\<rparr> in
      if us_Email v = [] then Inl (Errorf ''email is required'')
      else (case auth_ValidateEmail (us_Email v) of
          Inl err \<Rightarrow> Inl (Wrapf ''email is invalid'' err)
        | Inr _ \<Rightarrow>
            (if us_FirstName v = [] then Inl (Errorf ''first name is required'')
             else if us_LastName v = [] then Inl (Errorf ''last name is required'')
             else Inr v)))"

definition random_password :: "staff_env \<Rightarrow> ('z staff_state_scheme, go_error, string) prog" where
  "random_password env =
     bindE (wrapE ''generating random number in create user'' (rand_Int env (MaxPasswordLength - MinPasswordLength + 1))) (\<lambda>randomNumber.
     wrapE ''generating random password string in create user'' (StringWithCharset env (randomNumber + MinPasswordLength) PasswordCharset))"

definition CreateUser :: "staff_env \<Rightarrow> User \<Rightarrow> string \<Rightarrow> ('z staff_state_scheme, go_error, User) prog" where
  "CreateUser env user password =
     bindE (wrapE ''validating user fields'' (liftE (SanitizeAndValidate user))) (\<lambda>user.
     bindE (if password = [] then random_password env else ret password) (\<lambda>password.
     bindE (wrapE ''encrypting password'' (Encrypt env password)) (\<lambda>encryptedPassword.
     bindE (getsE (\<lambda>s. conn_uuid s (conn_uuid_next s))) (\<lambda>userID.
     bindE (modifyE (\<lambda>s. s\<lparr>conn_uuid_next := Suc (conn_uuid_next s)\<rparr>)) (\<lambda>_.
     bindE (handleE (users_write (\<lambda>us. us @ [\<lparr>au_id = userID, au_first_name = us_FirstName user, au_last_name = us_LastName user, au_email = us_Email user,
            au_encrypted_password = encryptedPassword, au_is_owner = us_IsOwner user, au_is_active = True, au_roles = us_Roles user\<rparr>]) (\<lambda>_. ()))
        (\<lambda>err. if err = ConstraintViolation ''auth_users_email_key'' then throw ErrUserEmailAlreadyExists else throw (Wrapf ''inserting user'' err)) ret) (\<lambda>_.
     ret (user\<lparr>us_ID := userID, us_IsActive := True\<rparr>)))))))"

definition set_user_fields :: "string \<Rightarrow> string \<Rightarrow> string \<Rightarrow> string option \<Rightarrow> auth_user \<Rightarrow> auth_user" where
  "set_user_fields firstName lastName email encrypted u = u
     \<lparr>au_first_name := (if firstName = [] then au_first_name u else firstName), au_last_name := (if lastName = [] then au_last_name u else lastName),
      au_email := (if email = [] then au_email u else email),
      au_encrypted_password := (case encrypted of None \<Rightarrow> au_encrypted_password u | Some p \<Rightarrow> p)\<rparr>"

definition UpdateUser :: "staff_env \<Rightarrow> string \<Rightarrow> string \<Rightarrow> string \<Rightarrow> string \<Rightarrow> string \<Rightarrow> ('z staff_state_scheme, go_error, unit) prog" where
  "UpdateUser env userID firstName lastName email password =
     (let firstName = TrimSpace firstName; lastName = TrimSpace lastName; email = TrimSpace (ToLower email) in
      if firstName = [] \<and> lastName = [] \<and> email = [] \<and> password = []
      then throw (Errorf ''provide at least one of these values: firstName, lastName, email or password'')
      else
      bindE (if email = [] then ret () else wrapE ''validating email'' (liftE (auth_ValidateEmail email))) (\<lambda>_.
      bindE (if password = [] then ret None
             else bindE (wrapE ''encrypting password'' (Encrypt env password)) (\<lambda>p. ret (Some p))) (\<lambda>encryptedPassword.
      bindE (wrapE ''updating user in the database'' (users_update (\<lambda>u. au_id u = userID) (set_user_fields firstName lastName email encryptedPassword)))
        affected)))"

definition updateIsActive :: "string \<Rightarrow> bool \<Rightarrow> ('z staff_state_scheme, go_error, unit) prog" where
  "updateIsActive userID isActive =
     bindE (wrapE ''error updating is_active for user ID %s'' (users_update (\<lambda>u. au_id u = userID) (\<lambda>u. u\<lparr>au_is_active := isActive\<rparr>))) affected"

definition ActivateUser :: "string \<Rightarrow> ('z staff_state_scheme, go_error, unit) prog" where
  "ActivateUser userID = wrapE ''error activating user ID %s'' (updateIsActive userID True)"

definition DeactivateUser :: "string \<Rightarrow> ('z staff_state_scheme, go_error, unit) prog" where
  "DeactivateUser userID = wrapE ''error deactivating user ID %s'' (updateIsActive userID False)"

text \<open>The insertion of a token runs a trigger that invalidates the earlier tokens of the user.\<close>

definition resetTokenLength :: nat where "resetTokenLength = 10"

definition reset_lifetime :: int where "reset_lifetime = 20 * time_Minute"

definition has_valid_token :: "string \<Rightarrow> 'z staff_state_scheme \<Rightarrow> bool" where
  "has_valid_token email s \<longleftrightarrow> list_ex (\<lambda>ar. list_ex (\<lambda>au. pr_auth_user_id ar = au_id au \<and> au_email au = email) (auth_users s) \<and>
     pr_is_valid ar \<and> pr_created_at ar + reset_lifetime > conn_now s) (auth_user_password_reset s)"

definition insert_reset_token :: "string \<Rightarrow> string \<Rightarrow> ('z staff_state_scheme, go_error, nat) prog" where
  "insert_reset_token email resetToken = db_call (\<lambda>s.
     case List.find (\<lambda>u. au_email u = email) (auth_users s) of
       None \<Rightarrow> (Inr 0, s)
     | Some u \<Rightarrow>
         (if resetToken \<in> pr_token ` set (auth_user_password_reset s) then (Inl (ConstraintViolation ''auth_user_password_reset''), s)
          else (Inr 1, s\<lparr>auth_user_password_reset :=
            sql_update (\<lambda>r. pr_auth_user_id r = au_id u) (\<lambda>r. r\<lparr>pr_is_valid := False\<rparr>) (auth_user_password_reset s) @
            [\<lparr>pr_token = resetToken, pr_auth_user_id = au_id u, pr_is_valid = True, pr_created_at = conn_now s\<rparr>]\<rparr>)))"

definition ForgotPassword :: "staff_env \<Rightarrow> string \<Rightarrow> ('z staff_state_scheme, go_error, string) prog" where
  "ForgotPassword env email =
     (let email = TrimSpace (ToLower email) in
      if email = [] then throw (Errorf ''generating user reset password token: email field is required'')
      else
      bindE (wrapE ''generating random reset token in forgot password'' (StringWithCharset env resetTokenLength DefaultCharset)) (\<lambda>resetToken.
      bindE (wrapE ''checking if user has valid token'' (db_call (getsE (has_valid_token email)))) (\<lambda>hasValidToken.
      if hasValidToken then throw ErrUserHasValidToken
      else
      bindE (wrapE ''inserting user reset password token in the database'' (insert_reset_token email resetToken)) (\<lambda>rowsAffected.
      if rowsAffected = 0 then throw ErrUserNotFound else ret resetToken))))"

definition resets_update :: "(password_reset \<Rightarrow> bool) \<Rightarrow> (password_reset \<Rightarrow> password_reset) \<Rightarrow> ('z staff_state_scheme, go_error, unit) prog" where
  "resets_update P f = db_call (modifyE (\<lambda>s. s\<lparr>auth_user_password_reset := sql_update P f (auth_user_password_reset s)\<rparr>))"

definition invalidateResetPasswordToken :: "string \<Rightarrow> ('z staff_state_scheme, go_error, unit) prog" where
  "invalidateResetPasswordToken resetToken = wrapE ''error invalidating reset password token in the database''
     (resets_update (\<lambda>r. pr_token r = resetToken) (\<lambda>r. r\<lparr>pr_is_valid := False\<rparr>))"

definition reset_body :: "staff_env \<Rightarrow> string \<Rightarrow> string \<Rightarrow> ('z staff_state_scheme, go_error, unit) prog" where
  "reset_body env resetToken password =
     bindE (handleE (get_first (db_call (getsE (\<lambda>s. filter (\<lambda>r. pr_token r = resetToken \<and> pr_is_valid r) (auth_user_password_reset s)))))
        (\<lambda>err. if error_is err ErrNoRows then throw ErrInvalidResetPasswordToken
               else throw (Wrapf ''error searching password reset token for user in database'' err)) ret) (\<lambda>aupr.
     bindE (getsE conn_now) (\<lambda>now.
     if pr_created_at aupr + reset_lifetime < now then throw ErrExpiredResetPasswordToken
     else
     bindE (wrapE ''error trying to encrypt user password'' (Encrypt env password)) (\<lambda>encryptedPassword.
     bindE (wrapE ''error reseting user password in the database''
       (users_update (\<lambda>u. au_id u = pr_auth_user_id aupr) (\<lambda>u. u\<lparr>au_encrypted_password := encryptedPassword\<rparr>))) (\<lambda>_.
     wrapE ''error invalidating reset password token'' (invalidateResetPasswordToken resetToken)))))"

definition ResetPassword :: "staff_env \<Rightarrow> string \<Rightarrow> string \<Rightarrow> ('z staff_state_scheme, go_error, unit) prog" where
  "ResetPassword env resetToken password = RunInTransaction staff_rollback (reset_body env resetToken password)"

definition UpdatePassword :: "staff_env \<Rightarrow> User \<Rightarrow> string \<Rightarrow> string \<Rightarrow> ('z staff_state_scheme, go_error, unit) prog" where
  "UpdatePassword env user currentPassword newPassword =
     (if currentPassword = [] \<or> newPassword = [] then throw (Errorf ''provide currentPassword and newPassword values'')
      else
      bindE (wrapE ''validating credentials'' (ValidateCredentials env (us_Email user) currentPassword)) (\<lambda>_.
      bindE (wrapE ''encrypting password'' (Encrypt env newPassword)) (\<lambda>encryptedPassword.
      bindE (wrapE ''updating user password in the database''
        (users_update (\<lambda>u. au_id u = us_ID user) (\<lambda>u. u\<lparr>au_encrypted_password := encryptedPassword\<rparr>))) affected)))"

definition user_of_row :: "auth_user \<Rightarrow> User" where
  "user_of_row u = \<lparr>us_ID = au_id u, us_FirstName = au_first_name u, us_LastName = au_last_name u, us_Email = au_email u,
     us_IsOwner = au_is_owner u, us_IsActive = au_is_active u, us_Roles = au_roles u\<rparr>"

definition GetAllUsers :: "('z staff_state_scheme, go_error, User list) prog" where
  "GetAllUsers = wrapE ''error querying all users in the database'' (db_call (getsE (\<lambda>s. map user_of_row (auth_users s))))"

definition GetUser :: "string \<Rightarrow> ('z staff_state_scheme, go_error, User) prog" where
  "GetUser userID =
     bindE (handleE (find_user (\<lambda>u. au_id u = userID \<and> au_is_active u))
       (\<lambda>err. if error_is err ErrNoRows then throw ErrUserNotFound else throw (Wrapf ''error querying user ID %s'' err)) ret) (\<lambda>u.
     ret (no_user\<lparr>us_ID := userID, us_FirstName := au_first_name u, us_LastName := au_last_name u, us_Email := au_email u\<rparr>))"

definition GetUsers :: "string list \<Rightarrow> bool \<Rightarrow> ('z staff_state_scheme, go_error, User list) prog" where
  "GetUsers userIDs activeOnly =
     (if userIDs = [] then ret []
      else wrapE ''querying user IDs'' (db_call (getsE (\<lambda>s.
        map (\<lambda>u. no_user\<lparr>us_ID := au_id u, us_FirstName := au_first_name u, us_LastName := au_last_name u\<rparr>)
          (filter (\<lambda>u. au_id u \<in> set userIDs \<and> (activeOnly \<longrightarrow> au_is_active u)) (auth_users s))))))"

end
