(* ===== verification/Staff_Manager.thy ===== *)
theory Staff_Manager
  imports Staff_Auth
begin

text \<open>
  The second factor, the roles, the tokens and the manager that combines them with the authenticator
  (\<open>src/stellar-auth/pkg/auth/mfa_manager.go\<close>, \<open>role_manager.go\<close>, \<open>jwt_manager.go\<close>, \<open>auth.go\<close>). The methods of the manager that
  have the name of one of the authenticator get the prefix \<open>am\<close>.
\<close>

section \<open>The second factor\<close>

definition mfaCodeMaxLength :: nat where "mfaCodeMaxLength = 6"
definition mfaDeviceExpiryHours :: int where "mfaDeviceExpiryHours = 24 * 7 * 60 * time_Minute"
definition mfaCodeExpiryMinutes :: int where "mfaCodeExpiryMinutes = 5 * time_Minute"

text \<open>A device has one row for each user, and no two rows with the same code.\<close>

definition mfa_codes_ok :: "auth_user list \<Rightarrow> mfaCode list \<Rightarrow> bool" where
  "mfa_codes_ok us cs \<longleftrightarrow> distinct (map (\<lambda>m. (mc_DeviceID m, mc_UserID m)) cs) \<and>
     distinct (map (\<lambda>m. (mc_DeviceID m, mc_Code m)) (filter (\<lambda>m. mc_Code m \<noteq> None) cs)) \<and>
     list_all (\<lambda>m. mc_UserID m \<in> au_id ` set us) cs"

definition mfa_write :: "(mfaCode list \<Rightarrow> mfaCode list) \<Rightarrow> ('z staff_state_scheme, go_error, unit) prog" where
  "mfa_write f = db_call (\<lambda>s.
     let s' = s\<lparr>auth_user_mfa_codes := f (auth_user_mfa_codes s)\<rparr> in
     if mfa_codes_ok (auth_users s) (auth_user_mfa_codes s') then (Inr (), s') else (Inl (ConstraintViolation ''auth_user_mfa_codes''), s))"

definition find_mfa :: "(mfaCode \<Rightarrow> bool) \<Rightarrow> string \<Rightarrow> ('z staff_state_scheme, go_error, mfaCode) prog" where
  "find_mfa P msg = handleE (get_first (db_call (getsE (\<lambda>s. filter P (auth_user_mfa_codes s)))))
     (\<lambda>err. if error_is err ErrNoRows then throw ErrMFANoCodeForUserDevice else throw (Wrapf msg err)) ret"

definition getByDeviceAndUser :: "string \<Rightarrow> string \<Rightarrow> ('z staff_state_scheme, go_error, mfaCode) prog" where
  "getByDeviceAndUser deviceID userID =
     (if deviceID = [] \<or> userID = [] then throw (Errorf ''device ID and user ID are required'')
      else find_mfa (\<lambda>m. mc_DeviceID m = deviceID \<and> mc_UserID m = userID) ''error fetching MFA code for device ID %s and user ID %s'')"

definition getByDeviceAndCode :: "string \<Rightarrow> string \<Rightarrow> ('z staff_state_scheme, go_error, mfaCode) prog" where
  "getByDeviceAndCode deviceID code =
     (if deviceID = [] \<or> code = [] then throw (Errorf ''device ID and code are required'')
      else find_mfa (\<lambda>m. mc_DeviceID m = deviceID \<and> mc_Code m = Some code) ''error fetching MFA code for device ID %s'')"

definition MFADeviceRemembered :: "string \<Rightarrow> string \<Rightarrow> ('z staff_state_scheme, go_error, bool) prog" where
  "MFADeviceRemembered deviceID userID =
     handleE (getByDeviceAndUser deviceID userID)
       (\<lambda>err. if error_is err ErrMFANoCodeForUserDevice then ret False
              else throw (Wrapf ''error validating MFA device for token string %s and device ID %s'' err))
       (\<lambda>mc. bindE (getsE conn_now) (\<lambda>now.
          ret (case mc_DeviceExpiresAt mc of None \<Rightarrow> False | Some t \<Rightarrow> \<not> t < now)))"

definition expireMFACode :: "string \<Rightarrow> string \<Rightarrow> ('z staff_state_scheme, go_error, unit) prog" where
  "expireMFACode deviceID code =
     (if deviceID = [] \<or> code = [] then throw (Errorf ''device ID and code are required'')
      else wrapE ''error expiring MFA code for device ID %s and code %s''
        (mfa_write (sql_update (\<lambda>m. mc_DeviceID m = deviceID \<and> mc_Code m = Some code) (\<lambda>m. m\<lparr>mc_Code := None, mc_CodeExpiresAt := None\<rparr>))))"

definition resetDeviceExpiry :: "string \<Rightarrow> string \<Rightarrow> ('z staff_state_scheme, go_error, unit) prog" where
  "resetDeviceExpiry deviceID code =
     (if deviceID = [] \<or> code = [] then throw (Errorf ''device ID and code are required'')
      else bindE (getsE conn_now) (\<lambda>now. wrapE ''error updating device expiry for device ID %s and code %s''
        (mfa_write (sql_update (\<lambda>m. mc_DeviceID m = deviceID \<and> mc_Code m = Some code)
          (\<lambda>m. m\<lparr>mc_DeviceExpiresAt := Some (now + mfaDeviceExpiryHours)\<rparr>)))))"

definition upserted_code :: "string \<Rightarrow> string \<Rightarrow> string \<Rightarrow> int \<Rightarrow> mfaCode list \<Rightarrow> mfaCode list" where
  "upserted_code deviceID userID code expires cs =
     (if list_ex (\<lambda>m. mc_DeviceID m = deviceID \<and> mc_UserID m = userID) cs
      then sql_update (\<lambda>m. mc_DeviceID m = deviceID \<and> mc_UserID m = userID) (\<lambda>m. m\<lparr>mc_Code := Some code, mc_CodeExpiresAt := Some expires\<rparr>) cs
      else cs @ [\<lparr>mc_DeviceID = deviceID, mc_UserID = userID, mc_Code = Some code, mc_DeviceExpiresAt = None, mc_CodeExpiresAt = Some expires\<rparr>])"

definition upsertMFACode :: "string \<Rightarrow> string \<Rightarrow> string \<Rightarrow> ('z staff_state_scheme, go_error, unit) prog" where
  "upsertMFACode deviceID userID code =
     (if deviceID = [] \<or> userID = [] \<or> code = [] then throw (Errorf ''device ID, user ID and code are required'')
      else bindE (getsE conn_now) (\<lambda>now. wrapE ''error upserting MFA code for user ID %s and device ID %s''
        (mfa_write (upserted_code deviceID userID code (now + mfaCodeExpiryMinutes)))))"

definition decimal_digit :: "nat \<Rightarrow> char" where
  "decimal_digit d = char_of (48 + d)"

fun random_digits :: "staff_env \<Rightarrow> nat \<Rightarrow> ('z staff_state_scheme, go_error, string) prog" where
  "random_digits env 0 = ret []"
| "random_digits env (Suc n) =
     bindE (wrapE ''error generating random digit for MFA code'' (rand_Int env 10)) (\<lambda>randomDigit.
     bindE (random_digits env n) (\<lambda>ds. ret (decimal_digit randomDigit # ds)))"

definition generateMFACode :: "staff_env \<Rightarrow> ('z staff_state_scheme, go_error, string) prog" where
  "generateMFACode env = random_digits env mfaCodeMaxLength"

definition generateAndUpdateMFACode :: "staff_env \<Rightarrow> string \<Rightarrow> string \<Rightarrow> ('z staff_state_scheme, go_error, string) prog" where
  "generateAndUpdateMFACode env deviceID userID =
     bindE (wrapE ''error generating MFA code for user ID %s and device ID %s'' (generateMFACode env)) (\<lambda>code.
     bindE (wrapE ''error updating MFA code for user ID %s and device ID %s'' (upsertMFACode deviceID userID code)) (\<lambda>_. ret code))"

definition GenerateMFACode :: "staff_env \<Rightarrow> string \<Rightarrow> string \<Rightarrow> ('z staff_state_scheme, go_error, string) prog" where
  "GenerateMFACode env deviceID userID =
     bindE (handleE (getByDeviceAndUser deviceID userID)
        (\<lambda>err. if error_is err ErrMFANoCodeForUserDevice then ret None
               else throw (Wrapf ''error validating MFA device for user ID %s and device ID %s'' err)) (\<lambda>mc. ret (Some mc))) (\<lambda>mc.
     bindE (getsE conn_now) (\<lambda>now.
     case mc of
       None \<Rightarrow> generateAndUpdateMFACode env deviceID userID
     | Some m \<Rightarrow>
         (case (mc_Code m, mc_CodeExpiresAt m) of
            (Some code, Some t) \<Rightarrow>
              (if code = [] \<or> t < now then generateAndUpdateMFACode env deviceID userID
               else if t > now then
                 bindE (wrapE ''expiring MFA code for device ID %s and code %s'' (expireMFACode deviceID code)) (\<lambda>_.
                 generateAndUpdateMFACode env deviceID userID)
               else ret [])
          | (Some code, None) \<Rightarrow> (if code = [] then generateAndUpdateMFACode env deviceID userID else ret [])
          | (None, _) \<Rightarrow> generateAndUpdateMFACode env deviceID userID)))"

text \<open>The body of this transaction works on other connections, so an error rolls nothing back.\<close>

definition validate_code_body :: "string \<Rightarrow> string \<Rightarrow> ('z staff_state_scheme, go_error, string) prog" where
  "validate_code_body deviceID code =
     bindE (handleE (getByDeviceAndCode deviceID code)
        (\<lambda>err. if error_is err ErrMFANoCodeForUserDevice then throw ErrMFACodeInvalid
               else throw (Wrapf ''error validating MFA code for device ID %s'' err)) ret) (\<lambda>mc.
     bindE (getsE conn_now) (\<lambda>now.
     if mc_Code mc = Some code \<and> (case mc_CodeExpiresAt mc of None \<Rightarrow> False | Some t \<Rightarrow> t > now)
     then bindE (wrapE ''error expiring MFA code for device ID %s and code %s'' (expireMFACode deviceID code)) (\<lambda>_. ret (mc_UserID mc))
     else throw ErrMFACodeInvalid))"

definition ValidateMFACode :: "string \<Rightarrow> string \<Rightarrow> ('z staff_state_scheme, go_error, string) prog" where
  "ValidateMFACode deviceID code = RunInTransactionWithResult (\<lambda>before after. after) (validate_code_body deviceID code)"

definition RememberDevice :: "string \<Rightarrow> string \<Rightarrow> ('z staff_state_scheme, go_error, unit) prog" where
  "RememberDevice deviceID code = wrapE ''error updating device expiry for device ID %s and code %s'' (resetDeviceExpiry deviceID code)"

definition ForgetDevice :: "string \<Rightarrow> string \<Rightarrow> ('z staff_state_scheme, go_error, unit) prog" where
  "ForgetDevice deviceID userID =
     (if deviceID = [] \<or> userID = [] then throw (Errorf ''device ID and user ID are required'')
      else wrapE ''error expiring device for device ID %s and user ID %s''
        (mfa_write (sql_update (\<lambda>m. mc_DeviceID m = deviceID \<and> mc_UserID m = userID) (\<lambda>m. m\<lparr>mc_DeviceExpiresAt := None\<rparr>))))"

section \<open>Roles\<close>

definition getUserRolesInfo :: "string \<Rightarrow> ('z staff_state_scheme, go_error, string list \<times> bool) prog" where
  "getUserRolesInfo userID =
     bindE (handleE (find_user (\<lambda>u. au_id u = userID))
       (\<lambda>err. throw (Wrapf ''error querying user ID %s roles'' (if error_is err ErrNoRows then ErrUserNotFound else err))) ret) (\<lambda>u.
     ret (au_roles u, au_is_owner u))"

definition GetUserRoles :: "staff_env \<Rightarrow> string \<Rightarrow> ('z staff_state_scheme, go_error, string list) prog" where
  "GetUserRoles env userID =
     bindE (wrapE ''getting user roles info from the database'' (getUserRolesInfo userID)) (\<lambda>(roles, isOwner).
     ret (if isOwner then [sa_ownerRoleName env] else roles))"

definition HasAllRoles :: "staff_env \<Rightarrow> string \<Rightarrow> string list \<Rightarrow> ('z staff_state_scheme, go_error, bool) prog" where
  "HasAllRoles env userID roleNames =
     bindE (wrapE ''getting user roles'' (GetUserRoles env userID)) (\<lambda>userRoles. ret (list_all (\<lambda>role. role \<in> set userRoles) roleNames))"

definition HasAnyRoles :: "staff_env \<Rightarrow> string \<Rightarrow> string list \<Rightarrow> ('z staff_state_scheme, go_error, bool) prog" where
  "HasAnyRoles env userID roleNames =
     bindE (wrapE ''getting user roles'' (GetUserRoles env userID)) (\<lambda>userRoles. ret (list_ex (\<lambda>role. role \<in> set userRoles) roleNames))"

definition IsSuperUser :: "string \<Rightarrow> ('z staff_state_scheme, go_error, bool) prog" where
  "IsSuperUser userID =
     bindE (wrapE ''getting user roles info from the database'' (getUserRolesInfo userID)) (\<lambda>(roles, isOwner). ret isOwner)"

definition UpdateRoles :: "string \<Rightarrow> string list \<Rightarrow> ('z staff_state_scheme, go_error, unit) prog" where
  "UpdateRoles userID roleNames =
     bindE (wrapE ''error updating user roles ID %s roles'' (users_update (\<lambda>u. au_id u = userID) (\<lambda>u. u\<lparr>au_roles := roleNames\<rparr>))) affected"

section \<open>Tokens\<close>

definition tokenRefreshWindow :: int where "tokenRefreshWindow = 3"

definition parseToken :: "staff_env \<Rightarrow> string \<Rightarrow> ('z staff_state_scheme, go_error, staff_claims) prog" where
  "parseToken env tokenString =
     bindE (getsE conn_now) (\<lambda>now.
     case sa_ParseWithClaims env now tokenString of
       Inl (NotValidation err) \<Rightarrow> throw (Wrapf ''parsing token'' err)
     | Inl (Unverifiable err) \<Rightarrow> throw (Wrapf ''invalid key'' err)
     | Inl Invalid \<Rightarrow> throw ErrInvalidToken
     | Inr c \<Rightarrow> ret c)"

definition GenerateToken :: "staff_env \<Rightarrow> User option \<Rightarrow> int \<Rightarrow> ('z staff_state_scheme, go_error, string) prog" where
  "GenerateToken env user expiresAt =
     wrapE ''signing token'' (liftE (sa_SignedString env
       \<lparr>cl_User = user, cl_TenantID = (case sa_GetTenantFromContext env of Inl e \<Rightarrow> [] | Inr (i, url) \<Rightarrow> i),
        cl_ExpiresAt = Some (expiresAt div time_Second)\<rparr>))"

definition RefreshToken :: "staff_env \<Rightarrow> string \<Rightarrow> int \<Rightarrow> ('z staff_state_scheme, go_error, string) prog" where
  "RefreshToken env tokenString expiresAt =
     bindE (wrapE ''parsing token to be refreshed'' (parseToken env tokenString)) (\<lambda>c.
     bindE (getsE conn_now) (\<lambda>now.
     case cl_ExpiresAt c of
       None \<Rightarrow> throw NilDereference
     | Some t \<Rightarrow>
         (if t * time_Second - now > tokenRefreshWindow * time_Minute then ret tokenString
          else wrapE ''generating new refreshed token'' (GenerateToken env (cl_User c) expiresAt))))"

definition ValidateToken :: "staff_env \<Rightarrow> string \<Rightarrow> ('z staff_state_scheme, go_error, bool) prog" where
  "ValidateToken env tokenString =
     handleE (parseToken env tokenString)
       (\<lambda>err. if error_is err ErrInvalidToken then ret False else throw (Wrapf ''parsing token to be validated'' err)) (\<lambda>_. ret True)"

definition GetUserFromToken :: "staff_env \<Rightarrow> string \<Rightarrow> ('z staff_state_scheme, go_error, User option) prog" where
  "GetUserFromToken env tokenString = bindE (wrapE ''parsing token to be validated'' (parseToken env tokenString)) (\<lambda>c. ret (cl_User c))"

definition GetTenantIDFromToken :: "staff_env \<Rightarrow> string \<Rightarrow> ('z staff_state_scheme, go_error, string) prog" where
  "GetTenantIDFromToken env tokenString = bindE (wrapE ''parsing token to be validated'' (parseToken env tokenString)) (\<lambda>c. ret (cl_TenantID c))"

section \<open>The manager\<close>

definition generateAuthToken :: "staff_env \<Rightarrow> User \<Rightarrow> ('z staff_state_scheme, go_error, string) prog" where
  "generateAuthToken env user =
     bindE (wrapE ''error getting user roles'' (GetUserRoles env (us_ID user))) (\<lambda>roles.
     bindE (getsE conn_now) (\<lambda>now.
     wrapE ''generating token'' (GenerateToken env (Some (user\<lparr>us_Roles := roles\<rparr>)) (now + sa_expirationTimeInMinutes env))))"

definition Authenticate :: "staff_env \<Rightarrow> string \<Rightarrow> string \<Rightarrow> ('z staff_state_scheme, go_error, string) prog" where
  "Authenticate env email pass =
     bindE (wrapE ''validating credentials'' (ValidateCredentials env email pass)) (\<lambda>user. generateAuthToken env user)"

text \<open>The guard of the methods that take a token.\<close>

definition am_ValidateToken :: "staff_env \<Rightarrow> string \<Rightarrow> ('z staff_state_scheme, go_error, bool) prog" where
  "am_ValidateToken env tokenString = wrapE ''validating token'' (ValidateToken env tokenString)"

definition require_valid :: "staff_env \<Rightarrow> string \<Rightarrow> ('z staff_state_scheme, go_error, unit) prog" where
  "require_valid env tokenString =
     bindE (wrapE ''validating token'' (am_ValidateToken env tokenString)) (\<lambda>isValid. if isValid then ret () else throw ErrInvalidToken)"

definition am_RefreshToken :: "staff_env \<Rightarrow> string \<Rightarrow> ('z staff_state_scheme, go_error, string) prog" where
  "am_RefreshToken env tokenString =
     bindE (require_valid env tokenString) (\<lambda>_.
     bindE (getsE conn_now) (\<lambda>now.
     wrapE ''generating new refreshed token'' (RefreshToken env tokenString (now + sa_expirationTimeInMinutes env))))"

definition getUserFromToken :: "staff_env \<Rightarrow> string \<Rightarrow> string \<Rightarrow> ('z staff_state_scheme, go_error, User) prog" where
  "getUserFromToken env msg tokenString =
     bindE (require_valid env tokenString) (\<lambda>_.
     bindE (wrapE msg (GetUserFromToken env tokenString)) (\<lambda>user.
     case user of None \<Rightarrow> throw NilDereference | Some u \<Rightarrow> ret u))"

definition AllRolesInTokenUser :: "staff_env \<Rightarrow> string \<Rightarrow> string list \<Rightarrow> ('z staff_state_scheme, go_error, bool) prog" where
  "AllRolesInTokenUser env tokenString roleNames =
     bindE (getUserFromToken env ''error getting user from token'' tokenString) (\<lambda>user.
     wrapE ''error validating user roles'' (HasAllRoles env (us_ID user) roleNames))"

definition AnyRolesInTokenUser :: "staff_env \<Rightarrow> string \<Rightarrow> string list \<Rightarrow> ('z staff_state_scheme, go_error, bool) prog" where
  "AnyRolesInTokenUser env tokenString roleNames =
     bindE (getUserFromToken env ''error getting user from token'' tokenString) (\<lambda>user.
     wrapE ''error validating user roles'' (HasAnyRoles env (us_ID user) roleNames))"

definition am_CreateUser :: "staff_env \<Rightarrow> User \<Rightarrow> string \<Rightarrow> ('z staff_state_scheme, go_error, User) prog" where
  "am_CreateUser env user password = wrapE ''creating user'' (CreateUser env user password)"

definition am_UpdateUser :: "staff_env \<Rightarrow> string \<Rightarrow> string \<Rightarrow> string \<Rightarrow> string \<Rightarrow> string \<Rightarrow> ('z staff_state_scheme, go_error, unit) prog" where
  "am_UpdateUser env tokenString firstName lastName email password =
     bindE (getUserFromToken env ''getting user from token'' tokenString) (\<lambda>user.
     wrapE ''error updating user'' (UpdateUser env (us_ID user) firstName lastName email password))"

definition am_ForgotPassword :: "staff_env \<Rightarrow> string \<Rightarrow> ('z staff_state_scheme, go_error, string) prog" where
  "am_ForgotPassword env email =
     handleE (ForgotPassword env email)
       (\<lambda>err. if error_is err ErrUserNotFound then throw (Wrapf ''user not found in auth forgot password'' err)
              else throw (Wrapf ''calling authenticator's ForgotPassword'' err)) ret"

definition am_ResetPassword :: "staff_env \<Rightarrow> string \<Rightarrow> string \<Rightarrow> ('z staff_state_scheme, go_error, unit) prog" where
  "am_ResetPassword env resetToken newPassword =
     handleE (ResetPassword env resetToken newPassword)
       (\<lambda>err. if error_is err ErrInvalidResetPasswordToken then throw (Wrapf ''invalid token in auth reset password'' err)
              else throw (Wrapf ''error on reset password'' err)) ret"

definition am_UpdatePassword :: "staff_env \<Rightarrow> string \<Rightarrow> string \<Rightarrow> string \<Rightarrow> ('z staff_state_scheme, go_error, unit) prog" where
  "am_UpdatePassword env tokenString currentPassword newPassword =
     bindE (getUserFromToken env ''getting user from token'' tokenString) (\<lambda>user.
     wrapE ''updating password'' (UpdatePassword env user currentPassword newPassword))"

definition am_ActivateUser :: "staff_env \<Rightarrow> string \<Rightarrow> string \<Rightarrow> ('z staff_state_scheme, go_error, unit) prog" where
  "am_ActivateUser env tokenString userID =
     bindE (require_valid env tokenString) (\<lambda>_. wrapE ''error activating user ID %s'' (ActivateUser userID))"

definition am_DeactivateUser :: "staff_env \<Rightarrow> string \<Rightarrow> string \<Rightarrow> ('z staff_state_scheme, go_error, unit) prog" where
  "am_DeactivateUser env tokenString userID =
     bindE (require_valid env tokenString) (\<lambda>_. wrapE ''error deactivating user ID %s'' (DeactivateUser userID))"

definition UpdateUserRoles :: "staff_env \<Rightarrow> string \<Rightarrow> string \<Rightarrow> string list \<Rightarrow> ('z staff_state_scheme, go_error, unit) prog" where
  "UpdateUserRoles env tokenString userID roles =
     bindE (require_valid env tokenString) (\<lambda>_. wrapE ''error updating user roles'' (UpdateRoles userID roles))"

definition am_GetAllUsers :: "staff_env \<Rightarrow> string \<Rightarrow> ('z staff_state_scheme, go_error, User list) prog" where
  "am_GetAllUsers env tokenString =
     bindE (require_valid env tokenString) (\<lambda>_. wrapE ''error getting all users'' GetAllUsers)"

definition GetUsersByID :: "string list \<Rightarrow> bool \<Rightarrow> ('z staff_state_scheme, go_error, User list) prog" where
  "GetUsersByID userIDs activeOnly = wrapE ''getting user with IDs'' (GetUsers userIDs activeOnly)"

definition GetUserByID :: "string \<Rightarrow> ('z staff_state_scheme, go_error, User) prog" where
  "GetUserByID userID = handleE (GetUser userID) (\<lambda>_. throw ErrUserNotFound) ret"

definition GetTenantID :: "staff_env \<Rightarrow> string \<Rightarrow> ('z staff_state_scheme, go_error, string) prog" where
  "GetTenantID env tokenString =
     bindE (require_valid env tokenString) (\<lambda>_. wrapE ''getting tenant ID from token'' (GetTenantIDFromToken env tokenString))"

definition GetUserID :: "staff_env \<Rightarrow> string \<Rightarrow> ('z staff_state_scheme, go_error, string) prog" where
  "GetUserID env tokenString = bindE (getUserFromToken env ''getting user from token'' tokenString) (\<lambda>tokenUser. ret (us_ID tokenUser))"

definition am_GetUser :: "staff_env \<Rightarrow> string \<Rightarrow> ('z staff_state_scheme, go_error, User) prog" where
  "am_GetUser env tokenString =
     bindE (wrapE ''getting user from token'' (getUserFromToken env ''getting user from token'' tokenString)) (\<lambda>tokenUser.
     bindE (wrapE ''getting user ID %s'' (GetUser (us_ID tokenUser))) (\<lambda>user.
     bindE (wrapE ''getting user ID %s roles'' (GetUserRoles env (us_ID user))) (\<lambda>roles.
     ret (user\<lparr>us_Roles := roles\<rparr>))))"

definition AuthenticateMFA :: "staff_env \<Rightarrow> string \<Rightarrow> string \<Rightarrow> bool \<Rightarrow> ('z staff_state_scheme, go_error, string) prog" where
  "AuthenticateMFA env deviceID code rememberMe =
     bindE (if rememberMe then wrapE ''error remembering device ID %s'' (RememberDevice deviceID code) else ret ()) (\<lambda>_.
     bindE (wrapE ''error validating MFA code'' (ValidateMFACode deviceID code)) (\<lambda>userID.
     bindE (wrapE ''error getting user ID %s'' (GetUser userID)) (\<lambda>user.
     generateAuthToken env user)))"

end
