(* ===== verification/Staff_Handlers.thy ===== *)
theory Staff_Handlers
  imports Staff_Manager
begin

text \<open>
  The handlers of the staff's login, second factor, passwords, users and tokens (\<open>src/internal/serve/httphandler\<close>) and the
  middlewares that authenticate a request and check its roles (\<open>src/internal/serve/middleware/middleware.go\<close>). What the context
  of a request holds is a parameter, as are the texts of messages and the list of common passwords.
\<close>

section \<open>Roles of the platform\<close>

definition OwnerUserRole :: string where "OwnerUserRole = ''owner''"
definition FinancialControllerUserRole :: string where "FinancialControllerUserRole = ''financial_controller''"
definition DeveloperUserRole :: string where "DeveloperUserRole = ''developer''"
definition BusinessUserRole :: string where "BusinessUserRole = ''business''"
definition InitiatorUserRole :: string where "InitiatorUserRole = ''initiator''"
definition ApproverUserRole :: string where "ApproverUserRole = ''approver''"
definition UploaderUserRole :: string where "UploaderUserRole = ''uploader''"
definition FinanceOfficerUserRole :: string where "FinanceOfficerUserRole = ''finance_officer''"

definition GetAllRoles :: "string list" where
  "GetAllRoles = [OwnerUserRole, FinancialControllerUserRole, DeveloperUserRole, BusinessUserRole, InitiatorUserRole, ApproverUserRole,
     UploaderUserRole, FinanceOfficerUserRole]"

definition UserRole_IsValid :: "string \<Rightarrow> bool" where "UserRole_IsValid u \<longleftrightarrow> u \<in> set GetAllRoles"

definition ValidateRoleMutualExclusivity :: "string list \<Rightarrow> go_error + unit" where
  "ValidateRoleMutualExclusivity roles =
     (if InitiatorUserRole \<in> set roles \<and> ApproverUserRole \<in> set roles then Inl (Errorf ''initiator and approver roles are mutually exclusive'') else Inr ())"

definition validateRoles :: "string list \<Rightarrow> Validator \<Rightarrow> Validator" where
  "validateRoles roles v =
     (let v1 = Check (length roles = 1) ''roles'' ''the number of roles required is exactly one'' v;
          v2 = Check (\<not> isl (ValidateRoleMutualExclusivity roles)) ''roles'' ''initiator and approver roles are mutually exclusive'' v1 in
      if map_of (vl_Errors v2) ''roles'' = None then Check (UserRole_IsValid (hd roles)) ''roles'' ''unexpected value for roles[0]=%s. Expect one of these values: %s'' v2
      else v2)"

section \<open>Passwords\<close>

text \<open>The code points of valid UTF-8.\<close>

fun runes :: "nat list \<Rightarrow> nat list" where
  "runes [] = []"
| "runes (a # bs) =
     (if a < 128 then a # runes bs
      else if a < 224 then (case bs of b # cs \<Rightarrow> ((a mod 32) * 64 + b mod 64) # runes cs | _ \<Rightarrow> [65533])
      else if a < 240 then (case bs of b # c # cs \<Rightarrow> ((a mod 16) * 4096 + (b mod 64) * 64 + c mod 64) # runes cs | _ \<Rightarrow> [65533])
      else (case bs of b # c # d # cs \<Rightarrow> ((a mod 8) * 262144 + (b mod 64) * 4096 + (c mod 64) * 64 + d mod 64) # runes cs | _ \<Rightarrow> [65533]))"

definition unicode_IsDigit :: "staff_env \<Rightarrow> nat \<Rightarrow> bool" where
  "unicode_IsDigit env c \<longleftrightarrow> (if c < 128 then 48 \<le> c \<and> c \<le> 57 else sa_unicode_IsDigit env c)"

text \<open>\<open>unicode.IsPunct\<close> or \<open>unicode.IsSymbol\<close>: of ASCII, every visible character that is neither a letter nor a digit.\<close>

definition unicode_IsSpecial :: "staff_env \<Rightarrow> nat \<Rightarrow> bool" where
  "unicode_IsSpecial env c \<longleftrightarrow>
     (if c < 128 then 33 \<le> c \<and> c \<le> 126 \<and> \<not> (48 \<le> c \<and> c \<le> 57) \<and> \<not> (65 \<le> c \<and> c \<le> 90) \<and> \<not> (97 \<le> c \<and> c \<le> 122)
      else sa_unicode_IsSpecial env c)"

definition is_lower :: "nat \<Rightarrow> bool" where "is_lower c \<longleftrightarrow> 97 \<le> c \<and> c \<le> 122"
definition is_upper :: "nat \<Rightarrow> bool" where "is_upper c \<longleftrightarrow> 65 \<le> c \<and> c \<le> 90"

definition ValidatePassword :: "staff_env \<Rightarrow> string \<Rightarrow> string list" where
  "ValidatePassword env input =
     (let cs = runes (map of_char input);
          rest = filter (\<lambda>c. \<not> is_lower c \<and> \<not> is_upper c) cs;
          failed = (if list_ex is_lower cs then [] else [''lowercase'']) @ (if list_ex is_upper cs then [] else [''uppercase'']) @
            (if list_ex (unicode_IsDigit env) rest then [] else [''digit'']) @
            (if list_ex (\<lambda>c. \<not> unicode_IsDigit env c \<and> unicode_IsSpecial env c) rest then [] else [''special character'']) @
            (if list_ex (\<lambda>c. \<not> unicode_IsDigit env c \<and> \<not> unicode_IsSpecial env c) rest then [''invalid character''] else []) @
            (if MinPasswordLength \<le> length input \<and> length input \<le> MaxPasswordLength then [] else [''length'']) in
      if failed = [] then (if sa_commonPasswords env (ToLower input) then [''common password''] else []) else failed)"

section \<open>The checks of the login\<close>

definition Unauthorized :: "go_error option \<Rightarrow> go_error" where "Unauthorized e = HTTPError 401 [] e"

definition staff_Organization_Get :: "('z staff_state_scheme, go_error, staff_organization) prog" where
  "staff_Organization_Get = wrapE ''getting organization'' (db_call (getsE staff_org))"

definition staff_IsCAPTCHADisabled :: "staff_env \<Rightarrow> ('z staff_state_scheme, go_error, bool) prog" where
  "staff_IsCAPTCHADisabled env = handleE staff_Organization_Get (\<lambda>_. ret (sa_ReCAPTCHADisabled env))
     (\<lambda>org. ret (case so_CAPTCHADisabled org of Some b \<Rightarrow> b | None \<Rightarrow> sa_ReCAPTCHADisabled env))"

definition IsMFADisabled :: "staff_env \<Rightarrow> ('z staff_state_scheme, go_error, bool) prog" where
  "IsMFADisabled env = handleE staff_Organization_Get (\<lambda>_. ret (sa_MFADisabled env))
     (\<lambda>org. ret (case so_MFADisabled org of Some b \<Rightarrow> b | None \<Rightarrow> sa_MFADisabled env))"

definition check_captcha :: "staff_env \<Rightarrow> (go_error \<Rightarrow> go_error) \<Rightarrow> string \<Rightarrow> ('z staff_state_scheme, go_error, unit) prog" where
  "check_captcha env on_error token =
     bindE (staff_IsCAPTCHADisabled env) (\<lambda>disabled.
     if disabled then ret ()
     else bindE (staff_call (\<lambda>n. sa_IsTokenValid env n token)) (\<lambda>r.
       case r of
         Inl err \<Rightarrow> throw (on_error err)
       | Inr isValid \<Rightarrow> (if isValid then ret () else throw (BadRequest ''reCAPTCHA token invalid'' None))))"

record LoginRequest =
  lr_Email :: string
  lr_Password :: string
  lr_ReCAPTCHAToken :: string

datatype login_response = LoginToken string | MFACodeSent

definition login_validateRequest :: "staff_env \<Rightarrow> LoginRequest \<Rightarrow> string \<Rightarrow> ('z staff_state_scheme, go_error, unit) prog" where
  "login_validateRequest env req deviceID =
     bindE (staff_IsCAPTCHADisabled env) (\<lambda>captchaDisabled.
     bindE (IsMFADisabled env) (\<lambda>mfaDisabled.
     let v = Check (mfaDisabled \<or> deviceID \<noteq> []) ''Device-ID'' ''Device-ID header is required''
        (Check (captchaDisabled \<or> lr_ReCAPTCHAToken req \<noteq> []) ''recaptcha_token'' ''reCAPTCHA token is required''
        (Check (lr_Password req \<noteq> []) ''password'' ''password is required''
        (Check (lr_Email req \<noteq> []) ''email'' ''email is required'' NewValidator))) in
     if HasErrors v then throw (BadRequest [] None) else ret ()))"

definition sendMFAEmail :: "staff_env \<Rightarrow> User \<Rightarrow> string \<Rightarrow> ('z staff_state_scheme, go_error, unit) prog" where
  "sendMFAEmail env user code =
     bindE (wrapE ''fetching organization'' staff_Organization_Get) (\<lambda>organization.
     bindE (wrapE ''executing MFA message template'' (liftE (sa_MFAEmail env code (so_Name organization)))) (\<lambda>msgContent.
     wrapE ''sending MFA code to email %s'' (bindE (staff_call (\<lambda>n. sa_SendMessage env n (us_Email user) msgContent)) liftE)))"

definition handleMFA :: "staff_env \<Rightarrow> string \<Rightarrow> User \<Rightarrow> ('z staff_state_scheme, go_error, bool) prog" where
  "handleMFA env deviceID user =
     bindE (IsMFADisabled env) (\<lambda>mfaDisabled.
     if mfaDisabled then ret True
     else
     bindE (handleE (MFADeviceRemembered deviceID (us_ID user))
       (\<lambda>err. throw (InternalError ''Cannot check if MFA code is remembered'' (Some (Wrapf ''checking if device is remembered for user with email %s'' err)))) ret)
       (\<lambda>isRemembered.
     if isRemembered then ret True
     else
     bindE (handleE (GenerateMFACode env deviceID (us_ID user))
       (\<lambda>err. throw (InternalError ''Cannot get MFA code'' (Some (Wrapf ''getting MFA code for user with email %s'' err)))) ret) (\<lambda>code.
     bindE (handleE (sendMFAEmail env user code) (\<lambda>err. throw (InternalError ''Failed to send send MFA code'' (Some err))) ret) (\<lambda>_.
     ret False))))"

definition LoginHandler_ServeHTTP :: "staff_env \<Rightarrow> go_error + LoginRequest \<Rightarrow> string \<Rightarrow> ('z staff_state_scheme, go_error, login_response) prog" where
  "LoginHandler_ServeHTTP env decoded deviceID =
     (case decoded of
        Inl err \<Rightarrow> throw (BadRequest [] (Some (Wrapf ''decoding the request body'' err)))
      | Inr reqBody \<Rightarrow>
          bindE (login_validateRequest env reqBody deviceID) (\<lambda>_.
          bindE (check_captcha env (\<lambda>err. HTTPError 401 ''Cannot validate reCAPTCHA token'' (Some err)) (lr_ReCAPTCHAToken reqBody)) (\<lambda>_.
          bindE (handleE (Authenticate env (lr_Email reqBody) (lr_Password reqBody))
            (\<lambda>err. if error_is err ErrInvalidCredentials then throw (Unauthorized (Some err))
                   else throw (InternalError ''Cannot authenticate user credentials'' (Some err))) ret) (\<lambda>token.
          bindE (handleE (am_GetUser env token) (\<lambda>err. throw (InternalError [] (Some err))) ret) (\<lambda>user.
          bindE (handleMFA env deviceID user) (\<lambda>canSkipMFA.
          ret (if canSkipMFA then LoginToken token else MFACodeSent)))))))"

record MFARequest =
  mr_MFACode :: string
  mr_RememberMe :: bool
  mr_ReCAPTCHAToken :: string

definition mfa_validateRequest :: "staff_env \<Rightarrow> MFARequest \<Rightarrow> string \<Rightarrow> ('z staff_state_scheme, go_error, unit) prog" where
  "mfa_validateRequest env req deviceID =
     bindE (staff_IsCAPTCHADisabled env) (\<lambda>captchaDisabled.
     let v = Check (deviceID \<noteq> []) ''Device-ID'' ''Device-ID header is required''
        (Check (captchaDisabled \<or> mr_ReCAPTCHAToken req \<noteq> []) ''recaptcha_token'' ''reCAPTCHA token is required''
        (Check (mr_MFACode req \<noteq> []) ''mfa_code'' ''MFA Code is required'' NewValidator)) in
     if HasErrors v then throw (BadRequest [] None) else ret ())"

definition MFAHandler_ServeHTTP :: "staff_env \<Rightarrow> go_error + MFARequest \<Rightarrow> string \<Rightarrow> ('z staff_state_scheme, go_error, string) prog" where
  "MFAHandler_ServeHTTP env decoded deviceID =
     (case decoded of
        Inl err \<Rightarrow> throw (BadRequest [] (Some err))
      | Inr reqBody \<Rightarrow>
          bindE (mfa_validateRequest env reqBody deviceID) (\<lambda>_.
          bindE (check_captcha env (\<lambda>err. InternalError ''Cannot validate reCAPTCHA token'' (Some err)) (mr_ReCAPTCHAToken reqBody)) (\<lambda>_.
          bindE (handleE (AuthenticateMFA env deviceID (mr_MFACode reqBody) (mr_RememberMe reqBody))
            (\<lambda>err. if error_is err ErrMFACodeInvalid then throw (Unauthorized (Some err))
                   else throw (InternalError ''Cannot authenticate user'' (Some err))) ret) (\<lambda>token.
          bindE (handleE (GetUserID env token) (\<lambda>err. throw (InternalError ''Cannot get user ID'' (Some err))) ret) (\<lambda>userID.
          ret token)))))"

section \<open>Forgotten passwords\<close>

definition SendForgotPasswordMessage :: "staff_env \<Rightarrow> string \<Rightarrow> string \<Rightarrow> string \<Rightarrow> ('z staff_state_scheme, go_error, unit) prog" where
  "SendForgotPasswordMessage env uiBaseURL email resetToken =
     bindE (wrapE ''getting organization data'' staff_Organization_Get) (\<lambda>organization.
     bindE (liftE (sa_ForgotPasswordEmail env uiBaseURL resetToken (so_Name organization))) (\<lambda>messageContent.
     wrapE ''sending forgot password email for %s'' (bindE (staff_call (\<lambda>n. sa_SendMessage env n email messageContent)) liftE)))"

definition forgot_password_body :: "staff_env \<Rightarrow> string \<Rightarrow> string \<Rightarrow> ('z staff_state_scheme, go_error, unit) prog" where
  "forgot_password_body env uiBaseURL email =
     bindE (wrapE ''resetting password'' (am_ForgotPassword env email)) (\<lambda>resetToken.
     wrapE ''sending forgot password message'' (SendForgotPasswordMessage env uiBaseURL email resetToken))"

definition forgot_validateRequest :: "staff_env \<Rightarrow> string \<Rightarrow> string \<Rightarrow> ('z staff_state_scheme, go_error, unit) prog" where
  "forgot_validateRequest env email token =
     bindE (staff_IsCAPTCHADisabled env) (\<lambda>captchaDisabled.
     if HasErrors (Check (captchaDisabled \<or> token \<noteq> []) ''recaptcha_token'' ''reCAPTCHA token is required''
        (Check (email \<noteq> []) ''email'' ''email is required'' NewValidator))
     then throw (BadRequest [] None) else ret ())"

definition ForgotPasswordHandler_ServeHTTP :: "staff_env \<Rightarrow> go_error + string \<times> string \<Rightarrow> ('z staff_state_scheme, go_error, unit) prog" where
  "ForgotPasswordHandler_ServeHTTP env decoded =
     (case sa_GetTenantFromContext env of
        Inl err \<Rightarrow> throw (Unauthorized (Some (Wrapf ''getting tenant from context'' err)))
      | Inr (tenantID, uiBaseURL) \<Rightarrow>
          (case decoded of
             Inl err \<Rightarrow> throw (BadRequest [] (Some err))
           | Inr (email, token) \<Rightarrow>
               bindE (forgot_validateRequest env email token) (\<lambda>_.
               bindE (check_captcha env (\<lambda>err. InternalError ''Cannot validate reCAPTCHA token'' (Some err)) token) (\<lambda>_.
               handleE (RunInTransaction staff_rollback (forgot_password_body env uiBaseURL email))
                 (\<lambda>err. if error_is err ErrUserNotFound \<or> error_is err ErrUserHasValidToken then ret ()
                        else throw (InternalError ''Failed to reset password'' (Some err))) ret))))"

definition ResetPasswordHandler_ServeHTTP :: "staff_env \<Rightarrow> go_error + string \<times> string \<Rightarrow> ('z staff_state_scheme, go_error, unit) prog" where
  "ResetPasswordHandler_ServeHTTP env decoded =
     (case decoded of
        Inl err \<Rightarrow> throw (BadRequest ''invalid request body'' (Some err))
      | Inr (password, resetToken) \<Rightarrow>
          (if ValidatePassword env password \<noteq> [] \<or> resetToken = [] then throw (BadRequest [] None)
           else handleE (am_ResetPassword env resetToken password)
             (\<lambda>err. if error_is err ErrExpiredResetPasswordToken
                    then throw (BadRequest ''Reset password token expired, please request a new token through the forgot password flow.'' (Some err))
                    else if error_is err ErrInvalidResetPasswordToken then throw (BadRequest ''Invalid reset password token.'' (Some err))
                    else throw (InternalError ''Cannot reset password'' (Some err))) ret))"

section \<open>Requests with a token\<close>

text \<open>The context a request carries on: its token, the user's id, and the tenant of the token if it was found.\<close>

record staff_context =
  sx_Token :: string
  sx_UserID :: string
  sx_TenantID :: "string option"

definition bearer_token :: "string \<Rightarrow> string option" where
  "bearer_token header =
     (if header = [] \<or> length (filter (\<lambda>c. c = CHR '' '') header) \<noteq> 1 then None else Some (tl (dropWhile (\<lambda>c. c \<noteq> CHR '' '') header)))"

definition AuthenticateMiddleware :: "staff_env \<Rightarrow> string \<Rightarrow> ('z staff_state_scheme, go_error, staff_context) prog" where
  "AuthenticateMiddleware env authHeader =
     (case bearer_token authHeader of
        None \<Rightarrow> throw (Unauthorized None)
      | Some token \<Rightarrow>
          bindE (handleE (GetUserID env token) (\<lambda>_. throw (Unauthorized None)) ret) (\<lambda>userID.
          bindE (handleE (GetTenantID env token) (\<lambda>_. ret []) ret) (\<lambda>tenantID.
          bindE (if tenantID = [] then ret None
                 else bindE (staff_call (\<lambda>n. sa_GetTenantByID env n tenantID)) (\<lambda>r. ret (case r of Inl e \<Rightarrow> None | Inr _ \<Rightarrow> Some tenantID))) (\<lambda>tenant.
          ret \<lparr>sx_Token = token, sx_UserID = userID, sx_TenantID = tenant\<rparr>))))"

definition AnyRoleMiddleware :: "staff_env \<Rightarrow> string list \<Rightarrow> go_error + string \<Rightarrow> ('z staff_state_scheme, go_error, unit) prog" where
  "AnyRoleMiddleware env requiredRoles token =
     (case token of
        Inl err \<Rightarrow> throw (Unauthorized None)
      | Inr token \<Rightarrow>
          (if requiredRoles = [] then ret ()
           else
           bindE (handleE (AnyRolesInTokenUser env token requiredRoles)
             (\<lambda>err. if error_is err ErrInvalidToken \<or> error_is err ErrUserNotFound then throw (Unauthorized None)
                    else throw (InternalError [] (Some err))) ret) (\<lambda>hasAnyRoles.
           if hasAnyRoles then ret () else throw (Forbidden [] None))))"

definition PostRefreshToken :: "staff_env \<Rightarrow> go_error + string \<Rightarrow> ('z staff_state_scheme, go_error, string) prog" where
  "PostRefreshToken env token =
     (case token of
        Inl err \<Rightarrow> throw (Unauthorized None)
      | Inr token \<Rightarrow> handleE (am_RefreshToken env token)
          (\<lambda>err. if error_is err ErrInvalidToken then throw (BadRequest [] (Some err))
                 else throw (InternalError ''Cannot refresh user token'' (Some err))) ret)"

section \<open>Users\<close>

definition user_request_error :: "string \<Rightarrow> go_error \<Rightarrow> go_error" where
  "user_request_error msg err =
     (if error_is err ErrInvalidToken then Unauthorized (Some err)
      else if error_is err ErrNoRowsAffected then BadRequest [] (Some err)
      else InternalError msg (Some err))"

text \<open>The request names a user and may say whether the user is to be active.\<close>

definition UserActivation ::
  "staff_env \<Rightarrow> go_error + string \<Rightarrow> go_error + string \<times> bool option \<Rightarrow> ('z staff_state_scheme, go_error, unit) prog" where
  "UserActivation env token decoded =
     (case token of
        Inl err \<Rightarrow> throw (Unauthorized None)
      | Inr token \<Rightarrow>
          (case decoded of
             Inl err \<Rightarrow> throw (BadRequest [] (Some (Wrapf ''decoding the request body'' err)))
           | Inr (requested, active) \<Rightarrow>
               (case active of
                  None \<Rightarrow> throw (BadRequest ''Request invalid'' None)
                | Some isActive \<Rightarrow>
                    (if requested = [] then throw (BadRequest ''Request invalid'' None)
                     else
                     bindE (handleE (GetUserID env token)
                       (\<lambda>err. if error_is err ErrInvalidToken then throw (Unauthorized (Some err))
                              else throw (InternalError [] (Some (Wrapf ''getting user from token'' err)))) ret) (\<lambda>userID.
                     if userID = requested then throw (BadRequest [] None)
                     else handleE (if isActive then am_ActivateUser env token requested else am_DeactivateUser env token requested)
                       (\<lambda>err. throw (user_request_error [] err)) ret)))))"

record CreateUserRequest =
  cu_FirstName :: string
  cu_LastName :: string
  cu_Email :: string
  cu_Roles :: "string list"

definition create_user_valid :: "CreateUserRequest \<Rightarrow> bool" where
  "create_user_valid cur \<longleftrightarrow> \<not> isl (ValidateStringLength (cu_FirstName cur) 128) \<and> \<not> isl (ValidateStringLength (cu_LastName cur) 128) \<and>
     \<not> isl (ValidateEmail (TrimAndLower (cu_Email cur))) \<and> \<not> HasErrors (validateRoles (cu_Roles cur) NewValidator)"

text \<open>An invitation that cannot be sent is only reported.\<close>

definition CreateUser_handler ::
  "staff_env \<Rightarrow> go_error + string \<Rightarrow> go_error + CreateUserRequest \<Rightarrow> ('z staff_state_scheme, go_error, User) prog" where
  "CreateUser_handler env token decoded =
     (case sa_GetTenantFromContext env of
        Inl err \<Rightarrow> throw (Unauthorized (Some (Wrapf ''getting tenant from context'' err)))
      | Inr tnt \<Rightarrow>
          (case token of
             Inl err \<Rightarrow> throw (Unauthorized None)
           | Inr token \<Rightarrow>
               (case decoded of
                  Inl err \<Rightarrow> throw (BadRequest [] (Some (Wrapf ''decoding the request body'' err)))
                | Inr reqBody \<Rightarrow>
                    (if \<not> create_user_valid reqBody then throw (BadRequest ''Request invalid'' None)
                     else
                     bindE (handleE (GetUserID env token)
                       (\<lambda>err. throw (Unauthorized (Some (Wrapf ''getting request authenticated user ID'' err)))) ret) (\<lambda>authenticatedUserID.
                     bindE (handleE (am_CreateUser env (no_user\<lparr>us_FirstName := TrimSpace (cu_FirstName reqBody), us_LastName := TrimSpace (cu_LastName reqBody),
                           us_Email := TrimAndLower (cu_Email reqBody), us_Roles := cu_Roles reqBody\<rparr>) [])
                       (\<lambda>err. if error_is err ErrUserEmailAlreadyExists then throw (BadRequest (sentinel_text ErrUserEmailAlreadyExists) (Some err))
                              else throw (InternalError ''Cannot create user'' (Some err))) ret) (\<lambda>u.
                     bindE (staff_call (\<lambda>n. sa_SendInvitationMessage env n u)) (\<lambda>_. ret u)))))))"

definition UpdateUserRoles_handler ::
  "staff_env \<Rightarrow> go_error + string \<Rightarrow> go_error + string \<times> string list \<Rightarrow> ('z staff_state_scheme, go_error, unit) prog" where
  "UpdateUserRoles_handler env token decoded =
     (case token of
        Inl err \<Rightarrow> throw (Unauthorized None)
      | Inr token \<Rightarrow>
          (case decoded of
             Inl err \<Rightarrow> throw (BadRequest [] (Some (Wrapf ''decoding the request body'' err)))
           | Inr (userID, roles) \<Rightarrow>
               (if HasErrors (validateRoles roles (Check (userID \<noteq> []) ''user_id'' ''user_id is required'' NewValidator))
                then throw (BadRequest ''Request invalid'' None)
                else
                bindE (handleE (GetUserID env token)
                  (\<lambda>err. throw (Unauthorized (Some (Wrapf ''getting request authenticated user ID'' err)))) ret) (\<lambda>authenticatedUserID.
                handleE (UpdateUserRoles env token userID roles) (\<lambda>err. throw (user_request_error ''Cannot update user activation'' err)) ret))))"

section \<open>The profile of a user\<close>

definition getTokenAndUser :: "staff_env \<Rightarrow> go_error + string \<Rightarrow> ('z staff_state_scheme, go_error, string \<times> User) prog" where
  "getTokenAndUser env token =
     (case token of
        Inl err \<Rightarrow> throw (Unauthorized None)
      | Inr token \<Rightarrow>
          handleE (am_GetUser env token)
            (\<lambda>err. if error_is err ErrInvalidToken then throw (Unauthorized (Some (Wrapf ''getting user profile'' err)))
                   else if error_is err ErrUserNotFound then throw (BadRequest [] (Some (Wrapf ''user from token %s not found'' err)))
                   else throw (InternalError ''Cannot get user'' (Some err))) (\<lambda>user. ret (token, user)))"

definition PatchUserProfile ::
  "staff_env \<Rightarrow> go_error + string \<Rightarrow> go_error + string \<times> string \<times> string \<Rightarrow> ('z staff_state_scheme, go_error, unit) prog" where
  "PatchUserProfile env token decoded =
     bindE (getTokenAndUser env token) (\<lambda>(token, user).
     case decoded of
       Inl err \<Rightarrow> throw (BadRequest [] (Some (Wrapf ''decoding the request body'' err)))
     | Inr (firstName, lastName, email) \<Rightarrow>
         (if email \<noteq> [] \<and> isl (ValidateEmail email) then throw (BadRequest [] None)
          else if firstName = [] \<and> lastName = [] \<and> email = [] then throw (BadRequest [] None)
          else handleE (am_UpdateUser env token firstName lastName email [])
            (\<lambda>err. throw (InternalError ''Cannot update user profiles'' (Some err))) ret))"

definition PatchUserPassword ::
  "staff_env \<Rightarrow> go_error + string \<Rightarrow> go_error + string \<times> string \<Rightarrow> ('z staff_state_scheme, go_error, unit) prog" where
  "PatchUserPassword env token decoded =
     bindE (getTokenAndUser env token) (\<lambda>(token, user).
     case decoded of
       Inl err \<Rightarrow> throw (BadRequest [] (Some (Wrapf ''decoding the request body'' err)))
     | Inr (currentPassword, newPassword) \<Rightarrow>
         (if currentPassword = [] \<or> currentPassword = newPassword then throw (BadRequest [] None)
          else if ValidatePassword env newPassword \<noteq> [] then throw (BadRequest [] None)
          else handleE (am_UpdatePassword env token currentPassword newPassword)
            (\<lambda>err. throw (InternalError ''Cannot update user password'' (Some err))) ret))"

end
