(* ===== verification/Staff_Rel.thy ===== *)
theory Staff_Rel
  imports Staff_Handlers
begin

text \<open>
  The interfaces for what the staff's programs keep: \<open>staff_reader\<close> for the programs that only read, and
  \<open>staff_writer\<close> for all of them; and the facts that a successful run gives.
\<close>

section \<open>Reading\<close>

lemma keeps_case_parse_error [keeps_intros]:
  "(\<And>e. keeps R (f e)) \<Longrightarrow> (\<And>e. keeps R (g e)) \<Longrightarrow> keeps R h \<Longrightarrow>
   keeps R (case x of NotValidation e \<Rightarrow> f e | Unverifiable e \<Rightarrow> g e | Invalid \<Rightarrow> h)"
  by (cases x) auto

text \<open>A reader's relation tolerates that faults and calls are used up.\<close>

locale staff_reader = state_preorder R
  for R :: "'z staff_state_scheme \<Rightarrow> 'z staff_state_scheme \<Rightarrow> bool" +
  assumes R_faults: "R s (s\<lparr>conn_faults := fs\<rparr>)"
    and R_calls: "R s (s\<lparr>staff_calls := n\<rparr>)"
begin

lemma keeps_staff_db:
  assumes "\<And>s. R s (snd (f s))"
  shows "keeps R (db_call f)"
proof (rule keepsI)
  fix s s' and r
  assume "db_call f s = (r, s')"
  moreover have "R s (snd (f (s\<lparr>conn_faults := fs\<rparr>)))" for fs by (rule R_trans [OF R_faults assms])
  ultimately show "R s s'" by (elim db_call_cases) (metis snd_conv, simp_all add: R_faults)
qed

lemma keeps_staff_read [keeps_intros]: "keeps R (db_call (getsE f))"
  by (rule keeps_staff_db) (simp add: getsE_def R_refl)

lemma keeps_staff_call [keeps_intros]: "keeps R (staff_call f)"
  by (simp add: keeps_def staff_call_def R_calls)

lemma keeps_staff_lift [keeps_intros]: "keeps R (liftE x)"
  by (cases x) (simp_all add: keeps_def liftE_def throw_def ret_def R_refl)

lemma keeps_staff_first [keeps_intros]: "keeps R m \<Longrightarrow> keeps R (get_first m)"
  unfolding get_first_def by (intro keeps_intros)

lemma keeps_staff_queries [keeps_intros]:
  "keeps R (find_user P)" "keeps R (find_mfa Q msg)" "keeps R staff_Organization_Get"
  unfolding find_user_def find_mfa_def staff_Organization_Get_def by (intro keeps_intros)+

lemma keeps_passwords [keeps_intros]:
  "keeps R (ValidateCredentials env email password)" "keeps R (Encrypt env password)" "keeps R (rand_Int env n)"
  unfolding ValidateCredentials_def ComparePassword_def Encrypt_def rand_Int_def by (intro keeps_intros)+

lemma keeps_random [keeps_intros]: "keeps R (StringWithCharset env n cs)" "keeps R (random_digits env n)"
  by (induction n) (auto intro!: keeps_intros)

lemma keeps_roles [keeps_intros]: "keeps R (GetUserRoles env i)" "keeps R (GetUser i)"
  unfolding GetUserRoles_def getUserRolesInfo_def GetUser_def by (intro keeps_intros)+

lemma keeps_tokens [keeps_intros]:
  "keeps R (parseToken env t)" "keeps R (GenerateToken env u x)"
  unfolding parseToken_def GenerateToken_def by (intro keeps_intros)+

lemma keeps_token_users [keeps_intros]:
  "keeps R (require_valid env t)" "keeps R (getUserFromToken env msg t)"
  unfolding require_valid_def am_ValidateToken_def ValidateToken_def getUserFromToken_def GetUserFromToken_def by (intro keeps_intros)+

lemma keeps_token_requests [keeps_intros]:
  "keeps R (am_RefreshToken env t)" "keeps R (am_GetUser env t)" "keeps R (GetUserID env t)" "keeps R (GetTenantID env t)"
  "keeps R (generateAuthToken env u)" "keeps R (AnyRolesInTokenUser env t roles)"
  unfolding am_RefreshToken_def RefreshToken_def am_GetUser_def GetUserID_def GetTenantID_def GetTenantIDFromToken_def generateAuthToken_def
    AnyRolesInTokenUser_def HasAnyRoles_def by (intro keeps_intros)+

lemma keeps_checks [keeps_intros]:
  "keeps R (check_captcha env h t)" "keeps R (IsMFADisabled env)" "keeps R (login_validateRequest env req d)"
  "keeps R (mfa_validateRequest env req' d)" "keeps R (forgot_validateRequest env email t)"
  unfolding check_captcha_def staff_IsCAPTCHADisabled_def IsMFADisabled_def login_validateRequest_def mfa_validateRequest_def
    forgot_validateRequest_def by (intro keeps_intros)+

lemma keeps_messages [keeps_intros]:
  "keeps R (sendMFAEmail env u c)" "keeps R (SendForgotPasswordMessage env url email t)"
  unfolding sendMFAEmail_def SendForgotPasswordMessage_def by (intro keeps_intros)+

lemma keeps_devices [keeps_intros]:
  "keeps R (getByDeviceAndUser d i)" "keeps R (getByDeviceAndCode d c)" "keeps R (MFADeviceRemembered d i)"
  unfolding getByDeviceAndUser_def getByDeviceAndCode_def MFADeviceRemembered_def by (intro keeps_intros)+

lemma keeps_authenticated [keeps_intros]:
  "keeps R (AuthenticateMiddleware env h)" "keeps R (AnyRoleMiddleware env roles t)" "keeps R (PostRefreshToken env t)"
  "keeps R (Authenticate env email pass)" "keeps R (getTokenAndUser env t)"
  unfolding AuthenticateMiddleware_def AnyRoleMiddleware_def PostRefreshToken_def Authenticate_def getTokenAndUser_def by (intro keeps_intros)+

end

text \<open>What a program that only reads leaves as it was.\<close>

definition only_read :: "'z staff_state_scheme \<Rightarrow> 'z staff_state_scheme \<Rightarrow> bool" where
  "only_read s s' \<longleftrightarrow> auth_users s' = auth_users s \<and> auth_user_password_reset s' = auth_user_password_reset s \<and>
     auth_user_mfa_codes s' = auth_user_mfa_codes s \<and> staff_org s' = staff_org s \<and> conn_now s' = conn_now s"

interpretation only_read: staff_reader only_read
  by unfold_locales (simp_all add: only_read_def)

section \<open>Writing\<close>

text \<open>A writer's relation tolerates any change of the users and of the codes, a new reset token that is valid and new, and that
  reset tokens lose their validity.\<close>

definition token_spent :: "string \<Rightarrow> password_reset list \<Rightarrow> bool" where
  "token_spent t rs \<longleftrightarrow> t \<in> pr_token ` set rs \<and> (\<forall>r \<in> set rs. pr_token r = t \<longrightarrow> \<not> pr_is_valid r)"

definition resets_evolve :: "password_reset list \<Rightarrow> password_reset list \<Rightarrow> bool" where
  "resets_evolve rs rs' \<longleftrightarrow> (\<forall>t. token_spent t rs \<longrightarrow> token_spent t rs')"

lemma tokens_invalidated [simp]: "pr_token ` set (sql_update P (\<lambda>r. r\<lparr>pr_is_valid := False\<rparr>) rs) = pr_token ` set rs"
proof -
  have "map pr_token (sql_update P (\<lambda>r. r\<lparr>pr_is_valid := False\<rparr>) rs) = map pr_token rs" by (rule map_sql_update_key) simp
  then show ?thesis by (metis set_map)
qed

lemma invalidate_evolves: "resets_evolve rs (sql_update P (\<lambda>r. r\<lparr>pr_is_valid := False\<rparr>) rs)"
  unfolding resets_evolve_def token_spent_def by (auto dest!: in_set_sql_update split: if_splits)

lemma insertion_evolves: "resets_evolve rs rs' \<Longrightarrow> pr_token r \<notin> pr_token ` set rs \<Longrightarrow> resets_evolve rs (rs' @ [r])"
  unfolding resets_evolve_def token_spent_def by auto

locale staff_writer = staff_reader R
  for R :: "'z staff_state_scheme \<Rightarrow> 'z staff_state_scheme \<Rightarrow> bool" +
  assumes R_users: "R s (s\<lparr>auth_users := us\<rparr>)"
    and R_codes: "R s (s\<lparr>auth_user_mfa_codes := cs\<rparr>)"
    and R_uuid: "R s (s\<lparr>conn_uuid_next := k\<rparr>)"
    and R_resets: "resets_evolve (auth_user_password_reset s) rs \<Longrightarrow> R s (s\<lparr>auth_user_password_reset := rs\<rparr>)"
    and R_rollback: "R s t \<Longrightarrow> R s (staff_rollback s t)"
begin

lemma keeps_staff_transaction [keeps_intros]:
  assumes "keeps R m"
  shows "keeps R (RunInTransactionWithResult staff_rollback m)" and "keeps R (RunInTransactionWithResult (\<lambda>before after. after) m)"
proof -
  have run: "R s t" if "m (s\<lparr>conn_faults := fs\<rparr>) = (x, t)" for s t fs x
    using R_faults keepsD [OF assms that] by (rule R_trans)
  have roll: "R s (staff_rollback (s\<lparr>conn_faults := fs\<rparr>) (t\<lparr>conn_faults := gs\<rparr>))" if "m (s\<lparr>conn_faults := fs\<rparr>) = (x, t)" for s t fs gs x
    by (rule R_trans [OF R_faults R_rollback [OF R_trans [OF keepsD [OF assms that] R_faults]]])
  have kept: "R s (t\<lparr>conn_faults := gs\<rparr>)" if "m (s\<lparr>conn_faults := fs\<rparr>) = (x, t)" for s t fs gs x
    by (rule R_trans [OF run [OF that] R_faults])
  show "keeps R (RunInTransactionWithResult staff_rollback m)"
    by (rule keepsI, elim transaction_run_cases) (auto intro: R_faults roll kept)
  show "keeps R (RunInTransactionWithResult (\<lambda>before after. after) m)"
    by (rule keepsI, elim transaction_run_cases) (auto intro: R_faults kept)
qed

lemma keeps_run_transaction [keeps_intros]: "keeps R m \<Longrightarrow> keeps R (RunInTransaction staff_rollback m)"
  by (simp add: RunInTransaction_def keeps_staff_transaction)

lemma keeps_users [keeps_intros]: "keeps R (users_update P f)" "keeps R (users_write g h)" "keeps R (affected n)"
  unfolding users_update_def users_write_def affected_def
  by (intro keeps_intros keeps_staff_db; simp add: Let_def R_refl R_users)+

lemma keeps_mfa_write [keeps_intros]: "keeps R (mfa_write f)"
  unfolding mfa_write_def by (rule keeps_staff_db) (simp add: Let_def R_refl R_codes)

lemma keeps_uuid [keeps_intros]: "keeps R (modifyE (\<lambda>s. s\<lparr>conn_uuid_next := Suc (conn_uuid_next s)\<rparr>))"
  by (rule keeps_modifyE) (rule R_uuid)

lemma keeps_invalidate [keeps_intros]: "keeps R (invalidateResetPasswordToken t)"
  unfolding invalidateResetPasswordToken_def resets_update_def
  by (intro keeps_intros keeps_staff_db) (simp add: modifyE_def R_resets invalidate_evolves)

lemma keeps_insert_token [keeps_intros]: "keeps R (insert_reset_token email t)"
  unfolding insert_reset_token_def
  by (intro keeps_staff_db) (simp add: R_refl R_resets invalidate_evolves insertion_evolves split: option.split)

lemma keeps_codes [keeps_intros]:
  "keeps R (expireMFACode d c)" "keeps R (resetDeviceExpiry d c)" "keeps R (upsertMFACode d i c)" "keeps R (ForgetDevice d i)"
  unfolding expireMFACode_def resetDeviceExpiry_def upsertMFACode_def ForgetDevice_def by (intro keeps_intros)+

lemma keeps_second_factor [keeps_intros]:
  "keeps R (GenerateMFACode env d i)" "keeps R (ValidateMFACode d c)" "keeps R (RememberDevice d c)"
  unfolding GenerateMFACode_def generateAndUpdateMFACode_def generateMFACode_def ValidateMFACode_def validate_code_body_def RememberDevice_def
  by (intro keeps_intros)+

lemma keeps_user_changes [keeps_intros]:
  "keeps R (CreateUser env u p)" "keeps R (UpdateUser env i a b c p)" "keeps R (updateIsActive i act)" "keeps R (UpdateRoles i rs)"
  "keeps R (UpdatePassword env u cur new)"
  unfolding CreateUser_def random_password_def UpdateUser_def updateIsActive_def UpdateRoles_def UpdatePassword_def Let_def
  by (intro keeps_intros)+

lemma keeps_password_resets [keeps_intros]: "keeps R (am_ForgotPassword env email)" "keeps R (am_ResetPassword env t p)"
  unfolding am_ForgotPassword_def ForgotPassword_def am_ResetPassword_def ResetPassword_def reset_body_def Let_def
  by (intro keeps_intros)+

lemma keeps_login [keeps_intros]: "keeps R (LoginHandler_ServeHTTP env req d)" "keeps R (MFAHandler_ServeHTTP env req' d)"
  unfolding LoginHandler_ServeHTTP_def MFAHandler_ServeHTTP_def handleMFA_def AuthenticateMFA_def by (intro keeps_intros)+

lemma keeps_password_requests [keeps_intros]:
  "keeps R (ForgotPasswordHandler_ServeHTTP env req)" "keeps R (ResetPasswordHandler_ServeHTTP env req')"
  unfolding ForgotPasswordHandler_ServeHTTP_def ResetPasswordHandler_ServeHTTP_def forgot_password_body_def by (intro keeps_intros)+

lemma keeps_user_requests [keeps_intros]:
  "keeps R (UserActivation env t req)" "keeps R (CreateUser_handler env t cur)" "keeps R (UpdateUserRoles_handler env t rs)"
  "keeps R (PatchUserProfile env t prof)" "keeps R (PatchUserPassword env t pass)"
  unfolding UserActivation_def am_ActivateUser_def am_DeactivateUser_def ActivateUser_def DeactivateUser_def CreateUser_handler_def
    am_CreateUser_def UpdateUserRoles_handler_def UpdateUserRoles_def PatchUserProfile_def am_UpdateUser_def PatchUserPassword_def
    am_UpdatePassword_def by (intro keeps_intros)+

end

end
