(* ===== verification/Staff_Rules.thy ===== *)
theory Staff_Rules
  imports Staff_Rel
begin

text \<open>
  What a successful run of the staff's programs shows: which user, which device and which code it found, and what the
  reset of a password and the deactivation of a user change.
\<close>

section \<open>Successful runs\<close>

lemma isl_throw [simp]: "isl (fst (throw e s))"
  by (simp add: throw_def)

lemma isl_if_prog [simp]: "isl (fst ((if b then m else n) s)) \<longleftrightarrow> (if b then isl (fst (m s)) else isl (fst (n s)))"
  by simp

lemma handleE_throws_ok [prog_ok]:
  assumes "\<And>e t. isl (fst (h e t))"
  shows "handleE m h k s = (Inr y, s') \<longleftrightarrow> (\<exists>x s1. m s = (Inr x, s1) \<and> k x s1 = (Inr y, s'))"
  using assms by (auto simp: handleE_def split: prod.splits sum.splits) (metis fst_conv sum.disc(2))

lemma if_prog_ok [prog_ok]: "(if b then m else n) s = (r, s') \<longleftrightarrow> (if b then m s = (r, s') else n s = (r, s'))"
  by simp

lemma staff_liftE_ok [prog_ok]: "liftE x s = (Inr y, s') \<longleftrightarrow> x = Inr y \<and> s' = s"
  by (cases x) (auto simp: liftE_def throw_def ret_def)

lemma staff_call_ok [prog_ok]: "staff_call f s = (Inr y, s') \<longleftrightarrow> y = f (staff_calls s) \<and> s' = s\<lparr>staff_calls := Suc (staff_calls s)\<rparr>"
  by (auto simp: staff_call_def)

lemma only_read_keeps: "keeps only_read m \<Longrightarrow> m s = (r, s') \<Longrightarrow> only_read s s'"
  by (rule keepsD)

lemma staff_read_ok:
  assumes "db_call (getsE f) s = (Inr y, s')"
  shows "\<exists>fs. y = f (s\<lparr>conn_faults := fs\<rparr>)"
  using assms by (elim db_call_cases) (auto simp: getsE_def)

lemma get_first_read:
  assumes "get_first (db_call (getsE f)) s = (Inr y, s')"
  shows "\<exists>fs. y \<in> set (f (s\<lparr>conn_faults := fs\<rparr>))"
proof -
  from assms obtain rs where "db_call (getsE f) s = (Inr (y # rs), s')" by (auto simp: prog_ok)
  from staff_read_ok [OF this] show ?thesis by (metis list.set_intros(1))
qed

lemma find_user_ok:
  assumes "find_user P s = (Inr u, s')"
  shows "u \<in> set (auth_users s)" and "P u"
  using get_first_read [OF assms [unfolded find_user_def]] by auto

lemma find_mfa_ok:
  assumes "find_mfa P msg s = (Inr m, s')"
  shows "m \<in> set (auth_user_mfa_codes s)" and "P m"
proof -
  from assms have "get_first (db_call (getsE (\<lambda>s. filter P (auth_user_mfa_codes s)))) s = (Inr m, s')"
    unfolding find_mfa_def by (subst (asm) handleE_throws_ok) (simp_all add: prog_ok)
  from get_first_read [OF this] show "m \<in> set (auth_user_mfa_codes s)" "P m" by auto
qed

section \<open>The login\<close>

definition has_password :: "staff_env \<Rightarrow> auth_user \<Rightarrow> string \<Rightarrow> string \<Rightarrow> bool" where
  "has_password env u email password \<longleftrightarrow> au_email u = TrimSpace (ToLower email) \<and> au_is_active u \<and>
     sa_bcrypt_Compare env (au_encrypted_password u) password = Inr True"

definition device_remembered :: "string \<Rightarrow> string \<Rightarrow> 'z staff_state_scheme \<Rightarrow> bool" where
  "device_remembered deviceID userID s \<longleftrightarrow> list_ex (\<lambda>m. mc_DeviceID m = deviceID \<and> mc_UserID m = userID \<and>
     (case mc_DeviceExpiresAt m of None \<Rightarrow> False | Some t \<Rightarrow> conn_now s \<le> t)) (auth_user_mfa_codes s)"

definition mfa_may_be_off :: "staff_env \<Rightarrow> 'z staff_state_scheme \<Rightarrow> bool" where
  "mfa_may_be_off env s \<longleftrightarrow> sa_MFADisabled env \<or> so_MFADisabled (staff_org s) = Some True"

lemma only_read_same:
  assumes "only_read s s'"
  shows "device_remembered d i s' = device_remembered d i s" and "mfa_may_be_off env s' = mfa_may_be_off env s"
  using assms by (simp_all add: only_read_def device_remembered_def mfa_may_be_off_def cong: option.case_cong)

lemma ValidateCredentials_ok:
  assumes "ValidateCredentials env email password s = (Inr u, s')"
  shows "\<exists>au \<in> set (auth_users s). has_password env au email password \<and> us_ID u = au_id au"
proof -
  from assms obtain au s1 where find: "find_user (\<lambda>u. au_email u = TrimSpace (ToLower email) \<and> au_is_active u) s = (Inr au, s1)"
    and "sa_bcrypt_Compare env (au_encrypted_password au) password = Inr True" "us_ID u = au_id au"
    unfolding ValidateCredentials_def ComparePassword_def by (auto simp: prog_ok split: if_splits)
  with find_user_ok [OF find] show ?thesis by (auto simp: has_password_def)
qed

lemma generateAuthToken_ok:
  assumes "generateAuthToken env u s = (Inr t, s')"
  shows "\<exists>c v. sa_SignedString env c = Inr t \<and> cl_User c = Some v \<and> us_ID v = us_ID u"
  using assms unfolding generateAuthToken_def GenerateToken_def by (auto simp: prog_ok)

lemma parseToken_ok:
  assumes "parseToken env t s = (Inr c, s')"
  shows "sa_ParseWithClaims env (conn_now s) t = Inr c"
  using assms unfolding parseToken_def by (auto simp: prog_ok split: sum.splits parse_error.splits)

lemma am_GetUser_ok:
  assumes "am_GetUser env t s = (Inr u, s')"
  shows "\<exists>now c v. sa_ParseWithClaims env now t = Inr c \<and> cl_User c = Some v \<and> us_ID u = us_ID v"
proof -
  from assms obtain v s1 s2 where token: "getUserFromToken env ''getting user from token'' t s = (Inr v, s1)"
    and user: "GetUser (us_ID v) s1 = (Inr (u\<lparr>us_Roles := []\<rparr>), s2)"
    unfolding am_GetUser_def GetUser_def by (auto simp: prog_ok no_user_def)
  from token obtain now c where "sa_ParseWithClaims env now t = Inr c" "cl_User c = Some v"
    unfolding getUserFromToken_def GetUserFromToken_def by (auto simp: prog_ok split: option.splits dest!: parseToken_ok)
  moreover from user have "us_ID u = us_ID v" unfolding GetUser_def by (auto simp: prog_ok dest: arg_cong [of _ _ us_ID])
  ultimately show ?thesis by blast
qed

lemma MFADeviceRemembered_ok:
  assumes "MFADeviceRemembered d i s = (Inr True, s')"
  shows "device_remembered d i s"
proof -
  from assms obtain mc s1 where get: "getByDeviceAndUser d i s = (Inr mc, s1)"
    and unexpired: "(case mc_DeviceExpiresAt mc of None \<Rightarrow> False | Some t \<Rightarrow> \<not> t < conn_now s1)"
    unfolding MFADeviceRemembered_def by (elim handleE_cases) (auto simp: prog_ok split: if_splits)
  have "conn_now s1 = conn_now s"
    using only_read.keeps_devices(1) get by (auto dest!: only_read_keeps [rotated] simp: only_read_def)
  moreover have "mc \<in> set (auth_user_mfa_codes s) \<and> mc_DeviceID mc = d \<and> mc_UserID mc = i"
    using get unfolding getByDeviceAndUser_def by (auto simp: prog_ok split: if_splits dest: find_mfa_ok)
  ultimately show ?thesis using unexpired unfolding device_remembered_def list_ex_iff
    by (intro bexI [of _ mc]) (auto split: option.splits)
qed

lemma IsMFADisabled_ok:
  assumes "IsMFADisabled env s = (Inr True, s')"
  shows "mfa_may_be_off env s"
  using assms unfolding IsMFADisabled_def staff_Organization_Get_def mfa_may_be_off_def
  by (elim handleE_cases) (auto simp: prog_ok split: option.splits dest!: staff_read_ok)

lemma handleMFA_ok:
  assumes "handleMFA env d u s = (Inr True, s')"
  shows "mfa_may_be_off env s \<or> device_remembered d (us_ID u) s"
proof -
  from assms obtain off s1 where off: "IsMFADisabled env s = (Inr off, s1)"
    and rest: "off \<or> (\<exists>s2. MFADeviceRemembered d (us_ID u) s1 = (Inr True, s2))"
    unfolding handleMFA_def by (auto simp: prog_ok split: if_splits)
  have "only_read s s1" using only_read.keeps_checks(2) off by (rule only_read_keeps)
  with rest off show ?thesis
    by (auto dest!: IsMFADisabled_ok MFADeviceRemembered_ok simp: only_read_same)
qed

definition captcha_passed :: "staff_env \<Rightarrow> string \<Rightarrow> 'z staff_state_scheme \<Rightarrow> bool" where
  "captcha_passed env token s \<longleftrightarrow> sa_ReCAPTCHADisabled env \<or> so_CAPTCHADisabled (staff_org s) = Some True \<or>
     (\<exists>n. sa_IsTokenValid env n token = Inr True)"

lemma staff_IsCAPTCHADisabled_ok:
  assumes "staff_IsCAPTCHADisabled env s = (Inr True, s')"
  shows "sa_ReCAPTCHADisabled env \<or> so_CAPTCHADisabled (staff_org s) = Some True"
  using assms unfolding staff_IsCAPTCHADisabled_def staff_Organization_Get_def
  by (elim handleE_cases) (auto simp: prog_ok split: option.splits dest!: staff_read_ok)

lemma check_captcha_ok:
  assumes "check_captcha env h token s = (Inr x, s')"
  shows "captcha_passed env token s"
  using assms unfolding check_captcha_def captcha_passed_def
  by (auto simp: prog_ok split: if_splits sum.splits dest!: staff_IsCAPTCHADisabled_ok)

definition tokens_name_users :: "staff_env \<Rightarrow> bool" where
  "tokens_name_users env \<longleftrightarrow> (\<forall>c t now c'. sa_SignedString env c = Inr t \<longrightarrow> sa_ParseWithClaims env now t = Inr c' \<longrightarrow>
     map_option us_ID (cl_User c') = map_option us_ID (cl_User c))"

lemma login_token:
  assumes env: "tokens_name_users env"
    and login: "LoginHandler_ServeHTTP env (Inr req) deviceID s = (Inr (LoginToken t), s')"
  shows "captcha_passed env (lr_ReCAPTCHAToken req) s \<and>
    (\<exists>u \<in> set (auth_users s). has_password env u (lr_Email req) (lr_Password req) \<and>
      (mfa_may_be_off env s \<or> device_remembered deviceID (au_id u) s) \<and>
      (\<exists>c v. sa_SignedString env c = Inr t \<and> cl_User c = Some v \<and> us_ID v = au_id u))"
proof -
  from login obtain s1 s2 s2' s3 s4 v u where
    v: "login_validateRequest env req deviceID s = (Inr (), s1)" and
    captcha: "check_captcha env (\<lambda>err. HTTPError 401 ''Cannot validate reCAPTCHA token'' (Some err)) (lr_ReCAPTCHAToken req) s1 = (Inr (), s2)" and
    cred: "ValidateCredentials env (lr_Email req) (lr_Password req) s2 = (Inr v, s2')" and
    token: "generateAuthToken env v s2' = (Inr t, s3)" and
    user: "am_GetUser env t s3 = (Inr u, s4)" and
    mfa: "\<exists>s5. handleMFA env deviceID u s4 = (Inr True, s5)"
    unfolding LoginHandler_ServeHTTP_def Authenticate_def by (auto simp: prog_ok split: if_splits)
  have 1: "only_read s s1" by (rule only_read_keeps [OF only_read.keeps_checks(3) v])
  have 2: "only_read s s2" by (rule only_read.R_trans [OF 1 only_read_keeps [OF only_read.keeps_checks(1) captcha]])
  have "only_read s s2'" by (rule only_read.R_trans [OF 2 only_read_keeps [OF only_read.keeps_passwords(1) cred]])
  then have "only_read s s3" by (rule only_read.R_trans [OF _ only_read_keeps [OF only_read.keeps_token_requests(5) token]])
  then have 4: "only_read s s4" by (rule only_read.R_trans [OF _ only_read_keeps [OF only_read.keeps_token_requests(2) user]])
  from ValidateCredentials_ok [OF cred] 2 obtain au where au: "au \<in> set (auth_users s)" "has_password env au (lr_Email req) (lr_Password req)"
    "us_ID v = au_id au" by (auto simp: only_read_def)
  from generateAuthToken_ok [OF token] obtain c w where c: "sa_SignedString env c = Inr t" "cl_User c = Some w" "us_ID w = us_ID v" by auto
  with am_GetUser_ok [OF user] env have "us_ID u = au_id au" by (fastforce simp: tokens_name_users_def au(3))
  with mfa 4 have "mfa_may_be_off env s \<or> device_remembered deviceID (au_id au) s"
    by (auto dest!: handleMFA_ok simp: only_read_same)
  with check_captcha_ok [OF captcha] 1 au c show ?thesis
    by (auto simp: only_read_def captcha_passed_def)
qed

section \<open>The second factor\<close>

definition same_but_codes :: "'z staff_state_scheme \<Rightarrow> 'z staff_state_scheme \<Rightarrow> bool" where
  "same_but_codes s s' \<longleftrightarrow> auth_users s' = auth_users s \<and> staff_org s' = staff_org s \<and> conn_now s' = conn_now s"

lemma mfa_write_ok:
  assumes "mfa_write f s = (Inr x, s')"
  shows "auth_user_mfa_codes s' = f (auth_user_mfa_codes s)" and "same_but_codes s s'"
  using assms unfolding mfa_write_def by (auto elim!: db_call_cases simp: Let_def same_but_codes_def split: if_splits)

lemma expireMFACode_ok:
  assumes "expireMFACode d c s = (Inr x, s')"
  shows "\<not> list_ex (\<lambda>m. mc_DeviceID m = d \<and> mc_Code m = Some c) (auth_user_mfa_codes s')" and "same_but_codes s s'"
  using assms unfolding expireMFACode_def
  by (auto simp: prog_ok list_ex_iff mfa_write_ok(1) dest!: in_set_sql_update split: if_splits intro: mfa_write_ok(2))

definition unexpired :: "int \<Rightarrow> int option \<Rightarrow> bool" where
  "unexpired now expiry \<longleftrightarrow> (case expiry of None \<Rightarrow> False | Some t \<Rightarrow> now < t)"

definition code_row :: "string \<Rightarrow> string \<Rightarrow> string \<Rightarrow> 'z staff_state_scheme \<Rightarrow> bool" where
  "code_row d c i s \<longleftrightarrow> list_ex (\<lambda>m. mc_DeviceID m = d \<and> mc_UserID m = i \<and> mc_Code m = Some c \<and>
     unexpired (conn_now s) (mc_CodeExpiresAt m)) (auth_user_mfa_codes s)"

lemma validate_code_ok:
  assumes "validate_code_body d c s = (Inr i, s')"
  shows "code_row d c i s" and "\<not> list_ex (\<lambda>m. mc_DeviceID m = d \<and> mc_Code m = Some c) (auth_user_mfa_codes s')" and "same_but_codes s s'"
proof -
  from assms obtain mc s1 where get: "getByDeviceAndCode d c s = (Inr mc, s1)"
    and unexpired: "unexpired (conn_now s1) (mc_CodeExpiresAt mc)"
    and expire: "expireMFACode d c s1 = (Inr (), s')" and i: "mc_UserID mc = i"
    unfolding validate_code_body_def unexpired_def by (auto simp: prog_ok split: if_splits)
  have same: "only_read s s1" by (rule only_read_keeps [OF only_read.keeps_devices(2) get])
  have "mc \<in> set (auth_user_mfa_codes s) \<and> mc_DeviceID mc = d \<and> mc_Code mc = Some c"
    using get unfolding getByDeviceAndCode_def by (auto simp: prog_ok split: if_splits dest: find_mfa_ok)
  with unexpired i same show "code_row d c i s" unfolding code_row_def list_ex_iff only_read_def
    by (intro bexI [of _ mc]) auto
  from expireMFACode_ok [OF expire] same
  show "\<not> list_ex (\<lambda>m. mc_DeviceID m = d \<and> mc_Code m = Some c) (auth_user_mfa_codes s')" "same_but_codes s s'"
    by (auto simp: same_but_codes_def only_read_def)
qed

lemma ValidateMFACode_ok:
  assumes "ValidateMFACode d c s = (Inr i, s')"
  shows "code_row d c i s" and "\<not> list_ex (\<lambda>m. mc_DeviceID m = d \<and> mc_Code m = Some c) (auth_user_mfa_codes s')" and "same_but_codes s s'"
proof -
  from assms [unfolded ValidateMFACode_def] obtain fs t gs where run: "validate_code_body d c (s\<lparr>conn_faults := fs\<rparr>) = (Inr i, t)"
    and s': "s' = t\<lparr>conn_faults := gs\<rparr>" by (elim transaction_run_cases) auto
  from validate_code_ok [OF run] s'
  show "code_row d c i s" "\<not> list_ex (\<lambda>m. mc_DeviceID m = d \<and> mc_Code m = Some c) (auth_user_mfa_codes s')" "same_but_codes s s'"
    by (auto simp: code_row_def same_but_codes_def)
qed

lemma RememberDevice_ok:
  assumes "RememberDevice d c s = (Inr x, s')"
  shows "code_row d c i s' \<Longrightarrow> code_row d c i s" and "same_but_codes s s'"
proof -
  from assms have wr: "mfa_write (sql_update (\<lambda>m. mc_DeviceID m = d \<and> mc_Code m = Some c)
      (\<lambda>m. m\<lparr>mc_DeviceExpiresAt := Some (conn_now s + mfaDeviceExpiryHours)\<rparr>)) s = (Inr (), s')"
    unfolding RememberDevice_def resetDeviceExpiry_def by (auto simp: prog_ok split: if_splits)
  show same: "same_but_codes s s'" by (rule mfa_write_ok(2) [OF wr])
  show "code_row d c i s" if "code_row d c i s'"
  proof -
    from that obtain m where "m \<in> set (auth_user_mfa_codes s')" and m: "mc_DeviceID m = d" "mc_UserID m = i" "mc_Code m = Some c"
      "unexpired (conn_now s) (mc_CodeExpiresAt m)"
      using same by (auto simp: code_row_def list_ex_iff same_but_codes_def)
    then obtain r where "r \<in> set (auth_user_mfa_codes s)"
      and "m = (if mc_DeviceID r = d \<and> mc_Code r = Some c then r\<lparr>mc_DeviceExpiresAt := Some (conn_now s + mfaDeviceExpiryHours)\<rparr> else r)"
      unfolding mfa_write_ok(1) [OF wr] by (auto dest!: in_set_sql_update)
    with m show ?thesis unfolding code_row_def list_ex_iff by (intro bexI [of _ r]) (auto split: if_splits)
  qed
qed

lemma GetUser_ok:
  assumes "GetUser i s = (Inr u, s')"
  shows "list_ex (\<lambda>au. au_id au = i \<and> au_is_active au) (auth_users s)" and "us_ID u = i"
  using assms unfolding GetUser_def by (auto simp: prog_ok list_ex_iff dest: find_user_ok)

lemma AuthenticateMFA_ok:
  assumes "AuthenticateMFA env d c remember s = (Inr t, s')"
  obtains i k v where "code_row d c i s" and "list_ex (\<lambda>au. au_id au = i \<and> au_is_active au) (auth_users s)"
    and "\<not> list_ex (\<lambda>m. mc_DeviceID m = d \<and> mc_Code m = Some c) (auth_user_mfa_codes s')"
    and "sa_SignedString env k = Inr t" and "cl_User k = Some v" and "us_ID v = i"
proof -
  from assms obtain s1 s2 s3 i u where
    remember: "s1 = s \<or> RememberDevice d c s = (Inr (), s1)" and
    valid: "ValidateMFACode d c s1 = (Inr i, s2)" and user: "GetUser i s2 = (Inr u, s3)" and
    token: "generateAuthToken env u s3 = (Inr t, s')"
    unfolding AuthenticateMFA_def by (cases remember) (simp_all add: prog_ok, blast+)
  have 1: "same_but_codes s s1" "code_row d c i s1 \<Longrightarrow> code_row d c i s"
    using remember by (auto simp: same_but_codes_def dest: RememberDevice_ok(1)) (auto dest!: RememberDevice_ok(2) simp: same_but_codes_def)
  have 3: "only_read s2 s3" by (rule only_read_keeps [OF only_read.keeps_roles(2) user])
  have 4: "only_read s3 s'" by (rule only_read_keeps [OF only_read.keeps_token_requests(5) token])
  from generateAuthToken_ok [OF token] obtain k v where k: "sa_SignedString env k = Inr t" "cl_User k = Some v" "us_ID v = us_ID u"
    by auto
  from ValidateMFACode_ok [OF valid] GetUser_ok [OF user] 1 3 4 k show thesis
    by (intro that [of i k v]) (auto simp: only_read_def same_but_codes_def)
qed

definition token_of_user :: "staff_env \<Rightarrow> string \<Rightarrow> string \<Rightarrow> bool" where
  "token_of_user env t userID \<longleftrightarrow> (\<exists>c v. sa_SignedString env c = Inr t \<and> cl_User c = Some v \<and> us_ID v = userID)"

lemma MFAHandler_ok:
  assumes "MFAHandler_ServeHTTP env (Inr req) d s = (Inr t, s')"
  obtains u where "captcha_passed env (mr_ReCAPTCHAToken req) s" and "u \<in> set (auth_users s)" and "au_is_active u"
    and "code_row d (mr_MFACode req) (au_id u) s" and "token_of_user env t (au_id u)"
    and "\<not> list_ex (\<lambda>m. mc_DeviceID m = d \<and> mc_Code m = Some (mr_MFACode req)) (auth_user_mfa_codes s')"
proof -
  from assms obtain s1 s2 s3 i where
    v: "mfa_validateRequest env req d s = (Inr (), s1)" and
    captcha: "check_captcha env (\<lambda>err. InternalError ''Cannot validate reCAPTCHA token'' (Some err)) (mr_ReCAPTCHAToken req) s1 = (Inr (), s2)" and
    auth: "AuthenticateMFA env d (mr_MFACode req) (mr_RememberMe req) s2 = (Inr t, s3)" and
    user: "GetUserID env t s3 = (Inr i, s')"
    unfolding MFAHandler_ServeHTTP_def by (auto simp: prog_ok)
  have 1: "only_read s s1" by (rule only_read_keeps [OF only_read.keeps_checks(4) v])
  have 2: "only_read s s2" by (rule only_read.R_trans [OF 1 only_read_keeps [OF only_read.keeps_checks(1) captcha]])
  have 3: "only_read s3 s'" by (rule only_read_keeps [OF only_read.keeps_token_requests(3) user])
  from auth show thesis
  proof (rule AuthenticateMFA_ok)
    fix j k w
    assume row: "code_row d (mr_MFACode req) j s2" and active: "list_ex (\<lambda>au. au_id au = j \<and> au_is_active au) (auth_users s2)"
      and spent: "\<not> list_ex (\<lambda>m. mc_DeviceID m = d \<and> mc_Code m = Some (mr_MFACode req)) (auth_user_mfa_codes s3)"
      and k: "sa_SignedString env k = Inr t" "cl_User k = Some w" "us_ID w = j"
    from active 2 obtain u where u: "u \<in> set (auth_users s)" "au_id u = j" "au_is_active u"
      by (auto simp: only_read_def list_ex_iff)
    from row 2 have "code_row d (mr_MFACode req) j s" by (simp add: code_row_def only_read_def)
    with u k spent 1 3 check_captcha_ok [OF captcha] show thesis
      by (intro that [of u]) (auto simp: token_of_user_def only_read_def captcha_passed_def)
  qed
qed

lemma no_code_no_answer:
  assumes "\<not> list_ex (\<lambda>m. mc_DeviceID m = d \<and> mc_Code m = Some (mr_MFACode req)) (auth_user_mfa_codes s)"
  shows "isl (fst (MFAHandler_ServeHTTP env (Inr req) d s))"
proof (rule ccontr)
  assume "\<not> isl (fst (MFAHandler_ServeHTTP env (Inr req) d s))"
  then obtain t s' where "MFAHandler_ServeHTTP env (Inr req) d s = (Inr t, s')"
    by (cases "MFAHandler_ServeHTTP env (Inr req) d s"; cases "fst (MFAHandler_ServeHTTP env (Inr req) d s)") auto
  then obtain i where "code_row d (mr_MFACode req) i s" by (rule MFAHandler_ok)
  with assms show False by (auto simp: code_row_def list_ex_iff)
qed

section \<open>Resets\<close>

lemma resets_update_ok:
  assumes "resets_update P f s = (Inr x, s')"
  shows "auth_user_password_reset s' = sql_update P f (auth_user_password_reset s)"
  using assms unfolding resets_update_def by (auto elim!: db_call_cases simp: modifyE_def)

lemma users_update_ok:
  assumes "users_update P f s = (Inr n, s')"
  shows "auth_users s' = sql_update P f (auth_users s)" and "auth_user_password_reset s' = auth_user_password_reset s"
  using assms unfolding users_update_def users_write_def by (auto elim!: db_call_cases simp: Let_def split: if_splits)

definition live_token :: "string \<Rightarrow> 'z staff_state_scheme \<Rightarrow> bool" where
  "live_token t s \<longleftrightarrow> list_ex (\<lambda>r. pr_token r = t \<and> pr_is_valid r \<and> conn_now s \<le> pr_created_at r + reset_lifetime) (auth_user_password_reset s)"

lemma live_token_not_spent: "live_token t s \<Longrightarrow> \<not> token_spent t (auth_user_password_reset s)"
  by (auto simp: live_token_def token_spent_def list_ex_iff)

lemma invalidated_is_spent:
  "t \<in> pr_token ` set rs \<Longrightarrow> token_spent t (sql_update (\<lambda>r. pr_token r = t) (\<lambda>r. r\<lparr>pr_is_valid := False\<rparr>) rs)"
  unfolding token_spent_def by (auto dest!: in_set_sql_update split: if_splits)

lemma reset_body_ok:
  assumes "reset_body env t p s = (Inr x, s')"
  shows "live_token t s" and "token_spent t (auth_user_password_reset s')"
proof -
  from assms obtain r s1 s2 e s3 n where
    get: "get_first (db_call (getsE (\<lambda>s. filter (\<lambda>r. pr_token r = t \<and> pr_is_valid r) (auth_user_password_reset s)))) s = (Inr r, s1)"
    and unexpired: "\<not> pr_created_at r + reset_lifetime < conn_now s1"
    and enc: "Encrypt env p s1 = (Inr e, s2)"
    and upd: "users_update (\<lambda>u. au_id u = pr_auth_user_id r) (\<lambda>u. u\<lparr>au_encrypted_password := e\<rparr>) s2 = (Inr n, s3)"
    and inv: "resets_update (\<lambda>r. pr_token r = t) (\<lambda>r. r\<lparr>pr_is_valid := False\<rparr>) s3 = (Inr (), s')"
    unfolding reset_body_def invalidateResetPasswordToken_def
    by (subst (asm) bindE_ok, subst (asm) handleE_throws_ok) (auto simp: prog_ok split: if_splits)
  have 1: "only_read s s1" by (rule only_read_keeps [OF only_read.keeps_staff_first [OF only_read.keeps_staff_read] get])
  have 2: "only_read s1 s2" by (rule only_read_keeps [OF only_read.keeps_passwords(2) enc])
  from get_first_read [OF get] have r: "r \<in> set (auth_user_password_reset s)" "pr_token r = t" "pr_is_valid r" by auto
  with unexpired 1 show "live_token t s" by (auto simp: live_token_def list_ex_iff only_read_def)
  have "auth_user_password_reset s3 = auth_user_password_reset s"
    using users_update_ok(2) [OF upd] 1 2 by (simp add: only_read_def)
  with resets_update_ok [OF inv] r show "token_spent t (auth_user_password_reset s')" by (auto simp: invalidated_is_spent)
qed

lemma reset_ok:
  assumes "ResetPasswordHandler_ServeHTTP env (Inr (p, t)) s = (Inr x, s')"
  shows "live_token t s" and "token_spent t (auth_user_password_reset s')"
proof -
  from assms have "RunInTransactionWithResult staff_rollback (reset_body env t p) s = (Inr (), s')"
    unfolding ResetPasswordHandler_ServeHTTP_def am_ResetPassword_def ResetPassword_def RunInTransaction_def
    by (auto simp: prog_ok split: if_splits)
  then obtain fs u gs where run: "reset_body env t p (s\<lparr>conn_faults := fs\<rparr>) = (Inr (), u)" and s': "s' = u\<lparr>conn_faults := gs\<rparr>"
    by (elim transaction_run_cases) auto
  from reset_body_ok [OF run] s' show "live_token t s" "token_spent t (auth_user_password_reset s')"
    by (simp_all add: live_token_def)
qed

section \<open>Deactivation\<close>

text \<open>What a token says does not depend on the table of users.\<close>

lemma parseToken_other_users:
  "parseToken env t s = (r, s1) \<Longrightarrow> s1 = s \<and> parseToken env t (s\<lparr>auth_users := us\<rparr>) = (r, s\<lparr>auth_users := us\<rparr>)"
  by (auto simp: parseToken_def bindE_def getsE_def throw_def ret_def split: sum.splits parse_error.splits)

lemma require_valid_other_users:
  "require_valid env t s = (r, s1) \<Longrightarrow> s1 = s \<and> require_valid env t (s\<lparr>auth_users := us\<rparr>) = (r, s\<lparr>auth_users := us\<rparr>)"
  using parseToken_other_users [of env t s "fst (parseToken env t s)" "snd (parseToken env t s)" us]
  by (cases "parseToken env t s"; cases "fst (parseToken env t s)")
    (auto simp: require_valid_def am_ValidateToken_def ValidateToken_def wrapE_def handleE_def bindE_def throw_def ret_def split: if_splits)

lemma token_user_other_users:
  "getUserFromToken env msg t s = (r, s1) \<Longrightarrow> s1 = s \<and> getUserFromToken env msg t (s\<lparr>auth_users := us\<rparr>) = (r, s\<lparr>auth_users := us\<rparr>)"
  using parseToken_other_users [of env t s "fst (parseToken env t s)" "snd (parseToken env t s)" us]
    require_valid_other_users [of env t s "fst (require_valid env t s)" "snd (require_valid env t s)" us]
  by (cases "parseToken env t s"; cases "fst (parseToken env t s)"; cases "require_valid env t s"; cases "fst (require_valid env t s)")
    (auto simp: getUserFromToken_def GetUserFromToken_def wrapE_def handleE_def bindE_def throw_def ret_def split: option.splits)

definition deactivate_row :: "string \<Rightarrow> auth_user list \<Rightarrow> auth_user list" where
  "deactivate_row i us = sql_update (\<lambda>u. au_id u = i) (\<lambda>u. u\<lparr>au_is_active := False\<rparr>) us"

lemma deactivate_row_filter: "filter (\<lambda>u. au_id u = j) (deactivate_row i us) =
   map (\<lambda>u. if au_id u = i then u\<lparr>au_is_active := False\<rparr> else u) (filter (\<lambda>u. au_id u = j) us)"
  unfolding deactivate_row_def sql_update_def by (induction us) auto

lemma roles_of_deactivated:
  assumes "conn_faults s = []"
  shows "fst (GetUserRoles env j (s\<lparr>auth_users := deactivate_row i (auth_users s)\<rparr>)) = fst (GetUserRoles env j s)"
  using assms unfolding GetUserRoles_def getUserRolesInfo_def find_user_def get_first_def
  by (cases "filter (\<lambda>u. au_id u = j) (auth_users s)")
    (auto simp: wrapE_def handleE_def bindE_def throw_def ret_def getsE_def deactivate_row_filter)

lemma any_roles_of_deactivated:
  assumes "conn_faults s = []"
  shows "fst (AnyRolesInTokenUser env t roles (s\<lparr>auth_users := deactivate_row i (auth_users s)\<rparr>)) = fst (AnyRolesInTokenUser env t roles s)"
proof -
  obtain r s1 where "getUserFromToken env ''error getting user from token'' t s = (r, s1)" by fastforce
  with token_user_other_users [OF this]
  have get: "getUserFromToken env ''error getting user from token'' t s = (r, s)"
    "getUserFromToken env ''error getting user from token'' t (s\<lparr>auth_users := us\<rparr>) = (r, s\<lparr>auth_users := us\<rparr>)" for us by auto
  show ?thesis
  proof (cases r)
    case (Inr v)
    with get roles_of_deactivated [OF assms, of env "us_ID v" i] show ?thesis
      by (cases "GetUserRoles env (us_ID v) s"; cases "fst (GetUserRoles env (us_ID v) s)";
          cases "GetUserRoles env (us_ID v) (s\<lparr>auth_users := deactivate_row i (auth_users s)\<rparr>)")
        (auto simp: AnyRolesInTokenUser_def HasAnyRoles_def wrapE_def handleE_def bindE_def throw_def ret_def)
  qed (simp add: get AnyRolesInTokenUser_def bindE_def)
qed

lemma middleware_of_deactivated:
  assumes "conn_faults s = []"
  shows "fst (AnyRoleMiddleware env roles t (s\<lparr>auth_users := deactivate_row i (auth_users s)\<rparr>)) = fst (AnyRoleMiddleware env roles t s)"
proof (cases t)
  case (Inr tok)
  with any_roles_of_deactivated [OF assms, of env tok roles i] show ?thesis
    by (cases "AnyRolesInTokenUser env tok roles s"; cases "fst (AnyRolesInTokenUser env tok roles s)";
        cases "AnyRolesInTokenUser env tok roles (s\<lparr>auth_users := deactivate_row i (auth_users s)\<rparr>)")
      (auto simp: AnyRoleMiddleware_def handleE_def bindE_def throw_def ret_def)
qed (simp add: AnyRoleMiddleware_def throw_def)

lemma refresh_of_deactivated:
  "fst (PostRefreshToken env t (s\<lparr>auth_users := us\<rparr>)) = fst (PostRefreshToken env t s)"
proof (cases t)
  case (Inr tok)
  obtain r s1 p s2 where runs: "require_valid env tok s = (r, s1)" "parseToken env tok s = (p, s2)" by fastforce
  from require_valid_other_users [OF runs(1)] parseToken_other_users [OF runs(2)]
  have get: "require_valid env tok s = (r, s)" "require_valid env tok (s\<lparr>auth_users := us\<rparr>) = (r, s\<lparr>auth_users := us\<rparr>)"
    "parseToken env tok s = (p, s)" "parseToken env tok (s\<lparr>auth_users := us\<rparr>) = (p, s\<lparr>auth_users := us\<rparr>)"
    using runs by auto
  with Inr show ?thesis
    by (cases r; cases p) (simp_all add: PostRefreshToken_def am_RefreshToken_def RefreshToken_def GenerateToken_def liftE_def wrapE_def
      handleE_def bindE_def getsE_def throw_def ret_def split: option.split sum.split)
qed (simp add: PostRefreshToken_def throw_def)

lemma UserActivation_ok:
  assumes "conn_faults s = []" and "UserActivation env t (Inr (i, Some False)) s = (Inr (), s')"
  shows "s' = s\<lparr>auth_users := deactivate_row i (auth_users s)\<rparr>"
proof -
  from assms(2) obtain tok u s1 v s2 s3 n where
    user: "getUserFromToken env ''getting user from token'' tok s = (Inr u, s1)" and
    valid: "require_valid env tok s1 = (Inr v, s2)" and
    upd: "users_update (\<lambda>u. au_id u = i) (\<lambda>u. u\<lparr>au_is_active := False\<rparr>) s2 = (Inr n, s3)" and s': "s' = s3"
    unfolding UserActivation_def GetUserID_def am_DeactivateUser_def DeactivateUser_def updateIsActive_def affected_def
    by (auto simp: prog_ok split: sum.splits if_splits)
  have "s2 = s" using token_user_other_users [OF user] require_valid_other_users [OF valid] by simp
  with upd assms(1) s' show ?thesis
    unfolding users_update_def users_write_def deactivate_row_def by (auto simp: Let_def split: if_splits)
qed

end
