(* ===== verification/Staff_Props.thy ===== *)
theory Staff_Props
  imports Staff_Rules
begin

text \<open>
  What the staff's authentication guarantees: a token of the login needs the password and the second factor, a code of
  the second factor and a reset token serve once, and what the deactivation of a user does not do.
\<close>

section \<open>A small installation\<close>

text \<open>A token is the id of its user, an encrypted password is the password.\<close>

definition staff_env_example :: staff_env where
  "staff_env_example = \<lparr>sa_ParseWithClaims = (\<lambda>now t. Inr \<lparr>cl_User = Some (no_user\<lparr>us_ID := t\<rparr>), cl_TenantID = [], cl_ExpiresAt = Some 60\<rparr>),
     sa_SignedString = (\<lambda>c. case cl_User c of None \<Rightarrow> Inl DriverError | Some u \<Rightarrow> Inr (us_ID u)),
     sa_bcrypt_Generate = (\<lambda>n p. Inr p), sa_bcrypt_Compare = (\<lambda>e p. Inr (e = p)), sa_rand_Int = (\<lambda>n b. Inr 0),
     sa_GetTenantFromContext = Inr (''tenant'', ''url''), sa_GetTenantByID = (\<lambda>n i. Inr ()), sa_IsTokenValid = (\<lambda>n t. Inr True),
     sa_MFAEmail = (\<lambda>c n. Inr c), sa_ForgotPasswordEmail = (\<lambda>u t n. Inr t), sa_SendInvitationMessage = (\<lambda>n u. Inr ()),
     sa_SendMessage = (\<lambda>n e m. Inr ()), sa_ReCAPTCHADisabled = False, sa_MFADisabled = False, sa_expirationTimeInMinutes = 15 * time_Minute,
     sa_ownerRoleName = OwnerUserRole, sa_commonPasswords = (\<lambda>p. False), sa_unicode_IsDigit = (\<lambda>c. False), sa_unicode_IsSpecial = (\<lambda>c. False)\<rparr>"

definition ada :: auth_user where
  "ada = \<lparr>au_id = ''ada'', au_first_name = ''A'', au_last_name = ''L'', au_email = ''ada@sdp.org'', au_encrypted_password = ''OldPassword1!'',
     au_is_owner = True, au_is_active = True, au_roles = []\<rparr>"

definition joe :: auth_user where
  "joe = \<lparr>au_id = ''joe'', au_first_name = ''J'', au_last_name = ''D'', au_email = ''joe@sdp.org'', au_encrypted_password = ''OldPassword2!'',
     au_is_owner = False, au_is_active = True, au_roles = [DeveloperUserRole]\<rparr>"

definition staff_example :: staff_state where
  "staff_example = \<lparr>conn_now = 0, conn_faults = [], conn_held = [], conn_uuid = (\<lambda>n. []), conn_uuid_next = 0, auth_users = [ada, joe],
     auth_user_password_reset = [\<lparr>pr_token = ''reset'', pr_auth_user_id = ''joe'', pr_is_valid = True, pr_created_at = 0\<rparr>],
     auth_user_mfa_codes = [\<lparr>mc_DeviceID = ''phone'', mc_UserID = ''joe'', mc_Code = Some ''000111'', mc_DeviceExpiresAt = Some 1, mc_CodeExpiresAt = Some 1\<rparr>],
     staff_org = \<lparr>so_Name = ''SDP'', so_CAPTCHADisabled = None, so_MFADisabled = None\<rparr>, staff_calls = 0\<rparr>"

lemmas staff_example_defs = staff_env_example_def ada_def joe_def staff_example_def

section \<open>The login and the second factor\<close>

text \<open>C25: a token answered by the login is a signed token of an active user of that email whose password was given, after the
  CAPTCHA was passed or is off, and only when the second factor is off or the user's device is remembered and not expired.\<close>

theorem login_token_is_earned:
  assumes "tokens_name_users env" and "LoginHandler_ServeHTTP env (Inr req) deviceID s = (Inr (LoginToken t), s')"
  shows "captcha_passed env (lr_ReCAPTCHAToken req) s \<and>
    (\<exists>u \<in> set (auth_users s). has_password env u (lr_Email req) (lr_Password req) \<and>
      (mfa_may_be_off env s \<or> device_remembered deviceID (au_id u) s) \<and> token_of_user env t (au_id u))"
  using login_token [OF assms] unfolding token_of_user_def by blast

definition joes_login :: LoginRequest where
  "joes_login = \<lparr>lr_Email = ''joe@sdp.org'', lr_Password = ''OldPassword2!'', lr_ReCAPTCHAToken = ''human''\<rparr>"

lemma joe_logs_in: "fst (LoginHandler_ServeHTTP staff_env_example (Inr joes_login) ''phone'' staff_example) = Inr (LoginToken ''joe'')"
  by code_simp

lemma example_tokens: "tokens_name_users staff_env_example"
  by (auto simp: tokens_name_users_def staff_env_example_def no_user_def split: option.splits)

theorem login_token_is_earned_witness:
  "captcha_passed staff_env_example ''human'' staff_example \<and> (\<exists>u \<in> set (auth_users staff_example).
     has_password staff_env_example u ''joe@sdp.org'' ''OldPassword2!'' \<and>
     (mfa_may_be_off staff_env_example staff_example \<or> device_remembered ''phone'' (au_id u) staff_example) \<and>
     token_of_user staff_env_example ''joe'' (au_id u))"
  using login_token_is_earned [OF example_tokens, of joes_login "''phone''" staff_example "''joe''"
      "snd (LoginHandler_ServeHTTP staff_env_example (Inr joes_login) ''phone'' staff_example)"] joe_logs_in
  by (simp add: prod_eq_iff joes_login_def)

text \<open>C26: a token answered for a code of the second factor needs an unexpired code that was generated for this device and an
  active user, and the code is spent: as long as no other code is generated, no request with the same device and code is
  answered by a token, whoever makes it and whatever the rest of the state is.\<close>

theorem mfa_code_is_spent:
  assumes "MFAHandler_ServeHTTP env (Inr req) deviceID s = (Inr t, s')"
  shows "captcha_passed env (mr_ReCAPTCHAToken req) s \<and>
    (\<exists>u \<in> set (auth_users s). au_is_active u \<and> code_row deviceID (mr_MFACode req) (au_id u) s \<and> token_of_user env t (au_id u)) \<and>
    (\<forall>req2 s2. mr_MFACode req2 = mr_MFACode req \<and> auth_user_mfa_codes s2 = auth_user_mfa_codes s' \<longrightarrow>
      isl (fst (MFAHandler_ServeHTTP env (Inr req2) deviceID s2)))"
proof -
  from assms show ?thesis
  proof (rule MFAHandler_ok)
    fix u
    assume u: "captcha_passed env (mr_ReCAPTCHAToken req) s" "u \<in> set (auth_users s)" "au_is_active u"
        "code_row deviceID (mr_MFACode req) (au_id u) s" "token_of_user env t (au_id u)"
      and spent: "\<not> list_ex (\<lambda>m. mc_DeviceID m = deviceID \<and> mc_Code m = Some (mr_MFACode req)) (auth_user_mfa_codes s')"
    have "isl (fst (MFAHandler_ServeHTTP env (Inr req2) deviceID s2))"
      if "mr_MFACode req2 = mr_MFACode req" "auth_user_mfa_codes s2 = auth_user_mfa_codes s'" for req2 s2
      using spent that by (intro no_code_no_answer) simp
    with u show ?thesis by blast
  qed
qed

definition joes_code :: MFARequest where
  "joes_code = \<lparr>mr_MFACode = ''000111'', mr_RememberMe = False, mr_ReCAPTCHAToken = ''human''\<rparr>"

lemma joe_uses_his_code:
  "fst (MFAHandler_ServeHTTP staff_env_example (Inr joes_code) ''phone'' staff_example) = Inr ''joe''"
  by code_simp

theorem mfa_code_is_spent_witness:
  "isl (fst (MFAHandler_ServeHTTP staff_env_example (Inr joes_code) ''phone''
     (snd (MFAHandler_ServeHTTP staff_env_example (Inr joes_code) ''phone'' staff_example))))"
proof -
  have "MFAHandler_ServeHTTP staff_env_example (Inr joes_code) ''phone'' staff_example =
      (Inr ''joe'', snd (MFAHandler_ServeHTTP staff_env_example (Inr joes_code) ''phone'' staff_example))"
    using joe_uses_his_code by (metis prod.collapse)
  from mfa_code_is_spent [OF this] show ?thesis by blast
qed

section \<open>Reset tokens\<close>

text \<open>The requests of the staff.\<close>

datatype staff_request =
    Login "go_error + LoginRequest" string
  | SecondFactor "go_error + MFARequest" string
  | Forgot "go_error + string \<times> string"
  | Reset "go_error + string \<times> string"
  | Refresh "go_error + string"
  | Activation "go_error + string" "go_error + string \<times> bool option"
  | NewUser "go_error + string" "go_error + CreateUserRequest"
  | NewRoles "go_error + string" "go_error + string \<times> string list"
  | Profile "go_error + string" "go_error + string \<times> string \<times> string"
  | NewPassword "go_error + string" "go_error + string \<times> string"

definition serve_staff :: "staff_env \<Rightarrow> staff_request \<Rightarrow> staff_state \<Rightarrow> staff_state" where
  "serve_staff env r s = (case r of
       Login req d \<Rightarrow> snd (LoginHandler_ServeHTTP env req d s)
     | SecondFactor req d \<Rightarrow> snd (MFAHandler_ServeHTTP env req d s)
     | Forgot req \<Rightarrow> snd (ForgotPasswordHandler_ServeHTTP env req s)
     | Reset req \<Rightarrow> snd (ResetPasswordHandler_ServeHTTP env req s)
     | Refresh t \<Rightarrow> snd (PostRefreshToken env t s)
     | Activation t req \<Rightarrow> snd (UserActivation env t req s)
     | NewUser t req \<Rightarrow> snd (CreateUser_handler env t req s)
     | NewRoles t req \<Rightarrow> snd (UpdateUserRoles_handler env t req s)
     | Profile t req \<Rightarrow> snd (PatchUserProfile env t req s)
     | NewPassword t req \<Rightarrow> snd (PatchUserPassword env t req s))"

text \<open>The reset token that a request has used, when it changed a password by it.\<close>

definition token_used :: "staff_env \<Rightarrow> staff_request \<Rightarrow> staff_state \<Rightarrow> string list" where
  "token_used env r s = (case r of
       Reset (Inr (password, t)) \<Rightarrow> (if isl (fst (ResetPasswordHandler_ServeHTTP env (Inr (password, t)) s)) then [] else [t])
     | _ \<Rightarrow> [])"

text \<open>Requests in any order, while time passes, the organization changes its settings, and statements fail.\<close>

inductive staff_run :: "staff_env \<Rightarrow> staff_state \<Rightarrow> string list \<Rightarrow> staff_state \<Rightarrow> bool" for env s0 where
  begin_run: "staff_run env s0 [] s0"
| serve: "staff_run env s0 h s \<Longrightarrow> staff_run env s0 (h @ token_used env r s) (serve_staff env r s)"
| pass: "staff_run env s0 h s \<Longrightarrow> conn_now s \<le> now \<Longrightarrow>
    staff_run env s0 h (s\<lparr>conn_now := now, conn_faults := fs, staff_org := org\<rparr>)"

definition tokens_stay_spent :: "staff_state \<Rightarrow> staff_state \<Rightarrow> bool" where
  "tokens_stay_spent s s' \<longleftrightarrow> resets_evolve (auth_user_password_reset s) (auth_user_password_reset s')"

interpretation spent: staff_writer tokens_stay_spent
  by unfold_locales (auto simp: tokens_stay_spent_def resets_evolve_def staff_rollback_def)

lemma serve_keeps_spent: "tokens_stay_spent s (serve_staff env r s)"
  using spent.keeps_login spent.keeps_password_requests spent.keeps_authenticated(3) spent.keeps_user_requests
  unfolding serve_staff_def keeps_def by (cases r) simp_all

lemma used_token_is_spent:
  assumes "t \<in> set (token_used env r s)"
  shows "\<not> token_spent t (auth_user_password_reset s)" and "token_spent t (auth_user_password_reset (serve_staff env r s))"
proof -
  from assms obtain p where r: "r = Reset (Inr (p, t))" and ok: "\<not> isl (fst (ResetPasswordHandler_ServeHTTP env (Inr (p, t)) s))"
    by (auto simp: token_used_def split: staff_request.splits sum.splits if_splits)
  then obtain x s' where "ResetPasswordHandler_ServeHTTP env (Inr (p, t)) s = (Inr x, s')"
    by (cases "ResetPasswordHandler_ServeHTTP env (Inr (p, t)) s"; cases "fst (ResetPasswordHandler_ServeHTTP env (Inr (p, t)) s)") auto
  with reset_ok [OF this] r
  show "\<not> token_spent t (auth_user_password_reset s)" "token_spent t (auth_user_password_reset (serve_staff env r s))"
    by (auto simp: serve_staff_def live_token_not_spent)
qed

lemma distinct_tokens_used: "distinct (token_used env r s)"
  by (auto simp: token_used_def split: staff_request.split sum.split)

lemma staff_run_spends:
  assumes "staff_run env s0 h s"
  shows "distinct h \<and> (\<forall>t \<in> set h. token_spent t (auth_user_password_reset s))"
  using assms
proof (induction rule: staff_run.induct)
  case (serve h s r)
  have "token_spent t (auth_user_password_reset (serve_staff env r s))" if "t \<in> set h" for t
    using serve.IH that serve_keeps_spent [of s env r] by (auto simp: tokens_stay_spent_def resets_evolve_def)
  with serve.IH show ?case by (auto simp: distinct_tokens_used dest: used_token_is_spent)
qed simp_all

text \<open>C27: in any run of the staff's requests, with any failures of the database and of the outside in between, no reset token
  changes a password twice.\<close>

theorem reset_tokens_are_spent:
  assumes "staff_run env s0 h s"
  shows "distinct h"
  using staff_run_spends [OF assms] by simp

definition joes_reset :: staff_request where
  "joes_reset = Reset (Inr (''NewPassword3!'', ''reset''))"

lemma joe_resets: "token_used staff_env_example joes_reset staff_example = [''reset'']"
  by code_simp

lemma joe_cannot_reset_again:
  "token_used staff_env_example joes_reset (serve_staff staff_env_example joes_reset staff_example) = []"
  by code_simp

theorem reset_tokens_are_spent_witness:
  "staff_run staff_env_example staff_example [''reset'']
     (serve_staff staff_env_example joes_reset (serve_staff staff_env_example joes_reset staff_example)) \<and> distinct [''reset'']"
proof -
  let ?s = "serve_staff staff_env_example joes_reset staff_example"
  have "staff_run staff_env_example staff_example [''reset''] ?s"
    using staff_run.serve [OF staff_run.begin_run, of staff_env_example staff_example joes_reset] by (simp add: joe_resets)
  then have "staff_run staff_env_example staff_example [''reset''] (serve_staff staff_env_example joes_reset ?s)"
    using staff_run.serve [of staff_env_example staff_example "[''reset'']" ?s joes_reset] by (simp add: joe_cannot_reset_again)
  with reset_tokens_are_spent [OF this] show ?thesis by simp
qed

section \<open>Deactivated users\<close>

text \<open>C28: after a user is deactivated, every token still passes the check of the roles as before and is refreshed as
  before, the tokens of that user included.\<close>

theorem deactivated_user_keeps_access:
  assumes "conn_faults s = []" and "UserActivation env admin (Inr (userID, Some False)) s = (Inr (), s')"
  shows "fst (AnyRoleMiddleware env roles token s') = fst (AnyRoleMiddleware env roles token s) \<and>
    fst (PostRefreshToken env token s') = fst (PostRefreshToken env token s)"
  unfolding UserActivation_ok [OF assms]
  using middleware_of_deactivated [OF assms(1)] refresh_of_deactivated by blast

lemma ada_deactivates_joe:
  "fst (UserActivation staff_env_example (Inr ''ada'') (Inr (''joe'', Some False)) staff_example) = Inr ()"
  by code_simp

lemma joe_is_a_developer:
  "fst (AnyRoleMiddleware staff_env_example [DeveloperUserRole] (Inr ''joe'') staff_example) = Inr ()"
  by code_simp

theorem deactivated_user_keeps_access_witness:
  "fst (AnyRoleMiddleware staff_env_example [DeveloperUserRole] (Inr ''joe'')
     (snd (UserActivation staff_env_example (Inr ''ada'') (Inr (''joe'', Some False)) staff_example))) = Inr ()"
  using deactivated_user_keeps_access [of staff_example staff_env_example "Inr ''ada''" "''joe''"
      "snd (UserActivation staff_env_example (Inr ''ada'') (Inr (''joe'', Some False)) staff_example)" "[DeveloperUserRole]" "Inr ''joe''"]
    ada_deactivates_joe joe_is_a_developer
  by (simp add: prod_eq_iff) (simp add: staff_example_def)

end
