(* ===== verification/Short_Urls.thy ===== *)
theory Short_Urls
  imports Disbursement_Handler
begin

text \<open>
  Short links (\<open>src/internal/data/url_shortener.go\<close>, \<open>src/internal/serve/httphandler/url_shortener_handler.go\<close>): a URL gets
  a code of at most six characters of a random UUID. The loop draws a new code only after a unique violation and at most five
  times. The two unique constraints of the table are the only way an insertion violates one, and a violation rolls the
  attempt back.
\<close>

section \<open>State and operations\<close>

record short_state = dbconn +
  short_urls :: "(string \<times> string) list"

definition maxCodeGenerationAttempts :: nat where "maxCodeGenerationAttempts = 5"
definition shortCodeLength :: nat where "shortCodeLength = 6"

definition short_rollback :: "'z short_state_scheme \<Rightarrow> 'z short_state_scheme \<Rightarrow> 'z short_state_scheme" where
  "short_rollback before after = after\<lparr>short_urls := short_urls before\<rparr>"

definition isDuplicateError :: "go_error \<Rightarrow> bool" where
  "isDuplicateError err \<longleftrightarrow>
     error_as (\<lambda>e. case e of ConstraintViolation c \<Rightarrow> if c \<in> {''short_urls_pkey'', ''short_urls_original_url_idx''} then Some () else None | _ \<Rightarrow> None) err \<noteq> None"

definition generated_code :: "nat \<Rightarrow> string \<Rightarrow> string" where
  "generated_code n genUUID = filter (\<lambda>c. c \<noteq> CHR ''-'') (take n genUUID)"

definition RandomCodeGenerator_Generate :: "nat \<Rightarrow> ('z short_state_scheme, go_error, string) prog" where
  "RandomCodeGenerator_Generate n =
     bindE (getsE (\<lambda>s. generated_code n (conn_uuid s (conn_uuid_next s)))) (\<lambda>code.
     bindE (modifyE (\<lambda>s. s\<lparr>conn_uuid_next := Suc (conn_uuid_next s)\<rparr>)) (\<lambda>_. ret code))"

definition GetOriginalURL :: "string \<Rightarrow> ('z short_state_scheme, go_error, string) prog" where
  "GetOriginalURL shortCode =
     not_found_or_wrap ''getting URL for code %s'' (get_first (db_call (getsE (\<lambda>s. map snd (filter (\<lambda>(i, u). i = shortCode) (short_urls s))))))"

definition insert_short_url :: "string \<Rightarrow> string \<Rightarrow> ('z short_state_scheme, go_error, unit) prog" where
  "insert_short_url code url = db_call (\<lambda>s.
     if code \<in> fst ` set (short_urls s) then (Inl (ConstraintViolation ''short_urls_pkey''), s)
     else if url \<in> snd ` set (short_urls s) then (Inl (ConstraintViolation ''short_urls_original_url_idx''), s)
     else (Inr (), s\<lparr>short_urls := short_urls s @ [(code, url)]\<rparr>))"

definition short_code_body :: "string \<Rightarrow> ('z short_state_scheme, go_error, string) prog" where
  "short_code_body originalURL =
     handleE (get_first (db_call (getsE (\<lambda>s. map fst (filter (\<lambda>(i, u). u = originalURL) (short_urls s))))))
       (\<lambda>err. if \<not> error_is err ErrNoRows then throw (Wrapf ''checking for existing URL'' err)
              else bindE (RandomCodeGenerator_Generate shortCodeLength) (\<lambda>code.
                   bindE (wrapE ''inserting new URL'' (insert_short_url code originalURL)) (\<lambda>_. ret code)))
       ret"

function short_code_attempts :: "nat \<Rightarrow> string \<Rightarrow> ('z short_state_scheme, go_error, string) prog" where
  "short_code_attempts attempts originalURL =
     (if attempts < maxCodeGenerationAttempts then
        handleE (RunInTransactionWithResult short_rollback (short_code_body originalURL))
          (\<lambda>err. if isDuplicateError err then short_code_attempts (attempts + 1) originalURL
                 else throw (Wrapf ''getting or creating short code'' err))
          ret
      else throw (Errorf ''generating unique code after %d attempts''))"
  by pat_completeness auto

termination short_code_attempts
  by (relation "measure (\<lambda>(attempts, url). maxCodeGenerationAttempts - attempts)") simp_all

declare short_code_attempts.simps [simp del]

definition GetOrCreateShortCode :: "string \<Rightarrow> ('z short_state_scheme, go_error, string) prog" where
  "GetOrCreateShortCode originalURL = short_code_attempts 0 originalURL"

definition HandleRedirect :: "string \<Rightarrow> ('z short_state_scheme, go_error, string) prog" where
  "HandleRedirect code =
     (if TrimSpace code = [] then throw (BadRequest ''Missing short code'' None)
      else handleE (GetOriginalURL (TrimSpace code))
        (\<lambda>err. if error_is err ErrRecordNotFound then throw (HTTPError 404 ''Short URL not found'' (Some err))
               else throw (InternalError ''Error retrieving URL'' (Some err))) ret)"

section \<open>The loop\<close>

definition short_urls_ok :: "(string \<times> string) list \<Rightarrow> bool" where
  "short_urls_ok t \<longleftrightarrow> distinct (map fst t) \<and> distinct (map snd t)"

definition drawn_code :: "'z short_state_scheme \<Rightarrow> nat \<Rightarrow> string" where
  "drawn_code s k = generated_code shortCodeLength (conn_uuid s (conn_uuid_next s + k))"

definition taken :: "string \<Rightarrow> 'z short_state_scheme \<Rightarrow> bool" where
  "taken code s \<longleftrightarrow> code \<in> fst ` set (short_urls s)"

definition shortened :: "string \<Rightarrow> 'z short_state_scheme \<Rightarrow> bool" where
  "shortened url s \<longleftrightarrow> url \<in> snd ` set (short_urls s)"

text \<open>One attempt without faults.\<close>

lemma attempt_known:
  assumes "conn_faults s = []" and "shortened url s"
  shows "\<exists>c. RunInTransactionWithResult short_rollback (short_code_body url) s = (Inr c, s) \<and> (c, url) \<in> set (short_urls s)"
proof -
  from assms(2) obtain c rest where "filter (\<lambda>(i, u). u = url) (short_urls s) = (c, url) # rest"
    unfolding shortened_def by (cases "filter (\<lambda>(i, u). u = url) (short_urls s)") (auto simp: filter_empty_conv filter_eq_Cons_iff image_iff)
  moreover from this have "(c, url) \<in> set (short_urls s)" by (auto simp: filter_eq_Cons_iff)
  ultimately show ?thesis using assms(1)
    by (auto simp: RunInTransactionWithResult_def short_code_body_def get_first_def handleE_def bindE_def getsE_def ret_def)
qed

lemma not_shortened: "\<not> shortened url s \<Longrightarrow> filter (\<lambda>(i, u). u = url) (short_urls s) = []"
  by (force simp: shortened_def filter_empty_conv)

lemmas attempt_defs = RunInTransactionWithResult_def short_code_body_def get_first_def handleE_def bindE_def getsE_def ret_def throw_def
  wrapE_def modifyE_def RandomCodeGenerator_Generate_def insert_short_url_def error_is_def drawn_code_def

lemma attempt_fresh:
  assumes "conn_faults s = []" and "\<not> shortened url s" and "\<not> taken (drawn_code s 0) s"
  shows "RunInTransactionWithResult short_rollback (short_code_body url) s =
    (Inr (drawn_code s 0), s\<lparr>short_urls := short_urls s @ [(drawn_code s 0, url)], conn_uuid_next := Suc (conn_uuid_next s)\<rparr>)"
  using assms not_shortened [OF assms(2)] by (simp add: attempt_defs shortened_def taken_def)

lemma attempt_taken:
  assumes "conn_faults s = []" and "\<not> shortened url s" and "taken (drawn_code s 0) s"
  shows "\<exists>e. RunInTransactionWithResult short_rollback (short_code_body url) s = (Inl e, s\<lparr>conn_uuid_next := Suc (conn_uuid_next s)\<rparr>) \<and>
    isDuplicateError e"
  using assms not_shortened [OF assms(2)]
  by (simp add: attempt_defs shortened_def taken_def short_rollback_def isDuplicateError_def)

text \<open>The loop from any attempt on: a known URL has its code, a fresh code among the remaining draws is taken, and otherwise
  the loop gives up.\<close>

definition attempt_outcome :: "nat \<Rightarrow> string \<Rightarrow> short_state \<Rightarrow> (go_error + string) \<times> short_state \<Rightarrow> bool" where
  "attempt_outcome n url s result \<longleftrightarrow> (case result of
       (Inr c, s') \<Rightarrow> if shortened url s then s' = s \<and> (c, url) \<in> set (short_urls s)
          else (\<exists>k < n. c = drawn_code s k \<and> \<not> taken c s \<and> (\<forall>j < k. taken (drawn_code s j) s) \<and>
            s' = s\<lparr>short_urls := short_urls s @ [(c, url)], conn_uuid_next := conn_uuid_next s + k + 1\<rparr>)
     | (Inl e, s') \<Rightarrow> \<not> shortened url s \<and> (\<forall>k < n. taken (drawn_code s k) s) \<and> s' = s\<lparr>conn_uuid_next := conn_uuid_next s + n\<rparr>)"

lemma outcome_after_taken:
  assumes "taken (drawn_code s 0) s" and "\<not> shortened url s"
    and "attempt_outcome n url (s\<lparr>conn_uuid_next := Suc (conn_uuid_next s)\<rparr>) result"
  shows "attempt_outcome (Suc n) url s result"
proof -
  let ?s = "s\<lparr>conn_uuid_next := Suc (conn_uuid_next s)\<rparr>"
  have later: "drawn_code ?s k = drawn_code s (Suc k)" "taken c ?s \<longleftrightarrow> taken c s" "shortened url ?s \<longleftrightarrow> shortened url s" for k c
    by (simp_all add: drawn_code_def taken_def shortened_def)
  obtain r s' where result: "result = (r, s')" by fastforce
  show ?thesis
  proof (cases r)
    case (Inl e)
    with assms result show ?thesis by (auto simp: attempt_outcome_def later All_less_Suc2)
  next
    case (Inr c)
    with assms result obtain k where "k < n" "c = drawn_code s (Suc k)" "\<not> taken c s" "\<forall>j < k. taken (drawn_code s (Suc j)) s"
      "s' = s\<lparr>short_urls := short_urls s @ [(c, url)], conn_uuid_next := conn_uuid_next s + Suc k + 1\<rparr>"
      by (auto simp: attempt_outcome_def later)
    moreover from this have "\<forall>j < Suc k. taken (drawn_code s j) s" using assms(1) by (simp add: All_less_Suc2)
    ultimately show ?thesis using assms(2) Inr result unfolding attempt_outcome_def
      by (simp del: All_less_Suc) (rule exI [of _ "Suc k"], simp)
  qed
qed

lemma short_code_attempts_outcome:
  assumes "conn_faults s = []" and "a \<le> maxCodeGenerationAttempts" and "a < maxCodeGenerationAttempts \<or> \<not> shortened url s"
  shows "attempt_outcome (maxCodeGenerationAttempts - a) url s (short_code_attempts a url s)"
  using assms
proof (induction a url arbitrary: s rule: short_code_attempts.induct)
  case (1 a url)
  show ?case
  proof (cases "a < maxCodeGenerationAttempts")
    case False
    with 1 show ?thesis by (simp add: short_code_attempts.simps attempt_outcome_def throw_def)
  next
    case less: True
    then obtain n where n: "maxCodeGenerationAttempts - a = Suc n" "maxCodeGenerationAttempts - Suc a = n"
      by (metis Suc_diff_Suc)
    let ?attempt = "RunInTransactionWithResult short_rollback (short_code_body url) s"
    let ?s = "s\<lparr>conn_uuid_next := Suc (conn_uuid_next s)\<rparr>"
    consider "shortened url s" | "\<not> shortened url s" "\<not> taken (drawn_code s 0) s" | "\<not> shortened url s" "taken (drawn_code s 0) s" by blast
    then show ?thesis
    proof cases
      case 1
      with attempt_known [OF "1.prems"(1)] obtain c where "?attempt = (Inr c, s)" "(c, url) \<in> set (short_urls s)" by blast
      with 1 less show ?thesis by (simp add: short_code_attempts.simps [of a] attempt_outcome_def handleE_def ret_def)
    next
      case 2
      with attempt_fresh [OF "1.prems"(1) 2] less n show ?thesis
        by (simp add: short_code_attempts.simps [of a] attempt_outcome_def handleE_def ret_def) (rule exI [of _ 0], simp)
    next
      case 3
      from attempt_taken [OF "1.prems"(1) 3] obtain e where e: "?attempt = (Inl e, ?s)" "isDuplicateError e" by blast
      then have "short_code_attempts a url s = short_code_attempts (Suc a) url ?s"
        using less by (simp add: short_code_attempts.simps [of a] handleE_def)
      moreover have "attempt_outcome n url ?s (short_code_attempts (Suc a) url ?s)"
        using "1.IH" [OF less, of e ?s] e "1.prems" less n 3 by (simp add: shortened_def)
      ultimately show ?thesis using outcome_after_taken [OF 3(2,1)] unfolding n by simp
    qed
  qed
qed

lemma filter_by_key: "distinct (map fst t) \<Longrightarrow> (c, u) \<in> set t \<Longrightarrow> filter (\<lambda>(i, u). i = c) t = [(c, u)]"
  by (induction t) (force simp: filter_empty_conv)+

lemma the_url_of_code:
  assumes "short_urls_ok (short_urls s)" and "conn_faults s = []" and "(c, url) \<in> set (short_urls s)"
  shows "GetOriginalURL c s = (Inr url, s)"
proof -
  from assms(1,3) have "filter (\<lambda>(i, u). i = c) (short_urls s) = [(c, url)]"
    unfolding short_urls_ok_def by (simp add: filter_by_key)
  with assms(2) show ?thesis
    by (simp add: GetOriginalURL_def not_found_or_wrap_def get_first_def handleE_def bindE_def getsE_def ret_def)
qed

section \<open>The property\<close>

text \<open>C29: the loop ends within five attempts. Without faults it answers the code of a URL that has one, or else
  gives it the first of the next five random codes that is not taken, or fails when all five are taken; and a code it answers
  leads to the URL.\<close>

theorem GetOrCreateShortCode_ends:
  assumes "conn_faults s = []" and "short_urls_ok (short_urls s)"
  shows "case GetOrCreateShortCode url s of (r, s') \<Rightarrow>
    attempt_outcome maxCodeGenerationAttempts url s (r, s') \<and> short_urls_ok (short_urls s') \<and>
    (\<forall>c. r = Inr c \<longrightarrow> GetOriginalURL c s' = (Inr url, s'))"
proof -
  obtain r s' where run: "GetOrCreateShortCode url s = (r, s')" by fastforce
  have out: "attempt_outcome maxCodeGenerationAttempts url s (r, s')"
    using short_code_attempts_outcome [OF assms(1), of 0 url] run
    by (simp add: GetOrCreateShortCode_def maxCodeGenerationAttempts_def)
  then have ok: "short_urls_ok (short_urls s')" and "conn_faults s' = []"
    using assms by (auto simp: attempt_outcome_def short_urls_ok_def taken_def shortened_def split: sum.splits if_splits)
  moreover have "(c, url) \<in> set (short_urls s')" if "r = Inr c" for c
    using out that by (auto simp: attempt_outcome_def split: if_splits)
  ultimately show ?thesis using run out by (auto intro: the_url_of_code)
qed

definition short_example :: short_state where
  "short_example = \<lparr>conn_now = 0, conn_faults = [], conn_held = [], conn_uuid = (\<lambda>n. if n < 2 then ''0a1b2c3d'' else ''ffffff00''), conn_uuid_next = 1,
     short_urls = [(''0a1b2c'', ''https://a'')]\<rparr>"

lemma short_example_run: "fst (GetOrCreateShortCode ''https://b'' short_example) = Inr ''ffffff''"
  by code_simp

theorem GetOrCreateShortCode_ends_witness:
  "GetOriginalURL ''ffffff'' (snd (GetOrCreateShortCode ''https://b'' short_example)) =
     (Inr ''https://b'', snd (GetOrCreateShortCode ''https://b'' short_example))"
proof -
  have "conn_faults short_example = []" "short_urls_ok (short_urls short_example)"
    by (simp_all add: short_example_def short_urls_ok_def)
  from GetOrCreateShortCode_ends [OF this, of "''https://b''"] short_example_run show ?thesis
    by (simp add: case_prod_beta)
qed

end
