(* ===== verification/Spec2Isabelle.thy ===== *)
theory Spec2Isabelle
  imports Status_Machines Memo Tx_Store_Props Handler_Props Payment_Props Registration_Props Tenant_Props Upload_Props Attempts Sep45_Props Direct_Props Staff_Props Short_Urls
begin

text \<open>
  Verification of the Stellar Disbursement Platform backend.

  \<^bold>\<open>The program.\<close> An organization (a tenant) uploads a file of instructions for a disbursement, or asks for a single
  payment. The platform turns them into payments to receivers, invites the receivers to register a wallet, and hands the payments
  that are ready to the transaction submission service (TSS). The TSS builds, signs and submits one Stellar transaction for
  each payment through channel accounts and keeps it until the network has decided. A synchronisation brings the outcome back
  to the payments and the disbursements. Receivers and staff are authenticated: wallets by SEP-10 and SEP-45 challenges, receivers by a
  one-time password and a verification value, the staff by a password and a second factor.

  \<^bold>\<open>Reading the model.\<close> A Go function that changes state and returns an error is a program of the type \<open>('s, go_error, 'a) prog\<close> of
  \<open>Prelude\<close>: from a state to an error or a result, and the state after it. The Go structs are records with a field
  prefix, tables are lists of rows in the order in which the database returns them when a query has no ORDER BY, a statement is one atomic step, and
  a Go name that HOL or another part already uses gets its receiver or package as a prefix
  (\<open>TransactionModel_Lock\<close> is \<open>TransactionModel.Lock\<close>, \<open>sep45_CreateChallenge\<close> is \<open>sep45Service.CreateChallenge\<close>).
  A nil dereference of the code is the error \<open>NilDereference\<close>. An error that wraps two others with two \<open>%w\<close> keeps
  the sentinel, the one the callers look for. Amounts are exact rationals; \<open>int32\<close> and \<open>uint32\<close> conversions wrap as in
  Go (\<open>int32\<close>, \<open>uint32\<close> of \<open>Prelude\<close>); times are integers in nanoseconds.

  \<^bold>\<open>Failures and the outside.\<close> Every statement and every commit takes the next entry of the fault schedule \<open>conn_faults\<close> of the state: it
  works, fails before it took effect, or fails after it took effect. The theorems hold for every schedule unless they
  say that it is empty. Calls of the network, of mail, of the CAPTCHA service and of the random source are functions of the number of
  the call, so that each call may answer anything. What is not under \<open>src/\<close> is a record of parameters: \<open>stellar_sdk\<close>
  and \<open>submitter_engine\<close> (the SDK, Horizon, RPC, the signers), \<open>sdp_env\<close> (decimal, bcrypt, phone numbers, the balance of the
  distribution account, the tenant of the request), \<open>http_env\<close> (CSV and HTML), \<open>registration_env\<close>, \<open>direct_env\<close> (the table
  \<open>wallets_assets\<close> and the trustlines), \<open>sep_env\<close> and \<open>staff_env\<close>. No definition stands in for code that cannot be read.

  \<^bold>\<open>Parts.\<close>
  \<^item> \<open>Prelude\<close> (\<open>src/db/db.go\<close>): programs, errors with \<open>errors.Is\<close> and \<open>errors.As\<close>, the connection,
    \<open>RunInTransactionWithResult\<close>, and the locale \<open>state_preorder\<close>, on which every relational interface below is built.
  \<^item> \<open>Status_Machines\<close> (\<open>src/internal/data/statemachine.go\<close> and the four machines): the locale \<open>status_machine\<close> with an
    interpretation for each machine. \<open>Memo\<close>, \<open>Base64\<close>, \<open>Validation\<close>: memos, encodings, the
    regular expressions and validators of fields, with a matcher proved correct against a language.
  \<^item> \<open>Tss_State\<close>, \<open>Tx_Store\<close>, \<open>Channel_Account_Store\<close>, \<open>Bundle_Store\<close>
    (\<open>src/internal/transactionsubmission/store\<close>): the rows, the operations and the locks; \<open>Tx_Store_Props\<close>: constraints,
    histories, exclusion and synchronisation.
  \<^item> \<open>Tx_Errors\<close> (\<open>utils/errors.go\<close>), \<open>Tx_Limiter\<close> (\<open>engine\<close>), \<open>Tx_Handlers\<close> (the three transaction handlers),
    \<open>Tx_Worker\<close> (\<open>transaction_worker.go\<close>, \<open>manager.go\<close>). \<open>Tx_Worker_Spec\<close> states what a worker promises as the inductive
    relation \<open>worker_run\<close> and proves that \<open>Run\<close> refines it; \<open>Tx_Service\<close> is the state machine of the service with its
    invariants, \<open>Tx_Worker_Live\<close> its progress, \<open>Service_Example\<close> a run.
  \<^item> \<open>Sdp_State\<close>, \<open>Payment_Store\<close>, \<open>Disbursement_Store\<close>, \<open>Catalog_Store\<close>, \<open>Receiver_Store\<close>,
    \<open>Receiver_Wallet_Store\<close>, \<open>Instructions\<close> (\<open>src/internal/data\<close>): the tenant's tables and their operations.
  \<^item> \<open>Disbursement_Management\<close>, \<open>Payment_Dispatch\<close>, \<open>Direct_Payments\<close> (\<open>src/internal/services\<close>),
    \<open>Instruction_Validation\<close>, \<open>Disbursement_Handler\<close>, \<open>Registration\<close> (\<open>src/internal/serve\<close>): the services and handlers.
  \<^item> \<open>Platform\<close> joins both databases to a state machine, \<open>Tenant\<close> adds every handler. What all of them keep is proved
    once for each statement in \<open>Sdp_Relation\<close>, \<open>Upload_Relation\<close>, \<open>Tenant_Relation\<close>.
  \<^item> \<open>Sep10\<close>, \<open>Sep45\<close> with \<open>Sep10_Props\<close>, \<open>Sep45_Props\<close>: web authentication of accounts and of contract accounts.
  \<^item> \<open>Staff_Auth\<close>, \<open>Staff_Manager\<close>, \<open>Staff_Handlers\<close> (\<open>src/stellar-auth/pkg/auth\<close> and the handlers and middlewares that use it)
    with \<open>Staff_Rel\<close>, \<open>Staff_Rules\<close>, \<open>Staff_Props\<close>: the staff. \<open>Short_Urls\<close>: short links.

  \<^bold>\<open>Interfaces.\<close> A relation between the states before and after a program is an interpretation of a locale that asks for one law
  for each statement and returns the law for each operation. \<open>db_relation\<close>, \<open>tx_update_relation\<close>, \<open>tx_relation\<close>,
  \<open>tx_store_relation\<close>, \<open>ca_relation\<close>, \<open>bundle_relation\<close>, \<open>store_relation\<close>, \<open>job_relation\<close> are those of the TSS,
  \<open>sdp_relation\<close>, \<open>sdp_guarded\<close>, \<open>upload_relation\<close>, \<open>tenant_relation\<close> those of the tenant, \<open>staff_reader\<close> and \<open>staff_writer\<close>
  those of the staff. Constraints, histories, confirmed successes, attempts, four eyes and spent tokens are instances.
  \<open>lock_table\<close> states what a lock promises and is interpreted by the transactions and by the channel accounts. All are
  interpreted on the model's own definitions.

  \<^bold>\<open>What is proved.\<close> For the TSS: no payment is submitted while an earlier envelope of it may still succeed, what is submitted is
  recorded first, a success is one that Horizon confirmed, a worker refines its specification and makes progress, locks
  exclude, bundles pair distinct resources. For the platform: a successful payment has a
  confirmed transaction of exactly its amount, at most one transaction of a payment does not end in error, completed payments are
  final, histories are runs of the machine, and the constraints of both databases always hold. For disbursements: all-or-nothing start
  and upload, approval by somebody else, coverage of direct payments by the balance. For authentication: which facts a token proves, that a
  challenge, a code and a reset token serve once, how often a password may be guessed. Several theorems state a behaviour that is a defect:
  a paused disbursement that cannot be resumed, a threshold of zero that needs no signature, a deactivated user
  who keeps access.

  \<^bold>\<open>Loops and bounds.\<close> There is no fuel: every loop of the modelled code runs over a list or counts to a constant, and is
  a structural recursion or, for the short codes, a recursion with a measure (at most five attempts). The
  limits of five and fifteen attempts, the lifetimes of tokens and the lengths of passwords are the constants of the code.

  \<^bold>\<open>What the model simplifies.\<close>
  \<^item> The goroutines of a tick run one after the other. Each works on its own bundle, and the bundles are disjoint
    (\<open>LoadAndLockTuples_locks\<close>); what another process does in between is a step of the environment: it moves the clock, changes
    the fault schedule and holds rows. Two handlers do not interleave inside a database transaction.
  \<^item> In the registration the counters are written on the pool while a transaction is open, and the state has both views of the two tables.
  \<^item> \<open>DeleteByContactInfo\<close> runs on test networks only; it is modelled and is not a step of \<open>Tenant\<close>, whose invariants
    a deletion of payments breaks.
  \<^item> Strings are bytes and letter case is ASCII. Rendering of responses, logs, metrics and audits are left out; that the monitor and the crash
    tracker were called is an event of the worker's log.

  \<^bold>\<open>Not modelled.\<close>
  \<^item> Payments over Circle, its reconciliation and transfers, and the bridge integration: clients of services outside \<open>src/\<close>, whose every decision
    depends on the answers of these services.
  \<^item> The administration of tenants and schemas (\<open>src/stellar-multitenant\<close>), the wiring of routes, the commands, the scheduler, and the
    clients for mail, messages and metrics: configuration and input or output.
  \<^item> The signing clients and the creation of channel accounts: key management; the signatures are parameters.
  \<^item> The SEP-24 pages, the invitations, API keys, embedded wallets and the API of sponsored transactions: further clients of the modelled
    stores; the rows that they insert are those that the steps of the machines insert.
  \<^item> Listings, statistics, exports and the settings of an organization: reads and single statements, the latter covered
    by the environment steps that change organizations, assets and wallets.
  \<^item> Fixtures and integration tests.
\<close>

section \<open>Properties of the whole service\<close>

definition submission_recorded :: "Transaction list \<Rightarrow> event \<Rightarrow> bool" where
  "submission_recorded t ev = (case ev of
       EvSubmit i x ans \<Rightarrow> list_ex (\<lambda>r. tx_id r = i \<and> x \<in> he_stellar_transaction_hash ` set (tx_status_history r)) t
     | _ \<Rightarrow> True)"

text \<open>C3: in every reachable state of the service, whatever the database, the network and the other parts
  of the platform did, each envelope that was submitted to Horizon has its hash in the history of its row.\<close>

theorem submissions_are_recorded:
  assumes "reachable eng s"
  shows "list_all (submission_recorded (submitter_transactions s)) (tss_log s)"
  using reachable_ok [OF assms]
  unfolding service_ok_def service_inv_def submissions_recorded_def list_all_iff submission_recorded_def
    list_ex_iff hash_recorded_def by (fastforce split: event.splits)

theorem submissions_are_recorded_witness:
  "submission_recorded (submitter_transactions service_done) (EvSubmit ''u'' service_envelope (None, service_answer))"
  using submissions_are_recorded [OF service_done_reachable] by (simp add: service_done_log(1))

definition submitted_once :: "stellar_sdk \<Rightarrow> event list \<Rightarrow> Transaction \<Rightarrow> bool" where
  "submitted_once sdk L r \<longleftrightarrow>
     (tx_type r \<noteq> TransactionTypeWalletCreation \<longrightarrow>
        never_resubmitted sdk (tx_id r) None L \<and> pending sdk (tx_id r) L \<in> {None, tx_stellar_transaction_hash r})"



definition confirmed_by :: "event list \<Rightarrow> Transaction \<Rightarrow> bool" where
  "confirmed_by L r \<longleftrightarrow>
     (tx_status r = TransactionStatusSuccess \<longrightarrow>
        (case tx_stellar_transaction_hash r of None \<Rightarrow> False | Some x \<Rightarrow> list_ex (confirms (tx_id r) x) L))"

text \<open>C2: a transaction has the status SUCCESS only when Horizon confirmed the very envelope whose hash the
  row holds, as the answer to its submission or when asked for its hash.\<close>

theorem success_is_confirmed_by_horizon:
  assumes "reachable eng s"
  shows "list_all (confirmed_by (tss_log s)) (submitter_transactions s)"
  using reachable_ok [OF assms]
  by (auto simp: service_ok_def service_inv_def list_all_iff row_settled_def confirmed_by_def split: option.splits)

theorem success_is_confirmed_by_horizon_witness:
  "list_ex (confirms ''u'' service_envelope) (tss_log service_done)"
proof -
  obtain r where r: "submitter_transactions service_done = [r]" "tx_id r = ''u''" "tx_status r = TransactionStatusSuccess"
    "tx_stellar_transaction_hash r = Some service_envelope"
    using service_done_log(2) by blast
  then show ?thesis
    using success_is_confirmed_by_horizon [OF service_done_reachable] by (simp add: confirmed_by_def)
qed

text \<open>C6: a tick of the manager keeps the constraints of both tables, changes no row but those that were
  lockable at the ledger it saw, deletes none, and changes nothing when it learned no ledger number.\<close>

theorem tick_touches_only_free_rows:
  assumes "process_tick eng s = (r, s')" and "tss_db_ok s"
  shows "tss_db_ok s' \<and> (case fst (GetLedgerNumber (eng_sdk eng) (Horizon_Root eng) s) of
     Inl e \<Rightarrow> submitter_transactions s' = submitter_transactions s
   | Inr c \<Rightarrow> list_all2 (\<lambda>r r'. row_le r r' \<and> (r' = r \<or> tx_lockable (int32 c) r)) (submitter_transactions s) (submitter_transactions s'))"
  using process_tick_good [OF assms] unfolding tick_good_def tick_frame_def only_free_def [abs_def] by blast

theorem tick_touches_only_free_rows_witness:
  "tss_db_ok service_done \<and> map tx_id (submitter_transactions service_done) = [''u'']"
proof -
  have "tss_db_ok service_inserted"
    using reachable_ok [OF service_inserted_reachable] by (simp add: service_ok_def)
  from tick_touches_only_free_rows [OF service_tick(1) this] show ?thesis
    using service_done_log(2) by auto
qed

text \<open>C5: a run of the worker, every database fault and network answer included, is a run of its
  specification: it touches only its own row, records the hash before it submits, submits at most once,
  asks Horizon instead when a hash was recorded, and writes SUCCESS only on a positive answer.\<close>

theorem Run_implements_specification:
  assumes "Run eng h job s = (r, s')"
    and "hash_is (tx_id (cb_transaction job)) (tx_stellar_transaction_hash (cb_transaction job)) (submitter_transactions s)"
  shows "worker_run (eng_sdk eng) h (tx_id (cb_transaction job))
    (submitter_transactions s, tss_log s) (submitter_transactions s', tss_log s')"
  using Run_refines [OF assms] .

theorem Run_implements_specification_witness:
  "\<exists>s' :: tss_state. worker_run example_sdk PaymentTransactionHandler ''u''
    (submitter_transactions service_loaded, []) (submitter_transactions s', tss_log s')"
proof -
  obtain s' where run: "Run service_engine PaymentTransactionHandler service_job service_loaded = (Inr (), s')"
    by (rule Run_delivers [OF service_loaded_deliverable])
  have job: "cb_transaction service_job = tx_lock_row 20 7 service_row" "tx_id service_row = ''u''"
    "submitter_transactions service_loaded = [tx_lock_row 20 7 service_row]" "tss_log service_loaded = []"
    "eng_sdk service_engine = example_sdk"
    by (simp_all add: service_job_def service_row_def example_defs service_state_defs service_engine_def)
  have "hash_is (tx_id (cb_transaction service_job)) (tx_stellar_transaction_hash (cb_transaction service_job)) (submitter_transactions service_loaded)"
    by (simp add: job hash_is_def)
  from Run_implements_specification [OF run this] show ?thesis unfolding job by (auto simp: job(2))
qed

text \<open>C4: when the database does not fail and Horizon and the signers answer, one run of the worker
  records the envelope of a loaded payment, submits it once, stores the answer, marks the row SUCCESS and
  unlocks the row and the channel account; no other row and no other account changes.\<close>

theorem payments_are_delivered:
  assumes "deliverable eng job fb x xdr resp s"
  shows "\<exists>s'. Run eng PaymentTransactionHandler job s = (Inr (), s') \<and> delivered eng job fb x xdr resp s s'"
  using Run_delivers [OF assms] by blast

theorem payments_are_delivered_witness:
  "\<exists>s'. Run service_engine PaymentTransactionHandler service_job service_loaded = (Inr (), s') \<and>
    list_all (\<lambda>r. tx_status r = TransactionStatusSuccess \<and> tx_locked_until_ledger_number r = None) (submitter_transactions s')"
proof -
  have "submitter_transactions service_loaded = [tx_lock_row 20 7 service_row]" "cb_transaction service_job = tx_lock_row 20 7 service_row"
    by (simp_all add: service_job_def service_state_defs)
  with payments_are_delivered [OF service_loaded_deliverable] show ?thesis
    by (auto simp: delivered_def Let_def put_row_def)
qed

definition paid_and_confirmed :: "string \<Rightarrow> 'z platform_scheme \<Rightarrow> payment_row \<Rightarrow> bool" where
  "paid_and_confirmed tenant s p \<longleftrightarrow> (pm_Status p = SuccessPaymentStatus \<longrightarrow>
     list_ex (\<lambda>r. pays tenant p r \<and> list_ex (confirms (tx_id r) (pm_StellarTransactionID p)) (tss_log s)) (submitter_transactions s))"

text \<open>C7: in every reachable state of the platform, a payment that the tenant sees as successful has a successful
  transaction of the submission service for it, with the hash the payment shows, and Horizon confirmed the envelope
  with that hash; whatever faults, lost commits and interleavings of the two databases happened.\<close>

theorem successful_payments_are_confirmed:
  assumes "tenant_reachable eng he rg tenant s"
  shows "list_all (paid_and_confirmed tenant s) (payments s)"
proof -
  from tenant_reachable_ok [OF assms] have ok: "platform_ok eng (he_sdp he) tenant s" ..
  have "list_ex (confirms (tx_id r) x) (tss_log s)"
    if "r \<in> set (submitter_transactions s)" "tx_status r = TransactionStatusSuccess" "tx_stellar_transaction_hash r = Some x" for r x
    using ok that by (auto simp: platform_ok_def service_ok_def service_inv_def list_all_iff row_settled_def)
  with ok show ?thesis
    by (fastforce simp: platform_ok_def list_all_iff settled_payment_def paid_and_confirmed_def list_ex_iff pays_def)
qed

theorem successful_payments_are_confirmed_witness:
  "pm_Status platform_paid = SuccessPaymentStatus \<and> payments platform_done = [platform_paid] \<and>
   list_ex (\<lambda>r. pays ''tenant'' platform_paid r \<and> list_ex (confirms (tx_id r) service_envelope) (tss_log platform_done)) (submitter_transactions platform_done)"
proof -
  have "pm_Status platform_paid = SuccessPaymentStatus" "pm_StellarTransactionID platform_paid = service_envelope"
    by (simp_all add: platform_paid_def payment_update_defs)
  with successful_payments_are_confirmed [OF platform_done_tenant [OF platform_done_reachable]] show ?thesis
    by (simp add: platform_syncs(2) paid_and_confirmed_def)
qed



end
